(* ===== verification/JS_Prelude.thy ===== *)
theory JS_Prelude
  imports Main "HOL-Library.AList" "HOL-Library.Multiset" "HOL-Library.Char_ord" "HOL-Library.List_Lexorder" "HOL-Library.Sublist"
begin

text \<open>
  The fragment of the JavaScript language and library that the modelled TypeScript uses, and the
  automation the component theories share.

  \<^item> \<open>Map\<close>: an association list, in insertion order. \<open>js_set\<close> replaces the value of a key in
    place and appends a new key at the end, as \<open>Map.prototype.set\<close> does, so that the order
    \<open>[...map.values()]\<close> iterates in is kept; \<open>js_wf\<close> says that no key is stored twice.
  \<^item> strings: lists of characters (code units below 256); \<open>trim\<close> and \<open>toLowerCase\<close>
    are written out for these.
  \<^item> regular expressions: predicates on strings, built from character classes.
  \<^item> numbers: integers; \<open>is_safe_integer\<close> is \<open>Number.isSafeInteger\<close>.
  \<^item> methods: a method of a class is a function of its arguments and the fields, giving the result
    and the new fields. A method that may throw returns \<open>Inl\<close> of the error; the fields it changed
    before it threw stay changed, as in the source.
  \<^item> calls: \<open>run_trace\<close> runs a list of calls on a store and collects each call with its result. The
    stores are single-threaded: a method body without \<open>await\<close> is one atomic step.
\<close>

named_theorems js_map "facts about maps in insertion order"
named_theorems js_str "definitions of string predicates"

section \<open>Maps in insertion order\<close>

type_synonym ('k, 'v) jsmap = "('k \<times> 'v) list"

abbreviation js_get :: "('k, 'v) jsmap \<Rightarrow> 'k \<Rightarrow> 'v option" where
  "js_get m k \<equiv> map_of m k"

definition js_has :: "('k, 'v) jsmap \<Rightarrow> 'k \<Rightarrow> bool" where
  "js_has m k \<longleftrightarrow> map_of m k \<noteq> None"

definition js_set :: "('k, 'v) jsmap \<Rightarrow> 'k \<Rightarrow> 'v \<Rightarrow> ('k, 'v) jsmap" where
  "js_set m k v = AList.update k v m"

definition js_delete :: "('k, 'v) jsmap \<Rightarrow> 'k \<Rightarrow> ('k, 'v) jsmap" where
  "js_delete m k = AList.delete k m"

definition js_values :: "('k, 'v) jsmap \<Rightarrow> 'v list" where
  "js_values m = map snd m"

definition js_update_values :: "('v \<Rightarrow> 'v) \<Rightarrow> ('k, 'v) jsmap \<Rightarrow> ('k, 'v) jsmap" where
  "js_update_values f m = map (\<lambda>(k, v). (k, f v)) m"

definition js_wf :: "('k, 'v) jsmap \<Rightarrow> bool" where
  "js_wf m \<longleftrightarrow> distinct (map fst m)"

lemma js_get_set [simp, js_map]: "js_get (js_set m k v) = (js_get m)(k \<mapsto> v)"
  by (simp add: js_set_def AList.update_conv' fun_eq_iff)

lemma js_set_new: "js_get m k = None \<Longrightarrow> js_set m k v = m @ [(k, v)]"
  unfolding js_set_def by (induction m) (auto split: if_splits)

lemma js_get_delete [simp, js_map]: "js_get (js_delete m k) = (js_get m)(k := None)"
  by (simp add: js_delete_def AList.delete_conv' fun_eq_iff)

lemma js_has_iff [simp, js_map]: "js_has m k \<longleftrightarrow> (\<exists>v. js_get m k = Some v)"
  by (simp add: js_has_def)

lemma js_wf_Nil [simp]: "js_wf []"
  by (simp add: js_wf_def)

lemma js_wf_set [simp, intro]: "js_wf m \<Longrightarrow> js_wf (js_set m k v)"
  by (simp add: js_wf_def js_set_def AList.distinct_update)

lemma js_wf_delete [simp, intro]: "js_wf m \<Longrightarrow> js_wf (js_delete m k)"
  by (simp add: js_wf_def js_delete_def AList.distinct_delete)

lemma js_get_update_values [simp, js_map]:
  "js_get (js_update_values f m) k = map_option f (js_get m k)"
  by (induction m) (auto simp: js_update_values_def)

lemma js_wf_update_values [simp]: "js_wf (js_update_values f m) = js_wf m"
  by (simp add: js_wf_def js_update_values_def case_prod_unfold comp_def)

lemma in_js_values: "js_wf m \<Longrightarrow> v \<in> set (js_values m) \<longleftrightarrow> (\<exists>k. js_get m k = Some v)"
  by (force simp: js_values_def js_wf_def dest: map_of_SomeD intro: map_of_is_SomeI)

lemma js_get_in_values [intro]: "js_get m k = Some v \<Longrightarrow> v \<in> set (js_values m)"
  by (force simp: js_values_def dest: map_of_SomeD)

lemma find_js_values_Some:
  "js_wf m \<Longrightarrow> find P (js_values m) = Some v \<Longrightarrow> P v \<and> (\<exists>k. js_get m k = Some v)"
  by (metis find_Some_iff in_js_values nth_mem)

lemma find_js_values_None:
  "find P (js_values m) = None \<Longrightarrow> js_get m k = Some v \<Longrightarrow> \<not> P v"
  by (auto simp: find_None_iff)

lemma find_SomeD: "find p xs = Some x \<Longrightarrow> x \<in> set xs \<and> p x"
  by (metis find_Some_iff nth_mem)

lemma at_most_one_value:
  assumes "js_wf m" and "\<And>k l r q. js_get m k = Some r \<Longrightarrow> js_get m l = Some q \<Longrightarrow> P r \<Longrightarrow> P q \<Longrightarrow> k = l"
  shows "length (filter P (js_values m)) \<le> 1"
  using assms
proof (induction m)
  case (Cons kv m)
  obtain k v where kv: "kv = (k, v)" by force
  show ?case
  proof (cases "P v")
    case True
    have "\<not> P w" if "w \<in> set (js_values m)" for w
    proof
      assume "P w"
      have wf: "js_wf m" "k \<notin> fst ` set m"
        using Cons.prems(1) by (simp_all add: kv js_wf_def)
      with that have "\<exists>l. js_get m l = Some w" by (simp add: in_js_values)
      then obtain l where l: "js_get m l = Some w" ..
      then have "l \<noteq> k"
        using wf(2) by (force dest: map_of_SomeD)
      with l Cons.prems(2) [of k v l w] True \<open>P w\<close> show False by (simp add: kv)
    qed
    with True show ?thesis by (simp add: js_values_def kv filter_empty_conv)
  next
    case False
    have "length (filter P (js_values m)) \<le> 1"
    proof (rule Cons.IH)
      show "js_wf m" using Cons.prems(1) by (simp add: js_wf_def)
      fix a b r q
      assume "js_get m a = Some r" "js_get m b = Some q" "P r" "P q"
      moreover from calculation Cons.prems(1) have "a \<noteq> k" "b \<noteq> k"
        by (force simp: kv js_wf_def dest: map_of_SomeD)+
      ultimately show "a = b"
        by (intro Cons.prems(2) [of a r b q]) (simp_all add: kv)
    qed
    with False show ?thesis by (simp add: js_values_def kv)
  qed
qed (simp add: js_values_def)

section \<open>Sets\<close>

text \<open>\<open>set.add(x)\<close> on a \<open>Set\<close>, the list of its elements in the order they were added.\<close>

definition set_add :: "'a \<Rightarrow> 'a list \<Rightarrow> 'a list" where
  "set_add x xs = (if x \<in> set xs then xs else xs @ [x])"

lemma set_set_add [simp]: "set (set_add x xs) = insert x (set xs)"
  by (auto simp: set_add_def)

section \<open>Strings and regular expressions\<close>

abbreviation NUL :: char where
  "NUL \<equiv> CHR 0x00"

definition js_space :: "char \<Rightarrow> bool" where
  "js_space c \<longleftrightarrow> of_char c \<in> {9, 10, 11, 12, 13, 32, 160 :: nat}"

definition js_trim :: "string \<Rightarrow> string" where
  "js_trim s = rev (dropWhile js_space (rev (dropWhile js_space s)))"

definition js_lower_char :: "char \<Rightarrow> char" where
  "js_lower_char c = (let n = of_char c :: nat in
     if (65 \<le> n \<and> n \<le> 90) \<or> (192 \<le> n \<and> n \<le> 222 \<and> n \<noteq> 215) then char_of (n + 32) else c)"

definition js_lower :: "string \<Rightarrow> string" where
  "js_lower s = map js_lower_char s"

definition in_range :: "char \<Rightarrow> char \<Rightarrow> char \<Rightarrow> bool" where
  "in_range lo hi c \<longleftrightarrow> (of_char lo :: nat) \<le> of_char c \<and> (of_char c :: nat) \<le> of_char hi"

definition is_digit :: "char \<Rightarrow> bool" where
  "is_digit c \<longleftrightarrow> in_range (CHR ''0'') (CHR ''9'') c"

definition is_lower_hex :: "char \<Rightarrow> bool" where
  "is_lower_hex c \<longleftrightarrow> is_digit c \<or> in_range (CHR ''a'') (CHR ''f'') c"

definition is_hex :: "char \<Rightarrow> bool" where
  "is_hex c \<longleftrightarrow> is_lower_hex c \<or> in_range (CHR ''A'') (CHR ''F'') c"

definition is_alnum :: "char \<Rightarrow> bool" where
  "is_alnum c \<longleftrightarrow> is_digit c \<or> in_range (CHR ''a'') (CHR ''z'') c \<or> in_range (CHR ''A'') (CHR ''Z'') c"

text \<open>A sequence of character classes, and one class repeated between \<open>lo\<close> and \<open>hi\<close> times.\<close>

definition class_seq :: "(char \<Rightarrow> bool) list \<Rightarrow> string \<Rightarrow> bool" where
  "class_seq ps s \<longleftrightarrow> list_all2 (\<lambda>p c. p c) ps s"

definition class_rep :: "(char \<Rightarrow> bool) \<Rightarrow> nat \<Rightarrow> nat \<Rightarrow> string \<Rightarrow> bool" where
  "class_rep p lo hi s \<longleftrightarrow> lo \<le> length s \<and> length s \<le> hi \<and> list_all p s"

text \<open>\<open>/^[0-9a-f]{8}-[0-9a-f]{4}-[1-5][0-9a-f]{3}-[89ab][0-9a-f]{3}-[0-9a-f]{12}$/i\<close>\<close>

definition uuid_pattern :: "string \<Rightarrow> bool" where
  "uuid_pattern = class_seq
     (replicate 8 is_hex @ [(=) (CHR ''-'')] @ replicate 4 is_hex @ [(=) (CHR ''-'')] @
      [in_range (CHR ''1'') (CHR ''5'')] @ replicate 3 is_hex @ [(=) (CHR ''-'')] @
      [(\<lambda>c. c \<in> set ''89abAB'')] @ replicate 3 is_hex @ [(=) (CHR ''-'')] @ replicate 12 is_hex)"

definition git_sha1 :: "string \<Rightarrow> bool" where
  "git_sha1 = class_rep is_lower_hex 40 40"

lemmas js_string_defs [js_str] =
  class_seq_def class_rep_def uuid_pattern_def git_sha1_def is_hex_def is_lower_hex_def
  is_digit_def is_alnum_def in_range_def js_space_def js_trim_def js_lower_def js_lower_char_def

lemma uuid_pattern_length: "uuid_pattern s \<Longrightarrow> length s = 36"
  by (auto simp: uuid_pattern_def class_seq_def dest: list_all2_lengthD)

lemma hex_not_NUL [simp]: "\<not> is_hex NUL"
  by (simp add: js_str)

lemma class_seq_Cons [simp]: "class_seq (p # ps) (c # s) \<longleftrightarrow> p c \<and> class_seq ps s"
  by (simp add: class_seq_def)

lemma class_seq_Nil [simp]: "class_seq [] s \<longleftrightarrow> s = []" "class_seq (p # ps) [] = False"
  by (simp_all add: class_seq_def)

lemma class_seq_no_char:
  "class_seq ps s \<Longrightarrow> list_all (\<lambda>p. \<not> p x) ps \<Longrightarrow> x \<notin> set s"
  unfolding class_seq_def by (induction rule: list_all2_induct) auto

lemma uuid_no_NUL: "uuid_pattern s \<Longrightarrow> NUL \<notin> set s"
  unfolding uuid_pattern_def
  by (erule class_seq_no_char) (simp add: list_all_iff in_range_def)

text \<open>Two identifiers joined by a NUL, as the stores build their keys.\<close>

definition nul_key :: "string \<Rightarrow> string \<Rightarrow> string" where
  "nul_key a b = a @ NUL # b"

lemma append_sep_inj:
  "c \<notin> set a \<Longrightarrow> c \<notin> set a' \<Longrightarrow> a @ c # b = a' @ c # b' \<longleftrightarrow> a = a' \<and> b = b'"
proof (induction a arbitrary: a')
  case Nil
  then show ?case by (cases a') auto
next
  case (Cons x a)
  then show ?case by (cases a') auto
qed

lemma nul_key_inj:
  "NUL \<notin> set a \<Longrightarrow> NUL \<notin> set a' \<Longrightarrow> nul_key a b = nul_key a' b' \<longleftrightarrow> a = a' \<and> b = b'"
  by (simp add: nul_key_def append_sep_inj)

lemma nul_key_same [simp]: "nul_key a b = nul_key a b' \<longleftrightarrow> b = b'"
  by (simp add: nul_key_def)

section \<open>Numbers\<close>

definition max_safe_integer :: int where
  "max_safe_integer = 9007199254740991"

definition is_safe_integer :: "int \<Rightarrow> bool" where
  "is_safe_integer n \<longleftrightarrow> - max_safe_integer \<le> n \<and> n \<le> max_safe_integer"

text \<open>\<open>array.slice(0, n)\<close> for a count that is not negative.\<close>

definition js_take :: "int \<Rightarrow> 'a list \<Rightarrow> 'a list" where
  "js_take n xs = take (nat n) xs"

text \<open>\<open>Number\<close> comparisons where either side may be \<open>NaN\<close> (\<open>None\<close>): they are false.\<close>

fun js_le :: "int option \<Rightarrow> int option \<Rightarrow> bool" where
  "js_le (Some a) (Some b) = (a \<le> b)"
| "js_le _ _ = False"

fun js_lt :: "int option \<Rightarrow> int option \<Rightarrow> bool" where
  "js_lt (Some a) (Some b) = (a < b)"
| "js_lt _ _ = False"

section \<open>Sorting with a comparator\<close>

text \<open>
  \<open>Array.prototype.sort\<close> with a comparator is stable, so for a consistent comparator its
  result is the one insertion sort computes.
\<close>

fun js_insert :: "('a \<Rightarrow> 'a \<Rightarrow> int) \<Rightarrow> 'a \<Rightarrow> 'a list \<Rightarrow> 'a list" where
  "js_insert cmp x [] = [x]"
| "js_insert cmp x (y # ys) = (if cmp x y \<le> 0 then x # y # ys else y # js_insert cmp x ys)"

definition js_sort :: "('a \<Rightarrow> 'a \<Rightarrow> int) \<Rightarrow> 'a list \<Rightarrow> 'a list" where
  "js_sort cmp xs = foldr (js_insert cmp) xs []"

lemma mset_js_insert [simp]: "mset (js_insert cmp x ys) = add_mset x (mset ys)"
  by (induction ys) auto

lemma mset_js_sort [simp]: "mset (js_sort cmp xs) = mset xs"
  by (induction xs) (auto simp: js_sort_def)

lemma set_js_sort [simp]: "set (js_sort cmp xs) = set xs"
  by (metis mset_js_sort set_mset_mset)

lemma length_js_sort [simp]: "length (js_sort cmp xs) = length xs"
  by (metis mset_js_sort size_mset)

section \<open>Truthiness\<close>

text \<open>An optional string is truthy when it is present and not empty.\<close>

fun truthy :: "string option \<Rightarrow> bool" where
  "truthy None = False"
| "truthy (Some s) = (s \<noteq> [])"

section \<open>Runs of method calls\<close>

primrec run_trace :: "('op \<Rightarrow> 's \<Rightarrow> 'r \<times> 's) \<Rightarrow> 'op list \<Rightarrow> 's \<Rightarrow> ('op \<times> 'r) list \<times> 's" where
  "run_trace step [] s = ([], s)"
| "run_trace step (op # ops) s =
     (case step op s of (r, s') \<Rightarrow>
        (case run_trace step ops s' of (rs, s'') \<Rightarrow> ((op, r) # rs, s'')))"

definition run_state :: "('op \<Rightarrow> 's \<Rightarrow> 'r \<times> 's) \<Rightarrow> 'op list \<Rightarrow> 's \<Rightarrow> 's" where
  "run_state step ops s = snd (run_trace step ops s)"

definition run_results :: "('op \<Rightarrow> 's \<Rightarrow> 'r \<times> 's) \<Rightarrow> 'op list \<Rightarrow> 's \<Rightarrow> ('op \<times> 'r) list" where
  "run_results step ops s = fst (run_trace step ops s)"

lemma run_state_simps [simp]:
  "run_state step [] s = s"
  "run_state step (op # ops) s = run_state step ops (snd (step op s))"
  by (simp_all add: run_state_def split: prod.splits)

lemma run_results_simps [simp]:
  "run_results step [] s = []"
  "run_results step (op # ops) s =
     (op, fst (step op s)) # run_results step ops (snd (step op s))"
  by (simp_all add: run_results_def split: prod.splits)

lemma run_state_append:
  "run_state step (xs @ ys) s = run_state step ys (run_state step xs s)"
  by (induction xs arbitrary: s) auto

end
