(* ===== verification/Contracts.thy ===== *)
theory Contracts
  imports JS_Prelude
begin

text \<open>
  The contracts the stores of the control plane share, as locales over a step function (one method
  call on a store, giving its result and the new store). Each component interprets the contracts it
  keeps on its own definitions.

  \<^item> \<open>invariant_store\<close>: a predicate every call keeps holds after every run of calls.
  \<^item> \<open>guarded_store\<close>: the same for the calls that satisfy a guard.
  \<^item> \<open>durable_store\<close>: a fact about a key that no call takes back holds for good.
  \<^item> \<open>grant_once\<close>: a grant marks its key as taken, taken keys stay taken, and a taken
    key is never granted, so a run grants each key at most once.
  \<^item> \<open>versioned_store\<close>: optimistic concurrency. An update carries the version it expects; it is
    applied only to exactly that version, which it increases. A run applies at most one update
    per key and expected version (no lost update); this is an instance of \<open>grant_once\<close>.
  \<^item> \<open>simulation\<close>: a store refines an abstract one: related states answer every call alike and stay
    related, so every run gives the results the abstract store gives.
\<close>

locale invariant_store =
  fixes step :: "'op \<Rightarrow> 's \<Rightarrow> 'r \<times> 's"
    and inv :: "'s \<Rightarrow> bool"
  assumes step_inv: "inv s \<Longrightarrow> inv (snd (step op s))"
begin

lemma run_inv: "inv s \<Longrightarrow> inv (run_state step ops s)"
  by (induction ops arbitrary: s) (auto intro: step_inv)

end

locale guarded_store =
  fixes step :: "'op \<Rightarrow> 's \<Rightarrow> 'r \<times> 's"
    and inv :: "'s \<Rightarrow> bool"
    and ok :: "'op \<Rightarrow> bool"
  assumes guarded_step_inv: "ok op \<Longrightarrow> inv s \<Longrightarrow> inv (snd (step op s))"
begin

lemma guarded_run_inv: "list_all ok ops \<Longrightarrow> inv s \<Longrightarrow> inv (run_state step ops s)"
  by (induction ops arbitrary: s) (auto intro: guarded_step_inv)

end

sublocale invariant_store \<subseteq> always: guarded_store step inv "\<lambda>_. True"
  by unfold_locales (simp add: step_inv)

locale durable_store = invariant_store step inv
  for step :: "'op \<Rightarrow> 's \<Rightarrow> 'r \<times> 's" and inv :: "'s \<Rightarrow> bool" +
  fixes settled :: "'k \<Rightarrow> 's \<Rightarrow> bool"
  assumes settled_stays: "inv s \<Longrightarrow> settled k s \<Longrightarrow> settled k (snd (step op s))"
begin

lemma run_settled: "inv s \<Longrightarrow> settled k s \<Longrightarrow> settled k (run_state step ops s)"
  by (induction ops arbitrary: s) (auto intro: step_inv settled_stays)

end

locale grant_once = invariant_store step inv
  for step :: "'op \<Rightarrow> 's \<Rightarrow> 'r \<times> 's" and inv :: "'s \<Rightarrow> bool" +
  fixes grants :: "'k \<Rightarrow> 'op \<Rightarrow> 'r \<Rightarrow> bool"
    and taken :: "'k \<Rightarrow> 's \<Rightarrow> bool"
  assumes grant_takes:
      "inv s \<Longrightarrow> grants k op (fst (step op s)) \<Longrightarrow> \<not> taken k s \<and> taken k (snd (step op s))"
    and taken_stays: "inv s \<Longrightarrow> taken k s \<Longrightarrow> taken k (snd (step op s))"
begin

lemma taken_no_grant:
  "inv s \<Longrightarrow> taken k s \<Longrightarrow> filter (\<lambda>(op, r). grants k op r) (run_results step ops s) = []"
proof (induction ops arbitrary: s)
  case (Cons op ops)
  from Cons.prems have "\<not> grants k op (fst (step op s))"
    using grant_takes by blast
  moreover from Cons.prems have "inv (snd (step op s))" "taken k (snd (step op s))"
    by (auto intro: step_inv taken_stays)
  ultimately show ?case
    using Cons.IH by simp
qed simp

lemma at_most_one_grant:
  "inv s \<Longrightarrow> length (filter (\<lambda>(op, r). grants k op r) (run_results step ops s)) \<le> 1"
proof (induction ops arbitrary: s)
  case (Cons op ops)
  from Cons.prems have inv': "inv (snd (step op s))"
    by (rule step_inv)
  show ?case
  proof (cases "grants k op (fst (step op s))")
    case True
    with Cons.prems have "taken k (snd (step op s))"
      using grant_takes by blast
    with inv' show ?thesis
      by (simp add: True taken_no_grant)
  next
    case False
    with Cons.IH [OF inv'] show ?thesis by simp
  qed
qed simp

end

locale versioned_store = invariant_store step inv
  for step :: "'op \<Rightarrow> 's \<Rightarrow> 'r \<times> 's" and inv :: "'s \<Rightarrow> bool" +
  fixes version_of :: "'k \<Rightarrow> 's \<Rightarrow> int option"
    and applied :: "'k \<Rightarrow> int \<Rightarrow> 'op \<Rightarrow> 'r \<Rightarrow> bool"
  assumes applied_version:
      "inv s \<Longrightarrow> applied k n op (fst (step op s)) \<Longrightarrow>
         version_of k s = Some n \<and> version_of k (snd (step op s)) = Some (n + 1)"
    and version_mono:
      "inv s \<Longrightarrow> version_of k s = Some v \<Longrightarrow>
         \<exists>v'. version_of k (snd (step op s)) = Some v' \<and> v \<le> v'"
begin

lemma run_version_mono:
  "inv s \<Longrightarrow> version_of k s = Some v \<Longrightarrow>
     \<exists>v'. version_of k (run_state step ops s) = Some v' \<and> v \<le> v'"
proof (induction ops arbitrary: s v)
  case (Cons op ops)
  then obtain w where "version_of k (snd (step op s)) = Some w" "v \<le> w"
    using version_mono by blast
  with Cons.IH [OF step_inv [OF Cons.prems(1)] this(1)] show ?case by fastforce
qed simp

end

sublocale versioned_store \<subseteq> once: grant_once step inv
  "\<lambda>(k, n). applied k n" "\<lambda>(k, n) s. \<exists>v. version_of k s = Some v \<and> n < v"
proof (unfold_locales, goal_cases)
  case (1 s kn op)
  then show ?case using applied_version by (cases kn) fastforce
next
  case (2 s kn op)
  then show ?case using version_mono by (cases kn) fastforce
qed

context versioned_store begin

lemma no_lost_update:
  "inv s \<Longrightarrow> length (filter (\<lambda>(op, r). applied k n op r) (run_results step ops s)) \<le> 1"
  using once.at_most_one_grant [of s "(k, n)" ops] by simp

end

locale simulation =
  fixes step :: "'op \<Rightarrow> 's \<Rightarrow> 'r \<times> 's"
    and spec :: "'op \<Rightarrow> 'a \<Rightarrow> 'r \<times> 'a"
    and rel :: "'s \<Rightarrow> 'a \<Rightarrow> bool"
  assumes step_result: "rel s a \<Longrightarrow> fst (step op s) = fst (spec op a)"
    and step_rel: "rel s a \<Longrightarrow> rel (snd (step op s)) (snd (spec op a))"
begin

lemma run_refines:
  "rel s a \<Longrightarrow> run_results step ops s = run_results spec ops a \<and>
     rel (run_state step ops s) (run_state spec ops a)"
proof (induction ops arbitrary: s a)
  case (Cons op ops)
  from Cons.IH [OF step_rel [OF Cons.prems, of op]] step_result [OF Cons.prems, of op]
  show ?case by simp
qed simp

end

end
