(* ===== verification/JS_Json.thy ===== *)
theory JS_Json
  imports JS_Prelude
begin

text \<open>
  \<open>JSON.stringify\<close> and the \<open>stableJson\<close> helper of the operation stores, on the values they
  are applied to (strings, booleans, \<open>null\<close>, arrays, objects, and as the only number 1, the version
  of the interface). The main fact is that
  the printed text determines the value: every printed value is self-delimiting, so two values with
  the same text are equal, up to the order of object entries for the sorted form.
\<close>

datatype json = JNull | JBool bool | JOne | JStr string | JArr "json list" | JObj "(string \<times> json) list"

section \<open>Strings\<close>

abbreviation quote_char :: char where
  "quote_char \<equiv> CHR 0x22"

abbreviation backslash_char :: char where
  "backslash_char \<equiv> CHR 0x5C"

definition hex_digit :: "nat \<Rightarrow> char" where
  "hex_digit n = (if n < 10 then char_of (48 + n) else char_of (87 + n))"

definition json_escape :: "char \<Rightarrow> string" where
  "json_escape c = (let n = of_char c :: nat in
     if c = quote_char then [backslash_char, quote_char]
     else if c = backslash_char then [backslash_char, backslash_char]
     else if n = 8 then [backslash_char, CHR ''b'']
     else if n = 9 then [backslash_char, CHR ''t'']
     else if n = 10 then [backslash_char, CHR ''n'']
     else if n = 12 then [backslash_char, CHR ''f'']
     else if n = 13 then [backslash_char, CHR ''r'']
     else if n < 32 then backslash_char # ''u00'' @ [hex_digit (n div 16), hex_digit (n mod 16)]
     else [c])"

definition json_string :: "string \<Rightarrow> string" where
  "json_string s = quote_char # concat (map json_escape s) @ [quote_char]"

text \<open>The inverse of one escape, used in proofs only.\<close>

definition unhex :: "char \<Rightarrow> nat" where
  "unhex c = (if is_digit c then of_char c - 48 else of_char c - 87)"

fun json_unescape :: "string \<Rightarrow> (char \<times> string) option" where
  "json_unescape [] = None"
| "json_unescape (c # s) =
    (if c = quote_char then None
     else if c \<noteq> backslash_char then Some (c, s)
     else (case s of
         [] \<Rightarrow> None
       | d # r \<Rightarrow>
          (if d = CHR ''b'' then Some (char_of (8 :: nat), r)
           else if d = CHR ''t'' then Some (char_of (9 :: nat), r)
           else if d = CHR ''n'' then Some (char_of (10 :: nat), r)
           else if d = CHR ''f'' then Some (char_of (12 :: nat), r)
           else if d = CHR ''r'' then Some (char_of (13 :: nat), r)
           else if d = CHR ''u'' then
             (case r of z0 # z1 # h # l # q \<Rightarrow> Some (char_of (16 * unhex h + unhex l), q) | _ \<Rightarrow> None)
           else Some (d, r))))"

lemma unhex_hex_digit: "n < 16 \<Longrightarrow> unhex (hex_digit n) = n"
  by (auto simp: unhex_def hex_digit_def is_digit_def in_range_def of_char_of)

lemma json_unescape_escape [simp]: "json_unescape (json_escape c @ r) = Some (c, r)"
proof -
  define n where "n = (of_char c :: nat)"
  then have c: "c = char_of n" by simp
  have "n < 256" by (simp add: n_def)
  then have hex: "16 * unhex (hex_digit (n div 16)) + unhex (hex_digit (n mod 16)) = n"
    by (simp add: unhex_hex_digit)
  have same: "char_of m = c" if "n = m" for m
    using that c by simp
  show ?thesis
    using hex by (auto simp: json_escape_def n_def [symmetric] Let_def intro: same)
qed

lemma json_unescape_quote [simp]: "json_unescape (quote_char # r) = None"
  by simp

declare json_unescape.simps [simp del]

lemma json_escape_prefix:
  "concat (map json_escape s) @ quote_char # r = concat (map json_escape s') @ quote_char # r'
   \<Longrightarrow> s = s' \<and> r = r'"
proof (induction s arbitrary: s')
  case Nil
  show ?case
  proof (cases s')
    case (Cons c t)
    with Nil have "json_unescape (quote_char # r) =
        json_unescape (json_escape c @ concat (map json_escape t) @ quote_char # r')"
      by simp
    then show ?thesis by simp
  qed (use Nil in simp)
next
  case (Cons c t)
  show ?case
  proof (cases s')
    case Nil
    with Cons.prems have "json_unescape (quote_char # r') =
        json_unescape (json_escape c @ concat (map json_escape t) @ quote_char # r)"
      by simp
    then show ?thesis by simp
  next
    case (Cons c' t')
    with Cons.prems have eq: "json_escape c @ concat (map json_escape t) @ quote_char # r =
        json_escape c' @ concat (map json_escape t') @ quote_char # r'"
      by simp
    then have "json_unescape (json_escape c @ concat (map json_escape t) @ quote_char # r) =
        json_unescape (json_escape c' @ concat (map json_escape t') @ quote_char # r')"
      by (rule arg_cong)
    then have "c = c'" and
      "concat (map json_escape t) @ quote_char # r = concat (map json_escape t') @ quote_char # r'"
      by (simp_all only: json_unescape_escape option.inject prod.inject)
    with Cons.IH Cons show ?thesis by blast
  qed
qed

lemma json_string_prefix: "json_string s @ r = json_string s' @ r' \<longleftrightarrow> s = s' \<and> r = r'"
  using json_escape_prefix [of s r s' r'] by (auto simp: json_string_def)

lemma json_string_inj [simp]: "json_string s = json_string s' \<longleftrightarrow> s = s'"
  using json_string_prefix [of s "[]" s' "[]"] by simp

section \<open>Values\<close>

fun commas :: "string list \<Rightarrow> string" where
  "commas [] = []"
| "commas [x] = x"
| "commas (x # y # zs) = x @ '','' @ commas (y # zs)"

fun json_print :: "json \<Rightarrow> string" where
  "json_print JNull = ''null''"
| "json_print (JBool b) = (if b then ''true'' else ''false'')"
| "json_print JOne = ''1''"
| "json_print (JStr s) = json_string s"
| "json_print (JArr vs) = ''['' @ commas (map json_print vs) @ '']''"
| "json_print (JObj kvs) =
     ''{'' @ commas (map (\<lambda>(k, v). json_string k @ '':'' @ json_print v) kvs) @ ''}''"

text \<open>
  \<open>localeCompare\<close> on the property names sorted here (ASCII letters, no two of them equal up to
  case): the order of the letters without regard to case.
\<close>

definition locale_key :: "string \<Rightarrow> string" where
  "locale_key = js_lower"

fun stable_json :: "json \<Rightarrow> string" where
  "stable_json (JArr vs) = ''['' @ commas (map stable_json vs) @ '']''"
| "stable_json (JObj kvs) =
     ''{'' @ commas (map (\<lambda>(k, v). json_string k @ '':'' @ stable_json v)
       (sort_key (\<lambda>(k, v). locale_key k) kvs)) @ ''}''"
| "stable_json v = json_print v"

fun json_norm :: "json \<Rightarrow> json" where
  "json_norm (JArr vs) = JArr (map json_norm vs)"
| "json_norm (JObj kvs) =
     JObj (map (\<lambda>(k, v). (k, json_norm v)) (sort_key (\<lambda>(k, v). locale_key k) kvs))"
| "json_norm v = v"

lemma stable_json_norm: "stable_json v = json_print (json_norm v)"
proof (induction v rule: stable_json.induct)
  case (1 vs)
  then show ?case by (auto intro!: arg_cong [where f = commas])
next
  case (2 kvs)
  then show ?case by (fastforce intro!: arg_cong [where f = commas])
qed auto

section \<open>The text determines the value\<close>

lemma commas_Cons: "commas (x # xs) = x @ (if xs = [] then [] else '','' @ commas xs)"
  by (cases xs) auto

lemma commas_prefix:
  assumes items: "\<And>x y r s. x \<in> set xs \<Longrightarrow> f x @ r = f y @ s \<Longrightarrow> x = y \<and> r = s"
    and start: "\<And>x. \<exists>c t. f x = c # t \<and> c \<noteq> close"
    and close: "close \<noteq> CHR '',''"
    and eq: "commas (map f xs) @ close # r = commas (map f ys) @ close # s"
  shows "xs = ys \<and> r = s"
  using items eq
proof (induction xs arbitrary: ys)
  case Nil
  show ?case
  proof (cases ys)
    case (Cons y ys')
    from start [of y] Nil Cons show ?thesis by (auto simp: commas_Cons split: if_splits)
  qed (use Nil in simp)
next
  case (Cons x xs)
  show ?case
  proof (cases ys)
    case Nil
    from start [of x] Cons.prems Nil show ?thesis by (auto simp: commas_Cons split: if_splits)
  next
    case (Cons y ys')
    let ?rest = "\<lambda>zs q. (if zs = [] then [] else '','' @ commas (map f zs)) @ close # q"
    from Cons.prems(2) Cons have "f x @ ?rest xs r = f y @ ?rest ys' s"
      by (simp add: commas_Cons)
    with Cons.prems(1) have xy: "x = y" and rest: "?rest xs r = ?rest ys' s"
      by (meson list.set_intros(1))+
    from rest close have "commas (map f xs) @ close # r = commas (map f ys') @ close # s"
      by (auto split: if_splits)
    with Cons.IH Cons.prems(1) have "xs = ys' \<and> r = s"
      by (meson list.set_intros(2))
    with xy Cons show ?thesis by simp
  qed
qed

lemma json_print_start:
  "\<exists>c t. json_print v = c # t \<and> c \<noteq> CHR '']''"
  by (cases v) (auto simp: json_string_def)

lemma json_print_prefix: "json_print v @ r = json_print w @ s \<Longrightarrow> v = w \<and> r = s"
proof (induction v arbitrary: w r s)
  case JNull
  then show ?case by (cases w) (auto simp: json_string_def split: if_splits)
next
  case (JBool b)
  then show ?case by (cases w) (auto simp: json_string_def split: if_splits)
next
  case JOne
  then show ?case by (cases w) (auto simp: json_string_def split: if_splits)
next
  case (JStr x)
  then show ?case
  proof (cases w)
    case (JStr y)
    with JStr.prems show ?thesis by (simp add: json_string_prefix)
  qed (auto simp: json_string_def split: if_splits)
next
  case (JArr vs)
  then show ?case
  proof (cases w)
    case (JArr ws)
    with JArr.prems have
      "commas (map json_print vs) @ CHR '']'' # r = commas (map json_print ws) @ CHR '']'' # s"
      by simp
    from commas_prefix [OF JArr.IH json_print_start _ this] JArr show ?thesis by simp
  qed (auto simp: json_string_def split: if_splits)
next
  case (JObj kvs)
  let ?f = "\<lambda>(k, v). json_string k @ '':'' @ json_print v"
  have items: "x = y \<and> p = q" if x: "x \<in> set kvs" and eq: "?f x @ p = ?f y @ q" for x y p q
  proof -
    obtain k u l w' where xy: "x = (k, u)" "y = (l, w')"
      by (cases x, cases y)
    from eq have "k = l" "json_print u @ p = json_print w' @ q"
      by (simp_all add: xy json_string_prefix)
    moreover from JObj.IH [OF x, of u] xy
    have "\<And>w r s. json_print u @ r = json_print w @ s \<Longrightarrow> u = w \<and> r = s" by simp
    ultimately show ?thesis by (simp add: xy)
  qed
  have start: "\<exists>c t. ?f x = c # t \<and> c \<noteq> CHR ''}''" for x
    by (cases x) (simp add: json_string_def)
  show ?case
  proof (cases w)
    case (JObj kws)
    with JObj.prems have "commas (map ?f kvs) @ CHR ''}'' # r = commas (map ?f kws) @ CHR ''}'' # s"
      by simp
    from commas_prefix [OF items start _ this] JObj show ?thesis by simp
  qed (use JObj.prems in \<open>auto simp: json_string_def split: if_splits\<close>)
qed

lemma json_print_inj [simp]: "json_print v = json_print w \<longleftrightarrow> v = w"
  using json_print_prefix [of v "[]" w "[]"] by auto

lemma stable_json_eq_iff: "stable_json v = stable_json w \<longleftrightarrow> json_norm v = json_norm w"
  by (simp add: stable_json_norm)

text \<open>An object read back by property name: sorting its entries does not change what is read.\<close>

fun json_field :: "json \<Rightarrow> string \<Rightarrow> json option" where
  "json_field (JObj kvs) k = map_of kvs k"
| "json_field _ k = None"

lemma map_of_sort_key:
  "distinct (map fst kvs) \<Longrightarrow> map_of (sort_key f kvs) = map_of kvs"
  by (rule map_of_inject_set [THEN iffD2]) (auto simp: distinct_map)

lemma json_field_norm:
  assumes "v = JObj kvs" and "distinct (map fst kvs)"
  shows "json_field (json_norm v) k = map_option json_norm (json_field v k)"
  using assms
  by (simp add: map_of_map map_of_sort_key)

end
