(* ===== verification/CanonicalTypes.thy ===== *)
theory CanonicalTypes
  imports JS_Json
begin

text \<open>
  The data of the canonical Runtime control API: operations, safe inputs, outputs and results
  (\<open>src/shared/canonical-runtime-control-api.ts\<close>), operation identities and operation records
  (\<open>server/canonical-runtime-control/operation-store-contracts.ts\<close>). The identity of an operation
  is compared through its \<open>stableJson\<close> text; \<open>same_identity_json\<close> shows that this is equality.
\<close>

section \<open>Operations, inputs and outputs\<close>

datatype canonical_operation =
    GitStatus | GitDiff | GitStage | GitUnstage | GitCommit | WorktreeList | TaskStart
  | DevServerInspect | DevServerStart | DevServerPublish | DevServerStop

fun operation_name :: "canonical_operation \<Rightarrow> string" where
  "operation_name GitStatus = ''git.status''"
| "operation_name GitDiff = ''git.diff''"
| "operation_name GitStage = ''git.stage''"
| "operation_name GitUnstage = ''git.unstage''"
| "operation_name GitCommit = ''git.commit''"
| "operation_name WorktreeList = ''worktree.list''"
| "operation_name TaskStart = ''task.start''"
| "operation_name DevServerInspect = ''dev-server.inspect''"
| "operation_name DevServerStart = ''dev-server.start''"
| "operation_name DevServerPublish = ''dev-server.publish''"
| "operation_name DevServerStop = ''dev-server.stop''"

datatype access_mode = ReadMode | MutationMode

fun access_mode_name :: "access_mode \<Rightarrow> string" where
  "access_mode_name ReadMode = ''read''"
| "access_mode_name MutationMode = ''mutation''"

definition read_operations :: "canonical_operation list" where
  "read_operations = [GitStatus, GitDiff, WorktreeList, DevServerInspect]"

definition mutation_operations :: "canonical_operation list" where
  "mutation_operations =
     [GitStage, GitUnstage, GitCommit, TaskStart, DevServerStart, DevServerPublish, DevServerStop]"

definition canonicalRuntimeControlAccessMode :: "canonical_operation \<Rightarrow> access_mode" where
  "canonicalRuntimeControlAccessMode op =
     (if op \<in> set read_operations then ReadMode else MutationMode)"

text \<open>The \<open>scope\<close> of stage and unstage has the single value \<open>all\<close> and is left implicit.\<close>

datatype safe_input =
    GitStatusInput
  | GitDiffInput (staged: bool)
  | GitStageInput (expectedHead: string)
  | GitUnstageInput (expectedHead: string)
  | GitCommitInput (expectedHead: string) (message: string)
  | WorktreeListInput
  | TaskStartInput (taskExecutionId: string) (workspaceLeaseId: string)
  | DevServerInspectInput
  | DevServerStartInput (serverId: string)
  | DevServerPublishInput (expectedServerGeneration: string) (serverId: string)
  | DevServerStopInput (expectedServerGeneration: string) (serverId: string)

fun input_operation :: "safe_input \<Rightarrow> canonical_operation" where
  "input_operation GitStatusInput = GitStatus"
| "input_operation (GitDiffInput _) = GitDiff"
| "input_operation (GitStageInput _) = GitStage"
| "input_operation (GitUnstageInput _) = GitUnstage"
| "input_operation (GitCommitInput _ _) = GitCommit"
| "input_operation WorktreeListInput = WorktreeList"
| "input_operation (TaskStartInput _ _) = TaskStart"
| "input_operation DevServerInspectInput = DevServerInspect"
| "input_operation (DevServerStartInput _) = DevServerStart"
| "input_operation (DevServerPublishInput _ _) = DevServerPublish"
| "input_operation (DevServerStopInput _ _) = DevServerStop"

fun safe_input_json :: "safe_input \<Rightarrow> json" where
  "safe_input_json (GitDiffInput b) =
     JObj [(''operation'', JStr ''git.diff''), (''staged'', JBool b)]"
| "safe_input_json (GitStageInput h) =
     JObj [(''expectedHead'', JStr h), (''operation'', JStr ''git.stage''), (''scope'', JStr ''all'')]"
| "safe_input_json (GitUnstageInput h) =
     JObj [(''expectedHead'', JStr h), (''operation'', JStr ''git.unstage''), (''scope'', JStr ''all'')]"
| "safe_input_json (GitCommitInput h m) =
     JObj [(''expectedHead'', JStr h), (''message'', JStr m), (''operation'', JStr ''git.commit'')]"
| "safe_input_json (TaskStartInput t w) =
     JObj [(''operation'', JStr ''task.start''), (''taskExecutionId'', JStr t),
       (''workspaceLeaseId'', JStr w)]"
| "safe_input_json (DevServerStartInput i) =
     JObj [(''operation'', JStr ''dev-server.start''), (''serverId'', JStr i)]"
| "safe_input_json (DevServerPublishInput g i) =
     JObj [(''expectedServerGeneration'', JStr g), (''operation'', JStr ''dev-server.publish''),
       (''serverId'', JStr i)]"
| "safe_input_json (DevServerStopInput g i) =
     JObj [(''expectedServerGeneration'', JStr g), (''operation'', JStr ''dev-server.stop''),
       (''serverId'', JStr i)]"
| "safe_input_json input = JObj [(''operation'', JStr (operation_name (input_operation input)))]"

record git_status_output =
  gs_clean :: bool
  gs_conflicted :: int
  gs_staged :: int
  gs_truncated :: bool
  gs_unstaged :: int
  gs_untracked :: int

record git_mutation_output = git_status_output +
  gm_changed :: bool
  gm_head :: string

record git_diff_output =
  gd_addedLines :: int
  gd_binaryFiles :: int
  gd_changedFiles :: int
  gd_deletedLines :: int
  gd_staged :: bool
  gd_truncated :: bool

record worktree_list_output =
  wl_current :: int
  wl_detached :: int
  wl_locked :: int
  wl_prunable :: int
  wl_total :: int
  wl_truncated :: bool

record dev_server_inspect_output =
  di_failed :: int
  di_ready :: int
  di_starting :: int
  di_stopped :: int
  di_total :: int

datatype dev_server_state = ServerPublished | ServerReady | ServerStopped

record dev_server_mutation_output =
  dm_serverGeneration :: string
  dm_serverId :: string
  dm_state :: dev_server_state

datatype canonical_output =
    GitStatusOutput git_status_output
  | GitDiffOutput git_diff_output
  | GitMutationOutput git_mutation_output
  | GitCommitOutput (commit: string) (parent: string)
  | WorktreeListOutput worktree_list_output
  | TaskStartOutput (startedTaskExecutionId: string)
  | DevServerInspectOutput dev_server_inspect_output
  | DevServerMutationOutput dev_server_mutation_output

section \<open>Operation identities and records\<close>

datatype actor_kind = AgentActor | HumanActor | OrchestratorActor | SystemActor

fun actor_kind_name :: "actor_kind \<Rightarrow> string" where
  "actor_kind_name AgentActor = ''agent''"
| "actor_kind_name HumanActor = ''human''"
| "actor_kind_name OrchestratorActor = ''orchestrator''"
| "actor_kind_name SystemActor = ''system''"

record operation_identity =
  actorId :: string
  actorKind :: actor_kind
  actorUserId :: string
  accessMode :: access_mode
  compatibilityAlias :: bool
  environmentId :: string
  generation :: string
  operation :: canonical_operation
  operationId :: string
  ownerUserId :: string
  safeInput :: safe_input
  sessionId :: string
  targetIdentityRevision :: string
  workspaceId :: string

definition identity_json :: "operation_identity \<Rightarrow> json" where
  "identity_json i = JObj
     [(''actorId'', JStr (actorId i)),
      (''actorKind'', JStr (actor_kind_name (actorKind i))),
      (''actorUserId'', JStr (actorUserId i)),
      (''accessMode'', JStr (access_mode_name (accessMode i))),
      (''compatibilityAlias'', JBool (compatibilityAlias i)),
      (''environmentId'', JStr (environmentId i)),
      (''generation'', JStr (generation i)),
      (''operation'', JStr (operation_name (operation i))),
      (''operationId'', JStr (operationId i)),
      (''ownerUserId'', JStr (ownerUserId i)),
      (''safeInput'', safe_input_json (safeInput i)),
      (''sessionId'', JStr (sessionId i)),
      (''targetIdentityRevision'', JStr (targetIdentityRevision i)),
      (''workspaceId'', JStr (workspaceId i))]"

definition same_identity :: "operation_identity \<Rightarrow> operation_identity \<Rightarrow> bool" where
  "same_identity a b \<longleftrightarrow> stable_json (identity_json a) = stable_json (identity_json b)"

datatype operation_state =
  BlockedDependency | Reserved | Dispatching | Completed | Failed | Uncertain

datatype failure_code =
    AuthorizationDenied | BlockedDependencyCode | DispatchOutcomeUnknown | InvalidRequest
  | RuntimeFailed | RuntimeStopping | TargetChanged | TargetUnavailable | Unavailable

text \<open>
  A result binds the operation it answers. Its \<open>state\<close> is one of \<open>completed\<close>,
  \<open>blocked_dependency\<close>, \<open>failed\<close>, \<open>uncertain\<close>; \<open>output\<close> is present for \<open>completed\<close>.
\<close>

datatype result_state = ResultBlocked | ResultCompleted | ResultFailed | ResultUncertain

fun result_operation_state :: "result_state \<Rightarrow> operation_state" where
  "result_operation_state ResultBlocked = BlockedDependency"
| "result_operation_state ResultCompleted = Completed"
| "result_operation_state ResultFailed = Failed"
| "result_operation_state ResultUncertain = Uncertain"

record operation_result =
  res_apiVersion :: int
  res_compatibilityAlias :: bool
  res_environmentId :: string
  res_generation :: string
  res_operation :: canonical_operation
  res_operationId :: string
  res_output :: "canonical_output option"
  res_replayed :: bool
  res_state :: result_state
  res_targetIdentityRevision :: string
  res_workspaceId :: string

record command_correlation =
  commandId :: string
  commandSequence :: int

record operation_record =
  acceptedCommandSequence :: "int option"
  acceptedEventSequence :: "int option"
  command :: "command_correlation option"
  completedAt :: "string option"
  failureCode :: "failure_code option"
  fingerprint :: string
  identity :: operation_identity
  result :: "operation_result option"
  resultEventSequence :: "int option"
  state :: operation_state

section \<open>Comparing identities by their text is equality\<close>

lemma operation_name_inj [simp]: "operation_name a = operation_name b \<longleftrightarrow> a = b"
  by (cases a; cases b) simp_all

lemma actor_kind_name_inj [simp]: "actor_kind_name a = actor_kind_name b \<longleftrightarrow> a = b"
  by (cases a; cases b) simp_all

lemma access_mode_name_inj [simp]: "access_mode_name a = access_mode_name b \<longleftrightarrow> a = b"
  by (cases a; cases b) simp_all

lemma safe_input_json_fields:
  "\<exists>kvs. safe_input_json i = JObj kvs \<and> distinct (map fst kvs)
     \<and> map_of kvs ''operation'' = Some (JStr (operation_name (input_operation i)))
     \<and> (\<forall>(k, v) \<in> set kvs. json_norm v = v)"
  by (cases i) simp_all

lemma safe_input_norm_field:
  "json_field (json_norm (safe_input_json i)) k = json_field (safe_input_json i) k"
proof -
  obtain kvs where kvs: "safe_input_json i = JObj kvs" "distinct (map fst kvs)"
    "\<forall>(k, v) \<in> set kvs. json_norm v = v"
    using safe_input_json_fields [of i] by blast
  have "map_option json_norm (map_of kvs k) = map_of kvs k"
    using kvs(3) by (cases "map_of kvs k") (auto dest: map_of_SomeD)
  with json_field_norm [OF kvs(1,2), of k] kvs(1) show ?thesis by simp
qed

lemma safe_input_norm_inj:
  assumes "json_norm (safe_input_json i) = json_norm (safe_input_json j)"
  shows "i = j"
proof -
  have fields: "json_field (safe_input_json i) k = json_field (safe_input_json j) k" for k
    using assms safe_input_norm_field by metis
  have ops: "input_operation i = input_operation j"
    using fields [of "''operation''"] safe_input_json_fields [of i] safe_input_json_fields [of j]
    by auto
  show ?thesis
    by (cases i; cases j; insert ops; simp;
        insert fields [of "''staged''"] fields [of "''expectedHead''"] fields [of "''message''"]
          fields [of "''taskExecutionId''"] fields [of "''workspaceLeaseId''"]
          fields [of "''serverId''"] fields [of "''expectedServerGeneration''"]; simp)
qed

lemma identity_norm_field:
  "json_field (json_norm (identity_json i)) k = map_option json_norm (json_field (identity_json i) k)"
  by (rule json_field_norm [OF identity_json_def]) simp

lemma same_identity_json [simp]: "same_identity a b \<longleftrightarrow> a = b"
proof
  assume "same_identity a b"
  then have norm: "json_norm (identity_json a) = json_norm (identity_json b)"
    by (simp add: same_identity_def stable_json_eq_iff)
  have fields: "map_option json_norm (json_field (identity_json a) k) =
      map_option json_norm (json_field (identity_json b) k)" for k
    by (simp add: identity_norm_field [symmetric] norm)
  have "actorId a = actorId b" using fields [of "''actorId''"] by (simp add: identity_json_def)
  moreover have "actorKind a = actorKind b" using fields [of "''actorKind''"] by (simp add: identity_json_def)
  moreover have "actorUserId a = actorUserId b" using fields [of "''actorUserId''"] by (simp add: identity_json_def)
  moreover have "accessMode a = accessMode b" using fields [of "''accessMode''"] by (simp add: identity_json_def)
  moreover have "compatibilityAlias a = compatibilityAlias b"
    using fields [of "''compatibilityAlias''"] by (simp add: identity_json_def)
  moreover have "environmentId a = environmentId b" using fields [of "''environmentId''"] by (simp add: identity_json_def)
  moreover have "generation a = generation b" using fields [of "''generation''"] by (simp add: identity_json_def)
  moreover have "operation a = operation b" using fields [of "''operation''"] by (simp add: identity_json_def)
  moreover have "operationId a = operationId b" using fields [of "''operationId''"] by (simp add: identity_json_def)
  moreover have "ownerUserId a = ownerUserId b" using fields [of "''ownerUserId''"] by (simp add: identity_json_def)
  moreover have "safeInput a = safeInput b"
    using fields [of "''safeInput''"] by (simp add: identity_json_def safe_input_norm_inj)
  moreover have "sessionId a = sessionId b" using fields [of "''sessionId''"] by (simp add: identity_json_def)
  moreover have "targetIdentityRevision a = targetIdentityRevision b"
    using fields [of "''targetIdentityRevision''"] by (simp add: identity_json_def)
  moreover have "workspaceId a = workspaceId b" using fields [of "''workspaceId''"] by (simp add: identity_json_def)
  ultimately show "a = b" by (intro operation_identity.equality) simp_all
qed (simp add: same_identity_def)

end
