(* ===== verification/CanonicalStore.thy ===== *)
theory CanonicalStore
  imports Contracts CanonicalTypes
begin

text \<open>
  The in-memory operation store of the canonical Runtime control
  (\<open>server/canonical-runtime-control/memory-operation-store.ts\<close>): reservations, dispatch, event
  watermarks and terminal results of operations, keyed by owner and operation id.

  The methods follow the source line by line. A thrown \<open>changed()\<close> is \<open>Inl Changed\<close>; a watermark
  entry created before the throw stays in the store, as in the source. \<open>step\<close> is one method call;
  the invariant \<open>store_inv\<close> holds after every run of calls, and the contracts \<open>grant_once\<close> (one
  reservation and one dispatch per operation) and \<open>durable_store\<close> (terminal records never change)
  are interpreted on it.
\<close>

section \<open>State and methods\<close>

record watermark =
  wm_commandSequence :: int
  wm_eventSequence :: int

record store =
  records :: "(string, operation_record) jsmap"
  generationWatermarks :: "(string, watermark) jsmap"

definition empty_store :: store where
  "empty_store = \<lparr>records = [], generationWatermarks = []\<rparr>"

datatype store_error = Changed | CommandMissing

definition recordKey :: "string \<Rightarrow> string \<Rightarrow> string" where
  "recordKey owner opId = nul_key owner opId"

definition watermarkKey :: "string \<Rightarrow> string \<Rightarrow> string \<Rightarrow> string" where
  "watermarkKey owner workspace gen = owner @ NUL # workspace @ NUL # gen"

definition identity_key :: "operation_identity \<Rightarrow> string" where
  "identity_key i = recordKey (ownerUserId i) (operationId i)"

definition scope_key :: "operation_identity \<Rightarrow> string" where
  "scope_key i = watermarkKey (ownerUserId i) (workspaceId i) (generation i)"

definition exact :: "string \<Rightarrow> operation_identity \<Rightarrow> store \<Rightarrow> store_error + operation_record" where
  "exact fp ident s =
     (case js_get (records s) (identity_key ident) of
        None \<Rightarrow> Inl Changed
      | Some current \<Rightarrow>
          if fingerprint current \<noteq> fp \<or> \<not> same_identity (identity current) ident
          then Inl Changed else Inr current)"

definition watermark_of :: "string \<Rightarrow> store \<Rightarrow> watermark \<times> store" where
  "watermark_of key s =
     (case js_get (generationWatermarks s) key of
        Some current \<Rightarrow> (current, s)
      | None \<Rightarrow>
          let current = \<lparr>wm_commandSequence = 0, wm_eventSequence = 0\<rparr>
          in (current, s\<lparr>generationWatermarks := js_set (generationWatermarks s) key current\<rparr>))"

definition set_watermark :: "string \<Rightarrow> watermark \<Rightarrow> store \<Rightarrow> store" where
  "set_watermark key w s = s\<lparr>generationWatermarks := js_set (generationWatermarks s) key w\<rparr>"

definition advance :: "operation_identity \<Rightarrow> int \<Rightarrow> store \<Rightarrow> (store_error + unit) \<times> store" where
  "advance ident eventSequence s =
     (let (w, s1) = watermark_of (scope_key ident) s
      in if eventSequence \<noteq> wm_eventSequence w + 1 then (Inl Changed, s1)
         else (Inr (), set_watermark (scope_key ident) (w\<lparr>wm_eventSequence := eventSequence\<rparr>) s1))"

definition save :: "operation_record \<Rightarrow> store \<Rightarrow> store" where
  "save r s = s\<lparr>records := js_set (records s) (identity_key (identity r)) r\<rparr>"

record reservation_input =
  ri_fingerprint :: string
  ri_identity :: operation_identity
  ri_reservedAt :: string
  ri_reservedUntil :: string

datatype reservation_result =
  Conflict | InProgress | New operation_record | Replayed operation_record

definition fences :: "operation_identity \<Rightarrow> operation_record \<Rightarrow> bool" where
  "fences ident candidate \<longleftrightarrow>
     ownerUserId (identity candidate) = ownerUserId ident \<and>
     workspaceId (identity candidate) = workspaceId ident \<and>
     generation (identity candidate) = generation ident \<and>
     accessMode (identity candidate) = MutationMode \<and>
     state candidate \<in> {Reserved, Dispatching, Uncertain}"

definition new_record :: "string \<Rightarrow> operation_identity \<Rightarrow> operation_record" where
  "new_record fp ident =
     \<lparr>acceptedCommandSequence = None, acceptedEventSequence = None, command = None,
      completedAt = None, failureCode = None, fingerprint = fp, identity = ident,
      result = None, resultEventSequence = None, state = Reserved\<rparr>"

definition reserve :: "reservation_input \<Rightarrow> store \<Rightarrow> reservation_result \<times> store" where
  "reserve input s =
     (case js_get (records s) (identity_key (ri_identity input)) of
        Some r \<Rightarrow>
          if fingerprint r \<noteq> ri_fingerprint input \<or>
             \<not> same_identity (identity r\<lparr>sessionId := ''''\<rparr>) (ri_identity input\<lparr>sessionId := ''''\<rparr>)
          then (Conflict, s)
          else if state r = Completed \<or> state r = Failed \<or> state r = BlockedDependency
          then (Replayed r, s)
          else if sessionId (identity r) \<noteq> sessionId (ri_identity input) then (Conflict, s)
          else if state r = Reserved \<or> state r = Dispatching then (InProgress, s)
          else (Replayed r, s)
      | None \<Rightarrow>
          if accessMode (ri_identity input) = MutationMode \<and>
             list_ex (fences (ri_identity input)) (js_values (records s))
          then (InProgress, s)
          else let created = new_record (ri_fingerprint input) (ri_identity input)
               in (New created, save created s))"

record dispatch_input =
  dp_commandId :: string
  dp_dispatchedAt :: string
  dp_dispatchedUntil :: string
  dp_fingerprint :: string
  dp_identity :: operation_identity

definition markDispatchAttempted ::
    "dispatch_input \<Rightarrow> store \<Rightarrow> (store_error + operation_record) \<times> store" where
  "markDispatchAttempted input s =
     (case exact (dp_fingerprint input) (dp_identity input) s of
        Inl e \<Rightarrow> (Inl e, s)
      | Inr current \<Rightarrow>
          if state current \<noteq> Reserved then (Inl Changed, s)
          else
            let key = scope_key (dp_identity input);
                (w, s1) = watermark_of key s;
                w' = w\<lparr>wm_commandSequence := wm_commandSequence w + 1\<rparr>;
                updated = current\<lparr>
                  command := Some \<lparr>commandId = dp_commandId input,
                                   commandSequence = wm_commandSequence w'\<rparr>,
                  state := Dispatching\<rparr>
            in (Inr updated, save updated (set_watermark key w' s1)))"

record accept_input =
  ac_acceptedAt :: string
  ac_acceptedCommandSequence :: int
  ac_command :: command_correlation
  ac_eventSequence :: int
  ac_fingerprint :: string
  ac_identity :: operation_identity

definition accept :: "accept_input \<Rightarrow> store \<Rightarrow> (store_error + operation_record) \<times> store" where
  "accept input s =
     (case exact (ac_fingerprint input) (ac_identity input) s of
        Inl e \<Rightarrow> (Inl e, s)
      | Inr current \<Rightarrow>
          if acceptedEventSequence current \<noteq> None then (Inr current, s)
          else if (state current \<noteq> Dispatching \<and> state current \<noteq> Uncertain) \<or>
                  ac_acceptedCommandSequence input \<noteq> commandSequence (ac_command input)
          then (Inl Changed, s)
          else (case advance (ac_identity input) (ac_eventSequence input) s of
                  (Inl e, s1) \<Rightarrow> (Inl e, s1)
                | (Inr _, s1) \<Rightarrow>
                    let updated = current\<lparr>
                          acceptedCommandSequence := Some (ac_acceptedCommandSequence input),
                          acceptedEventSequence := Some (ac_eventSequence input)\<rparr>
                    in (Inr updated, save updated s1)))"

record terminal_input =
  tm_command :: command_correlation
  tm_completedAt :: string
  tm_failureCode :: "failure_code option"
  tm_fingerprint :: string
  tm_identity :: operation_identity
  tm_result :: operation_result
  tm_resultEventSequence :: int

definition finish ::
    "operation_record \<Rightarrow> terminal_input \<Rightarrow> store \<Rightarrow> (store_error + operation_record) \<times> store" where
  "finish current input s =
     (case advance (tm_identity input) (tm_resultEventSequence input) s of
        (Inl e, s1) \<Rightarrow> (Inl e, s1)
      | (Inr _, s1) \<Rightarrow>
          let updated = current\<lparr>
                completedAt := Some (tm_completedAt input),
                failureCode := (case tm_failureCode input of
                    None \<Rightarrow> failureCode current | Some code \<Rightarrow> Some code),
                result := Some (tm_result input),
                resultEventSequence := Some (tm_resultEventSequence input),
                state := result_operation_state (res_state (tm_result input))\<rparr>
          in (Inr updated, save updated s1))"

definition complete :: "terminal_input \<Rightarrow> store \<Rightarrow> (store_error + operation_record) \<times> store" where
  "complete input s =
     (case exact (tm_fingerprint input) (tm_identity input) s of
        Inl e \<Rightarrow> (Inl e, s)
      | Inr current \<Rightarrow>
          if state current \<noteq> Dispatching then (Inl Changed, s) else finish current input s)"

definition reconcile :: "terminal_input \<Rightarrow> store \<Rightarrow> (store_error + operation_record) \<times> store" where
  "reconcile input s =
     (case exact (tm_fingerprint input) (tm_identity input) s of
        Inl e \<Rightarrow> (Inl e, s)
      | Inr current \<Rightarrow>
          if state current \<noteq> Uncertain then (Inl Changed, s) else finish current input s)"

record predispatch_failure_input =
  pf_completedAt :: string
  pf_failureCode :: failure_code
  pf_fingerprint :: string
  pf_identity :: operation_identity
  pf_result :: operation_result

definition failReserved ::
    "predispatch_failure_input \<Rightarrow> store \<Rightarrow> (store_error + operation_record) \<times> store" where
  "failReserved input s =
     (case exact (pf_fingerprint input) (pf_identity input) s of
        Inl e \<Rightarrow> (Inl e, s)
      | Inr current \<Rightarrow>
          if state current \<noteq> Reserved then (Inl Changed, s)
          else
            let updated = current\<lparr>
                  completedAt := Some (pf_completedAt input),
                  failureCode := Some (pf_failureCode input),
                  result := Some (pf_result input),
                  state := Failed\<rparr>
            in (Inr updated, save updated s))"

record uncertain_input =
  un_command :: command_correlation
  un_completedAt :: string
  un_fingerprint :: string
  un_identity :: operation_identity
  un_resultEventSequence :: "int option"

text \<open>\<open>advance\<close> for an optional sequence: nothing happens when it is absent.\<close>

definition advance_optional ::
    "operation_identity \<Rightarrow> int option \<Rightarrow> store \<Rightarrow> (store_error + unit) \<times> store" where
  "advance_optional ident seq s =
     (case seq of None \<Rightarrow> (Inr (), s) | Some n \<Rightarrow> advance ident n s)"

definition markUncertain ::
    "uncertain_input \<Rightarrow> store \<Rightarrow> (store_error + operation_record) \<times> store" where
  "markUncertain input s =
     (case exact (un_fingerprint input) (un_identity input) s of
        Inl e \<Rightarrow> (Inl e, s)
      | Inr current \<Rightarrow>
          if state current = Uncertain then
            (case un_resultEventSequence input of
               None \<Rightarrow> (Inr current, s)
             | Some n \<Rightarrow>
                 if resultEventSequence current = Some n then (Inr current, s)
                 else if resultEventSequence current \<noteq> None then (Inl Changed, s)
                 else (case advance (un_identity input) n s of
                         (Inl e, s1) \<Rightarrow> (Inl e, s1)
                       | (Inr _, s1) \<Rightarrow>
                           let updated = current\<lparr>resultEventSequence := Some n\<rparr>
                           in (Inr updated, save updated s1)))
          else if state current \<noteq> Dispatching then (Inl Changed, s)
          else (case advance_optional (un_identity input) (un_resultEventSequence input) s of
                  (Inl e, s1) \<Rightarrow> (Inl e, s1)
                | (Inr _, s1) \<Rightarrow>
                    let updated = current\<lparr>
                          completedAt := Some (un_completedAt input),
                          failureCode := Some DispatchOutcomeUnknown,
                          resultEventSequence := (case un_resultEventSequence input of
                              None \<Rightarrow> resultEventSequence current | Some n \<Rightarrow> Some n),
                          state := Uncertain\<rparr>
                    in (Inr updated, save updated s1)))"

definition read :: "string \<Rightarrow> string \<Rightarrow> store \<Rightarrow> operation_record option" where
  "read owner opId s = js_get (records s) (recordKey owner opId)"

record rebind_input =
  rb_command :: command_correlation
  rb_fingerprint :: string
  rb_identity :: operation_identity
  rb_sessionId :: string

definition rebindSession ::
    "rebind_input \<Rightarrow> store \<Rightarrow> (store_error + operation_record) \<times> store" where
  "rebindSession input s =
     (case exact (rb_fingerprint input) (rb_identity input) s of
        Inl e \<Rightarrow> (Inl e, s)
      | Inr current \<Rightarrow>
          (case command current of
             None \<Rightarrow> (Inl Changed, s)
           | Some c \<Rightarrow>
               if commandId c \<noteq> commandId (rb_command input) \<or>
                  commandSequence c \<noteq> commandSequence (rb_command input) \<or>
                  (state current \<noteq> Dispatching \<and> state current \<noteq> Uncertain)
               then (Inl Changed, s)
               else
                 let updated = current\<lparr>
                       identity := identity current\<lparr>sessionId := rb_sessionId input\<rparr>\<rparr>
                 in (Inr updated, save updated s)))"

text \<open>
  \<open>unresolved\<close> sorts by \<open>left.command!.commandSequence\<close>: with two or more records the comparator
  reads the command of each of them, and an absent one is a \<open>TypeError\<close>.
\<close>

definition command_sequence :: "operation_record \<Rightarrow> int" where
  "command_sequence r = (case command r of Some c \<Rightarrow> commandSequence c | None \<Rightarrow> 0)"

definition unresolved ::
    "string \<Rightarrow> string \<Rightarrow> string \<Rightarrow> store \<Rightarrow> store_error + operation_record list" where
  "unresolved owner workspace gen s =
     (let found = filter (\<lambda>r.
            ownerUserId (identity r) = owner \<and> workspaceId (identity r) = workspace \<and>
            generation (identity r) = gen \<and>
            (state r = Dispatching \<or> state r = Uncertain)) (js_values (records s))
      in if 1 < length found \<and> list_ex (\<lambda>r. command r = None) found then Inl CommandMissing
         else Inr (sort_key command_sequence found))"

definition watermarks :: "string \<Rightarrow> string \<Rightarrow> string \<Rightarrow> store \<Rightarrow> watermark \<times> store" where
  "watermarks owner workspace gen s = watermark_of (watermarkKey owner workspace gen) s"

section \<open>Calls\<close>

datatype call =
    CReserve reservation_input
  | CDispatch dispatch_input
  | CAccept accept_input
  | CComplete terminal_input
  | CReconcile terminal_input
  | CFailReserved predispatch_failure_input
  | CMarkUncertain uncertain_input
  | CRebind rebind_input
  | CWatermarks string string string

datatype answer =
    AReservation reservation_result
  | ARecord "store_error + operation_record"
  | AWatermark watermark

fun step :: "call \<Rightarrow> store \<Rightarrow> answer \<times> store" where
  "step (CReserve i) s = map_prod AReservation id (reserve i s)"
| "step (CDispatch i) s = map_prod ARecord id (markDispatchAttempted i s)"
| "step (CAccept i) s = map_prod ARecord id (accept i s)"
| "step (CComplete i) s = map_prod ARecord id (complete i s)"
| "step (CReconcile i) s = map_prod ARecord id (reconcile i s)"
| "step (CFailReserved i) s = map_prod ARecord id (failReserved i s)"
| "step (CMarkUncertain i) s = map_prod ARecord id (markUncertain i s)"
| "step (CRebind i) s = map_prod ARecord id (rebindSession i s)"
| "step (CWatermarks owner workspace gen) s =
     map_prod AWatermark id (watermarks owner workspace gen s)"

section \<open>What a call changes\<close>

definition terminal :: "operation_record \<Rightarrow> bool" where
  "terminal r \<longleftrightarrow> state r \<in> {Completed, Failed, BlockedDependency}"

definition active :: "operation_record \<Rightarrow> bool" where
  "active r \<longleftrightarrow> state r \<in> {Reserved, Dispatching, Uncertain}"

lemma active_iff_not_terminal: "active r \<longleftrightarrow> \<not> terminal r"
  by (cases "state r") (auto simp: active_def terminal_def)

text \<open>The life of an operation: the moves the methods make.\<close>

inductive lifecycle :: "operation_state \<Rightarrow> operation_state \<Rightarrow> bool" where
  dispatch: "lifecycle Reserved Dispatching"
| predispatch_failure: "lifecycle Reserved Failed"
| stay_dispatching: "lifecycle Dispatching Dispatching"
| stay_uncertain: "lifecycle Uncertain Uncertain"
| lose: "lifecycle Dispatching Uncertain"
| finish_dispatched: "t \<in> {Completed, Failed, BlockedDependency} \<Longrightarrow> lifecycle Dispatching t"
| finish_uncertain: "t \<in> {Completed, Failed, BlockedDependency} \<Longrightarrow> lifecycle Uncertain t"

inductive_simps lifecycle_from [simp]:
  "lifecycle Reserved t" "lifecycle Dispatching t" "lifecycle Uncertain t"
  "lifecycle Completed t" "lifecycle Failed t" "lifecycle BlockedDependency t"

definition cmd_seq :: "store \<Rightarrow> string \<Rightarrow> int" where
  "cmd_seq s key = (case js_get (generationWatermarks s) key of
     Some w \<Rightarrow> wm_commandSequence w | None \<Rightarrow> 0)"

definition ev_seq :: "store \<Rightarrow> string \<Rightarrow> int" where
  "ev_seq s key = (case js_get (generationWatermarks s) key of
     Some w \<Rightarrow> wm_eventSequence w | None \<Rightarrow> 0)"

text \<open>Event watermarks move by at most one, in one scope; command watermarks stay.\<close>

definition events_move :: "store \<Rightarrow> store \<Rightarrow> bool" where
  "events_move s s' \<longleftrightarrow> cmd_seq s' = cmd_seq s \<and>
     (ev_seq s' = ev_seq s \<or> (\<exists>k. ev_seq s' = (ev_seq s)(k := ev_seq s k + 1)))"

definition same_operation :: "operation_identity \<Rightarrow> operation_identity \<Rightarrow> bool" where
  "same_operation i j \<longleftrightarrow> i\<lparr>sessionId := ''''\<rparr> = j\<lparr>sessionId := ''''\<rparr>"

definition evolves :: "operation_record \<Rightarrow> operation_record \<Rightarrow> bool" where
  "evolves r u \<longleftrightarrow> fingerprint u = fingerprint r \<and> same_operation (identity u) (identity r) \<and>
     command u = command r \<and> lifecycle (state r) (state u) \<and>
     (state r = Reserved \<longrightarrow> state u = Failed) \<and> (terminal u \<longrightarrow> result u \<noteq> None)"

inductive change :: "store \<Rightarrow> store \<Rightarrow> bool" where
  unchanged: "records s' = records s \<Longrightarrow> events_move s s' \<Longrightarrow> change s s'"
| created: "js_get (records s) (identity_key i) = None \<Longrightarrow>
     (accessMode i = MutationMode \<Longrightarrow> \<not> list_ex (fences i) (js_values (records s))) \<Longrightarrow>
     change s (save (new_record fp i) s)"
| dispatched: "js_get (records s) (identity_key (identity r)) = Some r \<Longrightarrow> state r = Reserved \<Longrightarrow>
     n = cmd_seq s (scope_key (identity r)) + 1 \<Longrightarrow>
     u = r\<lparr>command := Some \<lparr>commandId = cid, commandSequence = n\<rparr>, state := Dispatching\<rparr> \<Longrightarrow>
     records s' = js_set (records s) (identity_key (identity r)) u \<Longrightarrow>
     cmd_seq s' = (cmd_seq s)(scope_key (identity r) := n) \<Longrightarrow> ev_seq s' = ev_seq s \<Longrightarrow>
     change s s'"
| updated: "js_get (records s) (identity_key (identity r)) = Some r \<Longrightarrow> evolves r u \<Longrightarrow>
     records s' = js_set (records s) (identity_key (identity r)) u \<Longrightarrow> events_move s s' \<Longrightarrow>
     change s s'"

text \<open>A change that neither reserves an operation nor gives one a command.\<close>

inductive quiet :: "store \<Rightarrow> store \<Rightarrow> bool" where
  unchanged: "records s' = records s \<Longrightarrow> events_move s s' \<Longrightarrow> quiet s s'"
| updated: "js_get (records s) (identity_key (identity r)) = Some r \<Longrightarrow> evolves r u \<Longrightarrow>
     records s' = js_set (records s) (identity_key (identity r)) u \<Longrightarrow> events_move s s' \<Longrightarrow>
     quiet s s'"

lemma quiet_change: "quiet s s' \<Longrightarrow> change s s'"
  by (induction rule: quiet.induct) (auto intro: change.unchanged change.updated)

lemma exact_cases:
  assumes "\<And>e. P (Inl e, s)"
    and "\<And>r. js_get (records s) (identity_key (identity r)) = Some r \<Longrightarrow> fingerprint r = fp \<Longrightarrow>
      identity r = i \<Longrightarrow> P (body r)"
  shows "P (case exact fp i s of Inl e \<Rightarrow> (Inl e, s) | Inr r \<Rightarrow> body r)"
  using assms by (auto simp: exact_def split: option.splits)

lemma events_move_refl [simp]: "events_move s s"
  by (simp add: events_move_def)

lemma seq_save [simp]: "cmd_seq (save r s) = cmd_seq s" "ev_seq (save r s) = ev_seq s"
  by (simp_all add: save_def cmd_seq_def ev_seq_def fun_eq_iff)

lemma records_save [simp]:
  "records (save r s) = js_set (records s) (identity_key (identity r)) r"
  by (simp add: save_def)

lemma events_move_save [simp]: "events_move s (save r t) = events_move s t"
  by (simp add: events_move_def)

lemma watermark_of_seq:
  assumes "watermark_of key s = (w, s1)"
  shows "records s1 = records s" "cmd_seq s1 = cmd_seq s" "ev_seq s1 = ev_seq s"
    "wm_commandSequence w = cmd_seq s key" "wm_eventSequence w = ev_seq s key"
  using assms
  by (auto simp: watermark_of_def cmd_seq_def ev_seq_def fun_eq_iff Let_def
      split: option.splits if_splits)

lemma watermark_of_move: "watermark_of key s = (w, s1) \<Longrightarrow> events_move s s1"
  by (simp add: events_move_def watermark_of_seq)

lemma set_watermark_seq [simp]:
  "records (set_watermark key w s) = records s"
  "cmd_seq (set_watermark key w s) = (cmd_seq s)(key := wm_commandSequence w)"
  "ev_seq (set_watermark key w s) = (ev_seq s)(key := wm_eventSequence w)"
  by (simp_all add: set_watermark_def cmd_seq_def ev_seq_def fun_eq_iff)

lemma advance_cases:
  obtains (refused) s1 where "advance i n s = (Inl Changed, s1)" "n \<noteq> ev_seq s (scope_key i) + 1"
      "records s1 = records s" "events_move s s1"
  | (moved) s1 where "advance i n s = (Inr (), s1)" "n = ev_seq s (scope_key i) + 1"
      "records s1 = records s" "cmd_seq s1 = cmd_seq s" "ev_seq s1 = (ev_seq s)(scope_key i := n)"
proof -
  obtain w t where wt: "watermark_of (scope_key i) s = (w, t)" by fastforce
  note seqs = watermark_of_seq [OF wt]
  show thesis
  proof (cases "n = wm_eventSequence w + 1")
    case True
    with seqs show thesis
      by (intro moved [of "set_watermark (scope_key i) (w\<lparr>wm_eventSequence := n\<rparr>) t"])
        (auto simp: advance_def wt)
  next
    case False
    with seqs watermark_of_move [OF wt] show thesis
      by (intro refused [of t]) (auto simp: advance_def wt)
  qed
qed

lemma same_operation_key:
  "same_operation i j \<Longrightarrow> identity_key i = identity_key j \<and> scope_key i = scope_key j \<and>
     accessMode i = accessMode j \<and> ownerUserId i = ownerUserId j \<and>
     workspaceId i = workspaceId j \<and> generation i = generation j"
  by (cases i; cases j) (simp add: same_operation_def identity_key_def scope_key_def)

lemma same_operation_refl [simp]: "same_operation i i"
  by (simp add: same_operation_def)

lemma same_operation_session [simp]: "same_operation (i\<lparr>sessionId := x\<rparr>) i"
  by (simp add: same_operation_def)

lemma evolves_key: "evolves r u \<Longrightarrow> identity_key (identity u) = identity_key (identity r)"
  by (simp add: evolves_def same_operation_key)

lemma save_quiet:
  assumes "js_get (records s) (identity_key (identity r)) = Some r" and "evolves r u"
    and "records t = records s" and "events_move s t"
  shows "quiet s (save u t)"
  by (rule quiet.updated [OF assms(1,2)]) (use assms in \<open>simp_all add: evolves_key\<close>)

lemma advance_quiet:
  assumes "js_get (records s) (identity_key (identity r)) = Some r" and "evolves r u"
  shows "quiet s (snd (case advance i n s of
    (Inl e, s1) \<Rightarrow> (Inl e, s1) | (Inr _, s1) \<Rightarrow> (Inr u, save u s1)))"
proof (cases rule: advance_cases [of i n s])
  case (moved s1)
  then have "events_move s s1" by (auto simp: events_move_def)
  with moved assms show ?thesis by (simp add: save_quiet)
qed (simp add: quiet.unchanged)

section \<open>Every call is a change\<close>

lemma reserve_change: "change s (snd (reserve i s))"
  by (auto simp: reserve_def Let_def list_ex_iff split: option.splits
      intro: change.unchanged change.created)

lemma dispatch_change: "change s (snd (markDispatchAttempted i s))"
  unfolding markDispatchAttempted_def
proof (rule exact_cases, goal_cases)
  case (2 r)
  obtain w t where wt: "watermark_of (scope_key (identity r)) s = (w, t)" by fastforce
  note seqs = watermark_of_seq [OF wt]
  show ?case
  proof (cases "state r = Reserved")
    case True
    have "change s (save (r\<lparr>command := Some \<lparr>commandId = dp_commandId i,
        commandSequence = cmd_seq s (scope_key (identity r)) + 1\<rparr>, state := Dispatching\<rparr>)
      (set_watermark (scope_key (identity r))
        (w\<lparr>wm_commandSequence := wm_commandSequence w + 1\<rparr>) t))"
      by (rule change.dispatched [OF 2(1) True refl refl])
        (use seqs in \<open>simp_all add: fun_upd_idem\<close>)
    with 2 True wt seqs show ?thesis by (simp add: Let_def)
  qed (simp add: change.unchanged)
qed (simp add: change.unchanged)

lemma finish_quiet:
  assumes "js_get (records s) (identity_key (identity r)) = Some r"
    and "state r = Dispatching \<or> state r = Uncertain"
  shows "quiet s (snd (finish r i s))"
  unfolding finish_def Let_def
  by (rule advance_quiet [OF assms(1)])
    (use assms(2) in \<open>cases "res_state (tm_result i)"; auto simp: evolves_def terminal_def\<close>)

lemma complete_quiet: "quiet s (snd (complete i s))"
  unfolding complete_def
  by (rule exact_cases) (simp_all add: quiet.unchanged finish_quiet)

lemma reconcile_quiet: "quiet s (snd (reconcile i s))"
  unfolding reconcile_def
  by (rule exact_cases) (simp_all add: quiet.unchanged finish_quiet)

lemma failReserved_quiet: "quiet s (snd (failReserved i s))"
  unfolding failReserved_def Let_def
proof (rule exact_cases, goal_cases)
  case (2 r)
  then show ?case
    by (auto simp: quiet.unchanged evolves_def intro!: save_quiet [OF 2(1)])
qed (simp add: quiet.unchanged)

lemma accept_quiet: "quiet s (snd (accept i s))"
  unfolding accept_def Let_def
proof (rule exact_cases, goal_cases)
  case (2 r)
  then show ?case
    by (auto simp: quiet.unchanged evolves_def terminal_def intro!: advance_quiet [OF 2(1)])
qed (simp add: quiet.unchanged)

lemma rebind_quiet: "quiet s (snd (rebindSession i s))"
  unfolding rebindSession_def Let_def
proof (rule exact_cases, goal_cases)
  case (2 r)
  then show ?case
    by (auto simp: quiet.unchanged evolves_def terminal_def intro!: save_quiet [OF 2(1)]
        split: option.splits)
qed (simp add: quiet.unchanged)

lemma advance_optional_simps [simp]:
  "advance_optional i (Some n) s = advance i n s"
  "advance_optional i None s = (Inr (), s)"
  by (simp_all add: advance_optional_def)

lemma markUncertain_quiet: "quiet s (snd (markUncertain i s))"
  unfolding markUncertain_def Let_def
proof (rule exact_cases, goal_cases)
  case (2 r)
  then show ?case
    by (cases "un_resultEventSequence i")
      (auto simp: quiet.unchanged evolves_def terminal_def
        intro!: advance_quiet [OF 2(1)] save_quiet [OF 2(1)])
qed (simp add: quiet.unchanged)

lemma complete_change: "change s (snd (complete i s))"
  by (rule quiet_change [OF complete_quiet])

lemma reconcile_change: "change s (snd (reconcile i s))"
  by (rule quiet_change [OF reconcile_quiet])

lemma failReserved_change: "change s (snd (failReserved i s))"
  by (rule quiet_change [OF failReserved_quiet])

lemma accept_change: "change s (snd (accept i s))"
  by (rule quiet_change [OF accept_quiet])

lemma rebind_change: "change s (snd (rebindSession i s))"
  by (rule quiet_change [OF rebind_quiet])

lemma markUncertain_change: "change s (snd (markUncertain i s))"
  by (rule quiet_change [OF markUncertain_quiet])

lemma step_change: "change s (snd (step c s))"
proof (cases c)
  case (CWatermarks owner workspace gen)
  obtain w t where "watermark_of (watermarkKey owner workspace gen) s = (w, t)" by fastforce
  with CWatermarks show ?thesis
    by (auto simp: watermarks_def watermark_of_seq intro: change.unchanged watermark_of_move)
qed (simp_all add: reserve_change dispatch_change accept_change complete_change reconcile_change
    failReserved_change markUncertain_change rebind_change)

section \<open>The invariant\<close>

definition shape_ok :: "operation_record \<Rightarrow> bool" where
  "shape_ok r \<longleftrightarrow>
     (state r = Reserved \<longrightarrow> command r = None) \<and>
     (state r = Dispatching \<or> state r = Uncertain \<longrightarrow> command r \<noteq> None) \<and>
     (terminal r \<longrightarrow> result r \<noteq> None)"

definition same_scope :: "operation_record \<Rightarrow> operation_record \<Rightarrow> bool" where
  "same_scope r q \<longleftrightarrow> ownerUserId (identity r) = ownerUserId (identity q) \<and>
     workspaceId (identity r) = workspaceId (identity q) \<and>
     generation (identity r) = generation (identity q)"

definition open_mutation :: "operation_record \<Rightarrow> bool" where
  "open_mutation r \<longleftrightarrow> active r \<and> accessMode (identity r) = MutationMode"

text \<open>At most one mutation per owner, workspace and generation is reserved, dispatching or uncertain.\<close>

definition fence_ok :: "store \<Rightarrow> bool" where
  "fence_ok s \<longleftrightarrow> (\<forall>k l r q. js_get (records s) k = Some r \<longrightarrow> js_get (records s) l = Some q \<longrightarrow>
     open_mutation r \<longrightarrow> open_mutation q \<longrightarrow> same_scope r q \<longrightarrow> k = l)"

text \<open>Command sequences are below the watermark of their scope and never shared.\<close>

definition commands_ok :: "store \<Rightarrow> bool" where
  "commands_ok s \<longleftrightarrow>
     (\<forall>k r c. js_get (records s) k = Some r \<longrightarrow> command r = Some c \<longrightarrow>
        commandSequence c \<le> cmd_seq s (scope_key (identity r))) \<and>
     (\<forall>k l r q c d. js_get (records s) k = Some r \<longrightarrow> js_get (records s) l = Some q \<longrightarrow>
        command r = Some c \<longrightarrow> command q = Some d \<longrightarrow>
        scope_key (identity r) = scope_key (identity q) \<longrightarrow>
        commandSequence c = commandSequence d \<longrightarrow> k = l)"

definition records_ok :: "store \<Rightarrow> bool" where
  "records_ok s \<longleftrightarrow> js_wf (records s) \<and>
     (\<forall>k r. js_get (records s) k = Some r \<longrightarrow> k = identity_key (identity r) \<and> shape_ok r)"

definition store_inv :: "store \<Rightarrow> bool" where
  "store_inv s \<longleftrightarrow> records_ok s \<and> fence_ok s \<and> commands_ok s"

lemma empty_store_inv [simp]: "store_inv empty_store"
  by (simp add: store_inv_def records_ok_def fence_ok_def commands_ok_def empty_store_def)

lemma evolves_facts:
  assumes "evolves r u"
  shows "active u \<Longrightarrow> active r" "same_scope u q = same_scope r q" "same_scope q u = same_scope q r"
    "scope_key (identity u) = scope_key (identity r)" "accessMode (identity u) = accessMode (identity r)"
    "command u = command r" "\<not> terminal r"
  using assms
  by (auto simp: evolves_def active_iff_not_terminal terminal_def same_scope_def
      dest: same_operation_key)

lemma records_ok_set:
  assumes "records_ok s" and "records s' = js_set (records s) (identity_key (identity u)) u"
    and "shape_ok u"
  shows "records_ok s'"
  using assms by (simp add: records_ok_def)

lemma records_okD:
  assumes "records_ok s" and "js_get (records s) k = Some r"
  shows "shape_ok r" "k = identity_key (identity r)"
  using assms unfolding records_ok_def by blast+

lemma evolves_shape: "evolves r u \<Longrightarrow> shape_ok r \<Longrightarrow> shape_ok u"
  by (cases "state r"; cases "state u") (simp_all add: shape_ok_def evolves_def)

lemma change_records_ok:
  assumes "change s s'" and ok: "records_ok s"
  shows "records_ok s'"
  using assms(1)
proof cases
  case unchanged
  with ok show ?thesis by (simp add: records_ok_def)
next
  case (created i fp)
  then show ?thesis
    by (intro records_ok_set [OF ok, of _ "new_record fp i"])
      (simp_all add: new_record_def shape_ok_def terminal_def)
next
  case (dispatched r n u cid)
  then show ?thesis
    by (intro records_ok_set [OF ok, of _ u]) (simp_all add: shape_ok_def terminal_def)
next
  case (updated r u)
  then have "shape_ok u"
    by (intro evolves_shape [OF updated(2)] records_okD [OF ok updated(1)])
  with updated(3) show ?thesis
    by (intro records_ok_set [OF ok, of _ u]) (simp_all add: evolves_key [OF updated(2)])
qed

lemma no_fence:
  assumes "\<not> list_ex (fences i) (js_values (records s))" and "js_get (records s) k = Some q"
    and "open_mutation q"
  shows "\<not> (ownerUserId (identity q) = ownerUserId i \<and> workspaceId (identity q) = workspaceId i \<and>
    generation (identity q) = generation i)"
  using assms js_get_in_values [OF assms(2)]
  by (auto simp: list_ex_iff fences_def open_mutation_def active_def)

text \<open>A record may be replaced where the new one shares its scope with no other open mutation.\<close>

lemma fence_ok_set:
  assumes "fence_ok s" and "records s' = js_set (records s) k u"
    and "\<And>l q. js_get (records s) l = Some q \<Longrightarrow> l \<noteq> k \<Longrightarrow> open_mutation u \<Longrightarrow> open_mutation q \<Longrightarrow>
      \<not> same_scope u q"
  shows "fence_ok s'"
  unfolding fence_ok_def
proof (intro allI impI)
  fix a b r q
  assume "js_get (records s') a = Some r" "js_get (records s') b = Some q"
    and "open_mutation r" "open_mutation q" "same_scope r q"
  with assms(1) assms(3) [of a r] assms(3) [of b q] show "a = b"
    unfolding fence_ok_def assms(2)
    by (simp split: if_splits) (auto simp: same_scope_def)
qed

lemma change_fence_ok:
  assumes "change s s'" and ok: "fence_ok s"
  shows "fence_ok s'"
  using assms(1)
proof cases
  case unchanged
  with ok show ?thesis by (simp add: fence_ok_def)
next
  case (created i fp)
  show ?thesis
  proof (rule fence_ok_set [OF ok, of _ "identity_key i" "new_record fp i"])
    fix l q
    assume "js_get (records s) l = Some q" "open_mutation (new_record fp i)" "open_mutation q"
    with created no_fence [of i s l q] show "\<not> same_scope (new_record fp i) q"
      by (auto simp: new_record_def same_scope_def open_mutation_def)
  qed (simp add: created new_record_def)
next
  case (dispatched r n u cid)
  then have "open_mutation u = open_mutation r" "same_scope u = same_scope r"
    by (auto simp: open_mutation_def active_def same_scope_def fun_eq_iff)
  with ok dispatched show ?thesis
    by (intro fence_ok_set [OF ok, of _ "identity_key (identity r)" u]) (auto simp: fence_ok_def)
next
  case (updated r u)
  then have "open_mutation u \<Longrightarrow> open_mutation r" "same_scope u = same_scope r"
    using evolves_facts [of r u] by (auto simp: open_mutation_def fun_eq_iff)
  with ok updated show ?thesis
    by (intro fence_ok_set [OF ok, of _ "identity_key (identity r)" u]) (auto simp: fence_ok_def)
qed

lemma change_commands_ok:
  assumes "change s s'" and ok: "commands_ok s"
  shows "commands_ok s'"
  using assms(1)
proof cases
  case unchanged
  with ok show ?thesis by (simp add: commands_ok_def events_move_def)
next
  case (created i fp)
  with ok show ?thesis
    by (simp add: commands_ok_def new_record_def)
next
  case (dispatched r n u cid)
  let ?k = "identity_key (identity r)"
  have u: "command u = Some \<lparr>commandId = cid, commandSequence = n\<rparr>" "scope_key (identity u) = scope_key (identity r)"
    using dispatched by simp_all
  have get: "js_get (records s') l = (if l = ?k then Some u else js_get (records s) l)" for l
    using dispatched by simp
  have seq: "cmd_seq s' x = (if x = scope_key (identity r) then n else cmd_seq s x)" "cmd_seq s x \<le> cmd_seq s' x" for x
    using dispatched by simp_all
  have old: "commandSequence c \<le> cmd_seq s (scope_key (identity q))"
    if "js_get (records s) l = Some q" "command q = Some c" for l q c
    using ok that unfolding commands_ok_def by blast
  have below: "commandSequence c < n"
    if "js_get (records s) l = Some q" "command q = Some c" "scope_key (identity q) = scope_key (identity r)" for l q c
    using old [OF that(1,2)] that(3) dispatched by simp
  show ?thesis
    unfolding commands_ok_def
  proof (intro conjI allI impI)
    fix l q c
    assume "js_get (records s') l = Some q" "command q = Some c"
    then show "commandSequence c \<le> cmd_seq s' (scope_key (identity q))"
      using u old [of l q c] seq [of "scope_key (identity q)"] by (cases "l = ?k") (auto simp: get)
  next
    fix l m q p c d
    assume a: "js_get (records s') l = Some q" "js_get (records s') m = Some p" "command q = Some c" "command p = Some d"
      "scope_key (identity q) = scope_key (identity p)" "commandSequence c = commandSequence d"
    show "l = m"
    proof (cases "l = ?k"; cases "m = ?k")
      assume "l \<noteq> ?k" "m \<noteq> ?k"
      with a ok show ?thesis unfolding commands_ok_def by (simp add: get)
    next
      assume "l = ?k" "m \<noteq> ?k"
      with a u below [of m p d] show ?thesis by (simp add: get)
    next
      assume "l \<noteq> ?k" "m = ?k"
      with a u below [of l q c] show ?thesis by (simp add: get)
    qed simp
  qed
next
  case (updated r u)
  then have "cmd_seq s' = cmd_seq s" "command u = command r"
    "scope_key (identity u) = scope_key (identity r)"
    using evolves_facts [of r u] by (simp_all add: events_move_def)
  with ok updated show ?thesis
    by (fastforce simp: commands_ok_def split: if_splits)
qed

lemma step_store_inv: "store_inv s \<Longrightarrow> store_inv (snd (step c s))"
  using step_change [of s c] change_records_ok change_fence_ok change_commands_ok
  by (auto simp: store_inv_def)

interpretation canonical: invariant_store step store_inv
  by unfold_locales (rule step_store_inv)

section \<open>Contracts\<close>

text \<open>A terminal record as stored; a reservation; a dispatch; and what they leave behind.\<close>

definition settled_record :: "operation_record \<Rightarrow> store \<Rightarrow> bool" where
  "settled_record r s \<longleftrightarrow> terminal r \<and> js_get (records s) (identity_key (identity r)) = Some r"

fun grants_reservation :: "string \<Rightarrow> call \<Rightarrow> answer \<Rightarrow> bool" where
  "grants_reservation k (CReserve _) (AReservation (New r)) = (identity_key (identity r) = k)"
| "grants_reservation _ _ _ = False"

fun grants_dispatch :: "string \<Rightarrow> call \<Rightarrow> answer \<Rightarrow> bool" where
  "grants_dispatch k (CDispatch _) (ARecord (Inr r)) = (identity_key (identity r) = k)"
| "grants_dispatch _ _ _ = False"

definition known :: "string \<Rightarrow> store \<Rightarrow> bool" where
  "known k s \<longleftrightarrow> js_get (records s) k \<noteq> None"

definition dispatched_once :: "string \<Rightarrow> store \<Rightarrow> bool" where
  "dispatched_once k s \<longleftrightarrow> (\<exists>r. js_get (records s) k = Some r \<and> state r \<noteq> Reserved)"

lemma change_settled:
  assumes "change s s'" and "settled_record r s"
  shows "settled_record r s'"
  using assms(1)
  by cases (use assms(2) in \<open>auto simp: settled_record_def new_record_def terminal_def
      dest: evolves_facts(7)\<close>)

lemma change_known:
  assumes "change s s'" and "known k s"
  shows "known k s'"
  using assms(1) by cases (use assms(2) in \<open>auto simp: known_def\<close>)

lemma evolves_not_reserved: "evolves r u \<Longrightarrow> state u \<noteq> Reserved"
  by (cases "state r") (auto simp: evolves_def)

lemma change_dispatched:
  assumes "change s s'" and "dispatched_once k s"
  shows "dispatched_once k s'"
  using assms(1)
  by cases (use assms(2) in \<open>auto simp: dispatched_once_def new_record_def
      dest: evolves_not_reserved\<close>)

lemma reservation_takes:
  assumes "grants_reservation k c (fst (step c s))"
  shows "\<not> known k s \<and> known k (snd (step c s))"
proof -
  obtain i where c: "c = CReserve i"
    using assms by (cases c) (auto split: prod.splits)
  with assms show ?thesis
    by (auto simp: reserve_def known_def new_record_def Let_def split: option.splits if_splits)
qed

lemma dispatch_takes:
  assumes inv: "store_inv s" and grant: "grants_dispatch k c (fst (step c s))"
  shows "\<not> dispatched_once k s \<and> dispatched_once k (snd (step c s))"
proof -
  obtain i where c: "c = CDispatch i"
    using grant by (cases c) (auto split: prod.splits)
  with grant show ?thesis
    by (auto simp: markDispatchAttempted_def exact_def dispatched_once_def Let_def
        split: option.splits if_splits prod.splits sum.splits)
qed

interpretation canonical_results: durable_store step store_inv settled_record
  by unfold_locales (rule change_settled [OF step_change])

interpretation canonical_reservation: grant_once step store_inv grants_reservation known
  by unfold_locales (auto dest: reservation_takes intro: change_known [OF step_change])

interpretation canonical_dispatch: grant_once step store_inv grants_dispatch dispatched_once
  by unfold_locales (auto dest: dispatch_takes intro: change_dispatched [OF step_change])

lemma reachable_inv: "store_inv (run_state step calls empty_store)"
  by (rule canonical.run_inv) simp

lemma commands_okD:
  assumes "commands_ok s" and "js_get (records s) k = Some r" and "js_get (records s) l = Some q"
    and "command r = Some c" and "command q = Some d"
    and "scope_key (identity r) = scope_key (identity q)" and "commandSequence c = commandSequence d"
  shows "k = l"
  using assms unfolding commands_ok_def by metis

end
