(* ===== verification/CanonicalProperties.thy ===== *)
theory CanonicalProperties
  imports CanonicalStore
begin

text \<open>
  What the canonical Runtime control store promises, over every sequence of calls on a new store.
\<close>

lemma fence_okD:
  assumes "fence_ok s" and "js_get (records s) k = Some r" and "js_get (records s) l = Some q"
    and "open_mutation r" and "open_mutation q" and "same_scope r q"
  shows "k = l"
  using assms(1) unfolding fence_ok_def using assms(2-) by metis

text \<open>C23: an operation is handed to the Runtime at most once: in any sequence of store calls on a
  new store, at most one \<open>markDispatchAttempted\<close> succeeds for an owner and operation id, whatever is
  reserved, retried, completed or rebound in between.\<close>

theorem canonical_dispatched_at_most_once:
  "length (filter (\<lambda>(c, a). grants_dispatch (recordKey owner opId) c a)
     (run_results step calls empty_store)) \<le> 1"
  by (rule canonical_dispatch.at_most_one_grant) simp

text \<open>An owner's operation id is reserved as new at most once.\<close>

theorem canonical_reserved_at_most_once:
  "length (filter (\<lambda>(c, a). grants_reservation (recordKey owner opId) c a)
     (run_results step calls empty_store)) \<le> 1"
  by (rule canonical_reservation.at_most_one_grant) simp

text \<open>C24: the mutation fence: after any sequence of calls an owner has at most one mutation reserved,
  dispatching or uncertain in a generation of a workspace.\<close>

theorem canonical_one_open_mutation:
  "length (filter (\<lambda>r. ownerUserId (identity r) = owner \<and> workspaceId (identity r) = workspace \<and>
       generation (identity r) = gen \<and> accessMode (identity r) = MutationMode \<and>
       state r \<in> {Reserved, Dispatching, Uncertain})
     (js_values (records (run_state step calls empty_store)))) \<le> 1"
proof (rule at_most_one_value, goal_cases)
  case 1
  show ?case using reachable_inv by (simp add: store_inv_def records_ok_def)
next
  case (2 k l r q)
  have "fence_ok (run_state step calls empty_store)"
    using reachable_inv by (simp add: store_inv_def)
  then show ?case
    by (rule fence_okD [OF _ 2(1,2)])
      (use 2 in \<open>simp_all add: open_mutation_def active_def same_scope_def\<close>)
qed

text \<open>A terminal record is durable and is what every later reservation of the operation replays,
  whichever session asks and whatever happened to the store in between.\<close>

theorem canonical_terminal_replayed:
  assumes "js_get (records (run_state step before empty_store)) (identity_key i) = Some r"
    and "state r \<in> {Completed, Failed, BlockedDependency}"
    and "same_operation i (identity r)" and "ri_identity input = i"
    and "ri_fingerprint input = fingerprint r"
  shows "fst (reserve input (run_state step (before @ between) empty_store)) = Replayed r"
proof -
  let ?s = "run_state step before empty_store"
  have key: "identity_key (identity r) = identity_key i"
    using same_operation_key [OF assms(3)] by simp
  then have "settled_record r ?s"
    using assms(1,2) by (simp add: settled_record_def terminal_def)
  then have "settled_record r (run_state step between ?s)"
    by (rule canonical_results.run_settled [OF reachable_inv])
  with assms key show ?thesis
    by (auto simp: run_state_append settled_record_def reserve_def same_operation_def)
qed

definition demo_identity :: operation_identity where
  "demo_identity = \<lparr>actorId = ''a'', actorKind = HumanActor, actorUserId = ''u'',
     accessMode = MutationMode, compatibilityAlias = False, environmentId = ''e'',
     generation = ''g'', operation = GitCommit, operationId = ''op'', ownerUserId = ''u'',
     safeInput = GitCommitInput ''h'' ''m'', sessionId = ''s'', targetIdentityRevision = ''1'',
     workspaceId = ''w''\<rparr>"

definition demo_result :: operation_result where
  "demo_result = \<lparr>res_apiVersion = 1, res_compatibilityAlias = False, res_environmentId = ''e'',
     res_generation = ''g'', res_operation = GitCommit, res_operationId = ''op'',
     res_output = Some (GitCommitOutput ''c'' ''h''), res_replayed = False,
     res_state = ResultCompleted, res_targetIdentityRevision = ''1'', res_workspaceId = ''w''\<rparr>"

definition demo_reservation :: reservation_input where
  "demo_reservation = \<lparr>ri_fingerprint = ''f'', ri_identity = demo_identity, ri_reservedAt = ''t0'',
     ri_reservedUntil = ''t1''\<rparr>"

definition demo_dispatch :: dispatch_input where
  "demo_dispatch = \<lparr>dp_commandId = ''c'', dp_dispatchedAt = ''t1'', dp_dispatchedUntil = ''t2'',
     dp_fingerprint = ''f'', dp_identity = demo_identity\<rparr>"

definition demo_terminal :: terminal_input where
  "demo_terminal = \<lparr>tm_command = \<lparr>commandId = ''c'', commandSequence = 1\<rparr>, tm_completedAt = ''t3'',
     tm_failureCode = None, tm_fingerprint = ''f'', tm_identity = demo_identity,
     tm_result = demo_result, tm_resultEventSequence = 1\<rparr>"

definition demo_calls :: "call list" where
  "demo_calls = [CReserve demo_reservation, CDispatch demo_dispatch, CComplete demo_terminal]"

lemmas demo_defs = demo_identity_def demo_result_def demo_reservation_def demo_dispatch_def
  demo_terminal_def demo_calls_def

lemma demo_run:
  "run_state step demo_calls empty_store =
     \<lparr>records = [(identity_key demo_identity,
        (new_record ''f'' demo_identity)\<lparr>command := Some \<lparr>commandId = ''c'', commandSequence = 1\<rparr>,
          completedAt := Some ''t3'', result := Some demo_result, resultEventSequence := Some 1,
          state := Completed\<rparr>)],
      generationWatermarks = [(scope_key demo_identity,
        \<lparr>wm_commandSequence = 1, wm_eventSequence = 1\<rparr>)]\<rparr>"
  by (simp add: demo_calls_def demo_reservation_def demo_dispatch_def demo_terminal_def reserve_def
      markDispatchAttempted_def complete_def finish_def exact_def advance_def watermark_of_def
      set_watermark_def save_def new_record_def empty_store_def js_set_def js_values_def Let_def
      demo_result_def)

theorem canonical_terminal_replayed_witness:
  "fst (reserve demo_reservation
     (run_state step (demo_calls @ [CReserve demo_reservation, CWatermarks ''u'' ''w'' ''g''])
       empty_store)) =
   Replayed ((new_record ''f'' demo_identity)\<lparr>command := Some \<lparr>commandId = ''c'', commandSequence = 1\<rparr>,
     completedAt := Some ''t3'', result := Some demo_result, resultEventSequence := Some 1,
     state := Completed\<rparr>)"
  by (rule canonical_terminal_replayed [where i = demo_identity])
    (simp_all add: demo_run new_record_def demo_reservation_def)

lemma sort_key_strict:
  assumes "distinct xs" and "\<And>x y. x \<in> set xs \<Longrightarrow> y \<in> set xs \<Longrightarrow> f x = f y \<Longrightarrow> x = y"
  shows "sorted_wrt (<) (map f (sort_key f xs))"
proof -
  have "distinct (map f (sort_key f xs))"
    using assms by (simp add: distinct_map inj_on_def)
  then show ?thesis by (simp add: strict_sorted_iff)
qed

lemma records_distinct:
  assumes "records_ok s"
  shows "distinct (js_values (records s))"
proof -
  have "map fst (records s) = map (\<lambda>r. identity_key (identity r)) (js_values (records s))"
    using assms by (fastforce simp: js_values_def records_ok_def js_wf_def map_of_eq_Some_iff)
  then show ?thesis
    using assms by (metis distinct_map js_wf_def records_ok_def)
qed

text \<open>After a crash the unresolved operations of a generation can always be listed: the sort never
  meets a record without a command, and gives exactly the dispatching and uncertain records, in
  strictly increasing order of their command sequence.\<close>

theorem canonical_unresolved_ordered:
  "\<exists>rs. unresolved owner workspace gen (run_state step calls empty_store) = Inr rs \<and>
     sorted_wrt (\<lambda>r q. command_sequence r < command_sequence q) rs \<and>
     set rs = {r. r \<in> set (js_values (records (run_state step calls empty_store))) \<and>
       ownerUserId (identity r) = owner \<and> workspaceId (identity r) = workspace \<and>
       generation (identity r) = gen \<and> state r \<in> {Dispatching, Uncertain}}"
proof -
  let ?s = "run_state step calls empty_store"
  let ?P = "\<lambda>r. ownerUserId (identity r) = owner \<and> workspaceId (identity r) = workspace \<and>
      generation (identity r) = gen \<and> (state r = Dispatching \<or> state r = Uncertain)"
  let ?found = "filter ?P (js_values (records ?s))"
  have inv: "records_ok ?s" "commands_ok ?s"
    using reachable_inv by (auto simp: store_inv_def)
  have stored: "js_get (records ?s) (identity_key (identity r)) = Some r \<and> command r \<noteq> None"
    if "r \<in> set ?found" for r
  proof -
    from that inv(1) obtain k where k: "js_get (records ?s) k = Some r"
      by (auto simp: records_ok_def in_js_values)
    with that records_okD [OF inv(1) k] show ?thesis by (auto simp: shape_ok_def)
  qed
  have unique: "r = q"
    if r: "r \<in> set ?found" and q: "q \<in> set ?found"
      and eq: "command_sequence r = command_sequence q" for r q
  proof -
    obtain c d where "command r = Some c" "command q = Some d"
      using stored [OF r] stored [OF q] by blast
    moreover from this have "commandSequence c = commandSequence d"
      using eq by (simp add: command_sequence_def)
    moreover have "scope_key (identity r) = scope_key (identity q)"
      using r q by (simp add: scope_key_def)
    ultimately have "identity_key (identity r) = identity_key (identity q)"
      by (intro commands_okD [OF inv(2) stored [OF r, THEN conjunct1] stored [OF q, THEN conjunct1]])
    then have "Some r = Some q"
      by (simp only: stored [OF r, THEN conjunct1, symmetric] stored [OF q, THEN conjunct1, symmetric])
    then show ?thesis by (simp only: option.inject)
  qed
  have "distinct ?found"
    using records_distinct [OF inv(1)] by simp
  then have "sorted_wrt (<) (map command_sequence (sort_key command_sequence ?found))"
    using unique by (rule sort_key_strict)
  moreover have "unresolved owner workspace gen ?s = Inr (sort_key command_sequence ?found)"
    unfolding unresolved_def Let_def list_ex_iff
    using stored by (metis (no_types, lifting))
  ultimately show ?thesis
    by (auto simp: sorted_wrt_map)
qed

text \<open>The life of a stored operation: no call removes a record or changes its fingerprint or the
  operation it identifies; a state changes only along the protocol's transitions, and a call that
  leaves a terminal record leaves it as it is.\<close>

theorem canonical_lifecycle:
  assumes "js_get (records (run_state step before empty_store)) k = Some r"
  shows "\<exists>u. js_get (records (snd (step c (run_state step before empty_store)))) k = Some u \<and>
    fingerprint u = fingerprint r \<and> same_operation (identity u) (identity r) \<and>
    (u = r \<or> lifecycle (state r) (state u)) \<and>
    (state r \<in> {Completed, Failed, BlockedDependency} \<longrightarrow> u = r)"
proof -
  let ?s = "run_state step before empty_store"
  have "change ?s (snd (step c ?s))" by (rule step_change)
  then show ?thesis
  proof cases
    case unchanged
    with assms show ?thesis by simp
  next
    case (created i fp)
    with assms show ?thesis by (auto simp: new_record_def)
  next
    case (dispatched q n u cid)
    show ?thesis
    proof (cases "identity_key (identity q) = k")
      case True
      with assms dispatched(1) have "q = r" by simp
      with dispatched(2,4,5) True show ?thesis by simp
    next
      case False
      with assms dispatched(5) show ?thesis by simp
    qed
  next
    case (updated q u)
    show ?thesis
    proof (cases "identity_key (identity q) = k")
      case True
      with assms updated(1) have "q = r" by simp
      with updated(2,3) True show ?thesis
        using evolves_facts(7) [OF updated(2)] by (simp add: evolves_def terminal_def)
    next
      case False
      with assms updated(3) show ?thesis by simp
    qed
  qed
qed

theorem canonical_lifecycle_witness:
  "\<exists>u. js_get (records (snd (step (CReconcile demo_terminal)
      (run_state step demo_calls empty_store)))) (identity_key demo_identity) = Some u \<and>
    fingerprint u = ''f'' \<and> u = the (js_get (records (run_state step demo_calls empty_store))
      (identity_key demo_identity))"
  using canonical_lifecycle [of demo_calls "identity_key demo_identity"
      "the (js_get (records (run_state step demo_calls empty_store)) (identity_key demo_identity))"
      "CReconcile demo_terminal"]
  by (simp add: demo_run new_record_def)

text \<open>C25: event sequences of a generation are acknowledged without a gap: one call moves the event
  watermark of at most one scope, by exactly one, and never moves a watermark back.\<close>

theorem canonical_watermarks_contiguous:
  fixes s :: store and c :: call
  defines "s' \<equiv> snd (step c s)"
  shows "(ev_seq s' = ev_seq s \<or> (\<exists>k. ev_seq s' = (ev_seq s)(k := ev_seq s k + 1))) \<and>
    (cmd_seq s' = cmd_seq s \<or> (\<exists>k. cmd_seq s' = (cmd_seq s)(k := cmd_seq s k + 1)))"
proof -
  have "change s s'" unfolding s'_def by (rule step_change)
  then show ?thesis by cases (auto simp: events_move_def)
qed

end
