(* ===== verification/CanonicalEffects.thy ===== *)
theory CanonicalEffects
  imports CanonicalStore
begin

text \<open>
  The effect of the operation store's calls as a caller sees it: how a record may evolve under calls of
  others, and what a successful call leaves in the store.
\<close>

section \<open>How a record evolves\<close>

definition follows :: "operation_record \<Rightarrow> operation_record \<Rightarrow> bool" where
  "follows r r' \<longleftrightarrow> same_operation (identity r') (identity r) \<and>
     (command r \<noteq> None \<longrightarrow> command r' = command r) \<and> (state r \<noteq> Reserved \<longrightarrow> state r' \<noteq> Reserved) \<and>
     (terminal r \<longrightarrow> r' = r)"

lemma follows_refl [simp]: "follows r r"
  by (simp add: follows_def)

lemma same_operation_sym: "same_operation i j \<Longrightarrow> same_operation j i"
  by (simp add: same_operation_def)

lemma same_operation_trans: "same_operation i j \<Longrightarrow> same_operation j k \<Longrightarrow> same_operation i k"
  by (simp add: same_operation_def)

lemma evolves_follows:
  assumes "evolves r u"
  shows "follows r u"
  using assms evolves_not_reserved [OF assms] evolves_facts(7) [OF assms]
  by (auto simp: follows_def evolves_def)

lemma change_follows:
  assumes "change s s'" and ok: "records_ok s" and get: "js_get (records s) k = Some r"
  shows "\<exists>r'. js_get (records s') k = Some r' \<and> follows r r'"
  using assms(1)
proof cases
  case unchanged
  with get show ?thesis by auto
next
  case (created i fp)
  with get show ?thesis by (auto simp: new_record_def)
next
  case (dispatched q n u cid)
  have "command q = None"
    using records_okD [OF ok dispatched(1)] dispatched(2) by (simp add: shape_ok_def)
  with dispatched get show ?thesis
    by (auto simp: follows_def terminal_def)
next
  case (updated q u)
  with get evolves_follows [OF updated(2)] show ?thesis
    by (cases "k = identity_key (identity q)") auto
qed

section \<open>What a successful call leaves in the store\<close>

definition all_records :: "(operation_record \<Rightarrow> bool) \<Rightarrow> store \<Rightarrow> bool" where
  "all_records P s \<longleftrightarrow> (\<forall>k r. js_get (records s) k = Some r \<longrightarrow> P r)"

lemma all_recordsD: "all_records P s \<Longrightarrow> js_get (records s) k = Some r \<Longrightarrow> P r"
  by (simp add: all_records_def)

lemma all_records_save: "all_records P s \<Longrightarrow> records t = records s \<Longrightarrow> P u \<Longrightarrow> all_records P (save u t)"
  by (auto simp: all_records_def)

lemma all_records_same: "all_records P s \<Longrightarrow> records t = records s \<Longrightarrow> all_records P t"
  by (simp add: all_records_def)

text \<open>A stored result is final: it is the result of a terminal record, and not marked as replayed.\<close>

definition record_final :: "operation_record \<Rightarrow> bool" where
  "record_final r \<longleftrightarrow> actorUserId (identity r) = ownerUserId (identity r) \<and>
     (\<forall>x. result r = Some x \<longrightarrow> terminal r \<and> \<not> res_replayed x \<and> result_operation_state (res_state x) = state r)"

lemma exact_Inr:
  assumes "exact fp i s = Inr r"
  shows "js_get (records s) (identity_key i) = Some r" "fingerprint r = fp" "identity r = i"
  using assms by (auto simp: exact_def split: option.splits if_splits)

lemma reserve_spec:
  assumes "all_records record_final s" and "actorUserId (ri_identity input) = ownerUserId (ri_identity input)"
  shows "all_records record_final (snd (reserve input s))"
    and "fst (reserve input s) = Replayed r \<Longrightarrow> js_get (records s) (identity_key (ri_identity input)) = Some r"
  using assms
  by (auto simp: reserve_def Let_def new_record_def record_final_def split: option.splits if_splits
      intro!: all_records_save)

lemma advance_records:
  assumes "advance i n s = (res, t)"
  shows "records t = records s"
  using advance_cases [of i n s] assms by (metis prod.inject)

lemma advance_optional_records: "advance_optional i n s = (res, t) \<Longrightarrow> records t = records s"
  by (cases n) (auto dest: advance_records)

lemma watermark_records: "watermark_of key s = (w, t) \<Longrightarrow> records t = records s"
  by (rule watermark_of_seq)

lemma dispatch_spec:
  assumes "all_records record_final s"
  shows "all_records record_final (snd (markDispatchAttempted input s))"
    and "fst (markDispatchAttempted input s) = Inr r \<Longrightarrow>
      js_get (records (snd (markDispatchAttempted input s))) (identity_key (dp_identity input)) = Some r \<and>
      identity r = dp_identity input \<and> command r \<noteq> None"
proof -
  obtain w t where w: "watermark_of (scope_key (dp_identity input)) s = (w, t)" by fastforce
  show "all_records record_final (snd (markDispatchAttempted input s))"
  proof (cases "exact (dp_fingerprint input) (dp_identity input) s")
    case (Inr q)
    have "record_final q" using assms exact_Inr(1) [OF Inr] by (rule all_recordsD)
    then show ?thesis
      using assms Inr watermark_records [OF w]
      by (cases "state q = Reserved")
        (simp_all add: markDispatchAttempted_def w Let_def record_final_def terminal_def all_records_save)
  qed (simp add: markDispatchAttempted_def assms)
  show "js_get (records (snd (markDispatchAttempted input s))) (identity_key (dp_identity input)) = Some r \<and>
      identity r = dp_identity input \<and> command r \<noteq> None" if "fst (markDispatchAttempted input s) = Inr r"
    using that
    by (auto simp: markDispatchAttempted_def w Let_def split: sum.splits if_splits dest: exact_Inr)
qed

lemma accept_spec:
  assumes "all_records record_final s"
  shows "all_records record_final (snd (accept input s))"
proof (cases "exact (ac_fingerprint input) (ac_identity input) s")
  case (Inr r)
  have "record_final r" using assms exact_Inr(1) [OF Inr] by (rule all_recordsD)
  with assms Inr show ?thesis
    by (auto simp: accept_def Let_def record_final_def terminal_def split: prod.split sum.split
        intro!: all_records_save elim: all_records_same dest: advance_records)
qed (simp add: accept_def assms)

lemma finish_spec:
  assumes "all_records record_final s" and "record_final current" and "identity current = tm_identity input"
    and "\<not> terminal current" and "\<not> res_replayed (tm_result input)" and "res_state (tm_result input) \<noteq> ResultUncertain"
  shows "all_records record_final (snd (finish current input s))"
    and "fst (finish current input s) = Inr r \<Longrightarrow>
      js_get (records (snd (finish current input s))) (identity_key (tm_identity input)) = Some r \<and>
      terminal r \<and> result r = Some (tm_result input)"
proof -
  obtain res t where adv: "advance (tm_identity input) (tm_resultEventSequence input) s = (res, t)" by fastforce
  have final: "result_operation_state (res_state (tm_result input)) \<in> {Completed, operation_state.Failed, BlockedDependency}"
    using assms(6) by (cases "res_state (tm_result input)") simp_all
  show "all_records record_final (snd (finish current input s))"
    using assms final advance_records [OF adv]
    by (cases res) (auto simp: finish_def adv Let_def record_final_def terminal_def
        intro!: all_records_save elim: all_records_same)
  show "js_get (records (snd (finish current input s))) (identity_key (tm_identity input)) = Some r \<and>
      terminal r \<and> result r = Some (tm_result input)" if "fst (finish current input s) = Inr r"
    using that assms(3) final by (cases res) (auto simp: finish_def adv Let_def terminal_def)
qed

lemma terminal_call_cases:
  assumes "call = CanonicalStore.complete \<or> call = reconcile"
  obtains (refused) e where "call input s = (Inl e, s)"
  | (finished) q where "call input s = finish q input s" "js_get (records s) (identity_key (tm_identity input)) = Some q"
      "identity q = tm_identity input" "\<not> terminal q"
proof (cases "exact (tm_fingerprint input) (tm_identity input) s")
  case (Inl e)
  with assms show thesis
    by (intro refused [of e]) (auto simp: CanonicalStore.complete_def reconcile_def)
next
  case (Inr q)
  note q = exact_Inr [OF Inr]
  show thesis
  proof (cases "call input s = (Inl Changed, s)")
    case False
    with assms Inr show thesis
      by (intro finished [OF _ q(1,3)])
        (auto simp: CanonicalStore.complete_def reconcile_def terminal_def split: if_splits)
  qed (rule refused)
qed

lemma terminal_call_spec:
  assumes "all_records record_final s" and "\<not> res_replayed (tm_result input)"
    and "res_state (tm_result input) \<noteq> ResultUncertain"
    and "call = CanonicalStore.complete \<or> call = reconcile"
  shows "all_records record_final (snd (call input s))"
    and "fst (call input s) = Inr r \<Longrightarrow>
      js_get (records (snd (call input s))) (identity_key (tm_identity input)) = Some r \<and>
      terminal r \<and> result r = Some (tm_result input)"
proof -
  show "all_records record_final (snd (call input s))"
    using assms(4)
    by (rule terminal_call_cases [of call input s])
      (simp_all add: assms(1) finish_spec(1) [OF assms(1) all_recordsD [OF assms(1)] _ _ assms(2,3)])
  assume "fst (call input s) = Inr r"
  with assms(4) show "js_get (records (snd (call input s))) (identity_key (tm_identity input)) = Some r \<and>
      terminal r \<and> result r = Some (tm_result input)"
    by - (rule terminal_call_cases [of call input s],
      simp_all add: finish_spec(2) [OF assms(1) all_recordsD [OF assms(1)] _ _ assms(2,3)])
qed

lemma failReserved_spec:
  assumes "all_records record_final s" and "\<not> res_replayed (pf_result input)" and "res_state (pf_result input) = ResultFailed"
  shows "all_records record_final (snd (failReserved input s))"
    and "fst (failReserved input s) = Inr r \<Longrightarrow>
      js_get (records (snd (failReserved input s))) (identity_key (pf_identity input)) = Some r \<and>
      terminal r \<and> result r = Some (pf_result input)"
proof -
  have final: "record_final (q\<lparr>completedAt := a, failureCode := b, result := Some (pf_result input), state := operation_state.Failed\<rparr>)"
    if "record_final q" for q a b
    using that assms(2,3) by (simp add: record_final_def terminal_def)
  show "all_records record_final (snd (failReserved input s))"
    using assms(1)
    by (auto simp: failReserved_def Let_def split: sum.split intro!: all_records_save final
        dest!: exact_Inr(1) dest: all_recordsD)
  show "js_get (records (snd (failReserved input s))) (identity_key (pf_identity input)) = Some r \<and>
      terminal r \<and> result r = Some (pf_result input)" if "fst (failReserved input s) = Inr r"
    using that by (auto simp: failReserved_def Let_def terminal_def split: sum.splits if_splits dest: exact_Inr)
qed

lemma markUncertain_cases:
  obtains (refused) e t where "markUncertain input s = (Inl e, t)" "records t = records s"
  | (again) q where "markUncertain input s = (Inr q, s)" "js_get (records s) (identity_key (un_identity input)) = Some q"
      "state q = Uncertain"
  | (saved) q u t where "markUncertain input s = (Inr u, save u t)" "records t = records s"
      "js_get (records s) (identity_key (un_identity input)) = Some q" "identity u = identity q"
      "identity q = un_identity input" "result u = result q" "state u = Uncertain" "\<not> terminal q"
proof (cases "exact (un_fingerprint input) (un_identity input) s")
  case (Inl e)
  show thesis by (rule refused [of e s]) (simp_all add: markUncertain_def Inl)
next
  case (Inr q)
  note q = exact_Inr [OF Inr]
  obtain res t where adv: "advance_optional (un_identity input) (un_resultEventSequence input) s = (res, t)"
    by fastforce
  note t = advance_optional_records [OF adv]
  consider "state q \<notin> {Uncertain, Dispatching}" | "state q = Dispatching" | "state q = Uncertain" by blast
  then show thesis
  proof cases
    case 1
    then show ?thesis by (intro refused [of Changed s]) (simp_all add: markUncertain_def Inr)
  next
    case 2
    show ?thesis
    proof (cases res)
      case (Inl e)
      with 2 adv t show ?thesis by (intro refused [of e t]) (simp_all add: markUncertain_def Inr)
    next
      case (Inr u)
      let ?u = "q\<lparr>completedAt := Some (un_completedAt input), failureCode := Some DispatchOutcomeUnknown,
        resultEventSequence := (case un_resultEventSequence input of
          None \<Rightarrow> resultEventSequence q | Some n \<Rightarrow> Some n), state := Uncertain\<rparr>"
      have u: "markUncertain input s = (Inr ?u, save ?u t)"
        using 2 adv Inr \<open>exact _ _ s = Inr q\<close> by (simp add: markUncertain_def Let_def)
      from 2 q(3) show ?thesis
        by (intro saved [OF u t q(1)]) (auto simp: terminal_def)
    qed
  next
    case 3
    show ?thesis
    proof (cases "un_resultEventSequence input")
      case None
      with 3 q Inr show ?thesis by (intro again [of q]) (simp_all add: markUncertain_def)
    next
      case (Some n)
      consider "resultEventSequence q = Some n" | "resultEventSequence q = None"
        | "resultEventSequence q \<noteq> Some n" "resultEventSequence q \<noteq> None" by blast
      then show ?thesis
      proof cases
        case 1
        with 3 q Inr Some show ?thesis by (intro again [of q]) (simp_all add: markUncertain_def)
      next
        case 2
        show ?thesis
        proof (cases res)
          case (Inl e)
          with 2 3 Some adv t \<open>exact _ _ s = Inr q\<close> show ?thesis
            by (intro refused [of e t]) (simp_all add: markUncertain_def)
        next
          case (Inr u)
          let ?u = "q\<lparr>resultEventSequence := Some n\<rparr>"
          have u: "markUncertain input s = (Inr ?u, save ?u t)"
            using 2 3 Some adv Inr \<open>exact _ _ s = Inr q\<close> by (simp add: markUncertain_def Let_def)
          from 3 q(3) show ?thesis
            by (intro saved [OF u t q(1)]) (auto simp: terminal_def)
        qed
      next
        case 3
        with \<open>state q = Uncertain\<close> Inr Some show ?thesis
          by (intro refused [of Changed s]) (simp_all add: markUncertain_def)
      qed
    qed
  qed
qed

lemma markUncertain_spec:
  assumes "all_records record_final s"
  shows "all_records record_final (snd (markUncertain input s))"
    and "fst (markUncertain input s) = Inr r \<Longrightarrow>
      \<exists>q. js_get (records (snd (markUncertain input s))) (identity_key (un_identity input)) = Some q \<and>
        state q \<noteq> Reserved"
proof -
  show "all_records record_final (snd (markUncertain input s))"
  proof (cases rule: markUncertain_cases [of input s])
    case (saved q u t)
    have "record_final q" using assms saved(3) by (rule all_recordsD)
    with saved have "record_final u" by (auto simp: record_final_def)
    with saved assms show ?thesis by (simp add: all_records_save)
  qed (simp_all add: assms all_records_same [OF assms])
  assume "fst (markUncertain input s) = Inr r"
  then show "\<exists>q. js_get (records (snd (markUncertain input s))) (identity_key (un_identity input)) = Some q \<and>
        state q \<noteq> Reserved"
    by (cases rule: markUncertain_cases [of input s]) auto
qed

lemma rebind_spec:
  assumes "all_records record_final s"
  shows "all_records record_final (snd (rebindSession input s))"
    and "fst (rebindSession input s) = Inr r \<Longrightarrow>
      js_get (records (snd (rebindSession input s))) (identity_key (identity r)) = Some r \<and>
      command r = Some (rb_command input) \<and> same_operation (identity r) (rb_identity input)"
proof -
  have "all_records record_final (snd (rebindSession input s)) \<and> (fst (rebindSession input s) = Inr r \<longrightarrow>
      js_get (records (snd (rebindSession input s))) (identity_key (identity r)) = Some r \<and>
      command r = Some (rb_command input) \<and> same_operation (identity r) (rb_identity input))"
  proof (cases "exact (rb_fingerprint input) (rb_identity input) s")
    case (Inl e)
    with assms show ?thesis by (simp add: rebindSession_def)
  next
    case (Inr q)
    note q = exact_Inr [OF Inr]
    have final: "record_final q" using assms q(1) by (rule all_recordsD)
    show ?thesis
      using assms Inr q final
      by (auto simp: rebindSession_def Let_def record_final_def terminal_def same_operation_def
          split: option.split intro!: all_records_save)
  qed
  then show "all_records record_final (snd (rebindSession input s))"
    and "fst (rebindSession input s) = Inr r \<Longrightarrow>
      js_get (records (snd (rebindSession input s))) (identity_key (identity r)) = Some r \<and>
      command r = Some (rb_command input) \<and> same_operation (identity r) (rb_identity input)"
    by auto
qed

end
