(* ===== verification/JS_Date.thy ===== *)
theory JS_Date
  imports JS_Prelude "HOL-Library.Monad_Syntax"
begin

text \<open>
  \<open>Date\<close>: instants as milliseconds since 1970-01-01T00:00:00Z (integers), \<open>Date.parse\<close> for the date
  time string format of the ECMAScript standard (\<open>None\<close> stands for \<open>NaN\<close>) and
  \<open>toISOString\<close>. A date-time without an offset is read as UTC; a day up to 31 overflows into
  the next month. Other formats, which the standard leaves to the implementation, are not read.
  \<open>date_parse_to_iso\<close> is the round trip, over the whole range of \<open>Date\<close>.
\<close>

section \<open>The calendar\<close>

definition leap_year :: "int \<Rightarrow> bool" where
  "leap_year y \<longleftrightarrow> 4 dvd y \<and> (\<not> 100 dvd y \<or> 400 dvd y)"

text \<open>Days from 1970-01-01 to the first day of a year.\<close>

definition days_to_year :: "int \<Rightarrow> int" where
  "days_to_year y = 365 * (y - 1970) + (y - 1) div 4 - (y - 1) div 100 + (y - 1) div 400 - 477"

definition month_lengths :: "int \<Rightarrow> int list" where
  "month_lengths y = [31, if leap_year y then 29 else 28, 31, 30, 31, 30, 31, 31, 30, 31, 30, 31]"

definition days_to_month :: "int \<Rightarrow> int \<Rightarrow> int" where
  "days_to_month y m = sum_list (take (nat (m - 1)) (month_lengths y))"

definition day_number :: "int \<Rightarrow> int \<Rightarrow> int \<Rightarrow> int" where
  "day_number y m d = days_to_year y + days_to_month y m + d - 1"

lemma div_step:
  fixes y k :: int
  assumes "k > 0"
  shows "y div k = (y - 1) div k + (if k dvd y then 1 else 0)"
proof (cases "k dvd y")
  case True
  then have "y = k * (y div k)" by simp
  then have "y - 1 = k * (y div k - 1) + (k - 1)" by (simp add: algebra_simps)
  then have "(y - 1) div k = y div k - 1"
    by (rule int_div_pos_eq) (use assms in simp_all)
  with True show ?thesis by simp
next
  case False
  then have "y mod k \<noteq> 0" by (simp add: dvd_eq_mod_eq_0)
  moreover from assms have "0 \<le> y mod k" "y mod k < k" by simp_all
  ultimately have r: "0 \<le> y mod k - 1" "y mod k - 1 < k" by linarith+
  have "y - 1 = k * (y div k) + (y mod k - 1)" by simp
  then have "(y - 1) div k = y div k" by (rule int_div_pos_eq) (fact r)+
  with False show ?thesis by simp
qed

lemma days_to_year_step:
  "days_to_year (y + 1) = days_to_year y + (if leap_year y then 366 else 365)"
proof -
  have "(4 :: int) dvd 100" "(100 :: int) dvd 400" by simp_all
  then have "100 dvd y \<Longrightarrow> 4 dvd y" "400 dvd y \<Longrightarrow> 100 dvd y"
    by (blast intro: dvd_trans)+
  note multiples = this
  define a b c where "a = (y - 1) div 4" and "b = (y - 1) div 100" and "c = (y - 1) div 400"
  have this_year: "days_to_year y = 365 * (y - 1970) + a - b + c - 477"
    by (simp only: days_to_year_def a_def b_def c_def)
  have "y div 4 = a + (if 4 dvd y then 1 else 0)" "y div 100 = b + (if 100 dvd y then 1 else 0)"
    "y div 400 = c + (if 400 dvd y then 1 else 0)"
    unfolding a_def b_def c_def by (rule div_step, simp)+
  then have next_year: "days_to_year (y + 1) = 365 * (y + 1 - 1970)
      + (a + (if 4 dvd y then 1 else 0)) - (b + (if 100 dvd y then 1 else 0))
      + (c + (if 400 dvd y then 1 else 0)) - 477"
    by (simp only: days_to_year_def add_diff_cancel_right')
  show ?thesis
    unfolding this_year next_year leap_year_def
    using multiples by (cases "4 dvd y"; cases "100 dvd y"; cases "400 dvd y") simp_all
qed

lemma days_to_year_le_step: "days_to_year y + 365 \<le> days_to_year (y + 1)"
  by (simp add: days_to_year_step)

lemma days_to_year_mono: "y \<le> z \<Longrightarrow> days_to_year y \<le> days_to_year z"
proof (induction z rule: int_ge_induct)
  case (step z)
  then show ?case using days_to_year_le_step [of z] by simp
qed simp

lemma days_to_year_less: "y < z \<Longrightarrow> days_to_year y < days_to_year z"
  using days_to_year_mono [of "y + 1" z] days_to_year_le_step [of y] by simp

text \<open>The year of a day: the first guess counts years of 365 days, then it is corrected.\<close>

function year_from :: "int \<Rightarrow> int \<Rightarrow> int" where
  "year_from d y =
     (if d < days_to_year y then year_from d (y - 1)
      else if days_to_year (y + 1) \<le> d then year_from d (y + 1) else y)"
  by pat_completeness auto

termination
proof (relation "measure (\<lambda>(d, y). nat (if d < days_to_year y then days_to_year y - d + 400
    else d - days_to_year y))", goal_cases)
  case (2 d y)
  then show ?case
    using days_to_year_le_step [of "y - 1"] days_to_year_step [of "y - 1"]
    by (cases "leap_year (y - 1)") auto
next
  case (3 d y)
  then show ?case using days_to_year_le_step [of y] by simp
qed simp

declare year_from.simps [simp del]

lemma year_from_spec:
  "days_to_year (year_from d y) \<le> d \<and> d < days_to_year (year_from d y + 1)"
  by (induction d y rule: year_from.induct) (subst (1 2) year_from.simps, simp)

lemma year_unique:
  assumes "days_to_year y \<le> d" and "d < days_to_year (y + 1)"
    and "days_to_year z \<le> d" and "d < days_to_year (z + 1)"
  shows "y = z"
proof (rule ccontr)
  assume "y \<noteq> z"
  then consider "y + 1 \<le> z" | "z + 1 \<le> y" by linarith
  then show False
    using days_to_year_mono [of "y + 1" z] days_to_year_mono [of "z + 1" y] assms by cases simp_all
qed

definition year_of_day :: "int \<Rightarrow> int" where
  "year_of_day d = year_from d (1970 + d div 365)"

text \<open>The month and the day in it, from the days since the start of the year.\<close>

fun month_day :: "int \<Rightarrow> int list \<Rightarrow> int \<times> int" where
  "month_day d [] = (1, d + 1)"
| "month_day d (n # ns) =
     (if d < n then (1, d + 1) else (case month_day (d - n) ns of (m, k) \<Rightarrow> (m + 1, k)))"

lemma month_day_spec:
  assumes "0 \<le> d" and "d < sum_list ns" and "month_day d ns = (m, k)"
  shows "1 \<le> m \<and> m \<le> int (length ns) \<and> 1 \<le> k \<and> k \<le> ns ! nat (m - 1) \<and>
    sum_list (take (nat (m - 1)) ns) + k - 1 = d"
  using assms
proof (induction ns arbitrary: d m)
  case (Cons n ns)
  show ?case
  proof (cases "d < n")
    case True
    with Cons.prems show ?thesis by auto
  next
    case False
    then obtain m' where m': "month_day (d - n) ns = (m', k)" "m = m' + 1"
      using Cons.prems by (auto split: prod.splits)
    have IH: "1 \<le> m' \<and> m' \<le> int (length ns) \<and> 1 \<le> k \<and> k \<le> ns ! nat (m' - 1) \<and>
        sum_list (take (nat (m' - 1)) ns) + k - 1 = d - n"
      using Cons.prems False by (intro Cons.IH [OF _ _ m'(1)]) simp_all
    then obtain i where "m' = int i + 1" by (metis zle_iff_zadd add.commute)
    with IH m'(2) show ?thesis by (simp add: nat_add_distrib)
  qed
qed simp

definition day_date :: "int \<Rightarrow> int \<times> int \<times> int" where
  "day_date d = (let y = year_of_day d; (m, k) = month_day (d - days_to_year y) (month_lengths y)
     in (y, m, k))"

lemma month_lengths_sum: "sum_list (month_lengths y) = (if leap_year y then 366 else 365)"
  by (simp add: month_lengths_def)

lemma month_lengths_le: "n \<in> set (month_lengths y) \<Longrightarrow> n \<le> 31"
  by (auto simp: month_lengths_def split: if_splits)

lemma day_date_spec:
  assumes "day_date d = (y, m, k)"
  shows "day_number y m k = d" "1 \<le> m" "m \<le> 12" "1 \<le> k" "k \<le> 31" "y = year_of_day d"
proof -
  have y: "y = year_of_day d" and mk: "month_day (d - days_to_year y) (month_lengths y) = (m, k)"
    using assms by (auto simp: day_date_def Let_def split: prod.splits)
  have "0 \<le> d - days_to_year y" "d - days_to_year y < sum_list (month_lengths y)"
    using year_from_spec [of d "1970 + d div 365"] days_to_year_step [of y]
    by (simp_all add: y year_of_day_def month_lengths_sum)
  note spec = month_day_spec [OF this mk]
  then show "day_number y m k = d" "1 \<le> m" "m \<le> 12" "1 \<le> k" "y = year_of_day d"
    by (simp_all add: day_number_def days_to_month_def y month_lengths_def)
  have "month_lengths y ! nat (m - 1) \<in> set (month_lengths y)"
    using spec by (intro nth_mem) linarith
  then show "k \<le> 31" using spec month_lengths_le [of _ y] by fastforce
qed

section \<open>Reading and writing instants\<close>

definition digit_char :: "nat \<Rightarrow> char" where
  "digit_char n = char_of (48 + n)"

definition digit_value :: "char \<Rightarrow> nat" where
  "digit_value c = of_char c - 48"

primrec pad :: "nat \<Rightarrow> nat \<Rightarrow> string" where
  "pad 0 n = []"
| "pad (Suc k) n = pad k (n div 10) @ [digit_char (n mod 10)]"

definition digits_value :: "string \<Rightarrow> nat" where
  "digits_value s = foldl (\<lambda>a c. 10 * a + digit_value c) 0 s"

definition read_digits :: "nat \<Rightarrow> string \<Rightarrow> (int \<times> string) option" where
  "read_digits k s =
     (if k \<le> length s \<and> list_all is_digit (take k s)
      then Some (int (digits_value (take k s)), drop k s) else None)"

fun read_char :: "char \<Rightarrow> string \<Rightarrow> string option" where
  "read_char c [] = None"
| "read_char c (x # xs) = (if x = c then Some xs else None)"

definition read_year :: "string \<Rightarrow> (int \<times> string) option" where
  "read_year s =
     (case read_char (CHR ''+'') s of
        Some r \<Rightarrow> read_digits 6 r
      | None \<Rightarrow>
          (case read_char (CHR ''-'') s of
             Some r \<Rightarrow> do { (y, t) \<leftarrow> read_digits 6 r; if y = 0 then None else Some (- y, t) }
           | None \<Rightarrow> read_digits 4 s))"

definition read_date :: "string \<Rightarrow> (int \<times> string) option" where
  "read_date s = do {
     (y, s1) \<leftarrow> read_year s;
     case read_char (CHR ''-'') s1 of
       None \<Rightarrow> Some (day_number y 1 1, s1)
     | Some s2 \<Rightarrow> do {
         (m, s3) \<leftarrow> read_digits 2 s2;
         if m < 1 \<or> 12 < m then None
         else (case read_char (CHR ''-'') s3 of
             None \<Rightarrow> Some (day_number y m 1, s3)
           | Some s4 \<Rightarrow> do {
               (d, s5) \<leftarrow> read_digits 2 s4;
               if d < 1 \<or> 31 < d then None else Some (day_number y m d, s5) }) } }"

definition read_seconds :: "string \<Rightarrow> (int \<times> int \<times> string) option" where
  "read_seconds s =
     (case read_char (CHR '':'') s of
        None \<Rightarrow> Some (0, 0, s)
      | Some s1 \<Rightarrow> do {
          (sec, s2) \<leftarrow> read_digits 2 s1;
          case read_char (CHR ''.'') s2 of
            None \<Rightarrow> Some (sec, 0, s2)
          | Some s3 \<Rightarrow>
              if takeWhile is_digit s3 = [] then None
              else Some (sec, int (digits_value (take 3 (takeWhile is_digit s3 @ ''00''))),
                     dropWhile is_digit s3) })"

definition read_time :: "string \<Rightarrow> (int \<times> string) option" where
  "read_time s = do {
     (h, s1) \<leftarrow> read_digits 2 s;
     s2 \<leftarrow> read_char (CHR '':'') s1;
     (mi, s3) \<leftarrow> read_digits 2 s2;
     (sec, ms, s4) \<leftarrow> read_seconds s3;
     if h \<le> 24 \<and> mi \<le> 59 \<and> sec \<le> 59 \<and> (h = 24 \<longrightarrow> mi = 0 \<and> sec = 0 \<and> ms = 0)
     then Some (((h * 60 + mi) * 60 + sec) * 1000 + ms, s4) else None }"

text \<open>The offset from UTC, in minutes, up to the end of the text.\<close>

definition read_offset :: "string \<Rightarrow> int option" where
  "read_offset s =
     (if s = [] \<or> s = ''Z'' then Some 0
      else do {
        (sgn, s1) \<leftarrow> (case read_char (CHR ''+'') s of
            Some r \<Rightarrow> Some (1, r)
          | None \<Rightarrow> map_option (Pair (- 1)) (read_char (CHR ''-'') s));
        (h, s2) \<leftarrow> read_digits 2 s1;
        s3 \<leftarrow> read_char (CHR '':'') s2;
        (mi, s4) \<leftarrow> read_digits 2 s3;
        if s4 = [] \<and> h \<le> 23 \<and> mi \<le> 59 then Some (sgn * (h * 60 + mi)) else None })"

definition max_time :: int where
  "max_time = 8640000000000000"

definition date_parse :: "string \<Rightarrow> int option" where
  "date_parse s = do {
     (days, s1) \<leftarrow> read_date s;
     ms \<leftarrow> (case read_char (CHR ''T'') s1 of
         None \<Rightarrow> if s1 = [] then Some 0 else None
       | Some s2 \<Rightarrow> do {
           (t, s3) \<leftarrow> read_time s2;
           off \<leftarrow> read_offset s3;
           Some (t - off * 60000) });
     (let n = days * 86400000 + ms in if abs n \<le> max_time then Some n else None) }"

definition iso_year :: "int \<Rightarrow> string" where
  "iso_year y = (if 0 \<le> y \<and> y \<le> 9999 then pad 4 (nat y)
     else if y < 0 then CHR ''-'' # pad 6 (nat (- y)) else CHR ''+'' # pad 6 (nat y))"

definition to_iso :: "int \<Rightarrow> string" where
  "to_iso n =
     (case day_date (n div 86400000) of (y, m, d) \<Rightarrow>
        (let t = n mod 86400000; sec = t div 1000; mi = sec div 60 in
           iso_year y @ CHR ''-'' # pad 2 (nat m) @ CHR ''-'' # pad 2 (nat d) @
           CHR ''T'' # pad 2 (nat (mi div 60)) @ CHR '':'' # pad 2 (nat (mi mod 60)) @
           CHR '':'' # pad 2 (nat (sec mod 60)) @ CHR ''.'' # pad 3 (nat (t mod 1000)) @ ''Z''))"

section \<open>The round trip\<close>

lemma length_pad [simp]: "length (pad k n) = k"
  by (induction k arbitrary: n) auto

lemma is_digit_char [simp]: "n < 10 \<Longrightarrow> is_digit (digit_char n)"
  by (simp add: is_digit_def in_range_def digit_char_def)

lemma digit_value_char [simp]: "n < 10 \<Longrightarrow> digit_value (digit_char n) = n"
  by (simp add: digit_value_def digit_char_def)

lemma pad_digits [simp]: "list_all is_digit (pad k n)"
  by (induction k arbitrary: n) auto

lemma pad_value [simp]: "n < 10 ^ k \<Longrightarrow> digits_value (pad k n) = n"
proof (induction k arbitrary: n)
  case (Suc k)
  then have "digits_value (pad k (n div 10)) = n div 10" by auto
  then show ?case by (simp add: digits_value_def)
qed (simp add: digits_value_def)

lemma read_digits_pad [simp]:
  "n < 10 ^ k \<Longrightarrow> read_digits k (pad k n @ rest) = Some (int n, rest)"
  by (simp add: read_digits_def)

lemma pad_Nil [simp]: "pad k n = [] \<longleftrightarrow> k = 0"
  by (metis length_0_conv length_pad)

lemma read_char_pad [simp]:
  assumes "\<not> is_digit c" and "0 < k"
  shows "read_char c (pad k n @ rest) = None"
proof (cases "pad k n")
  case (Cons x xs)
  with pad_digits [of k n] have "is_digit x" by simp
  with assms(1) Cons show ?thesis by auto
qed (use assms in simp)

lemma not_digits [simp]: "\<not> is_digit (CHR ''+'')" "\<not> is_digit (CHR ''-'')" "\<not> is_digit (CHR ''Z'')"
  by (simp_all add: is_digit_def in_range_def)

lemma read_iso_year:
  assumes "abs y < 1000000"
  shows "read_year (iso_year y @ rest) = Some (y, rest)"
proof -
  consider "0 \<le> y" "y \<le> 9999" | "y < 0" | "9999 < y" by linarith
  then show ?thesis
    using assms by cases (simp_all add: read_year_def iso_year_def)
qed

lemma takeWhile_pad: "\<not> is_digit c \<Longrightarrow> takeWhile is_digit (pad k n @ c # rest) = pad k n"
  using pad_digits [of k n] by (subst takeWhile_append2) (auto simp: list_all_iff)

lemma dropWhile_pad: "\<not> is_digit c \<Longrightarrow> dropWhile is_digit (pad k n @ c # rest) = c # rest"
  using pad_digits [of k n] by (subst dropWhile_append2) (auto simp: list_all_iff)

lemma year_bound:
  assumes "abs d \<le> 100000000"
  shows "abs (year_of_day d) < 1000000"
proof -
  let ?y = "year_of_day d"
  have y: "days_to_year ?y \<le> d" "d < days_to_year (?y + 1)"
    using year_from_spec [of d "1970 + d div 365"] by (simp_all add: year_of_day_def)
  have "days_to_year 1000000 > 100000000" "days_to_year (- 999998) < - 100000000"
    by (simp_all add: days_to_year_def)
  with y assms have "\<not> 1000000 \<le> ?y" "\<not> ?y + 1 \<le> - 999998"
    using days_to_year_mono [of 1000000 ?y] days_to_year_mono [of "?y + 1" "- 999998"] by linarith+
  then show ?thesis by linarith
qed

lemma read_iso_date:
  assumes "day_date d = (y, m, k)" and "abs d \<le> 100000000"
  shows "read_date (iso_year y @ CHR ''-'' # pad 2 (nat m) @ CHR ''-'' # pad 2 (nat k) @ rest) =
    Some (d, rest)"
proof -
  note date = day_date_spec [OF assms(1)]
  then have "read_year (iso_year y @ t) = Some (y, t)" for t
    using year_bound [OF assms(2)] by (intro read_iso_year) simp
  moreover have "nat m < 100" "nat k < 100" using date by simp_all
  ultimately show ?thesis
    using date by (simp add: read_date_def)
qed

lemma read_iso_seconds:
  assumes "0 \<le> sec" "sec < 60" "0 \<le> ms" "ms < 1000"
  shows "read_seconds (CHR '':'' # pad 2 (nat sec) @ CHR ''.'' # pad 3 (nat ms) @ ''Z'') =
    Some (sec, ms, ''Z'')"
  using assms by (simp add: read_seconds_def takeWhile_pad dropWhile_pad)

lemma read_iso_time:
  assumes "0 \<le> h" "h < 24" "0 \<le> mi" "mi < 60" "0 \<le> sec" "sec < 60" "0 \<le> ms" "ms < 1000"
  shows "read_time (pad 2 (nat h) @ CHR '':'' # pad 2 (nat mi) @ CHR '':'' # pad 2 (nat sec) @
      CHR ''.'' # pad 3 (nat ms) @ ''Z'') = Some (((h * 60 + mi) * 60 + sec) * 1000 + ms, ''Z'')"
  using assms read_iso_seconds [of sec ms] by (simp add: read_time_def)

lemma time_parts:
  fixes t :: int
  assumes "0 \<le> t" "t < 86400000"
  shows "0 \<le> t div 1000 div 60 div 60" "t div 1000 div 60 div 60 < 24"
    "((t div 1000 div 60 div 60 * 60 + t div 1000 div 60 mod 60) * 60 + t div 1000 mod 60) * 1000 +
      t mod 1000 = t"
  using assms by (simp_all add: pos_imp_zdiv_nonneg_iff div_less_iff_less_mult minus_mod_eq_mult_div [symmetric])

lemma date_parse_parts:
  assumes "day_date d = (y, m, k)" and "abs d \<le> 100000000"
    and "0 \<le> h" "h < 24" "0 \<le> mi" "mi < 60" "0 \<le> sec" "sec < 60" "0 \<le> ms" "ms < 1000"
    and "n = d * 86400000 + (((h * 60 + mi) * 60 + sec) * 1000 + ms)" and "abs n \<le> max_time"
  shows "date_parse (iso_year y @ CHR ''-'' # pad 2 (nat m) @ CHR ''-'' # pad 2 (nat k) @
    CHR ''T'' # pad 2 (nat h) @ CHR '':'' # pad 2 (nat mi) @ CHR '':'' # pad 2 (nat sec) @
    CHR ''.'' # pad 3 (nat ms) @ ''Z'') = Some n"
proof -
  have "read_offset ''Z'' = Some 0" by (simp add: read_offset_def)
  then show ?thesis
    using read_iso_time [OF assms(3-10)] assms(11,12)
    by (simp add: date_parse_def read_iso_date [OF assms(1,2)] Let_def)
qed

lemma date_parse_to_iso [simp]:
  assumes "abs n \<le> max_time"
  shows "date_parse (to_iso n) = Some n"
proof -
  let ?d = "n div 86400000" and ?t = "n mod 86400000"
  obtain y m k where date: "day_date ?d = (y, m, k)" by (cases "day_date ?d")
  have "?d \<le> 100000000" "- 100000000 \<le> ?d"
    using assms by (simp_all add: max_time_def)
  then have small: "abs ?d \<le> 100000000" by simp
  have "0 \<le> ?t" "?t < 86400000" by simp_all
  note parts = time_parts [OF this]
  have n: "n = ?d * 86400000 + (((?t div 1000 div 60 div 60 * 60 + ?t div 1000 div 60 mod 60) * 60 +
      ?t div 1000 mod 60) * 1000 + ?t mod 1000)"
    unfolding parts(3) by (rule div_mult_mod_eq [symmetric])
  show ?thesis
    unfolding to_iso_def date prod.case Let_def
    by (rule date_parse_parts [OF date small parts(1,2) _ _ _ _ _ _ n assms]) simp_all
qed

section \<open>Decimal numbers\<close>

text \<open>\<open>String(n)\<close> of an integer.\<close>

function nat_string :: "nat \<Rightarrow> string" where
  "nat_string n = (if n < 10 then [digit_char n] else nat_string (n div 10) @ [digit_char (n mod 10)])"
  by auto
termination by (relation "measure id") simp_all

declare nat_string.simps [simp del]

definition int_string :: "int \<Rightarrow> string" where
  "int_string n = (if n < 0 then CHR ''-'' # nat_string (nat (- n)) else nat_string (nat n))"

lemma nat_string_digits: "list_all is_digit (nat_string n) \<and> digits_value (nat_string n) = n"
proof (induction n rule: nat_string.induct)
  case (1 n)
  then show ?case
    by (subst (1 2) nat_string.simps) (auto simp: digits_value_def)
qed

lemma nat_string_inj [simp]: "nat_string a = nat_string b \<longleftrightarrow> a = b"
  using nat_string_digits [of a] nat_string_digits [of b] by metis

lemma nat_string_not_Nil [simp]: "nat_string n \<noteq> []"
  by (subst nat_string.simps) simp

lemma nat_string_minus [simp]: "nat_string a \<noteq> CHR ''-'' # s"
  using nat_string_digits [of a] by (auto simp: is_digit_def in_range_def)

lemma int_string_inj [simp]: "int_string a = int_string b \<longleftrightarrow> a = b"
  by (auto simp: int_string_def dest: sym [of "CHR ''-'' # _"])

end
