(* ===== verification/RuntimeTypes.thy ===== *)
theory RuntimeTypes
  imports Complex_Main JS_Date
begin

text \<open>
  Workspace Runtime sessions: the records and messages of
  \<open>src/shared/workspace-runtime-session-api.ts\<close>, the scopes and inputs of
  \<open>server/workspace-runtime-session/contracts.ts\<close>, and the checks of a credential request in
  \<open>server/workspace-runtime-session/validation.ts\<close>. The fixed \<open>schemaVersion\<close> is left
  implicit; percentages, which may be fractional, are rationals.
\<close>

section \<open>Capabilities, states, messages\<close>

datatype runtime_capability =
    CapLifecycle | CapHeartbeat | CapDevServers | CapTelemetry | CapLogPointers
  | CapCodex | CapControl | CapMutation

fun capability_name :: "runtime_capability \<Rightarrow> string" where
  "capability_name CapLifecycle = ''runtime.lifecycle''"
| "capability_name CapHeartbeat = ''runtime.heartbeat''"
| "capability_name CapDevServers = ''runtime.dev-servers''"
| "capability_name CapTelemetry = ''runtime.telemetry''"
| "capability_name CapLogPointers = ''runtime.log-pointers''"
| "capability_name CapCodex = ''runtime.codex.v1''"
| "capability_name CapControl = ''runtime.control.v1''"
| "capability_name CapMutation = ''runtime.mutation.v1''"

definition workspaceRuntimeBaseCapabilities :: "runtime_capability list" where
  "workspaceRuntimeBaseCapabilities =
     [CapLifecycle, CapHeartbeat, CapDevServers, CapTelemetry, CapLogPointers]"

definition readyCapabilitySet :: "runtime_capability list" where
  "readyCapabilitySet = [CapCodex, CapControl, CapMutation]"

datatype connection_state = Connecting | Online | Disconnected | Stale | ConnectionStopped

datatype lifecycle_state = Starting | Running | Suspended | Stopping | Stopped | Failed

datatype dev_server_state = DevStarting | DevReady | DevStopped | DevFailed

record runtime_dev_server =
  ds_name :: string
  ds_port :: int
  ds_state :: dev_server_state
  ds_url :: "string option"

record runtime_presentation =
  pr_repository :: string
  pr_task :: "int option"

record runtime_credential =
  rc_capabilities :: "runtime_capability list"
  rc_credentialId :: string
  rc_environmentId :: string
  rc_expiresAt :: string
  rc_generation :: string
  rc_token :: string
  rc_workspaceId :: string

record runtime_registration =
  rg_branch :: string
  rg_commit :: string
  rg_environmentId :: string
  rg_generation :: string
  rg_manifestDigest :: string
  rg_readyCapabilities :: "runtime_capability list option"
  rg_resumeAfterSequence :: int
  rg_resumeAfterCodexCommandSequence :: "int option"
  rg_resumeAfterCodexEventSequence :: "int option"
  rg_resumeAfterControlCommandSequence :: "int option"
  rg_resumeAfterControlEventSequence :: "int option"
  rg_runtimeVersion :: string
  rg_workspaceId :: string

datatype runtime_event_body =
    LifecycleEvent lifecycle_state
  | HeartbeatEvent
  | DevServersEvent "runtime_dev_server list"
  | TelemetryEvent rat int
  | LogPointerEvent string

record runtime_event =
  re_eventId :: string
  re_observedAt :: string
  re_sequence :: int
  re_body :: runtime_event_body

record runtime_snapshot =
  sn_branch :: string
  sn_capabilities :: "runtime_capability list"
  sn_codexAcceptedCommandSequence :: "int option"
  sn_commit :: string
  sn_connectionState :: connection_state
  sn_devServers :: "runtime_dev_server list"
  sn_environmentId :: string
  sn_expiresAt :: string
  sn_generation :: string
  sn_lastEventAt :: string
  sn_lastHeartbeatAt :: string
  sn_lastSequence :: int
  sn_lifecycleState :: lifecycle_state
  sn_logPointer :: "string option"
  sn_manifestDigest :: string
  sn_presentation :: "runtime_presentation option"
  sn_runtimeVersion :: string
  sn_sessionId :: string
  sn_telemetry :: "(rat \<times> int) option"
  sn_workspaceId :: string

section \<open>Scopes and inputs\<close>

datatype runtime_error =
    AuthenticationFailed | CredentialExpired | GenerationReplaced | InvalidMessage
  | OperationInProgress | ReplayConflict | SequenceConflict | InvalidToken

record credential_scope =
  sc_branch :: string
  sc_capabilities :: "runtime_capability list"
  sc_commit :: string
  sc_credentialId :: string
  sc_environmentId :: string
  sc_expiresAt :: string
  sc_generation :: string
  sc_manifestDigest :: string
  sc_ownerUserId :: string
  sc_presentation :: "runtime_presentation option"
  sc_requestedCapabilities :: "runtime_capability list"
  sc_runtimeVersion :: string
  sc_workspaceId :: string

record issue_input =
  is_branch :: string
  is_capabilities :: "runtime_capability list"
  is_commit :: string
  is_environmentId :: string
  is_expiresInSeconds :: "int option"
  is_generation :: string
  is_manifestDigest :: string
  is_operationId :: string
  is_ownerUserId :: string
  is_presentation :: "runtime_presentation option"
  is_requestedCapabilities :: "runtime_capability list"
  is_runtimeVersion :: string
  is_workspaceId :: string

record event_record =
  er_event :: runtime_event
  er_fingerprint :: string

record session_record =
  se_credentialId :: string
  se_events :: "(string, event_record) jsmap"
  se_snapshot :: runtime_snapshot

text \<open>\<open>StoredCredential\<close>: the scope with the operation, the revocation and the hash of the token.\<close>

record stored_credential = credential_scope +
  sc_operationId :: string
  sc_revokedAt :: "string option"
  sc_tokenHash :: string

section \<open>Checks of a credential request\<close>

text \<open>\<open>/^[0-9a-f]{8}-[0-9a-f]{4}-[1-8][0-9a-f]{3}-[89ab][0-9a-f]{3}-[0-9a-f]{12}$/\<close>\<close>

definition runtime_uuid :: "string \<Rightarrow> bool" where
  "runtime_uuid = class_seq
     (replicate 8 is_lower_hex @ [(=) (CHR ''-'')] @ replicate 4 is_lower_hex @ [(=) (CHR ''-'')] @
      [in_range (CHR ''1'') (CHR ''8'')] @ replicate 3 is_lower_hex @ [(=) (CHR ''-'')] @
      [(\<lambda>c. c \<in> set ''89ab'')] @ replicate 3 is_lower_hex @ [(=) (CHR ''-'')] @
      replicate 12 is_lower_hex)"

definition digest_pattern :: "string \<Rightarrow> bool" where
  "digest_pattern = class_rep is_lower_hex 64 64"

definition commit_pattern :: "string \<Rightarrow> bool" where
  "commit_pattern s \<longleftrightarrow> class_rep is_lower_hex 40 40 s \<or> class_rep is_lower_hex 64 64 s"

definition id_pattern_char :: "char \<Rightarrow> bool" where
  "id_pattern_char c \<longleftrightarrow> is_alnum c \<or> c \<in> set '':._-''"

definition event_id_pattern :: "string \<Rightarrow> bool" where
  "event_id_pattern = class_rep id_pattern_char 1 128"

definition operation_id_pattern :: "string \<Rightarrow> bool" where
  "operation_id_pattern = class_rep id_pattern_char 1 256"

definition control_char :: "char \<Rightarrow> bool" where
  "control_char c \<longleftrightarrow> (of_char c :: nat) \<le> 31 \<or> (of_char c :: nat) = 127"

definition safeText :: "nat \<Rightarrow> string \<Rightarrow> bool" where
  "safeText maximum s \<longleftrightarrow> s \<noteq> [] \<and> length s \<le> maximum \<and> list_all (\<lambda>c. \<not> control_char c) s"

text \<open>\<open>/^[A-Za-z0-9_.-]+\/[A-Za-z0-9_.-]+$/\<close>\<close>

definition repo_char :: "char \<Rightarrow> bool" where
  "repo_char c \<longleftrightarrow> is_alnum c \<or> c \<in> set ''_.-''"

definition repository_pattern :: "string \<Rightarrow> bool" where
  "repository_pattern s \<longleftrightarrow>
     (let owner = takeWhile repo_char s; rest = dropWhile repo_char s
      in owner \<noteq> [] \<and> (case rest of [] \<Rightarrow> False
           | c # name \<Rightarrow> c = CHR ''/'' \<and> name \<noteq> [] \<and> list_all repo_char name))"

definition parseCapabilities :: "runtime_capability list \<Rightarrow> bool" where
  "parseCapabilities cs \<longleftrightarrow> cs \<noteq> [] \<and> length cs \<le> length workspaceRuntimeBaseCapabilities \<and>
     distinct cs \<and> set cs \<subseteq> set workspaceRuntimeBaseCapabilities"

definition parseRequestedCapabilities :: "runtime_capability list \<Rightarrow> bool" where
  "parseRequestedCapabilities cs \<longleftrightarrow> length cs \<le> length readyCapabilitySet \<and>
     distinct cs \<and> set cs \<subseteq> set readyCapabilitySet"

text \<open>\<open>validateCredentialIssue\<close>: the lifetime in seconds, unless a check throws.\<close>

definition validateCredentialIssue :: "issue_input \<Rightarrow> runtime_error + int" where
  "validateCredentialIssue input =
     (let expires = (case is_expiresInSeconds input of None \<Rightarrow> 300 | Some n \<Rightarrow> n)
      in if js_trim (is_ownerUserId input) = [] \<or> 256 < length (is_ownerUserId input) \<or>
            \<not> runtime_uuid (is_workspaceId input) \<or> \<not> runtime_uuid (is_environmentId input) \<or>
            \<not> runtime_uuid (is_generation input) \<or> \<not> commit_pattern (is_commit input) \<or>
            \<not> digest_pattern (is_manifestDigest input) \<or>
            \<not> operation_id_pattern (is_operationId input) \<or>
            \<not> is_safe_integer expires \<or> expires < 30 \<or> 3600 < expires \<or>
            \<not> safeText 256 (is_branch input) \<or> \<not> safeText 64 (is_runtimeVersion input) \<or>
            (case is_presentation input of
               None \<Rightarrow> False
             | Some p \<Rightarrow> \<not> safeText 256 (pr_repository p) \<or> \<not> repository_pattern (pr_repository p) \<or>
                 (case pr_task p of None \<Rightarrow> False | Some n \<Rightarrow> \<not> is_safe_integer n \<or> n \<le> 0)) \<or>
            \<not> parseCapabilities (is_capabilities input) \<or>
            \<not> parseRequestedCapabilities (is_requestedCapabilities input)
         then Inl InvalidMessage else Inr expires)"

end
