(* ===== verification/RuntimeStore.thy ===== *)
theory RuntimeStore
  imports Contracts RuntimeTypes
begin

text \<open>
  The in-memory store of Workspace Runtime sessions
  (\<open>server/workspace-runtime-session/memory-store.ts\<close>): launch credentials, the current
  credential of each Workspace, and the session record of each Workspace with its events.

  The clock, the new credential id and the random token are arguments of the calls that draw them;
  \<open>hash\<close> is the SHA-256 of a token and \<open>fp\<close> the SHA-256 of an event's JSON text, which
  \<open>node:crypto\<close> computes. A credential object is shared between \<open>credentials\<close> and
  \<open>operationCredentials\<close>; only its revocation is ever changed, which is read through
  \<open>credentials\<close> alone, so the second map keeps a copy.
\<close>

section \<open>State\<close>

record runtime_store =
  credentials :: "(string, stored_credential) jsmap"
  currentCredentials :: "(string, string) jsmap"
  operationCredentials :: "(string, stored_credential) jsmap"
  sessions :: "(string, session_record) jsmap"

definition empty_runtime :: runtime_store where
  "empty_runtime =
     \<lparr>credentials = [], currentCredentials = [], operationCredentials = [], sessions = []\<rparr>"

definition runtimeKey :: "string \<Rightarrow> string \<Rightarrow> string" where
  "runtimeKey owner workspace = nul_key owner workspace"

definition scope_runtimeKey :: "'a credential_scope_scheme \<Rightarrow> string" where
  "scope_runtimeKey scope = runtimeKey (sc_ownerUserId scope) (sc_workspaceId scope)"

definition operation_key :: "string \<Rightarrow> string \<Rightarrow> string" where
  "operation_key owner operationId = nul_key owner operationId"

text \<open>\<open>[...capabilities].sort().join('\0')\<close>\<close>

fun join_nul :: "string list \<Rightarrow> string" where
  "join_nul [] = []"
| "join_nul [x] = x"
| "join_nul (x # y # ys) = x @ NUL # join_nul (y # ys)"

definition capability_text :: "runtime_capability list \<Rightarrow> string" where
  "capability_text cs = join_nul (sort (map capability_name cs))"

definition sameIssue :: "stored_credential \<Rightarrow> issue_input \<Rightarrow> bool" where
  "sameIssue left right \<longleftrightarrow>
     sc_workspaceId left = is_workspaceId right \<and> sc_environmentId left = is_environmentId right \<and>
     sc_generation left = is_generation right \<and> sc_branch left = is_branch right \<and>
     sc_commit left = is_commit right \<and> sc_manifestDigest left = is_manifestDigest right \<and>
     sc_runtimeVersion left = is_runtimeVersion right \<and>
     capability_text (sc_capabilities left) = capability_text (is_capabilities right) \<and>
     capability_text (sc_requestedCapabilities left) = capability_text (is_requestedCapabilities right)"

definition token_pattern :: "string \<Rightarrow> bool" where
  "token_pattern = class_rep (\<lambda>c. is_alnum c \<or> c \<in> set ''_-'') 43 43"

definition publicCredential :: "stored_credential \<Rightarrow> string \<Rightarrow> runtime_credential" where
  "publicCredential c token =
     \<lparr>rc_capabilities = sc_capabilities c, rc_credentialId = sc_credentialId c,
      rc_environmentId = sc_environmentId c, rc_expiresAt = sc_expiresAt c,
      rc_generation = sc_generation c, rc_token = token, rc_workspaceId = sc_workspaceId c\<rparr>"

definition safeScope :: "stored_credential \<Rightarrow> credential_scope" where
  "safeScope c = credential_scope.truncate c"

section \<open>Credentials\<close>

record issue_draw =
  dr_now :: int
  dr_credentialId :: string
  dr_token :: string

text \<open>
  The credential a new one replaces: the current one of the Workspace, or else one of the same
  generation that lost its place.
\<close>

definition previous_credential ::
    "issue_input \<Rightarrow> runtime_store \<Rightarrow> (string \<times> stored_credential) option" where
  "previous_credential input s =
     (let key = runtimeKey (is_ownerUserId input) (is_workspaceId input);
          replaced = js_get (currentCredentials s) key
      in if truthy replaced
         then find (\<lambda>(_, c). Some (sc_credentialId c) = replaced) (credentials s)
         else find (\<lambda>(_, c). scope_runtimeKey c = key \<and> sc_generation c = is_generation input)
           (credentials s))"

definition source_changed :: "stored_credential \<Rightarrow> issue_input \<Rightarrow> bool" where
  "source_changed c input \<longleftrightarrow>
     sc_environmentId c \<noteq> is_environmentId input \<or> sc_branch c \<noteq> is_branch input \<or>
     sc_commit c \<noteq> is_commit input \<or> sc_manifestDigest c \<noteq> is_manifestDigest input \<or>
     sc_runtimeVersion c \<noteq> is_runtimeVersion input"

definition new_credential ::
    "issue_input \<Rightarrow> string \<Rightarrow> string \<Rightarrow> string \<Rightarrow> stored_credential option \<Rightarrow> stored_credential" where
  "new_credential input credentialId expiresAt tokenHash sameGeneration =
     \<lparr>sc_branch = is_branch input, sc_capabilities = is_capabilities input,
      sc_commit = is_commit input, sc_credentialId = credentialId,
      sc_environmentId = is_environmentId input, sc_expiresAt = expiresAt,
      sc_generation = is_generation input, sc_manifestDigest = is_manifestDigest input,
      sc_ownerUserId = is_ownerUserId input,
      sc_presentation = (case sameGeneration of Some c \<Rightarrow> sc_presentation c
                         | None \<Rightarrow> is_presentation input),
      sc_requestedCapabilities = is_requestedCapabilities input,
      sc_runtimeVersion = is_runtimeVersion input, sc_workspaceId = is_workspaceId input,
      sc_operationId = is_operationId input, sc_revokedAt = None, sc_tokenHash = tokenHash\<rparr>"

text \<open>The checks on the credential that is replaced, its revocation, and the one kept for its presentation.\<close>

definition previous_blocks :: "(string \<times> stored_credential) option \<Rightarrow> issue_input \<Rightarrow> bool" where
  "previous_blocks previous input \<longleftrightarrow>
     (case previous of
        None \<Rightarrow> False
      | Some (_, c) \<Rightarrow> sc_generation c = is_generation input \<and>
          (source_changed c input \<or> \<not> truthy (sc_revokedAt c)))"

definition revoke_previous ::
    "int \<Rightarrow> (string \<times> stored_credential) option \<Rightarrow> runtime_store \<Rightarrow> (string, stored_credential) jsmap" where
  "revoke_previous now previous s =
     (case previous of
        None \<Rightarrow> credentials s
      | Some (k, c) \<Rightarrow> js_set (credentials s) k (c\<lparr>sc_revokedAt := Some (to_iso now)\<rparr>))"

definition same_generation ::
    "(string \<times> stored_credential) option \<Rightarrow> issue_input \<Rightarrow> stored_credential option" where
  "same_generation previous input =
     (case previous of
        None \<Rightarrow> None
      | Some (_, c) \<Rightarrow> if sc_generation c = is_generation input then Some c else None)"

definition issue ::
    "(string \<Rightarrow> string) \<Rightarrow> issue_draw \<Rightarrow> issue_input \<Rightarrow> runtime_store \<Rightarrow>
     (runtime_error + runtime_credential \<times> string option) \<times> runtime_store" where
  "issue hash draw input s =
     (case validateCredentialIssue input of
        Inl e \<Rightarrow> (Inl e, s)
      | Inr seconds \<Rightarrow>
          let expiresAt = to_iso (dr_now draw + seconds * 1000);
              operationKey = operation_key (is_ownerUserId input) (is_operationId input);
              key = runtimeKey (is_ownerUserId input) (is_workspaceId input);
              replaced = js_get (currentCredentials s) key;
              previous = previous_credential input s
          in (case js_get (operationCredentials s) operationKey of
                Some c \<Rightarrow>
                  (Inl (if sameIssue c input then OperationInProgress else ReplayConflict), s)
              | None \<Rightarrow>
                  if \<not> token_pattern (dr_token draw) then (Inl InvalidToken, s)
                  else if map_option (\<lambda>r. sn_generation (se_snapshot r)) (js_get (sessions s) key) =
                      Some (is_generation input)
                  then (Inl GenerationReplaced, s)
                  else if previous_blocks previous input then (Inl GenerationReplaced, s)
                  else
                    let cs = revoke_previous (dr_now draw) previous s;
                        scope = new_credential input (dr_credentialId draw) expiresAt
                          (hash (dr_token draw)) (same_generation previous input)
                    in (Inr (publicCredential scope (dr_token draw),
                             if truthy replaced then replaced else None),
                        s\<lparr>credentials := js_set cs (sc_tokenHash scope) scope,
                          operationCredentials := js_set (operationCredentials s) operationKey scope,
                          currentCredentials :=
                            js_set (currentCredentials s) key (dr_credentialId draw)\<rparr>)))"

definition authenticate ::
    "(string \<Rightarrow> string) \<Rightarrow> int \<Rightarrow> string \<Rightarrow> runtime_store \<Rightarrow> credential_scope option" where
  "authenticate hash now token s =
     (if \<not> token_pattern token then None
      else (case js_get (credentials s) (hash token) of
          None \<Rightarrow> None
        | Some c \<Rightarrow>
            if truthy (sc_revokedAt c) \<or> js_le (date_parse (sc_expiresAt c)) (Some now) \<or>
               js_get (currentCredentials s) (scope_runtimeKey c) \<noteq> Some (sc_credentialId c)
            then None else Some (safeScope c)))"

definition requireCurrent :: "int \<Rightarrow> credential_scope \<Rightarrow> runtime_store \<Rightarrow> runtime_error option" where
  "requireCurrent now scope s =
     (if js_le (date_parse (sc_expiresAt scope)) (Some now) then Some CredentialExpired
      else if js_get (currentCredentials s) (scope_runtimeKey scope) \<noteq> Some (sc_credentialId scope)
      then Some GenerationReplaced else None)"

definition ownerFor :: "runtime_store \<Rightarrow> string \<Rightarrow> string option" where
  "ownerFor s credentialId =
     map_option sc_ownerUserId
       (find (\<lambda>c. sc_credentialId c = credentialId) (js_values (credentials s)))"

definition revoke :: "int \<Rightarrow> string \<Rightarrow> string \<Rightarrow> string \<Rightarrow> runtime_store \<Rightarrow> runtime_store" where
  "revoke now owner workspace credentialId s =
     (let key = runtimeKey owner workspace;
          cs = (case find (\<lambda>(_, c). sc_ownerUserId c = owner \<and> sc_workspaceId c = workspace \<and>
                  sc_credentialId c = credentialId) (credentials s) of
              None \<Rightarrow> credentials s
            | Some (k, c) \<Rightarrow> js_set (credentials s) k (c\<lparr>sc_revokedAt := Some (to_iso now)\<rparr>))
      in s\<lparr>credentials := cs,
           currentCredentials := (if js_get (currentCredentials s) key = Some credentialId
             then js_delete (currentCredentials s) key else currentCredentials s)\<rparr>)"

section \<open>Sessions\<close>

record register_result =
  rr_replacedSessionId :: "string option"
  rr_replacedCredentialId :: "string option"
  rr_snapshot :: runtime_snapshot

definition registration_changed :: "credential_scope \<Rightarrow> runtime_registration \<Rightarrow> bool" where
  "registration_changed scope r \<longleftrightarrow>
     rg_workspaceId r \<noteq> sc_workspaceId scope \<or> rg_environmentId r \<noteq> sc_environmentId scope \<or>
     rg_generation r \<noteq> sc_generation scope \<or> rg_branch r \<noteq> sc_branch scope \<or>
     rg_commit r \<noteq> sc_commit scope \<or> rg_manifestDigest r \<noteq> sc_manifestDigest scope \<or>
     rg_runtimeVersion r \<noteq> sc_runtimeVersion scope"

definition new_snapshot ::
    "credential_scope \<Rightarrow> string \<Rightarrow> string \<Rightarrow> runtime_registration \<Rightarrow> runtime_snapshot" where
  "new_snapshot scope sessionId receivedAt r =
     \<lparr>sn_branch = rg_branch r, sn_capabilities = sc_capabilities scope,
      sn_codexAcceptedCommandSequence = None, sn_commit = rg_commit r,
      sn_connectionState = Online, sn_devServers = [], sn_environmentId = sc_environmentId scope,
      sn_expiresAt = sc_expiresAt scope, sn_generation = sc_generation scope,
      sn_lastEventAt = receivedAt, sn_lastHeartbeatAt = receivedAt, sn_lastSequence = 0,
      sn_lifecycleState = Starting, sn_logPointer = None, sn_manifestDigest = rg_manifestDigest r,
      sn_presentation = sc_presentation scope, sn_runtimeVersion = rg_runtimeVersion r,
      sn_sessionId = sessionId, sn_telemetry = None, sn_workspaceId = sc_workspaceId scope\<rparr>"

definition register ::
    "int \<Rightarrow> credential_scope \<Rightarrow> string \<Rightarrow> string \<Rightarrow> runtime_registration \<Rightarrow> runtime_store \<Rightarrow>
     (runtime_error + register_result) \<times> runtime_store" where
  "register now scope sessionId receivedAt r s =
     (case requireCurrent now scope s of
        Some e \<Rightarrow> (Inl e, s)
      | None \<Rightarrow>
          if registration_changed scope r then (Inl AuthenticationFailed, s)
          else
            let key = scope_runtimeKey scope;
                fresh = (\<lambda>replaced.
                  if rg_resumeAfterSequence r \<noteq> 0 then (Inl SequenceConflict, s)
                  else
                    let snapshot = new_snapshot scope sessionId receivedAt r
                    in (Inr \<lparr>rr_replacedSessionId = None, rr_replacedCredentialId = replaced,
                             rr_snapshot = snapshot\<rparr>,
                        s\<lparr>sessions := js_set (sessions s) key
                          \<lparr>se_credentialId = sc_credentialId scope, se_events = [],
                           se_snapshot = snapshot\<rparr>\<rparr>))
            in (case js_get (sessions s) key of
                  None \<Rightarrow> fresh None
                | Some existing \<Rightarrow>
                    let old = se_snapshot existing
                    in if sn_generation old \<noteq> sc_generation scope
                       then fresh (Some (se_credentialId existing))
                       else if sn_lifecycleState old = Stopped then (Inl GenerationReplaced, s)
                       else if rg_resumeAfterSequence r > sn_lastSequence old \<or>
                          sn_branch old \<noteq> rg_branch r \<or> sn_commit old \<noteq> rg_commit r \<or>
                          sn_manifestDigest old \<noteq> rg_manifestDigest r \<or>
                          sn_runtimeVersion old \<noteq> rg_runtimeVersion r
                       then (Inl SequenceConflict, s)
                       else
                         let snapshot = old\<lparr>sn_capabilities := sc_capabilities scope,
                               sn_connectionState := Online, sn_expiresAt := sc_expiresAt scope,
                               sn_lastEventAt := receivedAt, sn_lastHeartbeatAt := receivedAt,
                               sn_sessionId := sessionId\<rparr>
                         in (Inr \<lparr>rr_replacedSessionId = Some (sn_sessionId old),
                                  rr_replacedCredentialId = None, rr_snapshot = snapshot\<rparr>,
                             s\<lparr>sessions := js_set (sessions s) key
                               (existing\<lparr>se_credentialId := sc_credentialId scope,
                                  se_snapshot := snapshot\<rparr>)\<rparr>)))"

fun required_capability :: "runtime_event_body \<Rightarrow> runtime_capability" where
  "required_capability (LifecycleEvent _) = CapLifecycle"
| "required_capability HeartbeatEvent = CapHeartbeat"
| "required_capability (DevServersEvent _) = CapDevServers"
| "required_capability (TelemetryEvent _ _) = CapTelemetry"
| "required_capability (LogPointerEvent _) = CapLogPointers"

fun lifecycle_next :: "lifecycle_state \<Rightarrow> lifecycle_state list" where
  "lifecycle_next Starting = [Running, Failed, Stopping]"
| "lifecycle_next Running = [Suspended, Stopping, Failed]"
| "lifecycle_next Suspended = [Running, Stopping, Failed]"
| "lifecycle_next Stopping = [Stopped, Failed]"
| "lifecycle_next Stopped = []"
| "lifecycle_next Failed = [Stopping, Stopped]"

definition validLifecycleTransition :: "lifecycle_state \<Rightarrow> lifecycle_state \<Rightarrow> bool" where
  "validLifecycleTransition current next \<longleftrightarrow> current = next \<or> next \<in> set (lifecycle_next current)"

definition applyEvent ::
    "runtime_snapshot \<Rightarrow> string \<Rightarrow> runtime_event \<Rightarrow> runtime_error + runtime_snapshot" where
  "applyEvent snapshot receivedAt event =
     (let next = snapshot\<lparr>
            sn_connectionState :=
              (if re_body event = LifecycleEvent Stopped then ConnectionStopped else Online),
            sn_lastEventAt := receivedAt, sn_lastSequence := re_sequence event\<rparr>
      in case re_body event of
           HeartbeatEvent \<Rightarrow> Inr (next\<lparr>sn_lastHeartbeatAt := receivedAt\<rparr>)
         | LifecycleEvent st \<Rightarrow>
             if \<not> validLifecycleTransition (sn_lifecycleState snapshot) st then Inl SequenceConflict
             else Inr (next\<lparr>sn_lifecycleState := st\<rparr>)
         | DevServersEvent servers \<Rightarrow> Inr (next\<lparr>sn_devServers := servers\<rparr>)
         | TelemetryEvent cpu memory \<Rightarrow> Inr (next\<lparr>sn_telemetry := Some (cpu, memory)\<rparr>)
         | LogPointerEvent pointer \<Rightarrow> Inr (next\<lparr>sn_logPointer := Some pointer\<rparr>))"

text \<open>\<open>Date.parse(observedAt) > Date.parse(receivedAt) + 5 * 60_000\<close>\<close>

definition too_far_ahead :: "string \<Rightarrow> string \<Rightarrow> bool" where
  "too_far_ahead observedAt receivedAt \<longleftrightarrow>
     js_lt (map_option (\<lambda>n. n + 300000) (date_parse receivedAt)) (date_parse observedAt)"

record append_result =
  ar_replayed :: bool
  ar_snapshot :: runtime_snapshot

definition append_event ::
    "(runtime_event \<Rightarrow> string) \<Rightarrow> int \<Rightarrow> credential_scope \<Rightarrow> string \<Rightarrow> string \<Rightarrow> runtime_event \<Rightarrow>
     runtime_store \<Rightarrow> (runtime_error + append_result) \<times> runtime_store" where
  "append_event fp now scope sessionId receivedAt event s =
     (case requireCurrent now scope s of
        Some e \<Rightarrow> (Inl e, s)
      | None \<Rightarrow>
          (case js_get (sessions s) (scope_runtimeKey scope) of
             None \<Rightarrow> (Inl GenerationReplaced, s)
           | Some record \<Rightarrow>
               let old = se_snapshot record
               in if se_credentialId record \<noteq> sc_credentialId scope \<or>
                     sn_generation old \<noteq> sc_generation scope \<or> sn_sessionId old \<noteq> sessionId
                  then (Inl GenerationReplaced, s)
                  else if sn_lifecycleState old = Stopped \<or> sn_connectionState old \<noteq> Online
                  then (Inl GenerationReplaced, s)
                  else if required_capability (re_body event) \<notin> set (sc_capabilities scope)
                  then (Inl AuthenticationFailed, s)
                  else if too_far_ahead (re_observedAt event) receivedAt then (Inl InvalidMessage, s)
                  else
                    (case js_get (se_events record) (re_eventId event) of
                       Some prior \<Rightarrow>
                         if er_fingerprint prior \<noteq> fp event then (Inl ReplayConflict, s)
                         else (Inr \<lparr>ar_replayed = True, ar_snapshot = old\<rparr>, s)
                     | None \<Rightarrow>
                         if re_sequence event \<noteq> sn_lastSequence old + 1 then (Inl SequenceConflict, s)
                         else (case applyEvent old receivedAt event of
                             Inl e \<Rightarrow> (Inl e, s)
                           | Inr next \<Rightarrow>
                               (Inr \<lparr>ar_replayed = False, ar_snapshot = next\<rparr>,
                                s\<lparr>sessions := js_set (sessions s) (scope_runtimeKey scope)
                                  (record\<lparr>se_events := js_set (se_events record) (re_eventId event)
                                      \<lparr>er_event = event, er_fingerprint = fp event\<rparr>,
                                    se_snapshot := next\<rparr>)\<rparr>)))))"

definition disconnect :: "credential_scope \<Rightarrow> string \<Rightarrow> string \<Rightarrow> runtime_store \<Rightarrow> runtime_store" where
  "disconnect scope sessionId checkedAt s =
     (case js_get (sessions s) (scope_runtimeKey scope) of
        None \<Rightarrow> s
      | Some record \<Rightarrow>
          if se_credentialId record = sc_credentialId scope \<and>
             sn_sessionId (se_snapshot record) = sessionId \<and>
             sn_connectionState (se_snapshot record) = Online
          then s\<lparr>sessions := js_set (sessions s) (scope_runtimeKey scope)
                 (record\<lparr>se_snapshot := se_snapshot record\<lparr>sn_connectionState := Disconnected,
                    sn_lastEventAt := checkedAt\<rparr>\<rparr>)\<rparr>
          else s)"

definition list_sessions :: "string \<Rightarrow> runtime_store \<Rightarrow> runtime_snapshot list" where
  "list_sessions owner s =
     map se_snapshot
       (filter (\<lambda>r. ownerFor s (se_credentialId r) = Some owner) (js_values (sessions s)))"

text \<open>\<open>markStale\<close> walks the records in order and stops where an owner is missing.\<close>

definition goes_stale :: "int option \<Rightarrow> session_record \<Rightarrow> bool" where
  "goes_stale cutoff r \<longleftrightarrow> sn_connectionState (se_snapshot r) \<notin> {ConnectionStopped, Stale} \<and>
     js_lt (date_parse (sn_lastHeartbeatAt (se_snapshot r))) cutoff"

fun stale_walk ::
    "(string \<Rightarrow> string option) \<Rightarrow> int option \<Rightarrow> string \<Rightarrow> (string, session_record) jsmap \<Rightarrow>
     (runtime_error + (string \<times> runtime_snapshot) list) \<times> (string, session_record) jsmap" where
  "stale_walk owner cutoff checkedAt [] = (Inr [], [])"
| "stale_walk owner cutoff checkedAt ((k, r) # rest) =
     (if \<not> goes_stale cutoff r
      then (case stale_walk owner cutoff checkedAt rest of (res, rest') \<Rightarrow> (res, (k, r) # rest'))
      else
        let snapshot = (se_snapshot r)\<lparr>sn_connectionState := Stale, sn_lastEventAt := checkedAt\<rparr>;
            r' = r\<lparr>se_snapshot := snapshot\<rparr>
        in if \<not> truthy (owner (se_credentialId r)) then (Inl GenerationReplaced, (k, r') # rest)
           else (case stale_walk owner cutoff checkedAt rest of
               (Inl e, rest') \<Rightarrow> (Inl e, (k, r') # rest')
             | (Inr changed, rest') \<Rightarrow>
                 (Inr ((the (owner (se_credentialId r)), snapshot) # changed), (k, r') # rest')))"

definition markStale ::
    "string \<Rightarrow> string \<Rightarrow> runtime_store \<Rightarrow>
     (runtime_error + (string \<times> runtime_snapshot) list) \<times> runtime_store" where
  "markStale staleBefore checkedAt s =
     (case stale_walk (ownerFor s) (date_parse staleBefore) checkedAt (sessions s) of
        (res, records) \<Rightarrow> (res, s\<lparr>sessions := records\<rparr>))"

section \<open>Calls\<close>

datatype runtime_call =
    SIssue issue_draw issue_input
  | SAuthenticate int string
  | SRegister int credential_scope string string runtime_registration
  | SAppend int credential_scope string string runtime_event
  | SDisconnect credential_scope string string
  | SMarkStale string string
  | SRevoke int string string string

datatype runtime_answer =
    AIssue "runtime_error + runtime_credential \<times> string option"
  | AScope "credential_scope option"
  | ARegister "runtime_error + register_result"
  | AAppend "runtime_error + append_result"
  | AStale "runtime_error + (string \<times> runtime_snapshot) list"
  | ADone

fun runtime_step ::
    "(string \<Rightarrow> string) \<Rightarrow> (runtime_event \<Rightarrow> string) \<Rightarrow> runtime_call \<Rightarrow> runtime_store \<Rightarrow>
     runtime_answer \<times> runtime_store" where
  "runtime_step hash fp (SIssue draw i) s = map_prod AIssue id (issue hash draw i s)"
| "runtime_step hash fp (SAuthenticate now token) s = (AScope (authenticate hash now token s), s)"
| "runtime_step hash fp (SRegister now sc i r reg) s = map_prod ARegister id (register now sc i r reg s)"
| "runtime_step hash fp (SAppend now sc i r e) s = map_prod AAppend id (append_event fp now sc i r e s)"
| "runtime_step hash fp (SDisconnect sc i c) s = (ADone, disconnect sc i c s)"
| "runtime_step hash fp (SMarkStale b c) s = map_prod AStale id (markStale b c s)"
| "runtime_step hash fp (SRevoke now owner w c) s = (ADone, revoke now owner w c s)"

end
