(* ===== verification/ControlMessages.thy ===== *)
theory ControlMessages
  imports CanonicalTypes RuntimeTypes
begin

text \<open>
  The requests, actors and targets of the canonical Runtime control
  (\<open>src/shared/canonical-runtime-control-api.ts\<close>, \<open>server/canonical-runtime-control/contracts.ts\<close>) and the
  messages between the control plane and a Workspace Runtime: control commands and their answers
  (\<open>src/shared/workspace-runtime-control-api.ts\<close>), Codex commands
  (\<open>src/shared/workspace-runtime-codex-api.ts\<close>) and the server's replies
  (\<open>src/shared/workspace-runtime-session-api.ts\<close>). The fixed \<open>schemaVersion\<close> and \<open>type\<close> are left
  implicit: the constructor of a message is its type.
\<close>

section \<open>Requests, actors and targets\<close>

record control_request =
  rq_environmentId :: string
  rq_expectedGeneration :: string
  rq_expectedTargetIdentityRevision :: string
  rq_operationId :: string
  rq_workspaceId :: string
  rq_input :: safe_input

text \<open>The input of a request has one constructor per operation with exactly the fields the code copies.\<close>

definition canonicalRuntimeControlSafeInput :: "control_request \<Rightarrow> safe_input" where
  "canonicalRuntimeControlSafeInput r = rq_input r"

definition request_operation :: "control_request \<Rightarrow> canonical_operation" where
  "request_operation r = input_operation (rq_input r)"

record control_actor =
  ca_actorId :: string
  ca_actorKind :: actor_kind
  ca_ownerUserId :: string

record control_target =
  tg_branch :: string
  tg_commit :: string
  tg_environmentId :: string
  tg_generation :: string
  tg_hostId :: "string option"
  tg_manifestDigest :: string
  tg_platformId :: string
  tg_sessionId :: string
  tg_targetIdentityRevision :: string
  tg_workspaceId :: string

definition target_json :: "control_target \<Rightarrow> json" where
  "target_json t = JObj (
     [(''branch'', JStr (tg_branch t)), (''commit'', JStr (tg_commit t)),
      (''environmentId'', JStr (tg_environmentId t)), (''generation'', JStr (tg_generation t))] @
     (case tg_hostId t of None \<Rightarrow> [] | Some h \<Rightarrow> [(''hostId'', JStr h)]) @
     [(''manifestDigest'', JStr (tg_manifestDigest t)), (''platformId'', JStr (tg_platformId t)),
      (''sessionId'', JStr (tg_sessionId t)),
      (''targetIdentityRevision'', JStr (tg_targetIdentityRevision t)),
      (''workspaceId'', JStr (tg_workspaceId t))])"

datatype control_error =
    DeniedError | InvalidRequestError | OperationConflict | OperationInProgress | TargetUnavailableError

text \<open>Targets are compared through \<open>JSON.stringify\<close> and \<open>stableJson\<close>; both comparisons are equality.\<close>

definition target_text :: "control_target \<Rightarrow> string" where
  "target_text t = json_print (target_json t)"

definition sameTarget :: "control_target \<Rightarrow> control_target \<Rightarrow> bool" where
  "sameTarget a b \<longleftrightarrow> stable_json (target_json a) = stable_json (target_json b)"

lemma target_field_norm:
  "json_field (json_norm (target_json t)) k = map_option json_norm (json_field (target_json t) k)"
  by (rule json_field_norm [OF target_json_def]) (cases "tg_hostId t"; simp)

lemma target_fields:
  "json_field (target_json t) ''branch'' = Some (JStr (tg_branch t))"
  "json_field (target_json t) ''commit'' = Some (JStr (tg_commit t))"
  "json_field (target_json t) ''environmentId'' = Some (JStr (tg_environmentId t))"
  "json_field (target_json t) ''generation'' = Some (JStr (tg_generation t))"
  "json_field (target_json t) ''hostId'' = map_option JStr (tg_hostId t)"
  "json_field (target_json t) ''manifestDigest'' = Some (JStr (tg_manifestDigest t))"
  "json_field (target_json t) ''platformId'' = Some (JStr (tg_platformId t))"
  "json_field (target_json t) ''sessionId'' = Some (JStr (tg_sessionId t))"
  "json_field (target_json t) ''targetIdentityRevision'' = Some (JStr (tg_targetIdentityRevision t))"
  "json_field (target_json t) ''workspaceId'' = Some (JStr (tg_workspaceId t))"
  by (cases "tg_hostId t"; simp add: target_json_def)+

lemma target_json_fields_eq:
  assumes "\<And>k. map_option json_norm (json_field (target_json a) k) = map_option json_norm (json_field (target_json b) k)"
  shows "a = b"
proof -
  note eq = assms [of "''branch''"] assms [of "''commit''"] assms [of "''environmentId''"]
    assms [of "''generation''"] assms [of "''hostId''"] assms [of "''manifestDigest''"]
    assms [of "''platformId''"] assms [of "''sessionId''"] assms [of "''targetIdentityRevision''"]
    assms [of "''workspaceId''"]
  show ?thesis
    using eq unfolding target_fields
    by (intro control_target.equality; cases "tg_hostId a"; cases "tg_hostId b") simp_all
qed

lemma sameTarget_eq [simp]: "sameTarget a b \<longleftrightarrow> a = b"
  unfolding sameTarget_def stable_json_eq_iff
  by (metis target_field_norm target_json_fields_eq)

lemma target_text_eq [simp]: "target_text a = target_text b \<longleftrightarrow> a = b"
  unfolding target_text_def json_print_inj by (metis target_json_fields_eq)

definition safe_input_text :: "safe_input \<Rightarrow> string" where
  "safe_input_text i = json_print (safe_input_json i)"

lemma safe_input_text_eq [simp]: "safe_input_text a = safe_input_text b \<longleftrightarrow> a = b"
  unfolding safe_input_text_def json_print_inj by (metis safe_input_norm_inj)

section \<open>Control\<close>

text \<open>\<open>WorkspaceRuntimeControlBinding\<close>\<close>

record control_binding =
  cb_actorId :: string
  cb_actorKind :: actor_kind
  cb_actorUserId :: string
  cb_commandId :: string
  cb_commandSequence :: int
  cb_environmentId :: string
  cb_generation :: string
  cb_operationId :: string
  cb_sessionId :: string
  cb_targetIdentityRevision :: string
  cb_workspaceId :: string

record control_command = control_binding +
  cc_input :: safe_input

datatype control_error_code =
  CodeBlockedDependency | CodeInvalidCommand | CodeRuntimeStopping | CodeUnavailable | CodeUncertain

datatype control_body =
    CommandAccepted (acceptedSequence: int) (acceptedReplay: bool)
  | CompletedMessage canonical_output
  | FailedMessage
  | ErrorMessage control_error_code string

record control_message = control_binding +
  cm_eventSequence :: int
  cm_operation :: canonical_operation
  cm_body :: control_body

definition command_operation :: "control_command \<Rightarrow> canonical_operation" where
  "command_operation c = input_operation (cc_input c)"

text \<open>\<open>controlCapability\<close> of the session service\<close>

definition controlCapability :: "canonical_operation \<Rightarrow> runtime_capability" where
  "controlCapability op =
     (if canonicalRuntimeControlAccessMode op = MutationMode then CapMutation else CapControl)"

section \<open>Codex\<close>

text \<open>
  A Codex command or message: the service reads its binding only; the request or result it carries is
  the type parameter.
\<close>

record 'a codex_command = control_binding +
  xc_targetThreadId :: "string option"
  xc_request :: 'a

datatype codex_kind = CodexAccepted int bool | CodexEvent int | CodexResult | CodexError

record codex_message = control_binding +
  xm_targetThreadId :: "string option"
  xm_kind :: codex_kind

section \<open>Replies of the server\<close>

datatype server_message_kind = RuntimeAccepted | RuntimeRegistered

record server_message =
  sv_acceptedControlEventSequence :: "int option"
  sv_acceptedSequence :: int
  sv_heartbeatIntervalSeconds :: int
  sv_sessionId :: string
  sv_staleAfterSeconds :: int
  sv_replayed :: bool
  sv_snapshot :: "runtime_snapshot option"
  sv_kind :: server_message_kind

text \<open>What a listener for control registrations is told.\<close>

record control_registration =
  cg_generation :: string
  cg_ownerUserId :: string
  cg_resumeAfterCommandSequence :: int
  cg_sessionId :: string
  cg_workspaceId :: string

end
