(* ===== verification/RuntimeService.thy ===== *)
theory RuntimeService
  imports RuntimeStore ControlMessages
begin

text \<open>
  The session service of the Workspace Runtimes (\<open>server/workspace-runtime-session/service.ts\<close>): the
  live connection of each Workspace over the session store, the commands and acknowledgements sent on
  it, and the closing of connections.

  A connection is a number. What the service sends on a connection or does to it is logged, newest first,
  with the Workspace key it acts for: \<open>rs_wire\<close> is the history the properties speak about. Listeners are
  called by the methods that notify them; here such a method answers with what the listeners are told.
  The clock, the new session id and the control watermark that was read are arguments.
\<close>

section \<open>State\<close>

record active_connection =
  cn_connection :: nat
  cn_codexAcceptedCommandSequence :: int
  cn_scope :: credential_scope
  cn_sessionId :: string

datatype wire_action =
    SendMessage server_message
  | SendCommand control_command
  | SendCodex "unit codex_command"
  | SendAcknowledgement int
  | CloseConnection int string
  | CloseExpired

type_synonym wire = "(string \<times> nat \<times> wire_action) list"

record runtime_service =
  rs_store :: runtime_store
  rs_connections :: "(string, active_connection) jsmap"
  rs_wire :: wire

definition empty_service :: runtime_service where
  "empty_service = \<lparr>rs_store = empty_runtime, rs_connections = [], rs_wire = []\<rparr>"

definition workspaceKey :: "string \<Rightarrow> string \<Rightarrow> string" where
  "workspaceKey owner workspace = nul_key owner workspace"

definition heartbeatIntervalSeconds :: int where
  "heartbeatIntervalSeconds = 15"

definition staleAfterSeconds :: int where
  "staleAfterSeconds = 45"

definition emit :: "string \<Rightarrow> nat \<Rightarrow> wire_action \<Rightarrow> runtime_service \<Rightarrow> runtime_service" where
  "emit key conn a s = s\<lparr>rs_wire := (key, conn, a) # rs_wire s\<rparr>"

section \<open>Registration\<close>

record control_watermark =
  cw_eventSequence :: int
  cw_commandSequence :: int

definition ready_capabilities :: "runtime_registration \<Rightarrow> runtime_capability list" where
  "ready_capabilities r = (case rg_readyCapabilities r of None \<Rightarrow> [] | Some cs \<Rightarrow> cs)"

definition codex_ready :: "runtime_registration \<Rightarrow> bool" where
  "codex_ready r \<longleftrightarrow> CapCodex \<in> set (ready_capabilities r)"

definition control_ready :: "runtime_registration \<Rightarrow> bool" where
  "control_ready r \<longleftrightarrow> list_ex (\<lambda>c. c = CapControl \<or> c = CapMutation) (ready_capabilities r)"

definition ready_refused :: "credential_scope \<Rightarrow> runtime_registration \<Rightarrow> bool" where
  "ready_refused scope r \<longleftrightarrow>
     CapCodex \<in> set (sc_capabilities scope) \<or>
     list_ex (\<lambda>c. c \<notin> set (sc_requestedCapabilities scope)) (ready_capabilities r) \<or>
     codex_ready r \<noteq> (rg_resumeAfterCodexCommandSequence r \<noteq> None) \<or>
     codex_ready r \<noteq> (rg_resumeAfterCodexEventSequence r \<noteq> None) \<or>
     control_ready r \<noteq> (rg_resumeAfterControlCommandSequence r \<noteq> None) \<or>
     control_ready r \<noteq> (rg_resumeAfterControlEventSequence r \<noteq> None)"

text \<open>The Runtime may not be ahead in commands nor behind in events of the watermark.\<close>

definition resume_refused :: "control_watermark option \<Rightarrow> runtime_registration \<Rightarrow> bool" where
  "resume_refused watermark r \<longleftrightarrow> control_ready r \<and>
     (case watermark of
        None \<Rightarrow> True
      | Some w \<Rightarrow>
          (\<exists>n \<in> set_option (rg_resumeAfterControlCommandSequence r). n > cw_commandSequence w) \<or>
          (\<exists>n \<in> set_option (rg_resumeAfterControlEventSequence r). n < cw_eventSequence w))"

definition active_scope :: "credential_scope \<Rightarrow> runtime_registration \<Rightarrow> credential_scope" where
  "active_scope scope r = scope\<lparr>sc_capabilities :=
     sort_key capability_name (remdups (sc_capabilities scope @ ready_capabilities r))\<rparr>"

definition registered_message ::
    "control_watermark option \<Rightarrow> string \<Rightarrow> credential_scope \<Rightarrow> int \<Rightarrow> runtime_snapshot \<Rightarrow> server_message" where
  "registered_message watermark session scope codex snapshot =
     \<lparr>sv_acceptedControlEventSequence = map_option cw_eventSequence watermark,
      sv_acceptedSequence = sn_lastSequence snapshot,
      sv_heartbeatIntervalSeconds = heartbeatIntervalSeconds, sv_sessionId = session,
      sv_staleAfterSeconds = staleAfterSeconds, sv_replayed = False,
      sv_snapshot = Some (snapshot\<lparr>sn_capabilities := sc_capabilities scope,
        sn_codexAcceptedCommandSequence := Some codex\<rparr>),
      sv_kind = RuntimeRegistered\<rparr>"

definition close_replaced ::
    "string \<Rightarrow> nat \<Rightarrow> active_connection option \<Rightarrow> runtime_service \<Rightarrow> runtime_service" where
  "close_replaced key conn previous s =
     (case previous of
        None \<Rightarrow> s
      | Some a \<Rightarrow>
          if cn_connection a = conn then s
          else emit key (cn_connection a) (CloseConnection 1012 ''Workspace Runtime session replaced.'') s)"

text \<open>The watermark that was read when the Runtime is ready for control, and none otherwise.\<close>

definition service_register ::
    "int \<Rightarrow> string \<Rightarrow> control_watermark option \<Rightarrow> nat \<Rightarrow> credential_scope \<Rightarrow> runtime_registration \<Rightarrow>
     runtime_service \<Rightarrow>
     (runtime_error + credential_scope \<times> string \<times> control_registration option) \<times> runtime_service" where
  "service_register now session stored conn scope r s =
     (let watermark = (if control_ready r then stored else None);
          key = workspaceKey (sc_ownerUserId scope) (sc_workspaceId scope);
          scope' = active_scope scope r;
          codex = (case rg_resumeAfterCodexCommandSequence r of None \<Rightarrow> 0 | Some n \<Rightarrow> n)
      in if ready_refused scope r then (Inl InvalidMessage, s)
         else if resume_refused watermark r then (Inl SequenceConflict, s)
         else (case register now scope session (to_iso now) r (rs_store s) of
             (Inl e, t) \<Rightarrow> (Inl e, s\<lparr>rs_store := t\<rparr>)
           | (Inr outcome, t) \<Rightarrow>
               let previous = js_get (rs_connections s) key;
                   s1 = s\<lparr>rs_store := t, rs_connections := js_set (rs_connections s) key
                     \<lparr>cn_connection = conn, cn_codexAcceptedCommandSequence = codex, cn_scope = scope',
                      cn_sessionId = session\<rparr>\<rparr>;
                   s2 = close_replaced key conn previous s1;
                   s3 = emit key conn
                     (SendMessage (registered_message watermark session scope' codex (rr_snapshot outcome))) s2
               in (Inr (scope', session,
                     if control_ready r
                     then Some \<lparr>cg_generation = sc_generation scope, cg_ownerUserId = sc_ownerUserId scope,
                       cg_resumeAfterCommandSequence =
                         (case rg_resumeAfterControlCommandSequence r of None \<Rightarrow> 0 | Some n \<Rightarrow> n),
                       cg_sessionId = session, cg_workspaceId = sc_workspaceId scope\<rparr>
                     else None), s3)))"

section \<open>Reading and revoking\<close>

definition service_list :: "string \<Rightarrow> runtime_service \<Rightarrow> runtime_snapshot list" where
  "service_list owner s =
     map (\<lambda>snapshot.
       case js_get (rs_connections s) (workspaceKey owner (sn_workspaceId snapshot)) of
         None \<Rightarrow> snapshot
       | Some a \<Rightarrow>
           if cn_sessionId a = sn_sessionId snapshot \<and> sc_generation (cn_scope a) = sn_generation snapshot
           then snapshot\<lparr>sn_capabilities := sc_capabilities (cn_scope a),
             sn_codexAcceptedCommandSequence := Some (cn_codexAcceptedCommandSequence a)\<rparr>
           else snapshot)
       (list_sessions owner (rs_store s))"

definition drop_connection ::
    "string \<Rightarrow> active_connection \<Rightarrow> int \<Rightarrow> string \<Rightarrow> runtime_service \<Rightarrow> runtime_service" where
  "drop_connection key a code reason s =
     emit key (cn_connection a) (CloseConnection code reason)
       (s\<lparr>rs_connections := js_delete (rs_connections s) key\<rparr>)"

definition service_revoke :: "int \<Rightarrow> string \<Rightarrow> string \<Rightarrow> string \<Rightarrow> runtime_service \<Rightarrow> runtime_service" where
  "service_revoke now owner workspace credentialId s =
     (let s1 = s\<lparr>rs_store := revoke now owner workspace credentialId (rs_store s)\<rparr>;
          key = workspaceKey owner workspace
      in case js_get (rs_connections s1) key of
           None \<Rightarrow> s1
         | Some a \<Rightarrow>
             if sc_credentialId (cn_scope a) = credentialId
             then drop_connection key a 1008 ''Workspace Runtime credential revoked.'' s1
             else s1)"

section \<open>Messages\<close>

definition service_append ::
    "(runtime_event \<Rightarrow> string) \<Rightarrow> int \<Rightarrow> credential_scope \<Rightarrow> string \<Rightarrow> runtime_event \<Rightarrow> runtime_service \<Rightarrow>
     (runtime_error + server_message \<times> bool) \<times> runtime_service" where
  "service_append fp now scope session event s =
     (case append_event fp now scope session (to_iso now) event (rs_store s) of
        (Inl e, t) \<Rightarrow> (Inl e, s\<lparr>rs_store := t\<rparr>)
      | (Inr outcome, t) \<Rightarrow>
          (Inr (\<lparr>sv_acceptedControlEventSequence = None,
                 sv_acceptedSequence = sn_lastSequence (ar_snapshot outcome),
                 sv_heartbeatIntervalSeconds = heartbeatIntervalSeconds, sv_sessionId = session,
                 sv_staleAfterSeconds = staleAfterSeconds, sv_replayed = ar_replayed outcome,
                 sv_snapshot = None, sv_kind = RuntimeAccepted\<rparr>,
                sn_lifecycleState (ar_snapshot outcome) = Stopped),
           s\<lparr>rs_store := t\<rparr>))"

definition acceptCodex ::
    "credential_scope \<Rightarrow> string \<Rightarrow> codex_message \<Rightarrow> runtime_service \<Rightarrow>
     (runtime_error + codex_message) \<times> runtime_service" where
  "acceptCodex scope session msg s =
     (let key = workspaceKey (sc_ownerUserId scope) (sc_workspaceId scope)
      in if CapCodex \<notin> set (sc_capabilities scope) then (Inl InvalidMessage, s)
         else (case (xm_kind msg, js_get (rs_connections s) key) of
             (CodexAccepted accepted replay, Some a) \<Rightarrow>
               if cn_sessionId a = session \<and> accepted = cb_commandSequence msg \<and>
                  cb_commandSequence msg > cn_codexAcceptedCommandSequence a
               then (Inr msg, s\<lparr>rs_connections := js_set (rs_connections s) key
                 (a\<lparr>cn_codexAcceptedCommandSequence := cb_commandSequence msg\<rparr>)\<rparr>)
               else (Inr msg, s)
           | _ \<Rightarrow> (Inr msg, s)))"

definition acceptControl ::
    "credential_scope \<Rightarrow> string \<Rightarrow> control_message \<Rightarrow> runtime_error + control_message" where
  "acceptControl scope session msg =
     (if controlCapability (cm_operation msg) \<in> set (sc_capabilities scope) then Inr msg
      else Inl InvalidMessage)"

text \<open>The binding of a msg to the active connection of a Workspace.\<close>

definition bound_to :: "string \<Rightarrow> 'a control_binding_scheme \<Rightarrow> active_connection \<Rightarrow> bool" where
  "bound_to owner c a \<longleftrightarrow> sc_ownerUserId (cn_scope a) = owner \<and> cb_actorUserId c = owner \<and>
     cb_environmentId c = sc_environmentId (cn_scope a) \<and>
     cb_generation c = sc_generation (cn_scope a) \<and> cb_sessionId c = cn_sessionId a"

definition dispatchCodex ::
    "string \<Rightarrow> unit codex_command \<Rightarrow> runtime_service \<Rightarrow> (runtime_error + unit) \<times> runtime_service" where
  "dispatchCodex owner c s =
     (let key = workspaceKey owner (cb_workspaceId c)
      in case js_get (rs_connections s) key of
           None \<Rightarrow> (Inl GenerationReplaced, s)
         | Some a \<Rightarrow>
             if CapCodex \<notin> set (sc_capabilities (cn_scope a)) \<or> \<not> bound_to owner c a
             then (Inl GenerationReplaced, s)
             else (Inr (), emit key (cn_connection a) (SendCodex c) s))"

definition dispatchControl ::
    "string \<Rightarrow> control_command \<Rightarrow> runtime_service \<Rightarrow> (runtime_error + unit) \<times> runtime_service" where
  "dispatchControl owner c s =
     (let key = workspaceKey owner (cb_workspaceId c)
      in case js_get (rs_connections s) key of
           None \<Rightarrow> (Inl GenerationReplaced, s)
         | Some a \<Rightarrow>
             if controlCapability (command_operation c) \<notin> set (sc_capabilities (cn_scope a)) \<or>
                \<not> bound_to owner c a
             then (Inl GenerationReplaced, s)
             else (Inr (), emit key (cn_connection a) (SendCommand c) s))"

definition acknowledgeControl ::
    "string \<Rightarrow> control_message \<Rightarrow> runtime_service \<Rightarrow> (runtime_error + unit) \<times> runtime_service" where
  "acknowledgeControl owner m s =
     (let key = workspaceKey owner (cb_workspaceId m)
      in case js_get (rs_connections s) key of
           None \<Rightarrow> (Inl GenerationReplaced, s)
         | Some a \<Rightarrow>
             if \<not> bound_to owner m a then (Inl GenerationReplaced, s)
             else (Inr (), emit key (cn_connection a) (SendAcknowledgement (cm_eventSequence m)) s))"

section \<open>Ends of connections\<close>

definition service_disconnect ::
    "int \<Rightarrow> credential_scope \<Rightarrow> string \<Rightarrow> runtime_service \<Rightarrow> runtime_service" where
  "service_disconnect now scope session s =
     (let key = workspaceKey (sc_ownerUserId scope) (sc_workspaceId scope);
          connections = (case js_get (rs_connections s) key of
              None \<Rightarrow> rs_connections s
            | Some a \<Rightarrow> if cn_sessionId a = session then js_delete (rs_connections s) key
                else rs_connections s)
      in s\<lparr>rs_connections := connections,
           rs_store := disconnect scope session (to_iso now) (rs_store s)\<rparr>)"

definition closeSnapshot ::
    "string \<Rightarrow> runtime_snapshot \<Rightarrow> int \<Rightarrow> string \<Rightarrow> runtime_service \<Rightarrow> runtime_service" where
  "closeSnapshot owner snapshot code reason s =
     (case js_get (rs_connections s) (workspaceKey owner (sn_workspaceId snapshot)) of
        None \<Rightarrow> s
      | Some a \<Rightarrow>
          if sc_generation (cn_scope a) \<noteq> sn_generation snapshot \<or> cn_sessionId a \<noteq> sn_sessionId snapshot
          then s
          else drop_connection (workspaceKey (sc_ownerUserId (cn_scope a)) (sc_workspaceId (cn_scope a)))
            a code reason s)"

definition expireStale ::
    "int \<Rightarrow> runtime_service \<Rightarrow> (runtime_error + (string \<times> runtime_snapshot) list) \<times> runtime_service" where
  "expireStale now s =
     (case markStale (to_iso (now - staleAfterSeconds * 1000)) (to_iso now) (rs_store s) of
        (Inl e, t) \<Rightarrow> (Inl e, s\<lparr>rs_store := t\<rparr>)
      | (Inr stale, t) \<Rightarrow>
          (Inr stale, fold (\<lambda>(owner, snapshot).
             closeSnapshot owner snapshot 1008 ''Workspace Runtime heartbeat expired.'')
             stale (s\<lparr>rs_store := t\<rparr>)))"

definition service_close :: "runtime_service \<Rightarrow> runtime_service" where
  "service_close s =
     (fold (\<lambda>(key, a). emit key (cn_connection a) (CloseConnection 1001 ''Project Space is shutting down.''))
       (rs_connections s) s)\<lparr>rs_connections := []\<rparr>"

text \<open>The delay after which \<open>closeExpired\<close> closes a connection, and the closing.\<close>

definition closeExpired_delay :: "int \<Rightarrow> credential_scope \<Rightarrow> int option" where
  "closeExpired_delay now scope = map_option (\<lambda>t. max 0 (t - now)) (date_parse (sc_expiresAt scope))"

definition closeExpired :: "nat \<Rightarrow> credential_scope \<Rightarrow> runtime_service \<Rightarrow> runtime_service" where
  "closeExpired conn scope s = emit (scope_runtimeKey scope) conn CloseExpired s"

section \<open>Calls\<close>

datatype service_call =
    RIssue issue_draw issue_input
  | RRegister int string "control_watermark option" nat credential_scope runtime_registration
  | RRevoke int string string string
  | RAppend int credential_scope string runtime_event
  | RAcceptCodex credential_scope string codex_message
  | RDispatchCodex string "unit codex_command"
  | RDispatch string control_command
  | RAcknowledge string control_message
  | RDisconnect int credential_scope string
  | RExpireStale int
  | RCloseExpired nat credential_scope
  | RClose

fun service_step ::
    "(string \<Rightarrow> string) \<Rightarrow> (runtime_event \<Rightarrow> string) \<Rightarrow> service_call \<Rightarrow> runtime_service \<Rightarrow> unit \<times> runtime_service" where
  "service_step hash fp (RIssue draw i) s = ((), s\<lparr>rs_store := snd (issue hash draw i (rs_store s))\<rparr>)"
| "service_step hash fp (RRegister now i w conn scope r) s = ((), snd (service_register now i w conn scope r s))"
| "service_step hash fp (RRevoke now owner w c) s = ((), service_revoke now owner w c s)"
| "service_step hash fp (RAppend now scope i e) s = ((), snd (service_append fp now scope i e s))"
| "service_step hash fp (RAcceptCodex scope i m) s = ((), snd (acceptCodex scope i m s))"
| "service_step hash fp (RDispatchCodex owner c) s = ((), snd (dispatchCodex owner c s))"
| "service_step hash fp (RDispatch owner c) s = ((), snd (dispatchControl owner c s))"
| "service_step hash fp (RAcknowledge owner m) s = ((), snd (acknowledgeControl owner m s))"
| "service_step hash fp (RDisconnect now scope i) s = ((), service_disconnect now scope i s)"
| "service_step hash fp (RExpireStale now) s = ((), snd (expireStale now s))"
| "service_step hash fp (RCloseExpired conn scope) s = ((), closeExpired conn scope s)"
| "service_step hash fp RClose s = ((), service_close s)"

section \<open>The current session of a Workspace\<close>

text \<open>The newest registration of a Workspace on the wire, unless the service closed it since.\<close>

fun current_session :: "string \<Rightarrow> wire \<Rightarrow> (nat \<times> server_message) option" where
  "current_session key [] = None"
| "current_session key ((k, conn, a) # w) =
     (if k \<noteq> key then current_session key w
      else case a of
          SendMessage m \<Rightarrow> Some (conn, m)
        | CloseConnection code reason \<Rightarrow> None
        | _ \<Rightarrow> current_session key w)"

definition command_current :: "string \<Rightarrow> nat \<Rightarrow> control_command \<Rightarrow> wire \<Rightarrow> bool" where
  "command_current key conn c w \<longleftrightarrow>
     key = workspaceKey (cb_actorUserId c) (cb_workspaceId c) \<and>
     (case current_session key w of
        None \<Rightarrow> False
      | Some (conn', m) \<Rightarrow> conn' = conn \<and> sv_sessionId m = cb_sessionId c \<and>
          (case sv_snapshot m of
             None \<Rightarrow> False
           | Some snapshot \<Rightarrow> sn_generation snapshot = cb_generation c \<and>
               controlCapability (command_operation c) \<in> set (sn_capabilities snapshot)))"

fun wire_ok :: "wire \<Rightarrow> bool" where
  "wire_ok [] \<longleftrightarrow> True"
| "wire_ok ((key, conn, SendCommand c) # w) \<longleftrightarrow> command_current key conn c w \<and> wire_ok w"
| "wire_ok ((key, conn, a) # w) \<longleftrightarrow> wire_ok w"

definition connection_ok :: "string \<Rightarrow> active_connection \<Rightarrow> wire \<Rightarrow> bool" where
  "connection_ok key a w \<longleftrightarrow>
     key = workspaceKey (sc_ownerUserId (cn_scope a)) (sc_workspaceId (cn_scope a)) \<and>
     (\<exists>m snapshot. current_session key w = Some (cn_connection a, m) \<and> sv_snapshot m = Some snapshot \<and>
        sv_sessionId m = cn_sessionId a \<and> sn_generation snapshot = sc_generation (cn_scope a) \<and>
        sn_capabilities snapshot = sc_capabilities (cn_scope a))"

definition service_inv :: "runtime_service \<Rightarrow> bool" where
  "service_inv s \<longleftrightarrow> js_wf (rs_connections s) \<and> wire_ok (rs_wire s) \<and>
     (\<forall>key a. js_get (rs_connections s) key = Some a \<longrightarrow> connection_ok key a (rs_wire s))"

section \<open>The invariant\<close>

lemma empty_service_inv [simp]: "service_inv empty_service"
  by (simp add: service_inv_def empty_service_def)

lemma register_session:
  "register now scope session received r s = (Inr outcome, t) \<Longrightarrow>
     sn_sessionId (rr_snapshot outcome) = session \<and> sn_generation (rr_snapshot outcome) = sc_generation scope"
  by (auto simp: register_def new_snapshot_def Let_def split: option.splits if_splits)

text \<open>An entry that neither registers nor closes leaves every session current.\<close>

lemma emit_simps [simp]:
  "rs_store (emit key conn a s) = rs_store s" "rs_connections (emit key conn a s) = rs_connections s"
  "rs_wire (emit key conn a s) = (key, conn, a) # rs_wire s"
  by (simp_all add: emit_def)

lemma service_invI:
  assumes "js_wf (rs_connections s)" "wire_ok (rs_wire s)"
    and "\<And>key a. js_get (rs_connections s) key = Some a \<Longrightarrow> connection_ok key a (rs_wire s)"
  shows "service_inv s"
  using assms by (simp add: service_inv_def)

lemma service_invD:
  assumes "service_inv s"
  shows "js_wf (rs_connections s)" "wire_ok (rs_wire s)"
    "js_get (rs_connections s) key = Some a \<Longrightarrow> connection_ok key a (rs_wire s)"
  using assms by (auto simp: service_inv_def)

lemma store_update_inv [simp]: "service_inv (s\<lparr>rs_store := t\<rparr>) = service_inv s"
  by (simp add: service_inv_def)

definition idle_entry :: "wire_action \<Rightarrow> bool" where
  "idle_entry a \<longleftrightarrow> (case a of SendCodex _ \<Rightarrow> True | SendAcknowledgement _ \<Rightarrow> True | CloseExpired \<Rightarrow> True | _ \<Rightarrow> False)"

lemma idle_emit_inv: "idle_entry a \<Longrightarrow> service_inv s \<Longrightarrow> service_inv (emit key conn a s)"
  by (cases a) (auto simp: idle_entry_def service_inv_def connection_ok_def)

lemma dispatch_inv:
  assumes inv: "service_inv s"
  shows "service_inv (snd (dispatchControl owner c s))"
proof (cases "js_get (rs_connections s) (workspaceKey owner (cb_workspaceId c))")
  case (Some a)
  have ok: "connection_ok (workspaceKey owner (cb_workspaceId c)) a (rs_wire s)"
    by (rule service_invD(3) [OF inv Some])
  show ?thesis
  proof (cases "controlCapability (command_operation c) \<in> set (sc_capabilities (cn_scope a)) \<and> bound_to owner c a")
    case True
    with ok have "command_current (workspaceKey owner (cb_workspaceId c)) (cn_connection a) c (rs_wire s)"
      by (auto simp: command_current_def connection_ok_def bound_to_def)
    with True Some inv show ?thesis
      by (auto simp: dispatchControl_def service_inv_def connection_ok_def)
  next
    case False
    with Some inv show ?thesis by (auto simp: dispatchControl_def)
  qed
qed (simp add: dispatchControl_def inv)

lemma drop_inv:
  "service_inv s \<Longrightarrow> service_inv (drop_connection key a code reason s)"
  by (auto simp: drop_connection_def service_inv_def connection_ok_def)

lemma closeSnapshot_inv: "service_inv s \<Longrightarrow> service_inv (closeSnapshot owner snapshot code reason s)"
  by (simp add: closeSnapshot_def drop_inv split: option.split)

lemma fold_inv: "(\<And>x s. P s \<Longrightarrow> P (f x s)) \<Longrightarrow> P s \<Longrightarrow> P (fold f xs s)"
  by (induction xs arbitrary: s) auto

lemma service_expire_inv: "service_inv s \<Longrightarrow> service_inv (snd (expireStale now s))"
  unfolding expireStale_def
  by (auto split: prod.split sum.split intro!: fold_inv [of service_inv] closeSnapshot_inv)

lemma close_all_wire [simp]:
  "wire_ok (rs_wire (fold (\<lambda>(key, a). emit key (cn_connection a) (CloseConnection code reason)) kvs s)) \<longleftrightarrow>
     wire_ok (rs_wire s)"
proof (induction kvs arbitrary: s)
  case (Cons kv kvs)
  show ?case by (cases kv) (simp add: Cons)
qed simp

lemma close_inv: "service_inv s \<Longrightarrow> service_inv (service_close s)"
  by (simp add: service_close_def service_inv_def)

lemma register_inv:
  assumes inv: "service_inv s"
  shows "service_inv (snd (service_register now session stored conn scope r s))"
proof (cases "register now scope session (to_iso now) r (rs_store s)")
  case (Pair res t)
  show ?thesis
  proof (cases res)
    case (Inl e)
    with Pair inv show ?thesis by (simp add: service_register_def Let_def)
  next
    case (Inr outcome)
    with Pair have session: "sn_sessionId (rr_snapshot outcome) = session"
      "sn_generation (rr_snapshot outcome) = sc_generation scope"
      using register_session by blast+
    show ?thesis
      using inv Inr Pair
      by (auto simp: service_register_def Let_def service_inv_def close_replaced_def connection_ok_def
          registered_message_def active_scope_def session split: option.splits)
  qed
qed

lemma codex_inv: "service_inv s \<Longrightarrow> service_inv (snd (acceptCodex scope session m s))"
  by (auto simp: acceptCodex_def Let_def service_inv_def connection_ok_def split: codex_kind.split option.split)

lemma service_step_inv: "service_inv s \<Longrightarrow> service_inv (snd (service_step hash fp c s))"
proof (cases c)
  case (RRevoke now owner w k)
  assume "service_inv s"
  with RRevoke show ?thesis
    by (simp add: service_revoke_def Let_def drop_inv split: option.split)
next
  case (RAppend now scope i e)
  assume "service_inv s"
  with RAppend show ?thesis
    by (simp add: service_append_def split: prod.split sum.split)
next
  case (RDispatchCodex owner k)
  assume "service_inv s"
  with RDispatchCodex show ?thesis
    by (simp add: dispatchCodex_def idle_emit_inv idle_entry_def Let_def split: option.split)
next
  case (RAcknowledge owner m)
  assume "service_inv s"
  with RAcknowledge show ?thesis
    by (simp add: acknowledgeControl_def idle_emit_inv idle_entry_def Let_def split: option.split)
next
  case (RDisconnect now scope i)
  assume "service_inv s"
  with RDisconnect show ?thesis
    by (auto simp: service_disconnect_def Let_def service_inv_def split: option.split)
qed (simp_all add: register_inv dispatch_inv service_expire_inv close_inv codex_inv closeExpired_def idle_emit_inv idle_entry_def)

interpretation session_service: invariant_store "service_step hash fp" service_inv
  for hash :: "string \<Rightarrow> string" and fp :: "runtime_event \<Rightarrow> string"
  by unfold_locales (rule service_step_inv)

end
