(* ===== verification/CanonicalDispatcher.thy ===== *)
theory CanonicalDispatcher
  imports CanonicalStore RuntimeService
begin

text \<open>
  The dispatcher of the canonical Runtime control
  (\<open>server/canonical-runtime-control/workspace-runtime-dispatcher.ts\<close>) over the operation store and the
  session service.

  A call of the dispatcher runs up to the next \<open>await\<close> whose continuation reads shared state, and waits
  there as a \<open>task\<close>; other calls, messages, timers and the session service act in between. \<open>dispatcher_step\<close>
  is one such piece of code, named by the task it resumes; a run is a list of steps in any order, so the
  theorems hold for every interleaving. An \<open>await\<close> after which the code only returns is not a separate
  step. \<open>now()\<close> is an argument of the step, in milliseconds. The listeners the session service calls are
  the steps \<open>DMessage\<close> and \<open>DRegistered\<close>, taken with any message and registration.
\<close>

section \<open>Commands and results\<close>

definition reservationLeaseMs :: int where
  "reservationLeaseMs = 10000"

definition dispatchLeaseMs :: int where
  "dispatchLeaseMs = 30000"

definition dispatch_identity :: "control_actor \<Rightarrow> control_request \<Rightarrow> control_target \<Rightarrow> operation_identity" where
  "dispatch_identity actor r target =
     \<lparr>actorId = ca_actorId actor, actorKind = ca_actorKind actor, actorUserId = ca_ownerUserId actor,
      accessMode = canonicalRuntimeControlAccessMode (request_operation r), compatibilityAlias = False,
      environmentId = tg_environmentId target, generation = tg_generation target,
      operation = request_operation r, operationId = rq_operationId r,
      ownerUserId = ca_ownerUserId actor, safeInput = canonicalRuntimeControlSafeInput r,
      sessionId = tg_sessionId target, targetIdentityRevision = tg_targetIdentityRevision target,
      workspaceId = tg_workspaceId target\<rparr>"

definition command_for :: "operation_identity \<Rightarrow> safe_input \<Rightarrow> int \<Rightarrow> control_command" where
  "command_for i input n =
     \<lparr>cb_actorId = actorId i, cb_actorKind = actorKind i, cb_actorUserId = actorUserId i,
      cb_commandId = operationId i, cb_commandSequence = n, cb_environmentId = environmentId i,
      cb_generation = generation i, cb_operationId = operationId i, cb_sessionId = sessionId i,
      cb_targetIdentityRevision = targetIdentityRevision i, cb_workspaceId = workspaceId i,
      cc_input = input\<rparr>"

text \<open>\<open>runtimeControlInput\<close> is \<open>canonicalRuntimeControlSafeInput\<close>.\<close>

definition createCommand :: "operation_identity \<Rightarrow> control_request \<Rightarrow> int \<Rightarrow> control_command" where
  "createCommand i r n = command_for i (canonicalRuntimeControlSafeInput r) n"

definition createStoredCommand :: "operation_identity \<Rightarrow> int \<Rightarrow> control_command" where
  "createStoredCommand i n = command_for i (safeInput i) n"

definition publicResult ::
    "operation_identity \<Rightarrow> result_state \<Rightarrow> canonical_output option \<Rightarrow> operation_result" where
  "publicResult i st out =
     \<lparr>res_apiVersion = 1, res_compatibilityAlias = False, res_environmentId = environmentId i,
      res_generation = generation i, res_operation = operation i, res_operationId = operationId i,
      res_output = (if st = ResultCompleted then out else None), res_replayed = False, res_state = st,
      res_targetIdentityRevision = targetIdentityRevision i, res_workspaceId = workspaceId i\<rparr>"

text \<open>\<open>message.output.<name>\<close>, or \<open>None\<close> when the output has no such property.\<close>

fun output_staged :: "canonical_output \<Rightarrow> bool option" where
  "output_staged (GitDiffOutput d) = Some (gd_staged d)"
| "output_staged _ = None"

fun output_head :: "canonical_output \<Rightarrow> string option" where
  "output_head (GitMutationOutput m) = Some (gm_head m)"
| "output_head _ = None"

fun output_parent :: "canonical_output \<Rightarrow> string option" where
  "output_parent (GitCommitOutput c p) = Some p"
| "output_parent _ = None"

fun output_task :: "canonical_output \<Rightarrow> string option" where
  "output_task (TaskStartOutput t) = Some t"
| "output_task _ = None"

fun output_server :: "canonical_output \<Rightarrow> (string \<times> string) option" where
  "output_server (DevServerMutationOutput d) = Some (dm_serverId d, dm_serverGeneration d)"
| "output_server _ = None"

definition matchesCompletedOutput :: "operation_identity \<Rightarrow> control_message \<Rightarrow> bool" where
  "matchesCompletedOutput i m \<longleftrightarrow>
     (case cm_body m of
        CompletedMessage out \<Rightarrow>
          (case (cm_operation m, safeInput i) of
             (GitDiff, GitDiffInput b) \<Rightarrow> output_staged out = Some b
           | (GitDiff, _) \<Rightarrow> False
           | (GitStage, GitStageInput h) \<Rightarrow> output_head out = Some h
           | (GitStage, _) \<Rightarrow> False
           | (GitUnstage, GitUnstageInput h) \<Rightarrow> output_head out = Some h
           | (GitUnstage, _) \<Rightarrow> False
           | (GitCommit, GitCommitInput h c) \<Rightarrow> output_parent out = Some h
           | (GitCommit, _) \<Rightarrow> False
           | (TaskStart, TaskStartInput t w) \<Rightarrow> output_task out = Some t
           | (TaskStart, _) \<Rightarrow> False
           | (DevServerStart, DevServerStartInput server) \<Rightarrow> map_option fst (output_server out) = Some server
           | (DevServerStart, _) \<Rightarrow> False
           | (DevServerPublish, DevServerPublishInput g server) \<Rightarrow>
               map_option fst (output_server out) = Some server \<and> map_option snd (output_server out) \<noteq> Some g
           | (DevServerPublish, _) \<Rightarrow> False
           | (DevServerStop, DevServerStopInput g server) \<Rightarrow> output_server out = Some (server, g)
           | (DevServerStop, _) \<Rightarrow> False
           | _ \<Rightarrow> True)
      | _ \<Rightarrow> True)"

fun blocked_body :: "control_body \<Rightarrow> bool" where
  "blocked_body (ErrorMessage CodeBlockedDependency _) = True"
| "blocked_body _ = False"

definition matchesRecord :: "operation_record \<Rightarrow> command_correlation \<Rightarrow> control_message \<Rightarrow> bool" where
  "matchesRecord r cmd m \<longleftrightarrow>
     (let i = identity r
      in cb_actorId m = actorId i \<and> cb_actorKind m = actorKind i \<and> cb_actorUserId m = actorUserId i \<and>
         cb_commandId m = commandId cmd \<and> cb_commandSequence m = commandSequence cmd \<and>
         cb_environmentId m = environmentId i \<and> cb_generation m = generation i \<and>
         cm_operation m = operation i \<and> cb_operationId m = operationId i \<and>
         cb_sessionId m = sessionId i \<and> cb_targetIdentityRevision m = targetIdentityRevision i \<and>
         cb_workspaceId m = workspaceId i \<and>
         (\<not> blocked_body (cm_body m) \<or> operation i = TaskStart) \<and> matchesCompletedOutput i m)"

section \<open>State\<close>

datatype failure =
    ControlFailure control_error
  | StoreFailure store_error
  | SessionFailure runtime_error
  | OtherFailure string

text \<open>A dispatch in progress: the fingerprint, the identity, the request and the authorized target.\<close>

record dispatch_args =
  da_fingerprint :: string
  da_identity :: operation_identity
  da_request :: control_request
  da_target :: control_target

definition args_key :: "dispatch_args \<Rightarrow> string" where
  "args_key a = identity_key (da_identity a)"

text \<open>
  The points where the code waits. A dispatch waits for the fresh target, then for
  \<open>markDispatchAttempted\<close>, then for the answer of the Runtime. The handler of a message waits for the
  record it read, then for the store call it made (the result to settle with it, if any). The recovery
  of a registration waits before each rebinding and after it. A finished dispatch keeps the key of its
  operation and its answer.
\<close>

datatype task =
    AwaitFresh dispatch_args
  | AwaitSend dispatch_args operation_record
  | AwaitReply dispatch_args command_correlation
  | HandleRead control_message "operation_record option"
  | HandleAcknowledge control_message operation_record "operation_result option"
  | Recover control_registration "operation_record list"
  | RecoverSend control_registration operation_record command_correlation "operation_record list"
  | Answered string "failure + operation_result"
  | Done "failure option"

record dispatcher =
  dx_ops :: store
  dx_sessions :: runtime_service
  dx_pending :: "(string, nat) jsmap"
  dx_tasks :: "(nat, task) jsmap"
  dx_next :: nat
  dx_listening :: bool

definition empty_dispatcher :: dispatcher where
  "empty_dispatcher = \<lparr>dx_ops = empty_store, dx_sessions = empty_service, dx_pending = [],
     dx_tasks = [], dx_next = 0, dx_listening = True\<rparr>"

definition spawn :: "task \<Rightarrow> dispatcher \<Rightarrow> dispatcher" where
  "spawn t d = d\<lparr>dx_tasks := js_set (dx_tasks d) (dx_next d) t, dx_next := dx_next d + 1\<rparr>"

definition set_task :: "nat \<Rightarrow> task \<Rightarrow> dispatcher \<Rightarrow> dispatcher" where
  "set_task n t d = d\<lparr>dx_tasks := js_set (dx_tasks d) n t\<rparr>"

section \<open>Replaying and dispatching\<close>

datatype replay = ReplayNone | ReplayConflict | ReplayInProgress | ReplayResult operation_result

definition replay_operation :: "control_actor \<Rightarrow> string \<Rightarrow> control_request \<Rightarrow> store \<Rightarrow> replay" where
  "replay_operation actor fp r s =
     (case read (ca_ownerUserId actor) (rq_operationId r) s of
        None \<Rightarrow> ReplayNone
      | Some record \<Rightarrow>
          if fingerprint record \<noteq> fp \<or> actorId (identity record) \<noteq> ca_actorId actor \<or>
             actorKind (identity record) \<noteq> ca_actorKind actor \<or>
             actorUserId (identity record) \<noteq> ca_ownerUserId actor \<or>
             operation (identity record) \<noteq> request_operation r \<or>
             safe_input_text (safeInput (identity record)) \<noteq>
               safe_input_text (canonicalRuntimeControlSafeInput r)
          then ReplayConflict
          else (case result record of
              Some res \<Rightarrow> ReplayResult (res\<lparr>res_replayed := True\<rparr>)
            | None \<Rightarrow> ReplayInProgress))"

text \<open>\<open>dispatch\<close> up to the fresh target.\<close>

definition begin_dispatch ::
    "int \<Rightarrow> control_actor \<Rightarrow> string \<Rightarrow> control_request \<Rightarrow> control_target \<Rightarrow> dispatcher \<Rightarrow> dispatcher" where
  "begin_dispatch now actor fp r target d =
     (let i = dispatch_identity actor r target;
          (reservation, s) = reserve \<lparr>ri_fingerprint = fp, ri_identity = i, ri_reservedAt = to_iso now,
            ri_reservedUntil = to_iso (now + reservationLeaseMs)\<rparr> (dx_ops d)
      in spawn (case reservation of
             Conflict \<Rightarrow> Answered (identity_key i) (Inl (ControlFailure OperationConflict))
           | InProgress \<Rightarrow> Answered (identity_key i) (Inl (ControlFailure OperationInProgress))
           | Replayed record \<Rightarrow>
               (case result record of
                  Some res \<Rightarrow> Answered (identity_key i) (Inr (res\<lparr>res_replayed := True\<rparr>))
                | None \<Rightarrow> Answered (identity_key i) (Inl (ControlFailure OperationInProgress)))
           | New record \<Rightarrow> AwaitFresh \<lparr>da_fingerprint = fp, da_identity = i, da_request = r, da_target = target\<rparr>)
           (d\<lparr>dx_ops := s\<rparr>))"

text \<open>The answer of a store call after which the dispatch returns \<open>res\<close>.\<close>

definition answer_after :: "string \<Rightarrow> store_error + operation_record \<Rightarrow> operation_result \<Rightarrow> task" where
  "answer_after key outcome res =
     (case outcome of Inl e \<Rightarrow> Answered key (Inl (StoreFailure e)) | Inr _ \<Rightarrow> Answered key (Inr res))"

text \<open>The fresh target, or the error it failed with, has arrived.\<close>

definition resume_fresh ::
    "nat \<Rightarrow> int \<Rightarrow> failure + control_target \<Rightarrow> dispatcher \<Rightarrow> dispatcher" where
  "resume_fresh n now verified d =
     (case js_get (dx_tasks d) n of
        Some (AwaitFresh a) \<Rightarrow>
          if (case verified of Inl _ \<Rightarrow> False | Inr t \<Rightarrow> target_text t = target_text (da_target a))
          then (case markDispatchAttempted
                  \<lparr>dp_commandId = rq_operationId (da_request a), dp_dispatchedAt = to_iso now,
                   dp_dispatchedUntil = to_iso (now + dispatchLeaseMs), dp_fingerprint = da_fingerprint a,
                   dp_identity = da_identity a\<rparr> (dx_ops d) of
                  (Inl e, s) \<Rightarrow> set_task n (Answered (args_key a) (Inl (StoreFailure e))) (d\<lparr>dx_ops := s\<rparr>)
                | (Inr marked, s) \<Rightarrow> set_task n (AwaitSend a marked) (d\<lparr>dx_ops := s\<rparr>))
          else
            let res = publicResult (da_identity a) ResultFailed None;
                (outcome, s) = failReserved
                  \<lparr>pf_completedAt = to_iso now,
                   pf_failureCode = (if verified = Inl (ControlFailure DeniedError)
                     then AuthorizationDenied else TargetChanged),
                   pf_fingerprint = da_fingerprint a, pf_identity = da_identity a, pf_result = res\<rparr> (dx_ops d)
            in set_task n (answer_after (args_key a) outcome res) (d\<lparr>dx_ops := s\<rparr>)
      | _ \<Rightarrow> d)"

definition lose ::
    "int \<Rightarrow> dispatch_args \<Rightarrow> command_correlation \<Rightarrow> store \<Rightarrow> (store_error + operation_record) \<times> store" where
  "lose now a cmd s = markUncertain
     \<lparr>un_command = cmd, un_completedAt = to_iso now, un_fingerprint = da_fingerprint a,
      un_identity = da_identity a, un_resultEventSequence = None\<rparr> s"

text \<open>The dispatch was marked: the command is created, the call waits for its answer, and the command is sent.\<close>

definition resume_send :: "nat \<Rightarrow> int \<Rightarrow> dispatcher \<Rightarrow> dispatcher" where
  "resume_send n now d =
     (case js_get (dx_tasks d) n of
        Some (AwaitSend a marked) \<Rightarrow>
          (case command marked of
             None \<Rightarrow> set_task n (Answered (args_key a)
               (Inl (OtherFailure ''Canonical Runtime command reservation is incomplete.''))) d
           | Some cmd \<Rightarrow>
               let c = createCommand (da_identity a) (da_request a) (commandSequence cmd);
                   key = args_key a
               in if js_has (dx_pending d) key
                  then set_task n (Answered key (Inl (ControlFailure OperationInProgress))) d
                  else (case dispatchControl (ownerUserId (da_identity a)) c (dx_sessions d) of
                      (Inr _, ss) \<Rightarrow> set_task n (AwaitReply a cmd)
                        (d\<lparr>dx_sessions := ss, dx_pending := js_set (dx_pending d) key n\<rparr>)
                    | (Inl e, ss) \<Rightarrow>
                        let (outcome, s) = lose now a cmd (dx_ops d)
                        in set_task n (answer_after key outcome (publicResult (da_identity a) ResultUncertain None))
                             (d\<lparr>dx_sessions := ss, dx_ops := s\<rparr>)))
      | _ \<Rightarrow> d)"

text \<open>The timeout of a waiting dispatch; a settled dispatch has cleared its timer.\<close>

definition timer :: "nat \<Rightarrow> int \<Rightarrow> dispatcher \<Rightarrow> dispatcher" where
  "timer n now d =
     (case js_get (dx_tasks d) n of
        Some (AwaitReply a cmd) \<Rightarrow>
          let (outcome, s) = lose now a cmd (dx_ops d)
          in set_task n (answer_after (args_key a) outcome (publicResult (da_identity a) ResultUncertain None))
               (d\<lparr>dx_ops := s, dx_pending := js_delete (dx_pending d) (args_key a)\<rparr>)
      | _ \<Rightarrow> d)"

section \<open>Messages\<close>

definition begin_message :: "control_message \<Rightarrow> dispatcher \<Rightarrow> dispatcher" where
  "begin_message m d =
     (if dx_listening d
      then spawn (HandleRead m (read (cb_actorUserId m) (cb_operationId m) (dx_ops d))) d else d)"

fun error_failure_code :: "control_error_code \<Rightarrow> failure_code" where
  "error_failure_code CodeRuntimeStopping = RuntimeStopping"
| "error_failure_code CodeBlockedDependency = BlockedDependencyCode"
| "error_failure_code CodeUnavailable = Unavailable"
| "error_failure_code CodeInvalidCommand = InvalidRequest"
| "error_failure_code CodeUncertain = InvalidRequest"

text \<open>The result a message stands for, and the failure code stored with it.\<close>

fun message_result :: "operation_identity \<Rightarrow> control_body \<Rightarrow> operation_result" where
  "message_result i (CompletedMessage out) = publicResult i ResultCompleted (Some out)"
| "message_result i FailedMessage = publicResult i ResultFailed None"
| "message_result i (ErrorMessage code text) =
     publicResult i (if code = CodeUncertain then ResultUncertain
       else if code = CodeBlockedDependency then ResultBlocked else ResultFailed) None"
| "message_result i (CommandAccepted n b) = publicResult i ResultUncertain None"

fun message_failure_code :: "control_body \<Rightarrow> failure_code option" where
  "message_failure_code FailedMessage = Some RuntimeFailed"
| "message_failure_code (ErrorMessage code text) = Some (error_failure_code code)"
| "message_failure_code _ = None"

definition apply_message ::
    "int \<Rightarrow> control_message \<Rightarrow> operation_record \<Rightarrow> command_correlation \<Rightarrow> store \<Rightarrow>
     ((store_error + operation_record) \<times> store) \<times> operation_result option" where
  "apply_message now m r cmd s =
     (let i = identity r; res = message_result i (cm_body m);
          input = \<lparr>tm_command = cmd, tm_completedAt = to_iso now,
            tm_failureCode = message_failure_code (cm_body m), tm_fingerprint = fingerprint r,
            tm_identity = i, tm_result = res, tm_resultEventSequence = cm_eventSequence m\<rparr>
      in case cm_body m of
           CommandAccepted n b \<Rightarrow>
             (accept \<lparr>ac_acceptedAt = to_iso now, ac_acceptedCommandSequence = n, ac_command = cmd,
                ac_eventSequence = cm_eventSequence m, ac_fingerprint = fingerprint r,
                ac_identity = i\<rparr> s, None)
         | ErrorMessage CodeUncertain text \<Rightarrow>
             (markUncertain \<lparr>un_command = cmd, un_completedAt = to_iso now, un_fingerprint = fingerprint r,
                un_identity = i, un_resultEventSequence = Some (cm_eventSequence m)\<rparr> s, Some res)
         | _ \<Rightarrow> (if state r = Uncertain then reconcile input s else CanonicalStore.complete input s, Some res))"

text \<open>The record was read: it is checked against the message, and the message is applied to the store.\<close>

definition binding_changed :: failure where
  "binding_changed = OtherFailure ''Workspace Runtime control response binding changed.''"

definition resume_message :: "nat \<Rightarrow> int \<Rightarrow> dispatcher \<Rightarrow> dispatcher" where
  "resume_message n now d =
     (case js_get (dx_tasks d) n of
        Some (HandleRead m found) \<Rightarrow>
          (case found of
             None \<Rightarrow> set_task n (Done (Some binding_changed)) d
           | Some r \<Rightarrow>
               (case command r of
                  None \<Rightarrow> set_task n (Done (Some binding_changed)) d
                | Some cmd \<Rightarrow>
                    if \<not> matchesRecord r cmd m then set_task n (Done (Some binding_changed)) d
                    else (case apply_message now m r cmd (dx_ops d) of
                        ((Inl e, s), _) \<Rightarrow> set_task n (Done (Some (StoreFailure e))) (d\<lparr>dx_ops := s\<rparr>)
                      | ((Inr _, s), res) \<Rightarrow> set_task n (HandleAcknowledge m r res) (d\<lparr>dx_ops := s\<rparr>))))
      | _ \<Rightarrow> d)"

definition settle :: "string \<Rightarrow> operation_result \<Rightarrow> dispatcher \<Rightarrow> dispatcher" where
  "settle key res d =
     (case js_get (dx_pending d) key of
        None \<Rightarrow> d
      | Some waiting \<Rightarrow>
          set_task waiting (Answered key (Inr res)) (d\<lparr>dx_pending := js_delete (dx_pending d) key\<rparr>))"

text \<open>The store has the message: it is acknowledged to the Runtime, and a result settles the waiting dispatch.\<close>

definition resume_acknowledge :: "nat \<Rightarrow> dispatcher \<Rightarrow> dispatcher" where
  "resume_acknowledge n d =
     (case js_get (dx_tasks d) n of
        Some (HandleAcknowledge m r res) \<Rightarrow>
          (case acknowledgeControl (ownerUserId (identity r)) m (dx_sessions d) of
             (Inl e, ss) \<Rightarrow> set_task n (Done (Some (SessionFailure e))) (d\<lparr>dx_sessions := ss\<rparr>)
           | (Inr _, ss) \<Rightarrow>
               let d1 = set_task n (Done None) (d\<lparr>dx_sessions := ss\<rparr>)
               in (case res of
                     None \<Rightarrow> d1
                   | Some x \<Rightarrow> settle (recordKey (ownerUserId (identity r)) (operationId (identity r))) x d1))
      | _ \<Rightarrow> d)"

section \<open>Recovery of a registration\<close>

definition begin_recovery :: "control_registration \<Rightarrow> dispatcher \<Rightarrow> dispatcher" where
  "begin_recovery g d =
     (if dx_listening d
      then (case unresolved (cg_ownerUserId g) (cg_workspaceId g) (cg_generation g) (dx_ops d) of
          Inl e \<Rightarrow> spawn (Done (Some (StoreFailure e))) d
        | Inr rs \<Rightarrow> spawn (Recover g rs) d)
      else d)"

definition resume_rebind :: "nat \<Rightarrow> dispatcher \<Rightarrow> dispatcher" where
  "resume_rebind n d =
     (case js_get (dx_tasks d) n of
        Some (Recover g []) \<Rightarrow> set_task n (Done None) d
      | Some (Recover g (r # rs)) \<Rightarrow>
          (case command r of
             None \<Rightarrow> set_task n (Done (Some (OtherFailure ''Canonical Runtime recovery command is missing.''))) d
           | Some cmd \<Rightarrow>
               (case rebindSession \<lparr>rb_command = cmd, rb_fingerprint = fingerprint r,
                   rb_identity = identity r, rb_sessionId = cg_sessionId g\<rparr> (dx_ops d) of
                  (Inl e, s) \<Rightarrow> set_task n (Done (Some (StoreFailure e))) (d\<lparr>dx_ops := s\<rparr>)
                | (Inr rebound, s) \<Rightarrow> set_task n (RecoverSend g rebound cmd rs) (d\<lparr>dx_ops := s\<rparr>)))
      | _ \<Rightarrow> d)"

definition resume_recover_send :: "nat \<Rightarrow> dispatcher \<Rightarrow> dispatcher" where
  "resume_recover_send n d =
     (case js_get (dx_tasks d) n of
        Some (RecoverSend g rebound cmd rs) \<Rightarrow>
          (case dispatchControl (cg_ownerUserId g)
              (createStoredCommand (identity rebound) (commandSequence cmd)) (dx_sessions d) of
             (Inl e, ss) \<Rightarrow> set_task n (Done (Some (SessionFailure e))) (d\<lparr>dx_sessions := ss\<rparr>)
           | (Inr _, ss) \<Rightarrow> set_task n (Recover g rs) (d\<lparr>dx_sessions := ss\<rparr>))
      | _ \<Rightarrow> d)"

section \<open>Closing\<close>

definition reject_waiting :: "string \<times> nat \<Rightarrow> dispatcher \<Rightarrow> dispatcher" where
  "reject_waiting kn d = (case kn of (key, n) \<Rightarrow>
     set_task n (Answered key (Inl (OtherFailure ''Workspace Runtime control dispatcher closed.''))) d)"

definition close_dispatcher :: "dispatcher \<Rightarrow> dispatcher" where
  "close_dispatcher d =
     (fold reject_waiting (dx_pending d) d)\<lparr>dx_pending := [], dx_listening := False\<rparr>"

section \<open>Steps\<close>

datatype dispatcher_call =
    DDispatch int control_actor string control_request control_target
  | DFresh nat int "failure + control_target"
  | DSend nat int
  | DTimer nat int
  | DMessage control_message
  | DApply nat int
  | DAcknowledge nat
  | DRegistered control_registration
  | DRebind nat
  | DRecoverSend nat
  | DClose
  | DSession service_call

text \<open>The dispatcher is the only caller of \<open>dispatchControl\<close>; the session service does the rest by itself.\<close>

fun own_call :: "service_call \<Rightarrow> bool" where
  "own_call (RDispatch owner c) = False"
| "own_call _ = True"

fun dispatcher_step ::
    "(string \<Rightarrow> string) \<Rightarrow> (runtime_event \<Rightarrow> string) \<Rightarrow> dispatcher_call \<Rightarrow> dispatcher \<Rightarrow> unit \<times> dispatcher" where
  "dispatcher_step hash fp (DDispatch now actor f r target) d = ((), begin_dispatch now actor f r target d)"
| "dispatcher_step hash fp (DFresh n now v) d = ((), resume_fresh n now v d)"
| "dispatcher_step hash fp (DSend n now) d = ((), resume_send n now d)"
| "dispatcher_step hash fp (DTimer n now) d = ((), timer n now d)"
| "dispatcher_step hash fp (DMessage m) d = ((), begin_message m d)"
| "dispatcher_step hash fp (DApply n now) d = ((), resume_message n now d)"
| "dispatcher_step hash fp (DAcknowledge n) d = ((), resume_acknowledge n d)"
| "dispatcher_step hash fp (DRegistered g) d = ((), begin_recovery g d)"
| "dispatcher_step hash fp (DRebind n) d = ((), resume_rebind n d)"
| "dispatcher_step hash fp (DRecoverSend n) d = ((), resume_recover_send n d)"
| "dispatcher_step hash fp DClose d = ((), close_dispatcher d)"
| "dispatcher_step hash fp (DSession c) d =
     ((), if own_call c then d\<lparr>dx_sessions := snd (service_step hash fp c (dx_sessions d))\<rparr> else d)"

end
