(* ===== verification/DispatcherInvariant.thy ===== *)
theory DispatcherInvariant
  imports CanonicalEffects CanonicalDispatcher
begin

text \<open>
  The invariant of the dispatcher, over the operation store and the session service together: what each
  waiting task may rely on, that every command on the wire is the command of a stored record, and that
  the pending calls are exactly the dispatches that wait for a reply.
\<close>

section \<open>What the tasks rely on\<close>

text \<open>The command of an operation is stored; a result is the one stored; a command on the wire is stored.\<close>

definition stored :: "store \<Rightarrow> operation_identity \<Rightarrow> command_correlation \<Rightarrow> bool" where
  "stored s i cmd \<longleftrightarrow> (\<exists>r. js_get (records s) (identity_key i) = Some r \<and> command r = Some cmd \<and>
     same_operation (identity r) i)"

definition answer_ok :: "store \<Rightarrow> string \<Rightarrow> operation_result \<Rightarrow> bool" where
  "answer_ok s key x \<longleftrightarrow> (\<exists>r. js_get (records s) key = Some r \<and>
     (if res_state x = ResultUncertain then state r \<noteq> Reserved
      else terminal r \<and> result r = Some (x\<lparr>res_replayed := False\<rparr>)))"

definition sessionless :: "control_command \<Rightarrow> control_command" where
  "sessionless c = c\<lparr>cb_sessionId := []\<rparr>"

definition sent_ok :: "store \<Rightarrow> control_command \<Rightarrow> bool" where
  "sent_ok s c \<longleftrightarrow> (\<exists>r cmd. js_get (records s) (recordKey (cb_actorUserId c) (cb_operationId c)) = Some r \<and>
     command r = Some cmd \<and> sessionless c = sessionless (createStoredCommand (identity r) (commandSequence cmd)))"

definition args_ok :: "dispatch_args \<Rightarrow> bool" where
  "args_ok a \<longleftrightarrow> safeInput (da_identity a) = canonicalRuntimeControlSafeInput (da_request a) \<and>
     actorUserId (da_identity a) = ownerUserId (da_identity a)"

definition recoverable :: "store \<Rightarrow> operation_record \<Rightarrow> bool" where
  "recoverable s r \<longleftrightarrow> pred_option (stored s (identity r)) (command r) \<and>
     actorUserId (identity r) = ownerUserId (identity r)"

fun task_ok :: "store \<Rightarrow> task \<Rightarrow> bool" where
  "task_ok s (AwaitFresh a) \<longleftrightarrow> args_ok a"
| "task_ok s (AwaitSend a marked) \<longleftrightarrow> args_ok a \<and> identity marked = da_identity a \<and>
     (\<exists>cmd. command marked = Some cmd \<and> stored s (da_identity a) cmd)"
| "task_ok s (AwaitReply a cmd) \<longleftrightarrow> args_ok a \<and> stored s (da_identity a) cmd"
| "task_ok s (HandleRead m found) \<longleftrightarrow> True"
| "task_ok s (HandleAcknowledge m r res) \<longleftrightarrow> pred_option (answer_ok s (identity_key (identity r))) res"
| "task_ok s (Recover g rs) \<longleftrightarrow> list_all (recoverable s) rs"
| "task_ok s (RecoverSend g rebound cmd rs) \<longleftrightarrow> list_all (recoverable s) rs \<and>
     stored s (identity rebound) cmd \<and> actorUserId (identity rebound) = ownerUserId (identity rebound)"
| "task_ok s (Answered key (Inr x)) \<longleftrightarrow> answer_ok s key x"
| "task_ok s (Answered key (Inl e)) \<longleftrightarrow> True"
| "task_ok s (Done e) \<longleftrightarrow> True"

fun waiting :: "task \<Rightarrow> string option" where
  "waiting (AwaitReply a cmd) = Some (args_key a)"
| "waiting _ = None"

fun sent_commands :: "wire \<Rightarrow> control_command list" where
  "sent_commands [] = []"
| "sent_commands ((key, conn, SendCommand c) # w) = c # sent_commands w"
| "sent_commands ((key, conn, a) # w) = sent_commands w"

definition tasks_ok :: "dispatcher \<Rightarrow> bool" where
  "tasks_ok d \<longleftrightarrow> (\<forall>n t. js_get (dx_tasks d) n = Some t \<longrightarrow> n < dx_next d \<and> task_ok (dx_ops d) t)"

definition pending_ok :: "dispatcher \<Rightarrow> bool" where
  "pending_ok d \<longleftrightarrow> js_wf (dx_pending d) \<and> (\<forall>k n. js_get (dx_pending d) k = Some n \<longleftrightarrow>
     (\<exists>t. js_get (dx_tasks d) n = Some t \<and> waiting t = Some k))"

definition dispatcher_inv :: "dispatcher \<Rightarrow> bool" where
  "dispatcher_inv d \<longleftrightarrow> store_inv (dx_ops d) \<and> all_records record_final (dx_ops d) \<and>
     service_inv (dx_sessions d) \<and> list_all (sent_ok (dx_ops d)) (sent_commands (rs_wire (dx_sessions d))) \<and>
     tasks_ok d \<and> pending_ok d"

lemma dispatcher_invD:
  assumes "dispatcher_inv d"
  shows "store_inv (dx_ops d)" "records_ok (dx_ops d)" "all_records record_final (dx_ops d)"
    "service_inv (dx_sessions d)" "list_all (sent_ok (dx_ops d)) (sent_commands (rs_wire (dx_sessions d)))"
    "js_get (dx_tasks d) n = Some t \<Longrightarrow> n < dx_next d" "js_get (dx_tasks d) n = Some t \<Longrightarrow> task_ok (dx_ops d) t"
    "js_get (dx_pending d) k = Some n \<longleftrightarrow> (\<exists>t. js_get (dx_tasks d) n = Some t \<and> waiting t = Some k)"
    "js_wf (dx_pending d)"
  using assms by (auto simp: dispatcher_inv_def tasks_ok_def pending_ok_def store_inv_def)

lemma empty_dispatcher_inv [simp]: "dispatcher_inv empty_dispatcher"
  by (simp add: dispatcher_inv_def empty_dispatcher_def tasks_ok_def pending_ok_def all_records_def
      empty_store_def store_inv_def records_ok_def fence_ok_def commands_ok_def service_inv_def empty_service_def)

section \<open>Calls of the store keep what the tasks rely on\<close>

lemma change_stored:
  assumes "change s s'" "records_ok s" "stored s i cmd"
  shows "stored s' i cmd"
proof -
  obtain r where r: "js_get (records s) (identity_key i) = Some r" "command r = Some cmd" "same_operation (identity r) i"
    using assms(3) by (auto simp: stored_def)
  obtain r' where "js_get (records s') (identity_key i) = Some r'" "follows r r'"
    using change_follows [OF assms(1,2) r(1)] by blast
  with r show ?thesis
    by (auto simp: stored_def follows_def intro: same_operation_trans)
qed

lemma change_answer:
  assumes "change s s'" "records_ok s" "answer_ok s key x"
  shows "answer_ok s' key x"
proof -
  obtain r where r: "js_get (records s) key = Some r" "if res_state x = ResultUncertain then state r \<noteq> Reserved
      else terminal r \<and> result r = Some (x\<lparr>res_replayed := False\<rparr>)"
    using assms(3) by (auto simp: answer_ok_def)
  obtain r' where "js_get (records s') key = Some r'" "follows r r'"
    using change_follows [OF assms(1,2) r(1)] by blast
  with r(2) show ?thesis
    by (auto simp: answer_ok_def follows_def split: if_splits)
qed

lemma same_operation_command:
  "same_operation i j \<Longrightarrow> sessionless (createStoredCommand i n) = sessionless (createStoredCommand j n)"
  by (cases i; cases j) (simp add: same_operation_def createStoredCommand_def command_for_def sessionless_def)

lemma change_sent:
  assumes "change s s'" "records_ok s" "sent_ok s c"
  shows "sent_ok s' c"
proof -
  obtain r cmd where r: "js_get (records s) (recordKey (cb_actorUserId c) (cb_operationId c)) = Some r"
      "command r = Some cmd" "sessionless c = sessionless (createStoredCommand (identity r) (commandSequence cmd))"
    using assms(3) by (auto simp: sent_ok_def)
  obtain r' where r': "js_get (records s') (recordKey (cb_actorUserId c) (cb_operationId c)) = Some r'" "follows r r'"
    using change_follows [OF assms(1,2) r(1)] by blast
  then have "command r' = Some cmd" "same_operation (identity r') (identity r)"
    using r(2) by (simp_all add: follows_def)
  with r(3) r'(1) same_operation_command [of "identity r'" "identity r"] show ?thesis
    by (auto simp: sent_ok_def)
qed

lemma change_recoverable:
  assumes "change s s'" "records_ok s" "recoverable s r"
  shows "recoverable s' r"
  using assms(3) change_stored [OF assms(1,2)] by (cases "command r") (simp_all add: recoverable_def)

lemma change_task:
  assumes "change s s'" "records_ok s" "task_ok s t"
  shows "task_ok s' t"
  using assms(3) change_stored [OF assms(1,2)] change_answer [OF assms(1,2)] change_recoverable [OF assms(1,2)]
  by (cases "(s, t)" rule: task_ok.cases) (auto simp: list_all_iff option.pred_set)

lemma ops_inv:
  assumes inv: "dispatcher_inv d" and change: "change (dx_ops d) s" and final: "all_records record_final s"
  shows "dispatcher_inv (d\<lparr>dx_ops := s\<rparr>)"
proof -
  note ok = dispatcher_invD(2) [OF inv]
  have "store_inv s"
    using dispatcher_invD(1) [OF inv] change change_records_ok change_fence_ok change_commands_ok
    by (auto simp: store_inv_def)
  with final inv change_task [OF change ok] list.pred_mono_strong [OF dispatcher_invD(5) [OF inv] change_sent [OF change ok]]
  show ?thesis by (auto simp: dispatcher_inv_def tasks_ok_def pending_ok_def)
qed

section \<open>Updates of the tasks\<close>

lemma set_task_simps [simp]:
  "dx_ops (set_task n t d) = dx_ops d" "dx_sessions (set_task n t d) = dx_sessions d"
  "dx_pending (set_task n t d) = dx_pending d" "dx_next (set_task n t d) = dx_next d"
  "dx_listening (set_task n t d) = dx_listening d"
  "js_get (dx_tasks (set_task n t d)) = (js_get (dx_tasks d))(n \<mapsto> t)"
  by (simp_all add: set_task_def fun_eq_iff)

lemma set_task_inv:
  assumes "dispatcher_inv d" "js_get (dx_tasks d) n = Some u" "waiting u = waiting t" "task_ok (dx_ops d) t"
  shows "dispatcher_inv (set_task n t d)"
  using assms dispatcher_invD(6) [OF assms(1,2)]
  by (auto simp: dispatcher_inv_def tasks_ok_def pending_ok_def split: if_splits)

lemma spawn_inv:
  assumes "dispatcher_inv d" "waiting t = None" "task_ok (dx_ops d) t"
  shows "dispatcher_inv (spawn t d)"
proof -
  have "js_get (dx_tasks d) (dx_next d) = None"
    using dispatcher_invD(6) [OF assms(1)] by (metis less_irrefl not_Some_eq)
  with assms show ?thesis
    by (auto simp: dispatcher_inv_def tasks_ok_def pending_ok_def spawn_def less_Suc_eq split: if_splits)
qed

lemma start_waiting_inv:
  assumes inv: "dispatcher_inv d" and "js_get (dx_tasks d) n = Some u" "waiting u = None" "waiting t = Some key"
    and "js_get (dx_pending d) key = None" "task_ok (dx_ops d) t"
  shows "dispatcher_inv (set_task n t (d\<lparr>dx_pending := js_set (dx_pending d) key n\<rparr>))"
proof -
  have "js_get (dx_pending d) k \<noteq> Some n" for k
    using assms(2,3) by (simp add: dispatcher_invD(8) [OF inv])
  moreover have "waiting v \<noteq> Some key" if "js_get (dx_tasks d) m = Some v" for m v
    using that assms(5) dispatcher_invD(8) [OF inv, of key m] by auto
  ultimately show ?thesis
    using assms dispatcher_invD(6) [OF inv assms(2)] by (auto simp: dispatcher_inv_def tasks_ok_def pending_ok_def split: if_splits)
qed

lemma stop_waiting_inv:
  assumes inv: "dispatcher_inv d" and get: "js_get (dx_pending d) key = Some n" and t: "waiting t = None" "task_ok (dx_ops d) t"
  shows "dispatcher_inv (set_task n t (d\<lparr>dx_pending := js_delete (dx_pending d) key\<rparr>))" (is "dispatcher_inv ?d")
proof -
  note pending = dispatcher_invD(8) [OF inv]
  obtain u where u: "js_get (dx_tasks d) n = Some u" "waiting u = Some key"
    using get pending by blast
  have "tasks_ok ?d"
    using inv t dispatcher_invD(6) [OF inv u(1)] by (simp add: dispatcher_inv_def tasks_ok_def)
  moreover have "js_get (dx_pending ?d) k = Some m \<longleftrightarrow> (\<exists>v. js_get (dx_tasks ?d) m = Some v \<and> waiting v = Some k)" for k m
  proof (cases "m = n")
    case True
    with u t pending [of k n] show ?thesis by auto
  next
    case False
    with get pending [of key m] pending [of k m] show ?thesis by (cases "k = key") simp_all
  qed
  ultimately show ?thesis
    using inv by (simp add: dispatcher_inv_def pending_ok_def)
qed

lemma sessions_inv:
  assumes "dispatcher_inv d" "service_inv ss" "list_all (sent_ok (dx_ops d)) (sent_commands (rs_wire ss))"
  shows "dispatcher_inv (d\<lparr>dx_sessions := ss\<rparr>)"
  using assms by (auto simp: dispatcher_inv_def tasks_ok_def pending_ok_def)

section \<open>Commands on the wire\<close>

lemma dispatchControl_cases:
  obtains (refused) e where "dispatchControl owner c ss = (Inl e, ss)"
  | (sent) key conn where "dispatchControl owner c ss = (Inr (), emit key conn (SendCommand c) ss)"
proof (cases "\<exists>e. dispatchControl owner c ss = (Inl e, ss)")
  case False
  then have "\<exists>key conn. dispatchControl owner c ss = (Inr (), emit key conn (SendCommand c) ss)"
    by (auto simp: dispatchControl_def Let_def split: option.splits if_splits)
  with sent show thesis by blast
qed (use refused in blast)

lemma acknowledge_sent [simp]: "sent_commands (rs_wire (snd (acknowledgeControl owner m ss))) = sent_commands (rs_wire ss)"
  by (auto simp: acknowledgeControl_def Let_def split: option.split)

lemma acknowledge_inv: "service_inv ss \<Longrightarrow> service_inv (snd (acknowledgeControl owner m ss))"
  using service_step_inv [of ss hash fp "RAcknowledge owner m" for hash fp] by simp

lemma drop_sent [simp]: "sent_commands (rs_wire (drop_connection key a code reason ss)) = sent_commands (rs_wire ss)"
  by (simp add: drop_connection_def)

lemma closeSnapshot_sent [simp]: "sent_commands (rs_wire (closeSnapshot owner sn code reason ss)) = sent_commands (rs_wire ss)"
  by (simp add: closeSnapshot_def split: option.split)

lemma fold_keeps: "(\<And>x s. f (g x s) = f s) \<Longrightarrow> f (fold g xs s) = f s"
  by (induction xs arbitrary: s) simp_all

lemma own_call_sent:
  assumes "own_call c"
  shows "sent_commands (rs_wire (snd (service_step hash fp c ss))) = sent_commands (rs_wire ss)"
proof (cases c)
  case (RRegister now i w conn scope r)
  then show ?thesis
    by (auto simp: service_register_def Let_def close_replaced_def split: prod.split sum.split option.split)
next
  case (RExpireStale now)
  have "sent_commands (rs_wire (fold (\<lambda>(owner, snapshot). closeSnapshot owner snapshot a b) xs t)) =
      sent_commands (rs_wire t)" for a b xs t
    by (rule fold_keeps) (simp split: prod.split)
  with RExpireStale show ?thesis
    by (simp add: expireStale_def split: prod.split sum.split)
next
  case RClose
  have "sent_commands (rs_wire (fold (\<lambda>(key, a). emit key (cn_connection a) (CloseConnection code reason)) xs t)) =
      sent_commands (rs_wire t)" for code reason xs t
    by (rule fold_keeps) (simp split: prod.split)
  with RClose show ?thesis by (simp add: service_close_def)
qed (use assms in \<open>auto simp: service_revoke_def service_append_def acceptCodex_def dispatchCodex_def
      service_disconnect_def closeExpired_def Let_def
      split: prod.split sum.split option.split codex_kind.split\<close>)

lemma stored_sent:
  assumes "stored s i cmd" and "actorUserId i = ownerUserId i"
  shows "sent_ok s (createStoredCommand i (commandSequence cmd))"
proof -
  obtain r where r: "js_get (records s) (identity_key i) = Some r" "command r = Some cmd" "same_operation (identity r) i"
    using assms(1) by (auto simp: stored_def)
  moreover have "recordKey (cb_actorUserId (createStoredCommand i n)) (cb_operationId (createStoredCommand i n)) = identity_key i" for n
    using assms(2) by (simp add: createStoredCommand_def command_for_def identity_key_def)
  ultimately show ?thesis
    using same_operation_command [OF same_operation_sym [OF r(3)]] by (auto simp: sent_ok_def)
qed

lemma args_sent:
  "args_ok a \<Longrightarrow> stored s (da_identity a) cmd \<Longrightarrow>
     sent_ok s (createCommand (da_identity a) (da_request a) (commandSequence cmd))"
  using stored_sent [of s "da_identity a" cmd] by (simp add: args_ok_def createCommand_def createStoredCommand_def)

lemma send_inv:
  assumes inv: "dispatcher_inv d" and ok: "sent_ok (dx_ops d) c" and res: "dispatchControl owner c (dx_sessions d) = (res, ss)"
  shows "dispatcher_inv (d\<lparr>dx_sessions := ss\<rparr>)"
proof (rule sessions_inv [OF inv])
  show "service_inv ss"
    using dispatch_inv [OF dispatcher_invD(4) [OF inv], of owner c] by (simp add: res)
  show "list_all (sent_ok (dx_ops d)) (sent_commands (rs_wire ss))"
    using dispatcher_invD(5) [OF inv] ok res
    by (cases rule: dispatchControl_cases [of owner c "dx_sessions d"]) auto
qed

section \<open>Every step keeps the invariant\<close>

lemma final_answer:
  assumes "record_final r" "result r = Some x" "js_get (records s) key = Some r"
  shows "answer_ok s key (x\<lparr>res_replayed := b\<rparr>)"
  using assms by (cases "res_state x") (auto simp: record_final_def answer_ok_def terminal_def)

lemma answer_after_simps [simp]:
  "waiting (answer_after key outcome x) = None"
  "task_ok s (answer_after key outcome x) \<longleftrightarrow> (\<forall>r. outcome = Inr r \<longrightarrow> answer_ok s key x)"
  by (auto simp: answer_after_def split: sum.split)

lemma publicResult_simps [simp]:
  "res_replayed (publicResult i st out) = False" "res_state (publicResult i st out) = st"
  "(publicResult i st out)\<lparr>res_replayed := False\<rparr> = publicResult i st out"
  by (simp_all add: publicResult_def)

lemma terminal_answer:
  "js_get (records s) key = Some r \<Longrightarrow> terminal r \<Longrightarrow> result r = Some x \<Longrightarrow> res_replayed x = False \<Longrightarrow>
     res_state x \<noteq> ResultUncertain \<Longrightarrow> answer_ok s key x"
  by (cases x) (simp add: answer_ok_def)

lemma begin_dispatch_inv:
  assumes inv: "dispatcher_inv d"
  shows "dispatcher_inv (begin_dispatch now actor fp r target d)"
proof -
  let ?i = "dispatch_identity actor r target"
  let ?input = "\<lparr>ri_fingerprint = fp, ri_identity = ?i, ri_reservedAt = to_iso now,
    ri_reservedUntil = to_iso (now + reservationLeaseMs)\<rparr>"
  have owner: "actorUserId ?i = ownerUserId ?i" by (simp add: dispatch_identity_def)
  obtain reservation s where res: "reserve ?input (dx_ops d) = (reservation, s)" by fastforce
  have change: "change (dx_ops d) s" using reserve_change [of "dx_ops d" ?input] by (simp add: res)
  have spec: "all_records record_final s"
    "reservation = Replayed q \<Longrightarrow> js_get (records (dx_ops d)) (identity_key ?i) = Some q" for q
    using reserve_spec [OF dispatcher_invD(3) [OF inv], of ?input] owner by (simp_all add: res)
  have "answer_ok s (identity_key ?i) (x\<lparr>res_replayed := True\<rparr>)"
    if "reservation = Replayed q" "result q = Some x" for q x
    using change_answer [OF change dispatcher_invD(2) [OF inv]] spec(2) [OF that(1)] that(2)
      final_answer [OF all_recordsD [OF dispatcher_invD(3) [OF inv] spec(2) [OF that(1)]]] by blast
  then show ?thesis
    using owner unfolding begin_dispatch_def Let_def res prod.case
    by (intro spawn_inv ops_inv [OF inv change spec(1)])
      (auto simp: args_ok_def dispatch_identity_def split: reservation_result.split option.split)
qed

lemma resume_fresh_inv:
  assumes inv: "dispatcher_inv d"
  shows "dispatcher_inv (resume_fresh n now verified d)"
proof (cases "\<exists>a. js_get (dx_tasks d) n = Some (AwaitFresh a)")
  case True
  then obtain a where a: "js_get (dx_tasks d) n = Some (AwaitFresh a)" ..
  have args: "args_ok a" using dispatcher_invD(7) [OF inv a] by simp
  note final = dispatcher_invD(3) [OF inv]
  show ?thesis
  proof (cases "case verified of Inl _ \<Rightarrow> False | Inr t \<Rightarrow> target_text t = target_text (da_target a)")
    case True
    let ?input = "\<lparr>dp_commandId = rq_operationId (da_request a), dp_dispatchedAt = to_iso now,
      dp_dispatchedUntil = to_iso (now + dispatchLeaseMs), dp_fingerprint = da_fingerprint a, dp_identity = da_identity a\<rparr>"
    obtain res s where res: "markDispatchAttempted ?input (dx_ops d) = (res, s)" by fastforce
    have change: "change (dx_ops d) s" using dispatch_change [of "dx_ops d" ?input] by (simp add: res)
    have "dispatcher_inv (d\<lparr>dx_ops := s\<rparr>)"
      using ops_inv [OF inv change] dispatch_spec(1) [OF final, of ?input] by (simp add: res)
    moreover have "task_ok s (AwaitSend a marked)" if "res = Inr marked" for marked
      using dispatch_spec(2) [OF final, of ?input marked] that args
      by (auto simp: res stored_def)
    ultimately show ?thesis
      using True unfolding resume_fresh_def a option.case task.case res
      by (cases res) (auto intro!: set_task_inv [of _ n "AwaitFresh a"] simp: a)
  next
    case False
    let ?x = "publicResult (da_identity a) ResultFailed None"
    let ?input = "\<lparr>pf_completedAt = to_iso now, pf_failureCode = (if verified = Inl (ControlFailure DeniedError)
        then AuthorizationDenied else TargetChanged), pf_fingerprint = da_fingerprint a,
      pf_identity = da_identity a, pf_result = ?x\<rparr>"
    obtain res s where res: "failReserved ?input (dx_ops d) = (res, s)" by fastforce
    have change: "change (dx_ops d) s" using failReserved_change [of "dx_ops d" ?input] by (simp add: res)
    have "dispatcher_inv (d\<lparr>dx_ops := s\<rparr>)"
      using ops_inv [OF inv change] failReserved_spec(1) [OF final, of ?input] by (simp add: res)
    moreover have "answer_ok s (args_key a) ?x" if "res = Inr q" for q
      using failReserved_spec(2) [OF final, of ?input q] that
      by (auto simp: res args_key_def intro!: terminal_answer)
    ultimately show ?thesis
      using False unfolding resume_fresh_def a option.case task.case
      by (auto simp: res a Let_def intro!: set_task_inv [of _ n "AwaitFresh a"])
  qed
next
  case False
  then have "resume_fresh n now verified d = d"
    by (auto simp: resume_fresh_def split: option.split task.split)
  with inv show ?thesis by simp
qed

lemma lose_spec:
  assumes inv: "dispatcher_inv d" and res: "lose now a cmd (dx_ops d) = (outcome, s)"
  shows "dispatcher_inv (d\<lparr>dx_ops := s\<rparr>)"
    "outcome = Inr r \<Longrightarrow> answer_ok s (args_key a) (publicResult i ResultUncertain out)"
proof -
  let ?input = "\<lparr>un_command = cmd, un_completedAt = to_iso now, un_fingerprint = da_fingerprint a,
    un_identity = da_identity a, un_resultEventSequence = None\<rparr>"
  have call: "markUncertain ?input (dx_ops d) = (outcome, s)" using res by (simp add: lose_def)
  note spec = markUncertain_spec [OF dispatcher_invD(3) [OF inv], of ?input]
  show "dispatcher_inv (d\<lparr>dx_ops := s\<rparr>)"
    using ops_inv [OF inv, of s] markUncertain_change [of "dx_ops d" ?input] spec(1) by (simp add: call)
  show "answer_ok s (args_key a) (publicResult i ResultUncertain out)" if "outcome = Inr r"
    using spec(2) [of r] that by (auto simp: call answer_ok_def args_key_def)
qed

lemma resume_send_inv:
  assumes inv: "dispatcher_inv d"
  shows "dispatcher_inv (resume_send n now d)"
proof (cases "\<exists>a marked. js_get (dx_tasks d) n = Some (AwaitSend a marked)")
  case True
  then obtain a marked where t: "js_get (dx_tasks d) n = Some (AwaitSend a marked)" by blast
  then obtain cmd where cmd: "command marked = Some cmd" "args_ok a" "stored (dx_ops d) (da_identity a) cmd"
    using dispatcher_invD(7) [OF inv t] by auto
  show ?thesis
  proof (cases "js_get (dx_pending d) (args_key a)")
    case (Some m)
    with t cmd inv show ?thesis
      by (auto simp: resume_send_def Let_def intro!: set_task_inv [of _ n "AwaitSend a marked"])
  next
    case None
    let ?c = "createCommand (da_identity a) (da_request a) (commandSequence cmd)"
    obtain res ss where send: "dispatchControl (ownerUserId (da_identity a)) ?c (dx_sessions d) = (res, ss)" by fastforce
    have inv1: "dispatcher_inv (d\<lparr>dx_sessions := ss\<rparr>)"
      by (rule send_inv [OF inv args_sent [OF cmd(2,3)] send])
    show ?thesis
    proof (cases res)
      case (Inr u)
      have "dispatcher_inv (set_task n (AwaitReply a cmd) ((d\<lparr>dx_sessions := ss\<rparr>)
          \<lparr>dx_pending := js_set (dx_pending (d\<lparr>dx_sessions := ss\<rparr>)) (args_key a) n\<rparr>))"
        by (rule start_waiting_inv [OF inv1, of n "AwaitSend a marked"]) (use t None cmd in simp_all)
      with t cmd None send Inr show ?thesis
        by (simp add: resume_send_def Let_def)
    next
      case (Inl e)
      obtain outcome s where lost: "lose now a cmd (dx_ops d) = (outcome, s)" by fastforce
      then have lost': "lose now a cmd (dx_ops (d\<lparr>dx_sessions := ss\<rparr>)) = (outcome, s)" by simp
      have "dispatcher_inv (set_task n (answer_after (args_key a) outcome (publicResult (da_identity a) ResultUncertain None))
          (d\<lparr>dx_sessions := ss, dx_ops := s\<rparr>))"
        by (rule set_task_inv [OF lose_spec(1) [OF inv1 lost'], of n "AwaitSend a marked"])
          (use t lose_spec(2) [OF inv1 lost'] in simp_all)
      with t cmd None send Inl lost show ?thesis
        by (simp add: resume_send_def Let_def)
    qed
  qed
next
  case False
  then have "resume_send n now d = d"
    by (auto simp: resume_send_def split: option.split task.split)
  with inv show ?thesis by simp
qed

lemma timer_inv:
  assumes inv: "dispatcher_inv d"
  shows "dispatcher_inv (timer n now d)"
proof (cases "\<exists>a cmd. js_get (dx_tasks d) n = Some (AwaitReply a cmd)")
  case True
  then obtain a cmd where t: "js_get (dx_tasks d) n = Some (AwaitReply a cmd)" by blast
  then have pending: "js_get (dx_pending d) (args_key a) = Some n"
    by (simp add: dispatcher_invD(8) [OF inv])
  obtain outcome s where lost: "lose now a cmd (dx_ops d) = (outcome, s)" by fastforce
  have "dispatcher_inv (set_task n (answer_after (args_key a) outcome (publicResult (da_identity a) ResultUncertain None))
      (d\<lparr>dx_ops := s, dx_pending := js_delete (dx_pending (d\<lparr>dx_ops := s\<rparr>)) (args_key a)\<rparr>))"
    by (rule stop_waiting_inv [OF lose_spec(1) [OF inv lost]])
      (use pending lose_spec(2) [OF inv lost] in simp_all)
  with t lost show ?thesis by (simp add: timer_def Let_def)
next
  case False
  then have "timer n now d = d"
    by (auto simp: timer_def split: option.split task.split)
  with inv show ?thesis by simp
qed

lemma apply_message_spec:
  assumes final: "all_records record_final s" and call: "apply_message now m r cmd s = ((res, t), x)"
  shows "change s t" "all_records record_final t"
    "res = Inr q \<Longrightarrow> pred_option (answer_ok t (identity_key (identity r))) x"
proof -
  let ?i = "identity r"
  let ?x = "message_result ?i (cm_body m)"
  let ?input = "\<lparr>tm_command = cmd, tm_completedAt = to_iso now, tm_failureCode = message_failure_code (cm_body m),
    tm_fingerprint = fingerprint r, tm_identity = ?i, tm_result = ?x, tm_resultEventSequence = cm_eventSequence m\<rparr>"
  have terminal_message: "change s t \<and> all_records record_final t \<and>
      (res = Inr q \<longrightarrow> pred_option (answer_ok t (identity_key ?i)) x)"
    if eq: "apply_message now m r cmd s =
        (if state r = Uncertain then reconcile ?input s else CanonicalStore.complete ?input s, Some ?x)"
      and st: "res_state ?x \<noteq> ResultUncertain" and rep: "\<not> res_replayed ?x"
  proof -
    obtain f where f: "f = CanonicalStore.complete \<or> f = reconcile" "f ?input s = (res, t)" "x = Some ?x"
      using eq call by (auto split: if_splits)
    have "change s t"
      using f complete_change [of s ?input] reconcile_change [of s ?input] by auto
    with terminal_call_spec [OF final _ _ f(1), of ?input] st rep f(2,3) show ?thesis
      by (auto intro!: terminal_answer)
  qed
  have "change s t \<and> all_records record_final t \<and> (res = Inr q \<longrightarrow> pred_option (answer_ok t (identity_key ?i)) x)"
  proof (cases "cm_body m")
    case (CommandAccepted n b)
    let ?accept = "\<lparr>ac_acceptedAt = to_iso now, ac_acceptedCommandSequence = n, ac_command = cmd,
      ac_eventSequence = cm_eventSequence m, ac_fingerprint = fingerprint r, ac_identity = ?i\<rparr>"
    show ?thesis
      using call accept_change [of s ?accept] accept_spec [OF final, of ?accept]
      by (auto simp: apply_message_def CommandAccepted Let_def)
  next
    case (ErrorMessage code w)
    show ?thesis
    proof (cases "code = CodeUncertain")
      case True
      let ?lost = "\<lparr>un_command = cmd, un_completedAt = to_iso now, un_fingerprint = fingerprint r, un_identity = ?i,
        un_resultEventSequence = Some (cm_eventSequence m)\<rparr>"
      show ?thesis
        using call markUncertain_change [of s ?lost] markUncertain_spec [OF final, of ?lost]
        by (auto simp: apply_message_def ErrorMessage True Let_def answer_ok_def)
    next
      case False
      then show ?thesis
        by (intro terminal_message) (auto simp: apply_message_def ErrorMessage Let_def split: control_error_code.split)
    qed
  qed (intro terminal_message; simp add: apply_message_def Let_def)+
  then show "change s t" "all_records record_final t"
    "res = Inr q \<Longrightarrow> pred_option (answer_ok t (identity_key (identity r))) x" by auto
qed

lemma resume_message_inv:
  assumes inv: "dispatcher_inv d"
  shows "dispatcher_inv (resume_message n now d)"
proof (cases "\<exists>m found. js_get (dx_tasks d) n = Some (HandleRead m found)")
  case True
  then obtain m found where t: "js_get (dx_tasks d) n = Some (HandleRead m found)" by blast
  have ended: "dispatcher_inv (set_task n (Done e) d)" for e
    by (rule set_task_inv [OF inv t]) simp_all
  show ?thesis
  proof (cases "\<exists>r cmd. found = Some r \<and> command r = Some cmd \<and> matchesRecord r cmd m")
    case True
    then obtain r cmd where r: "found = Some r" "command r = Some cmd" "matchesRecord r cmd m" by blast
    obtain res s x where call: "apply_message now m r cmd (dx_ops d) = ((res, s), x)" by (metis prod.exhaust)
    note spec = apply_message_spec [OF dispatcher_invD(3) [OF inv] call]
    have inv1: "dispatcher_inv (d\<lparr>dx_ops := s\<rparr>)" by (rule ops_inv [OF inv spec(1,2)])
    have "dispatcher_inv (set_task n (HandleAcknowledge m r x) (d\<lparr>dx_ops := s\<rparr>))" if "res = Inr q" for q
      by (rule set_task_inv [OF inv1, of n "HandleRead m found"]) (use t spec(3) [OF that] in simp_all)
    moreover have "dispatcher_inv (set_task n (Done e) (d\<lparr>dx_ops := s\<rparr>))" for e
      by (rule set_task_inv [OF inv1, of n "HandleRead m found"]) (use t in simp_all)
    ultimately show ?thesis
      using t r call by (cases res) (simp_all add: resume_message_def)
  next
    case False
    with t ended show ?thesis by (auto simp: resume_message_def split: option.split)
  qed
next
  case False
  then have "resume_message n now d = d"
    by (auto simp: resume_message_def split: option.split task.split)
  with inv show ?thesis by simp
qed

lemma settle_inv:
  "dispatcher_inv d \<Longrightarrow> answer_ok (dx_ops d) key x \<Longrightarrow> dispatcher_inv (settle key x d)"
  by (auto simp: settle_def split: option.split intro!: stop_waiting_inv)

lemma resume_acknowledge_inv:
  assumes inv: "dispatcher_inv d"
  shows "dispatcher_inv (resume_acknowledge n d)"
proof (cases "\<exists>m r x. js_get (dx_tasks d) n = Some (HandleAcknowledge m r x)")
  case True
  then obtain m r x where t: "js_get (dx_tasks d) n = Some (HandleAcknowledge m r x)" by blast
  obtain res ss where ack: "acknowledgeControl (ownerUserId (identity r)) m (dx_sessions d) = (res, ss)" by fastforce
  have inv1: "dispatcher_inv (d\<lparr>dx_sessions := ss\<rparr>)"
    using sessions_inv [OF inv, of ss] acknowledge_inv [OF dispatcher_invD(4) [OF inv], of "ownerUserId (identity r)" m]
      dispatcher_invD(5) [OF inv] acknowledge_sent [of "ownerUserId (identity r)" m "dx_sessions d"]
    by (simp add: ack)
  have inv2: "dispatcher_inv (set_task n (Done e) (d\<lparr>dx_sessions := ss\<rparr>))" for e
    by (rule set_task_inv [OF inv1, of n "HandleAcknowledge m r x"]) (use t in simp_all)
  show ?thesis
    using t ack inv2 settle_inv [OF inv2] dispatcher_invD(7) [OF inv t]
    by (cases res; cases x) (simp_all add: resume_acknowledge_def Let_def identity_key_def)
next
  case False
  then have "resume_acknowledge n d = d"
    by (auto simp: resume_acknowledge_def split: option.split task.split)
  with inv show ?thesis by simp
qed

lemma unresolved_recoverable:
  assumes inv: "dispatcher_inv d" and rs: "unresolved owner workspace gen (dx_ops d) = Inr rs"
  shows "list_all (recoverable (dx_ops d)) rs"
proof -
  have "recoverable (dx_ops d) r" if "r \<in> set rs" for r
  proof -
    have "r \<in> set (js_values (records (dx_ops d)))"
      using rs that by (auto simp: unresolved_def Let_def split: if_splits)
    moreover have wf: "js_wf (records (dx_ops d))"
      using dispatcher_invD(2) [OF inv] by (simp add: records_ok_def)
    ultimately have "\<exists>k. js_get (records (dx_ops d)) k = Some r"
      by (simp only: in_js_values [OF wf])
    then obtain k where k: "js_get (records (dx_ops d)) k = Some r" ..
    then have "k = identity_key (identity r)" by (rule records_okD [OF dispatcher_invD(2) [OF inv]])
    with k all_recordsD [OF dispatcher_invD(3) [OF inv] k] show ?thesis
      by (cases "command r") (simp_all add: recoverable_def stored_def record_final_def)
  qed
  then show ?thesis by (simp add: list_all_iff)
qed

lemma resume_rebind_inv:
  assumes inv: "dispatcher_inv d"
  shows "dispatcher_inv (resume_rebind n d)"
proof (cases "\<exists>g rs. js_get (dx_tasks d) n = Some (Recover g rs)")
  case True
  then obtain g rs where t: "js_get (dx_tasks d) n = Some (Recover g rs)" by blast
  have ended: "dispatcher_inv (set_task n (Done e) d)" for e
    by (rule set_task_inv [OF inv t]) simp_all
  show ?thesis
  proof (cases "\<exists>r rest cmd. rs = r # rest \<and> command r = Some cmd")
    case True
    then obtain r rest cmd where r: "rs = r # rest" "command r = Some cmd" by blast
    let ?input = "\<lparr>rb_command = cmd, rb_fingerprint = fingerprint r, rb_identity = identity r, rb_sessionId = cg_sessionId g\<rparr>"
    obtain res s where call: "rebindSession ?input (dx_ops d) = (res, s)" by fastforce
    note spec = rebind_spec [OF dispatcher_invD(3) [OF inv], of ?input]
    have change: "change (dx_ops d) s" using rebind_change [of "dx_ops d" ?input] by (simp add: call)
    have final: "all_records record_final s" using spec(1) by (simp add: call)
    have inv1: "dispatcher_inv (d\<lparr>dx_ops := s\<rparr>)" by (rule ops_inv [OF inv change final])
    have "list_all (recoverable s) rest"
      using dispatcher_invD(7) [OF inv t] change_recoverable [OF change dispatcher_invD(2) [OF inv]] r(1)
      by (auto simp: list_all_iff)
    moreover have "stored s (identity q) cmd \<and> actorUserId (identity q) = ownerUserId (identity q)" if "res = Inr q" for q
    proof -
      have q: "js_get (records s) (identity_key (identity q)) = Some q" "command q = Some cmd"
        using spec(2) [of q] that by (simp_all add: call)
      with all_recordsD [OF final q(1)] show ?thesis by (simp add: stored_def record_final_def)
    qed
    ultimately have "dispatcher_inv (set_task n (RecoverSend g q cmd rest) (d\<lparr>dx_ops := s\<rparr>))" if "res = Inr q" for q
      by (intro set_task_inv [OF inv1, of n "Recover g rs"]) (use t that in simp_all)
    moreover have "dispatcher_inv (set_task n (Done e) (d\<lparr>dx_ops := s\<rparr>))" for e
      by (rule set_task_inv [OF inv1, of n "Recover g rs"]) (use t in simp_all)
    ultimately show ?thesis
      using t r call by (cases res) (simp_all add: resume_rebind_def)
  next
    case False
    with t ended show ?thesis by (cases rs) (auto simp: resume_rebind_def split: option.split)
  qed
next
  case False
  then have "resume_rebind n d = d"
    by (auto simp: resume_rebind_def split: option.split task.split)
  with inv show ?thesis by simp
qed

lemma resume_recover_send_inv:
  assumes inv: "dispatcher_inv d"
  shows "dispatcher_inv (resume_recover_send n d)"
proof (cases "\<exists>g q cmd rs. js_get (dx_tasks d) n = Some (RecoverSend g q cmd rs)")
  case True
  then obtain g q cmd rs where t: "js_get (dx_tasks d) n = Some (RecoverSend g q cmd rs)" by blast
  then have ok: "list_all (recoverable (dx_ops d)) rs" "stored (dx_ops d) (identity q) cmd"
    "actorUserId (identity q) = ownerUserId (identity q)"
    using dispatcher_invD(7) [OF inv t] by simp_all
  obtain res ss where send: "dispatchControl (cg_ownerUserId g)
      (createStoredCommand (identity q) (commandSequence cmd)) (dx_sessions d) = (res, ss)" by fastforce
  have inv1: "dispatcher_inv (d\<lparr>dx_sessions := ss\<rparr>)"
    by (rule send_inv [OF inv stored_sent [OF ok(2,3)] send])
  have "dispatcher_inv (set_task n u (d\<lparr>dx_sessions := ss\<rparr>))" if "waiting u = None" "task_ok (dx_ops d) u" for u
    by (rule set_task_inv [OF inv1, of n "RecoverSend g q cmd rs"]) (use t that in simp_all)
  with t send ok show ?thesis
    by (cases res) (simp_all add: resume_recover_send_def)
next
  case False
  then have "resume_recover_send n d = d"
    by (auto simp: resume_recover_send_def split: option.split task.split)
  with inv show ?thesis by simp
qed

lemma reject_simps [simp]:
  "dx_ops (fold reject_waiting ps d) = dx_ops d" "dx_sessions (fold reject_waiting ps d) = dx_sessions d"
  "dx_pending (fold reject_waiting ps d) = dx_pending d" "dx_next (fold reject_waiting ps d) = dx_next d"
  by (induction ps arbitrary: d) (auto simp: reject_waiting_def)

lemma reject_tasks:
  "js_get (dx_tasks (fold reject_waiting ps d)) m = Some t \<Longrightarrow>
     m \<notin> snd ` set ps \<and> js_get (dx_tasks d) m = Some t \<or> m \<in> snd ` set ps \<and> (\<exists>k e. t = Answered k (Inl e))"
proof (induction ps arbitrary: d)
  case (Cons p ps)
  obtain k n where p: "p = (k, n)" by force
  show ?case
    using Cons.IH [of "reject_waiting p d"] Cons.prems
    by (auto simp: p reject_waiting_def split: if_splits)
qed simp

lemma close_dispatcher_inv:
  assumes inv: "dispatcher_inv d"
  shows "dispatcher_inv (close_dispatcher d)"
proof -
  have pending: "(k, n) \<in> set (dx_pending d) \<longleftrightarrow> (\<exists>t. js_get (dx_tasks d) n = Some t \<and> waiting t = Some k)" for k n
    using dispatcher_invD(8) [OF inv, of k n] dispatcher_invD(9) [OF inv] by (simp add: js_wf_def)
  have "m < dx_next d \<and> task_ok (dx_ops d) t \<and> waiting t = None"
    if t: "js_get (dx_tasks (close_dispatcher d)) m = Some t" for m t
  proof (cases "m \<in> snd ` set (dx_pending d)")
    case True
    then obtain k u where u: "(k, m) \<in> set (dx_pending d)" "js_get (dx_tasks d) m = Some u"
      using pending by force
    from reject_tasks [of "dx_pending d" d m t] t True obtain j e where "t = Answered j (Inl e)"
      by (auto simp: close_dispatcher_def)
    with dispatcher_invD(6) [OF inv u(2)] show ?thesis by simp
  next
    case False
    with reject_tasks [of "dx_pending d" d m t] t have old: "js_get (dx_tasks d) m = Some t"
      by (auto simp: close_dispatcher_def)
    have "waiting t \<noteq> Some k" for k
    proof
      assume "waiting t = Some k"
      with old have "(k, m) \<in> set (dx_pending d)" by (simp add: pending)
      with False show False by force
    qed
    then have "waiting t = None" by (metis not_Some_eq)
    with dispatcher_invD(6,7) [OF inv old] show ?thesis by simp
  qed
  with inv show ?thesis
    by (fastforce simp: dispatcher_inv_def tasks_ok_def pending_ok_def close_dispatcher_def)
qed

theorem dispatcher_step_inv: "dispatcher_inv d \<Longrightarrow> dispatcher_inv (snd (dispatcher_step hash fp c d))"
proof (cases c)
  case (DMessage m)
  assume "dispatcher_inv d"
  with DMessage show ?thesis by (simp add: begin_message_def spawn_inv)
next
  case (DRegistered g)
  assume "dispatcher_inv d"
  with DRegistered show ?thesis
    by (auto simp: begin_recovery_def unresolved_recoverable intro!: spawn_inv split: sum.split)
next
  case (DSession k)
  assume inv: "dispatcher_inv d"
  from DSession show ?thesis
    using sessions_inv [OF inv service_step_inv [OF dispatcher_invD(4) [OF inv]]] own_call_sent [of k]
      dispatcher_invD(5) [OF inv] inv by simp
qed (simp_all add: begin_dispatch_inv resume_fresh_inv resume_send_inv timer_inv resume_message_inv
    resume_acknowledge_inv resume_rebind_inv resume_recover_send_inv close_dispatcher_inv)

interpretation dispatcher: invariant_store "dispatcher_step hash fp" dispatcher_inv
  for hash :: "string \<Rightarrow> string" and fp :: "runtime_event \<Rightarrow> string"
  by unfold_locales (rule dispatcher_step_inv)

lemma reachable_dispatcher: "dispatcher_inv (run_state (dispatcher_step hash fp) calls empty_dispatcher)"
  by (rule dispatcher.run_inv) simp

end
