(* ===== verification/RuntimeProperties.thy ===== *)
theory RuntimeProperties
  imports RuntimeStore
begin

text \<open>
  What the in-memory Runtime session store promises: contiguous events, replay of an event without
  effect, the life of a session, credentials that are issued once per operation and never
  authenticate after their revocation.
\<close>

section \<open>What a call does to a session\<close>

definition event_sequences :: "session_record \<Rightarrow> int list" where
  "event_sequences r = map (\<lambda>e. re_sequence (er_event e)) (js_values (se_events r))"

definition session_ok :: "(runtime_event \<Rightarrow> string) \<Rightarrow> session_record \<Rightarrow> bool" where
  "session_ok fp r \<longleftrightarrow>
     event_sequences r = [1..sn_lastSequence (se_snapshot r)] \<and> 0 \<le> sn_lastSequence (se_snapshot r) \<and>
     (\<forall>i e. js_get (se_events r) i = Some e \<longrightarrow>
        re_eventId (er_event e) = i \<and> er_fingerprint e = fp (er_event e))"

text \<open>A session that is new, touched (its events and life kept) or advanced by one event.\<close>

definition fresh_session :: "session_record \<Rightarrow> bool" where
  "fresh_session u \<longleftrightarrow> se_events u = [] \<and> sn_lastSequence (se_snapshot u) = 0 \<and>
     sn_lifecycleState (se_snapshot u) = Starting"

definition touched :: "session_record \<Rightarrow> session_record \<Rightarrow> bool" where
  "touched r u \<longleftrightarrow> se_events u = se_events r \<and>
     sn_generation (se_snapshot u) = sn_generation (se_snapshot r) \<and>
     sn_lastSequence (se_snapshot u) = sn_lastSequence (se_snapshot r) \<and>
     sn_lifecycleState (se_snapshot u) = sn_lifecycleState (se_snapshot r)"

definition advanced :: "(runtime_event \<Rightarrow> string) \<Rightarrow> session_record \<Rightarrow> session_record \<Rightarrow> bool" where
  "advanced fp r u \<longleftrightarrow> (\<exists>event.
     js_get (se_events r) (re_eventId event) = None \<and>
     re_sequence event = sn_lastSequence (se_snapshot r) + 1 \<and>
     se_events u = js_set (se_events r) (re_eventId event)
       \<lparr>er_event = event, er_fingerprint = fp event\<rparr> \<and>
     sn_generation (se_snapshot u) = sn_generation (se_snapshot r) \<and>
     sn_lastSequence (se_snapshot u) = re_sequence event \<and>
     sn_lifecycleState (se_snapshot r) \<noteq> Stopped \<and>
     validLifecycleTransition (sn_lifecycleState (se_snapshot r)) (sn_lifecycleState (se_snapshot u)))"

definition session_move ::
    "(runtime_event \<Rightarrow> string) \<Rightarrow> session_record option \<Rightarrow> session_record option \<Rightarrow> bool" where
  "session_move fp before after \<longleftrightarrow>
     (case after of
        None \<Rightarrow> before = None
      | Some u \<Rightarrow>
          (case before of
             None \<Rightarrow> fresh_session u
           | Some r \<Rightarrow> touched r u \<or> advanced fp r u \<or>
               (fresh_session u \<and> sn_generation (se_snapshot u) \<noteq> sn_generation (se_snapshot r))))"

lemma touched_refl [simp]: "touched r r"
  by (simp add: touched_def)

lemma session_move_refl [simp]: "session_move fp m m"
  by (simp add: session_move_def split: option.splits)

lemma register_move:
  "session_move fp (js_get (sessions s) k) (js_get (sessions (snd (register now sc i t r s))) k)"
  by (simp add: register_def Let_def session_move_def fresh_session_def new_snapshot_def touched_def
      split: option.splits)

lemma applyEvent_facts:
  assumes "applyEvent old t e = Inr next"
  shows "sn_generation next = sn_generation old" "sn_lastSequence next = re_sequence e"
    "validLifecycleTransition (sn_lifecycleState old) (sn_lifecycleState next)"
  using assms
  by (auto simp: applyEvent_def Let_def validLifecycleTransition_def
      split: runtime_event_body.splits if_splits)

lemma applied_advanced:
  assumes "applyEvent (se_snapshot r) t e = Inr next" and "js_get (se_events r) (re_eventId e) = None"
    and "re_sequence e = sn_lastSequence (se_snapshot r) + 1"
    and "sn_lifecycleState (se_snapshot r) \<noteq> Stopped"
  shows "advanced fp r (r\<lparr>se_events := js_set (se_events r) (re_eventId e)
    \<lparr>er_event = e, er_fingerprint = fp e\<rparr>, se_snapshot := next\<rparr>)"
  unfolding advanced_def
  by (rule exI [of _ e]) (use assms applyEvent_facts [OF assms(1)] in simp)

lemma set_session_move:
  "js_get m j = Some r \<Longrightarrow> advanced fp r u \<Longrightarrow> session_move fp (js_get m k) (js_get (js_set m j u) k)"
  by (cases "k = j"; cases "js_get m k") (auto simp: session_move_def)

lemma append_move:
  "session_move fp (js_get (sessions s) k) (js_get (sessions (snd (append_event fp now sc i t e s))) k)"
  by (simp add: append_event_def Let_def applied_advanced set_session_move del: js_get_set fun_upd_apply
      split: option.split sum.split)

lemma disconnect_move:
  "session_move fp (js_get (sessions s) k) (js_get (sessions (disconnect sc i t s)) k)"
  by (auto simp: disconnect_def session_move_def touched_def split: option.splits)

lemma stale_walk_move:
  "session_move fp (js_get m k) (js_get (snd (stale_walk owner cutoff t m)) k)"
proof (induction m)
  case (Cons kr m)
  obtain l r where "kr = (l, r)" by force
  with Cons show ?case
    by (auto simp: Let_def session_move_def touched_def split: prod.splits sum.splits option.splits)
qed simp

lemma issue_sessions [simp]: "sessions (snd (issue hash draw i s)) = sessions s"
  by (simp add: issue_def Let_def split: sum.splits option.splits)

lemma runtime_step_move:
  "session_move fp (js_get (sessions s) k) (js_get (sessions (snd (runtime_step hash fp c s))) k)"
  by (cases c) (simp_all add: register_move append_move disconnect_move markStale_def stale_walk_move
      revoke_def Let_def split: prod.split, metis snd_conv stale_walk_move)

section \<open>The invariant\<close>

definition sessions_ok :: "(runtime_event \<Rightarrow> string) \<Rightarrow> runtime_store \<Rightarrow> bool" where
  "sessions_ok fp s \<longleftrightarrow> (\<forall>k r. js_get (sessions s) k = Some r \<longrightarrow> session_ok fp r)"

lemma advanced_ok:
  assumes "session_ok fp r" and "advanced fp r u"
  shows "session_ok fp u"
proof -
  let ?n = "sn_lastSequence (se_snapshot r)"
  obtain e where e: "js_get (se_events r) (re_eventId e) = None" "re_sequence e = ?n + 1"
    "se_events u = js_set (se_events r) (re_eventId e) \<lparr>er_event = e, er_fingerprint = fp e\<rparr>"
    "sn_lastSequence (se_snapshot u) = ?n + 1"
    using assms(2) by (auto simp: advanced_def)
  have "event_sequences u = event_sequences r @ [?n + 1]"
    by (simp add: event_sequences_def e(2,3) js_set_new [OF e(1)] js_values_def)
  also have "\<dots> = [1..?n + 1]"
    using assms(1) by (simp add: session_ok_def upto_rec2)
  finally show ?thesis
    using assms(1) e by (auto simp: session_ok_def split: if_splits)
qed

lemma step_sessions_ok:
  assumes "sessions_ok fp s"
  shows "sessions_ok fp (snd (runtime_step hash fp c s))"
  unfolding sessions_ok_def
proof (intro allI impI)
  fix k u
  assume u: "js_get (sessions (snd (runtime_step hash fp c s))) k = Some u"
  have fresh: "session_ok fp u" if "fresh_session u"
    using that by (simp add: fresh_session_def session_ok_def event_sequences_def js_values_def)
  show "session_ok fp u"
  proof (cases "js_get (sessions s) k")
    case None
    with u runtime_step_move [of fp s k hash c] fresh show ?thesis by (simp add: session_move_def)
  next
    case (Some r)
    then have "session_ok fp r" using assms by (simp add: sessions_ok_def)
    moreover from this have "session_ok fp u" if "touched r u"
      using that by (simp add: touched_def session_ok_def event_sequences_def)
    ultimately show ?thesis
      using u Some runtime_step_move [of fp s k hash c] fresh advanced_ok [of fp r u]
      by (auto simp: session_move_def)
  qed
qed

interpretation runtime: invariant_store "runtime_step hash fp" "sessions_ok fp" for hash fp
  by unfold_locales (rule step_sessions_ok)

lemma empty_sessions_ok [simp]: "sessions_ok fp empty_runtime"
  by (simp add: sessions_ok_def empty_runtime_def)

section \<open>Credentials\<close>

fun grants_issue :: "string \<Rightarrow> runtime_call \<Rightarrow> runtime_answer \<Rightarrow> bool" where
  "grants_issue k (SIssue _ i) (AIssue (Inr _)) = (operation_key (is_ownerUserId i) (is_operationId i) = k)"
| "grants_issue _ _ _ = False"

definition operation_used :: "string \<Rightarrow> runtime_store \<Rightarrow> bool" where
  "operation_used k s \<longleftrightarrow> js_get (operationCredentials s) k \<noteq> None"

lemma register_credentials [simp]:
  "operationCredentials (snd (register now sc i t r s)) = operationCredentials s"
  "currentCredentials (snd (register now sc i t r s)) = currentCredentials s"
  by (simp_all add: register_def Let_def split: option.splits)

lemma append_credentials [simp]:
  "operationCredentials (snd (append_event fp now sc i t e s)) = operationCredentials s"
  "currentCredentials (snd (append_event fp now sc i t e s)) = currentCredentials s"
  by (simp_all add: append_event_def Let_def split: option.splits sum.splits)

lemma disconnect_credentials [simp]:
  "operationCredentials (disconnect sc i t s) = operationCredentials s"
  "currentCredentials (disconnect sc i t s) = currentCredentials s"
  by (simp_all add: disconnect_def split: option.splits)

lemma markStale_credentials [simp]:
  "operationCredentials (snd (markStale b t s)) = operationCredentials s"
  "currentCredentials (snd (markStale b t s)) = currentCredentials s"
  by (simp_all add: markStale_def split: prod.splits)

lemma revoke_operations [simp]: "operationCredentials (revoke now o1 w c s) = operationCredentials s"
  by (simp add: revoke_def Let_def)

lemma issue_cases:
  obtains (refused) e where "issue hash draw i s = (Inl e, s)"
  | (issued) r s' where "issue hash draw i s = (Inr r, s')"
      "js_get (operationCredentials s) (operation_key (is_ownerUserId i) (is_operationId i)) = None"
      "operation_used (operation_key (is_ownerUserId i) (is_operationId i)) s'"
      "\<And>k. operation_used k s \<Longrightarrow> operation_used k s'"
      "currentCredentials s' = js_set (currentCredentials s)
         (runtimeKey (is_ownerUserId i) (is_workspaceId i)) (dr_credentialId draw)"
proof (cases "issue hash draw i s")
  case (Pair res s')
  show thesis
  proof (cases res)
    case (Inl e)
    with Pair have "s' = s"
      by (auto simp: issue_def Let_def split: sum.splits option.splits if_splits)
    with Pair Inl show thesis by (intro refused) simp
  next
    case (Inr r)
    with Pair show thesis
      by (intro issued [of r s'])
        (auto simp: issue_def Let_def operation_used_def split: sum.splits option.splits if_splits)
  qed
qed

interpretation runtime_issue:
  grant_once "runtime_step hash fp" "sessions_ok fp" grants_issue operation_used for hash fp
proof (unfold_locales, goal_cases)
  case (1 s k c)
  then obtain draw i where c: "c = SIssue draw i"
    by (cases c) auto
  show ?case
    by (cases rule: issue_cases [of hash draw i s])
      (use 1 c in \<open>auto simp: operation_used_def\<close>)
next
  case (2 s k c)
  show ?case
  proof (cases c)
    case (SIssue draw i)
    show ?thesis
      by (cases rule: issue_cases [of hash draw i s]) (use 2 SIssue in auto)
  qed (use 2 in \<open>simp_all add: operation_used_def\<close>)
qed

text \<open>A call that does not issue the credential id \<open>c\<close> does not make it current.\<close>

fun issues_id :: "string \<Rightarrow> runtime_call \<Rightarrow> bool" where
  "issues_id c (SIssue draw _) = (dr_credentialId draw = c)"
| "issues_id _ _ = False"

lemma step_not_current:
  assumes "js_get (currentCredentials s) k \<noteq> Some c" and "\<not> issues_id c op"
  shows "js_get (currentCredentials (snd (runtime_step hash fp op s))) k \<noteq> Some c"
proof (cases op)
  case (SIssue draw i)
  show ?thesis
    by (cases rule: issue_cases [of hash draw i s]) (use assms SIssue in auto)
next
  case (SRevoke now p w d)
  with assms show ?thesis by (simp add: revoke_def Let_def)
qed (use assms in simp_all)

lemma run_not_current:
  assumes "js_get (currentCredentials s) k \<noteq> Some c" and "list_all (\<lambda>op. \<not> issues_id c op) ops"
  shows "js_get (currentCredentials (run_state (runtime_step hash fp) ops s)) k \<noteq> Some c"
  using assms by (induction ops arbitrary: s) (auto simp: step_not_current)

lemma authenticate_current:
  assumes "authenticate hash now token s = Some scope"
  shows "js_get (currentCredentials s) (scope_runtimeKey scope) = Some (sc_credentialId scope)"
  using assms
  by (auto simp: authenticate_def safeScope_def scope_runtimeKey_def credential_scope.defs
      split: option.splits if_splits)

section \<open>Properties\<close>

text \<open>C32: the events of a session are contiguous: after any sequence of calls the stored events of a
  session have the sequence numbers 1, 2, ... up to the acknowledged one, in this order.\<close>

theorem runtime_events_contiguous:
  assumes "js_get (sessions (run_state (runtime_step hash fp) calls empty_runtime)) k = Some r"
  shows "map (\<lambda>e. re_sequence (er_event e)) (js_values (se_events r)) =
    [1..sn_lastSequence (se_snapshot r)]"
proof -
  have "sessions_ok fp (run_state (runtime_step hash fp) calls empty_runtime)"
    by (rule runtime.run_inv) simp
  with assms show ?thesis by (simp add: sessions_ok_def session_ok_def event_sequences_def)
qed

text \<open>The life of a session: no call removes one; as long as its generation stays, its acknowledged
  sequence grows by at most one per call, its lifecycle moves only along the allowed transitions,
  and a stopped session accepts no further event.\<close>

theorem runtime_session_lifecycle:
  assumes "js_get (sessions s) k = Some r"
  shows "\<exists>u. js_get (sessions (snd (runtime_step hash fp c s))) k = Some u \<and>
    (sn_generation (se_snapshot u) = sn_generation (se_snapshot r) \<longrightarrow>
       validLifecycleTransition (sn_lifecycleState (se_snapshot r)) (sn_lifecycleState (se_snapshot u)) \<and>
       sn_lastSequence (se_snapshot r) \<le> sn_lastSequence (se_snapshot u) \<and>
       sn_lastSequence (se_snapshot u) \<le> sn_lastSequence (se_snapshot r) + 1 \<and>
       (sn_lifecycleState (se_snapshot r) = Stopped \<longrightarrow>
          sn_lifecycleState (se_snapshot u) = Stopped \<and> se_events u = se_events r))"
proof -
  obtain u where u: "js_get (sessions (snd (runtime_step hash fp c s))) k = Some u"
    "touched r u \<or> advanced fp r u \<or>
      (fresh_session u \<and> sn_generation (se_snapshot u) \<noteq> sn_generation (se_snapshot r))"
    using runtime_step_move [of fp s k hash c] assms
    by (auto simp: session_move_def split: option.splits)
  from u(2) show ?thesis
    by (elim disjE) (auto simp: u(1) touched_def advanced_def validLifecycleTransition_def)
qed

text \<open>A launch operation gets at most one credential: over any sequence of calls at most one
  \<open>issue\<close> succeeds for an owner and operation id.\<close>

theorem runtime_issue_at_most_once:
  "length (filter (\<lambda>(c, a). grants_issue (operation_key owner opId) c a)
     (run_results (runtime_step hash fp) calls empty_runtime)) \<le> 1"
  by (rule runtime_issue.at_most_one_grant [of fp]) simp

text \<open>C33: a revoked credential never authenticates again: whatever is called after the revocation,
  unless a new credential is issued under the same id, no token opens it.\<close>

theorem runtime_revoked_never_authenticates:
  assumes "list_all (\<lambda>op. \<not> issues_id c op) calls"
    and "authenticate hash now' token
      (run_state (runtime_step hash fp) calls (revoke now owner workspace c s)) = Some scope"
    and "sc_ownerUserId scope = owner" and "sc_workspaceId scope = workspace"
  shows "sc_credentialId scope \<noteq> c"
proof -
  have "js_get (currentCredentials (revoke now owner workspace c s)) (runtimeKey owner workspace) \<noteq> Some c"
    by (simp add: revoke_def Let_def)
  then have "js_get (currentCredentials (run_state (runtime_step hash fp) calls
      (revoke now owner workspace c s))) (runtimeKey owner workspace) \<noteq> Some c"
    using assms(1) by (rule run_not_current)
  with authenticate_current [OF assms(2)] assms(3,4) show ?thesis
    by (auto simp: scope_runtimeKey_def)
qed

lemma append_new:
  assumes "append_event fp now scope i t e s = (Inr \<lparr>ar_replayed = False, ar_snapshot = sn\<rparr>, s')"
  obtains r where "requireCurrent now scope s = None" "js_get (sessions s) (scope_runtimeKey scope) = Some r"
    "se_credentialId r = sc_credentialId scope" "sn_generation (se_snapshot r) = sc_generation scope"
    "sn_sessionId (se_snapshot r) = i" "sn_lifecycleState (se_snapshot r) \<noteq> Stopped"
    "required_capability (re_body e) \<in> set (sc_capabilities scope)"
    "\<not> too_far_ahead (re_observedAt e) t" "applyEvent (se_snapshot r) t e = Inr sn"
    "s' = s\<lparr>sessions := js_set (sessions s) (scope_runtimeKey scope)
       (r\<lparr>se_events := js_set (se_events r) (re_eventId e) \<lparr>er_event = e, er_fingerprint = fp e\<rparr>,
          se_snapshot := sn\<rparr>)\<rparr>"
  using assms
  by (auto simp: append_event_def Let_def split: option.splits sum.splits if_splits)

lemma applied_snapshot:
  assumes "applyEvent old t e = Inr next" and "re_body e \<noteq> LifecycleEvent Stopped"
    and "sn_lifecycleState old \<noteq> Stopped"
  shows "sn_connectionState next = Online" "sn_lifecycleState next \<noteq> Stopped"
    "sn_sessionId next = sn_sessionId old" "sn_generation next = sn_generation old"
  using assms
  by (auto simp: applyEvent_def Let_def split: runtime_event_body.splits if_splits)

text \<open>Delivering an event again has no effect: after an event was stored, the same delivery answers
  \<open>replayed\<close> with the same snapshot and changes nothing, and another event under its id is refused
  without a change.\<close>

theorem runtime_append_idempotent:
  assumes "append_event fp now scope i t e s = (Inr \<lparr>ar_replayed = False, ar_snapshot = sn\<rparr>, s')"
    and "re_body e \<noteq> LifecycleEvent Stopped"
  shows "append_event fp now scope i t e s' = (Inr \<lparr>ar_replayed = True, ar_snapshot = sn\<rparr>, s') \<and>
    (\<forall>e'. re_eventId e' = re_eventId e \<longrightarrow> fp e' \<noteq> fp e \<longrightarrow>
      (\<exists>err. append_event fp now scope i t e' s' = (Inl err, s')))"
proof -
  obtain r where r: "requireCurrent now scope s = None"
    "js_get (sessions s) (scope_runtimeKey scope) = Some r"
    "se_credentialId r = sc_credentialId scope" "sn_generation (se_snapshot r) = sc_generation scope"
    "sn_sessionId (se_snapshot r) = i" "sn_lifecycleState (se_snapshot r) \<noteq> Stopped"
    "required_capability (re_body e) \<in> set (sc_capabilities scope)"
    "\<not> too_far_ahead (re_observedAt e) t" "applyEvent (se_snapshot r) t e = Inr sn"
    "s' = s\<lparr>sessions := js_set (sessions s) (scope_runtimeKey scope)
       (r\<lparr>se_events := js_set (se_events r) (re_eventId e) \<lparr>er_event = e, er_fingerprint = fp e\<rparr>,
          se_snapshot := sn\<rparr>)\<rparr>"
    using append_new [OF assms(1)] by metis
  have sn: "sn_connectionState sn = Online" "sn_lifecycleState sn \<noteq> Stopped"
    "sn_sessionId sn = i" "sn_generation sn = sc_generation scope"
    using applied_snapshot [OF r(9) assms(2) r(6)] r(4,5) by simp_all
  have current: "requireCurrent now scope s' = None"
    using r(1) by (simp add: r(10) requireCurrent_def split: if_splits)
  let ?r = "r\<lparr>se_events := js_set (se_events r) (re_eventId e) \<lparr>er_event = e, er_fingerprint = fp e\<rparr>,
      se_snapshot := sn\<rparr>"
  have get: "js_get (sessions s') (scope_runtimeKey scope) = Some ?r"
    by (simp add: r(10))
  show ?thesis
  proof (intro conjI allI impI)
    show "append_event fp now scope i t e s' = (Inr \<lparr>ar_replayed = True, ar_snapshot = sn\<rparr>, s')"
      using r(3,7,8) sn by (simp add: append_event_def current get)
  next
    fix e' assume "re_eventId e' = re_eventId e" "fp e' \<noteq> fp e"
    then show "\<exists>err. append_event fp now scope i t e' s' = (Inl err, s')"
      using r(3) sn by (simp add: append_event_def current get)
  qed
qed

section \<open>A session in the witnesses\<close>

definition demo_uuid_1 :: string where
  "demo_uuid_1 = ''01234567-89ab-4def-8123-456789abcdef''"

definition demo_issue :: issue_input where
  "demo_issue = \<lparr>is_branch = ''main'', is_capabilities = [CapLifecycle, CapHeartbeat],
     is_commit = replicate 40 (CHR ''a''), is_environmentId = demo_uuid_1,
     is_expiresInSeconds = None, is_generation = demo_uuid_1,
     is_manifestDigest = replicate 64 (CHR ''b''), is_operationId = ''launch-1'',
     is_ownerUserId = ''u'', is_presentation = None, is_requestedCapabilities = [],
     is_runtimeVersion = ''1.0.0'', is_workspaceId = demo_uuid_1\<rparr>"

definition demo_draw :: issue_draw where
  "demo_draw = \<lparr>dr_now = 0, dr_credentialId = ''c1'', dr_token = replicate 43 (CHR ''t'')\<rparr>"

definition demo_scope :: credential_scope where
  "demo_scope = \<lparr>sc_branch = ''main'', sc_capabilities = [CapLifecycle, CapHeartbeat],
     sc_commit = replicate 40 (CHR ''a''), sc_credentialId = ''c1'',
     sc_environmentId = demo_uuid_1, sc_expiresAt = to_iso 300000,
     sc_generation = demo_uuid_1, sc_manifestDigest = replicate 64 (CHR ''b''),
     sc_ownerUserId = ''u'', sc_presentation = None, sc_requestedCapabilities = [],
     sc_runtimeVersion = ''1.0.0'', sc_workspaceId = demo_uuid_1\<rparr>"

definition demo_registration :: runtime_registration where
  "demo_registration = \<lparr>rg_branch = ''main'', rg_commit = replicate 40 (CHR ''a''),
     rg_environmentId = demo_uuid_1, rg_generation = demo_uuid_1,
     rg_manifestDigest = replicate 64 (CHR ''b''), rg_readyCapabilities = None,
     rg_resumeAfterSequence = 0, rg_resumeAfterCodexCommandSequence = None,
     rg_resumeAfterCodexEventSequence = None, rg_resumeAfterControlCommandSequence = None,
     rg_resumeAfterControlEventSequence = None, rg_runtimeVersion = ''1.0.0'',
     rg_workspaceId = demo_uuid_1\<rparr>"

definition demo_event :: runtime_event where
  "demo_event = \<lparr>re_eventId = ''e1'', re_observedAt = to_iso 2000, re_sequence = 1,
     re_body = LifecycleEvent Running\<rparr>"

lemma demo_valid: "validateCredentialIssue demo_issue = Inr 300"
proof -
  have "runtime_uuid demo_uuid_1"
    by code_simp
  moreover have "commit_pattern (replicate 40 (CHR ''a''))" "digest_pattern (replicate 64 (CHR ''b''))"
    by (simp_all add: commit_pattern_def digest_pattern_def class_rep_def is_lower_hex_def is_digit_def
        in_range_def list_all_iff)
  ultimately show ?thesis
    by (simp add: validateCredentialIssue_def demo_issue_def js_trim_def js_space_def
        operation_id_pattern_def class_rep_def id_pattern_char_def is_alnum_def is_digit_def
        in_range_def is_safe_integer_def max_safe_integer_def safeText_def control_char_def
        parseCapabilities_def parseRequestedCapabilities_def workspaceRuntimeBaseCapabilities_def
        readyCapabilitySet_def)
qed

definition demo_issued :: "(string \<Rightarrow> string) \<Rightarrow> runtime_store" where
  "demo_issued hash = snd (issue hash demo_draw demo_issue empty_runtime)"

lemma demo_issued_current:
  "currentCredentials (demo_issued hash) = [(runtimeKey ''u'' demo_uuid_1, ''c1'')]"
  "sessions (demo_issued hash) = []"
proof -
  have "token_pattern (replicate 43 (CHR ''t''))"
    by (simp add: token_pattern_def class_rep_def list_all_iff is_alnum_def is_digit_def in_range_def)
  then show "currentCredentials (demo_issued hash) = [(runtimeKey ''u'' demo_uuid_1, ''c1'')]"
    by (simp add: demo_issued_def issue_def demo_valid Let_def demo_draw_def empty_runtime_def
        previous_credential_def previous_blocks_def)
      (simp add: demo_issue_def js_set_def)
  show "sessions (demo_issued hash) = []"
    by (simp add: demo_issued_def) (simp add: empty_runtime_def)
qed

definition demo_registered :: "(string \<Rightarrow> string) \<Rightarrow> runtime_store" where
  "demo_registered hash =
     snd (register 1000 demo_scope ''s1'' (to_iso 1000) demo_registration (demo_issued hash))"

definition demo_snapshot :: runtime_snapshot where
  "demo_snapshot = new_snapshot demo_scope ''s1'' (to_iso 1000) demo_registration"

lemma demo_registered_session:
  "sessions (demo_registered hash) = [(runtimeKey ''u'' demo_uuid_1,
     \<lparr>se_credentialId = ''c1'', se_events = [], se_snapshot = demo_snapshot\<rparr>)]"
  "requireCurrent now demo_scope (demo_registered hash) = (if now < 300000 then None else Some CredentialExpired)"
  by (simp_all add: demo_registered_def register_def requireCurrent_def demo_issued_current
      registration_changed_def demo_snapshot_def Let_def js_set_def scope_runtimeKey_def max_time_def)
    (simp_all add: demo_scope_def demo_registration_def max_time_def)

lemma demo_append:
  "append_event fp 2000 demo_scope ''s1'' (to_iso 2000) demo_event (demo_registered hash) =
     (Inr \<lparr>ar_replayed = False, ar_snapshot = demo_snapshot\<lparr>sn_lastEventAt := to_iso 2000,
        sn_lastSequence := 1, sn_lifecycleState := Running\<rparr>\<rparr>,
      (demo_registered hash)\<lparr>sessions := [(runtimeKey ''u'' demo_uuid_1,
        \<lparr>se_credentialId = ''c1'', se_events = [(''e1'', \<lparr>er_event = demo_event, er_fingerprint = fp demo_event\<rparr>)],
         se_snapshot = demo_snapshot\<lparr>sn_lastEventAt := to_iso 2000, sn_lastSequence := 1,
           sn_lifecycleState := Running\<rparr>\<rparr>)]\<rparr>)"
  by (simp add: append_event_def demo_registered_session scope_runtimeKey_def Let_def js_set_def
      too_far_ahead_def max_time_def demo_scope_def demo_event_def demo_snapshot_def new_snapshot_def
      applyEvent_def validLifecycleTransition_def demo_registered_session(2) [unfolded demo_scope_def])

text \<open>The calls of the witnesses: a launch, a registration, an event.\<close>

definition demo_runtime_calls :: "runtime_call list" where
  "demo_runtime_calls = [SIssue demo_draw demo_issue,
     SRegister 1000 demo_scope ''s1'' (to_iso 1000) demo_registration,
     SAppend 2000 demo_scope ''s1'' (to_iso 2000) demo_event]"

lemma demo_runtime_run:
  "sessions (run_state (runtime_step hash fp) demo_runtime_calls empty_runtime) =
     [(runtimeKey ''u'' demo_uuid_1,
        \<lparr>se_credentialId = ''c1'', se_events = [(''e1'', \<lparr>er_event = demo_event, er_fingerprint = fp demo_event\<rparr>)],
         se_snapshot = demo_snapshot\<lparr>sn_lastEventAt := to_iso 2000, sn_lastSequence := 1,
           sn_lifecycleState := Running\<rparr>\<rparr>)]"
  by (simp add: demo_runtime_calls_def demo_append flip: demo_issued_def demo_registered_def)

theorem runtime_events_contiguous_witness:
  "map (\<lambda>e. re_sequence (er_event e))
    (js_values [(''e1'', \<lparr>er_event = demo_event, er_fingerprint = ''f''\<rparr>)]) = [1]"
  using runtime_events_contiguous [of "\<lambda>t. t" "\<lambda>_. ''f''" demo_runtime_calls
      "runtimeKey ''u'' demo_uuid_1"]
  by (simp add: demo_runtime_run)

theorem runtime_session_lifecycle_witness:
  "\<exists>u. js_get (sessions (snd (runtime_step (\<lambda>t. t) (\<lambda>_. ''f'')
      (SAppend 2000 demo_scope ''s1'' (to_iso 2000) demo_event) (demo_registered (\<lambda>t. t)))))
      (runtimeKey ''u'' demo_uuid_1) = Some u"
  using runtime_session_lifecycle [of "demo_registered (\<lambda>t. t)" "runtimeKey ''u'' demo_uuid_1"
      "\<lparr>se_credentialId = ''c1'', se_events = [], se_snapshot = demo_snapshot\<rparr>" "\<lambda>t. t" "\<lambda>_. ''f''"
      "SAppend 2000 demo_scope ''s1'' (to_iso 2000) demo_event"]
  by (auto simp: demo_registered_session(1))

theorem runtime_append_idempotent_witness:
  "fst (append_event (\<lambda>_. ''f'') 2000 demo_scope ''s1'' (to_iso 2000) demo_event
     (snd (append_event (\<lambda>_. ''f'') 2000 demo_scope ''s1'' (to_iso 2000) demo_event
        (demo_registered (\<lambda>t. t))))) =
   Inr \<lparr>ar_replayed = True, ar_snapshot = demo_snapshot\<lparr>sn_lastEventAt := to_iso 2000,
        sn_lastSequence := 1, sn_lifecycleState := Running\<rparr>\<rparr>"
  using runtime_append_idempotent [OF demo_append [of "\<lambda>_. ''f''" "\<lambda>t. t"]]
  by (simp add: demo_append) (simp add: demo_event_def)

text \<open>The credential that replaced a revoked one authenticates, under its own id.\<close>

definition demo_replaced :: runtime_store where
  "demo_replaced = empty_runtime\<lparr>
     credentials := [(replicate 43 (CHR ''s''),
       new_credential demo_issue ''c2'' (to_iso 300000) (replicate 43 (CHR ''s'')) None)],
     currentCredentials := [(runtimeKey ''u'' demo_uuid_1, ''c2'')]\<rparr>"

theorem runtime_revoked_never_authenticates_witness:
  "sc_credentialId (the (authenticate (\<lambda>t. t) 1000 (replicate 43 (CHR ''s''))
     (run_state (runtime_step (\<lambda>t. t) (\<lambda>_. ''f'')) [SMarkStale ''x'' ''y'']
       (revoke 500 ''u'' demo_uuid_1 ''c1'' demo_replaced)))) \<noteq> ''c1''"
proof -
  have "token_pattern (replicate 43 (CHR ''s''))"
    by (simp add: token_pattern_def class_rep_def list_all_iff is_alnum_def is_digit_def in_range_def)
  then have "authenticate (\<lambda>t. t) 1000 (replicate 43 (CHR ''s''))
      (run_state (runtime_step (\<lambda>t. t) (\<lambda>_. ''f'')) [SMarkStale ''x'' ''y'']
        (revoke 500 ''u'' demo_uuid_1 ''c1'' demo_replaced)) =
    Some (safeScope (new_credential demo_issue ''c2'' (to_iso 300000) (replicate 43 (CHR ''s'')) None))"
    by (simp add: demo_replaced_def empty_runtime_def revoke_def markStale_def authenticate_def Let_def
        new_credential_def scope_runtimeKey_def demo_issue_def max_time_def)
  with runtime_revoked_never_authenticates [OF _ this] show ?thesis
    by (simp add: safeScope_def new_credential_def demo_issue_def credential_scope.defs)
qed

end
