(* ===== verification/DispatcherProperties.thy ===== *)
theory DispatcherProperties
  imports DispatcherInvariant RuntimeProperties
begin

text \<open>
  What the dispatcher promises, over every interleaving of dispatches, answers, timeouts, registrations
  and calls of the session service.
\<close>

abbreviation run_dispatcher ::
    "(string \<Rightarrow> string) \<Rightarrow> (runtime_event \<Rightarrow> string) \<Rightarrow> dispatcher_call list \<Rightarrow> dispatcher" where
  "run_dispatcher hash fp calls \<equiv> run_state (dispatcher_step hash fp) calls empty_dispatcher"

section \<open>Progress of a dispatch\<close>

fun dispatch_key :: "task \<Rightarrow> string option" where
  "dispatch_key (AwaitFresh a) = Some (args_key a)"
| "dispatch_key (AwaitSend a marked) = Some (args_key a)"
| "dispatch_key (AwaitReply a cmd) = Some (args_key a)"
| "dispatch_key (Answered key v) = Some key"
| "dispatch_key _ = None"

fun rank :: "task \<Rightarrow> nat" where
  "rank (AwaitFresh a) = 3"
| "rank (AwaitSend a marked) = 2"
| "rank (AwaitReply a cmd) = 1"
| "rank _ = 0"

definition progress :: "task \<Rightarrow> task \<Rightarrow> bool" where
  "progress t u \<longleftrightarrow> dispatch_key u = dispatch_key t \<and> rank u \<le> rank t \<and> (\<forall>k v. t = Answered k v \<longrightarrow> u = t)"

lemma progress_refl [simp]: "progress t t"
  by (simp add: progress_def)

lemma progress_trans: "progress t u \<Longrightarrow> progress u v \<Longrightarrow> progress t v"
  by (auto simp: progress_def)

lemma progress_answer [simp]:
  "progress (AwaitFresh a) (Answered (args_key a) v)" "progress (AwaitSend a marked) (Answered (args_key a) v)"
  "progress (AwaitReply a cmd) (Answered (args_key a) v)" "progress (AwaitFresh a) (AwaitSend a marked)"
  "progress (AwaitSend a marked) (AwaitReply a cmd)"
  by (simp_all add: progress_def)

lemma progress_idle: "dispatch_key t = None \<Longrightarrow> dispatch_key u = None \<Longrightarrow> progress t u"
  by (cases t; cases u) (simp_all add: progress_def)

text \<open>A task that a step leaves alone.\<close>

definition advances :: "dispatcher \<Rightarrow> dispatcher \<Rightarrow> bool" where
  "advances d d' \<longleftrightarrow> (\<forall>n t. js_get (dx_tasks d) n = Some t \<longrightarrow> (\<exists>u. js_get (dx_tasks d') n = Some u \<and> progress t u))"

lemma advances_same: "dx_tasks d' = dx_tasks d \<Longrightarrow> advances d d'"
  by (simp add: advances_def)

lemma advances_trans: "advances d e \<Longrightarrow> advances e f \<Longrightarrow> advances d f"
  unfolding advances_def by (meson progress_trans)

lemma advances_set_task:
  "js_get (dx_tasks d) n = Some t \<Longrightarrow> progress t u \<Longrightarrow> dx_tasks e = dx_tasks d \<Longrightarrow> advances d (set_task n u e)"
  by (simp add: advances_def)

lemma advances_spawn: "dispatcher_inv d \<Longrightarrow> dx_tasks e = dx_tasks d \<Longrightarrow> dx_next e = dx_next d \<Longrightarrow> advances d (spawn t e)"
  by (auto simp: advances_def spawn_def dest: dispatcher_invD(6))

lemma resume_fresh_advances: "advances d (resume_fresh n now v d)"
proof (cases "\<exists>a. js_get (dx_tasks d) n = Some (AwaitFresh a)")
  case True
  then obtain a where t: "js_get (dx_tasks d) n = Some (AwaitFresh a)" ..
  then show ?thesis
    by (auto simp: resume_fresh_def Let_def answer_after_def intro!: advances_set_task [OF t]
        split: prod.split sum.split)
next
  case False
  then have "resume_fresh n now v d = d"
    by (auto simp: resume_fresh_def split: option.split task.split)
  then show ?thesis by (simp add: advances_same)
qed

lemma resume_send_advances: "advances d (resume_send n now d)"
proof (cases "\<exists>a marked. js_get (dx_tasks d) n = Some (AwaitSend a marked)")
  case True
  then obtain a marked where t: "js_get (dx_tasks d) n = Some (AwaitSend a marked)" by blast
  then show ?thesis
    by (auto simp: resume_send_def Let_def answer_after_def intro!: advances_set_task [OF t]
        split: prod.split sum.split option.split)
next
  case False
  then have "resume_send n now d = d"
    by (auto simp: resume_send_def split: option.split task.split)
  then show ?thesis by (simp add: advances_same)
qed

lemma timer_advances: "advances d (timer n now d)"
proof (cases "\<exists>a cmd. js_get (dx_tasks d) n = Some (AwaitReply a cmd)")
  case True
  then obtain a cmd where t: "js_get (dx_tasks d) n = Some (AwaitReply a cmd)" by blast
  then show ?thesis
    by (auto simp: timer_def Let_def answer_after_def intro!: advances_set_task [OF t]
        split: prod.split sum.split)
next
  case False
  then have "timer n now d = d"
    by (auto simp: timer_def split: option.split task.split)
  then show ?thesis by (simp add: advances_same)
qed

lemma resume_message_advances: "advances d (resume_message n now d)"
proof (cases "\<exists>m found. js_get (dx_tasks d) n = Some (HandleRead m found)")
  case True
  then obtain m found where t: "js_get (dx_tasks d) n = Some (HandleRead m found)" by blast
  then show ?thesis
    by (auto simp: resume_message_def intro!: advances_set_task [OF t] progress_idle
        split: prod.split sum.split option.split)
next
  case False
  then have "resume_message n now d = d"
    by (auto simp: resume_message_def split: option.split task.split)
  then show ?thesis by (simp add: advances_same)
qed

lemma settle_advances:
  assumes "dispatcher_inv d"
  shows "advances d (settle key x d)"
proof (cases "js_get (dx_pending d) key")
  case (Some n)
  then obtain t where t: "js_get (dx_tasks d) n = Some t" "waiting t = Some key"
    using dispatcher_invD(8) [OF assms] by blast
  then have "progress t (Answered key (Inr x))" by (cases t) auto
  with t(1) Some show ?thesis
    by (auto simp: settle_def intro: advances_set_task)
qed (simp add: settle_def advances_same)

lemma resume_acknowledge_advances:
  assumes inv: "dispatcher_inv d"
  shows "advances d (resume_acknowledge n d)"
proof (cases "\<exists>m r x. js_get (dx_tasks d) n = Some (HandleAcknowledge m r x)")
  case True
  then obtain m r x where t: "js_get (dx_tasks d) n = Some (HandleAcknowledge m r x)" by blast
  obtain res ss where ack: "acknowledgeControl (ownerUserId (identity r)) m (dx_sessions d) = (res, ss)" by fastforce
  let ?d = "\<lambda>e. set_task n (Done e) (d\<lparr>dx_sessions := ss\<rparr>)"
  have first: "advances d (?d e)" for e
    by (rule advances_set_task [OF t]) (simp_all add: progress_idle)
  have "dispatcher_inv (d\<lparr>dx_sessions := ss\<rparr>)"
    using sessions_inv [OF inv, of ss] acknowledge_inv [OF dispatcher_invD(4) [OF inv], of "ownerUserId (identity r)" m]
      dispatcher_invD(5) [OF inv] acknowledge_sent [of "ownerUserId (identity r)" m "dx_sessions d"]
    by (simp add: ack)
  then have inv2: "dispatcher_inv (?d e)" for e
    by (rule set_task_inv [of _ n "HandleAcknowledge m r x"]) (use t in simp_all)
  show ?thesis
    using t ack first advances_trans [OF first settle_advances [OF inv2]]
    by (cases res; cases x) (simp_all add: resume_acknowledge_def Let_def)
next
  case False
  then have "resume_acknowledge n d = d"
    by (auto simp: resume_acknowledge_def split: option.split task.split)
  then show ?thesis by (simp add: advances_same)
qed

lemma resume_rebind_advances: "advances d (resume_rebind n d)"
proof (cases "\<exists>g rs. js_get (dx_tasks d) n = Some (Recover g rs)")
  case True
  then obtain g rs where t: "js_get (dx_tasks d) n = Some (Recover g rs)" by blast
  then show ?thesis
    by (cases rs) (auto simp: resume_rebind_def intro!: advances_set_task [OF t] progress_idle
        split: prod.split sum.split option.split)
next
  case False
  then have "resume_rebind n d = d"
    by (auto simp: resume_rebind_def split: option.split task.split)
  then show ?thesis by (simp add: advances_same)
qed

lemma resume_recover_send_advances: "advances d (resume_recover_send n d)"
proof (cases "\<exists>g q cmd rs. js_get (dx_tasks d) n = Some (RecoverSend g q cmd rs)")
  case True
  then obtain g q cmd rs where t: "js_get (dx_tasks d) n = Some (RecoverSend g q cmd rs)" by blast
  then show ?thesis
    by (auto simp: resume_recover_send_def intro!: advances_set_task [OF t] progress_idle split: prod.split sum.split)
next
  case False
  then have "resume_recover_send n d = d"
    by (auto simp: resume_recover_send_def split: option.split task.split)
  then show ?thesis by (simp add: advances_same)
qed

lemma reject_keeps: "m \<notin> snd ` set ps \<Longrightarrow> js_get (dx_tasks (fold reject_waiting ps d)) m = js_get (dx_tasks d) m"
proof (induction ps arbitrary: d)
  case (Cons p ps)
  then show ?case by (cases p) (auto simp: reject_waiting_def)
qed simp

lemma reject_answers:
  "m \<in> snd ` set ps \<Longrightarrow> \<exists>k e. (k, m) \<in> set ps \<and> js_get (dx_tasks (fold reject_waiting ps d)) m = Some (Answered k (Inl e))"
proof (induction ps arbitrary: d)
  case (Cons p ps)
  obtain k n where p: "p = (k, n)" by force
  show ?case
  proof (cases "m \<in> snd ` set ps")
    case True
    with Cons.IH [of "reject_waiting p d"] show ?thesis by auto
  next
    case False
    with Cons.prems p have "m = n" by simp
    moreover have "\<exists>e. js_get (dx_tasks (reject_waiting p d)) n = Some (Answered k (Inl e))"
      by (simp add: reject_waiting_def p)
    ultimately show ?thesis
      using p reject_keeps [OF False, of "reject_waiting p d"] by auto
  qed
qed simp

lemma close_advances:
  assumes inv: "dispatcher_inv d"
  shows "advances d (close_dispatcher d)"
  unfolding advances_def
proof (intro allI impI)
  fix n t
  assume t: "js_get (dx_tasks d) n = Some t"
  show "\<exists>u. js_get (dx_tasks (close_dispatcher d)) n = Some u \<and> progress t u"
  proof (cases "n \<in> snd ` set (dx_pending d)")
    case True
    then obtain k e where u: "(k, n) \<in> set (dx_pending d)"
        "js_get (dx_tasks (close_dispatcher d)) n = Some (Answered k (Inl e))"
      using reject_answers [OF True, of d] by (auto simp: close_dispatcher_def)
    then have "js_get (dx_pending d) k = Some n"
      using dispatcher_invD(9) [OF inv] by (simp add: js_wf_def)
    with t have "waiting t = Some k" by (simp add: dispatcher_invD(8) [OF inv])
    then have "progress t (Answered k (Inl e))" by (cases t) auto
    with u(2) show ?thesis by blast
  next
    case False
    with t reject_keeps [OF False, of d] show ?thesis by (auto simp: close_dispatcher_def)
  qed
qed

lemma step_advances: "dispatcher_inv d \<Longrightarrow> advances d (snd (dispatcher_step hash fp c d))"
proof (cases c)
  case (DDispatch now actor f r target)
  assume "dispatcher_inv d"
  with DDispatch show ?thesis
    by (simp add: begin_dispatch_def Let_def advances_spawn split: prod.split)
next
  case (DMessage m)
  assume "dispatcher_inv d"
  with DMessage show ?thesis by (simp add: begin_message_def advances_spawn advances_same)
next
  case (DRegistered g)
  assume "dispatcher_inv d"
  with DRegistered show ?thesis
    by (simp add: begin_recovery_def advances_spawn advances_same split: sum.split)
qed (simp_all add: resume_fresh_advances resume_send_advances timer_advances resume_message_advances
    resume_acknowledge_advances resume_rebind_advances resume_recover_send_advances close_advances advances_same)

lemma run_advances:
  "dispatcher_inv d \<Longrightarrow> advances d (run_state (dispatcher_step hash fp) calls d)"
proof (induction calls arbitrary: d)
  case (Cons c calls)
  show ?case
    using advances_trans [OF step_advances [OF Cons.prems] Cons.IH [OF dispatcher_step_inv [OF Cons.prems]]]
    by simp
qed (simp add: advances_same)

lemma run_task:
  assumes "dispatcher_inv d" "js_get (dx_tasks d) n = Some t"
  obtains u where "js_get (dx_tasks (run_state (dispatcher_step hash fp) calls d)) n = Some u" "progress t u"
  using run_advances [OF assms(1)] assms(2) unfolding advances_def by blast

text \<open>The three steps of a dispatch itself lower its rank.\<close>

lemma own_step_rank:
  assumes inv: "dispatcher_inv d" and t: "js_get (dx_tasks d) n = Some t"
    and c: "c = DFresh n now v \<and> rank t \<le> 3 \<or> c = DSend n now \<and> rank t \<le> 2 \<or> c = DTimer n now \<and> rank t \<le> 1"
  obtains u where "js_get (dx_tasks (snd (dispatcher_step hash fp c d))) n = Some u" "progress t u"
    "rank u < (case c of DFresh _ _ _ \<Rightarrow> 3 | DSend _ _ \<Rightarrow> 2 | _ \<Rightarrow> 1)"
proof -
  obtain u where u: "js_get (dx_tasks (snd (dispatcher_step hash fp c d))) n = Some u" "progress t u"
    using step_advances [OF inv] t unfolding advances_def by blast
  have "rank u < (case c of DFresh _ _ _ \<Rightarrow> 3 | DSend _ _ \<Rightarrow> 2 | _ \<Rightarrow> 1)"
    using c u t dispatcher_invD(7) [OF inv t]
    by (cases t) (auto simp: progress_def resume_fresh_def resume_send_def timer_def Let_def answer_after_def
      split: prod.splits sum.splits option.splits if_splits)
  with u show thesis by (rule that)
qed

lemma sent_record:
  assumes inv: "dispatcher_inv d" and c: "c \<in> set (sent_commands (rs_wire (dx_sessions d)))"
  obtains r cmd where "js_get (records (dx_ops d)) (recordKey (cb_actorUserId c) (cb_operationId c)) = Some r"
    "command r = Some cmd" "commandSequence cmd = cb_commandSequence c"
    "sessionless c = sessionless (createStoredCommand (identity r) (cb_commandSequence c))"
    "operationId (identity r) = cb_operationId c"
    "scope_key (identity r) = watermarkKey (cb_actorUserId c) (cb_workspaceId c) (cb_generation c)"
proof -
  obtain r cmd where r: "js_get (records (dx_ops d)) (recordKey (cb_actorUserId c) (cb_operationId c)) = Some r"
      "command r = Some cmd" "sessionless c = sessionless (createStoredCommand (identity r) (commandSequence cmd))"
    using dispatcher_invD(5) [OF inv] c by (auto simp: list_all_iff sent_ok_def)
  have owner: "actorUserId (identity r) = ownerUserId (identity r)"
    using all_recordsD [OF dispatcher_invD(3) [OF inv] r(1)] by (simp add: record_final_def)
  have fields: "f (sessionless c) = f (sessionless (createStoredCommand (identity r) (commandSequence cmd)))"
    for f :: "control_command \<Rightarrow> 'a"
    by (simp only: r(3))
  have "cb_commandSequence c = commandSequence cmd" "cb_operationId c = operationId (identity r)"
    "cb_actorUserId c = ownerUserId (identity r)" "cb_workspaceId c = workspaceId (identity r)"
    "cb_generation c = generation (identity r)"
    using fields [of cb_commandSequence] fields [of cb_operationId] fields [of cb_actorUserId]
      fields [of cb_workspaceId] fields [of cb_generation] owner
    by (simp_all add: sessionless_def createStoredCommand_def command_for_def)
  with r(3) show thesis
    by (intro that [OF r(1,2)]) (simp_all add: scope_key_def)
qed

section \<open>Safety\<close>

text \<open>C3: The commands ever sent for one generation of a Workspace carry the same command sequence exactly
  when they belong to the same operation, and all the commands of one operation, the first as well as those
  sent again after a reconnection, are the same up to the session they are sent to. So the Runtime can tell a
  repeated command by its sequence and never sees two operations, or two versions of one, under one sequence.\<close>

theorem control_commands_agree:
  assumes "c \<in> set (sent_commands (rs_wire (dx_sessions (run_dispatcher hash fp calls))))"
    and "c' \<in> set (sent_commands (rs_wire (dx_sessions (run_dispatcher hash fp calls))))"
    and "cb_actorUserId c = cb_actorUserId c'" and "cb_workspaceId c = cb_workspaceId c'"
    and "cb_generation c = cb_generation c'"
  shows "(cb_commandSequence c = cb_commandSequence c' \<longleftrightarrow> cb_operationId c = cb_operationId c') \<and>
    (cb_operationId c = cb_operationId c' \<longrightarrow> sessionless c = sessionless c')"
proof -
  let ?d = "run_dispatcher hash fp calls"
  have ok: "commands_ok (dx_ops ?d)"
    using dispatcher_invD(1) [OF reachable_dispatcher] by (simp add: store_inv_def)
  obtain r cmd where r: "js_get (records (dx_ops ?d)) (recordKey (cb_actorUserId c) (cb_operationId c)) = Some r"
      "command r = Some cmd" "commandSequence cmd = cb_commandSequence c"
      "sessionless c = sessionless (createStoredCommand (identity r) (cb_commandSequence c))"
      "operationId (identity r) = cb_operationId c"
      "scope_key (identity r) = watermarkKey (cb_actorUserId c) (cb_workspaceId c) (cb_generation c)"
    by (rule sent_record [OF reachable_dispatcher assms(1)])
  obtain r' cmd' where r': "js_get (records (dx_ops ?d)) (recordKey (cb_actorUserId c') (cb_operationId c')) = Some r'"
      "command r' = Some cmd'" "commandSequence cmd' = cb_commandSequence c'"
      "sessionless c' = sessionless (createStoredCommand (identity r') (cb_commandSequence c'))"
      "operationId (identity r') = cb_operationId c'"
      "scope_key (identity r') = watermarkKey (cb_actorUserId c') (cb_workspaceId c') (cb_generation c')"
    by (rule sent_record [OF reachable_dispatcher assms(2)])
  have "cb_operationId c = cb_operationId c'" if "cb_commandSequence c = cb_commandSequence c'"
  proof -
    have "recordKey (cb_actorUserId c) (cb_operationId c) = recordKey (cb_actorUserId c') (cb_operationId c')"
      by (rule commands_okD [OF ok r(1) r'(1) r(2) r'(2)]) (use r r' assms(3-5) that in simp_all)
    with r r' show ?thesis by simp
  qed
  moreover have "cb_commandSequence c = cb_commandSequence c' \<and> sessionless c = sessionless c'"
    if "cb_operationId c = cb_operationId c'"
    using r r' that assms(3) by simp
  ultimately show ?thesis by blast
qed


text \<open>C5: An answer that is not \<open>uncertain\<close> is final: it is the stored result of the operation, whatever happens
  afterwards, so every replay gives it again.\<close>

theorem dispatch_answer_final:
  assumes "js_get (dx_tasks (run_dispatcher hash fp before)) n = Some (Answered key (Inr x))"
    and "res_state x \<noteq> ResultUncertain"
  shows "\<exists>r. js_get (records (dx_ops (run_dispatcher hash fp (before @ after)))) key = Some r \<and>
    result r = Some (x\<lparr>res_replayed := False\<rparr>) \<and> state r = result_operation_state (res_state x)"
proof -
  let ?d = "run_dispatcher hash fp (before @ after)"
  obtain u where u: "js_get (dx_tasks ?d) n = Some u" "progress (Answered key (Inr x)) u"
    using run_task [OF reachable_dispatcher assms(1), of hash fp "after"] by (auto simp: run_state_append)
  then have "answer_ok (dx_ops ?d) key x"
    using dispatcher_invD(7) [OF reachable_dispatcher u(1)] by (simp add: progress_def)
  then obtain r where r: "js_get (records (dx_ops ?d)) key = Some r" "result r = Some (x\<lparr>res_replayed := False\<rparr>)"
    using assms(2) by (auto simp: answer_ok_def)
  with all_recordsD [OF dispatcher_invD(3) [OF reachable_dispatcher] r(1)] show ?thesis
    by (auto simp: record_final_def)
qed

section \<open>Liveness\<close>

text \<open>C6: Every dispatch is answered once its own steps have run, the check of the fresh target, the sending and
  the timeout, whatever the outcome of the check, and whatever else happens before, between and after them:
  other dispatches, answers, reconnections, revocations, even the closing of the dispatcher.\<close>

theorem every_dispatch_answered:
  assumes "js_get (dx_tasks (run_dispatcher hash fp calls)) n = Some t" and "dispatch_key t = Some key"
  shows "\<exists>v. js_get (dx_tasks (run_dispatcher hash fp (calls @ e1 @ [DFresh n t1 verified] @ e2 @ [DSend n t2] @
    e3 @ [DTimer n t3] @ e4))) n = Some (Answered key v)"
proof -
  let ?run = "run_state (dispatcher_step hash fp)"
  have inv: "dispatcher_inv (?run cs (run_dispatcher hash fp calls))" for cs
    by (rule dispatcher.run_inv [OF reachable_dispatcher])
  note task = run_task [where hash = hash and fp = fp]
  define d1 where "d1 = ?run e1 (run_dispatcher hash fp calls)"
  obtain a where a: "js_get (dx_tasks d1) n = Some a" "progress t a"
    unfolding d1_def by (rule task [OF reachable_dispatcher assms(1)])
  have inv1: "dispatcher_inv d1" by (simp add: d1_def inv)
  define d2 where "d2 = snd (dispatcher_step hash fp (DFresh n t1 verified) d1)"
  have "rank a \<le> 3" by (cases a) simp_all
  then obtain b where b: "js_get (dx_tasks d2) n = Some b" "progress a b" "rank b < 3"
    using own_step_rank [OF inv1 a(1), of "DFresh n t1 verified" t1 verified hash fp] by (auto simp: d2_def)
  have inv2: "dispatcher_inv d2" by (simp only: d2_def dispatcher_step_inv [OF inv1])
  define d3 where "d3 = ?run e2 d2"
  obtain e where e: "js_get (dx_tasks d3) n = Some e" "progress b e"
    unfolding d3_def by (rule task [OF inv2 b(1)])
  have inv3: "dispatcher_inv d3" by (simp only: d3_def dispatcher.run_inv [OF inv2])
  define d4 where "d4 = snd (dispatcher_step hash fp (DSend n t2) d3)"
  obtain f where f: "js_get (dx_tasks d4) n = Some f" "progress e f" "rank f < 2"
    using own_step_rank [OF inv3 e(1), of "DSend n t2" t2 _ hash fp] b(3) e(2) by (auto simp: d4_def progress_def)
  have inv4: "dispatcher_inv d4" by (simp only: d4_def dispatcher_step_inv [OF inv3])
  define d5 where "d5 = ?run e3 d4"
  obtain g where g: "js_get (dx_tasks d5) n = Some g" "progress f g"
    unfolding d5_def by (rule task [OF inv4 f(1)])
  have inv5: "dispatcher_inv d5" by (simp only: d5_def dispatcher.run_inv [OF inv4])
  define d6 where "d6 = snd (dispatcher_step hash fp (DTimer n t3) d5)"
  obtain h where h: "js_get (dx_tasks d6) n = Some h" "progress g h" "rank h < 1"
    using own_step_rank [OF inv5 g(1), of "DTimer n t3" t3 _ hash fp] f(3) g(2) by (auto simp: d6_def progress_def)
  have inv6: "dispatcher_inv d6" by (simp only: d6_def dispatcher_step_inv [OF inv5])
  obtain k where k: "js_get (dx_tasks (?run e4 d6)) n = Some k" "progress h k"
    by (rule task [OF inv6 h(1)])
  have "dispatch_key h = Some key"
    using a b e f g h assms(2) by (simp add: progress_def)
  with h(3) obtain v where "h = Answered key v" by (cases h) simp_all
  with k have "js_get (dx_tasks (?run e4 d6)) n = Some (Answered key v)" by (simp add: progress_def)
  then show ?thesis
    by (auto simp: run_state_append d6_def d5_def d4_def d3_def d2_def d1_def)
qed

section \<open>Failures\<close>



section \<open>A run\<close>

text \<open>A Runtime that is ready for control registers, a dispatch is reserved, checked and sent, the Runtime
  reconnects, and the dispatch is rebound to the new session.\<close>

definition demo_control_scope :: credential_scope where
  "demo_control_scope = RuntimeProperties.demo_scope\<lparr>sc_requestedCapabilities := [CapControl]\<rparr>"

definition demo_control_registration :: runtime_registration where
  "demo_control_registration = demo_registration\<lparr>rg_readyCapabilities := Some [CapControl],
     rg_resumeAfterControlCommandSequence := Some 0, rg_resumeAfterControlEventSequence := Some 0\<rparr>"

definition demo_actor :: control_actor where
  "demo_actor = \<lparr>ca_actorId = ''a'', ca_actorKind = HumanActor, ca_ownerUserId = ''u''\<rparr>"

definition demo_request :: control_request where
  "demo_request = \<lparr>rq_environmentId = demo_uuid_1, rq_expectedGeneration = demo_uuid_1,
     rq_expectedTargetIdentityRevision = ''1:abcdefgh'', rq_operationId = ''op'', rq_workspaceId = demo_uuid_1,
     rq_input = GitStatusInput\<rparr>"

definition demo_target :: control_target where
  "demo_target = \<lparr>tg_branch = ''main'', tg_commit = ''c'', tg_environmentId = demo_uuid_1, tg_generation = demo_uuid_1,
     tg_hostId = None, tg_manifestDigest = ''d'', tg_platformId = ''p'', tg_sessionId = ''s1'',
     tg_targetIdentityRevision = ''1:abcdefgh'', tg_workspaceId = demo_uuid_1\<rparr>"

definition demo_register_calls :: "dispatcher_call list" where
  "demo_register_calls = [DSession (RIssue demo_draw demo_issue),
     DSession (RRegister 1000 ''s1'' (Some \<lparr>cw_eventSequence = 0, cw_commandSequence = 0\<rparr>) 7
       demo_control_scope demo_control_registration)]"

definition demo_send_calls :: "dispatcher_call list" where
  "demo_send_calls = [DDispatch 2000 demo_actor ''f'' demo_request demo_target, DFresh 0 2001 (Inr demo_target), DSend 0 2002]"

definition demo_rebind_calls :: "dispatcher_call list" where
  "demo_rebind_calls = [DRegistered \<lparr>cg_generation = demo_uuid_1, cg_ownerUserId = ''u'',
       cg_resumeAfterCommandSequence = 0, cg_sessionId = ''s2'', cg_workspaceId = demo_uuid_1\<rparr>, DRebind 1]"

definition demo_identity :: operation_identity where
  "demo_identity = dispatch_identity demo_actor demo_request demo_target"

definition demo_args :: dispatch_args where
  "demo_args = \<lparr>da_fingerprint = ''f'', da_identity = demo_identity, da_request = demo_request, da_target = demo_target\<rparr>"

definition demo_command :: command_correlation where
  "demo_command = \<lparr>commandId = ''op'', commandSequence = 1\<rparr>"

definition demo_sessions :: "(string \<Rightarrow> string) \<Rightarrow> runtime_service" where
  "demo_sessions hash = snd (service_register 1000 ''s1'' (Some \<lparr>cw_eventSequence = 0, cw_commandSequence = 0\<rparr>) 7
     demo_control_scope demo_control_registration (empty_service\<lparr>rs_store := demo_issued hash\<rparr>))"

lemma demo_registered_sessions:
  "\<exists>m. rs_connections (demo_sessions hash) = [(workspaceKey ''u'' demo_uuid_1,
     \<lparr>cn_connection = 7, cn_codexAcceptedCommandSequence = 0,
      cn_scope = active_scope demo_control_scope demo_control_registration, cn_sessionId = ''s1''\<rparr>)] \<and>
     rs_wire (demo_sessions hash) = [(workspaceKey ''u'' demo_uuid_1, 7, SendMessage m)]"
proof -
  have "\<not> ready_refused demo_control_scope demo_control_registration"
    by (simp add: ready_refused_def ready_capabilities_def codex_ready_def control_ready_def demo_control_scope_def
        demo_control_registration_def RuntimeProperties.demo_scope_def demo_registration_def)
  moreover have "\<not> resume_refused (Some \<lparr>cw_eventSequence = 0, cw_commandSequence = 0\<rparr>) demo_control_registration"
    "control_ready demo_control_registration"
    by (simp_all add: resume_refused_def control_ready_def ready_capabilities_def demo_control_registration_def)
  moreover have "\<exists>res t. register 1000 demo_control_scope ''s1'' (to_iso 1000) demo_control_registration (demo_issued hash) = (Inr res, t)"
    by (simp add: register_def requireCurrent_def demo_issued_current registration_changed_def Let_def
        scope_runtimeKey_def demo_control_scope_def demo_control_registration_def max_time_def
        RuntimeProperties.demo_scope_def demo_registration_def)
  moreover have "sc_ownerUserId demo_control_scope = ''u''" "sc_workspaceId demo_control_scope = demo_uuid_1"
    "rg_resumeAfterCodexCommandSequence demo_control_registration = None"
    by (simp_all add: demo_control_scope_def RuntimeProperties.demo_scope_def demo_control_registration_def demo_registration_def)
  ultimately show ?thesis
    by (auto simp: demo_sessions_def service_register_def empty_service_def close_replaced_def Let_def js_set_def)
qed

lemma demo_dispatched:
  "begin_dispatch 2000 demo_actor ''f'' demo_request demo_target (empty_dispatcher\<lparr>dx_sessions := ss\<rparr>) =
     empty_dispatcher\<lparr>dx_sessions := ss, dx_ops := save (new_record ''f'' demo_identity) empty_store,
       dx_tasks := [(0, AwaitFresh demo_args)], dx_next := Suc 0\<rparr>"
  by (simp add: begin_dispatch_def Let_def reserve_def empty_dispatcher_def empty_store_def spawn_def js_set_def
      js_values_def new_record_def demo_args_def demo_identity_def)

definition demo_marked :: operation_record where
  "demo_marked = (new_record ''f'' demo_identity)\<lparr>command := Some demo_command, state := Dispatching\<rparr>"

definition demo_ops :: store where
  "demo_ops = \<lparr>records = [(identity_key demo_identity, demo_marked)],
     generationWatermarks = [(scope_key demo_identity, \<lparr>wm_commandSequence = 1, wm_eventSequence = 0\<rparr>)]\<rparr>"

definition demo_sent :: control_command where
  "demo_sent = createCommand demo_identity demo_request 1"

lemma demo_marked_call:
  "markDispatchAttempted \<lparr>dp_commandId = ''op'', dp_dispatchedAt = x, dp_dispatchedUntil = y, dp_fingerprint = ''f'',
      dp_identity = demo_identity\<rparr> (save (new_record ''f'' demo_identity) empty_store) = (Inr demo_marked, demo_ops)"
  by (simp add: markDispatchAttempted_def exact_def Let_def watermark_of_def set_watermark_def save_def empty_store_def
      new_record_def demo_marked_def demo_ops_def demo_command_def js_set_def)

lemma demo_fresh:
  "resume_fresh 0 2001 (Inr demo_target) (empty_dispatcher\<lparr>dx_sessions := ss,
       dx_ops := save (new_record ''f'' demo_identity) empty_store, dx_tasks := [(0, AwaitFresh demo_args)], dx_next := Suc 0\<rparr>) =
     empty_dispatcher\<lparr>dx_sessions := ss, dx_ops := demo_ops, dx_tasks := [(0, AwaitSend demo_args demo_marked)], dx_next := Suc 0\<rparr>"
  by (simp add: resume_fresh_def demo_args_def demo_request_def demo_marked_call set_task_def js_set_def)

lemma demo_dispatchControl:
  "dispatchControl ''u'' demo_sent (demo_sessions hash) =
     (Inr (), emit (workspaceKey ''u'' demo_uuid_1) 7 (SendCommand demo_sent) (demo_sessions hash))"
proof -
  have "CapControl \<in> set (sc_capabilities (active_scope demo_control_scope demo_control_registration))"
    by (simp add: active_scope_def ready_capabilities_def demo_control_registration_def)
  moreover have "controlCapability (command_operation demo_sent) = CapControl"
    by (simp add: controlCapability_def command_operation_def demo_sent_def createCommand_def command_for_def
        canonicalRuntimeControlSafeInput_def demo_request_def canonicalRuntimeControlAccessMode_def read_operations_def)
  moreover have "cb_workspaceId demo_sent = demo_uuid_1"
    by (simp add: demo_sent_def createCommand_def command_for_def demo_identity_def dispatch_identity_def demo_target_def)
  moreover have "cb_actorUserId demo_sent = ''u''" "cb_environmentId demo_sent = demo_uuid_1"
    "cb_generation demo_sent = demo_uuid_1" "cb_sessionId demo_sent = ''s1''"
    by (simp_all add: demo_sent_def createCommand_def command_for_def demo_identity_def dispatch_identity_def
        demo_target_def demo_actor_def)
  moreover have "sc_ownerUserId (active_scope demo_control_scope demo_control_registration) = ''u''"
    "sc_environmentId (active_scope demo_control_scope demo_control_registration) = demo_uuid_1"
    "sc_generation (active_scope demo_control_scope demo_control_registration) = demo_uuid_1"
    by (simp_all add: active_scope_def demo_control_scope_def RuntimeProperties.demo_scope_def)
  ultimately show ?thesis
    using demo_registered_sessions [of hash] by (auto simp: dispatchControl_def bound_to_def)
qed

definition demo_state :: "(string \<Rightarrow> string) \<Rightarrow> dispatcher" where
  "demo_state hash = empty_dispatcher\<lparr>dx_ops := demo_ops,
     dx_sessions := emit (workspaceKey ''u'' demo_uuid_1) 7 (SendCommand demo_sent) (demo_sessions hash),
     dx_pending := [(args_key demo_args, 0)], dx_tasks := [(0, AwaitReply demo_args demo_command)], dx_next := 1\<rparr>"

lemma demo_send:
  "resume_send 0 2002 (empty_dispatcher\<lparr>dx_sessions := demo_sessions hash, dx_ops := demo_ops,
       dx_tasks := [(0, AwaitSend demo_args demo_marked)], dx_next := Suc 0\<rparr>) = demo_state hash"
proof -
  have "command demo_marked = Some demo_command" "ownerUserId demo_identity = ''u''" "commandSequence demo_command = 1"
    by (simp_all add: demo_marked_def demo_identity_def dispatch_identity_def demo_actor_def demo_command_def)
  then show ?thesis
    by (simp add: resume_send_def Let_def demo_dispatchControl empty_dispatcher_def set_task_def js_set_def
        demo_state_def args_key_def demo_args_def flip: demo_sent_def)
qed

lemma demo_register_run:
  "run_dispatcher hash fp demo_register_calls = empty_dispatcher\<lparr>dx_sessions := demo_sessions hash\<rparr>"
  by (simp add: demo_register_calls_def demo_sessions_def empty_dispatcher_def)
    (simp add: empty_service_def demo_issued_def)

lemma demo_dispatch_run: "run_dispatcher hash fp (demo_register_calls @ demo_send_calls) = demo_state hash"
  by (simp add: run_state_append demo_register_run demo_send_calls_def demo_dispatched demo_fresh demo_send)

lemma demo_sent_commands:
  "sent_commands (rs_wire (dx_sessions (run_dispatcher hash fp (demo_register_calls @ demo_send_calls)))) = [demo_sent]"
  using demo_registered_sessions [of hash] by (auto simp: demo_dispatch_run demo_state_def)

theorem control_commands_agree_witness:
  "sessionless demo_sent = sessionless demo_sent \<and>
     sent_commands (rs_wire (dx_sessions (run_dispatcher (\<lambda>t. t) (\<lambda>_. []) (demo_register_calls @ demo_send_calls)))) = [demo_sent]"
  using control_commands_agree [of demo_sent "\<lambda>t. t" "\<lambda>_. []" "demo_register_calls @ demo_send_calls" demo_sent]
  by (simp add: demo_sent_commands)

theorem every_dispatch_answered_witness:
  "\<exists>v. js_get (dx_tasks (run_dispatcher (\<lambda>t. t) (\<lambda>_. []) (demo_register_calls @ demo_send_calls @ [DClose] @
      [DFresh 0 1 (Inl (ControlFailure DeniedError))] @ [] @ [DSend 0 2] @ [] @ [DTimer 0 3] @ []))) 0 =
    Some (Answered (args_key demo_args) v)"
  using every_dispatch_answered [of "\<lambda>t. t" "\<lambda>_. []" "demo_register_calls @ demo_send_calls" 0
      "AwaitReply demo_args demo_command" "args_key demo_args" "[DClose]" 1 "Inl (ControlFailure DeniedError)" "[]" 2 "[]" 3 "[]"]
  by (simp add: demo_dispatch_run demo_state_def)


lemma demo_rebound:
  "js_get (records (dx_ops (run_dispatcher hash fp (demo_register_calls @ demo_send_calls @ demo_rebind_calls)))) (args_key demo_args) =
     Some (demo_marked\<lparr>identity := demo_identity\<lparr>sessionId := ''s2''\<rparr>\<rparr>) \<and>
   js_get (dx_tasks (run_dispatcher hash fp (demo_register_calls @ demo_send_calls @ demo_rebind_calls))) 0 =
     Some (AwaitReply demo_args demo_command)"
proof -
  have i: "ownerUserId demo_identity = ''u''" "workspaceId demo_identity = demo_uuid_1" "generation demo_identity = demo_uuid_1"
    "operationId demo_identity = ''op''"
    by (simp_all add: demo_identity_def dispatch_identity_def demo_actor_def demo_target_def demo_request_def)
  have unresolved: "unresolved ''u'' demo_uuid_1 demo_uuid_1 demo_ops = Inr [demo_marked]"
    by (simp add: unresolved_def demo_ops_def js_values_def demo_marked_def new_record_def i Let_def)
  have rebind: "rebindSession \<lparr>rb_command = demo_command, rb_fingerprint = ''f'', rb_identity = demo_identity, rb_sessionId = ''s2''\<rparr> demo_ops =
      (Inr (demo_marked\<lparr>identity := demo_identity\<lparr>sessionId := ''s2''\<rparr>\<rparr>),
       save (demo_marked\<lparr>identity := demo_identity\<lparr>sessionId := ''s2''\<rparr>\<rparr>) demo_ops)"
    by (simp add: rebindSession_def exact_def demo_ops_def demo_marked_def new_record_def Let_def)
  have m: "command demo_marked = Some demo_command" "fingerprint demo_marked = ''f''" "identity demo_marked = demo_identity"
    by (simp_all add: demo_marked_def new_record_def)
  have "identity_key (demo_identity\<lparr>sessionId := ''s2''\<rparr>) = identity_key demo_identity"
    by (simp add: identity_key_def)
  then show ?thesis
    unfolding run_state_append demo_dispatch_run [unfolded run_state_append] demo_rebind_calls_def
    by (simp add: begin_recovery_def demo_state_def empty_dispatcher_def unresolved spawn_def
        resume_rebind_def m rebind set_task_def args_key_def demo_args_def)
qed


theorem dispatch_answer_final_witness:
  "\<exists>r. js_get (records (dx_ops (run_dispatcher (\<lambda>t. t) (\<lambda>_. []) ((demo_register_calls @
        [DDispatch 2000 demo_actor ''f'' demo_request demo_target, DFresh 0 2001 (Inl (ControlFailure DeniedError))]) @ [DClose]))))
      (args_key demo_args) = Some r \<and> state r = operation_state.Failed"
proof -
  let ?calls = "demo_register_calls @
    [DDispatch 2000 demo_actor ''f'' demo_request demo_target, DFresh 0 2001 (Inl (ControlFailure DeniedError))]"
  let ?input = "\<lparr>pf_completedAt = to_iso 2001, pf_failureCode = AuthorizationDenied, pf_fingerprint = ''f'',
    pf_identity = demo_identity, pf_result = publicResult demo_identity ResultFailed None\<rparr>"
  have "\<exists>r s. failReserved ?input (save (new_record ''f'' demo_identity) empty_store) = (Inr r, s)"
    by (simp add: failReserved_def exact_def new_record_def Let_def)
  then obtain r s where fail: "failReserved ?input (save (new_record ''f'' demo_identity) empty_store) = (Inr r, s)"
    by blast
  have args: "da_identity demo_args = demo_identity" "da_fingerprint demo_args = ''f''"
    by (simp_all add: demo_args_def)
  have "js_get (dx_tasks (run_dispatcher (\<lambda>t. t) (\<lambda>_. []) ?calls)) 0 =
      Some (Answered (args_key demo_args) (Inr (publicResult demo_identity ResultFailed None)))"
    by (simp add: run_state_append demo_register_run demo_dispatched resume_fresh_def args fail Let_def answer_after_def)
  from dispatch_answer_final [OF this, of "[DClose]"] show ?thesis by auto
qed

end
