(* ===== verification/JS_Value.thy ===== *)
theory JS_Value
  imports JS_Prelude Complex_Main "HOL-Library.Monad_Syntax"
begin

text \<open>
  JavaScript values as a parser of an untyped message sees them (\<open>unknown\<close>), and the readers the
  validators share. A number is a rational, or not finite. An object is the list of its own
  properties, in their order; reading an absent one gives \<open>undefined\<close>.

  A reader that throws is \<open>None\<close>: the validators throw the same error wherever a value is wrong.
\<close>

datatype js_number = Finite rat | NotFinite

datatype jsval =
    VUndefined
  | VNull
  | VBool bool
  | VNum js_number
  | VStr string
  | VArr "jsval list"
  | VObj "(string \<times> jsval) list"

text \<open>\<open>object.name\<close> and \<open>Object.keys(object)\<close>\<close>

definition field :: "(string \<times> jsval) list \<Rightarrow> string \<Rightarrow> jsval" where
  "field kvs name = (case map_of kvs name of None \<Rightarrow> VUndefined | Some v \<Rightarrow> v)"

definition object_keys :: "(string \<times> jsval) list \<Rightarrow> string list" where
  "object_keys kvs = map fst kvs"

lemma field_Cons [simp]: "field ((k, v) # kvs) name = (if k = name then v else field kvs name)"
  by (simp add: field_def)

lemma field_Nil [simp]: "field [] name = VUndefined"
  by (simp add: field_def)

lemma field_append_None [simp]: "name \<notin> set (map fst kvs) \<Longrightarrow> field (kvs @ kvs') name = field kvs' name"
  by (induction kvs) auto

lemma object_keys_simps [simp]:
  "object_keys [] = []" "object_keys ((k, v) # kvs) = k # object_keys kvs"
  "object_keys (xs @ ys) = object_keys xs @ object_keys ys"
  by (simp_all add: object_keys_def)

text \<open>An optional property: absent when there is no value.\<close>

definition optional_entry :: "string \<Rightarrow> jsval option \<Rightarrow> (string \<times> jsval) list" where
  "optional_entry name v = (case v of None \<Rightarrow> [] | Some x \<Rightarrow> [(name, x)])"

lemma optional_entry_simps [simp]:
  "optional_entry name None = []" "optional_entry name (Some v) = [(name, v)]"
  by (simp_all add: optional_entry_def)

text \<open>A number that is an integer.\<close>

definition rat_int :: "rat \<Rightarrow> int option" where
  "rat_int q = (if of_int \<lfloor>q\<rfloor> = q then Some \<lfloor>q\<rfloor> else None)"

lemma rat_int_of_int [simp]: "rat_int (of_int n) = Some n"
  by (simp add: rat_int_def)

text \<open>The readers of an object, a string, a finite number and a safe integer, shared by the validators.\<close>

fun as_object :: "jsval \<Rightarrow> (string \<times> jsval) list option" where
  "as_object (VObj kvs) = Some kvs"
| "as_object v = None"

fun as_string :: "jsval \<Rightarrow> string option" where
  "as_string (VStr s) = Some s"
| "as_string v = None"

fun as_number :: "jsval \<Rightarrow> rat option" where
  "as_number (VNum (Finite q)) = Some q"
| "as_number v = None"

fun safe_integer_value :: "jsval \<Rightarrow> int option" where
  "safe_integer_value (VNum (Finite q)) =
     (case rat_int q of None \<Rightarrow> None | Some n \<Rightarrow> if is_safe_integer n then Some n else None)"
| "safe_integer_value v = None"

text \<open>A check that throws when it fails.\<close>

definition require :: "bool \<Rightarrow> unit option" where
  "require b = (if b then Some () else None)"

lemma require_simps [simp]: "require b = Some u \<longleftrightarrow> b" "require True = Some ()" "require b = None \<longleftrightarrow> \<not> b"
  by (simp_all add: require_def)

lemma bind_require [simp]: "Option.bind (require b) f = Some y \<longleftrightarrow> b \<and> f () = Some y"
  by (simp add: require_def)

lemma bind_require_True: "b \<Longrightarrow> Option.bind (require b) f = f ()"
  by (simp add: require_def)

lemma pred_bind: "pred_option P (Option.bind m f) \<longleftrightarrow> (\<forall>x. m = Some x \<longrightarrow> pred_option P (f x))"
  by (cases m) simp_all

text \<open>\<open>array.map(f)\<close> for an \<open>f\<close> that may throw.\<close>

fun traverse :: "('a \<Rightarrow> 'b option) \<Rightarrow> 'a list \<Rightarrow> 'b list option" where
  "traverse f [] = Some []"
| "traverse f (x # xs) = do { y \<leftarrow> f x; ys \<leftarrow> traverse f xs; Some (y # ys) }"

lemma traverse_map: "list_all (\<lambda>y. f (g y) = Some y) ys \<Longrightarrow> traverse f (map g ys) = Some ys"
  by (induction ys) auto

lemma traverse_all: "traverse f xs = Some ys \<Longrightarrow> (\<And>x y. f x = Some y \<Longrightarrow> P y) \<Longrightarrow> list_all P ys \<and> length ys = length xs"
proof (induction xs arbitrary: ys)
  case (Cons x xs)
  then obtain y zs where "f x = Some y" "traverse f xs = Some zs" "ys = y # zs"
    by (auto simp: bind_eq_Some_conv)
  with Cons show ?case by auto
qed simp

end
