(* ===== verification/RuntimeWire.thy ===== *)
theory RuntimeWire
  imports RuntimeStore JS_Value
begin

text \<open>
  The parsers of the Workspace Runtime's wire messages in
  \<open>server/workspace-runtime-session/validation.ts\<close>. Every failure throws the one error
  \<open>invalid_message\<close>, so a parser returns an option. The URL parser of the platform
  (\<open>new URL(text)\<close>) is the parameter \<open>parse_url\<close>: the parts the code looks at, or \<open>None\<close> when it throws.
\<close>

section \<open>Readers\<close>

record url_parts =
  url_protocol :: string
  url_username :: string
  url_password :: string
  url_search :: string
  url_hash :: string
  url_text :: string

text \<open>The keys as the code compares them: both lists sorted and joined with a NUL.\<close>

definition wire_exactKeys :: "(string \<times> jsval) list \<Rightarrow> string list \<Rightarrow> string list \<Rightarrow> bool" where
  "wire_exactKeys input keys optional \<longleftrightarrow>
     join_nul (sort (object_keys input)) =
     join_nul (sort (filter (\<lambda>key. field input key \<noteq> VUndefined \<or> key \<notin> set optional) keys))"

definition wire_safeText :: "jsval \<Rightarrow> nat \<Rightarrow> string option" where
  "wire_safeText value maximum = do {
     text \<leftarrow> as_string value;
     require (safeText maximum text);
     Some text }"

definition wire_validTime :: "jsval \<Rightarrow> bool" where
  "wire_validTime value \<longleftrightarrow>
     (case value of VStr s \<Rightarrow> length s \<le> 40 \<and> date_parse s \<noteq> None | _ \<Rightarrow> False)"

definition safeUrl :: "(string \<Rightarrow> url_parts option) \<Rightarrow> jsval \<Rightarrow> string option" where
  "safeUrl parse_url value = do {
     raw \<leftarrow> wire_safeText value 2048;
     parsed \<leftarrow> parse_url raw;
     require (url_protocol parsed \<in> {''http:'', ''https:''} \<and> url_username parsed = [] \<and>
       url_password parsed = [] \<and> url_search parsed = [] \<and> url_hash parsed = []);
     Some (url_text parsed) }"

definition wire_optional :: "(jsval \<Rightarrow> 'a option) \<Rightarrow> jsval \<Rightarrow> 'a option option" where
  "wire_optional read v = (if v = VUndefined then Some None else map_option Some (read v))"

text \<open>A safe integer that is not below a bound, as \<open>Number.isSafeInteger(x) && Number(x) >= n\<close>.\<close>

definition integer_from :: "int \<Rightarrow> jsval \<Rightarrow> int option" where
  "integer_from lo v = do { n \<leftarrow> safe_integer_value v; require (lo \<le> n); Some n }"

section \<open>Credential request and registration\<close>

fun ready_capability_of :: "string \<Rightarrow> runtime_capability option" where
  "ready_capability_of s = find (\<lambda>c. capability_name c = s) readyCapabilitySet"

definition wire_requestedCapabilities :: "bool \<Rightarrow> jsval \<Rightarrow> runtime_capability list option" where
  "wire_requestedCapabilities allowEmpty value =
     (case value of
        VArr vs \<Rightarrow> do {
          require (length vs \<le> length readyCapabilitySet \<and> (allowEmpty \<or> vs \<noteq> []));
          names \<leftarrow> traverse as_string vs;
          require (distinct names);
          traverse ready_capability_of (sort names) }
      | _ \<Rightarrow> None)"

fun base_capability_of :: "string \<Rightarrow> runtime_capability option" where
  "base_capability_of s = find (\<lambda>c. capability_name c = s) workspaceRuntimeBaseCapabilities"

definition wire_baseCapabilities :: "jsval \<Rightarrow> runtime_capability list option" where
  "wire_baseCapabilities value =
     (case value of
        VArr vs \<Rightarrow> do {
          require (vs \<noteq> [] \<and> length vs \<le> length workspaceRuntimeBaseCapabilities);
          names \<leftarrow> traverse as_string vs;
          require (distinct names);
          traverse base_capability_of (sort names) }
      | _ \<Rightarrow> None)"

record credential_request =
  cr_capabilities :: "runtime_capability list"
  cr_environmentId :: string
  cr_expiresInSeconds :: "int option"
  cr_generation :: string
  cr_workspaceId :: string

definition parseCredentialRequest :: "jsval \<Rightarrow> credential_request option" where
  "parseCredentialRequest value = do {
     input \<leftarrow> as_object value;
     require (wire_exactKeys input
       [''capabilities'', ''environmentId'', ''expiresInSeconds'', ''generation'', ''workspaceId'']
       [''expiresInSeconds'']);
     capabilities \<leftarrow> wire_baseCapabilities (field input ''capabilities'');
     env \<leftarrow> as_string (field input ''environmentId'');
     gen \<leftarrow> as_string (field input ''generation'');
     ws \<leftarrow> as_string (field input ''workspaceId'');
     require (runtime_uuid env \<and> runtime_uuid gen \<and> runtime_uuid ws);
     expires \<leftarrow> wire_optional (integer_from 30) (field input ''expiresInSeconds'');
     require (pred_option (\<lambda>n. n \<le> 3600) expires);
     Some \<lparr>cr_capabilities = capabilities, cr_environmentId = env, cr_expiresInSeconds = expires,
       cr_generation = gen, cr_workspaceId = ws\<rparr> }"

definition parseRegistration :: "jsval \<Rightarrow> runtime_registration option" where
  "parseRegistration value = do {
     input \<leftarrow> as_object value;
     require (wire_exactKeys input
       [''branch'', ''commit'', ''environmentId'', ''generation'', ''manifestDigest'', ''readyCapabilities'',
        ''resumeAfterCodexCommandSequence'', ''resumeAfterCodexEventSequence'', ''resumeAfterSequence'',
        ''resumeAfterControlCommandSequence'', ''resumeAfterControlEventSequence'',
        ''runtimeVersion'', ''schemaVersion'', ''type'', ''workspaceId'']
       [''readyCapabilities'', ''resumeAfterCodexCommandSequence'', ''resumeAfterCodexEventSequence'',
        ''resumeAfterControlCommandSequence'', ''resumeAfterControlEventSequence'']);
     require (field input ''type'' = VStr ''runtime.register'' \<and> field input ''schemaVersion'' = VNum (Finite 1));
     resume \<leftarrow> integer_from 0 (field input ''resumeAfterSequence'');
     codexCommand \<leftarrow> wire_optional (integer_from 0) (field input ''resumeAfterCodexCommandSequence'');
     codexEvent \<leftarrow> wire_optional (integer_from 0) (field input ''resumeAfterCodexEventSequence'');
     controlCommand \<leftarrow> wire_optional (integer_from 0) (field input ''resumeAfterControlCommandSequence'');
     controlEvent \<leftarrow> wire_optional (integer_from 0) (field input ''resumeAfterControlEventSequence'');
     env \<leftarrow> as_string (field input ''environmentId'');
     gen \<leftarrow> as_string (field input ''generation'');
     ws \<leftarrow> as_string (field input ''workspaceId'');
     manifest \<leftarrow> as_string (field input ''manifestDigest'');
     commit \<leftarrow> as_string (field input ''commit'');
     require (runtime_uuid env \<and> runtime_uuid gen \<and> runtime_uuid ws \<and> digest_pattern manifest \<and> commit_pattern commit);
     ready \<leftarrow> wire_optional (wire_requestedCapabilities False) (field input ''readyCapabilities'');
     require ((\<exists>cs \<in> set_option ready. CapCodex \<in> set cs) = (codexCommand \<noteq> None) \<and>
       (\<exists>cs \<in> set_option ready. CapCodex \<in> set cs) = (codexEvent \<noteq> None) \<and>
       (\<exists>cs \<in> set_option ready. CapControl \<in> set cs \<or> CapMutation \<in> set cs) = (controlCommand \<noteq> None) \<and>
       (\<exists>cs \<in> set_option ready. CapControl \<in> set cs \<or> CapMutation \<in> set cs) = (controlEvent \<noteq> None));
     branch \<leftarrow> wire_safeText (field input ''branch'') 256;
     version \<leftarrow> wire_safeText (field input ''runtimeVersion'') 64;
     Some \<lparr>rg_branch = branch, rg_commit = commit, rg_environmentId = env, rg_generation = gen,
       rg_manifestDigest = manifest, rg_readyCapabilities = ready, rg_resumeAfterSequence = resume,
       rg_resumeAfterCodexCommandSequence = codexCommand, rg_resumeAfterCodexEventSequence = codexEvent,
       rg_resumeAfterControlCommandSequence = controlCommand,
       rg_resumeAfterControlEventSequence = controlEvent, rg_runtimeVersion = version,
       rg_workspaceId = ws\<rparr> }"

section \<open>Events\<close>

fun lifecycle_name :: "lifecycle_state \<Rightarrow> string" where
  "lifecycle_name Starting = ''starting''"
| "lifecycle_name Running = ''running''"
| "lifecycle_name Suspended = ''suspended''"
| "lifecycle_name Stopping = ''stopping''"
| "lifecycle_name Stopped = ''stopped''"
| "lifecycle_name Failed = ''failed''"

definition lifecycle_of :: "string \<Rightarrow> lifecycle_state option" where
  "lifecycle_of s = find (\<lambda>st. lifecycle_name st = s) [Starting, Running, Suspended, Stopping, Stopped, Failed]"

fun dev_server_state_name :: "dev_server_state \<Rightarrow> string" where
  "dev_server_state_name DevStarting = ''starting''"
| "dev_server_state_name DevReady = ''ready''"
| "dev_server_state_name DevStopped = ''stopped''"
| "dev_server_state_name DevFailed = ''failed''"

definition dev_server_state_of :: "string \<Rightarrow> dev_server_state option" where
  "dev_server_state_of s =
     find (\<lambda>st. dev_server_state_name st = s) [DevStarting, DevReady, DevStopped, DevFailed]"

text \<open>\<open>/^[A-Za-z0-9][A-Za-z0-9._-]{0,63}$/\<close>\<close>

definition dev_server_name :: "string \<Rightarrow> bool" where
  "dev_server_name s \<longleftrightarrow> (case s of [] \<Rightarrow> False
     | c # cs \<Rightarrow> is_alnum c \<and> class_rep (\<lambda>c. is_alnum c \<or> c \<in> set ''._-'') 0 63 cs)"

definition parseDevServer :: "(string \<Rightarrow> url_parts option) \<Rightarrow> jsval \<Rightarrow> runtime_dev_server option" where
  "parseDevServer parse_url entry = do {
     input \<leftarrow> as_object entry;
     require (wire_exactKeys input [''name'', ''port'', ''state'', ''url''] [''url'']);
     name \<leftarrow> wire_safeText (field input ''name'') 64;
     port \<leftarrow> integer_from 1 (field input ''port'');
     st \<leftarrow> Option.bind (as_string (field input ''state'')) dev_server_state_of;
     require (dev_server_name name \<and> port \<le> 65535);
     url \<leftarrow> wire_optional (safeUrl parse_url) (field input ''url'');
     Some \<lparr>ds_name = name, ds_port = port, ds_state = st, ds_url = url\<rparr> }"

definition parseDevServers :: "(string \<Rightarrow> url_parts option) \<Rightarrow> jsval \<Rightarrow> runtime_dev_server list option" where
  "parseDevServers parse_url value =
     (case value of
        VArr vs \<Rightarrow> do {
          require (length vs \<le> 32);
          servers \<leftarrow> traverse (parseDevServer parse_url) vs;
          require (distinct (map ds_name servers));
          Some servers }
      | _ \<Rightarrow> None)"

fun has_dotdot :: "string \<Rightarrow> bool" where
  "has_dotdot (a # b # s) = (a = CHR ''.'' \<and> b = CHR ''.'' \<or> has_dotdot (b # s))"
| "has_dotdot s = False"

text \<open>\<open>/^runtime-log:\/[A-Za-z0-9._/-]{1,498}$/\<close>, without \<open>..\<close>\<close>

definition log_pointer_ok :: "string \<Rightarrow> bool" where
  "log_pointer_ok p \<longleftrightarrow> take 13 p = ''runtime-log:/'' \<and>
     class_rep (\<lambda>c. is_alnum c \<or> c \<in> set ''._/-'') 1 498 (drop 13 p) \<and> \<not> has_dotdot p"

definition event_base :: "string list" where
  "event_base = [''eventId'', ''observedAt'', ''schemaVersion'', ''sequence'', ''type'']"

text \<open>The part of an event that depends on its type.\<close>

definition parse_body ::
    "(string \<Rightarrow> url_parts option) \<Rightarrow> (string \<times> jsval) list \<Rightarrow> runtime_event_body option" where
  "parse_body parse_url input =
     (if field input ''type'' = VStr ''runtime.heartbeat''
      then do { require (wire_exactKeys input event_base []); Some HeartbeatEvent }
      else if field input ''type'' = VStr ''runtime.lifecycle''
      then do {
        require (wire_exactKeys input (event_base @ [''state'']) []);
        st \<leftarrow> Option.bind (as_string (field input ''state'')) lifecycle_of;
        Some (LifecycleEvent st) }
      else if field input ''type'' = VStr ''runtime.dev-servers''
      then do {
        require (wire_exactKeys input (event_base @ [''devServers'']) []);
        servers \<leftarrow> parseDevServers parse_url (field input ''devServers'');
        Some (DevServersEvent servers) }
      else if field input ''type'' = VStr ''runtime.telemetry''
      then do {
        require (wire_exactKeys input (event_base @ [''cpuPercent'', ''memoryBytes'']) []);
        cpu \<leftarrow> as_number (field input ''cpuPercent'');
        memory \<leftarrow> integer_from 0 (field input ''memoryBytes'');
        require (0 \<le> cpu \<and> cpu \<le> 100);
        Some (TelemetryEvent cpu memory) }
      else if field input ''type'' = VStr ''runtime.log-pointer''
      then do {
        require (wire_exactKeys input (event_base @ [''pointer'']) []);
        pointer \<leftarrow> wire_safeText (field input ''pointer'') 512;
        require (log_pointer_ok pointer);
        Some (LogPointerEvent pointer) }
      else None)"

definition parseRuntimeEvent :: "(string \<Rightarrow> url_parts option) \<Rightarrow> jsval \<Rightarrow> runtime_event option" where
  "parseRuntimeEvent parse_url value = do {
     input \<leftarrow> as_object value;
     event_id \<leftarrow> as_string (field input ''eventId'');
     n \<leftarrow> integer_from 1 (field input ''sequence'');
     require (field input ''schemaVersion'' = VNum (Finite 1) \<and> event_id_pattern event_id \<and>
       wire_validTime (field input ''observedAt''));
     observed \<leftarrow> as_string (field input ''observedAt'');
     body \<leftarrow> parse_body parse_url input;
     Some \<lparr>re_eventId = event_id, re_observedAt = observed, re_sequence = n, re_body = body\<rparr> }"

end
