(* ===== verification/RuntimeControlWire.thy ===== *)
theory RuntimeControlWire
  imports RuntimeWire CanonicalTypes
begin

text \<open>
  The Codex and control messages of the Workspace Runtime's wire in
  \<open>server/workspace-runtime-session/validation.ts\<close>. These parsers check a message against the credential
  scope and the session and give it back as it came, so a parser answers the value or, when it throws,
  \<open>None\<close>. The counts of an output are added up exactly: the code adds them as doubles, but a sum beyond
  the safe integers, where a double would round, differs from every safe total in both.
\<close>

section \<open>Checks of the outputs\<close>

text \<open>A string property that satisfies a predicate; \<open>string(value)\<close> throws otherwise.\<close>

definition text_field :: "(string \<Rightarrow> bool) \<Rightarrow> (string \<times> jsval) list \<Rightarrow> string \<Rightarrow> bool" where
  "text_field p input key \<longleftrightarrow> (case field input key of VStr s \<Rightarrow> p s | _ \<Rightarrow> False)"

definition git_sha :: "jsval \<Rightarrow> bool" where
  "git_sha v \<longleftrightarrow> (case v of VStr s \<Rightarrow> commit_pattern s | _ \<Rightarrow> False)"

definition server_id_ok :: "jsval \<Rightarrow> bool" where
  "server_id_ok v \<longleftrightarrow> (case v of
     VStr (c # cs) \<Rightarrow> is_alnum c \<and> class_rep (\<lambda>c. is_alnum c \<or> c \<in> set ''._:-'') 0 63 cs
   | _ \<Rightarrow> False)"

definition resourceGeneration :: "jsval \<Rightarrow> bool" where
  "resourceGeneration v \<longleftrightarrow> (case v of VStr s \<Rightarrow> class_rep id_pattern_char 1 256 s | _ \<Rightarrow> False)"

text \<open>\<open>nonNegativeCounts\<close>, and the counts themselves once it has passed.\<close>

definition nonNegativeCounts :: "(string \<times> jsval) list \<Rightarrow> string list \<Rightarrow> bool" where
  "nonNegativeCounts input keys \<longleftrightarrow> list_all (\<lambda>key. integer_from 0 (field input key) \<noteq> None) keys"

definition count_of :: "(string \<times> jsval) list \<Rightarrow> string \<Rightarrow> int" where
  "count_of input key = (case safe_integer_value (field input key) of None \<Rightarrow> 0 | Some n \<Rightarrow> n)"

fun is_bool :: "jsval \<Rightarrow> bool" where
  "is_bool (VBool b) = True"
| "is_bool v = False"

definition status_keys :: "string list" where
  "status_keys = [''conflicted'', ''staged'', ''unstaged'', ''untracked'']"

text \<open>\<open>input.clean !== keys.every((key) => input[key] === 0)\<close>\<close>

definition clean_agrees :: "(string \<times> jsval) list \<Rightarrow> bool" where
  "clean_agrees input \<longleftrightarrow>
     field input ''clean'' = VBool (list_all (\<lambda>key. field input key = VNum (Finite 0)) status_keys)"

definition dev_server_state_for :: "string \<Rightarrow> string" where
  "dev_server_state_for op =
     (if op = ''dev-server.start'' then ''ready''
      else if op = ''dev-server.publish'' then ''published'' else ''stopped'')"

definition control_output_ok :: "string \<Rightarrow> (string \<times> jsval) list \<Rightarrow> bool" where
  "control_output_ok op input \<longleftrightarrow>
     (if op = ''git.status'' then
        wire_exactKeys input [''clean'', ''conflicted'', ''staged'', ''truncated'', ''unstaged'', ''untracked''] [] \<and>
        is_bool (field input ''clean'') \<and> is_bool (field input ''truncated'') \<and>
        nonNegativeCounts input status_keys \<and> clean_agrees input
      else if op = ''git.diff'' then
        wire_exactKeys input [''addedLines'', ''binaryFiles'', ''changedFiles'', ''deletedLines'', ''staged'', ''truncated''] [] \<and>
        is_bool (field input ''staged'') \<and> is_bool (field input ''truncated'') \<and>
        nonNegativeCounts input [''addedLines'', ''binaryFiles'', ''changedFiles'', ''deletedLines''] \<and>
        count_of input ''binaryFiles'' \<le> count_of input ''changedFiles''
      else if op = ''worktree.list'' then
        wire_exactKeys input [''current'', ''detached'', ''locked'', ''prunable'', ''total'', ''truncated''] [] \<and>
        is_bool (field input ''truncated'') \<and>
        nonNegativeCounts input [''current'', ''detached'', ''locked'', ''prunable'', ''total''] \<and>
        count_of input ''current'' \<le> 1 \<and>
        list_all (\<lambda>key. count_of input key \<le> count_of input ''total'')
          [''current'', ''detached'', ''locked'', ''prunable'']
      else if op = ''dev-server.inspect'' then
        wire_exactKeys input [''failed'', ''ready'', ''starting'', ''stopped'', ''total''] [] \<and>
        nonNegativeCounts input [''failed'', ''ready'', ''starting'', ''stopped'', ''total''] \<and>
        sum_list (map (count_of input) [''failed'', ''ready'', ''starting'', ''stopped'']) = count_of input ''total''
      else if op = ''git.stage'' \<or> op = ''git.unstage'' then
        wire_exactKeys input
          [''changed'', ''clean'', ''conflicted'', ''head'', ''staged'', ''truncated'', ''unstaged'', ''untracked''] [] \<and>
        is_bool (field input ''changed'') \<and> is_bool (field input ''clean'') \<and>
        is_bool (field input ''truncated'') \<and> git_sha (field input ''head'') \<and>
        nonNegativeCounts input status_keys \<and> clean_agrees input
      else if op = ''git.commit'' then
        wire_exactKeys input [''commit'', ''parent''] [] \<and>
        git_sha (field input ''commit'') \<and> git_sha (field input ''parent'') \<and>
        field input ''commit'' \<noteq> field input ''parent''
      else if op = ''task.start'' then
        wire_exactKeys input [''state'', ''taskExecutionId''] [] \<and>
        field input ''state'' = VStr ''ready_for_agent'' \<and> text_field runtime_uuid input ''taskExecutionId''
      else if op = ''dev-server.start'' \<or> op = ''dev-server.publish'' \<or> op = ''dev-server.stop'' then
        wire_exactKeys input [''serverGeneration'', ''serverId'', ''state''] [] \<and>
        field input ''state'' = VStr (dev_server_state_for op) \<and>
        server_id_ok (field input ''serverId'') \<and> resourceGeneration (field input ''serverGeneration'')
      else False)"

definition parseRuntimeControlOutput :: "string \<Rightarrow> jsval \<Rightarrow> unit option" where
  "parseRuntimeControlOutput op value = do {
     input \<leftarrow> as_object value;
     require (control_output_ok op input) }"

section \<open>Messages\<close>

text \<open>The binding both kinds of message share: the Workspace, environment, generation and session of the
  credential, its owner as the acting user, and well-formed identifiers.\<close>

definition message_bound :: "credential_scope \<Rightarrow> string \<Rightarrow> (string \<times> jsval) list \<Rightarrow> bool" where
  "message_bound scope session input \<longleftrightarrow>
     field input ''schemaVersion'' = VNum (Finite 1) \<and>
     field input ''workspaceId'' = VStr (sc_workspaceId scope) \<and>
     field input ''environmentId'' = VStr (sc_environmentId scope) \<and>
     field input ''generation'' = VStr (sc_generation scope) \<and>
     field input ''sessionId'' = VStr session \<and>
     field input ''actorUserId'' = VStr (sc_ownerUserId scope) \<and>
     text_field event_id_pattern input ''actorId'' \<and> text_field event_id_pattern input ''commandId'' \<and>
     text_field event_id_pattern input ''operationId'' \<and>
     integer_from 1 (field input ''commandSequence'') \<noteq> None"

definition parseRuntimeCodexMessage ::
    "jsval \<Rightarrow> credential_scope \<Rightarrow> string \<Rightarrow> jsval option" where
  "parseRuntimeCodexMessage value scope session = do {
     require (CapCodex \<in> set (sc_capabilities scope));
     input \<leftarrow> as_object value;
     kind \<leftarrow> as_string (field input ''type'');
     require (kind \<in> {''runtime.codex.command-accepted'', ''runtime.codex.event'', ''runtime.codex.result'',
       ''runtime.codex.error''} \<and> message_bound scope session input);
     require (kind \<noteq> ''runtime.codex.event'' \<or> integer_from 1 (field input ''eventSequence'') \<noteq> None);
     Some value }"

definition operation_of :: "string \<Rightarrow> canonical_operation option" where
  "operation_of s = find (\<lambda>op. operation_name op = s)
     [GitStatus, GitDiff, GitStage, GitUnstage, GitCommit, WorktreeList, TaskStart,
      DevServerInspect, DevServerStart, DevServerPublish, DevServerStop]"

text \<open>\<open>/^[1-9][0-9]*:[A-Za-z0-9:_-]{8,256}$/\<close>\<close>

definition target_revision_pattern :: "string \<Rightarrow> bool" where
  "target_revision_pattern s \<longleftrightarrow>
     (case s of [] \<Rightarrow> False
      | c # cs \<Rightarrow> in_range (CHR ''1'') (CHR ''9'') c \<and>
          (case dropWhile is_digit cs of [] \<Rightarrow> False
           | d # rest \<Rightarrow> d = CHR '':'' \<and>
               class_rep (\<lambda>c. is_alnum c \<or> c \<in> set '':_-'') 8 256 rest))"

definition control_base_keys :: "string list" where
  "control_base_keys =
     [''actorId'', ''actorKind'', ''actorUserId'', ''commandId'', ''commandSequence'', ''environmentId'',
      ''eventSequence'', ''generation'', ''operation'', ''operationId'', ''schemaVersion'', ''sessionId'',
      ''targetIdentityRevision'', ''type'', ''workspaceId'']"

definition required_control_capability :: "canonical_operation \<Rightarrow> runtime_capability" where
  "required_control_capability op =
     (if canonicalRuntimeControlAccessMode op = MutationMode then CapMutation else CapControl)"

definition control_accepted_ok :: "(string \<times> jsval) list \<Rightarrow> bool" where
  "control_accepted_ok input \<longleftrightarrow>
     wire_exactKeys input (control_base_keys @ [''acceptedCommandSequence'', ''replayed'']) [] \<and>
     is_bool (field input ''replayed'') \<and>
     safe_integer_value (field input ''acceptedCommandSequence'') \<noteq> None \<and>
     safe_integer_value (field input ''acceptedCommandSequence'') =
       safe_integer_value (field input ''commandSequence'')"

definition control_result_ok :: "canonical_operation \<Rightarrow> (string \<times> jsval) list \<Rightarrow> bool" where
  "control_result_ok op input \<longleftrightarrow>
     (let completed = field input ''state'' = VStr ''completed''
      in wire_exactKeys input (control_base_keys @ [''state''] @ (if completed then [''output''] else [])) [] \<and>
         text_field (\<lambda>s. s \<in> {''completed'', ''failed''}) input ''state'' \<and>
         completed = (field input ''output'' \<noteq> VUndefined) \<and>
         (completed \<longrightarrow> parseRuntimeControlOutput (operation_name op) (field input ''output'') \<noteq> None))"

definition control_error_ok :: "canonical_operation \<Rightarrow> (string \<times> jsval) list \<Rightarrow> bool" where
  "control_error_ok op input \<longleftrightarrow>
     wire_exactKeys input (control_base_keys @ [''code'', ''message'']) [] \<and>
     text_field (\<lambda>s. s \<in> {''blocked_dependency'', ''invalid_command'', ''runtime_stopping'', ''unavailable'',
       ''uncertain''}) input ''code'' \<and>
     (field input ''code'' = VStr ''blocked_dependency'' \<longrightarrow> op = TaskStart) \<and>
     wire_safeText (field input ''message'') 512 \<noteq> None"

definition parseRuntimeControlMessage ::
    "jsval \<Rightarrow> credential_scope \<Rightarrow> string \<Rightarrow> jsval option" where
  "parseRuntimeControlMessage value scope session = do {
     input \<leftarrow> as_object value;
     kind \<leftarrow> as_string (field input ''type'');
     require (kind \<in> {''runtime.control.command-accepted'', ''runtime.control.result'', ''runtime.control.error''} \<and>
       message_bound scope session input \<and>
       text_field (\<lambda>s. s \<in> {''agent'', ''human'', ''orchestrator'', ''system''}) input ''actorKind'');
     op \<leftarrow> Option.bind (as_string (field input ''operation'')) operation_of;
     require (text_field target_revision_pattern input ''targetIdentityRevision'' \<and>
       integer_from 1 (field input ''eventSequence'') \<noteq> None);
     require (required_control_capability op \<in> set (sc_capabilities scope));
     require (kind = ''runtime.control.command-accepted'' \<longrightarrow> control_accepted_ok input);
     require (kind = ''runtime.control.result'' \<longrightarrow> control_result_ok op input);
     require (kind = ''runtime.control.error'' \<longrightarrow> control_error_ok op input);
     Some value }"

end
