(* ===== verification/ComputeTypes.thy ===== *)
theory ComputeTypes
  imports JS_Value JS_Json JS_Date
begin

text \<open>
  The compute inventory's records and the checks of reported metadata
  (\<open>src/shared/compute-environment-api.ts\<close>): platforms, hosts, environments, their definitions and
  connectors, the built-in definitions, and the validators of the topology evidence a connector reports.

  A record has the fields of its interface; the version of a derived identity is a safe integer.
  \<open>localeCompare\<close> on names and identifiers is the collation of the runtime's locale, a parameter
  \<open>coll\<close> of the definitions that sort by it.
\<close>

section \<open>Enumerations\<close>

datatype platform_kind =
    LocalPlatform | GithubCodespaces | CloudSandboxPlatform | Kubernetes | Virtualization | OtherPlatform

datatype environment_kind =
    NativeMacos | NativeWindows | NativeLinux | Wsl | Docker | Devbox | GithubCodespace | CloudSandbox
  | KubernetesWorkload | VirtualMachine | OtherKind

datatype system_family = FamilyMacos | FamilyWindows | FamilyLinux | FamilyOther

datatype bootstrap_strategy = BootSsh | ProviderNative | BootWorkspaceRuntime | BootCustom

datatype definition_ownership = BuiltIn | UserDefined

datatype host_resolution = Verified | Manual | Unresolved | ConflictResolution | NotApplicable

datatype host_evidence = EvidenceProvider | EvidenceTpm | EvidenceSmbios | EvidenceBroker | EvidenceUser | EvidenceNone

datatype resource_source = SourceConnector | SourceProvider | SourceConfigured | SourceHostd

datatype resource_mode = Dedicated | Shared | Exclusive

fun platform_kind_name :: "platform_kind \<Rightarrow> string" where
  "platform_kind_name LocalPlatform = ''local''"
| "platform_kind_name GithubCodespaces = ''github_codespaces''"
| "platform_kind_name CloudSandboxPlatform = ''cloud_sandbox''"
| "platform_kind_name Kubernetes = ''kubernetes''"
| "platform_kind_name Virtualization = ''virtualization''"
| "platform_kind_name OtherPlatform = ''other''"

fun environment_kind_name :: "environment_kind \<Rightarrow> string" where
  "environment_kind_name NativeMacos = ''native_macos''"
| "environment_kind_name NativeWindows = ''native_windows''"
| "environment_kind_name NativeLinux = ''native_linux''"
| "environment_kind_name Wsl = ''wsl''"
| "environment_kind_name Docker = ''docker''"
| "environment_kind_name Devbox = ''devbox''"
| "environment_kind_name GithubCodespace = ''github_codespace''"
| "environment_kind_name CloudSandbox = ''cloud_sandbox''"
| "environment_kind_name KubernetesWorkload = ''kubernetes_workload''"
| "environment_kind_name VirtualMachine = ''virtual_machine''"
| "environment_kind_name OtherKind = ''other''"

fun family_name :: "system_family \<Rightarrow> string" where
  "family_name FamilyMacos = ''macos''"
| "family_name FamilyWindows = ''windows''"
| "family_name FamilyLinux = ''linux''"
| "family_name FamilyOther = ''other''"

fun bootstrap_name :: "bootstrap_strategy \<Rightarrow> string" where
  "bootstrap_name BootSsh = ''ssh''"
| "bootstrap_name ProviderNative = ''provider_native''"
| "bootstrap_name BootWorkspaceRuntime = ''workspace_runtime''"
| "bootstrap_name BootCustom = ''custom''"

fun ownership_name :: "definition_ownership \<Rightarrow> string" where
  "ownership_name BuiltIn = ''built_in''"
| "ownership_name UserDefined = ''user_defined''"

fun evidence_name :: "host_evidence \<Rightarrow> string" where
  "evidence_name EvidenceProvider = ''provider''"
| "evidence_name EvidenceTpm = ''tpm''"
| "evidence_name EvidenceSmbios = ''smbios''"
| "evidence_name EvidenceBroker = ''host_broker''"
| "evidence_name EvidenceUser = ''user''"
| "evidence_name EvidenceNone = ''none''"

lemma names_inj [simp]:
  "platform_kind_name a = platform_kind_name b \<longleftrightarrow> a = b"
  "environment_kind_name c = environment_kind_name d \<longleftrightarrow> c = d"
  "family_name e = family_name f \<longleftrightarrow> e = f"
  "bootstrap_name g = bootstrap_name h \<longleftrightarrow> g = h"
  "ownership_name i = ownership_name j \<longleftrightarrow> i = j"
  "evidence_name k = evidence_name l \<longleftrightarrow> k = l"
  by ((cases a; cases b; simp), (cases c; cases d; simp), (cases e; cases f; simp),
      (cases g; cases h; simp), (cases i; cases j; simp), (cases k; cases l; simp))

section \<open>Records\<close>

record derived_identity =
  dk_key :: string
  dk_version :: int

record gpu_profile =
  gq_model :: string
  gq_memoryBytes :: "rat option"

record resource_profile =
  rp_architecture :: string
  rp_operatingSystem :: string
  rp_cpuModel :: "string option"
  rp_cpuCores :: int
  rp_cpuLimit :: "rat option"
  rp_memoryTotalBytes :: rat
  rp_memoryAvailableBytes :: "rat option"
  rp_memoryLimitBytes :: "rat option"
  rp_storageTotalBytes :: rat
  rp_storageAvailableBytes :: "rat option"
  rp_gpu :: "gpu_profile list option"
  rp_source :: resource_source
  rp_reportedAt :: string

record definition_blueprint =
  db_bootstrapStrategy :: bootstrap_strategy
  db_kind :: environment_kind
  db_name :: string
  db_operatingSystemFamily :: system_family
  db_ownership :: definition_ownership
  db_slug :: string
  db_supportedArchitectures :: "string list"

text \<open>\<open>ed_ownerUserId\<close> is present on the records that come from the database.\<close>

record environment_definition = definition_blueprint +
  ed_id :: string
  ed_ownerUserId :: "string option"

record platform_record =
  pl_id :: string
  pl_kind :: platform_kind
  pl_name :: string

record host_record =
  hr_id :: string
  hr_identity :: derived_identity
  hr_name :: string
  hr_platformId :: string
  hr_resources :: "resource_profile option"

datatype host_association =
    VerifiedHost host_evidence string
  | ManualHost string
  | UnresolvedHost
  | ConflictHost host_evidence "string option" "string option"
  | NoHost host_evidence

record compute_environment =
  ce_environmentDefinitionId :: string
  ce_hostAssociation :: host_association
  ce_id :: string
  ce_identity :: derived_identity
  ce_identityConflict :: bool
  ce_kind :: environment_kind
  ce_name :: string
  ce_ownerUserId :: "string option"
  ce_parentEnvironmentId :: "string option"
  ce_platformId :: string
  ce_resourceMode :: resource_mode
  ce_resources :: "resource_profile option"

record connector_association =
  ca_associatedAt :: string
  ca_connectorId :: string
  ca_environmentId :: string

record compute_metadata =
  cd_environmentIdentity :: derived_identity
  cd_environmentKind :: environment_kind
  cd_environmentName :: string
  cd_hostEvidence :: host_evidence
  cd_hostIdentity :: "derived_identity option"
  cd_hostName :: "string option"
  cd_hostResolution :: host_resolution
  cd_parentEnvironmentIdentity :: "derived_identity option"
  cd_platformKind :: platform_kind
  cd_platformName :: string
  cd_resourceMode :: resource_mode
  cd_resources :: "resource_profile option"

section \<open>Built-in definitions\<close>

definition built_in :: "environment_kind \<Rightarrow> string \<Rightarrow> string \<Rightarrow> system_family \<Rightarrow> bootstrap_strategy \<Rightarrow> definition_blueprint" where
  "built_in kind slug name family strategy =
     \<lparr>db_bootstrapStrategy = strategy, db_kind = kind, db_name = name, db_operatingSystemFamily = family,
      db_ownership = BuiltIn, db_slug = slug, db_supportedArchitectures = []\<rparr>"

fun builtInEnvironmentDefinition :: "environment_kind \<Rightarrow> definition_blueprint" where
  "builtInEnvironmentDefinition NativeMacos = built_in NativeMacos ''macos'' ''macOS'' FamilyMacos BootSsh"
| "builtInEnvironmentDefinition NativeWindows = built_in NativeWindows ''windows'' ''Windows'' FamilyWindows BootSsh"
| "builtInEnvironmentDefinition NativeLinux = built_in NativeLinux ''linux'' ''Linux'' FamilyLinux BootSsh"
| "builtInEnvironmentDefinition Wsl = built_in Wsl ''wsl'' ''WSL'' FamilyLinux BootSsh"
| "builtInEnvironmentDefinition Docker = built_in Docker ''docker'' ''Docker'' FamilyOther BootWorkspaceRuntime"
| "builtInEnvironmentDefinition Devbox = built_in Devbox ''devbox'' ''Devbox'' FamilyOther BootWorkspaceRuntime"
| "builtInEnvironmentDefinition GithubCodespace =
     built_in GithubCodespace ''github-codespace'' ''GitHub Codespace'' FamilyLinux ProviderNative"
| "builtInEnvironmentDefinition CloudSandbox =
     built_in CloudSandbox ''cloud-sandbox'' ''Cloud sandbox'' FamilyOther ProviderNative"
| "builtInEnvironmentDefinition KubernetesWorkload =
     built_in KubernetesWorkload ''kubernetes-workload'' ''Kubernetes workload'' FamilyOther ProviderNative"
| "builtInEnvironmentDefinition VirtualMachine =
     built_in VirtualMachine ''virtual-machine'' ''Virtual machine'' FamilyOther BootSsh"
| "builtInEnvironmentDefinition OtherKind = built_in OtherKind ''other'' ''Other'' FamilyOther BootCustom"

lemma built_in_slug_inj [simp]:
  "db_slug (builtInEnvironmentDefinition a) = db_slug (builtInEnvironmentDefinition b) \<longleftrightarrow> a = b"
  by (cases a; cases b; simp add: built_in_def)

lemma built_in_kind [simp]: "db_kind (builtInEnvironmentDefinition k) = k"
  by (cases k; simp add: built_in_def)

section \<open>Checks of reported metadata\<close>

definition onlyKeys :: "(string \<times> jsval) list \<Rightarrow> string list \<Rightarrow> bool" where
  "onlyKeys value allowed \<longleftrightarrow> list_all (\<lambda>key. key \<in> set allowed) (object_keys value)"

fun finiteNonNegative :: "jsval \<Rightarrow> bool" where
  "finiteNonNegative (VNum (Finite q)) = (0 \<le> q)"
| "finiteNonNegative v = False"

text \<open>\<open>value === undefined || check(value)\<close>\<close>

definition absent_or :: "(jsval \<Rightarrow> bool) \<Rightarrow> jsval \<Rightarrow> bool" where
  "absent_or check v \<longleftrightarrow> v = VUndefined \<or> check v"

definition string_where :: "(string \<Rightarrow> bool) \<Rightarrow> jsval \<Rightarrow> bool" where
  "string_where p v \<longleftrightarrow> (case v of VStr s \<Rightarrow> p s | _ \<Rightarrow> False)"

text \<open>A safe integer that is positive.\<close>

definition positive_safe :: "jsval \<Rightarrow> bool" where
  "positive_safe v \<longleftrightarrow> (case safe_integer_value v of None \<Rightarrow> False | Some n \<Rightarrow> 0 < n)"

text \<open>
  \<open>names.includes(String(value))\<close>. \<open>String\<close> of an array joins its elements, so an array of one string
  has the text of that string; the text of any other value is no name of an enumeration.
\<close>

fun string_text :: "jsval \<Rightarrow> string option" where
  "string_text (VStr s) = Some s"
| "string_text (VArr [v]) = string_text v"
| "string_text v = None"

definition one_of :: "string list \<Rightarrow> jsval \<Rightarrow> bool" where
  "one_of names v \<longleftrightarrow> (case string_text v of None \<Rightarrow> False | Some s \<Rightarrow> s \<in> set names)"

definition identity_key_pattern :: "string \<Rightarrow> bool" where
  "identity_key_pattern = class_rep (\<lambda>c. is_alnum c \<or> c \<in> set '':_-'') 8 256"

definition isDerivedIdentityKey :: "jsval \<Rightarrow> bool" where
  "isDerivedIdentityKey value \<longleftrightarrow> (case value of
     VObj o1 \<Rightarrow> onlyKeys o1 [''key'', ''version''] \<and> string_where identity_key_pattern (field o1 ''key'') \<and>
       positive_safe (field o1 ''version'')
   | _ \<Rightarrow> False)"

definition cpu_ok :: "jsval \<Rightarrow> bool" where
  "cpu_ok value \<longleftrightarrow> (case value of
     VObj cpu \<Rightarrow> onlyKeys cpu [''model'', ''cores'', ''limit''] \<and> positive_safe (field cpu ''cores'') \<and>
       absent_or finiteNonNegative (field cpu ''limit'') \<and>
       absent_or (string_where (\<lambda>s. length s \<le> 256)) (field cpu ''model'')
   | _ \<Rightarrow> False)"

definition memory_ok :: "jsval \<Rightarrow> bool" where
  "memory_ok value \<longleftrightarrow> (case value of
     VObj memory \<Rightarrow> onlyKeys memory [''totalBytes'', ''availableBytes'', ''limitBytes''] \<and>
       finiteNonNegative (field memory ''totalBytes'') \<and>
       absent_or finiteNonNegative (field memory ''availableBytes'') \<and>
       absent_or finiteNonNegative (field memory ''limitBytes'')
   | _ \<Rightarrow> False)"

definition storage_ok :: "jsval \<Rightarrow> bool" where
  "storage_ok value \<longleftrightarrow> (case value of
     VObj storage \<Rightarrow> onlyKeys storage [''totalBytes'', ''availableBytes''] \<and>
       finiteNonNegative (field storage ''totalBytes'') \<and>
       absent_or finiteNonNegative (field storage ''availableBytes'')
   | _ \<Rightarrow> False)"

definition gpu_ok :: "jsval \<Rightarrow> bool" where
  "gpu_ok value \<longleftrightarrow> (case value of
     VObj gpu \<Rightarrow> onlyKeys gpu [''model'', ''memoryBytes''] \<and>
       string_where (\<lambda>s. s \<noteq> [] \<and> length s \<le> 256) (field gpu ''model'') \<and>
       absent_or finiteNonNegative (field gpu ''memoryBytes'')
   | _ \<Rightarrow> False)"

definition gpus_ok :: "jsval \<Rightarrow> bool" where
  "gpus_ok value \<longleftrightarrow> (case value of VArr gpus \<Rightarrow> length gpus \<le> 16 \<and> list_all gpu_ok gpus | _ \<Rightarrow> False)"

definition isResourceProfile :: "jsval \<Rightarrow> bool" where
  "isResourceProfile value \<longleftrightarrow> (case value of
     VObj profile \<Rightarrow>
       onlyKeys profile [''architecture'', ''operatingSystem'', ''cpu'', ''memory'', ''storage'', ''gpu'',
         ''source'', ''reportedAt''] \<and>
       cpu_ok (field profile ''cpu'') \<and> memory_ok (field profile ''memory'') \<and>
       storage_ok (field profile ''storage'') \<and> absent_or gpus_ok (field profile ''gpu'') \<and>
       string_where (\<lambda>s. length s \<le> 64) (field profile ''architecture'') \<and>
       string_where (\<lambda>s. length s \<le> 128) (field profile ''operatingSystem'') \<and>
       one_of [''connector'', ''provider'', ''configured'', ''hostd''] (field profile ''source'') \<and>
       string_where (\<lambda>s. date_parse s \<noteq> None) (field profile ''reportedAt'')
   | _ \<Rightarrow> False)"

definition consistentHostAssociation :: "(string \<times> jsval) list \<Rightarrow> bool" where
  "consistentHostAssociation value \<longleftrightarrow>
     (let evidence = field value ''hostEvidence''; resolution = field value ''hostResolution'';
          hasHost = (field value ''hostIdentity'' \<noteq> VUndefined \<and> field value ''hostName'' \<noteq> VUndefined)
      in (one_of [''verified''] resolution \<and> hasHost \<and>
           one_of [''provider'', ''tpm'', ''smbios'', ''host_broker''] evidence) \<or>
         (one_of [''manual''] resolution \<and> hasHost \<and> one_of [''user''] evidence) \<or>
         (one_of [''unresolved''] resolution \<and> \<not> hasHost \<and> one_of [''none''] evidence) \<or>
         (one_of [''conflict''] resolution \<and> \<not> one_of [''none''] evidence) \<or>
         (one_of [''not_applicable''] resolution \<and> \<not> hasHost \<and> one_of [''none'', ''provider''] evidence))"

definition isConnectorComputeMetadataValue :: "jsval \<Rightarrow> bool" where
  "isConnectorComputeMetadataValue v \<longleftrightarrow> (case v of
     VObj value \<Rightarrow>
       onlyKeys value [''environmentIdentity'', ''environmentKind'', ''environmentName'', ''hostEvidence'',
         ''hostIdentity'', ''hostName'', ''hostResolution'', ''parentEnvironmentIdentity'', ''platformKind'',
         ''platformName'', ''resourceMode'', ''resources''] \<and>
       consistentHostAssociation value \<and> isDerivedIdentityKey (field value ''environmentIdentity'') \<and>
       absent_or isDerivedIdentityKey (field value ''hostIdentity'') \<and>
       absent_or isDerivedIdentityKey (field value ''parentEnvironmentIdentity'') \<and>
       one_of [''local'', ''github_codespaces'', ''cloud_sandbox'', ''kubernetes'', ''virtualization'', ''other'']
         (field value ''platformKind'') \<and>
       one_of [''native_macos'', ''native_windows'', ''native_linux'', ''wsl'', ''docker'', ''devbox'',
         ''github_codespace'', ''cloud_sandbox'', ''kubernetes_workload'', ''virtual_machine'', ''other'']
         (field value ''environmentKind'') \<and>
       string_where (\<lambda>s. 0 < length s \<and> length s \<le> 80) (field value ''platformName'') \<and>
       string_where (\<lambda>s. 0 < length s \<and> length s \<le> 128) (field value ''environmentName'') \<and>
       absent_or (string_where (\<lambda>s. 0 < length s \<and> length s \<le> 80)) (field value ''hostName'') \<and>
       one_of [''provider'', ''tpm'', ''smbios'', ''host_broker'', ''user'', ''none''] (field value ''hostEvidence'') \<and>
       one_of [''verified'', ''manual'', ''unresolved'', ''conflict'', ''not_applicable''] (field value ''hostResolution'') \<and>
       one_of [''dedicated'', ''shared'', ''exclusive''] (field value ''resourceMode'') \<and>
       absent_or isResourceProfile (field value ''resources'')
   | _ \<Rightarrow> False)"

section \<open>Identities\<close>

definition identityId :: "derived_identity \<Rightarrow> string" where
  "identityId i = int_string (dk_version i) @ CHR '':'' # dk_key i"

definition scopedIdentityId :: "string \<Rightarrow> derived_identity \<Rightarrow> string" where
  "scopedIdentityId platform i =
     ''['' @ json_string platform @ '','' @ int_string (dk_version i) @ '','' @ json_string (dk_key i) @ '']''"

fun associationHostId :: "host_association \<Rightarrow> string option" where
  "associationHostId (VerifiedHost e h) = Some h"
| "associationHostId (ManualHost h) = Some h"
| "associationHostId (ConflictHost e expected h) = h"
| "associationHostId _ = None"

text \<open>The distinct host references that are not empty, the association's own first.\<close>

definition referenced :: "string option \<Rightarrow> string list" where
  "referenced r = (if truthy r then [the r] else [])"

fun associationHostIds :: "host_association \<Rightarrow> string list" where
  "associationHostIds (ConflictHost e expected h) = remdups (referenced h @ referenced expected)"
| "associationHostIds a = referenced (associationHostId a)"

text \<open>The parent of an environment, when it names one.\<close>

definition parent_of :: "compute_environment \<Rightarrow> string option" where
  "parent_of e = (if truthy (ce_parentEnvironmentId e) then ce_parentEnvironmentId e else None)"

end
