(* ===== verification/ControlRequest.thy ===== *)
theory ControlRequest
  imports RuntimeStore RuntimeControlWire ControlMessages ComputeTypes
begin

text \<open>
  What a caller of the canonical Runtime control sends: the checks of the request and the fingerprint of
  an operation in \<open>server/canonical-runtime-control/service.ts\<close>.

  A request is an untyped value. \<open>validate\<close> gives the typed request, or \<open>None\<close> when it throws. The
  target revision is tested by a regular expression without a check that it is a string, so an array of
  one matching string passes: a checked request keeps the value itself beside the text that was tested.
\<close>

section \<open>Checks\<close>

record service_request =
  sq_request :: control_request
  sq_revision :: jsval

text \<open>A string that satisfies a predicate.\<close>

definition text_where :: "(string \<Rightarrow> bool) \<Rightarrow> jsval \<Rightarrow> string option" where
  "text_where p v = (case v of VStr s \<Rightarrow> if p s then Some s else None | _ \<Rightarrow> None)"

lemma text_where_Some [simp]: "text_where p v = Some s \<longleftrightarrow> v = VStr s \<and> p s"
  by (cases v) (auto simp: text_where_def)

text \<open>\<open>Buffer.byteLength(value, 'utf8')\<close>\<close>

definition utf8_length :: "string \<Rightarrow> nat" where
  "utf8_length s = sum_list (map (\<lambda>c. if (of_char c :: nat) < 128 then 1 else 2) s)"

definition boundedCommitMessage :: "string \<Rightarrow> bool" where
  "boundedCommitMessage s \<longleftrightarrow> s = js_trim s \<and> 1 \<le> utf8_length s \<and> utf8_length s \<le> 256 \<and>
     list_all (\<lambda>c. \<not> control_char c) s"

text \<open>\<open>/^[A-Za-z0-9][A-Za-z0-9._:-]{0,63}$/\<close>\<close>

definition resourceId :: "string \<Rightarrow> bool" where
  "resourceId s \<longleftrightarrow> (case s of [] \<Rightarrow> False
     | c # cs \<Rightarrow> is_alnum c \<and> class_rep (\<lambda>c. is_alnum c \<or> c \<in> set ''._:-'') 0 63 cs)"

text \<open>\<open>validOperationInput\<close>, with the input of the operation that the checked request holds.\<close>

definition validOperationInput :: "canonical_operation \<Rightarrow> (string \<times> jsval) list \<Rightarrow> safe_input option" where
  "validOperationInput op input =
     (case op of
        GitStatus \<Rightarrow> Some GitStatusInput
      | WorktreeList \<Rightarrow> Some WorktreeListInput
      | DevServerInspect \<Rightarrow> Some DevServerInspectInput
      | GitDiff \<Rightarrow> (case field input ''staged'' of VBool b \<Rightarrow> Some (GitDiffInput b) | _ \<Rightarrow> None)
      | GitStage \<Rightarrow> do { require (field input ''scope'' = VStr ''all'');
          head \<leftarrow> text_where commit_pattern (field input ''expectedHead''); Some (GitStageInput head) }
      | GitUnstage \<Rightarrow> do { require (field input ''scope'' = VStr ''all'');
          head \<leftarrow> text_where commit_pattern (field input ''expectedHead''); Some (GitUnstageInput head) }
      | GitCommit \<Rightarrow> do { head \<leftarrow> text_where commit_pattern (field input ''expectedHead'');
          m \<leftarrow> text_where boundedCommitMessage (field input ''message''); Some (GitCommitInput head m) }
      | TaskStart \<Rightarrow> do { execution \<leftarrow> text_where runtime_uuid (field input ''taskExecutionId'');
          lease \<leftarrow> text_where runtime_uuid (field input ''workspaceLeaseId''); Some (TaskStartInput execution lease) }
      | DevServerStart \<Rightarrow> do { server \<leftarrow> text_where resourceId (field input ''serverId''); Some (DevServerStartInput server) }
      | DevServerPublish \<Rightarrow> do { server \<leftarrow> text_where resourceId (field input ''serverId'');
          g \<leftarrow> text_where operation_id_pattern (field input ''expectedServerGeneration'');
          Some (DevServerPublishInput g server) }
      | DevServerStop \<Rightarrow> do { server \<leftarrow> text_where resourceId (field input ''serverId'');
          g \<leftarrow> text_where operation_id_pattern (field input ''expectedServerGeneration'');
          Some (DevServerStopInput g server) })"

fun input_keys :: "canonical_operation \<Rightarrow> string list" where
  "input_keys GitStatus = []"
| "input_keys WorktreeList = []"
| "input_keys DevServerInspect = []"
| "input_keys GitDiff = [''staged'']"
| "input_keys GitStage = [''expectedHead'', ''scope'']"
| "input_keys GitUnstage = [''expectedHead'', ''scope'']"
| "input_keys GitCommit = [''expectedHead'', ''message'']"
| "input_keys TaskStart = [''taskExecutionId'', ''workspaceLeaseId'']"
| "input_keys DevServerStart = [''serverId'']"
| "input_keys DevServerPublish = [''expectedServerGeneration'', ''serverId'']"
| "input_keys DevServerStop = [''expectedServerGeneration'', ''serverId'']"

definition sameKeys :: "(string \<times> jsval) list \<Rightarrow> string list \<Rightarrow> bool" where
  "sameKeys value expected \<longleftrightarrow> join_nul (sort (object_keys value)) = join_nul (sort expected)"

definition exactRequestKeys :: "canonical_operation \<Rightarrow> (string \<times> jsval) list \<Rightarrow> bool" where
  "exactRequestKeys op request \<longleftrightarrow> sameKeys request
     ([''apiVersion'', ''environmentId'', ''expectedGeneration'', ''expectedTargetIdentityRevision'',
       ''operation'', ''operationId'', ''workspaceId''] @ input_keys op)"

text \<open>\<open>safeId\<close> has the pattern of an operation identifier. \<open>RegExp.test\<close> tests the text of its argument.\<close>

definition validate :: "jsval \<Rightarrow> service_request option" where
  "validate raw = do {
     request \<leftarrow> as_object raw;
     require (field request ''apiVersion'' = VNum (Finite 1));
     op \<leftarrow> Option.bind (as_string (field request ''operation'')) operation_of;
     environment \<leftarrow> text_where operation_id_pattern (field request ''environmentId'');
     workspace \<leftarrow> text_where operation_id_pattern (field request ''workspaceId'');
     expected \<leftarrow> text_where operation_id_pattern (field request ''expectedGeneration'');
     key \<leftarrow> text_where operation_id_pattern (field request ''operationId'');
     revision \<leftarrow> string_text (field request ''expectedTargetIdentityRevision'');
     require (target_revision_pattern revision);
     input \<leftarrow> validOperationInput op request;
     require (exactRequestKeys op request);
     Some \<lparr>sq_request = \<lparr>rq_environmentId = environment, rq_expectedGeneration = expected,
       rq_expectedTargetIdentityRevision = revision, rq_operationId = key, rq_workspaceId = workspace,
       rq_input = input\<rparr>, sq_revision = field request ''expectedTargetIdentityRevision''\<rparr> }"

section \<open>Fingerprints\<close>

definition actor_json :: "control_actor \<Rightarrow> json" where
  "actor_json a = JObj [(''actorId'', JStr (ca_actorId a)), (''actorKind'', JStr (actor_kind_name (ca_actorKind a))),
     (''ownerUserId'', JStr (ca_ownerUserId a))]"

text \<open>A revision that passed its test is a string, or arrays around one.\<close>

fun revision_json :: "jsval \<Rightarrow> json" where
  "revision_json (VStr s) = JStr s"
| "revision_json (VArr vs) = JArr (map revision_json vs)"
| "revision_json v = JNull"

fun json_entries :: "json \<Rightarrow> (string \<times> json) list" where
  "json_entries (JObj kvs) = kvs"
| "json_entries v = []"

definition request_json :: "service_request \<Rightarrow> json" where
  "request_json r = JObj (
     [(''apiVersion'', JOne), (''environmentId'', JStr (rq_environmentId (sq_request r))),
      (''expectedGeneration'', JStr (rq_expectedGeneration (sq_request r))),
      (''expectedTargetIdentityRevision'', revision_json (sq_revision r)),
      (''operationId'', JStr (rq_operationId (sq_request r))),
      (''workspaceId'', JStr (rq_workspaceId (sq_request r)))] @
     json_entries (safe_input_json (rq_input (sq_request r))))"

definition fingerprint_text :: "control_actor \<Rightarrow> service_request \<Rightarrow> string" where
  "fingerprint_text actor r = stable_json (JObj [(''actor'', actor_json actor), (''request'', request_json r)])"

definition request_fingerprint :: "(string \<Rightarrow> string) \<Rightarrow> control_actor \<Rightarrow> service_request \<Rightarrow> string" where
  "request_fingerprint sha actor r = sha (fingerprint_text actor r)"

section \<open>Valid requests\<close>

text \<open>A request as a client writes it, and when it is valid.\<close>

definition input_entries :: "safe_input \<Rightarrow> (string \<times> jsval) list" where
  "input_entries i =
     (case i of
        GitDiffInput b \<Rightarrow> [(''staged'', VBool b)]
      | GitStageInput h \<Rightarrow> [(''expectedHead'', VStr h), (''scope'', VStr ''all'')]
      | GitUnstageInput h \<Rightarrow> [(''expectedHead'', VStr h), (''scope'', VStr ''all'')]
      | GitCommitInput h m \<Rightarrow> [(''expectedHead'', VStr h), (''message'', VStr m)]
      | TaskStartInput t w \<Rightarrow> [(''taskExecutionId'', VStr t), (''workspaceLeaseId'', VStr w)]
      | DevServerStartInput s \<Rightarrow> [(''serverId'', VStr s)]
      | DevServerPublishInput g s \<Rightarrow> [(''expectedServerGeneration'', VStr g), (''serverId'', VStr s)]
      | DevServerStopInput g s \<Rightarrow> [(''expectedServerGeneration'', VStr g), (''serverId'', VStr s)]
      | _ \<Rightarrow> [])"

definition request_object :: "control_request \<Rightarrow> (string \<times> jsval) list" where
  "request_object r =
     [(''apiVersion'', VNum (Finite 1)), (''environmentId'', VStr (rq_environmentId r)),
      (''expectedGeneration'', VStr (rq_expectedGeneration r)),
      (''expectedTargetIdentityRevision'', VStr (rq_expectedTargetIdentityRevision r)),
      (''operation'', VStr (operation_name (request_operation r))), (''operationId'', VStr (rq_operationId r)),
      (''workspaceId'', VStr (rq_workspaceId r))] @ input_entries (rq_input r)"

fun valid_input :: "safe_input \<Rightarrow> bool" where
  "valid_input (GitStageInput h) \<longleftrightarrow> commit_pattern h"
| "valid_input (GitUnstageInput h) \<longleftrightarrow> commit_pattern h"
| "valid_input (GitCommitInput h m) \<longleftrightarrow> commit_pattern h \<and> boundedCommitMessage m"
| "valid_input (TaskStartInput t w) \<longleftrightarrow> runtime_uuid t \<and> runtime_uuid w"
| "valid_input (DevServerStartInput s) \<longleftrightarrow> resourceId s"
| "valid_input (DevServerPublishInput g s) \<longleftrightarrow> operation_id_pattern g \<and> resourceId s"
| "valid_input (DevServerStopInput g s) \<longleftrightarrow> operation_id_pattern g \<and> resourceId s"
| "valid_input _ \<longleftrightarrow> True"

definition valid_request :: "control_request \<Rightarrow> bool" where
  "valid_request r \<longleftrightarrow>
     operation_id_pattern (rq_environmentId r) \<and> operation_id_pattern (rq_workspaceId r) \<and>
     operation_id_pattern (rq_expectedGeneration r) \<and> operation_id_pattern (rq_operationId r) \<and>
     target_revision_pattern (rq_expectedTargetIdentityRevision r) \<and> valid_input (rq_input r)"

lemma operation_of_name [simp]: "operation_of (operation_name op) = Some op"
  by (cases op) (simp_all add: operation_of_def)

lemma operation_of_SomeD: "operation_of s = Some op \<Longrightarrow> operation_name op = s"
  unfolding operation_of_def by (drule find_SomeD) simp

lemma validOperationInput_SomeD:
  "validOperationInput op input = Some i \<Longrightarrow> valid_input i \<and> input_operation i = op"
  by (cases op) (auto simp: validOperationInput_def bind_eq_Some_conv split: jsval.splits)

lemma validate_SomeD:
  assumes "validate raw = Some r"
  shows "valid_request (sq_request r)" "string_text (sq_revision r) = Some (rq_expectedTargetIdentityRevision (sq_request r))"
  using assms by (auto simp: validate_def valid_request_def bind_eq_Some_conv dest: validOperationInput_SomeD)

lemma input_roundtrip:
  "validOperationInput (input_operation i) (request_object (r\<lparr>rq_input := i\<rparr>)) = (if valid_input i then Some i else None)"
  by (cases i) (auto simp: validOperationInput_def request_object_def input_entries_def text_where_def)

lemma request_object_keys: "exactRequestKeys (request_operation r) (request_object r)"
proof -
  have "object_keys (input_entries (rq_input r)) = input_keys (request_operation r)"
    by (cases "rq_input r") (simp_all add: input_entries_def request_operation_def)
  then show ?thesis
    by (simp add: exactRequestKeys_def sameKeys_def request_object_def)
qed

lemma validate_request_object:
  "validate (VObj (request_object r)) =
     (if valid_request r then Some \<lparr>sq_request = r, sq_revision = VStr (rq_expectedTargetIdentityRevision r)\<rparr> else None)"
proof -
  have fields: "field (request_object r) ''apiVersion'' = VNum (Finite 1)"
    "field (request_object r) ''operation'' = VStr (operation_name (request_operation r))"
    "field (request_object r) ''environmentId'' = VStr (rq_environmentId r)"
    "field (request_object r) ''workspaceId'' = VStr (rq_workspaceId r)"
    "field (request_object r) ''expectedGeneration'' = VStr (rq_expectedGeneration r)"
    "field (request_object r) ''operationId'' = VStr (rq_operationId r)"
    "field (request_object r) ''expectedTargetIdentityRevision'' = VStr (rq_expectedTargetIdentityRevision r)"
    by (simp_all add: request_object_def)
  have input: "validOperationInput (request_operation r) (request_object r) =
      (if valid_input (rq_input r) then Some (rq_input r) else None)"
    using input_roundtrip [of "rq_input r" r] by (simp add: request_operation_def)
  have "r = \<lparr>rq_environmentId = rq_environmentId r, rq_expectedGeneration = rq_expectedGeneration r,
      rq_expectedTargetIdentityRevision = rq_expectedTargetIdentityRevision r,
      rq_operationId = rq_operationId r, rq_workspaceId = rq_workspaceId r, rq_input = rq_input r\<rparr>"
    by simp
  then show ?thesis
    unfolding validate_def
    by (auto simp: fields input text_where_def valid_request_def request_object_keys require_def)
qed

text \<open>C22: A request as a client writes it passes the checks exactly when it is valid, and is then read as
  that request: no field is lost, added or changed.\<close>

theorem request_roundtrip:
  "validate (VObj (request_object r)) =
     (if valid_request r then Some \<lparr>sq_request = r, sq_revision = VStr (rq_expectedTargetIdentityRevision r)\<rparr> else None)"
  by (rule validate_request_object)

section \<open>Fingerprints determine what they are taken of\<close>

lemma revision_json_inj:
  "string_text v = Some s \<Longrightarrow> string_text w = Some t \<Longrightarrow> json_norm (revision_json v) = json_norm (revision_json w) \<Longrightarrow> v = w"
proof (induction v arbitrary: w s t rule: string_text.induct)
  case (1 u)
  then show ?case by (cases w rule: string_text.cases) auto
next
  case (2 v)
  from "2.prems" show ?case
    by (cases w rule: string_text.cases) (auto intro: "2.IH")
qed auto

lemma request_fields:
  "json_field (json_norm (request_json r)) k = map_option json_norm (json_field (request_json r) k)"
proof (rule json_field_norm [OF request_json_def])
  show "distinct (map fst ([(''apiVersion'', JOne), (''environmentId'', JStr (rq_environmentId (sq_request r))),
      (''expectedGeneration'', JStr (rq_expectedGeneration (sq_request r))),
      (''expectedTargetIdentityRevision'', revision_json (sq_revision r)),
      (''operationId'', JStr (rq_operationId (sq_request r))),
      (''workspaceId'', JStr (rq_workspaceId (sq_request r)))] @ json_entries (safe_input_json (rq_input (sq_request r)))))"
    by (cases "rq_input (sq_request r)") simp_all
qed

lemma request_input_field:
  assumes "k \<in> {''operation'', ''staged'', ''expectedHead'', ''message'', ''taskExecutionId'', ''workspaceLeaseId'',
    ''expectedServerGeneration'', ''serverId''}"
  shows "json_field (request_json r) k = json_field (safe_input_json (rq_input (sq_request r))) k"
  using assms by (cases "rq_input (sq_request r)") (auto simp: request_json_def)

lemma request_json_inj:
  assumes norm: "json_norm (request_json a) = json_norm (request_json b)"
    and rev: "string_text (sq_revision a) = Some (rq_expectedTargetIdentityRevision (sq_request a))"
      "string_text (sq_revision b) = Some (rq_expectedTargetIdentityRevision (sq_request b))"
  shows "a = b"
proof -
  have fields: "map_option json_norm (json_field (request_json a) k) = map_option json_norm (json_field (request_json b) k)" for k
    by (simp only: request_fields [symmetric] norm)
  have "sq_revision a = sq_revision b"
    by (rule revision_json_inj [OF rev])
      (use fields [of "''expectedTargetIdentityRevision''"] in \<open>simp add: request_json_def\<close>)
  moreover have "rq_input (sq_request a) = rq_input (sq_request b)"
  proof -
    have op: "input_operation (rq_input (sq_request a)) = input_operation (rq_input (sq_request b))"
      using fields [of "''operation''"] safe_input_json_fields [of "rq_input (sq_request a)"]
        safe_input_json_fields [of "rq_input (sq_request b)"]
      by (auto simp: request_input_field)
    note eqs = fields [of "''staged''"] fields [of "''expectedHead''"] fields [of "''message''"]
      fields [of "''taskExecutionId''"] fields [of "''workspaceLeaseId''"]
      fields [of "''serverId''"] fields [of "''expectedServerGeneration''"]
    show ?thesis
      using eqs op
      by (simp add: request_input_field) (cases "rq_input (sq_request a)"; cases "rq_input (sq_request b)"; simp)
  qed
  moreover have "rq_environmentId (sq_request a) = rq_environmentId (sq_request b)"
    "rq_expectedGeneration (sq_request a) = rq_expectedGeneration (sq_request b)"
    "rq_operationId (sq_request a) = rq_operationId (sq_request b)"
    "rq_workspaceId (sq_request a) = rq_workspaceId (sq_request b)"
    using fields [of "''environmentId''"] fields [of "''expectedGeneration''"] fields [of "''operationId''"]
      fields [of "''workspaceId''"] by (simp_all add: request_json_def)
  ultimately show "a = b"
    using rev by (intro service_request.equality control_request.equality) simp_all
qed

lemma actor_json_inj:
  assumes norm: "json_norm (actor_json a) = json_norm (actor_json b)"
  shows "a = b"
proof -
  have read: "json_field (json_norm (actor_json c)) k = map_option json_norm (json_field (actor_json c) k)" for c k
    by (rule json_field_norm [OF actor_json_def]) simp
  have fields: "map_option json_norm (json_field (actor_json a) k) = map_option json_norm (json_field (actor_json b) k)" for k
    by (simp only: read [symmetric] norm)
  show ?thesis
    using fields [of "''actorId''"] fields [of "''actorKind''"] fields [of "''ownerUserId''"]
    by (intro control_actor.equality) (simp_all add: actor_json_def)
qed

lemma fingerprint_text_inj:
  assumes "fingerprint_text a r = fingerprint_text b q"
    and "string_text (sq_revision r) = Some (rq_expectedTargetIdentityRevision (sq_request r))"
    and "string_text (sq_revision q) = Some (rq_expectedTargetIdentityRevision (sq_request q))"
  shows "a = b \<and> r = q"
proof -
  have "json_norm (JObj [(''actor'', actor_json a), (''request'', request_json r)]) =
      json_norm (JObj [(''actor'', actor_json b), (''request'', request_json q)])"
    using assms(1) by (simp only: fingerprint_text_def stable_json_eq_iff)
  then have "json_field (json_norm (JObj [(''actor'', actor_json a), (''request'', request_json r)])) k =
      json_field (json_norm (JObj [(''actor'', actor_json b), (''request'', request_json q)])) k" for k
    by (rule arg_cong)
  from this [of "''actor''"] this [of "''request''"]
  have "json_norm (actor_json a) = json_norm (actor_json b)" "json_norm (request_json r) = json_norm (request_json q)"
    by (simp_all add: json_field_norm [OF refl] del: json_norm.simps)
  with assms(2,3) show ?thesis using actor_json_inj request_json_inj by blast
qed

end
