(* ===== verification/ComputeInventory.thy ===== *)
theory ComputeInventory
  imports ComputeTypes
begin

text \<open>
  The compute inventory of an account (\<open>src/shared/compute-environment-api.ts\<close>): its validation, the
  reconciliation of built-in definitions of several owners, and the resolution of identity claims.
\<close>

section \<open>Inventories and their violations\<close>

record compute_inventory =
  in_connectors :: "connector_association list"
  in_environmentDefinitions :: "environment_definition list"
  in_environments :: "compute_environment list"
  in_hosts :: "host_record list"
  in_platforms :: "platform_record list"

datatype violation_code =
    DuplicateConnector | DuplicateEnvironmentDefinition | DuplicateEnvironmentDefinitionSlug
  | DuplicateEnvironment | DuplicateEnvironmentIdentity | DuplicateHost | DuplicateHostIdentity
  | DuplicatePlatform | HostPlatformMissing | EnvironmentDefinitionMissing
  | EnvironmentDefinitionKindMismatch | EnvironmentPlatformMissing | EnvironmentHostMissing
  | EnvironmentHostPlatformMismatch | EnvironmentParentMissing | EnvironmentParentCycle
  | EnvironmentParentPlatformMismatch | EnvironmentParentHostMismatch | ConnectorEnvironmentMissing

fun violation_name :: "violation_code \<Rightarrow> string" where
  "violation_name DuplicateConnector = ''duplicate_connector''"
| "violation_name DuplicateEnvironmentDefinition = ''duplicate_environment_definition''"
| "violation_name DuplicateEnvironmentDefinitionSlug = ''duplicate_environment_definition_slug''"
| "violation_name DuplicateEnvironment = ''duplicate_environment''"
| "violation_name DuplicateEnvironmentIdentity = ''duplicate_environment_identity''"
| "violation_name DuplicateHost = ''duplicate_host''"
| "violation_name DuplicateHostIdentity = ''duplicate_host_identity''"
| "violation_name DuplicatePlatform = ''duplicate_platform''"
| "violation_name HostPlatformMissing = ''host_platform_missing''"
| "violation_name EnvironmentDefinitionMissing = ''environment_definition_missing''"
| "violation_name EnvironmentDefinitionKindMismatch = ''environment_definition_kind_mismatch''"
| "violation_name EnvironmentPlatformMissing = ''environment_platform_missing''"
| "violation_name EnvironmentHostMissing = ''environment_host_missing''"
| "violation_name EnvironmentHostPlatformMismatch = ''environment_host_platform_mismatch''"
| "violation_name EnvironmentParentMissing = ''environment_parent_missing''"
| "violation_name EnvironmentParentCycle = ''environment_parent_cycle''"
| "violation_name EnvironmentParentPlatformMismatch = ''environment_parent_platform_mismatch''"
| "violation_name EnvironmentParentHostMismatch = ''environment_parent_host_mismatch''"
| "violation_name ConnectorEnvironmentMissing = ''connector_environment_missing''"

record compute_violation =
  vi_code :: violation_code
  vi_id :: string

definition violation :: "violation_code \<Rightarrow> string \<Rightarrow> compute_violation" where
  "violation code i = \<lparr>vi_code = code, vi_id = i\<rparr>"

text \<open>\<open>new Map(records.map((record) => [record.id, record])).get(id)\<close>: the last record of the name.\<close>

definition by_id :: "('a \<Rightarrow> string) \<Rightarrow> 'a list \<Rightarrow> string \<Rightarrow> 'a option" where
  "by_id key xs k = find (\<lambda>x. key x = k) (rev xs)"

fun duplicates_from :: "string list \<Rightarrow> string list \<Rightarrow> string list \<Rightarrow> string list" where
  "duplicates_from seen duplicate [] = duplicate"
| "duplicates_from seen duplicate (v # vs) =
     duplicates_from (set_add v seen) (if v \<in> set seen then set_add v duplicate else duplicate) vs"

definition duplicates :: "string list \<Rightarrow> string list" where
  "duplicates values = duplicates_from [] [] values"

definition duplicate_violations :: "compute_inventory \<Rightarrow> compute_violation list" where
  "duplicate_violations i =
     map (violation DuplicatePlatform) (duplicates (map pl_id (in_platforms i))) @
     map (violation DuplicateEnvironmentDefinition) (duplicates (map ed_id (in_environmentDefinitions i))) @
     map (violation DuplicateEnvironmentDefinitionSlug) (duplicates (map db_slug (in_environmentDefinitions i))) @
     map (violation DuplicateHost) (duplicates (map hr_id (in_hosts i))) @
     map (violation DuplicateEnvironment) (duplicates (map ce_id (in_environments i))) @
     map (violation DuplicateConnector) (duplicates (map ca_connectorId (in_connectors i))) @
     map (violation DuplicateHostIdentity)
       (duplicates (map (\<lambda>h. scopedIdentityId (hr_platformId h) (hr_identity h)) (in_hosts i))) @
     map (violation DuplicateEnvironmentIdentity)
       (duplicates (map (\<lambda>e. scopedIdentityId (ce_platformId e) (ce_identity e)) (in_environments i)))"

text \<open>A violation pushed when a condition holds.\<close>

definition push_if :: "bool \<Rightarrow> violation_code \<Rightarrow> string \<Rightarrow> compute_violation list" where
  "push_if b code i = (if b then [violation code i] else [])"

definition platform_known :: "compute_inventory \<Rightarrow> string \<Rightarrow> bool" where
  "platform_known i p \<longleftrightarrow> p \<in> set (map pl_id (in_platforms i))"

definition host_violations :: "compute_inventory \<Rightarrow> host_record \<Rightarrow> compute_violation list" where
  "host_violations i h = push_if (\<not> platform_known i (hr_platformId h)) HostPlatformMissing (hr_id h)"

definition definition_violations :: "compute_inventory \<Rightarrow> compute_environment \<Rightarrow> compute_violation list" where
  "definition_violations i e =
     (case by_id ed_id (in_environmentDefinitions i) (ce_environmentDefinitionId e) of
        None \<Rightarrow> [violation EnvironmentDefinitionMissing (ce_id e)]
      | Some d \<Rightarrow> push_if (db_kind d \<noteq> ce_kind e) EnvironmentDefinitionKindMismatch (ce_id e))"

definition association_violations :: "compute_inventory \<Rightarrow> compute_environment \<Rightarrow> compute_violation list" where
  "association_violations i e =
     (let referencedHosts = map (by_id hr_id (in_hosts i)) (associationHostIds (ce_hostAssociation e))
      in push_if (list_ex (\<lambda>h. h = None) referencedHosts) EnvironmentHostMissing (ce_id e) @
         push_if (list_ex (\<lambda>h. case h of None \<Rightarrow> False | Some x \<Rightarrow> hr_platformId x \<noteq> ce_platformId e) referencedHosts)
           EnvironmentHostPlatformMismatch (ce_id e))"

definition parent_violations :: "compute_inventory \<Rightarrow> compute_environment \<Rightarrow> compute_violation list" where
  "parent_violations i e =
     (case parent_of e of
        None \<Rightarrow> []
      | Some p \<Rightarrow>
          (case by_id ce_id (in_environments i) p of
             None \<Rightarrow> [violation EnvironmentParentMissing (ce_id e)]
           | Some parent \<Rightarrow>
               push_if (ce_platformId parent \<noteq> ce_platformId e) EnvironmentParentPlatformMismatch (ce_id e) @
               push_if (associationHostId (ce_hostAssociation parent) \<noteq> associationHostId (ce_hostAssociation e))
                 EnvironmentParentHostMismatch (ce_id e)))"

definition environment_violations :: "compute_inventory \<Rightarrow> compute_environment \<Rightarrow> compute_violation list" where
  "environment_violations i e =
     definition_violations i e @
     push_if (\<not> platform_known i (ce_platformId e)) EnvironmentPlatformMissing (ce_id e) @
     association_violations i e @ parent_violations i e"

text \<open>The loop over the ancestors of an environment: does it meet one it has seen?\<close>

lemma by_id_SomeD: "by_id key xs k = Some x \<Longrightarrow> x \<in> set xs \<and> key x = k"
  by (auto simp: by_id_def dest: find_SomeD)

lemma by_id_None_iff: "by_id key xs k = None \<longleftrightarrow> k \<notin> set (map key xs)"
  by (auto simp: by_id_def find_None_iff)

lemma card_seen_less: "p \<in> A \<Longrightarrow> p \<notin> B \<Longrightarrow> finite A \<Longrightarrow> card (A - insert p B) < card (A - B)"
  by (rule psubset_card_mono) auto

function ancestor_cycle :: "compute_environment list \<Rightarrow> string list \<Rightarrow> compute_environment \<Rightarrow> bool" where
  "ancestor_cycle envs ancestors current =
     (case parent_of current of
        None \<Rightarrow> False
      | Some p \<Rightarrow>
          if p \<in> set ancestors then True
          else (case by_id ce_id envs p of
              None \<Rightarrow> False
            | Some parent \<Rightarrow> ancestor_cycle envs (set_add p ancestors) parent))"
  by auto
termination
proof (relation "measure (\<lambda>(envs, ancestors, current). card (set (map ce_id envs) - set ancestors))")
  fix envs :: "compute_environment list" and ancestors p parent
  assume "p \<notin> set ancestors" and parent: "by_id ce_id envs p = Some parent"
  then have "p \<in> set (map ce_id envs) - set ancestors"
    by (auto dest: by_id_SomeD)
  then show "((envs, set_add p ancestors, parent), (envs, ancestors, current)) \<in>
      measure (\<lambda>(envs, ancestors, current). card (set (map ce_id envs) - set ancestors))" for current
    using card_seen_less [of p "set (map ce_id envs)" "set ancestors"] by simp
qed simp

declare ancestor_cycle.simps [simp del]

definition cycle_violations :: "compute_inventory \<Rightarrow> compute_environment \<Rightarrow> compute_violation list" where
  "cycle_violations i e =
     push_if (ancestor_cycle (in_environments i) [ce_id e] e) EnvironmentParentCycle (ce_id e)"

definition connector_violations :: "compute_inventory \<Rightarrow> connector_association \<Rightarrow> compute_violation list" where
  "connector_violations i c =
     push_if (by_id ce_id (in_environments i) (ca_environmentId c) = None) ConnectorEnvironmentMissing (ca_connectorId c)"

definition all_violations :: "compute_inventory \<Rightarrow> compute_violation list" where
  "all_violations i =
     duplicate_violations i @ concat (map (host_violations i) (in_hosts i)) @
     concat (map (environment_violations i) (in_environments i)) @
     concat (map (cycle_violations i) (in_environments i)) @
     concat (map (connector_violations i) (in_connectors i))"

text \<open>\<open>a.localeCompare(b) || c.localeCompare(d)\<close>\<close>

definition compare_then :: "int \<Rightarrow> int \<Rightarrow> int" where
  "compare_then a b = (if a \<noteq> 0 then a else b)"

definition validateComputeInventory ::
    "(string \<Rightarrow> string \<Rightarrow> int) \<Rightarrow> compute_inventory \<Rightarrow> compute_violation list" where
  "validateComputeInventory coll i =
     js_sort (\<lambda>a b. compare_then (coll (violation_name (vi_code a)) (violation_name (vi_code b)))
       (coll (vi_id a) (vi_id b))) (all_violations i)"

section \<open>Built-in definitions of several owners\<close>

definition scopedDefinitionKey :: "string option \<Rightarrow> string \<Rightarrow> string" where
  "scopedDefinitionKey owner d = nul_key (case owner of None \<Rightarrow> [] | Some u \<Rightarrow> u) d"

definition definition_key :: "environment_definition \<Rightarrow> string" where
  "definition_key d = scopedDefinitionKey (ed_ownerUserId d) (ed_id d)"

definition environment_definition_key :: "compute_environment \<Rightarrow> string" where
  "environment_definition_key e = scopedDefinitionKey (ce_ownerUserId e) (ce_environmentDefinitionId e)"

text \<open>\<open>array.sort()\<close> of strings orders them by their code units.\<close>

fun code_compare :: "string \<Rightarrow> string \<Rightarrow> int" where
  "code_compare [] [] = 0"
| "code_compare [] (d # ds) = - 1"
| "code_compare (c # cs) [] = 1"
| "code_compare (c # cs) (d # ds) =
     (if (of_char c :: nat) < of_char d then - 1 else if of_char c = (of_char d :: nat) then code_compare cs ds else 1)"

definition blueprint_json :: "environment_definition \<Rightarrow> json" where
  "blueprint_json d = JObj
     [(''bootstrapStrategy'', JStr (bootstrap_name (db_bootstrapStrategy d))),
      (''kind'', JStr (environment_kind_name (db_kind d))), (''name'', JStr (db_name d)),
      (''operatingSystemFamily'', JStr (family_name (db_operatingSystemFamily d))),
      (''ownership'', JStr (ownership_name (db_ownership d))), (''slug'', JStr (db_slug d)),
      (''supportedArchitectures'', JArr (map JStr (js_sort code_compare (db_supportedArchitectures d))))]"

definition blueprint :: "environment_definition \<Rightarrow> string" where
  "blueprint d = json_print (blueprint_json d)"

type_synonym reconciliation = "(string, environment_definition) jsmap \<times> (string, string) jsmap"

definition reconcile_definition :: "environment_definition \<Rightarrow> reconciliation \<Rightarrow> reconciliation" where
  "reconcile_definition d = (\<lambda>(canonicalByBlueprint, aliases).
     if db_ownership d \<noteq> BuiltIn then (canonicalByBlueprint, aliases)
     else (case js_get canonicalByBlueprint (blueprint d) of
         Some canonical \<Rightarrow>
           if definition_key canonical \<noteq> definition_key d
           then (canonicalByBlueprint, js_set aliases (definition_key d) (ed_id canonical))
           else (canonicalByBlueprint, aliases)
       | None \<Rightarrow> (js_set canonicalByBlueprint (blueprint d) d, aliases)))"

definition definition_order ::
    "(string \<Rightarrow> string \<Rightarrow> int) \<Rightarrow> environment_definition \<Rightarrow> environment_definition \<Rightarrow> int" where
  "definition_order coll a b =
     compare_then (coll (ed_id a) (ed_id b)) (coll (definition_key a) (definition_key b))"

text \<open>An alias that is the empty string leaves the environment as it is.\<close>

definition rename_definition :: "(string, string) jsmap \<Rightarrow> compute_environment \<Rightarrow> compute_environment" where
  "rename_definition aliases e =
     (if truthy (js_get aliases (environment_definition_key e))
      then e\<lparr>ce_environmentDefinitionId := the (js_get aliases (environment_definition_key e))\<rparr> else e)"

definition reconcileBuiltInEnvironmentDefinitions ::
    "(string \<Rightarrow> string \<Rightarrow> int) \<Rightarrow> environment_definition list \<Rightarrow> compute_environment list \<Rightarrow>
     environment_definition list \<times> compute_environment list" where
  "reconcileBuiltInEnvironmentDefinitions coll definitions environments =
     (case fold reconcile_definition (js_sort (definition_order coll) definitions) ([], []) of
        (canonicalByBlueprint, aliases) \<Rightarrow>
          if aliases = [] then (definitions, environments)
          else (filter (\<lambda>d. \<not> js_has aliases (definition_key d)) definitions,
                map (rename_definition aliases) environments))"

section \<open>Identity claims\<close>

datatype identity_resolution =
    ResolvedIdentity derived_identity | UnresolvedIdentity | ConflictingIdentities "derived_identity list"

definition resolveDerivedIdentity ::
    "(string \<Rightarrow> string \<Rightarrow> int) \<Rightarrow> (host_evidence \<times> derived_identity) list \<Rightarrow> identity_resolution" where
  "resolveDerivedIdentity coll claims =
     (let identities = foldl (\<lambda>m (evidence, i). js_set m (identityId i) i) [] claims;
          resolved = js_sort (\<lambda>a b. coll (identityId a) (identityId b)) (js_values identities)
      in case resolved of
           [] \<Rightarrow> UnresolvedIdentity
         | [i] \<Rightarrow> ResolvedIdentity i
         | _ \<Rightarrow> ConflictingIdentities resolved)"

end
