(* ===== verification/ComputeValid.thy ===== *)
theory ComputeValid
  imports ComputeInventory
begin

text \<open>
  What \<open>validateComputeInventory\<close> decides: an inventory has no violation exactly when it is well formed,
  that is when its identifiers are unique, its references resolve, its hosts and parents are on the
  platform of the environment, and the parents form no cycle. The reconciliation of built-in definitions
  leaves one definition per blueprint and every environment with the blueprint it had.
\<close>

section \<open>Unique identifiers\<close>

lemma by_id_iff: "distinct (map key xs) \<Longrightarrow> by_id key xs k = Some x \<longleftrightarrow> x \<in> set xs \<and> key x = k"
proof
  assume d: "distinct (map key xs)" and x: "x \<in> set xs \<and> key x = k"
  then obtain y where "by_id key xs k = Some y"
    using by_id_None_iff [of key xs k] by (cases "by_id key xs k") auto
  with d x show "by_id key xs k = Some x"
    using by_id_SomeD [of key xs k y] by (auto simp: distinct_map dest: inj_onD)
qed (blast dest: by_id_SomeD)

lemma by_id_Ex: "by_id key xs k \<noteq> None \<longleftrightarrow> (\<exists>x\<in>set xs. key x = k)"
  using by_id_None_iff [of key xs k] by auto

lemma by_id_Some_Ex: "(\<exists>y. by_id key xs k = Some y) \<longleftrightarrow> (\<exists>x\<in>set xs. key x = k)"
  using by_id_Ex [of key xs k] by simp

lemma by_id_where:
  "distinct (map key xs) \<Longrightarrow> (\<exists>x\<in>set xs. key x = k \<and> P x) \<longleftrightarrow> (\<exists>x. by_id key xs k = Some x \<and> P x)"
  by (auto simp: by_id_iff)

lemma by_id_exI: "x \<in> set xs \<Longrightarrow> \<exists>y. by_id key xs (key x) = Some y"
  using by_id_Ex [of key xs "key x"] by auto

lemma duplicates_from_set: "set dup \<subseteq> set (duplicates_from seen dup vs)"
  by (induction vs arbitrary: seen dup) (auto simp: subset_iff split: if_splits)

lemma duplicates_from_empty:
  "duplicates_from seen dup vs = [] \<longleftrightarrow> dup = [] \<and> distinct vs \<and> set vs \<inter> set seen = {}"
proof (induction vs arbitrary: seen dup)
  case (Cons v vs)
  have "set_add v dup \<noteq> []" by (auto simp: set_add_def)
  with Cons show ?case by auto
qed simp

lemma duplicates_empty [simp]: "duplicates vs = [] \<longleftrightarrow> distinct vs"
  by (simp add: duplicates_def duplicates_from_empty)

section \<open>Well-formed inventories\<close>

definition parent_rel :: "compute_environment list \<Rightarrow> (string \<times> string) set" where
  "parent_rel envs = {(ce_id e, p) | e p. e \<in> set envs \<and> parent_of e = Some p}"

definition unique_records :: "compute_inventory \<Rightarrow> bool" where
  "unique_records i \<longleftrightarrow>
     distinct (map pl_id (in_platforms i)) \<and> distinct (map ed_id (in_environmentDefinitions i)) \<and>
     distinct (map db_slug (in_environmentDefinitions i)) \<and> distinct (map hr_id (in_hosts i)) \<and>
     distinct (map ce_id (in_environments i)) \<and> distinct (map ca_connectorId (in_connectors i)) \<and>
     distinct (map (\<lambda>h. (hr_platformId h, hr_identity h)) (in_hosts i)) \<and>
     distinct (map (\<lambda>e. (ce_platformId e, ce_identity e)) (in_environments i))"

definition environment_resolved :: "compute_inventory \<Rightarrow> compute_environment \<Rightarrow> bool" where
  "environment_resolved i e \<longleftrightarrow>
     (\<exists>d\<in>set (in_environmentDefinitions i). ed_id d = ce_environmentDefinitionId e \<and> db_kind d = ce_kind e) \<and>
     (\<exists>p\<in>set (in_platforms i). pl_id p = ce_platformId e) \<and>
     (\<forall>x\<in>set (associationHostIds (ce_hostAssociation e)).
        \<exists>h\<in>set (in_hosts i). hr_id h = x \<and> hr_platformId h = ce_platformId e) \<and>
     (\<forall>x. parent_of e = Some x \<longrightarrow>
        (\<exists>p\<in>set (in_environments i). ce_id p = x \<and> ce_platformId p = ce_platformId e \<and>
           associationHostId (ce_hostAssociation p) = associationHostId (ce_hostAssociation e)))"

definition references_resolved :: "compute_inventory \<Rightarrow> bool" where
  "references_resolved i \<longleftrightarrow>
     (\<forall>h\<in>set (in_hosts i). \<exists>p\<in>set (in_platforms i). pl_id p = hr_platformId h) \<and>
     (\<forall>e\<in>set (in_environments i). environment_resolved i e) \<and>
     (\<forall>c\<in>set (in_connectors i). \<exists>e\<in>set (in_environments i). ce_id e = ca_environmentId c)"

definition well_formed_inventory :: "compute_inventory \<Rightarrow> bool" where
  "well_formed_inventory i \<longleftrightarrow> unique_records i \<and> references_resolved i \<and> acyclic (parent_rel (in_environments i))"

section \<open>Scoped identities\<close>

lemma int_string_no_comma: "CHR '','' \<notin> set (int_string n)"
proof -
  have "CHR '','' \<notin> set (nat_string m)" for m
    using nat_string_digits [of m] by (auto simp: list_all_iff is_digit_def in_range_def)
  then show ?thesis by (simp add: int_string_def)
qed

lemma scopedIdentityId_inj [simp]: "scopedIdentityId p a = scopedIdentityId q b \<longleftrightarrow> p = q \<and> a = b"
proof
  assume eq: "scopedIdentityId p a = scopedIdentityId q b"
  then have "p = q" and rest: "int_string (dk_version a) @ '','' @ json_string (dk_key a) @ '']'' =
      int_string (dk_version b) @ '','' @ json_string (dk_key b) @ '']''"
    by (simp_all add: scopedIdentityId_def json_string_prefix)
  then have "dk_version a = dk_version b" "dk_key a = dk_key b"
    by (simp_all add: append_sep_inj int_string_no_comma)
  with \<open>p = q\<close> show "p = q \<and> a = b" by simp
qed simp

lemma distinct_scoped:
  "distinct (map (\<lambda>x. scopedIdentityId (f x) (g x)) xs) \<longleftrightarrow> distinct (map (\<lambda>x. (f x, g x)) xs)"
  by (simp add: distinct_map inj_on_def)

section \<open>Cycles\<close>

lemma parent_relI: "e \<in> set envs \<Longrightarrow> parent_of e = Some p \<Longrightarrow> (ce_id e, p) \<in> parent_rel envs"
  by (auto simp: parent_rel_def)

lemma parent_rel_fun:
  "distinct (map ce_id envs) \<Longrightarrow> e \<in> set envs \<Longrightarrow> (ce_id e, p) \<in> parent_rel envs \<longleftrightarrow> parent_of e = Some p"
  by (auto simp: parent_rel_def distinct_map dest: inj_onD)

lemma acyclic_no_ancestor_cycle:
  "acyclic (parent_rel envs) \<Longrightarrow> current \<in> set envs \<Longrightarrow>
    \<forall>a\<in>set ancestors. (a, ce_id current) \<in> (parent_rel envs)\<^sup>* \<Longrightarrow> \<not> ancestor_cycle envs ancestors current"
proof (induction envs ancestors current rule: ancestor_cycle.induct)
  case (1 envs ancestors current)
  show ?case
  proof (cases "parent_of current")
    case None
    then show ?thesis by (simp add: ancestor_cycle.simps)
  next
    case (Some p)
    then have step: "(ce_id current, p) \<in> parent_rel envs"
      using 1(3) by (rule parent_relI [rotated])
    then have new: "p \<notin> set ancestors"
      using 1(2,4) by (auto simp: acyclic_def dest: rtrancl_into_trancl1)
    show ?thesis
    proof (cases "by_id ce_id envs p")
      case None
      with Some new show ?thesis by (simp add: ancestor_cycle.simps)
    next
      case parent: (Some parent)
      then have p: "parent \<in> set envs" "ce_id parent = p" by (auto dest: by_id_SomeD)
      have "\<forall>a\<in>set (set_add p ancestors). (a, ce_id parent) \<in> (parent_rel envs)\<^sup>*"
        using 1(4) step p(2) by (auto intro: rtrancl_into_rtrancl)
      then have "\<not> ancestor_cycle envs (set_add p ancestors) parent"
        by (rule 1(1) [OF Some new parent 1(2) p(1)])
      with Some new parent show ?thesis by (simp add: ancestor_cycle.simps)
    qed
  qed
qed

lemma on_cycle_ancestor_cycle:
  "distinct (map ce_id envs) \<Longrightarrow> current \<in> set envs \<Longrightarrow>
    (ce_id current, ce_id current) \<in> (parent_rel envs)\<^sup>+ \<Longrightarrow> ancestor_cycle envs ancestors current"
proof (induction envs ancestors current rule: ancestor_cycle.induct)
  case (1 envs ancestors current)
  from 1(4) obtain p where p: "(ce_id current, p) \<in> parent_rel envs" "(p, ce_id current) \<in> (parent_rel envs)\<^sup>*"
    by (blast dest: tranclD)
  then have parent: "parent_of current = Some p"
    by (simp add: parent_rel_fun [OF 1(2,3)])
  have cycle: "(p, p) \<in> (parent_rel envs)\<^sup>+"
    using p by (rule rtrancl_into_trancl1 [rotated])
  then obtain q where q: "q \<in> set envs" "ce_id q = p"
    by (auto simp: parent_rel_def dest!: tranclD)
  then have "by_id ce_id envs p = Some q" by (simp add: by_id_iff [OF 1(2)])
  with 1(1) [OF parent _ this 1(2) q(1)] cycle q(2) parent show ?case
    by (simp add: ancestor_cycle.simps)
qed

lemma no_cycle_violations:
  assumes d: "distinct (map ce_id envs)"
  shows "(\<forall>e\<in>set envs. \<not> ancestor_cycle envs [ce_id e] e) \<longleftrightarrow> acyclic (parent_rel envs)"
proof
  assume none: "\<forall>e\<in>set envs. \<not> ancestor_cycle envs [ce_id e] e"
  show "acyclic (parent_rel envs)"
  proof (rule acyclicI, rule allI, rule notI)
    fix k assume cycle: "(k, k) \<in> (parent_rel envs)\<^sup>+"
    then obtain e where "e \<in> set envs" "ce_id e = k"
      by (auto simp: parent_rel_def dest!: tranclD)
    with cycle none on_cycle_ancestor_cycle [OF d] show False by blast
  qed
qed (simp add: acyclic_no_ancestor_cycle)

section \<open>Validation is exact\<close>

lemma push_if_empty [simp]: "push_if b code x = [] \<longleftrightarrow> \<not> b"
  by (simp add: push_if_def)

lemma js_sort_empty [simp]: "js_sort cmp xs = [] \<longleftrightarrow> xs = []"
  by (metis length_js_sort length_0_conv)

lemma platform_known_iff: "platform_known i p \<longleftrightarrow> (\<exists>x\<in>set (in_platforms i). pl_id x = p)"
  by (auto simp: platform_known_def)

lemma duplicate_violations_empty: "duplicate_violations i = [] \<longleftrightarrow> unique_records i"
  by (auto simp: duplicate_violations_def unique_records_def distinct_scoped)

lemma environment_violations_empty:
  assumes u: "unique_records i"
  shows "environment_violations i e = [] \<longleftrightarrow> environment_resolved i e"
proof -
  have d: "distinct (map ed_id (in_environmentDefinitions i))" "distinct (map hr_id (in_hosts i))"
    "distinct (map ce_id (in_environments i))"
    using u by (simp_all add: unique_records_def)
  have "definition_violations i e = [] \<longleftrightarrow>
      (\<exists>d\<in>set (in_environmentDefinitions i). ed_id d = ce_environmentDefinitionId e \<and> db_kind d = ce_kind e)"
    unfolding by_id_where [OF d(1)] by (simp add: definition_violations_def split: option.split)
  moreover have "association_violations i e = [] \<longleftrightarrow>
      (\<forall>x\<in>set (associationHostIds (ce_hostAssociation e)).
        \<exists>h\<in>set (in_hosts i). hr_id h = x \<and> hr_platformId h = ce_platformId e)"
    unfolding by_id_where [OF d(2)]
    by (simp add: association_violations_def list_ex_iff image_iff split: option.split) (metis not_None_eq option.inject)
  moreover have "parent_violations i e = [] \<longleftrightarrow>
      (\<forall>x. parent_of e = Some x \<longrightarrow>
        (\<exists>p\<in>set (in_environments i). ce_id p = x \<and> ce_platformId p = ce_platformId e \<and>
           associationHostId (ce_hostAssociation p) = associationHostId (ce_hostAssociation e)))"
    unfolding by_id_where [OF d(3)] by (simp add: parent_violations_def split: option.split)
  ultimately show ?thesis
    by (auto simp: environment_violations_def environment_resolved_def platform_known_iff)
qed

lemma references_empty:
  assumes u: "unique_records i"
  shows "concat (map (host_violations i) (in_hosts i)) @ concat (map (environment_violations i) (in_environments i)) @
    concat (map (connector_violations i) (in_connectors i)) = [] \<longleftrightarrow> references_resolved i"
  by (simp add: references_resolved_def environment_violations_empty [OF u] host_violations_def platform_known_iff
      connector_violations_def by_id_Some_Ex)

lemma all_violations_empty: "all_violations i = [] \<longleftrightarrow> well_formed_inventory i"
proof (cases "unique_records i")
  case True
  then have "concat (map (cycle_violations i) (in_environments i)) = [] \<longleftrightarrow> acyclic (parent_rel (in_environments i))"
    using no_cycle_violations [of "in_environments i"] by (simp add: cycle_violations_def unique_records_def)
  with True references_empty [OF True] show ?thesis
    by (auto simp: all_violations_def well_formed_inventory_def duplicate_violations_empty)
next
  case False
  then show ?thesis
    by (simp add: all_violations_def well_formed_inventory_def duplicate_violations_empty)
qed

lemma compute_validation_iff: "validateComputeInventory coll i = [] \<longleftrightarrow> well_formed_inventory i"
  by (simp add: validateComputeInventory_def all_violations_empty)

text \<open>C15: The validation of a compute inventory reports nothing exactly when the inventory is well formed:
  no two platforms, definitions, slugs, hosts, environments or connectors share an identifier, no two hosts
  and no two environments of a platform an identity, every reference leads to a record of the inventory, an
  environment has the kind of its definition and the platform of its hosts, its parent is on its platform and
  host, and no environment is its own ancestor. The walk over the ancestors always ends, and the order the
  violations are sorted in does not matter.\<close>

theorem compute_validation_exact:
  "validateComputeInventory coll i = [] \<longleftrightarrow> well_formed_inventory i"
  by (rule compute_validation_iff)

section \<open>Reconciled definitions\<close>

definition reconciled :: "environment_definition list \<Rightarrow> reconciliation \<Rightarrow> bool" where
  "reconciled ds = (\<lambda>(canonical, aliases).
     (\<forall>b c. js_get canonical b = Some c \<longrightarrow> c \<in> set ds \<and> db_ownership c = BuiltIn \<and> blueprint c = b) \<and>
     (\<forall>d\<in>set ds. db_ownership d = BuiltIn \<longrightarrow>
        (\<exists>c. js_get canonical (blueprint d) = Some c \<and>
           js_get aliases (definition_key d) = (if c = d then None else Some (ed_id c)))) \<and>
     (\<forall>k x. js_get aliases k = Some x \<longrightarrow> (\<exists>d\<in>set ds. db_ownership d = BuiltIn \<and> definition_key d = k)))"

lemma reconcile_step:
  assumes inv: "reconciled ds s" and new: "definition_key d \<notin> set (map definition_key ds)"
  shows "reconciled (d # ds) (reconcile_definition d s)"
proof -
  obtain canonical aliases where s: "s = (canonical, aliases)" by force
  have other: "definition_key x \<noteq> definition_key d" "x \<noteq> d" if "x \<in> set ds" for x
    using that new by (metis image_eqI set_map, metis image_eqI set_map)
  have fresh: "js_get aliases (definition_key d) = None"
    using inv new by (auto simp: reconciled_def s) (metis image_eqI not_None_eq)
  show ?thesis
  proof (cases "db_ownership d = BuiltIn")
    case False
    with inv show ?thesis by (simp add: reconcile_definition_def reconciled_def s)
  next
    case True
    show ?thesis
    proof (cases "js_get canonical (blueprint d)")
      case None
      with True inv other fresh show ?thesis
        by (simp add: reconcile_definition_def reconciled_def s) (metis option.distinct(1))
    next
      case (Some c)
      then have "c \<in> set ds" "definition_key c \<noteq> definition_key d" "c \<noteq> d"
        using inv other by (auto simp: reconciled_def s)
      with Some True inv other fresh show ?thesis
        by (simp add: reconcile_definition_def reconciled_def s)
    qed
  qed
qed

lemma reconcile_fold:
  "reconciled ds s \<Longrightarrow> distinct (map definition_key (rev ds @ xs)) \<Longrightarrow>
    \<exists>ys. set ys = set ds \<union> set xs \<and> reconciled ys (fold reconcile_definition xs s)"
proof (induction xs arbitrary: ds s)
  case (Cons x xs)
  have "reconciled (x # ds) (reconcile_definition x s)"
    by (rule reconcile_step [OF Cons.prems(1)]) (use Cons.prems(2) in auto)
  then show ?case
    using Cons.IH [of "x # ds"] Cons.prems(2) by (auto simp: Un_insert_right)
qed auto

lemma reconcile_all:
  assumes "distinct (map definition_key definitions)"
  shows "reconciled definitions (fold reconcile_definition (js_sort (definition_order coll) definitions) ([], []))"
proof -
  let ?xs = "js_sort (definition_order coll) definitions"
  have "mset (map definition_key ?xs) = mset (map definition_key definitions)" by simp
  then have d: "distinct (map definition_key ?xs)"
    using assms mset_eq_imp_distinct_iff by blast
  have "reconciled [] ([], [])" by (simp add: reconciled_def)
  from reconcile_fold [OF this, of ?xs] d obtain ys where
    "set ys = set definitions" "reconciled ys (fold reconcile_definition ?xs ([], []))" by auto
  then show ?thesis by (simp add: reconciled_def split: prod.splits)
qed

lemma reconcile_result:
  assumes "fold reconcile_definition (js_sort (definition_order coll) definitions) ([], []) = (canonical, aliases)"
  shows "reconcileBuiltInEnvironmentDefinitions coll definitions environments =
    (filter (\<lambda>d. js_get aliases (definition_key d) = None) definitions, map (rename_definition aliases) environments)"
  using assms by (cases "aliases = []")
    (simp_all add: reconcileBuiltInEnvironmentDefinitions_def rename_definition_def [abs_def])

lemma reconciled_built_in:
  assumes R: "reconciled ds (canonical, aliases)" and d: "d \<in> set ds" "db_ownership d = BuiltIn"
  obtains c where "c \<in> set ds" "db_ownership c = BuiltIn" "blueprint c = blueprint d"
    "js_get canonical (blueprint d) = Some c" "js_get aliases (definition_key c) = None"
    "js_get aliases (definition_key d) = (if c = d then None else Some (ed_id c))"
proof -
  obtain c where c: "js_get canonical (blueprint d) = Some c"
      "js_get aliases (definition_key d) = (if c = d then None else Some (ed_id c))"
    using R d by (auto simp: reconciled_def)
  then have "c \<in> set ds" "db_ownership c = BuiltIn" "blueprint c = blueprint d"
    using R by (auto simp: reconciled_def)
  moreover from this obtain e where "js_get canonical (blueprint c) = Some e"
      "js_get aliases (definition_key c) = (if e = c then None else Some (ed_id e))"
    using R by (auto simp: reconciled_def)
  ultimately show thesis using c by (intro that [of c]) simp_all
qed

lemma reconciled_user_defined:
  assumes R: "reconciled ds (canonical, aliases)" and "distinct (map definition_key ds)"
    and d: "d \<in> set ds" "db_ownership d \<noteq> BuiltIn"
  shows "js_get aliases (definition_key d) = None"
proof (rule ccontr)
  assume "js_get aliases (definition_key d) \<noteq> None"
  then obtain e where "e \<in> set ds" "db_ownership e = BuiltIn" "definition_key e = definition_key d"
    using R by (auto simp: reconciled_def)
  with assms show False by (auto simp: distinct_map dest: inj_onD)
qed

text \<open>C18: The reconciliation of the definitions of several owners keeps the meaning of every environment.
  When no two definitions have the same owner and identifier, the definitions that remain are some of those
  given, no two built-in ones of them have the same blueprint, and every environment changes in nothing but
  its definition, which is the definition it had or another built-in one with the same blueprint.\<close>

theorem reconcile_keeps_blueprints:
  assumes keys: "distinct (map definition_key definitions)" and ids: "[] \<notin> set (map ed_id definitions)"
    and res: "reconcileBuiltInEnvironmentDefinitions coll definitions environments = (definitions', environments')"
  shows "set definitions' \<subseteq> set definitions \<and>
    (\<forall>a\<in>set definitions'. \<forall>b\<in>set definitions'. db_ownership a = BuiltIn \<and> db_ownership b = BuiltIn \<and>
       blueprint a = blueprint b \<longrightarrow> a = b) \<and>
    list_all2 (\<lambda>e e'. ce_environmentDefinitionId_update (\<lambda>_. ce_environmentDefinitionId e) e' = e \<and>
       (\<forall>d\<in>set definitions. ed_ownerUserId d = ce_ownerUserId e \<and> ed_id d = ce_environmentDefinitionId e \<longrightarrow>
          (\<exists>d'\<in>set definitions'. ed_id d' = ce_environmentDefinitionId e' \<and>
             (d' = d \<or> db_ownership d = BuiltIn \<and> db_ownership d' = BuiltIn \<and> blueprint d' = blueprint d))))
      environments environments'"
proof -
  obtain canonical aliases where
    fold: "fold reconcile_definition (js_sort (definition_order coll) definitions) ([], []) = (canonical, aliases)"
    by force
  let ?kept = "\<lambda>d. js_get aliases (definition_key d) = None"
  have R: "reconciled definitions (canonical, aliases)"
    using reconcile_all [OF keys, of coll] by (simp only: fold)
  have defs: "definitions' = filter ?kept definitions" and envs: "environments' = map (rename_definition aliases) environments"
    using res unfolding reconcile_result [OF fold] by simp_all
  have unique: "a = b" if "a \<in> set definitions'" "b \<in> set definitions'" "db_ownership a = BuiltIn" "db_ownership b = BuiltIn"
      "blueprint a = blueprint b" for a b
    using that reconciled_built_in [OF R, of a] reconciled_built_in [OF R, of b]
    by (simp add: defs) (metis option.distinct(1) option.inject)
  have rename: "\<exists>d'\<in>set definitions'. ed_id d' = ce_environmentDefinitionId (rename_definition aliases e) \<and>
      (d' = d \<or> db_ownership d = BuiltIn \<and> db_ownership d' = BuiltIn \<and> blueprint d' = blueprint d)"
    if d: "d \<in> set definitions" "ed_ownerUserId d = ce_ownerUserId e" "ed_id d = ce_environmentDefinitionId e" for d e
  proof -
    have key: "environment_definition_key e = definition_key d"
      by (simp add: environment_definition_key_def definition_key_def d)
    show ?thesis
    proof (cases "?kept d")
      case True
      with d key show ?thesis by (auto simp: defs rename_definition_def)
    next
      case False
      then have built: "db_ownership d = BuiltIn" using reconciled_user_defined [OF R keys d(1)] by argo
      then obtain c where c: "c \<in> set definitions" "db_ownership c = BuiltIn" "blueprint c = blueprint d" "?kept c"
          "js_get aliases (definition_key d) = Some (ed_id c)"
        using reconciled_built_in [OF R d(1)] built False by (metis (full_types))
      moreover have "ed_id c \<noteq> []" using c(1) ids by force
      ultimately show ?thesis using key built
        by (auto simp: defs rename_definition_def)
    qed
  qed
  show ?thesis
    using unique rename
    by (auto simp: envs list_all2_map2 list.rel_refl_strong rename_definition_def defs intro!: list.rel_refl_strong)
qed

end
