(* ===== verification/TaskTypes.thy ===== *)
theory TaskTypes
  imports JS_Date
begin

text \<open>
  Task executions: the records of \<open>src/shared/task-execution-api.ts\<close>, the inputs of
  \<open>server/task-execution/contracts.ts\<close> and the checks of
  \<open>server/task-execution/execution-store-records.ts\<close>: identity comparisons, assertions and
  the transition relation of execution states.
\<close>

section \<open>Records\<close>

datatype task_agent_kind = Codex

record handoff_reference =
  ho_id :: string
  ho_revision :: int

datatype execution_state =
    Archived | Blocked | Cancelled | Completed | Delivering | Failed | Planned
  | PreparingEnvironment | PreparingWorkspace | Running | StartingAgent | Uncertain | Verifying
  | WaitingForApproval | WaitingForAuthorization | WaitingForConnector | WaitingForInput

datatype blocked_reason =
    AgentAuthorizationRequired | AgentRuntimeMissing | ApprovalRequired | CapacityUnavailable
  | ConnectorRequired | ConnectorStale | DeliveryUnverified | EnvironmentNotRunning | InputRequired
  | ProviderAuthorizationRequired | RequiredCheckFailed | ReviewRequired | WorkspaceFailure

record connector_binding =
  cb_connectorId :: string
  cb_generation :: int

record execution_source =
  src_branch :: string
  src_commit :: "string option"
  src_repositoryId :: string
  src_taskId :: string

text \<open>\<open>StoredTaskExecution\<close>: the execution record with its owner.\<close>

record stored_execution =
  ex_agent :: task_agent_kind
  ex_archivedAt :: "string option"
  ex_blockedReason :: "blocked_reason option"
  ex_connectorBinding :: "connector_binding option"
  ex_createdAt :: string
  ex_environmentId :: string
  ex_handoff :: handoff_reference
  ex_id :: string
  ex_ownerUserId :: string
  ex_source :: execution_source
  ex_state :: execution_state
  ex_updatedAt :: string
  ex_version :: int

record executor_binding =
  bd_agent :: task_agent_kind
  bd_createdAt :: string
  bd_executionId :: string
  bd_externalId :: string
  bd_turnId :: "string option"
  bd_updatedAt :: string
  bd_version :: int

datatype workspace_state = WsFailed | WsMissing | WsPreparing | WsReady | WsUncertain

datatype workspace_kind = CodespaceKind | WorktreeKind

text \<open>The workspace target, whose only kind is \<open>project_worktree\<close>, is its reference.\<close>

record runner_workspace =
  ws_branch :: string
  ws_commit :: "string option"
  ws_createdAt :: string
  ws_executionId :: string
  ws_id :: string
  ws_kind :: workspace_kind
  ws_repositoryId :: string
  ws_state :: workspace_state
  ws_target :: "string option"
  ws_updatedAt :: string
  ws_version :: int

datatype event_actor_kind = AgentActor | HumanActor | OrchestratorActor | SystemActor

record event_actor =
  ea_id :: string
  ea_kind :: event_actor_kind

record handoff_change =
  hc_from :: handoff_reference
  hc_to :: handoff_reference

datatype event_type =
  BlockedEvent | CreatedEvent | ExecutorBound | HandoffUpdated | StateChanged | WorkspaceBound

record execution_event =
  ev_actor :: "event_actor option"
  ev_createdAt :: string
  ev_cursor :: int
  ev_executionId :: string
  ev_handoffChange :: "handoff_change option"
  ev_message :: "string option"
  ev_state :: "execution_state option"
  ev_type :: event_type

section \<open>Inputs and results of the store\<close>

record execution_transition =
  tr_blockedReason :: "blocked_reason option"
  tr_expectedVersion :: int
  tr_executionId :: string
  tr_ownerUserId :: string
  tr_state :: execution_state
  tr_updatedAt :: string

datatype transition_result = TConflict "stored_execution option" | TUpdated stored_execution

record update_handoff_input =
  uh_executionId :: string
  uh_expectedVersion :: int
  uh_handoff :: handoff_reference
  uh_ownerUserId :: string
  uh_updatedAt :: string

record append_event_input =
  ae_actor :: "event_actor option"
  ae_createdAt :: string
  ae_executionId :: string
  ae_handoffChange :: "handoff_change option"
  ae_message :: "string option"
  ae_ownerUserId :: string
  ae_state :: "execution_state option"
  ae_type :: event_type

record update_source_input =
  us_branch :: string
  us_commit :: string
  us_executionId :: string
  us_expectedVersion :: int
  us_ownerUserId :: string
  us_repositoryId :: string
  us_updatedAt :: string

record update_connector_input =
  uc_connectorBinding :: connector_binding
  uc_executionId :: string
  uc_expectedConnectorBinding :: "connector_binding option"
  uc_expectedVersion :: int
  uc_ownerUserId :: string
  uc_updatedAt :: string

record update_turn_input =
  ut_expectedVersion :: int
  ut_executionId :: string
  ut_ownerUserId :: string
  ut_turnId :: string
  ut_updatedAt :: string

record update_workspace_input =
  uw_commit :: "string option"
  uw_expectedVersion :: int
  uw_executionId :: string
  uw_ownerUserId :: string
  uw_state :: workspace_state
  uw_updatedAt :: string

record execution_list_input =
  li_agent :: "task_agent_kind option"
  li_before :: "(string \<times> string) option"
  li_environmentId :: "string option"
  li_includeArchived :: bool
  li_limit :: int
  li_ownerUserId :: string
  li_state :: "execution_state option"
  li_taskId :: "string option"

datatype create_result = Created | Replayed | Conflict

section \<open>Comparisons and assertions\<close>

definition sameExecutionIdentity :: "stored_execution \<Rightarrow> stored_execution \<Rightarrow> bool" where
  "sameExecutionIdentity left right \<longleftrightarrow>
     src_taskId (ex_source left) = src_taskId (ex_source right) \<and>
     ho_id (ex_handoff left) = ho_id (ex_handoff right) \<and>
     ho_revision (ex_handoff left) = ho_revision (ex_handoff right) \<and>
     ex_agent left = ex_agent right \<and> ex_environmentId left = ex_environmentId right \<and>
     map_option cb_connectorId (ex_connectorBinding left) =
       map_option cb_connectorId (ex_connectorBinding right) \<and>
     map_option cb_generation (ex_connectorBinding left) =
       map_option cb_generation (ex_connectorBinding right) \<and>
     src_repositoryId (ex_source left) = src_repositoryId (ex_source right) \<and>
     src_branch (ex_source left) = src_branch (ex_source right) \<and>
     src_commit (ex_source left) = src_commit (ex_source right)"

definition sameBinding :: "executor_binding \<Rightarrow> executor_binding \<Rightarrow> bool" where
  "sameBinding left right \<longleftrightarrow>
     bd_agent left = bd_agent right \<and> bd_executionId left = bd_executionId right \<and>
     bd_externalId left = bd_externalId right \<and> bd_turnId left = bd_turnId right \<and>
     bd_version right = 1"

definition sameWorkspace :: "runner_workspace \<Rightarrow> runner_workspace \<Rightarrow> bool" where
  "sameWorkspace left right \<longleftrightarrow>
     ws_id left = ws_id right \<and> ws_executionId left = ws_executionId right \<and>
     ws_kind left = ws_kind right \<and> ws_repositoryId left = ws_repositoryId right \<and>
     ws_branch left = ws_branch right \<and> ws_commit left = ws_commit right \<and>
     ws_target left = ws_target right \<and> ws_version right = 1"

text \<open>The assertions are the conditions under which they do not throw.\<close>

definition assertState :: "execution_state \<Rightarrow> blocked_reason option \<Rightarrow> bool" where
  "assertState s reason \<longleftrightarrow> (s = Blocked) = (reason \<noteq> None)"

definition isHandoffReference :: "handoff_reference \<Rightarrow> bool" where
  "isHandoffReference h \<longleftrightarrow>
     uuid_pattern (ho_id h) \<and> is_safe_integer (ho_revision h) \<and> 0 < ho_revision h"

definition valid_connector :: "connector_binding \<Rightarrow> bool" where
  "valid_connector c \<longleftrightarrow> is_safe_integer (cb_generation c) \<and> 0 < cb_generation c \<and>
     js_trim (cb_connectorId c) \<noteq> []"

definition assertExecution :: "stored_execution \<Rightarrow> bool" where
  "assertExecution e \<longleftrightarrow>
     assertState (ex_state e) (ex_blockedReason e) \<and>
     uuid_pattern (ex_id e) \<and> uuid_pattern (ho_id (ex_handoff e)) \<and>
     uuid_pattern (ex_environmentId e) \<and> js_trim (ex_ownerUserId e) \<noteq> [] \<and>
     js_trim (src_taskId (ex_source e)) \<noteq> [] \<and> length (src_taskId (ex_source e)) \<le> 512 \<and>
     js_trim (src_repositoryId (ex_source e)) \<noteq> [] \<and>
     length (src_repositoryId (ex_source e)) \<le> 512 \<and>
     js_trim (src_branch (ex_source e)) \<noteq> [] \<and> length (src_branch (ex_source e)) \<le> 256 \<and>
     (case src_commit (ex_source e) of None \<Rightarrow> True | Some c \<Rightarrow> git_sha1 c) \<and>
     date_parse (ex_createdAt e) \<noteq> None \<and> date_parse (ex_updatedAt e) \<noteq> None \<and>
     ex_version e = 1 \<and> \<not> truthy (ex_archivedAt e) \<and> ex_state e = Planned \<and>
     (case ex_connectorBinding e of None \<Rightarrow> True | Some c \<Rightarrow> valid_connector c)"

definition assertEvent :: "append_event_input \<Rightarrow> bool" where
  "assertEvent input \<longleftrightarrow>
     (ae_type input = HandoffUpdated) = (ae_handoffChange input \<noteq> None) \<and>
     (case ae_handoffChange input of
        None \<Rightarrow> True
      | Some c \<Rightarrow> isHandoffReference (hc_from c) \<and> isHandoffReference (hc_to c) \<and>
          (ho_id (hc_from c) \<noteq> ho_id (hc_to c) \<or> ho_revision (hc_from c) \<noteq> ho_revision (hc_to c))) \<and>
     (case ae_message input of None \<Rightarrow> True | Some m \<Rightarrow> length m \<le> 2000) \<and>
     date_parse (ae_createdAt input) \<noteq> None"

section \<open>Transitions\<close>

definition terminalStates :: "execution_state list" where
  "terminalStates = [Archived, Cancelled, Completed, Failed]"

fun nextStates :: "execution_state \<Rightarrow> execution_state list" where
  "nextStates Planned = [PreparingEnvironment, PreparingWorkspace, StartingAgent]"
| "nextStates PreparingEnvironment =
     [WaitingForConnector, WaitingForAuthorization, PreparingWorkspace]"
| "nextStates WaitingForConnector = [WaitingForAuthorization, PreparingWorkspace]"
| "nextStates WaitingForAuthorization = [PreparingWorkspace]"
| "nextStates PreparingWorkspace = [StartingAgent]"
| "nextStates StartingAgent = [Running]"
| "nextStates Running = [WaitingForApproval, WaitingForInput, Verifying]"
| "nextStates WaitingForApproval = [Running, Verifying]"
| "nextStates WaitingForInput = [Running, Verifying]"
| "nextStates Verifying = [Running, Delivering]"
| "nextStates Delivering = [Completed]"
| "nextStates _ = []"

definition isTaskExecutionTransitionAllowed :: "execution_state \<Rightarrow> execution_state \<Rightarrow> bool" where
  "isTaskExecutionTransitionAllowed from to \<longleftrightarrow>
     (if from \<in> set terminalStates \<or> to = Archived \<or> to = Planned then False
      else if from = Blocked \<or> from = Uncertain then True
      else if to = Blocked \<or> to = Uncertain \<or> to = Failed \<or> to = Cancelled then True
      else to \<in> set (nextStates from))"

definition taskExecutionStates :: "execution_state list" where
  "taskExecutionStates =
     [Planned, PreparingEnvironment, WaitingForConnector, WaitingForAuthorization,
      PreparingWorkspace, StartingAgent, Running, WaitingForApproval, WaitingForInput, Verifying,
      Delivering, Blocked, Uncertain, Completed, Failed, Cancelled, Archived]"

definition sourceStatesForTaskExecutionTransition :: "execution_state \<Rightarrow> execution_state list" where
  "sourceStatesForTaskExecutionTransition to =
     filter (\<lambda>from. isTaskExecutionTransitionAllowed from to) taskExecutionStates"

definition executionKey :: "string \<Rightarrow> string \<Rightarrow> string" where
  "executionKey owner execution = nul_key owner execution"

lemma all_states [simp]: "s \<in> set taskExecutionStates"
  by (cases s) (simp_all add: taskExecutionStates_def)

end
