(* ===== verification/ControlTarget.thy ===== *)
theory ControlTarget
  imports ControlRequest ComputeValid TaskTypes
begin

text \<open>
  Which target a canonical Runtime control request names, and who may use it:
  \<open>server/canonical-runtime-control/resolver.ts\<close>, \<open>mutation-authorizer.ts\<close>, the authorizer of
  \<open>configured-runtime.ts\<close> that is used without task executions, and the resolver of the SSH gateway
  (\<open>server/ssh-control-gateway/target-resolver.ts\<close>), which reads the same inventory.

  A resolver answers the target, or \<open>None\<close> when it throws that the target is unavailable. The inventory
  comes with its violations, as it is stored; the task store's two answers are the readings the
  authorizer waits for.
\<close>

section \<open>Targets of Runtime control\<close>

type_synonym compute_snapshot = "compute_inventory \<times> compute_violation list"

text \<open>\<open>array.filter(p)\<close> when it has length 1\<close>

definition only_match :: "('a \<Rightarrow> bool) \<Rightarrow> 'a list \<Rightarrow> 'a option" where
  "only_match p xs = (case filter p xs of [x] \<Rightarrow> Some x | _ \<Rightarrow> None)"

definition blocks_environment :: "string \<Rightarrow> compute_violation \<Rightarrow> bool" where
  "blocks_environment k v \<longleftrightarrow>
     vi_id v = k \<or> vi_code v = DuplicateEnvironment \<or> vi_code v = DuplicateEnvironmentIdentity"

definition snapshot_environment :: "compute_snapshot \<Rightarrow> string \<Rightarrow> compute_environment option" where
  "snapshot_environment snapshot k = (case snapshot of (inventory, violations) \<Rightarrow>
     if list_ex (blocks_environment k) violations then None
     else only_match (\<lambda>e. ce_id e = k) (in_environments inventory))"

fun host_conflict :: "host_association \<Rightarrow> bool" where
  "host_conflict (ConflictHost e expected h) = True"
| "host_conflict _ = False"

fun associated_host :: "host_association \<Rightarrow> string option" where
  "associated_host (VerifiedHost e h) = Some h"
| "associated_host (ManualHost h) = Some h"
| "associated_host _ = None"

text \<open>A host that is named must be one host of the environment's platform.\<close>

definition host_resolved :: "compute_inventory \<Rightarrow> compute_environment \<Rightarrow> string option \<Rightarrow> bool" where
  "host_resolved inventory e host \<longleftrightarrow> (truthy host \<longrightarrow>
     (case only_match (\<lambda>h. Some (hr_id h) = host) (in_hosts inventory) of
        None \<Rightarrow> False | Some h \<Rightarrow> hr_platformId h = ce_platformId e))"

definition target_identity :: "compute_environment \<Rightarrow> string" where
  "target_identity e = int_string (dk_version (ce_identity e)) @ '':'' @ dk_key (ce_identity e)"

definition needed_capability :: "canonical_operation \<Rightarrow> runtime_capability" where
  "needed_capability op = (if canonicalRuntimeControlAccessMode op = MutationMode then CapMutation else CapControl)"

definition present_host :: "string option \<Rightarrow> string option" where
  "present_host host = (if truthy host then host else None)"

definition resolveCanonicalRuntimeControlTarget ::
    "compute_snapshot \<Rightarrow> runtime_snapshot list \<Rightarrow> service_request \<Rightarrow> control_target option" where
  "resolveCanonicalRuntimeControlTarget snapshot runtimes r = do {
     let request = sq_request r;
     let inventory = fst snapshot;
     environment \<leftarrow> snapshot_environment snapshot (rq_environmentId request);
     platform \<leftarrow> only_match (\<lambda>p. pl_id p = ce_platformId environment) (in_platforms inventory);
     require (\<not> host_conflict (ce_hostAssociation environment));
     let hostId = associated_host (ce_hostAssociation environment);
     require (host_resolved inventory environment hostId);
     require (sq_revision r = VStr (target_identity environment));
     runtime \<leftarrow> only_match (\<lambda>s. sn_environmentId s = rq_environmentId request \<and> sn_workspaceId s = rq_workspaceId request)
       runtimes;
     require (sn_generation runtime = rq_expectedGeneration request \<and> sn_connectionState runtime = Online \<and>
       sn_lifecycleState runtime = lifecycle_state.Running \<and>
       needed_capability (request_operation request) \<in> set (sn_capabilities runtime));
     Some \<lparr>tg_branch = sn_branch runtime, tg_commit = sn_commit runtime,
       tg_environmentId = rq_environmentId request, tg_generation = sn_generation runtime,
       tg_hostId = present_host hostId, tg_manifestDigest = sn_manifestDigest runtime,
       tg_platformId = ce_platformId environment, tg_sessionId = sn_sessionId runtime,
       tg_targetIdentityRevision = target_identity environment, tg_workspaceId = rq_workspaceId request\<rparr> }"

section \<open>Authorization\<close>

text \<open>What the task store answers for the execution and the Workspace of a \<open>task.start\<close>.\<close>

record task_readings =
  rd_execution :: "stored_execution option"
  rd_workspace :: "runner_workspace option"

definition taskStartAuthorized :: "task_readings \<Rightarrow> string \<Rightarrow> string \<Rightarrow> control_target \<Rightarrow> bool" where
  "taskStartAuthorized readings execution_id lease target \<longleftrightarrow>
     (case (rd_execution readings, rd_workspace readings) of
        (Some e, Some w) \<Rightarrow>
          (ex_state e = PreparingWorkspace \<or> ex_state e = StartingAgent) \<and>
          ex_environmentId e = tg_environmentId target \<and> ex_id e = execution_id \<and>
          src_branch (ex_source e) = tg_branch target \<and> src_commit (ex_source e) = Some (tg_commit target) \<and>
          src_repositoryId (ex_source e) = ws_repositoryId w \<and>
          ws_branch w = tg_branch target \<and> ws_commit w = Some (tg_commit target) \<and>
          ws_executionId w = execution_id \<and> ws_id w = lease \<and> ws_id w = tg_workspaceId target \<and>
          ws_state w = WsReady
      | _ \<Rightarrow> False)"

definition actor_known :: "control_actor \<Rightarrow> bool" where
  "actor_known actor \<longleftrightarrow> ca_ownerUserId actor \<noteq> [] \<and> ca_actorId actor \<noteq> [] \<and>
     (ca_actorKind actor = actor_kind.HumanActor \<or> ca_actorKind actor = actor_kind.AgentActor)"

text \<open>The target is absent in the coarse phase; \<open>authorize\<close> of the configured authorizer.\<close>

definition authorize :: "task_readings \<Rightarrow> control_actor \<Rightarrow> safe_input \<Rightarrow> control_target option \<Rightarrow> bool" where
  "authorize readings actor input target \<longleftrightarrow> actor_known actor \<and>
     (case target of
        None \<Rightarrow> True
      | Some t \<Rightarrow>
          (case input of
             GitStageInput head \<Rightarrow> head = tg_commit t
           | GitUnstageInput head \<Rightarrow> head = tg_commit t
           | GitCommitInput head m \<Rightarrow> head = tg_commit t
           | TaskStartInput execution lease \<Rightarrow> taskStartAuthorized readings execution lease t
           | _ \<Rightarrow> True))"

text \<open>The authorizer in use when there is no task store.\<close>

definition default_authorize :: "control_actor \<Rightarrow> canonical_operation \<Rightarrow> control_target option \<Rightarrow> bool" where
  "default_authorize actor op target \<longleftrightarrow>
     ca_ownerUserId actor \<noteq> [] \<and> ca_actorId actor \<noteq> [] \<and>
     canonicalRuntimeControlAccessMode op \<noteq> MutationMode \<and>
     (case target of None \<Rightarrow> True | Some t \<Rightarrow> tg_environmentId t \<noteq> [] \<and> tg_workspaceId t \<noteq> [])"

section \<open>Targets of the SSH gateway\<close>

record ssh_target_binding =
  tb_environmentDefinitionId :: string
  tb_environmentId :: string
  tb_hostId :: "string option"
  tb_platformId :: string
  tb_targetIdentityRevision :: string

definition resolve_ssh_target :: "compute_snapshot \<Rightarrow> string \<Rightarrow> ssh_target_binding option" where
  "resolve_ssh_target snapshot k = do {
     let inventory = fst snapshot;
     environment \<leftarrow> snapshot_environment snapshot k;
     require (\<not> ce_identityConflict environment);
     platform \<leftarrow> only_match (\<lambda>p. pl_id p = ce_platformId environment) (in_platforms inventory);
     blueprint \<leftarrow> only_match (\<lambda>d. ed_id d = ce_environmentDefinitionId environment) (in_environmentDefinitions inventory);
     require (db_kind blueprint = ce_kind environment);
     require (\<not> host_conflict (ce_hostAssociation environment));
     let hostId = associationHostId (ce_hostAssociation environment);
     require (host_resolved inventory environment hostId);
     Some \<lparr>tb_environmentDefinitionId = ed_id blueprint, tb_environmentId = ce_id environment,
       tb_hostId = present_host hostId, tb_platformId = pl_id platform,
       tb_targetIdentityRevision = target_identity environment\<rparr> }"

section \<open>What the resolvers decide\<close>

lemma only_match_SomeD: "only_match p xs = Some x \<Longrightarrow> x \<in> set xs \<and> p x"
  unfolding only_match_def by (auto split: list.splits simp: filter_eq_Cons_iff)

lemma only_match_unique:
  assumes "distinct (map key xs)"
  shows "only_match (\<lambda>x. key x = k) xs = Some x \<longleftrightarrow> x \<in> set xs \<and> key x = k"
proof
  assume x: "x \<in> set xs \<and> key x = k"
  with assms have "filter (\<lambda>x. key x = k) xs = [x]"
    by (induction xs) (auto simp: filter_empty_conv rev_image_eqI)
  then show "only_match (\<lambda>x. key x = k) xs = Some x" by (simp add: only_match_def)
qed (rule only_match_SomeD)

lemma environment_of_wf: "well_formed_inventory i \<Longrightarrow> e \<in> set (in_environments i) \<Longrightarrow> environment_resolved i e"
  unfolding well_formed_inventory_def references_resolved_def by blast

lemma host_resolved_valid:
  assumes "well_formed_inventory i" "e \<in> set (in_environments i)" "\<not> host_conflict (ce_hostAssociation e)"
  shows "host_resolved i e (associated_host (ce_hostAssociation e))"
proof (cases "truthy (associated_host (ce_hostAssociation e))")
  case True
  then obtain k where k: "associated_host (ce_hostAssociation e) = Some k" "k \<noteq> []"
    by (cases "associated_host (ce_hostAssociation e)") auto
  then have "k \<in> set (associationHostIds (ce_hostAssociation e))"
    by (cases "ce_hostAssociation e") (auto simp: referenced_def)
  then obtain h where h: "h \<in> set (in_hosts i)" "hr_id h = k" "hr_platformId h = ce_platformId e"
    using environment_of_wf [OF assms(1,2)] unfolding environment_resolved_def by blast
  moreover have "distinct (map hr_id (in_hosts i))"
    using assms(1) by (simp add: well_formed_inventory_def unique_records_def)
  ultimately have "only_match (\<lambda>h. hr_id h = k) (in_hosts i) = Some h"
    by (simp add: only_match_unique)
  with k h show ?thesis by (simp add: host_resolved_def)
qed (simp add: host_resolved_def)

definition runtime_usable :: "service_request \<Rightarrow> runtime_snapshot \<Rightarrow> bool" where
  "runtime_usable r runtime \<longleftrightarrow> sn_generation runtime = rq_expectedGeneration (sq_request r) \<and>
     sn_connectionState runtime = Online \<and> sn_lifecycleState runtime = lifecycle_state.Running \<and>
     needed_capability (request_operation (sq_request r)) \<in> set (sn_capabilities runtime)"

definition target_of :: "service_request \<Rightarrow> compute_environment \<Rightarrow> runtime_snapshot \<Rightarrow> control_target" where
  "target_of r e runtime = \<lparr>tg_branch = sn_branch runtime, tg_commit = sn_commit runtime,
     tg_environmentId = rq_environmentId (sq_request r), tg_generation = rq_expectedGeneration (sq_request r),
     tg_hostId = present_host (associated_host (ce_hostAssociation e)), tg_manifestDigest = sn_manifestDigest runtime,
     tg_platformId = ce_platformId e, tg_sessionId = sn_sessionId runtime,
     tg_targetIdentityRevision = target_identity e, tg_workspaceId = rq_workspaceId (sq_request r)\<rparr>"

definition names_runtime :: "service_request \<Rightarrow> runtime_snapshot \<Rightarrow> bool" where
  "names_runtime r s \<longleftrightarrow> sn_environmentId s = rq_environmentId (sq_request r) \<and> sn_workspaceId s = rq_workspaceId (sq_request r)"

lemma resolve_target_iff:
  "resolveCanonicalRuntimeControlTarget snapshot runtimes r = Some t \<longleftrightarrow>
     (\<exists>e runtime. snapshot_environment snapshot (rq_environmentId (sq_request r)) = Some e \<and>
        (\<exists>p. only_match (\<lambda>p. pl_id p = ce_platformId e) (in_platforms (fst snapshot)) = Some p) \<and>
        \<not> host_conflict (ce_hostAssociation e) \<and>
        host_resolved (fst snapshot) e (associated_host (ce_hostAssociation e)) \<and>
        sq_revision r = VStr (target_identity e) \<and> only_match (names_runtime r) runtimes = Some runtime \<and>
        runtime_usable r runtime \<and> t = target_of r e runtime)"
  unfolding names_runtime_def [abs_def]
  by (auto simp: resolveCanonicalRuntimeControlTarget_def bind_eq_Some_conv runtime_usable_def target_of_def Let_def)

text \<open>C19: In a valid inventory a request resolves exactly when it names an environment whose host is not in
  conflict by its current identity revision, and the one Runtime session of its environment and Workspace is
  the expected generation, online, running and capable of the operation; the target is that of the
  environment and of the session. The checks of the platform and the host never refuse it.\<close>

theorem resolve_in_valid_inventory:
  assumes "validateComputeInventory coll i = []"
  shows "resolveCanonicalRuntimeControlTarget (i, validateComputeInventory coll i) runtimes r = Some t \<longleftrightarrow>
    (\<exists>e\<in>set (in_environments i). \<exists>runtime. ce_id e = rq_environmentId (sq_request r) \<and>
       \<not> host_conflict (ce_hostAssociation e) \<and> sq_revision r = VStr (target_identity e) \<and>
       filter (names_runtime r) runtimes = [runtime] \<and> runtime_usable r runtime \<and> t = target_of r e runtime)"
proof -
  have wf: "well_formed_inventory i" using assms by (simp only: compute_validation_iff)
  then have u: "distinct (map ce_id (in_environments i))" "distinct (map pl_id (in_platforms i))"
    by (simp_all add: well_formed_inventory_def unique_records_def)
  have env: "snapshot_environment (i, []) k = Some e \<longleftrightarrow> e \<in> set (in_environments i) \<and> ce_id e = k" for k e
    by (simp add: snapshot_environment_def only_match_unique [OF u(1)])
  have platform: "\<exists>p. only_match (\<lambda>p. pl_id p = ce_platformId e) (in_platforms i) = Some p"
    if "e \<in> set (in_environments i)" for e
    using environment_of_wf [OF wf that] unfolding only_match_unique [OF u(2)] environment_resolved_def by blast
  have one: "only_match (names_runtime r) runtimes = Some s \<longleftrightarrow> filter (names_runtime r) runtimes = [s]" for s
    by (auto simp: only_match_def split: list.splits)
  show ?thesis
    unfolding resolve_target_iff assms fst_conv env one
    using platform host_resolved_valid [OF wf] by blast
qed

lemma associated_host_same: "\<not> host_conflict a \<Longrightarrow> associationHostId a = associated_host a"
  by (cases a) simp_all

text \<open>C20: When the SSH gateway resolves an environment, Runtime control resolves a request for it to the
  same host, platform and identity, and refuses it only for the revision it expects or for its Runtime
  session.\<close>

theorem resolvers_agree:
  assumes "resolve_ssh_target snapshot (rq_environmentId (sq_request r)) = Some b"
  shows "resolveCanonicalRuntimeControlTarget snapshot runtimes r = Some t \<longleftrightarrow>
    sq_revision r = VStr (tb_targetIdentityRevision b) \<and>
    (\<exists>runtime. filter (names_runtime r) runtimes = [runtime] \<and> runtime_usable r runtime \<and>
       t = \<lparr>tg_branch = sn_branch runtime, tg_commit = sn_commit runtime, tg_environmentId = tb_environmentId b,
         tg_generation = rq_expectedGeneration (sq_request r), tg_hostId = tb_hostId b,
         tg_manifestDigest = sn_manifestDigest runtime, tg_platformId = tb_platformId b,
         tg_sessionId = sn_sessionId runtime, tg_targetIdentityRevision = tb_targetIdentityRevision b,
         tg_workspaceId = rq_workspaceId (sq_request r)\<rparr>)"
proof -
  obtain e p where e: "snapshot_environment snapshot (rq_environmentId (sq_request r)) = Some e"
      "only_match (\<lambda>p. pl_id p = ce_platformId e) (in_platforms (fst snapshot)) = Some p"
      "\<not> host_conflict (ce_hostAssociation e)"
      "host_resolved (fst snapshot) e (associated_host (ce_hostAssociation e))"
      "tb_environmentId b = ce_id e" "tb_hostId b = present_host (associated_host (ce_hostAssociation e))"
      "tb_platformId b = pl_id p" "tb_targetIdentityRevision b = target_identity e"
    using assms by (auto simp: resolve_ssh_target_def bind_eq_Some_conv Let_def associated_host_same)
  have "ce_id e = rq_environmentId (sq_request r)"
    using e(1) by (auto simp: snapshot_environment_def split: prod.splits if_splits dest: only_match_SomeD)
  moreover have "pl_id p = ce_platformId e" using only_match_SomeD [OF e(2)] by simp
  moreover have "only_match (names_runtime r) runtimes = Some s \<longleftrightarrow> filter (names_runtime r) runtimes = [s]" for s
    by (auto simp: only_match_def split: list.splits)
  ultimately show ?thesis
    unfolding resolve_target_iff using e by (auto simp: target_of_def)
qed

text \<open>An environment whose reported identity has come into conflict.\<close>

definition mark_conflict :: "string \<Rightarrow> compute_inventory \<Rightarrow> compute_inventory" where
  "mark_conflict k i = i\<lparr>in_environments :=
     map (\<lambda>e. if ce_id e = k then e\<lparr>ce_identityConflict := True\<rparr> else e) (in_environments i)\<rparr>"

lemma only_match_map: "(\<And>x. p (f x) = p x) \<Longrightarrow> only_match p (map f xs) = map_option f (only_match p xs)"
  by (auto simp: only_match_def filter_map comp_def split: list.splits)

lemma snapshot_mark_conflict:
  "snapshot_environment (mark_conflict k i, vs) x =
     map_option (\<lambda>e. if ce_id e = k then e\<lparr>ce_identityConflict := True\<rparr> else e) (snapshot_environment (i, vs) x)"
  by (simp add: snapshot_environment_def mark_conflict_def only_match_map)

lemma mark_conflict_simps:
  "in_platforms (mark_conflict k i) = in_platforms i"
  "host_resolved (mark_conflict k i) e h = host_resolved i e h"
  "host_resolved i (e\<lparr>ce_identityConflict := b\<rparr>) h = host_resolved i e h"
  "target_identity (e\<lparr>ce_identityConflict := b\<rparr>) = target_identity e"
  "target_of r (e\<lparr>ce_identityConflict := b\<rparr>) s = target_of r e s"
  by (simp_all add: mark_conflict_def host_resolved_def target_identity_def target_of_def split: option.split)

text \<open>C21: When an environment's reported identity comes into conflict, the SSH gateway stops resolving it,
  but the targets of Runtime control stay as they were.\<close>

theorem identity_conflict_unnoticed:
  "resolve_ssh_target (mark_conflict k i, vs) k = None \<and>
   resolveCanonicalRuntimeControlTarget (mark_conflict k i, vs) runtimes r =
     resolveCanonicalRuntimeControlTarget (i, vs) runtimes r"
proof -
  have "ce_id e = k" if "snapshot_environment (i, vs) k = Some e" for e
    using that by (auto simp: snapshot_environment_def split: if_splits dest: only_match_SomeD)
  then have "resolve_ssh_target (mark_conflict k i, vs) k = None"
    by (cases "snapshot_environment (i, vs) k")
      (auto simp: resolve_ssh_target_def snapshot_mark_conflict Let_def bind_eq_None_conv)
  moreover have "resolveCanonicalRuntimeControlTarget (mark_conflict k i, vs) runtimes r = Some t \<longleftrightarrow>
      resolveCanonicalRuntimeControlTarget (i, vs) runtimes r = Some t" for t
    unfolding resolve_target_iff snapshot_mark_conflict
    by (cases "snapshot_environment (i, vs) (rq_environmentId (sq_request r))")
      (simp_all add: mark_conflict_simps)
  ultimately show ?thesis by (metis option.exhaust)
qed

definition wrapped_object :: "control_request \<Rightarrow> (string \<times> jsval) list" where
  "wrapped_object r =
     map (\<lambda>(k, v). if k = ''expectedTargetIdentityRevision'' then (k, VArr [v]) else (k, v)) (request_object r)"

lemma request_object_revision:
  "field (request_object r) ''expectedTargetIdentityRevision'' = VStr (rq_expectedTargetIdentityRevision r)"
  by (simp add: request_object_def)

lemma map_entries_field:
  "field (map (\<lambda>(k, v). if k = name then (k, f v) else (k, v)) kvs) k =
     (if k = name \<and> k \<in> set (object_keys kvs) then f (field kvs k) else field kvs k)"
  by (induction kvs) auto

lemma map_entries_keys: "object_keys (map (\<lambda>(k, v). if k = name then (k, f v) else (k, v)) kvs) = object_keys kvs"
  by (induction kvs) auto

lemma wrapped_fields:
  "field (wrapped_object r) ''expectedTargetIdentityRevision'' = VArr [VStr (rq_expectedTargetIdentityRevision r)]"
  "k \<noteq> ''expectedTargetIdentityRevision'' \<Longrightarrow> field (wrapped_object r) k = field (request_object r) k"
  "object_keys (wrapped_object r) = object_keys (request_object r)"
  by (simp_all add: wrapped_object_def map_entries_field map_entries_keys) (simp_all add: request_object_def)

lemma wrapped_input: "validOperationInput op (wrapped_object r) = validOperationInput op (request_object r)"
  by (cases op) (simp_all add: validOperationInput_def wrapped_fields)

text \<open>The check of the expected revision does not require a string: a valid request whose revision is
  wrapped in an array passes the checks as a valid request, yet no inventory has a target for it.\<close>

theorem wrapped_revision_accepted:
  assumes "valid_request r"
  shows "validate (VObj (wrapped_object r)) =
      Some \<lparr>sq_request = r, sq_revision = VArr [VStr (rq_expectedTargetIdentityRevision r)]\<rparr> \<and>
    resolveCanonicalRuntimeControlTarget snapshot runtimes
      \<lparr>sq_request = r, sq_revision = VArr [VStr (rq_expectedTargetIdentityRevision r)]\<rparr> = None"
proof -
  let ?q = "\<lparr>sq_request = r, sq_revision = VStr (rq_expectedTargetIdentityRevision r)\<rparr>"
  have "validate (VObj (request_object r)) = Some ?q"
    using assms by (simp only: validate_request_object if_True)
  then have "validate (VObj (wrapped_object r)) =
      Some (?q\<lparr>sq_revision := VArr [VStr (rq_expectedTargetIdentityRevision r)]\<rparr>)"
    by (auto simp: validate_def bind_eq_Some_conv wrapped_fields wrapped_input exactRequestKeys_def sameKeys_def
        request_object_revision)
  moreover have "resolveCanonicalRuntimeControlTarget snapshot runtimes
      \<lparr>sq_request = r, sq_revision = VArr [VStr (rq_expectedTargetIdentityRevision r)]\<rparr> \<noteq> Some t" for t
    unfolding resolve_target_iff by simp
  ultimately show ?thesis by auto
qed

end
