(* ===== verification/ControlService.thy ===== *)
theory ControlService
  imports ControlTarget CanonicalDispatcher
begin

text \<open>
  The service of the canonical Runtime control (\<open>server/canonical-runtime-control/service.ts\<close>) over the
  dispatcher, the operation store and the session service, with the authorizer of
  \<open>mutation-authorizer.ts\<close>.

  A call of \<open>execute\<close> waits for the inventory, for the authorizer and for the dispatcher; the call is
  kept with the point it waits at, and \<open>system_step\<close> resumes one call, or lets the dispatcher take a step
  of its own. The Runtime sessions are read from the session service when the target is resolved; the
  stored inventory and the answers of the task store are arguments of the step, so they may be anything
  at any time. A run is a list of steps in any order.
\<close>

section \<open>Calls in progress\<close>

record service_args =
  sa_actor :: control_actor
  sa_request :: service_request

datatype service_call =
    ResolveFirst service_args
  | AuthorizeFirst service_args control_target
  | ResolveSecond service_args control_target
  | AuthorizeSecond service_args control_target
  | StartDispatch service_args control_target
  | ResolveFresh service_args control_target nat
  | AuthorizeFresh service_args control_target nat
  | FreshAnswer service_args nat "failure + control_target"
  | InDispatch nat
  | ServiceAnswered "failure + operation_result"

record control_system =
  cs_dispatcher :: dispatcher
  cs_calls :: "(nat, service_call) jsmap"
  cs_next :: nat

definition empty_system :: control_system where
  "empty_system = \<lparr>cs_dispatcher = empty_dispatcher, cs_calls = [], cs_next = 0\<rparr>"

definition set_call :: "nat \<Rightarrow> service_call \<Rightarrow> control_system \<Rightarrow> control_system" where
  "set_call k c y = y\<lparr>cs_calls := js_set (cs_calls y) k c\<rparr>"

definition add_call :: "service_call \<Rightarrow> control_system \<Rightarrow> control_system" where
  "add_call c y = (set_call (cs_next y) c y)\<lparr>cs_next := cs_next y + 1\<rparr>"

definition denied :: failure where
  "denied = ControlFailure DeniedError"

definition unavailable :: failure where
  "unavailable = ControlFailure TargetUnavailableError"

section \<open>The steps of a call\<close>

definition args_input :: "service_args \<Rightarrow> safe_input" where
  "args_input a = canonicalRuntimeControlSafeInput (sq_request (sa_request a))"

text \<open>\<open>execute\<close> up to the first resolution; the coarse phase of the authorizer reads no store.\<close>

definition begin_execute ::
    "(string \<Rightarrow> string) \<Rightarrow> control_actor \<Rightarrow> jsval \<Rightarrow> control_system \<Rightarrow> control_system" where
  "begin_execute sha actor raw y = add_call
     (case validate raw of
        None \<Rightarrow> ServiceAnswered (Inl (ControlFailure InvalidRequestError))
      | Some r \<Rightarrow>
          if \<not> authorize \<lparr>rd_execution = None, rd_workspace = None\<rparr> actor
               (canonicalRuntimeControlSafeInput (sq_request r)) None
          then ServiceAnswered (Inl denied)
          else (case replay_operation actor (request_fingerprint sha actor r) (sq_request r)
                  (dx_ops (cs_dispatcher y)) of
              ReplayConflict \<Rightarrow> ServiceAnswered (Inl (ControlFailure OperationConflict))
            | ReplayInProgress \<Rightarrow> ServiceAnswered (Inl (ControlFailure OperationInProgress))
            | ReplayResult res \<Rightarrow> ServiceAnswered (Inr res)
            | ReplayNone \<Rightarrow> ResolveFirst \<lparr>sa_actor = actor, sa_request = r\<rparr>)) y"

definition resolve_now :: "compute_snapshot \<Rightarrow> service_args \<Rightarrow> control_system \<Rightarrow> control_target option" where
  "resolve_now snapshot a y = resolveCanonicalRuntimeControlTarget snapshot
     (service_list (ca_ownerUserId (sa_actor a)) (dx_sessions (cs_dispatcher y))) (sa_request a)"

text \<open>What a call does with the target it has resolved, in \<open>execute\<close> and in \<open>freshTarget\<close>.\<close>

fun resolved_call :: "service_call \<Rightarrow> control_target option \<Rightarrow> service_call" where
  "resolved_call (ResolveFirst a) None = ServiceAnswered (Inl unavailable)"
| "resolved_call (ResolveFirst a) (Some t) = AuthorizeFirst a t"
| "resolved_call (ResolveSecond a authorized) None = ServiceAnswered (Inl unavailable)"
| "resolved_call (ResolveSecond a authorized) (Some t) =
     (if sameTarget authorized t then AuthorizeSecond a t else ServiceAnswered (Inl unavailable))"
| "resolved_call (ResolveFresh a target n) None = FreshAnswer a n (Inl unavailable)"
| "resolved_call (ResolveFresh a target n) (Some t) =
     (if sameTarget target t then AuthorizeFresh a t n else FreshAnswer a n (Inl denied))"
| "resolved_call c t = c"

fun resolving :: "service_call \<Rightarrow> service_args option" where
  "resolving (ResolveFirst a) = Some a"
| "resolving (ResolveSecond a t) = Some a"
| "resolving (ResolveFresh a t n) = Some a"
| "resolving c = None"

definition resume_resolve :: "nat \<Rightarrow> compute_snapshot \<Rightarrow> control_system \<Rightarrow> control_system" where
  "resume_resolve k snapshot y =
     (case js_get (cs_calls y) k of
        None \<Rightarrow> y
      | Some c \<Rightarrow>
          (case resolving c of
             None \<Rightarrow> y
           | Some a \<Rightarrow> set_call k (resolved_call c (resolve_now snapshot a y)) y))"

fun authorized_call :: "service_call \<Rightarrow> task_readings \<Rightarrow> service_call" where
  "authorized_call (AuthorizeFirst a t) readings =
     (if authorize readings (sa_actor a) (args_input a) (Some t) then ResolveSecond a t else ServiceAnswered (Inl denied))"
| "authorized_call (AuthorizeSecond a t) readings =
     (if authorize readings (sa_actor a) (args_input a) (Some t) then StartDispatch a t else ServiceAnswered (Inl denied))"
| "authorized_call (AuthorizeFresh a t n) readings =
     FreshAnswer a n (if authorize readings (sa_actor a) (args_input a) (Some t) then Inr t else Inl denied)"
| "authorized_call c readings = c"

definition resume_authorize :: "nat \<Rightarrow> task_readings \<Rightarrow> control_system \<Rightarrow> control_system" where
  "resume_authorize k readings y =
     (case js_get (cs_calls y) k of
        None \<Rightarrow> y | Some c \<Rightarrow> set_call k (authorized_call c readings) y)"

text \<open>The dispatcher asks for the fresh target when its reservation is new, and answers at once otherwise.\<close>

definition awaits_fresh :: "dispatcher \<Rightarrow> nat \<Rightarrow> bool" where
  "awaits_fresh d n \<longleftrightarrow> (case js_get (dx_tasks d) n of Some (AwaitFresh x) \<Rightarrow> True | _ \<Rightarrow> False)"

definition resume_dispatch :: "(string \<Rightarrow> string) \<Rightarrow> nat \<Rightarrow> int \<Rightarrow> control_system \<Rightarrow> control_system" where
  "resume_dispatch sha k now y =
     (case js_get (cs_calls y) k of
        Some (StartDispatch a t) \<Rightarrow>
          let n = dx_next (cs_dispatcher y);
              d = begin_dispatch now (sa_actor a) (request_fingerprint sha (sa_actor a) (sa_request a))
                (sq_request (sa_request a)) t (cs_dispatcher y)
          in set_call k (if awaits_fresh d n then ResolveFresh a t n else InDispatch n) (y\<lparr>cs_dispatcher := d\<rparr>)
      | _ \<Rightarrow> y)"

definition resume_fresh_answer :: "nat \<Rightarrow> int \<Rightarrow> control_system \<Rightarrow> control_system" where
  "resume_fresh_answer k now y =
     (case js_get (cs_calls y) k of
        Some (FreshAnswer a n verified) \<Rightarrow>
          set_call k (InDispatch n) (y\<lparr>cs_dispatcher := resume_fresh n now verified (cs_dispatcher y)\<rparr>)
      | _ \<Rightarrow> y)"

text \<open>What \<open>execute\<close> has answered so far.\<close>

definition service_answer :: "control_system \<Rightarrow> nat \<Rightarrow> (failure + operation_result) option" where
  "service_answer y k =
     (case js_get (cs_calls y) k of
        Some (ServiceAnswered v) \<Rightarrow> Some v
      | Some (InDispatch n) \<Rightarrow>
          (case js_get (dx_tasks (cs_dispatcher y)) n of Some (Answered key v) \<Rightarrow> Some v | _ \<Rightarrow> None)
      | _ \<Rightarrow> None)"

section \<open>Steps\<close>

datatype system_call =
    XExecute control_actor jsval
  | XResolve nat compute_snapshot
  | XAuthorize nat task_readings
  | XDispatch nat int
  | XFresh nat int
  | XDispatcher dispatcher_call

text \<open>The service is the only caller of \<open>dispatch\<close> and the only source of a fresh target.\<close>

fun dispatcher_own :: "dispatcher_call \<Rightarrow> bool" where
  "dispatcher_own (DDispatch now actor f r t) = False"
| "dispatcher_own (DFresh n now v) = False"
| "dispatcher_own _ = True"

fun system_step ::
    "(string \<Rightarrow> string) \<Rightarrow> (string \<Rightarrow> string) \<Rightarrow> (runtime_event \<Rightarrow> string) \<Rightarrow> system_call \<Rightarrow> control_system \<Rightarrow>
     unit \<times> control_system" where
  "system_step sha hash fp (XExecute actor raw) y = ((), begin_execute sha actor raw y)"
| "system_step sha hash fp (XResolve k snapshot) y = ((), resume_resolve k snapshot y)"
| "system_step sha hash fp (XAuthorize k readings) y = ((), resume_authorize k readings y)"
| "system_step sha hash fp (XDispatch k now) y = ((), resume_dispatch sha k now y)"
| "system_step sha hash fp (XFresh k now) y = ((), resume_fresh_answer k now y)"
| "system_step sha hash fp (XDispatcher c) y =
     ((), if dispatcher_own c
          then y\<lparr>cs_dispatcher := snd (dispatcher_step hash fp c (cs_dispatcher y))\<rparr> else y)"

end
