(* ===== verification/ControlServiceProperties.thy ===== *)
theory ControlServiceProperties
  imports ControlService DispatcherProperties
begin

text \<open>
  What the service of the canonical Runtime control promises over every interleaving of calls, dispatcher
  steps and calls of the session service: no command without an authorization for its exact target, and
  an operation identifier bound to one actor and request.
\<close>

section \<open>What the dispatcher's own steps leave alone\<close>

lemma quiet_refl [simp]: "quiet s s"
  by (rule quiet.unchanged) simp_all

definition calm :: "dispatcher \<Rightarrow> dispatcher \<Rightarrow> bool" where
  "calm d d' \<longleftrightarrow> quiet (dx_ops d) (dx_ops d') \<and> dx_next d \<le> dx_next d' \<and>
     (\<forall>n x. js_get (dx_tasks d') n = Some (AwaitFresh x) \<longrightarrow> js_get (dx_tasks d) n = Some (AwaitFresh x))"

fun fresh_task :: "task \<Rightarrow> bool" where
  "fresh_task (AwaitFresh x) = True"
| "fresh_task _ = False"

lemma calm_set_task:
  "\<not> fresh_task t \<Longrightarrow> quiet (dx_ops d) (dx_ops e) \<Longrightarrow> dx_tasks e = dx_tasks d \<Longrightarrow> dx_next e = dx_next d \<Longrightarrow> calm d (set_task n t e)"
  by (auto simp: calm_def)

lemma calm_spawn: "\<not> fresh_task t \<Longrightarrow> calm d (spawn t d)"
  by (auto simp: calm_def spawn_def)

lemma calm_refl [simp]: "calm d d"
  by (simp add: calm_def)

lemma calm_same: "dx_ops e = dx_ops d \<Longrightarrow> dx_tasks e = dx_tasks d \<Longrightarrow> dx_next e = dx_next d \<Longrightarrow> calm d e"
  by (simp add: calm_def)

lemma answer_after_not_fresh [simp]: "\<not> fresh_task (answer_after key outcome x)"
  by (simp add: answer_after_def split: sum.split)

lemma lose_quiet: "lose now a cmd s = (outcome, s') \<Longrightarrow> quiet s s'"
  unfolding lose_def by (metis snd_conv markUncertain_quiet)

lemma resume_send_calm: "calm d (resume_send n now d)"
proof (cases "\<exists>a marked. js_get (dx_tasks d) n = Some (AwaitSend a marked)")
  case True
  then obtain a marked where "js_get (dx_tasks d) n = Some (AwaitSend a marked)" by blast
  then show ?thesis
    by (auto simp: resume_send_def Let_def intro!: calm_set_task split: option.split sum.split prod.split dest: lose_quiet)
next
  case False
  then have "resume_send n now d = d"
    by (auto simp: resume_send_def split: option.split task.split)
  then show ?thesis by simp
qed

lemma timer_calm: "calm d (timer n now d)"
proof (cases "\<exists>a cmd. js_get (dx_tasks d) n = Some (AwaitReply a cmd)")
  case True
  then obtain a cmd where "js_get (dx_tasks d) n = Some (AwaitReply a cmd)" by blast
  then show ?thesis
    by (auto simp: timer_def Let_def intro!: calm_set_task split: prod.split dest: lose_quiet)
next
  case False
  then have "timer n now d = d"
    by (auto simp: timer_def split: option.split task.split)
  then show ?thesis by simp
qed

lemma apply_message_quiet: "apply_message now m r cmd s = ((outcome, s'), x) \<Longrightarrow> quiet s s'"
  using complete_quiet reconcile_quiet accept_quiet markUncertain_quiet
  by (auto simp: apply_message_def Let_def split: control_body.splits control_error_code.splits if_splits
      dest!: arg_cong [where f = snd])

lemma resume_message_calm: "calm d (resume_message n now d)"
proof (cases "\<exists>m found. js_get (dx_tasks d) n = Some (HandleRead m found)")
  case True
  then obtain m found where "js_get (dx_tasks d) n = Some (HandleRead m found)" by blast
  then show ?thesis
    by (auto simp: resume_message_def intro!: calm_set_task split: option.split sum.split prod.split dest: apply_message_quiet)
next
  case False
  then have "resume_message n now d = d"
    by (auto simp: resume_message_def split: option.split task.split)
  then show ?thesis by simp
qed

lemma calm_trans_same: "calm d e \<Longrightarrow> dx_ops f = dx_ops e \<Longrightarrow> dx_next f = dx_next e \<Longrightarrow>
  (\<And>n x. js_get (dx_tasks f) n = Some (AwaitFresh x) \<Longrightarrow> js_get (dx_tasks e) n = Some (AwaitFresh x)) \<Longrightarrow> calm d f"
  by (simp add: calm_def)

lemma settle_simps:
  "dx_ops (settle key x d) = dx_ops d" "dx_next (settle key x d) = dx_next d"
  "js_get (dx_tasks (settle key x d)) n = Some (AwaitFresh y) \<Longrightarrow> js_get (dx_tasks d) n = Some (AwaitFresh y)"
  by (auto simp: settle_def split: option.splits if_splits)

lemma resume_acknowledge_calm: "calm d (resume_acknowledge n d)"
proof (cases "\<exists>m r x. js_get (dx_tasks d) n = Some (HandleAcknowledge m r x)")
  case True
  then obtain m r x where t: "js_get (dx_tasks d) n = Some (HandleAcknowledge m r x)" by blast
  obtain res ss where ack: "acknowledgeControl (ownerUserId (identity r)) m (dx_sessions d) = (res, ss)" by fastforce
  have first: "calm d (set_task n (Done e) (d\<lparr>dx_sessions := ss\<rparr>))" for e
    by (rule calm_set_task) simp_all
  show ?thesis
    using t ack first calm_trans_same [OF first settle_simps]
    by (cases res; cases x) (simp_all add: resume_acknowledge_def Let_def)
next
  case False
  then have "resume_acknowledge n d = d"
    by (auto simp: resume_acknowledge_def split: option.split task.split)
  then show ?thesis by simp
qed

lemma resume_rebind_calm: "calm d (resume_rebind n d)"
proof (cases "\<exists>g rs. js_get (dx_tasks d) n = Some (Recover g rs)")
  case True
  then obtain g rs where t: "js_get (dx_tasks d) n = Some (Recover g rs)" by blast
  have quiet: "quiet s s'" if "rebindSession i s = (res, s')" for i s res s'
    using rebind_quiet [of s i] that by simp
  show ?thesis
    using t by (cases rs) (auto simp: resume_rebind_def intro!: calm_set_task split: option.split sum.split prod.split dest: quiet)
next
  case False
  then have "resume_rebind n d = d"
    by (auto simp: resume_rebind_def split: option.split task.split)
  then show ?thesis by simp
qed

lemma resume_recover_send_calm: "calm d (resume_recover_send n d)"
proof (cases "\<exists>g q cmd rs. js_get (dx_tasks d) n = Some (RecoverSend g q cmd rs)")
  case True
  then show ?thesis
    by (auto simp: resume_recover_send_def intro!: calm_set_task split: sum.split prod.split)
next
  case False
  then have "resume_recover_send n d = d"
    by (auto simp: resume_recover_send_def split: option.split task.split)
  then show ?thesis by simp
qed

lemma reject_calm: "calm d (fold reject_waiting ps d)"
proof (induction ps arbitrary: d)
  case (Cons p ps)
  obtain k n where p: "p = (k, n)" by force
  have first: "calm d (reject_waiting p d)"
    by (simp add: reject_waiting_def p calm_set_task)
  have "js_get (dx_tasks (reject_waiting p d)) n = Some (AwaitFresh x)"
    if "js_get (dx_tasks (fold reject_waiting ps (reject_waiting p d))) n = Some (AwaitFresh x)" for n x
    using Cons.IH [of "reject_waiting p d"] that by (simp add: calm_def)
  then have "calm d (fold reject_waiting ps (reject_waiting p d))"
    by (rule calm_trans_same [OF first, rotated 2]) simp_all
  then show ?case by simp
qed simp

lemma close_calm: "calm d (close_dispatcher d)"
  by (rule calm_trans_same [OF reject_calm [where ps = "dx_pending d"]]) (simp_all add: close_dispatcher_def)

lemma own_step_calm: "dispatcher_own c \<Longrightarrow> calm d (snd (dispatcher_step hash fp c d))"
proof (cases c)
  case (DMessage m)
  then show ?thesis by (simp add: begin_message_def calm_spawn)
next
  case (DRegistered g)
  then show ?thesis by (simp add: begin_recovery_def calm_spawn split: sum.split)
qed (simp_all add: resume_send_calm timer_calm resume_message_calm resume_acknowledge_calm resume_rebind_calm
    resume_recover_send_calm close_calm calm_same)

section \<open>The steps the service drives\<close>

lemma begin_dispatch_records:
  assumes "js_get (records (dx_ops (begin_dispatch now actor f r t d))) k = Some u"
  shows "js_get (records (dx_ops d)) k = Some u \<or>
    command u = None \<and> fingerprint u = f \<and> identity u = dispatch_identity actor r t"
proof -
  obtain res s where res: "reserve \<lparr>ri_fingerprint = f, ri_identity = dispatch_identity actor r t,
      ri_reservedAt = to_iso now, ri_reservedUntil = to_iso (now + reservationLeaseMs)\<rparr> (dx_ops d) = (res, s)"
    by fastforce
  then have "js_get (records s) k = Some u"
    using assms by (simp add: begin_dispatch_def Let_def spawn_def)
  with res show ?thesis
    by (auto simp: reserve_def Let_def new_record_def split: option.splits if_splits)
qed

lemma begin_dispatch_tasks:
  "dx_next (begin_dispatch now actor f r t d) = dx_next d + 1"
  "js_get (dx_tasks (begin_dispatch now actor f r t d)) n = Some (AwaitFresh x) \<Longrightarrow>
     js_get (dx_tasks d) n = Some (AwaitFresh x) \<or>
     n = dx_next d \<and> da_identity x = dispatch_identity actor r (da_target x)"
  by (auto simp: begin_dispatch_def Let_def spawn_def split: prod.splits reservation_result.splits option.splits if_splits)

lemma quiet_records:
  assumes "quiet s s'" "js_get (records s') k = Some u"
  shows "\<exists>r. js_get (records s) k = Some r \<and> fingerprint u = fingerprint r \<and> same_operation (identity u) (identity r) \<and>
    command u = command r"
  using assms(1)
proof cases
  case unchanged
  with assms(2) show ?thesis by auto
next
  case (updated r v)
  with assms(2) show ?thesis by (auto simp: evolves_def split: if_splits)
qed

lemma dispatch_records:
  assumes "js_get (records (snd (markDispatchAttempted i s))) k = Some u"
  shows "\<exists>r. js_get (records s) k = Some r \<and> fingerprint u = fingerprint r \<and> identity u = identity r \<and>
    (command u \<noteq> None \<longrightarrow> command r \<noteq> None \<or> identity r = dp_identity i)"
proof -
  obtain w t where w: "watermark_of (scope_key (dp_identity i)) s = (w, t)" by fastforce
  note same = watermark_records [OF w]
  show ?thesis
  proof (cases "exact (dp_fingerprint i) (dp_identity i) s")
    case (Inr q)
    with assms w same exact_Inr [OF Inr] show ?thesis
      by (cases "state q = Reserved") (auto simp: markDispatchAttempted_def Let_def split: if_splits)
  qed (use assms in \<open>simp add: markDispatchAttempted_def\<close>)
qed

lemma resume_fresh_tasks:
  "dx_next (resume_fresh n now v d) = dx_next d"
  "js_get (dx_tasks (resume_fresh n now v d)) m = Some (AwaitFresh x) \<Longrightarrow> js_get (dx_tasks d) m = Some (AwaitFresh x)"
  by (auto simp: resume_fresh_def Let_def answer_after_def split: option.splits task.splits prod.splits sum.splits if_splits)

lemma resume_fresh_records:
  assumes u: "js_get (records (dx_ops (resume_fresh n now v d))) k = Some u"
  shows "\<exists>r. js_get (records (dx_ops d)) k = Some r \<and> fingerprint u = fingerprint r \<and>
    same_operation (identity u) (identity r) \<and>
    (command u \<noteq> None \<longrightarrow> command r \<noteq> None \<or>
       (\<exists>x. js_get (dx_tasks d) n = Some (AwaitFresh x) \<and> v = Inr (da_target x) \<and> identity r = da_identity x))"
proof (cases "\<exists>x. js_get (dx_tasks d) n = Some (AwaitFresh x)")
  case True
  then obtain x where x: "js_get (dx_tasks d) n = Some (AwaitFresh x)" ..
  show ?thesis
  proof (cases "v = Inr (da_target x)")
    case True
    obtain i res s where i: "markDispatchAttempted i (dx_ops d) = (res, s)" "dp_identity i = da_identity x"
        "dx_ops (resume_fresh n now v d) = s"
      using x True by (cases "fst (markDispatchAttempted \<lparr>dp_commandId = rq_operationId (da_request x), dp_dispatchedAt = to_iso now,
          dp_dispatchedUntil = to_iso (now + dispatchLeaseMs), dp_fingerprint = da_fingerprint x,
          dp_identity = da_identity x\<rparr> (dx_ops d))")
        (fastforce simp: resume_fresh_def split: prod.splits)+
    with u dispatch_records [of i "dx_ops d" k u] x True show ?thesis by auto
  next
    case False
    then have refused: "\<not> (case v of Inl _ \<Rightarrow> False | Inr t \<Rightarrow> target_text t = target_text (da_target x))"
      by (cases v) auto
    have fail: "quiet s s'" if "failReserved i s = (res, s')" for i s res s'
      using failReserved_quiet [of s i] that by simp
    have "quiet (dx_ops d) (dx_ops (resume_fresh n now v d))"
      using x refused by (auto simp: resume_fresh_def Let_def split: prod.split intro: fail)
    with quiet_records [OF _ u] show ?thesis by fastforce
  qed
next
  case False
  then have "resume_fresh n now v d = d"
    by (auto simp: resume_fresh_def split: option.split task.split)
  with u show ?thesis by simp
qed

section \<open>The history behind a call\<close>

abbreviation run_system ::
    "(string \<Rightarrow> string) \<Rightarrow> (string \<Rightarrow> string) \<Rightarrow> (runtime_event \<Rightarrow> string) \<Rightarrow> system_call list \<Rightarrow> control_system" where
  "run_system sha hash fp calls \<equiv> run_state (system_step sha hash fp) calls empty_system"

definition resolved_at ::
    "(system_call list \<Rightarrow> control_system) \<Rightarrow> system_call list \<Rightarrow> nat \<Rightarrow> service_args \<Rightarrow> control_target \<Rightarrow> bool" where
  "resolved_at run calls k a t \<longleftrightarrow> (\<exists>before snapshot after. calls = before @ XResolve k snapshot # after \<and>
     resolve_now snapshot a (run before) = Some t)"

definition granted ::
    "(system_call list \<Rightarrow> control_system) \<Rightarrow> system_call list \<Rightarrow> service_args \<Rightarrow> control_target \<Rightarrow> bool" where
  "granted run calls a t \<longleftrightarrow> (\<exists>before k snapshot between readings after.
     calls = before @ XResolve k snapshot # between @ XAuthorize k readings # after \<and>
     resolve_now snapshot a (run before) = Some t \<and> authorize readings (sa_actor a) (args_input a) (Some t))"

lemma resolved_at_snoc: "resolved_at run calls k a t \<Longrightarrow> resolved_at run (calls @ [c]) k a t"
proof -
  assume "resolved_at run calls k a t"
  then obtain before snapshot after where "calls = before @ XResolve k snapshot # after"
    "resolve_now snapshot a (run before) = Some t"
    by (auto simp: resolved_at_def)
  then show ?thesis
    unfolding resolved_at_def by (intro exI [of _ before] exI [of _ snapshot] exI [of _ "after @ [c]"]) simp
qed

lemma resolved_at_last: "resolve_now snapshot a (run calls) = Some t \<Longrightarrow> resolved_at run (calls @ [XResolve k snapshot]) k a t"
  unfolding resolved_at_def by blast

lemma granted_snoc:
  assumes "granted run calls a t"
  shows "granted run (calls @ [c]) a t"
proof -
  obtain before k snapshot between readings after where
    "calls = before @ XResolve k snapshot # between @ XAuthorize k readings # after"
    "resolve_now snapshot a (run before) = Some t" "authorize readings (sa_actor a) (args_input a) (Some t)"
    using assms by (auto simp: granted_def)
  then show ?thesis
    unfolding granted_def
    by (intro exI [of _ before] exI [of _ k] exI [of _ snapshot] exI [of _ between] exI [of _ readings] exI [of _ "after @ [c]"]) simp
qed

lemma granted_last:
  assumes "resolved_at run calls k a t" "authorize readings (sa_actor a) (args_input a) (Some t)"
  shows "granted run (calls @ [XAuthorize k readings]) a t"
proof -
  obtain before snapshot after where "calls = before @ XResolve k snapshot # after" "resolve_now snapshot a (run before) = Some t"
    using assms(1) by (auto simp: resolved_at_def)
  with assms(2) show ?thesis
    unfolding granted_def by (intro exI [of _ before] exI [of _ k] exI [of _ snapshot] exI [of _ after]) auto
qed

definition args_identity :: "service_args \<Rightarrow> control_target \<Rightarrow> operation_identity" where
  "args_identity a t = dispatch_identity (sa_actor a) (sq_request (sa_request a)) t"

definition args_valid :: "service_args \<Rightarrow> bool" where
  "args_valid a \<longleftrightarrow> valid_request (sq_request (sa_request a)) \<and>
     string_text (sq_revision (sa_request a)) = Some (rq_expectedTargetIdentityRevision (sq_request (sa_request a)))"

definition linked :: "dispatcher \<Rightarrow> service_args \<Rightarrow> nat \<Rightarrow> bool" where
  "linked d a n \<longleftrightarrow> n < dx_next d \<and>
     (\<forall>x. js_get (dx_tasks d) n = Some (AwaitFresh x) \<longrightarrow> da_identity x = args_identity a (da_target x))"

fun call_args :: "service_call \<Rightarrow> service_args option" where
  "call_args (ResolveFirst a) = Some a"
| "call_args (AuthorizeFirst a t) = Some a"
| "call_args (ResolveSecond a t) = Some a"
| "call_args (AuthorizeSecond a t) = Some a"
| "call_args (StartDispatch a t) = Some a"
| "call_args (ResolveFresh a t n) = Some a"
| "call_args (AuthorizeFresh a t n) = Some a"
| "call_args (FreshAnswer a n v) = Some a"
| "call_args c = None"

fun call_ok ::
    "(system_call list \<Rightarrow> control_system) \<Rightarrow> system_call list \<Rightarrow> dispatcher \<Rightarrow> nat \<Rightarrow> service_call \<Rightarrow> bool" where
  "call_ok run calls d k (ResolveFresh a t n) \<longleftrightarrow> linked d a n"
| "call_ok run calls d k (AuthorizeFresh a t n) \<longleftrightarrow> linked d a n \<and> resolved_at run calls k a t"
| "call_ok run calls d k (FreshAnswer a n v) \<longleftrightarrow> linked d a n \<and> (\<forall>t. v = Inr t \<longrightarrow> granted run calls a t)"
| "call_ok run calls d k c \<longleftrightarrow> True"

definition record_ok ::
    "(string \<Rightarrow> string) \<Rightarrow> (system_call list \<Rightarrow> control_system) \<Rightarrow> system_call list \<Rightarrow> operation_record \<Rightarrow> bool" where
  "record_ok sha run calls r \<longleftrightarrow>
     (\<exists>a t. args_valid a \<and> fingerprint r = request_fingerprint sha (sa_actor a) (sa_request a) \<and>
        same_operation (identity r) (args_identity a t)) \<and>
     (command r \<noteq> None \<longrightarrow> (\<exists>a t. granted run calls a t \<and> same_operation (identity r) (args_identity a t)))"

definition history_inv ::
    "(string \<Rightarrow> string) \<Rightarrow> (system_call list \<Rightarrow> control_system) \<Rightarrow> system_call list \<Rightarrow> control_system \<Rightarrow> bool" where
  "history_inv sha run calls y \<longleftrightarrow> dispatcher_inv (cs_dispatcher y) \<and>
     (\<forall>k c. js_get (cs_calls y) k = Some c \<longrightarrow> call_ok run calls (cs_dispatcher y) k c \<and> pred_option args_valid (call_args c)) \<and>
     (\<forall>k r. js_get (records (dx_ops (cs_dispatcher y))) k = Some r \<longrightarrow> record_ok sha run calls r)"

lemma history_invD:
  assumes "history_inv sha run calls y"
  shows "dispatcher_inv (cs_dispatcher y)"
    "js_get (cs_calls y) k = Some c \<Longrightarrow> call_ok run calls (cs_dispatcher y) k c"
    "js_get (cs_calls y) k = Some c \<Longrightarrow> pred_option args_valid (call_args c)"
    "js_get (records (dx_ops (cs_dispatcher y))) j = Some r \<Longrightarrow> record_ok sha run calls r"
  using assms by (auto simp: history_inv_def)

lemma call_ok_snoc:
  "call_ok run calls d k c \<Longrightarrow> dx_next d \<le> dx_next d' \<Longrightarrow>
   (\<And>n x. n < dx_next d \<Longrightarrow> js_get (dx_tasks d') n = Some (AwaitFresh x) \<Longrightarrow> js_get (dx_tasks d) n = Some (AwaitFresh x)) \<Longrightarrow>
   call_ok run (calls @ [x]) d' k c"
  by (cases c) (auto simp: linked_def intro: resolved_at_snoc granted_snoc)

lemma record_ok_snoc: "record_ok sha run calls r \<Longrightarrow> record_ok sha run (calls @ [c]) r"
  unfolding record_ok_def by (blast intro: granted_snoc)

lemma record_ok_same:
  assumes "record_ok sha run calls r" "fingerprint u = fingerprint r" "same_operation (identity u) (identity r)"
    and "command u \<noteq> None \<Longrightarrow> command r \<noteq> None \<or> (\<exists>a t. granted run calls a t \<and> same_operation (identity u) (args_identity a t))"
  shows "record_ok sha run calls u"
  using assms unfolding record_ok_def by (metis same_operation_trans)

lemma history_dispatcher:
  assumes inv: "history_inv sha run calls y" and d: "dispatcher_inv d" "dx_next (cs_dispatcher y) \<le> dx_next d"
    and tasks: "\<And>n x. n < dx_next (cs_dispatcher y) \<Longrightarrow> js_get (dx_tasks d) n = Some (AwaitFresh x) \<Longrightarrow>
      js_get (dx_tasks (cs_dispatcher y)) n = Some (AwaitFresh x)"
    and records: "\<And>k u. js_get (records (dx_ops d)) k = Some u \<Longrightarrow> record_ok sha run (calls @ [c]) u"
  shows "history_inv sha run (calls @ [c]) (y\<lparr>cs_dispatcher := d\<rparr>)"
  using history_invD(2,3) [OF inv] call_ok_snoc [OF _ d(2) tasks] d(1) records
  by (simp add: history_inv_def)

lemma history_snoc: "history_inv sha run calls y \<Longrightarrow> history_inv sha run (calls @ [c]) y"
  using history_dispatcher [of sha run calls y "cs_dispatcher y" c] record_ok_snoc
  by (auto simp: history_inv_def)

lemma history_set_call:
  assumes "history_inv sha run calls y" "call_ok run calls (cs_dispatcher y) k c" "pred_option args_valid (call_args c)"
  shows "history_inv sha run calls (set_call k c y)"
  using assms by (auto simp: history_inv_def set_call_def)

lemma history_add_call:
  assumes "history_inv sha run calls y" "call_ok run calls (cs_dispatcher y) (cs_next y) c" "pred_option args_valid (call_args c)"
  shows "history_inv sha run calls (add_call c y)"
  using history_set_call [OF assms] by (simp add: history_inv_def add_call_def)

lemma XExecute_history:
  assumes inv: "history_inv sha run calls y" and now: "run calls = y" and XExecute: "c = XExecute actor raw"
  shows "history_inv sha run (calls @ [c]) (snd (system_step sha hash fp c y))"
proof -
  let ?call = "case validate raw of
        None \<Rightarrow> ServiceAnswered (Inl (ControlFailure InvalidRequestError))
      | Some r \<Rightarrow>
          if \<not> authorize \<lparr>rd_execution = None, rd_workspace = None\<rparr> actor
               (canonicalRuntimeControlSafeInput (sq_request r)) None
          then ServiceAnswered (Inl denied)
          else (case replay_operation actor (request_fingerprint sha actor r) (sq_request r)
                  (dx_ops (cs_dispatcher y)) of
              ReplayConflict \<Rightarrow> ServiceAnswered (Inl (ControlFailure OperationConflict))
            | ReplayInProgress \<Rightarrow> ServiceAnswered (Inl (ControlFailure OperationInProgress))
            | ReplayResult res \<Rightarrow> ServiceAnswered (Inr res)
            | ReplayNone \<Rightarrow> ResolveFirst \<lparr>sa_actor = actor, sa_request = r\<rparr>)"
  have "call_ok run' calls' d k ?call \<and> pred_option args_valid (call_args ?call)" for run' calls' d k
    by (auto simp: args_valid_def validate_SomeD split: option.split replay.split)
  then show ?thesis
    using history_add_call [OF history_snoc [OF inv]] by (simp add: XExecute begin_execute_def)
qed

lemma XResolve_history:
  assumes inv: "history_inv sha run calls y" and now: "run calls = y" and XResolve: "c = XResolve k snapshot"
  shows "history_inv sha run (calls @ [c]) (snd (system_step sha hash fp c y))"
proof -
  show ?thesis
  proof (cases "\<exists>call a. js_get (cs_calls y) k = Some call \<and> resolving call = Some a")
    case True
    then obtain call a where call: "js_get (cs_calls y) k = Some call" "resolving call = Some a" by blast
    have last: "resolve_now snapshot a y = Some t \<Longrightarrow> resolved_at run (calls @ [c]) k a t" for t
      using resolved_at_last [of snapshot a run calls t k] by (simp add: now XResolve)
    have ok: "call_ok run (calls @ [c]) (cs_dispatcher y) k call" "pred_option args_valid (call_args call)"
      using history_invD(2,3) [OF history_snoc [OF inv] call(1)] by simp_all
    have "call_ok run (calls @ [c]) (cs_dispatcher y) k (resolved_call call (resolve_now snapshot a y)) \<and>
        pred_option args_valid (call_args (resolved_call call (resolve_now snapshot a y)))"
      using call(2) ok last by (cases call; cases "resolve_now snapshot a y") auto
    with call history_set_call [OF history_snoc [OF inv]] show ?thesis
      by (simp add: XResolve resume_resolve_def)
  next
    case False
    then have "resume_resolve k snapshot y = y"
      by (auto simp: resume_resolve_def split: option.split)
    with history_snoc [OF inv] show ?thesis by (simp add: XResolve)
  qed
qed

lemma XAuthorize_history:
  assumes inv: "history_inv sha run calls y" and now: "run calls = y" and XAuthorize: "c = XAuthorize k readings"
  shows "history_inv sha run (calls @ [c]) (snd (system_step sha hash fp c y))"
proof -
  show ?thesis
  proof (cases "js_get (cs_calls y) k")
    case (Some call)
    have last: "resolved_at run calls k a t \<Longrightarrow> authorize readings (sa_actor a) (args_input a) (Some t) \<Longrightarrow>
        granted run (calls @ [c]) a t" for a t
      using granted_last [of run calls k a t readings] by (simp add: XAuthorize)
    have "call_ok run (calls @ [c]) (cs_dispatcher y) k (authorized_call call readings) \<and>
        pred_option args_valid (call_args (authorized_call call readings))"
      using history_invD(2,3) [OF inv Some] history_invD(2) [OF history_snoc [OF inv] Some] last
      by (cases call) auto
    with Some history_set_call [OF history_snoc [OF inv]] show ?thesis
      by (simp add: XAuthorize resume_authorize_def)
  next
    case None
    with history_snoc [OF inv] show ?thesis by (simp add: XAuthorize resume_authorize_def)
  qed
qed

lemma XDispatch_history:
  assumes inv: "history_inv sha run calls y" and now: "run calls = y" and XDispatch: "c = XDispatch k now"
  shows "history_inv sha run (calls @ [c]) (snd (system_step sha hash fp c y))"
proof -
  show ?thesis
  proof (cases "\<exists>a t. js_get (cs_calls y) k = Some (StartDispatch a t)")
    case True
    then obtain a t where call: "js_get (cs_calls y) k = Some (StartDispatch a t)" by blast
    let ?f = "request_fingerprint sha (sa_actor a) (sa_request a)"
    let ?d = "begin_dispatch now (sa_actor a) ?f (sq_request (sa_request a)) t (cs_dispatcher y)"
    let ?n = "dx_next (cs_dispatcher y)"
    have valid: "args_valid a" using history_invD(3) [OF inv call] by simp
    note tasks = begin_dispatch_tasks [of now "sa_actor a" ?f "sq_request (sa_request a)" t "cs_dispatcher y"]
    have "history_inv sha run (calls @ [c]) (y\<lparr>cs_dispatcher := ?d\<rparr>)"
    proof (rule history_dispatcher [OF inv])
      show "dispatcher_inv ?d" using history_invD(1) [OF inv] by (rule begin_dispatch_inv)
      show "js_get (dx_tasks (cs_dispatcher y)) n = Some (AwaitFresh x)"
        if "n < ?n" "js_get (dx_tasks ?d) n = Some (AwaitFresh x)" for n x
        using tasks(2) [OF that(2)] that(1) by auto
      show "record_ok sha run (calls @ [c]) u" if "js_get (records (dx_ops ?d)) j = Some u" for j u
        using begin_dispatch_records [OF that]
      proof
        assume "js_get (records (dx_ops (cs_dispatcher y))) j = Some u"
        then show ?thesis by (intro record_ok_snoc history_invD(4) [OF inv])
      next
        assume "command u = None \<and> fingerprint u = ?f \<and>
          identity u = dispatch_identity (sa_actor a) (sq_request (sa_request a)) t"
        with valid show ?thesis
          by (auto simp: record_ok_def args_identity_def intro!: exI [of _ a] exI [of _ t])
      qed
    qed (simp add: tasks(1))
    moreover have "linked ?d a ?n"
      using tasks dispatcher_invD(6) [OF history_invD(1) [OF inv]] by (fastforce simp: linked_def args_identity_def)
    ultimately show ?thesis
      using valid call by (auto simp: XDispatch resume_dispatch_def Let_def intro!: history_set_call)
  next
    case False
    then have "resume_dispatch sha k now y = y"
      by (auto simp: resume_dispatch_def split: option.split service_call.split)
    with history_snoc [OF inv] show ?thesis by (simp add: XDispatch)
  qed
qed

lemma XFresh_history:
  assumes inv: "history_inv sha run calls y" and now: "run calls = y" and XFresh: "c = XFresh k now"
  shows "history_inv sha run (calls @ [c]) (snd (system_step sha hash fp c y))"
proof -
  show ?thesis
  proof (cases "\<exists>a n v. js_get (cs_calls y) k = Some (FreshAnswer a n v)")
    case True
    then obtain a n v where call: "js_get (cs_calls y) k = Some (FreshAnswer a n v)" by blast
    let ?d = "resume_fresh n now v (cs_dispatcher y)"
    have ok: "linked (cs_dispatcher y) a n" "v = Inr t \<Longrightarrow> granted run calls a t" for t
      using history_invD(2) [OF inv call] by simp_all
    have "history_inv sha run (calls @ [c]) (y\<lparr>cs_dispatcher := ?d\<rparr>)"
    proof (rule history_dispatcher [OF inv])
      show "dispatcher_inv ?d" using history_invD(1) [OF inv] by (rule resume_fresh_inv)
      show "record_ok sha run (calls @ [c]) u" if u: "js_get (records (dx_ops ?d)) j = Some u" for j u
      proof -
        obtain r where r: "js_get (records (dx_ops (cs_dispatcher y))) j = Some r" "fingerprint u = fingerprint r"
            "same_operation (identity u) (identity r)"
            "command u \<noteq> None \<longrightarrow> command r \<noteq> None \<or> (\<exists>x. js_get (dx_tasks (cs_dispatcher y)) n = Some (AwaitFresh x) \<and>
               v = Inr (da_target x) \<and> identity r = da_identity x)"
          using resume_fresh_records [OF u] by blast
        have "record_ok sha run calls u"
        proof (rule record_ok_same [OF history_invD(4) [OF inv r(1)] r(2,3)])
          assume "command u \<noteq> None"
          with r(3,4) ok show "command r \<noteq> None \<or> (\<exists>a t. granted run calls a t \<and> same_operation (identity u) (args_identity a t))"
            by (metis linked_def)
        qed
        then show ?thesis by (rule record_ok_snoc)
      qed
    qed (simp only: resume_fresh_tasks(1) order_refl, erule resume_fresh_tasks(2))
    with call show ?thesis
      by (auto simp: XFresh resume_fresh_answer_def intro!: history_set_call)
  next
    case False
    then have "resume_fresh_answer k now y = y"
      by (auto simp: resume_fresh_answer_def split: option.split service_call.split)
    with history_snoc [OF inv] show ?thesis by (simp add: XFresh)
  qed
qed

lemma XDispatcher_history:
  assumes inv: "history_inv sha run calls y" and now: "run calls = y" and XDispatcher: "c = XDispatcher b"
  shows "history_inv sha run (calls @ [c]) (snd (system_step sha hash fp c y))"
proof -
  show ?thesis
  proof (cases "dispatcher_own b")
    case True
    let ?d = "snd (dispatcher_step hash fp b (cs_dispatcher y))"
    have calm: "calm (cs_dispatcher y) ?d" using True by (rule own_step_calm)
    have "history_inv sha run (calls @ [c]) (y\<lparr>cs_dispatcher := ?d\<rparr>)"
    proof (rule history_dispatcher [OF inv])
      show "dispatcher_inv ?d" using history_invD(1) [OF inv] by (rule dispatcher_step_inv)
      show "record_ok sha run (calls @ [c]) u" if u: "js_get (records (dx_ops ?d)) j = Some u" for j u
      proof -
        obtain r where r: "js_get (records (dx_ops (cs_dispatcher y))) j = Some r" "fingerprint u = fingerprint r"
            "same_operation (identity u) (identity r)" "command u = command r"
          using quiet_records [OF _ u, of "dx_ops (cs_dispatcher y)"] calm unfolding calm_def by blast
        then show ?thesis
          by (intro record_ok_snoc record_ok_same [OF history_invD(4) [OF inv r(1)] r(2,3)]) simp
      qed
    qed (use calm in \<open>auto simp: calm_def\<close>)
    with True show ?thesis by (simp add: XDispatcher)
  next
    case False
    with history_snoc [OF inv] show ?thesis by (simp add: XDispatcher)
  qed
qed

lemma system_step_history:
  assumes "history_inv sha run calls y" and "run calls = y"
  shows "history_inv sha run (calls @ [c]) (snd (system_step sha hash fp c y))"
  using XExecute_history [OF assms] XResolve_history [OF assms] XAuthorize_history [OF assms] XDispatch_history [OF assms] XFresh_history [OF assms] XDispatcher_history [OF assms]
  by (cases c) (simp_all only:)

lemma run_history: "history_inv sha (run_system sha hash fp) calls (run_system sha hash fp calls)"
proof (induction calls rule: rev_induct)
  case Nil
  then show ?case by (simp add: history_inv_def empty_system_def) (simp add: empty_dispatcher_def empty_store_def)
next
  case (snoc c calls)
  from system_step_history [OF snoc refl, of c hash fp] show ?case
    by (simp add: run_state_append)
qed

section \<open>Safety\<close>

lemma granted_command:
  assumes granted: "granted run calls a t" and same: "same_operation i (args_identity a t)"
    and c: "sessionless c = sessionless (createStoredCommand i n)"
  shows "ca_actorId (sa_actor a) = cb_actorId c \<and> ca_actorKind (sa_actor a) = cb_actorKind c \<and>
    ca_ownerUserId (sa_actor a) = cb_actorUserId c \<and> args_input a = cc_input c \<and>
    rq_operationId (sq_request (sa_request a)) = cb_operationId c \<and>
    tg_environmentId t = cb_environmentId c \<and> tg_generation t = control_binding.cb_generation c \<and>
    tg_targetIdentityRevision t = cb_targetIdentityRevision c \<and> tg_workspaceId t = cb_workspaceId c"
proof -
  have "sessionless c = sessionless (createStoredCommand (args_identity a t) n)"
    using c same_operation_command [OF same] by simp
  then have fields: "f (sessionless c) = f (sessionless (createStoredCommand (args_identity a t) n))"
    for f :: "control_command \<Rightarrow> 'a" by (rule arg_cong)
  show ?thesis
    using fields [of cb_actorId] fields [of cb_actorKind] fields [of cb_actorUserId] fields [of cc_input]
      fields [of cb_operationId] fields [of cb_environmentId] fields [of control_binding.cb_generation]
      fields [of cb_targetIdentityRevision] fields [of cb_workspaceId]
    by (simp add: sessionless_def createStoredCommand_def command_for_def args_identity_def dispatch_identity_def args_input_def)
qed

text \<open>
  A command that was authorized for its exact target: a call with its actor, operation identifier and input
  resolved a target with its environment, Workspace, generation and identity revision, over the inventory
  and the Runtime sessions of that moment, and then the authorizer allowed the actor the input for it.
\<close>

definition authorized_command ::
    "(system_call list \<Rightarrow> control_system) \<Rightarrow> system_call list \<Rightarrow> control_command \<Rightarrow> bool" where
  "authorized_command run calls c \<longleftrightarrow> (\<exists>before k snapshot between readings after r t.
     calls = before @ XResolve k snapshot # between @ XAuthorize k readings # after \<and>
     resolveCanonicalRuntimeControlTarget snapshot
       (service_list (cb_actorUserId c) (dx_sessions (cs_dispatcher (run before)))) r = Some t \<and>
     authorize readings \<lparr>ca_actorId = cb_actorId c, ca_actorKind = cb_actorKind c, ca_ownerUserId = cb_actorUserId c\<rparr>
       (cc_input c) (Some t) \<and>
     rq_input (sq_request r) = cc_input c \<and> rq_operationId (sq_request r) = cb_operationId c \<and>
     tg_environmentId t = cb_environmentId c \<and> tg_generation t = control_binding.cb_generation c \<and>
     tg_targetIdentityRevision t = cb_targetIdentityRevision c \<and> tg_workspaceId t = cb_workspaceId c)"

lemma granted_authorized:
  assumes granted: "granted run calls a t" and same: "same_operation i (args_identity a t)"
    and c: "sessionless c = sessionless (createStoredCommand i n)"
  shows "authorized_command run calls c"
proof -
  note fields = granted_command [OF assms]
  have actor: "sa_actor a = \<lparr>ca_actorId = cb_actorId c, ca_actorKind = cb_actorKind c, ca_ownerUserId = cb_actorUserId c\<rparr>"
    using fields by (intro control_actor.equality) simp_all
  obtain before k snapshot between readings after where g:
    "calls = before @ XResolve k snapshot # between @ XAuthorize k readings # after"
    "resolve_now snapshot a (run before) = Some t"
    "authorize readings (sa_actor a) (args_input a) (Some t)"
    using granted by (auto simp: granted_def)
  have "resolveCanonicalRuntimeControlTarget snapshot
      (service_list (cb_actorUserId c) (dx_sessions (cs_dispatcher (run before)))) (sa_request a) = Some t"
    using g(2) fields by (simp add: resolve_now_def)
  moreover have "authorize readings \<lparr>ca_actorId = cb_actorId c, ca_actorKind = cb_actorKind c,
      ca_ownerUserId = cb_actorUserId c\<rparr> (cc_input c) (Some t)"
    using g(3) fields by (simp add: actor)
  moreover have "rq_input (sq_request (sa_request a)) = cc_input c"
    using fields by (simp add: args_input_def canonicalRuntimeControlSafeInput_def)
  ultimately show ?thesis
    unfolding authorized_command_def using g(1) fields by blast
qed

text \<open>C1: Over every interleaving, a control command on the wire was authorized for its exact target by steps
  that came before it; commands retried and recovered after a reconnection are included.\<close>

theorem control_commands_authorized:
  "list_all (authorized_command (run_system sha hash fp) calls)
    (sent_commands (rs_wire (dx_sessions (cs_dispatcher (run_system sha hash fp calls)))))"
  unfolding list_all_iff
proof
  let ?y = "run_system sha hash fp calls"
  fix c
  assume c: "c \<in> set (sent_commands (rs_wire (dx_sessions (cs_dispatcher ?y))))"
  note inv = run_history [of sha hash fp calls]
  obtain r cmd where r: "js_get (records (dx_ops (cs_dispatcher ?y))) (recordKey (cb_actorUserId c) (cb_operationId c)) = Some r"
      "command r = Some cmd" "sessionless c = sessionless (createStoredCommand (identity r) (cb_commandSequence c))"
    by (rule sent_record [OF history_invD(1) [OF inv] c])
  then show "authorized_command (run_system sha hash fp) calls c"
    using history_invD(4) [OF inv r(1)] granted_authorized by (auto simp: record_ok_def)
qed


end
