(* ===== verification/ControlServiceRun.thy ===== *)
theory ControlServiceRun
  imports ControlServiceProperties
begin

text \<open>
  A concrete run of the service of the canonical Runtime control, from the registration of a Runtime to the
  command on its connection, and the concrete inputs of the theorems on requests and targets.
\<close>

section \<open>A run\<close>

text \<open>A Runtime registers and reports that it runs; a call is made, authorized and reserved.\<close>

definition demo_service_environment :: compute_environment where
  "demo_service_environment = \<lparr>ce_environmentDefinitionId = ''d1'', ce_hostAssociation = UnresolvedHost, ce_id = demo_uuid_1,
     ce_identity = \<lparr>dk_key = ''abcdefgh'', dk_version = 1\<rparr>, ce_identityConflict = False, ce_kind = Docker,
     ce_name = ''Box'', ce_ownerUserId = None, ce_parentEnvironmentId = None, ce_platformId = ''p'',
     ce_resourceMode = Shared, ce_resources = None\<rparr>"

definition demo_docker :: environment_definition where
  "demo_docker = definition_blueprint.extend (builtInEnvironmentDefinition Docker) (environment_definition.fields ''d1'' None)"

definition demo_compute :: compute_snapshot where
  "demo_compute = (\<lparr>in_connectors = [], in_environmentDefinitions = [demo_docker], in_environments = [demo_service_environment],
     in_hosts = [], in_platforms = [\<lparr>pl_id = ''p'', pl_kind = LocalPlatform, pl_name = ''Local''\<rparr>]\<rparr>, [])"

definition demo_readings :: task_readings where
  "demo_readings = \<lparr>rd_execution = None, rd_workspace = None\<rparr>"

definition demo_service_args :: service_args where
  "demo_service_args = \<lparr>sa_actor = demo_actor,
     sa_request = \<lparr>sq_request = demo_request, sq_revision = VStr ''1:abcdefgh''\<rparr>\<rparr>"

definition demo_running :: "(string \<Rightarrow> string) \<Rightarrow> (runtime_event \<Rightarrow> string) \<Rightarrow> runtime_service" where
  "demo_running hash fp = snd (service_append fp 2000 demo_control_scope ''s1'' demo_event (demo_sessions hash))"

definition demo_service_target :: control_target where
  "demo_service_target = demo_target\<lparr>tg_commit := replicate 40 (CHR ''a''), tg_manifestDigest := replicate 64 (CHR ''b'')\<rparr>"

lemma demo_control_registered:
  "sessions (rs_store (demo_sessions hash)) = [(runtimeKey ''u'' demo_uuid_1,
     \<lparr>se_credentialId = ''c1'', se_events = [], se_snapshot = new_snapshot demo_control_scope ''s1'' (to_iso 1000) demo_control_registration\<rparr>)]"
  "requireCurrent 2000 demo_control_scope (rs_store (demo_sessions hash)) = None"
  "credentials (rs_store (demo_sessions hash)) = credentials (demo_issued hash)"
  by (simp_all add: demo_sessions_def service_register_def register_def requireCurrent_def demo_issued_current
      registration_changed_def Let_def js_set_def scope_runtimeKey_def max_time_def ready_refused_def
      ready_capabilities_def codex_ready_def control_ready_def resume_refused_def demo_control_scope_def
      demo_control_registration_def empty_service_def close_replaced_def)
    (simp_all add: RuntimeProperties.demo_scope_def demo_registration_def max_time_def)

lemma demo_credentials:
  "\<exists>k c. credentials (demo_issued hash) = [(k, c)] \<and> sc_credentialId c = ''c1'' \<and> sc_ownerUserId c = ''u''"
proof -
  have "token_pattern (replicate 43 (CHR ''t''))"
    by (simp add: token_pattern_def class_rep_def list_all_iff is_alnum_def is_digit_def in_range_def)
  then show ?thesis
    by (simp add: demo_issued_def issue_def demo_valid Let_def demo_draw_def empty_runtime_def
        previous_credential_def previous_blocks_def revoke_previous_def new_credential_def)
      (simp add: demo_issue_def js_set_def credential_scope.defs)
qed

definition demo_control_snapshot :: runtime_snapshot where
  "demo_control_snapshot = new_snapshot demo_control_scope ''s1'' (to_iso 1000) demo_control_registration"

lemma demo_running_store:
  "rs_store (demo_running hash fp) = (rs_store (demo_sessions hash))\<lparr>sessions := [(runtimeKey ''u'' demo_uuid_1,
     \<lparr>se_credentialId = ''c1'', se_events = [(re_eventId demo_event, \<lparr>er_event = demo_event, er_fingerprint = fp demo_event\<rparr>)],
      se_snapshot = demo_control_snapshot\<lparr>sn_connectionState := Online, sn_lastEventAt := to_iso 2000,
        sn_lastSequence := 1, sn_lifecycleState := lifecycle_state.Running\<rparr>\<rparr>)]\<rparr> \<and>
     rs_connections (demo_running hash fp) = rs_connections (demo_sessions hash) \<and>
     rs_wire (demo_running hash fp) = rs_wire (demo_sessions hash)"
proof -
  have "scope_runtimeKey demo_control_scope = runtimeKey ''u'' demo_uuid_1" "sc_credentialId demo_control_scope = ''c1''"
    "sc_generation demo_control_scope = demo_uuid_1" "CapLifecycle \<in> set (sc_capabilities demo_control_scope)"
    by (simp_all add: demo_control_scope_def RuntimeProperties.demo_scope_def scope_runtimeKey_def)
  moreover have "sn_generation demo_control_snapshot = demo_uuid_1" "sn_sessionId demo_control_snapshot = ''s1''"
    "sn_lifecycleState demo_control_snapshot = Starting" "sn_connectionState demo_control_snapshot = Online"
    "sn_lastSequence demo_control_snapshot = 0"
    by (simp_all add: demo_control_snapshot_def new_snapshot_def demo_control_scope_def RuntimeProperties.demo_scope_def)
  moreover have "re_body demo_event = LifecycleEvent lifecycle_state.Running" "re_sequence demo_event = 1"
    "re_observedAt demo_event = to_iso 2000"
    by (simp_all add: demo_event_def)
  ultimately show ?thesis
    by (simp add: demo_running_def service_append_def append_event_def demo_control_registered js_set_def
        demo_control_snapshot_def [symmetric] too_far_ahead_def max_time_def applyEvent_def validLifecycleTransition_def Let_def)
qed

lemma demo_service_list:
  "\<exists>s. service_list ''u'' (demo_running hash fp) = [s] \<and> sn_environmentId s = demo_uuid_1 \<and> sn_workspaceId s = demo_uuid_1 \<and>
     sn_generation s = demo_uuid_1 \<and> sn_connectionState s = Online \<and> sn_lifecycleState s = lifecycle_state.Running \<and>
     CapControl \<in> set (sn_capabilities s) \<and> sn_branch s = ''main'' \<and> sn_commit s = replicate 40 (CHR ''a'') \<and>
     sn_manifestDigest s = replicate 64 (CHR ''b'') \<and> sn_sessionId s = ''s1''"
proof -
  have owner: "ownerFor (rs_store (demo_running hash fp)) ''c1'' = Some ''u''"
    using demo_credentials [of hash]
    by (auto simp: ownerFor_def demo_running_store demo_control_registered js_values_def)
  have caps: "CapControl \<in> set (sc_capabilities (active_scope demo_control_scope demo_control_registration))"
    by (simp add: active_scope_def ready_capabilities_def demo_control_registration_def)
  have snapshot: "sn_environmentId demo_control_snapshot = demo_uuid_1" "sn_workspaceId demo_control_snapshot = demo_uuid_1"
    "sn_generation demo_control_snapshot = demo_uuid_1" "sn_branch demo_control_snapshot = ''main''"
    "sn_commit demo_control_snapshot = replicate 40 (CHR ''a'')" "sn_sessionId demo_control_snapshot = ''s1''"
    "sn_manifestDigest demo_control_snapshot = replicate 64 (CHR ''b'')"
    by (simp_all add: demo_control_snapshot_def new_snapshot_def demo_control_scope_def RuntimeProperties.demo_scope_def
        demo_control_registration_def demo_registration_def)
  have scope: "sc_generation (active_scope demo_control_scope demo_control_registration) = demo_uuid_1"
    by (simp add: active_scope_def demo_control_scope_def RuntimeProperties.demo_scope_def)
  have list: "list_sessions ''u'' (rs_store (demo_running hash fp)) = [demo_control_snapshot
      \<lparr>sn_connectionState := Online, sn_lastEventAt := to_iso 2000, sn_lastSequence := 1, sn_lifecycleState := lifecycle_state.Running\<rparr>]"
    using owner by (simp add: list_sessions_def js_values_def demo_running_store)
  obtain m where "rs_connections (demo_running hash fp) = [(workspaceKey ''u'' demo_uuid_1,
     \<lparr>cn_connection = 7, cn_codexAcceptedCommandSequence = 0,
      cn_scope = active_scope demo_control_scope demo_control_registration, cn_sessionId = ''s1''\<rparr>)]"
    using demo_registered_sessions [of hash] by (auto simp: demo_running_store)
  then show ?thesis
    by (simp add: service_list_def list snapshot scope caps)
qed

lemma demo_resolved:
  assumes "dx_sessions (cs_dispatcher y) = demo_running hash fp"
  shows "resolve_now demo_compute demo_service_args y = Some demo_service_target"
proof -
  obtain s where s: "service_list ''u'' (demo_running hash fp) = [s]" "sn_environmentId s = demo_uuid_1"
     "sn_workspaceId s = demo_uuid_1" "sn_generation s = demo_uuid_1" "sn_connectionState s = Online"
     "sn_lifecycleState s = lifecycle_state.Running" "CapControl \<in> set (sn_capabilities s)" "sn_branch s = ''main''"
     "sn_commit s = replicate 40 (CHR ''a'')" "sn_manifestDigest s = replicate 64 (CHR ''b'')" "sn_sessionId s = ''s1''"
    using demo_service_list [of hash fp] by blast
  have revision: "target_identity demo_service_environment = ''1:abcdefgh''" by code_simp
  have env: "snapshot_environment demo_compute demo_uuid_1 = Some demo_service_environment"
    by (simp add: snapshot_environment_def demo_compute_def only_match_def demo_service_environment_def)
  show ?thesis
    unfolding resolve_now_def resolve_target_iff
    by (rule exI [of _ demo_service_environment], rule exI [of _ s])
      (use env s revision in \<open>simp add: assms demo_service_args_def demo_actor_def demo_request_def only_match_def names_runtime_def
        runtime_usable_def needed_capability_def request_operation_def canonicalRuntimeControlAccessMode_def read_operations_def
        demo_compute_def host_resolved_def target_of_def present_host_def demo_service_target_def demo_target_def
        demo_service_environment_def\<close>)
qed

definition demo_register_steps :: "system_call list" where
  "demo_register_steps = map XDispatcher (demo_register_calls @ [DSession (RAppend 2000 demo_control_scope ''s1'' demo_event)])"

definition demo_execute_steps :: "system_call list" where
  "demo_execute_steps = [XExecute demo_actor (VObj (request_object demo_request)), XResolve 0 demo_compute,
     XAuthorize 0 demo_readings, XResolve 0 demo_compute, XAuthorize 0 demo_readings, XDispatch 0 3000]"

lemma demo_register_steps:
  "run_system sha hash fp demo_register_steps = empty_system\<lparr>cs_dispatcher := empty_dispatcher\<lparr>dx_sessions := demo_running hash fp\<rparr>\<rparr>"
proof -
  have "run_system sha hash fp (map XDispatcher calls) =
      empty_system\<lparr>cs_dispatcher := run_dispatcher hash fp calls\<rparr>" if "list_all dispatcher_own calls" for calls
    using that
    by (induction calls rule: rev_induct) (simp_all add: run_state_append empty_system_def)
  note this [of "demo_register_calls @ [DSession (RAppend 2000 demo_control_scope ''s1'' demo_event)]"]
  moreover have "list_all dispatcher_own demo_register_calls" by (simp add: demo_register_calls_def)
  ultimately show ?thesis
    by (simp add: demo_register_steps_def run_state_append demo_register_run demo_running_def)
qed

lemma demo_request_valid: "validate (VObj (request_object demo_request)) = Some (sa_request demo_service_args)"
proof -
  have "valid_request demo_request" by code_simp
  then show ?thesis
    by (simp add: validate_request_object) (simp add: demo_service_args_def demo_request_def)
qed

abbreviation demo_fingerprint :: "(string \<Rightarrow> string) \<Rightarrow> string" where
  "demo_fingerprint sha \<equiv> request_fingerprint sha demo_actor (sa_request demo_service_args)"

text \<open>The system with its one call at a point.\<close>

definition demo_at :: "(string \<Rightarrow> string) \<Rightarrow> (runtime_event \<Rightarrow> string) \<Rightarrow> service_call \<Rightarrow> control_system" where
  "demo_at hash fp c = \<lparr>cs_dispatcher = empty_dispatcher\<lparr>dx_sessions := demo_running hash fp\<rparr>, cs_calls = [(0, c)], cs_next = 1\<rparr>"

lemma demo_args: "sa_actor demo_service_args = demo_actor" "sq_request (sa_request demo_service_args) = demo_request"
  "\<lparr>sa_actor = demo_actor, sa_request = sa_request demo_service_args\<rparr> = demo_service_args"
  by (simp_all add: demo_service_args_def)

lemma demo_known: "actor_known demo_actor"
  by code_simp

lemma demo_authorized: "authorize r demo_actor GitStatusInput t"
  by (simp add: authorize_def demo_known split: option.split)

lemma demo_input: "canonicalRuntimeControlSafeInput demo_request = GitStatusInput" "args_input demo_service_args = GitStatusInput"
  by (simp_all add: args_input_def canonicalRuntimeControlSafeInput_def demo_args) (simp_all add: demo_request_def)

lemma demo_begin:
  "begin_execute sha demo_actor (VObj (request_object demo_request))
     (empty_system\<lparr>cs_dispatcher := empty_dispatcher\<lparr>dx_sessions := demo_running hash fp\<rparr>\<rparr>) =
   demo_at hash fp (ResolveFirst demo_service_args)"
proof -
  have "replay_operation demo_actor f demo_request (dx_ops (empty_dispatcher\<lparr>dx_sessions := s\<rparr>)) = ReplayNone" for f s
    by (simp add: replay_operation_def CanonicalStore.read_def empty_dispatcher_def empty_store_def)
  then show ?thesis
    by (simp add: begin_execute_def demo_request_valid demo_input demo_authorized demo_args add_call_def set_call_def
        empty_system_def demo_at_def js_set_def)
qed

lemma demo_resolve:
  "resolving c = Some demo_service_args \<Longrightarrow>
   resume_resolve 0 demo_compute (demo_at hash fp c) = demo_at hash fp (resolved_call c (Some demo_service_target))"
proof -
  assume "resolving c = Some demo_service_args"
  moreover have "resolve_now demo_compute demo_service_args (demo_at hash fp c) = Some demo_service_target"
    by (rule demo_resolved) (simp add: demo_at_def)
  ultimately show ?thesis
    unfolding resume_resolve_def by (simp add: demo_at_def) (simp add: set_call_def js_set_def)
qed

lemma demo_authorize: "resume_authorize 0 demo_readings (demo_at hash fp c) = demo_at hash fp (authorized_call c demo_readings)"
  by (simp add: resume_authorize_def demo_at_def) (simp add: set_call_def js_set_def)

lemma demo_start_dispatch:
  "resume_dispatch sha 0 3000 (demo_at hash fp (StartDispatch demo_service_args demo_service_target)) =
    \<lparr>cs_dispatcher = begin_dispatch 3000 demo_actor (demo_fingerprint sha) demo_request demo_service_target
       (empty_dispatcher\<lparr>dx_sessions := demo_running hash fp\<rparr>),
     cs_calls = [(0, ResolveFresh demo_service_args demo_service_target 0)], cs_next = 1\<rparr>"
proof -
  have "dx_next (empty_dispatcher\<lparr>dx_sessions := s\<rparr>) = 0" for s by (simp add: empty_dispatcher_def)
  moreover have "awaits_fresh (begin_dispatch 3000 demo_actor f demo_request demo_service_target
      (empty_dispatcher\<lparr>dx_sessions := s\<rparr>)) 0" for f s
    by (simp add: awaits_fresh_def begin_dispatch_def Let_def reserve_def empty_dispatcher_def empty_store_def spawn_def
        js_set_def js_values_def new_record_def)
  ultimately show ?thesis
    by (simp add: resume_dispatch_def demo_at_def Let_def demo_args set_call_def js_set_def)
qed

lemma demo_execute_steps:
  "run_system sha hash fp (demo_register_steps @ demo_execute_steps) =
    \<lparr>cs_dispatcher = begin_dispatch 3000 demo_actor (demo_fingerprint sha) demo_request demo_service_target
       (empty_dispatcher\<lparr>dx_sessions := demo_running hash fp\<rparr>),
     cs_calls = [(0, ResolveFresh demo_service_args demo_service_target 0)], cs_next = 1\<rparr>"
  unfolding run_state_append demo_register_steps demo_execute_steps_def
  by (simp add: demo_begin demo_resolve demo_authorize demo_start_dispatch demo_args demo_input demo_authorized)

lemma demo_reserved:
  "js_get (records (dx_ops (cs_dispatcher (run_system sha hash fp (demo_register_steps @ demo_execute_steps)))))
     (recordKey ''u'' ''op'') = Some (new_record (demo_fingerprint sha) (args_identity demo_service_args demo_service_target))"
  unfolding demo_execute_steps
  by (simp add: begin_dispatch_def Let_def reserve_def empty_dispatcher_def empty_store_def spawn_def js_values_def
      args_identity_def demo_args identity_key_def)
    (simp add: dispatch_identity_def demo_actor_def demo_request_def CanonicalStore.new_record_def)


text \<open>The fresh target is resolved and authorized again, and the command is sent.\<close>

definition demo_finish_steps :: "system_call list" where
  "demo_finish_steps = [XResolve 0 demo_compute, XAuthorize 0 demo_readings, XFresh 0 3001, XDispatcher (DSend 0 3002)]"

definition demo_service_identity :: operation_identity where
  "demo_service_identity = dispatch_identity demo_actor demo_request demo_service_target"

definition demo_dispatch_args :: "(string \<Rightarrow> string) \<Rightarrow> dispatch_args" where
  "demo_dispatch_args sha = \<lparr>da_fingerprint = demo_fingerprint sha, da_identity = demo_service_identity,
     da_request = demo_request, da_target = demo_service_target\<rparr>"

definition demo_service_marked :: "(string \<Rightarrow> string) \<Rightarrow> operation_record" where
  "demo_service_marked sha = (new_record (demo_fingerprint sha) demo_service_identity)
     \<lparr>command := Some demo_command, state := Dispatching\<rparr>"

definition demo_service_ops :: "(string \<Rightarrow> string) \<Rightarrow> store" where
  "demo_service_ops sha = \<lparr>records = [(identity_key demo_service_identity, demo_service_marked sha)],
     generationWatermarks = [(scope_key demo_service_identity, \<lparr>wm_commandSequence = 1, wm_eventSequence = 0\<rparr>)]\<rparr>"

definition demo_service_sent :: control_command where
  "demo_service_sent = createCommand demo_service_identity demo_request 1"

lemma demo_service_dispatched:
  "begin_dispatch 3000 demo_actor (demo_fingerprint sha) demo_request demo_service_target (empty_dispatcher\<lparr>dx_sessions := ss\<rparr>) =
     empty_dispatcher\<lparr>dx_sessions := ss, dx_ops := save (new_record (demo_fingerprint sha) demo_service_identity) empty_store,
       dx_tasks := [(0, AwaitFresh (demo_dispatch_args sha))], dx_next := Suc 0\<rparr>"
  by (simp add: begin_dispatch_def Let_def reserve_def empty_dispatcher_def empty_store_def spawn_def js_set_def
      js_values_def CanonicalStore.new_record_def demo_dispatch_args_def demo_service_identity_def)

lemma demo_service_mark:
  "markDispatchAttempted \<lparr>dp_commandId = ''op'', dp_dispatchedAt = x, dp_dispatchedUntil = y, dp_fingerprint = demo_fingerprint sha,
      dp_identity = demo_service_identity\<rparr> (save (new_record (demo_fingerprint sha) demo_service_identity) empty_store) =
   (Inr (demo_service_marked sha), demo_service_ops sha)"
  by (simp add: markDispatchAttempted_def exact_def Let_def watermark_of_def set_watermark_def save_def empty_store_def
      CanonicalStore.new_record_def demo_service_marked_def demo_service_ops_def demo_command_def js_set_def)

lemma demo_service_fresh:
  "resume_fresh 0 3001 (Inr demo_service_target) (empty_dispatcher\<lparr>dx_sessions := ss,
       dx_ops := save (new_record (demo_fingerprint sha) demo_service_identity) empty_store,
       dx_tasks := [(0, AwaitFresh (demo_dispatch_args sha))], dx_next := Suc 0\<rparr>) =
     empty_dispatcher\<lparr>dx_sessions := ss, dx_ops := demo_service_ops sha,
       dx_tasks := [(0, AwaitSend (demo_dispatch_args sha) (demo_service_marked sha))], dx_next := Suc 0\<rparr>"
proof -
  have "rq_operationId demo_request = ''op''" by (simp add: demo_request_def)
  then show ?thesis
    by (simp add: resume_fresh_def demo_dispatch_args_def demo_service_mark set_task_def js_set_def)
qed

lemma demo_service_dispatchControl:
  "dispatchControl ''u'' demo_service_sent (demo_running hash fp) =
     (Inr (), emit (workspaceKey ''u'' demo_uuid_1) 7 (SendCommand demo_service_sent) (demo_running hash fp))"
proof -
  have "CapControl \<in> set (sc_capabilities (active_scope demo_control_scope demo_control_registration))"
    by (simp add: active_scope_def ready_capabilities_def demo_control_registration_def)
  moreover have "controlCapability (command_operation demo_service_sent) = CapControl"
    by (simp add: controlCapability_def command_operation_def demo_service_sent_def createCommand_def command_for_def
        demo_input canonicalRuntimeControlAccessMode_def read_operations_def)
  moreover have "cb_workspaceId demo_service_sent = demo_uuid_1" "cb_actorUserId demo_service_sent = ''u''"
    "cb_environmentId demo_service_sent = demo_uuid_1" "control_binding.cb_generation demo_service_sent = demo_uuid_1"
    "cb_sessionId demo_service_sent = ''s1''"
    by (simp_all add: demo_service_sent_def createCommand_def command_for_def demo_service_identity_def dispatch_identity_def
        demo_service_target_def demo_target_def demo_actor_def)
  moreover have "sc_ownerUserId (active_scope demo_control_scope demo_control_registration) = ''u''"
    "sc_environmentId (active_scope demo_control_scope demo_control_registration) = demo_uuid_1"
    "sc_generation (active_scope demo_control_scope demo_control_registration) = demo_uuid_1"
    by (simp_all add: active_scope_def demo_control_scope_def RuntimeProperties.demo_scope_def)
  ultimately show ?thesis
    using demo_registered_sessions [of hash] by (auto simp: dispatchControl_def bound_to_def demo_running_store)
qed

lemma demo_service_send:
  "dx_sessions (resume_send 0 3002 (empty_dispatcher\<lparr>dx_sessions := demo_running hash fp, dx_ops := demo_service_ops sha,
       dx_tasks := [(0, AwaitSend (demo_dispatch_args sha) (demo_service_marked sha))], dx_next := Suc 0\<rparr>)) =
   emit (workspaceKey ''u'' demo_uuid_1) 7 (SendCommand demo_service_sent) (demo_running hash fp)"
proof -
  have "command (demo_service_marked sha) = Some demo_command" "ownerUserId demo_service_identity = ''u''"
    "commandSequence demo_command = 1"
    by (simp_all add: demo_service_marked_def demo_service_identity_def dispatch_identity_def demo_actor_def demo_command_def)
  then show ?thesis
    by (simp add: resume_send_def Let_def demo_service_dispatchControl empty_dispatcher_def set_task_def js_set_def
        args_key_def demo_dispatch_args_def flip: demo_service_sent_def)
qed

lemma demo_service_commands:
  "sent_commands (rs_wire (dx_sessions (cs_dispatcher (run_system sha hash fp
     (demo_register_steps @ demo_execute_steps @ demo_finish_steps))))) = [demo_service_sent]"
proof -
  have "resolve_now demo_compute demo_service_args \<lparr>cs_dispatcher = empty_dispatcher\<lparr>dx_sessions := demo_running hash fp,
      dx_ops := s, dx_tasks := ts, dx_next := n\<rparr>, cs_calls = cs, cs_next = m\<rparr> = Some demo_service_target" for s ts n cs m
    by (rule demo_resolved) simp
  then show ?thesis
    unfolding append_assoc [symmetric] run_state_append [of _ "demo_register_steps @ demo_execute_steps"] demo_execute_steps
    using demo_registered_sessions [of hash]
    by (auto simp: demo_service_dispatched demo_finish_steps_def resume_resolve_def set_call_def demo_running_store js_set_def
        resume_authorize_def demo_input demo_args demo_authorized resume_fresh_answer_def demo_service_fresh demo_service_send)
qed

theorem control_commands_authorized_witness:
  "sent_commands (rs_wire (dx_sessions (cs_dispatcher (run_system (\<lambda>s. s) (\<lambda>s. s) (\<lambda>_. [])
     (demo_register_steps @ demo_execute_steps @ demo_finish_steps))))) = [demo_service_sent] \<and>
   authorized_command (run_system (\<lambda>s. s) (\<lambda>s. s) (\<lambda>_. [])) (demo_register_steps @ demo_execute_steps @ demo_finish_steps)
     demo_service_sent"
  using control_commands_authorized [of "\<lambda>s. s" "\<lambda>s. s" "\<lambda>_. []" "demo_register_steps @ demo_execute_steps @ demo_finish_steps"]
  by (simp add: demo_service_commands)

section \<open>Targets\<close>

lemma demo_compute_valid: "validateComputeInventory code_compare (fst demo_compute) = []"
  by code_simp

theorem resolve_in_valid_inventory_witness:
  "resolveCanonicalRuntimeControlTarget (fst demo_compute, validateComputeInventory code_compare (fst demo_compute))
     (service_list ''u'' (demo_running (\<lambda>s. s) (\<lambda>_. []))) (sa_request demo_service_args) = Some demo_service_target \<longleftrightarrow>
   (\<exists>s. filter (names_runtime (sa_request demo_service_args)) (service_list ''u'' (demo_running (\<lambda>s. s) (\<lambda>_. []))) = [s] \<and>
      runtime_usable (sa_request demo_service_args) s \<and>
      demo_service_target = target_of (sa_request demo_service_args) demo_service_environment s)"
proof -
  have env: "in_environments (fst demo_compute) = [demo_service_environment]"
    by (simp add: demo_compute_def)
  have "ce_id demo_service_environment = rq_environmentId (sq_request (sa_request demo_service_args))"
    "\<not> host_conflict (ce_hostAssociation demo_service_environment)"
    "sq_revision (sa_request demo_service_args) = VStr (target_identity demo_service_environment)"
    by code_simp+
  with resolve_in_valid_inventory [OF demo_compute_valid, of "service_list ''u'' (demo_running (\<lambda>s. s) (\<lambda>_. []))"
      "sa_request demo_service_args" demo_service_target] show ?thesis
    by (simp add: env)
qed

definition demo_binding :: ssh_target_binding where
  "demo_binding = \<lparr>tb_environmentDefinitionId = ''d1'', tb_environmentId = demo_uuid_1, tb_hostId = None,
     tb_platformId = ''p'', tb_targetIdentityRevision = ''1:abcdefgh''\<rparr>"

theorem resolvers_agree_witness:
  "resolveCanonicalRuntimeControlTarget demo_compute [] (sa_request demo_service_args) \<noteq> Some demo_service_target"
proof -
  have "resolve_ssh_target demo_compute (rq_environmentId (sq_request (sa_request demo_service_args))) = Some demo_binding"
    by code_simp
  from resolvers_agree [OF this, of "[]" demo_service_target] show ?thesis by simp
qed

theorem wrapped_revision_accepted_witness:
  "validate (VObj (wrapped_object demo_request)) =
     Some \<lparr>sq_request = demo_request, sq_revision = VArr [VStr (rq_expectedTargetIdentityRevision demo_request)]\<rparr>"
proof -
  have "valid_request demo_request" by code_simp
  from wrapped_revision_accepted [OF this, of demo_compute "[]"] show ?thesis by (rule conjunct1)
qed

end
