(* ===== verification/ComputeConnectors.thy ===== *)
theory ComputeConnectors
  imports ComputeValid
begin

text \<open>
  The inventory that is derived from the connectors of an account (\<open>server/compute-inventory.ts\<close>).

  SHA-256 in hexadecimal is the parameter \<open>sha\<close>. \<open>JSON.stringify\<close> of a resource profile, whose
  property order is the reporter's, is the parameter \<open>profile_text\<close>. The maps of the loop are a record; an
  assignment to a property of an environment that is in the map is an update of its entry.
\<close>

section \<open>Machines\<close>

text \<open>The fields of a connector's machine record that the inventory reads.\<close>

datatype connector_environment_kind = ConnectorMacos | ConnectorWindows | ConnectorWsl | ConnectorLinux | ConnectorUnknown

record connector_machine =
  mc_compute :: "compute_metadata option"
  mc_environment :: "(connector_environment_kind \<times> string option) option"
  mc_id :: string
  mc_lastSeen :: "string option"
  mc_name :: string

record physical_machine =
  pm_connectorIds :: "string list"
  pm_id :: string
  pm_name :: string

section \<open>Identifiers\<close>

definition stableId :: "(string \<Rightarrow> string) \<Rightarrow> string \<Rightarrow> string \<Rightarrow> string" where
  "stableId sha namespace value = namespace @ CHR ''-'' # take 32 (sha value)"

definition identityKey :: "int \<Rightarrow> string \<Rightarrow> string" where
  "identityKey version key = int_string version @ CHR '':'' # key"

fun legacy_kind :: "(connector_environment_kind \<times> string option) option \<Rightarrow> environment_kind" where
  "legacy_kind (Some (ConnectorMacos, label)) = NativeMacos"
| "legacy_kind (Some (ConnectorWindows, label)) = NativeWindows"
| "legacy_kind (Some (ConnectorWsl, label)) = Wsl"
| "legacy_kind (Some (ConnectorLinux, label)) = NativeLinux"
| "legacy_kind _ = OtherKind"

definition legacyMetadata :: "(string \<Rightarrow> string) \<Rightarrow> connector_machine \<Rightarrow> compute_metadata" where
  "legacyMetadata sha machine =
     \<lparr>cd_environmentIdentity = \<lparr>dk_key = ''connector:'' @ sha (mc_id machine), dk_version = 1\<rparr>,
      cd_environmentKind = legacy_kind (mc_environment machine),
      cd_environmentName = (if truthy (Option.bind (mc_environment machine) snd)
        then the (Option.bind (mc_environment machine) snd) else mc_name machine),
      cd_hostEvidence = EvidenceNone, cd_hostIdentity = None, cd_hostName = None,
      cd_hostResolution = Unresolved, cd_parentEnvironmentIdentity = None,
      cd_platformKind = LocalPlatform, cd_platformName = ''Local & self-hosted'',
      cd_resourceMode = Dedicated, cd_resources = None\<rparr>"

section \<open>The loop's maps\<close>

record connector_maps =
  fm_connectors :: "connector_association list"
  fm_definitions :: "(environment_kind, environment_definition) jsmap"
  fm_environments :: "(string, compute_environment) jsmap"
  fm_hosts :: "(string, host_record) jsmap"
  fm_placeholders :: "string list"
  fm_platforms :: "(string, platform_record) jsmap"

definition empty_maps :: connector_maps where
  "empty_maps = \<lparr>fm_connectors = [], fm_definitions = [], fm_environments = [], fm_hosts = [],
     fm_placeholders = [], fm_platforms = []\<rparr>"

definition definition_id :: "(string \<Rightarrow> string) \<Rightarrow> environment_kind \<Rightarrow> string" where
  "definition_id sha kind = stableId sha ''environment-definition'' (environment_kind_name kind)"

definition definition_for :: "(string \<Rightarrow> string) \<Rightarrow> environment_kind \<Rightarrow> environment_definition" where
  "definition_for sha kind =
     definition_blueprint.extend (builtInEnvironmentDefinition kind)
       (environment_definition.fields (definition_id sha kind) None)"

lemma definition_for_fields [simp]:
  "ed_id (definition_for sha k) = definition_id sha k" "db_kind (definition_for sha k) = k"
  "db_slug (definition_for sha k) = db_slug (builtInEnvironmentDefinition k)"
  by (simp_all add: definition_for_def definition_blueprint.defs environment_definition.defs)

definition definitionForKind :: "(string \<Rightarrow> string) \<Rightarrow> environment_kind \<Rightarrow> connector_maps \<Rightarrow> environment_definition \<times> connector_maps" where
  "definitionForKind sha kind m =
     (case js_get (fm_definitions m) kind of
        Some d \<Rightarrow> (d, m)
      | None \<Rightarrow> (definition_for sha kind,
          m\<lparr>fm_definitions := js_set (fm_definitions m) kind (definition_for sha kind)\<rparr>))"

definition platform_key :: "compute_metadata \<Rightarrow> string" where
  "platform_key metadata = platform_kind_name (cd_platformKind metadata) @ CHR '':'' # cd_platformName metadata"

definition platform_for :: "(string \<Rightarrow> string) \<Rightarrow> compute_metadata \<Rightarrow> connector_maps \<Rightarrow> platform_record \<times> connector_maps" where
  "platform_for sha metadata m =
     (case js_get (fm_platforms m) (platform_key metadata) of
        Some p \<Rightarrow> (p, m)
      | None \<Rightarrow>
          let p = \<lparr>pl_id = stableId sha ''platform'' (platform_key metadata), pl_kind = cd_platformKind metadata,
                   pl_name = cd_platformName metadata\<rparr>
          in (p, m\<lparr>fm_platforms := js_set (fm_platforms m) (platform_key metadata) p\<rparr>))"

section \<open>Hosts\<close>

text \<open>\<open>a > b\<close> on strings.\<close>

definition preferredResources ::
    "(resource_profile \<Rightarrow> string) \<Rightarrow> resource_profile option \<Rightarrow> resource_profile option \<Rightarrow> resource_profile option" where
  "preferredResources profile_text current candidate =
     (case (current, candidate) of
        (None, _) \<Rightarrow> candidate
      | (Some a, None) \<Rightarrow> current
      | (Some a, Some b) \<Rightarrow>
          if 0 < code_compare (nul_key (rp_reportedAt b) (profile_text b)) (nul_key (rp_reportedAt a) (profile_text a))
          then candidate else current)"

text \<open>\<open>`${platform.id}:${identityKey(version, key)}`\<close>, for a host and for an environment\<close>

definition scoped_key :: "string \<Rightarrow> derived_identity \<Rightarrow> string" where
  "scoped_key platform i = platform @ CHR '':'' # identityKey (dk_version i) (dk_key i)"

definition manual_text :: "string \<Rightarrow> string \<Rightarrow> string" where
  "manual_text platform physical = platform @ '':manual:'' @ physical"

definition verified_host_id :: "(string \<Rightarrow> string) \<Rightarrow> string \<Rightarrow> derived_identity \<Rightarrow> string" where
  "verified_host_id sha platform i = stableId sha ''host'' (scoped_key platform i)"

definition manual_host_id :: "(string \<Rightarrow> string) \<Rightarrow> string \<Rightarrow> string \<Rightarrow> string" where
  "manual_host_id sha platform physical = stableId sha ''host'' (manual_text platform physical)"

definition manual_identity :: "(string \<Rightarrow> string) \<Rightarrow> string \<Rightarrow> derived_identity" where
  "manual_identity sha physical = \<lparr>dk_key = ''manual:'' @ sha physical, dk_version = 1\<rparr>"

definition verified_host ::
    "(string \<Rightarrow> string) \<Rightarrow> (resource_profile \<Rightarrow> string) \<Rightarrow> compute_metadata \<Rightarrow> string \<Rightarrow> derived_identity \<Rightarrow> string \<Rightarrow>
     connector_maps \<Rightarrow> host_association \<times> connector_maps" where
  "verified_host sha profile_text metadata platform i name m =
     (let hostId = verified_host_id sha platform i;
          h = \<lparr>hr_id = hostId, hr_identity = i, hr_name = name, hr_platformId = platform,
               hr_resources = preferredResources profile_text
                 (Option.bind (js_get (fm_hosts m) hostId) hr_resources)
                 (if cd_resourceMode metadata = Exclusive then cd_resources metadata else None)\<rparr>
      in (VerifiedHost (cd_hostEvidence metadata) hostId, m\<lparr>fm_hosts := js_set (fm_hosts m) hostId h\<rparr>))"

definition manual_host ::
    "(string \<Rightarrow> string) \<Rightarrow> physical_machine list \<Rightarrow> string \<Rightarrow> connector_maps \<Rightarrow> host_association \<times> connector_maps" where
  "manual_host sha manual platform m =
     (case manual of
        [] \<Rightarrow> (UnresolvedHost, m)
      | [physical] \<Rightarrow>
          let hostId = manual_host_id sha platform (pm_id physical)
          in (ManualHost hostId, m\<lparr>fm_hosts := js_set (fm_hosts m) hostId
               \<lparr>hr_id = hostId, hr_identity = manual_identity sha (pm_id physical), hr_name = pm_name physical,
                hr_platformId = platform, hr_resources = None\<rparr>\<rparr>)
      | _ \<Rightarrow> (ConflictHost EvidenceUser None None, m))"

definition host_association_for ::
    "(string \<Rightarrow> string) \<Rightarrow> (resource_profile \<Rightarrow> string) \<Rightarrow> compute_metadata \<Rightarrow> physical_machine list \<Rightarrow> string \<Rightarrow>
     connector_maps \<Rightarrow> host_association \<times> connector_maps" where
  "host_association_for sha profile_text metadata manual platform m =
     (if cd_hostResolution metadata = NotApplicable
      then (NoHost (if cd_hostEvidence metadata = EvidenceProvider then EvidenceProvider else EvidenceNone), m)
      else (case cd_hostIdentity metadata of
          Some i \<Rightarrow>
            if truthy (cd_hostName metadata) \<and> cd_hostResolution metadata = Verified
            then verified_host sha profile_text metadata platform i (the (cd_hostName metadata)) m
            else manual_host sha manual platform m
        | None \<Rightarrow> manual_host sha manual platform m))"

section \<open>Environments\<close>

definition set_environment :: "string \<Rightarrow> compute_environment \<Rightarrow> connector_maps \<Rightarrow> connector_maps" where
  "set_environment key e m = m\<lparr>fm_environments := js_set (fm_environments m) key e\<rparr>"

text \<open>The parent of the reported environment: a placeholder stands for one that has not reported yet.\<close>

definition parent_environment ::
    "(string \<Rightarrow> string) \<Rightarrow> compute_metadata \<Rightarrow> string \<Rightarrow> host_association \<Rightarrow> connector_maps \<Rightarrow> string option \<times> connector_maps" where
  "parent_environment sha metadata platform association m =
     (case cd_parentEnvironmentIdentity metadata of
        None \<Rightarrow> (None, m)
      | Some i \<Rightarrow>
          let key = scoped_key platform i
          in (case js_get (fm_environments m) key of
               Some parent \<Rightarrow> (Some (ce_id parent), m)
             | None \<Rightarrow>
                 (case definitionForKind sha OtherKind m of (d, m1) \<Rightarrow>
                    let parent = \<lparr>ce_environmentDefinitionId = ed_id d, ce_hostAssociation = association,
                          ce_id = stableId sha ''environment'' key, ce_identity = i, ce_identityConflict = False,
                          ce_kind = OtherKind, ce_name = cd_environmentName metadata @ '' parent'',
                          ce_ownerUserId = None, ce_parentEnvironmentId = None, ce_platformId = platform,
                          ce_resourceMode = Shared, ce_resources = None\<rparr>
                    in (Some (ce_id parent),
                        (set_environment key parent m1)\<lparr>fm_placeholders := set_add key (fm_placeholders m1)\<rparr>))))"

fun resolution_name :: "host_association \<Rightarrow> string" where
  "resolution_name (VerifiedHost e h) = ''verified''"
| "resolution_name (ManualHost h) = ''manual''"
| "resolution_name UnresolvedHost = ''unresolved''"
| "resolution_name (ConflictHost e expected h) = ''conflict''"
| "resolution_name (NoHost e) = ''not_applicable''"

fun association_evidence :: "host_association \<Rightarrow> host_evidence" where
  "association_evidence (VerifiedHost e h) = e"
| "association_evidence (ManualHost h) = EvidenceUser"
| "association_evidence UnresolvedHost = EvidenceNone"
| "association_evidence (ConflictHost e expected h) = e"
| "association_evidence (NoHost e) = e"

text \<open>\<open>JSON.stringify\<close> of an association made here; none has an \<open>expectedHostId\<close>.\<close>

definition association_text :: "host_association \<Rightarrow> string" where
  "association_text a = json_print (JObj (
     [(''evidence'', JStr (evidence_name (association_evidence a)))] @
     (case associationHostId a of None \<Rightarrow> [] | Some h \<Rightarrow> [(''hostId'', JStr h)]) @
     [(''resolution'', JStr (resolution_name a))]))"

definition own_resources :: "compute_metadata \<Rightarrow> resource_profile option" where
  "own_resources metadata = (if cd_resourceMode metadata = Exclusive then None else cd_resources metadata)"

text \<open>
  The reported environment: new, filled in where a placeholder stood, or, when it is known and reported with
  another host association, in conflict.
\<close>

definition reported_environment ::
    "(string \<Rightarrow> string) \<Rightarrow> compute_metadata \<Rightarrow> string \<Rightarrow> string \<Rightarrow> host_association \<Rightarrow> string option \<Rightarrow> connector_maps \<Rightarrow>
     string \<times> connector_maps" where
  "reported_environment sha metadata definitionId platform association parent m =
     (let key = scoped_key platform (cd_environmentIdentity metadata);
          new = \<lparr>ce_environmentDefinitionId = definitionId, ce_hostAssociation = association,
            ce_id = stableId sha ''environment'' key, ce_identity = cd_environmentIdentity metadata,
            ce_identityConflict = False, ce_kind = cd_environmentKind metadata,
            ce_name = cd_environmentName metadata, ce_ownerUserId = None, ce_parentEnvironmentId = parent,
            ce_platformId = platform, ce_resourceMode = cd_resourceMode metadata,
            ce_resources = own_resources metadata\<rparr>
      in case js_get (fm_environments m) key of
           None \<Rightarrow> (ce_id new, set_environment key new m)
         | Some e \<Rightarrow>
             if key \<in> set (fm_placeholders m)
             then (ce_id e, (set_environment key
                    (e\<lparr>ce_environmentDefinitionId := definitionId, ce_hostAssociation := association,
                       ce_kind := cd_environmentKind metadata, ce_name := cd_environmentName metadata,
                       ce_parentEnvironmentId := parent, ce_resourceMode := cd_resourceMode metadata,
                       ce_resources := own_resources metadata\<rparr>) m)
                    \<lparr>fm_placeholders := removeAll key (fm_placeholders m)\<rparr>)
             else if association_text (ce_hostAssociation e) \<noteq> association_text association
             then (ce_id e, set_environment key (e\<lparr>ce_hostAssociation := ConflictHost EvidenceUser None None\<rparr>) m)
             else (ce_id e, m))"

section \<open>The inventory\<close>

text \<open>The physical machines that name a connector, once for every time they name it.\<close>

definition physicalByConnector :: "physical_machine list \<Rightarrow> string \<Rightarrow> physical_machine list" where
  "physicalByConnector machines k =
     concat (map (\<lambda>p. map (\<lambda>_. p) (filter (\<lambda>c. c = k) (pm_connectorIds p))) machines)"

definition metadata_of :: "(string \<Rightarrow> string) \<Rightarrow> connector_machine \<Rightarrow> compute_metadata" where
  "metadata_of sha c = (case mc_compute c of Some x \<Rightarrow> x | None \<Rightarrow> legacyMetadata sha c)"

definition add_connector ::
    "(string \<Rightarrow> string) \<Rightarrow> (resource_profile \<Rightarrow> string) \<Rightarrow> physical_machine list \<Rightarrow> connector_machine \<Rightarrow>
     connector_maps \<Rightarrow> connector_maps" where
  "add_connector sha profile_text machines connector m =
     (let metadata = metadata_of sha connector
      in case definitionForKind sha (cd_environmentKind metadata) m of (d, m1) \<Rightarrow>
         case platform_for sha metadata m1 of (p, m2) \<Rightarrow>
         case host_association_for sha profile_text metadata (physicalByConnector machines (mc_id connector))
           (pl_id p) m2 of (association, m3) \<Rightarrow>
         case parent_environment sha metadata (pl_id p) association m3 of (parent, m4) \<Rightarrow>
         case reported_environment sha metadata (ed_id d) (pl_id p) association parent m4 of (environmentId, m5) \<Rightarrow>
           m5\<lparr>fm_connectors := fm_connectors m5 @
             [\<lparr>ca_associatedAt = (case mc_lastSeen connector of Some t \<Rightarrow> t | None \<Rightarrow> to_iso 0),
               ca_connectorId = mc_id connector, ca_environmentId = environmentId\<rparr>]\<rparr>)"

definition snapshot_of :: "connector_maps \<Rightarrow> compute_inventory" where
  "snapshot_of m =
     (let environments = js_values (fm_environments m);
          referencedDefinitionIds = map ce_environmentDefinitionId environments
      in \<lparr>in_connectors = fm_connectors m,
          in_environmentDefinitions = filter (\<lambda>d. ed_id d \<in> set referencedDefinitionIds) (js_values (fm_definitions m)),
          in_environments = environments, in_hosts = js_values (fm_hosts m),
          in_platforms = js_values (fm_platforms m)\<rparr>)"

definition computeInventoryFromConnectors ::
    "(string \<Rightarrow> string \<Rightarrow> int) \<Rightarrow> (string \<Rightarrow> string) \<Rightarrow> (resource_profile \<Rightarrow> string) \<Rightarrow> connector_machine list \<Rightarrow>
     physical_machine list \<Rightarrow> compute_inventory \<times> compute_violation list" where
  "computeInventoryFromConnectors coll sha profile_text connectors machines =
     (let snapshot = snapshot_of (fold (add_connector sha profile_text machines) connectors empty_maps)
      in (snapshot, validateComputeInventory coll snapshot))"

end
