(* ===== verification/ComputeDerived.thy ===== *)
theory ComputeDerived
  imports ComputeConnectors
begin

text \<open>
  The inventory derived from the connectors is well formed up to the parents: whatever the connectors report,
  its identifiers are unique and its references resolve. Only a cycle of parents and a parent on another
  host can be violations.
\<close>

section \<open>Collision-free identifiers\<close>

text \<open>On the texts \<open>S\<close> that are hashed, among them the names of the kinds, the part of the hash that is
  kept does not collide.\<close>

definition collision_free :: "(string \<Rightarrow> string) \<Rightarrow> string set \<Rightarrow> bool" where
  "collision_free sha S \<longleftrightarrow> inj_on (\<lambda>s. take 32 (sha s)) S \<and> (\<forall>s\<in>S. length (sha s) = 64) \<and>
     range environment_kind_name \<subseteq> S"

lemma stableId_eq:
  "collision_free sha S \<Longrightarrow> a \<in> S \<Longrightarrow> b \<in> S \<Longrightarrow> stableId sha n a = stableId sha n b \<longleftrightarrow> a = b"
  by (auto simp: stableId_def collision_free_def dest: inj_onD)

lemma stableId_prefix:
  "collision_free sha S \<Longrightarrow> a \<in> S \<Longrightarrow> b \<in> S \<Longrightarrow>
    stableId sha n a @ x = stableId sha n b @ y \<longleftrightarrow> a = b \<and> x = y"
  by (auto simp: stableId_def collision_free_def append_eq_append_conv dest: inj_onD)

lemma kind_hashed: "collision_free sha S \<Longrightarrow> environment_kind_name k \<in> S"
  by (auto simp: collision_free_def)

lemma identityKey_eq [simp]: "identityKey v k = identityKey w l \<longleftrightarrow> v = w \<and> k = l"
proof -
  have "CHR '':'' \<notin> set (nat_string n)" for n
    using nat_string_digits [of n] by (auto simp: list_all_iff is_digit_def in_range_def)
  then have "CHR '':'' \<notin> set (int_string n)" for n by (simp add: int_string_def)
  then show ?thesis by (simp add: identityKey_def append_sep_inj)
qed

definition platform_id_form :: "(string \<Rightarrow> string) \<Rightarrow> string set \<Rightarrow> string \<Rightarrow> bool" where
  "platform_id_form sha S p \<longleftrightarrow> (\<exists>k\<in>S. p = stableId sha ''platform'' k)"

lemma scoped_key_eq:
  "collision_free sha S \<Longrightarrow> platform_id_form sha S p \<Longrightarrow> platform_id_form sha S q \<Longrightarrow>
    scoped_key p i = scoped_key q j \<longleftrightarrow> p = q \<and> i = j"
  by (auto simp: platform_id_form_def scoped_key_def stableId_prefix)

lemma manual_text_eq:
  "collision_free sha S \<Longrightarrow> platform_id_form sha S p \<Longrightarrow> platform_id_form sha S q \<Longrightarrow>
    manual_text p a = manual_text q b \<longleftrightarrow> p = q \<and> a = b"
  by (auto simp: platform_id_form_def manual_text_def stableId_prefix)

lemma scoped_not_manual:
  assumes "collision_free sha S" "platform_id_form sha S p" "platform_id_form sha S q"
  shows "scoped_key p i \<noteq> manual_text q b"
proof
  assume "scoped_key p i = manual_text q b"
  then have eq: "int_string (dk_version i) @ CHR '':'' # dk_key i = ''manual:'' @ b"
    using assms by (auto simp: platform_id_form_def scoped_key_def manual_text_def stableId_prefix identityKey_def)
  moreover have "int_string n \<noteq> CHR ''m'' # x" and "int_string n \<noteq> []" for n x
    using nat_string_digits [of "nat n"] by (auto simp: int_string_def is_digit_def in_range_def)
  ultimately show False by (cases "int_string (dk_version i)") auto
qed

section \<open>The invariant of the maps\<close>

definition manual_key :: "string \<Rightarrow> bool" where
  "manual_key k \<longleftrightarrow> take 7 k = ''manual:''"

definition known_platform :: "connector_maps \<Rightarrow> string \<Rightarrow> bool" where
  "known_platform m p \<longleftrightarrow> (\<exists>k x. js_get (fm_platforms m) k = Some x \<and> pl_id x = p)"

definition host_entry_ok :: "(string \<Rightarrow> string) \<Rightarrow> string set \<Rightarrow> connector_maps \<Rightarrow> string \<Rightarrow> host_record \<Rightarrow> bool" where
  "host_entry_ok sha S m k h \<longleftrightarrow> hr_id h = k \<and> known_platform m (hr_platformId h) \<and>
     (scoped_key (hr_platformId h) (hr_identity h) \<in> S \<and> k = verified_host_id sha (hr_platformId h) (hr_identity h) \<and>
        \<not> manual_key (dk_key (hr_identity h)) \<or>
      (\<exists>p\<in>S. manual_text (hr_platformId h) p \<in> S \<and> k = manual_host_id sha (hr_platformId h) p \<and>
         hr_identity h = manual_identity sha p))"

definition association_ok :: "connector_maps \<Rightarrow> string \<Rightarrow> host_association \<Rightarrow> bool" where
  "association_ok m platform a \<longleftrightarrow>
     (\<forall>x\<in>set (associationHostIds a). \<exists>h. js_get (fm_hosts m) x = Some h \<and> hr_platformId h = platform)"

definition parent_ok :: "connector_maps \<Rightarrow> string \<Rightarrow> string option \<Rightarrow> bool" where
  "parent_ok m platform parent \<longleftrightarrow>
     (\<forall>p. parent = Some p \<longrightarrow> (\<exists>k q. js_get (fm_environments m) k = Some q \<and> ce_id q = p \<and> ce_platformId q = platform))"

definition environment_entry_ok :: "(string \<Rightarrow> string) \<Rightarrow> string set \<Rightarrow> connector_maps \<Rightarrow> string \<Rightarrow> compute_environment \<Rightarrow> bool" where
  "environment_entry_ok sha S m k e \<longleftrightarrow>
     k \<in> S \<and> k = scoped_key (ce_platformId e) (ce_identity e) \<and> ce_id e = stableId sha ''environment'' k \<and>
     ce_environmentDefinitionId e = definition_id sha (ce_kind e) \<and> (\<exists>d. js_get (fm_definitions m) (ce_kind e) = Some d) \<and>
     known_platform m (ce_platformId e) \<and> association_ok m (ce_platformId e) (ce_hostAssociation e) \<and>
     parent_ok m (ce_platformId e) (ce_parentEnvironmentId e)"

definition maps_ok :: "(string \<Rightarrow> string) \<Rightarrow> string set \<Rightarrow> connector_maps \<Rightarrow> bool" where
  "maps_ok sha S m \<longleftrightarrow>
     js_wf (fm_definitions m) \<and> js_wf (fm_environments m) \<and> js_wf (fm_hosts m) \<and> js_wf (fm_platforms m) \<and>
     (\<forall>k d. js_get (fm_definitions m) k = Some d \<longrightarrow> d = definition_for sha k) \<and>
     (\<forall>k p. js_get (fm_platforms m) k = Some p \<longrightarrow> k \<in> S \<and> pl_id p = stableId sha ''platform'' k) \<and>
     (\<forall>k h. js_get (fm_hosts m) k = Some h \<longrightarrow> host_entry_ok sha S m k h) \<and>
     (\<forall>k e. js_get (fm_environments m) k = Some e \<longrightarrow> environment_entry_ok sha S m k e) \<and>
     (\<forall>c\<in>set (fm_connectors m). \<exists>k e. js_get (fm_environments m) k = Some e \<and> ce_id e = ca_environmentId c)"

text \<open>What a later step keeps of the maps.\<close>

definition maps_grow :: "connector_maps \<Rightarrow> connector_maps \<Rightarrow> bool" where
  "maps_grow m n \<longleftrightarrow>
     (\<forall>k d. js_get (fm_definitions m) k = Some d \<longrightarrow> (\<exists>d'. js_get (fm_definitions n) k = Some d')) \<and>
     (\<forall>k p. js_get (fm_platforms m) k = Some p \<longrightarrow> js_get (fm_platforms n) k = Some p) \<and>
     (\<forall>k h. js_get (fm_hosts m) k = Some h \<longrightarrow>
        (\<exists>h'. js_get (fm_hosts n) k = Some h' \<and> hr_platformId h' = hr_platformId h)) \<and>
     (\<forall>k e. js_get (fm_environments m) k = Some e \<longrightarrow>
        (\<exists>e'. js_get (fm_environments n) k = Some e' \<and> ce_id e' = ce_id e \<and> ce_platformId e' = ce_platformId e)) \<and>
     fm_connectors n = fm_connectors m"

lemma grow_refl [simp]: "maps_grow m m"
  by (simp add: maps_grow_def)

lemma growD:
  assumes "maps_grow m n"
  shows "js_get (fm_definitions m) k = Some d \<Longrightarrow> \<exists>d'. js_get (fm_definitions n) k = Some d'"
    "js_get (fm_platforms m) s = Some p \<Longrightarrow> js_get (fm_platforms n) s = Some p"
    "js_get (fm_hosts m) s = Some h \<Longrightarrow> \<exists>h'. js_get (fm_hosts n) s = Some h' \<and> hr_platformId h' = hr_platformId h"
    "js_get (fm_environments m) s = Some e \<Longrightarrow>
      \<exists>e'. js_get (fm_environments n) s = Some e' \<and> ce_id e' = ce_id e \<and> ce_platformId e' = ce_platformId e"
    "fm_connectors n = fm_connectors m"
  using assms unfolding maps_grow_def by blast+

lemma grow_trans: "maps_grow a b \<Longrightarrow> maps_grow b c \<Longrightarrow> maps_grow a c"
  unfolding maps_grow_def [of a c] by (fastforce dest: growD)

lemma grow_known: "maps_grow m n \<Longrightarrow> known_platform m p \<Longrightarrow> known_platform n p"
  unfolding known_platform_def by (blast dest: growD(2))

lemma grow_association: "maps_grow m n \<Longrightarrow> association_ok m p a \<Longrightarrow> association_ok n p a"
  unfolding association_ok_def by (fastforce dest: growD(3))

lemma grow_parent: "maps_grow m n \<Longrightarrow> parent_ok m p a \<Longrightarrow> parent_ok n p a"
  unfolding parent_ok_def by (fastforce dest: growD(4))

lemma grow_host: "maps_grow m n \<Longrightarrow> host_entry_ok sha S m k h \<Longrightarrow> host_entry_ok sha S n k h"
  unfolding host_entry_ok_def by (blast intro: grow_known)

lemma grow_environment: "maps_grow m n \<Longrightarrow> environment_entry_ok sha S m k e \<Longrightarrow> environment_entry_ok sha S n k e"
  unfolding environment_entry_ok_def
  by (blast intro: grow_known grow_association grow_parent dest: growD(1))

lemma maps_okD:
  assumes "maps_ok sha S m"
  shows "js_wf (fm_definitions m)" "js_wf (fm_environments m)" "js_wf (fm_hosts m)" "js_wf (fm_platforms m)"
    "js_get (fm_definitions m) kind = Some d \<Longrightarrow> d = definition_for sha kind"
    "js_get (fm_platforms m) k = Some p \<Longrightarrow> k \<in> S \<and> pl_id p = stableId sha ''platform'' k"
    "js_get (fm_hosts m) k = Some h \<Longrightarrow> host_entry_ok sha S m k h"
    "js_get (fm_environments m) k = Some e \<Longrightarrow> environment_entry_ok sha S m k e"
    "c \<in> set (fm_connectors m) \<Longrightarrow> \<exists>k e. js_get (fm_environments m) k = Some e \<and> ce_id e = ca_environmentId c"
  using assms unfolding maps_ok_def by blast+

text \<open>A step keeps the invariant when it only adds well-formed entries.\<close>

lemma maps_okI:
  assumes ok: "maps_ok sha S m" and grow: "maps_grow m n"
    and wf: "js_wf (fm_definitions n)" "js_wf (fm_environments n)" "js_wf (fm_hosts n)" "js_wf (fm_platforms n)"
    and "\<And>k d. js_get (fm_definitions n) k = Some d \<Longrightarrow> js_get (fm_definitions m) k = Some d \<or> d = definition_for sha k"
    and "\<And>k p. js_get (fm_platforms n) k = Some p \<Longrightarrow> js_get (fm_platforms m) k = Some p \<or> k \<in> S \<and> pl_id p = stableId sha ''platform'' k"
    and "\<And>k h. js_get (fm_hosts n) k = Some h \<Longrightarrow> js_get (fm_hosts m) k = Some h \<or> host_entry_ok sha S n k h"
    and "\<And>k e. js_get (fm_environments n) k = Some e \<Longrightarrow> js_get (fm_environments m) k = Some e \<or> environment_entry_ok sha S n k e"
  shows "maps_ok sha S n"
proof -
  have connectors: "\<exists>k e. js_get (fm_environments n) k = Some e \<and> ce_id e = ca_environmentId c"
    if c: "c \<in> set (fm_connectors n)" for c
  proof -
    obtain k e where "js_get (fm_environments m) k = Some e" "ce_id e = ca_environmentId c"
      using maps_okD(9) [OF ok] c growD(5) [OF grow] by metis
    with growD(4) [OF grow] show ?thesis by metis
  qed
  show ?thesis
    unfolding maps_ok_def
  proof (intro conjI allI impI ballI wf connectors)
    show "d = definition_for sha k" if "js_get (fm_definitions n) k = Some d" for k d
      using assms(7) [OF that] maps_okD(5) [OF ok] by blast
    show "k \<in> S" "pl_id p = stableId sha ''platform'' k" if "js_get (fm_platforms n) k = Some p" for k p
      using assms(8) [OF that] maps_okD(6) [OF ok] by blast+
    show "host_entry_ok sha S n k h" if "js_get (fm_hosts n) k = Some h" for k h
      using assms(9) [OF that] maps_okD(7) [OF ok] grow_host [OF grow] by blast
    show "environment_entry_ok sha S n k e" if "js_get (fm_environments n) k = Some e" for k e
      using assms(10) [OF that] maps_okD(8) [OF ok] grow_environment [OF grow] by blast
  qed
qed

lemma known_form: "maps_ok sha S m \<Longrightarrow> known_platform m p \<Longrightarrow> platform_id_form sha S p"
  unfolding known_platform_def platform_id_form_def by (metis maps_okD(6))

lemma entry_platform:
  assumes cf: "collision_free sha S" and ok: "maps_ok sha S m" and e: "environment_entry_ok sha S m (scoped_key p i) e"
    and p: "platform_id_form sha S p"
  shows "ce_platformId e = p" "ce_identity e = i" "ce_id e = stableId sha ''environment'' (scoped_key p i)"
proof -
  have key: "scoped_key p i = scoped_key (ce_platformId e) (ce_identity e)"
    and form: "platform_id_form sha S (ce_platformId e)"
    and "ce_id e = stableId sha ''environment'' (scoped_key p i)"
    using e known_form [OF ok] unfolding environment_entry_ok_def by blast+
  with key [unfolded scoped_key_eq [OF cf p form]]
  show "ce_platformId e = p" "ce_identity e = i" "ce_id e = stableId sha ''environment'' (scoped_key p i)" by simp_all
qed

section \<open>The steps\<close>

definition kept :: "(string \<Rightarrow> string) \<Rightarrow> string set \<Rightarrow> connector_maps \<Rightarrow> connector_maps \<Rightarrow> bool" where
  "kept sha S m n \<longleftrightarrow> maps_ok sha S n \<and> maps_grow m n"

lemma kept_refl: "maps_ok sha S m \<Longrightarrow> kept sha S m m"
  by (simp add: kept_def)

lemma definition_step:
  assumes ok: "maps_ok sha S m" and d: "definitionForKind sha kind m = (d, n)"
  shows "kept sha S m n" "d = definition_for sha kind" "\<exists>x. js_get (fm_definitions n) kind = Some x"
proof -
  have "kept sha S m n \<and> d = definition_for sha kind \<and> (\<exists>x. js_get (fm_definitions n) kind = Some x)"
  proof (cases "js_get (fm_definitions m) kind")
    case (Some x)
    with d ok maps_okD(5) [OF ok Some] show ?thesis by (simp add: definitionForKind_def kept_refl)
  next
    case None
    with d have n: "n = m\<lparr>fm_definitions := js_set (fm_definitions m) kind (definition_for sha kind)\<rparr>"
      "d = definition_for sha kind" by (auto simp: definitionForKind_def)
    have "maps_grow m n" by (auto simp: n maps_grow_def)
    moreover from this have "maps_ok sha S n"
      by (rule maps_okI [OF ok]) (use maps_okD [OF ok] in \<open>auto simp: n split: if_splits\<close>)
    ultimately show ?thesis by (simp add: kept_def n)
  qed
  then show "kept sha S m n" "d = definition_for sha kind" "\<exists>x. js_get (fm_definitions n) kind = Some x" by blast+
qed

lemma platform_step:
  assumes ok: "maps_ok sha S m" and key: "platform_key metadata \<in> S" and p: "platform_for sha metadata m = (p, n)"
  shows "kept sha S m n" "known_platform n (pl_id p)" "pl_id p = stableId sha ''platform'' (platform_key metadata)"
proof -
  have "kept sha S m n \<and> known_platform n (pl_id p) \<and> pl_id p = stableId sha ''platform'' (platform_key metadata)"
  proof (cases "js_get (fm_platforms m) (platform_key metadata)")
    case (Some x)
    with p ok maps_okD(6) [OF ok Some] show ?thesis by (auto simp: platform_for_def kept_refl known_platform_def)
  next
    case None
    with p have n: "n = m\<lparr>fm_platforms := js_set (fm_platforms m) (platform_key metadata) p\<rparr>"
      "pl_id p = stableId sha ''platform'' (platform_key metadata)" by (auto simp: platform_for_def Let_def)
    have "maps_grow m n" using None by (auto simp: n(1) maps_grow_def)
    moreover from this have "maps_ok sha S n"
      by (rule maps_okI [OF ok]) (use maps_okD [OF ok] n(2) key in \<open>auto simp: n(1) split: if_splits\<close>)
    moreover have "known_platform n (pl_id p)" by (auto simp: n(1) known_platform_def)
    ultimately show ?thesis by (simp add: kept_def n(2))
  qed
  then show "kept sha S m n" "known_platform n (pl_id p)"
    "pl_id p = stableId sha ''platform'' (platform_key metadata)" by blast+
qed

lemma host_entry_platform:
  assumes cf: "collision_free sha S" and ok: "maps_ok sha S m" and h: "js_get (fm_hosts m) k = Some h"
    and p: "platform_id_form sha S p" and t: "t \<in> S" "t = scoped_key p i \<or> t = manual_text p x"
    and k: "k = stableId sha ''host'' t"
  shows "hr_platformId h = p"
proof -
  have entry: "host_entry_ok sha S m k h" by (rule maps_okD(7) [OF ok h])
  then have form: "platform_id_form sha S (hr_platformId h)" using known_form [OF ok] by (simp add: host_entry_ok_def)
  from entry consider (verified) "scoped_key (hr_platformId h) (hr_identity h) \<in> S"
      "k = stableId sha ''host'' (scoped_key (hr_platformId h) (hr_identity h))"
    | (manual) y where "manual_text (hr_platformId h) y \<in> S" "k = stableId sha ''host'' (manual_text (hr_platformId h) y)"
    by (auto simp: host_entry_ok_def verified_host_id_def manual_host_id_def)
  then show ?thesis
  proof cases
    case verified
    with k t(1) have "t = scoped_key (hr_platformId h) (hr_identity h)" by (simp add: stableId_eq [OF cf])
    with t(2) form p show ?thesis
      using scoped_not_manual [OF cf form p] by (auto simp: scoped_key_eq [OF cf])
  next
    case manual
    with k t(1) have "t = manual_text (hr_platformId h) y" by (simp add: stableId_eq [OF cf])
    with t(2) form p show ?thesis
      by (metis manual_text_eq [OF cf form p] scoped_not_manual [OF cf p form])
  qed
qed

lemma host_put:
  assumes cf: "collision_free sha S" and ok: "maps_ok sha S m" and known: "known_platform m p"
    and t: "t \<in> S" "k = stableId sha ''host'' t"
      "t = scoped_key p i \<and> \<not> manual_key (dk_key i) \<and> hr_identity h = i \<or>
       t = manual_text p x \<and> x \<in> S \<and> hr_identity h = manual_identity sha x"
    and h: "hr_id h = k" "hr_platformId h = p"
  shows "kept sha S m (m\<lparr>fm_hosts := js_set (fm_hosts m) k h\<rparr>)"
proof -
  let ?n = "m\<lparr>fm_hosts := js_set (fm_hosts m) k h\<rparr>"
  have "maps_grow m ?n"
    using host_entry_platform [OF cf ok _ known_form [OF ok known] t(1) _ t(2), of _ i x] t(3) h(2)
    by (auto simp: maps_grow_def)
  moreover have "host_entry_ok sha S ?n k h"
    using known t h by (auto simp: host_entry_ok_def known_platform_def verified_host_id_def manual_host_id_def)
  moreover from calculation have "maps_ok sha S ?n"
    by (intro maps_okI [OF ok]) (use maps_okD [OF ok] in \<open>auto split: if_splits\<close>)
  ultimately show ?thesis by (simp add: kept_def)
qed

lemma kept_trans: "kept sha S a b \<Longrightarrow> kept sha S b c \<Longrightarrow> kept sha S a c"
  unfolding kept_def by (blast intro: grow_trans)

lemma kept_placeholders [simp]: "kept sha S m (n\<lparr>fm_placeholders := ps\<rparr>) = kept sha S m n"
  by (simp add: kept_def maps_ok_def maps_grow_def host_entry_ok_def environment_entry_ok_def known_platform_def
      association_ok_def parent_ok_def)

lemma manual_step:
  assumes cf: "collision_free sha S" and ok: "maps_ok sha S m" and known: "known_platform m p"
    and texts: "\<And>x. x \<in> set manual \<Longrightarrow> pm_id x \<in> S \<and> manual_text p (pm_id x) \<in> S"
    and res: "manual_host sha manual p m = (a, n)"
  shows "kept sha S m n \<and> association_ok n p a"
proof (cases "\<exists>physical. manual = [physical]")
  case True
  then obtain x where x: "manual = [x]" by blast
  let ?k = "manual_host_id sha p (pm_id x)"
  let ?h = "\<lparr>hr_id = ?k, hr_identity = manual_identity sha (pm_id x), hr_name = pm_name x, hr_platformId = p,
    hr_resources = None\<rparr>"
  have "kept sha S m (m\<lparr>fm_hosts := js_set (fm_hosts m) ?k ?h\<rparr>)"
    by (rule host_put [OF cf ok known, where t = "manual_text p (pm_id x)" and x = "pm_id x"])
      (use texts x in \<open>simp_all add: manual_host_id_def\<close>)
  with res x show ?thesis by (auto simp: manual_host_def Let_def association_ok_def referenced_def)
next
  case False
  with res ok show ?thesis
    by (auto simp: manual_host_def association_ok_def referenced_def kept_refl split: list.splits)
qed

lemma host_step:
  assumes cf: "collision_free sha S" and ok: "maps_ok sha S m" and known: "known_platform m p"
    and plain: "\<And>i. cd_hostIdentity metadata = Some i \<Longrightarrow> scoped_key p i \<in> S \<and> \<not> manual_key (dk_key i)"
    and texts: "\<And>x. x \<in> set manual \<Longrightarrow> pm_id x \<in> S \<and> manual_text p (pm_id x) \<in> S"
    and res: "host_association_for sha profile_text metadata manual p m = (a, n)"
  shows "kept sha S m n \<and> association_ok n p a"
proof (cases "\<exists>i. cd_hostResolution metadata = Verified \<and> cd_hostIdentity metadata = Some i \<and> truthy (cd_hostName metadata)")
  case True
  then obtain i where i: "cd_hostIdentity metadata = Some i" "cd_hostResolution metadata = Verified"
      "truthy (cd_hostName metadata)" by blast
  let ?k = "verified_host_id sha p i"
  obtain h where h: "n = m\<lparr>fm_hosts := js_set (fm_hosts m) ?k h\<rparr>" "hr_id h = ?k" "hr_platformId h = p" "hr_identity h = i"
      "a = VerifiedHost (cd_hostEvidence metadata) ?k"
    using res i by (auto simp: host_association_for_def verified_host_def Let_def)
  have "kept sha S m n"
    unfolding h(1) by (rule host_put [OF cf ok known, where t = "scoped_key p i" and i = i])
      (use plain [OF i(1)] h(2-4) in \<open>simp_all add: verified_host_id_def\<close>)
  with h show ?thesis by (auto simp: association_ok_def referenced_def)
next
  case False
  show ?thesis
  proof (cases "cd_hostResolution metadata = NotApplicable")
    case True
    with res ok show ?thesis
      by (auto simp: host_association_for_def association_ok_def referenced_def kept_refl)
  next
    case False
    with \<open>\<not> (\<exists>i. _ i)\<close> res have "manual_host sha manual p m = (a, n)"
      by (auto simp: host_association_for_def split: option.splits if_splits)
    then show ?thesis by (intro manual_step [OF cf ok known texts])
  qed
qed

lemma environment_put:
  assumes cf: "collision_free sha S" and ok: "maps_ok sha S m" and entry: "environment_entry_ok sha S m (scoped_key p i) e"
    and p: "platform_id_form sha S p"
  shows "kept sha S m (set_environment (scoped_key p i) e m)"
proof -
  let ?k = "scoped_key p i"
  let ?n = "set_environment ?k e m"
  have same: "ce_id e' = ce_id e \<and> ce_platformId e' = ce_platformId e" if e': "js_get (fm_environments m) ?k = Some e'" for e'
    using entry_platform [OF cf ok entry p] entry_platform [OF cf ok maps_okD(8) [OF ok e'] p] by simp
  have "maps_grow m ?n"
    using same by (auto simp: maps_grow_def set_environment_def)
  moreover from this have "environment_entry_ok sha S ?n ?k e" using entry by (rule grow_environment)
  moreover from calculation have "maps_ok sha S ?n"
    by (intro maps_okI [OF ok]) (use maps_okD [OF ok] in \<open>auto simp: set_environment_def split: if_splits\<close>)
  ultimately show ?thesis by (simp add: kept_def)
qed

lemma parent_step:
  assumes cf: "collision_free sha S" and ok: "maps_ok sha S m" and known: "known_platform m p"
    and assoc: "association_ok m p a"
    and hashed: "\<And>i. cd_parentEnvironmentIdentity metadata = Some i \<Longrightarrow> scoped_key p i \<in> S"
    and res: "parent_environment sha metadata p a m = (parent, n)"
  shows "kept sha S m n \<and> parent_ok n p parent"
proof (cases "cd_parentEnvironmentIdentity metadata")
  case None
  with res ok show ?thesis by (simp add: parent_environment_def kept_refl parent_ok_def)
next
  case (Some i)
  let ?k = "scoped_key p i"
  show ?thesis
  proof (cases "js_get (fm_environments m) ?k")
    case e: (Some e)
    have "ce_platformId e = p"
      by (rule entry_platform(1) [OF cf ok maps_okD(8) [OF ok e] known_form [OF ok known]])
    with e Some res ok show ?thesis
      by (auto simp: parent_environment_def Let_def kept_refl parent_ok_def)
  next
    case None
    obtain d m1 where d: "definitionForKind sha OtherKind m = (d, m1)" by force
    note ds = definition_step [OF ok d]
    then have ok1: "maps_ok sha S m1" and grow1: "maps_grow m m1" by (simp_all add: kept_def)
    obtain e where e: "n = (set_environment ?k e m1)\<lparr>fm_placeholders := set_add ?k (fm_placeholders m1)\<rparr>"
        "parent = Some (ce_id e)" "ce_platformId e = p"
        "ce_environmentDefinitionId e = ed_id d" "ce_kind e = OtherKind" "ce_identity e = i"
        "ce_id e = stableId sha ''environment'' ?k" "ce_hostAssociation e = a" "ce_parentEnvironmentId e = None"
      using res Some None d by (auto simp: parent_environment_def Let_def)
    have "ed_id d = definition_id sha OtherKind" by (simp add: ds(2))
    then have "environment_entry_ok sha S m1 ?k e"
      using e ds(3) grow_known [OF grow1 known] grow_association [OF grow1 assoc] hashed [OF Some]
      by (simp add: environment_entry_ok_def parent_ok_def)
    then have "kept sha S m1 n" unfolding e(1) kept_placeholders by (rule environment_put [OF cf ok1 _ known_form [OF ok known]])
    then have "kept sha S m n" by (rule kept_trans [OF ds(1)])
    moreover have "parent_ok n p parent"
      using e by (auto simp: parent_ok_def set_environment_def)
    ultimately show ?thesis by blast
  qed
qed

lemma reported_step:
  assumes cf: "collision_free sha S" and ok: "maps_ok sha S m" and known: "known_platform m p"
    and assoc: "association_ok m p a" and par: "parent_ok m p parent"
    and hashed: "scoped_key p (cd_environmentIdentity metadata) \<in> S"
    and d: "definitionId = definition_id sha (cd_environmentKind metadata)"
      "\<exists>x. js_get (fm_definitions m) (cd_environmentKind metadata) = Some x"
    and res: "reported_environment sha metadata definitionId p a parent m = (environmentId, n)"
  shows "kept sha S m n \<and> (\<exists>k e. js_get (fm_environments n) k = Some e \<and> ce_id e = environmentId)"
proof -
  let ?k = "scoped_key p (cd_environmentIdentity metadata)"
  have p: "platform_id_form sha S p" by (rule known_form [OF ok known])
  have put: "kept sha S m (set_environment ?k e m)"
    if "ce_platformId e = p" "ce_identity e = cd_environmentIdentity metadata" "ce_id e = stableId sha ''environment'' ?k"
      "ce_environmentDefinitionId e = definitionId" "ce_kind e = cd_environmentKind metadata"
      "ce_hostAssociation e = a" "ce_parentEnvironmentId e = parent" for e
    by (rule environment_put [OF cf ok _ p]) (use that known assoc par hashed d in \<open>simp add: environment_entry_ok_def\<close>)
  show ?thesis
  proof (cases "js_get (fm_environments m) ?k")
    case None
    obtain e where e: "n = set_environment ?k e m" "environmentId = ce_id e" "ce_platformId e = p"
        "ce_identity e = cd_environmentIdentity metadata" "ce_id e = stableId sha ''environment'' ?k"
        "ce_environmentDefinitionId e = definitionId" "ce_kind e = cd_environmentKind metadata"
        "ce_hostAssociation e = a" "ce_parentEnvironmentId e = parent"
      using res None by (auto simp: reported_environment_def Let_def)
    have "js_get (fm_environments n) ?k = Some e" by (simp add: e(1) set_environment_def)
    with put [OF e(3-9)] e(1,2) show ?thesis by blast
  next
    case (Some e)
    note old = maps_okD(8) [OF ok Some]
    note fields = entry_platform [OF cf ok old p]
    consider (placeholder) "?k \<in> set (fm_placeholders m)"
      | (conflict) "?k \<notin> set (fm_placeholders m)" "association_text (ce_hostAssociation e) \<noteq> association_text a"
      | (same) "?k \<notin> set (fm_placeholders m)" "association_text (ce_hostAssociation e) = association_text a"
      by blast
    then show ?thesis
    proof cases
      case placeholder
      let ?e = "e\<lparr>ce_environmentDefinitionId := definitionId, ce_hostAssociation := a,
        ce_kind := cd_environmentKind metadata, ce_name := cd_environmentName metadata,
        ce_parentEnvironmentId := parent, ce_resourceMode := cd_resourceMode metadata,
        ce_resources := own_resources metadata\<rparr>"
      have "kept sha S m (set_environment ?k ?e m)" by (rule put) (simp_all add: fields)
      with res Some placeholder show ?thesis
        by (auto simp: reported_environment_def Let_def) (auto simp: set_environment_def)
    next
      case conflict
      let ?e = "e\<lparr>ce_hostAssociation := ConflictHost EvidenceUser None None\<rparr>"
      have "environment_entry_ok sha S m ?k ?e"
        using old hashed fields(1,2) by (auto simp: environment_entry_ok_def association_ok_def referenced_def)
      then have "kept sha S m (set_environment ?k ?e m)" by (rule environment_put [OF cf ok _ p])
      with res Some conflict show ?thesis
        by (auto simp: reported_environment_def Let_def) (auto simp: set_environment_def)
    next
      case same
      with res Some kept_refl [OF ok] show ?thesis
        by (auto simp: reported_environment_def Let_def)
    qed
  qed
qed

text \<open>No reported host identity looks like that of a host assigned by hand.\<close>

definition plain_connector :: "connector_machine \<Rightarrow> bool" where
  "plain_connector c \<longleftrightarrow>
     (\<forall>metadata i. mc_compute c = Some metadata \<and> cd_hostIdentity metadata = Some i \<longrightarrow> \<not> manual_key (dk_key i))"

text \<open>The texts hashed for a connector's platform, environments and hosts.\<close>

definition hashed_texts :: "(string \<Rightarrow> string) \<Rightarrow> physical_machine list \<Rightarrow> connector_machine \<Rightarrow> string list" where
  "hashed_texts sha machines c =
     (let metadata = metadata_of sha c; p = stableId sha ''platform'' (platform_key metadata);
          manual = map pm_id (physicalByConnector machines (mc_id c));
          scoped = (\<lambda>i. case i of None \<Rightarrow> [] | Some x \<Rightarrow> [scoped_key p x])
      in [platform_key metadata, scoped_key p (cd_environmentIdentity metadata)] @
         scoped (cd_parentEnvironmentIdentity metadata) @ scoped (cd_hostIdentity metadata) @
         manual @ map (manual_text p) manual)"

lemma add_connector_step:
  assumes cf: "collision_free sha S" and ok: "maps_ok sha S m" and plain: "plain_connector c"
    and texts: "set (hashed_texts sha machines c) \<subseteq> S"
  shows "maps_ok sha S (add_connector sha profile_text machines c m) \<and>
    map ca_connectorId (fm_connectors (add_connector sha profile_text machines c m)) =
      map ca_connectorId (fm_connectors m) @ [mc_id c]"
proof -
  let ?p = "stableId sha ''platform'' (platform_key (metadata_of sha c))"
  obtain metadata where metadata: "metadata = metadata_of sha c" by simp
  have key: "platform_key metadata \<in> S" and own: "scoped_key ?p (cd_environmentIdentity metadata) \<in> S"
    and host: "\<And>i. cd_hostIdentity metadata = Some i \<Longrightarrow> scoped_key ?p i \<in> S"
    and above: "\<And>i. cd_parentEnvironmentIdentity metadata = Some i \<Longrightarrow> scoped_key ?p i \<in> S"
    and manual: "\<And>x. x \<in> set (physicalByConnector machines (mc_id c)) \<Longrightarrow> pm_id x \<in> S \<and> manual_text ?p (pm_id x) \<in> S"
    using texts by (auto simp: hashed_texts_def Let_def metadata)
  have plain': "\<not> manual_key (dk_key i)" if "cd_hostIdentity metadata = Some i" for i
    using plain that by (auto simp: metadata metadata_of_def plain_connector_def legacyMetadata_def split: option.splits)
  obtain d m1 where d: "definitionForKind sha (cd_environmentKind metadata) m = (d, m1)" by force
  note s1 = definition_step [OF ok d]
  then have ok1: "maps_ok sha S m1" by (simp add: kept_def)
  obtain p m2 where p: "platform_for sha metadata m1 = (p, m2)" by force
  note s2 = platform_step [OF ok1 key p]
  then have ok2: "maps_ok sha S m2" by (simp add: kept_def)
  have p_id: "?p = pl_id p" by (simp add: s2(3) metadata)
  note texts = own [unfolded p_id] host [unfolded p_id] above [unfolded p_id] manual [unfolded p_id]
  obtain a m3 where a: "host_association_for sha profile_text metadata (physicalByConnector machines (mc_id c)) (pl_id p) m2 = (a, m3)"
    by force
  note s3 = host_step [OF cf ok2 s2(2) conjI [OF texts(2) plain'] texts(4) a]
  then have ok3: "maps_ok sha S m3" and g3: "maps_grow m2 m3" by (simp_all add: kept_def)
  obtain parent m4 where parent: "parent_environment sha metadata (pl_id p) a m3 = (parent, m4)" by force
  note s4 = parent_step [OF cf ok3 grow_known [OF g3 s2(2)] conjunct2 [OF s3] texts(3) parent]
  then have ok4: "maps_ok sha S m4" and g4: "maps_grow m3 m4" by (simp_all add: kept_def)
  obtain environmentId m5 where e: "reported_environment sha metadata (ed_id d) (pl_id p) a parent m4 = (environmentId, m5)"
    by force
  have grow: "maps_grow m1 m4"
    using s2(1) g3 g4 by (metis kept_def grow_trans)
  have "ed_id d = definition_id sha (cd_environmentKind metadata)"
    by (simp add: s1(2))
  moreover have "\<exists>x. js_get (fm_definitions m4) (cd_environmentKind metadata) = Some x"
    using s1(3) growD(1) [OF grow] by blast
  ultimately have s5: "kept sha S m4 m5 \<and> (\<exists>k e. js_get (fm_environments m5) k = Some e \<and> ce_id e = environmentId)"
    using reported_step [OF cf ok4 _ _ _ texts(1) _ _ e] grow_known [OF grow_trans [OF g3 g4] s2(2)]
      grow_association [OF g4 conjunct2 [OF s3]] s4 by blast
  then have ok5: "maps_ok sha S m5" and "maps_grow m m5"
    using s1(1) grow by (auto simp: kept_def intro: grow_trans)
  then have connectors: "fm_connectors m5 = fm_connectors m" by (simp add: growD(5))
  have result: "add_connector sha profile_text machines c m = m5\<lparr>fm_connectors := fm_connectors m5 @
      [\<lparr>ca_associatedAt = (case mc_lastSeen c of Some t \<Rightarrow> t | None \<Rightarrow> to_iso 0), ca_connectorId = mc_id c,
        ca_environmentId = environmentId\<rparr>]\<rparr>"
    using d p a parent e by (simp add: add_connector_def metadata [symmetric])
  have "maps_ok sha S (add_connector sha profile_text machines c m)"
    using ok5 s5 unfolding result
    by (simp add: maps_ok_def host_entry_ok_def environment_entry_ok_def known_platform_def association_ok_def parent_ok_def)
  then show ?thesis by (simp add: result connectors)
qed

lemma maps_ok_empty: "maps_ok sha S empty_maps"
  by (simp add: maps_ok_def empty_maps_def)

lemma add_connectors:
  "collision_free sha S \<Longrightarrow> maps_ok sha S m \<Longrightarrow> list_all plain_connector cs \<Longrightarrow>
    \<Union> (set ` set (map (hashed_texts sha machines) cs)) \<subseteq> S \<Longrightarrow>
    maps_ok sha S (fold (add_connector sha profile_text machines) cs m) \<and>
    map ca_connectorId (fm_connectors (fold (add_connector sha profile_text machines) cs m)) =
      map ca_connectorId (fm_connectors m) @ map mc_id cs"
proof (induction cs arbitrary: m)
  case (Cons c cs)
  then show ?case using add_connector_step [of sha S m c machines profile_text] by simp
qed simp

end
