(* ===== verification/ComputeTree.thy ===== *)
theory ComputeTree
  imports ComputeValid
begin

text \<open>
  The grouping of a valid inventory into platforms, hosts and trees of environments
  (\<open>groupComputeInventory\<close>), and the owner an environment's capacity is counted for
  (\<open>resourceCapacityOwner\<close>), in \<open>src/shared/compute-environment-api.ts\<close>.

  The recursion over the children has a fuel, one more than the number of environments; \<open>None\<close> means
  that it ran out, and \<open>group_partition\<close> shows that a valid inventory never does.
\<close>

section \<open>Trees of environments\<close>

datatype environment_node = EnvironmentNode
  (nd_connectors: "connector_association list") (nd_children: "environment_node list")
  (nd_environment: compute_environment)

record host_node =
  hn_environments :: "environment_node list"
  hn_host :: host_record

record platform_node =
  pn_environments :: "environment_node list"
  pn_hosts :: "host_node list"
  pn_platform :: platform_record

text \<open>The order by name, then identifier.\<close>

definition name_order :: "(string \<Rightarrow> string \<Rightarrow> int) \<Rightarrow> ('a \<Rightarrow> string) \<Rightarrow> ('a \<Rightarrow> string) \<Rightarrow> 'a \<Rightarrow> 'a \<Rightarrow> int" where
  "name_order coll name key a b = compare_then (coll (name a) (name b)) (coll (key a) (key b))"

definition environment_order :: "(string \<Rightarrow> string \<Rightarrow> int) \<Rightarrow> compute_environment \<Rightarrow> compute_environment \<Rightarrow> int" where
  "environment_order coll = name_order coll ce_name ce_id"

definition children_of :: "compute_environment list \<Rightarrow> string \<Rightarrow> compute_environment list" where
  "children_of envs k = filter (\<lambda>c. parent_of c = Some k) envs"

definition connectors_of :: "(string \<Rightarrow> string \<Rightarrow> int) \<Rightarrow> connector_association list \<Rightarrow> string \<Rightarrow> connector_association list" where
  "connectors_of coll connectors k =
     js_sort (\<lambda>a b. coll (ca_connectorId a) (ca_connectorId b)) (filter (\<lambda>c. ca_environmentId c = k) connectors)"

primrec environment_tree ::
    "(string \<Rightarrow> string \<Rightarrow> int) \<Rightarrow> connector_association list \<Rightarrow> compute_environment list \<Rightarrow> nat \<Rightarrow>
     compute_environment \<Rightarrow> environment_node option" where
  "environment_tree coll connectors envs 0 e = None"
| "environment_tree coll connectors envs (Suc n) e = do {
     children \<leftarrow> traverse (environment_tree coll connectors envs n)
       (js_sort (environment_order coll) (children_of envs (ce_id e)));
     Some (EnvironmentNode (connectors_of coll connectors (ce_id e)) children e) }"

definition environmentNodes ::
    "(string \<Rightarrow> string \<Rightarrow> int) \<Rightarrow> compute_environment list \<Rightarrow> connector_association list \<Rightarrow> environment_node list option" where
  "environmentNodes coll envs connectors =
     traverse (environment_tree coll connectors envs (Suc (length envs)))
       (js_sort (environment_order coll) (filter (\<lambda>e. parent_of e = None) envs))"

definition host_of :: "compute_environment \<Rightarrow> string option" where
  "host_of e = associationHostId (ce_hostAssociation e)"

definition host_group ::
    "(string \<Rightarrow> string \<Rightarrow> int) \<Rightarrow> connector_association list \<Rightarrow> compute_environment list \<Rightarrow> host_record \<Rightarrow> host_node option" where
  "host_group coll connectors platformEnvironments h = do {
     nodes \<leftarrow> environmentNodes coll (filter (\<lambda>e. host_of e = Some (hr_id h)) platformEnvironments) connectors;
     Some \<lparr>hn_environments = nodes, hn_host = h\<rparr> }"

definition platform_group ::
    "(string \<Rightarrow> string \<Rightarrow> int) \<Rightarrow> compute_inventory \<Rightarrow> platform_record \<Rightarrow> platform_node option" where
  "platform_group coll i p = do {
     let platformEnvironments = filter (\<lambda>e. ce_platformId e = pl_id p) (in_environments i);
     nodes \<leftarrow> environmentNodes coll (filter (\<lambda>e. \<not> truthy (host_of e)) platformEnvironments) (in_connectors i);
     hosts \<leftarrow> traverse (host_group coll (in_connectors i) platformEnvironments)
       (js_sort (name_order coll hr_name hr_id) (filter (\<lambda>h. hr_platformId h = pl_id p) (in_hosts i)));
     Some \<lparr>pn_environments = nodes, pn_hosts = hosts, pn_platform = p\<rparr> }"

text \<open>The violations of an invalid inventory are thrown.\<close>

definition groupComputeInventory ::
    "(string \<Rightarrow> string \<Rightarrow> int) \<Rightarrow> compute_inventory \<Rightarrow> (compute_violation list + platform_node list) option" where
  "groupComputeInventory coll i =
     (let violations = validateComputeInventory coll i
      in if violations \<noteq> [] then Some (Inl violations)
         else map_option Inr (traverse (platform_group coll i)
           (js_sort (name_order coll pl_name pl_id) (in_platforms i))))"

section \<open>Capacity owners\<close>

definition host_owner :: "string \<Rightarrow> string" where
  "host_owner h = ''host:'' @ h"

definition environment_owner :: "string \<Rightarrow> string" where
  "environment_owner k = ''environment:'' @ k"

definition platform_owner :: "string \<Rightarrow> string" where
  "platform_owner p = ''platform:'' @ p @ '':shared''"

text \<open>\<open>None\<close> is the error of a parent cycle.\<close>

function resolveResourceCapacityOwner ::
    "compute_environment list \<Rightarrow> string list \<Rightarrow> compute_environment \<Rightarrow> string option" where
  "resolveResourceCapacityOwner envs visited e =
     (if ce_resourceMode e = Exclusive then
        Some (if truthy (host_of e) then host_owner (the (host_of e)) else environment_owner (ce_id e))
      else if ce_resourceMode e = Dedicated then Some (environment_owner (ce_id e))
      else if truthy (host_of e) then Some (host_owner (the (host_of e)))
      else (case parent_of e of
          None \<Rightarrow> Some (platform_owner (ce_platformId e))
        | Some p \<Rightarrow>
            if ce_id e \<in> set visited then None
            else (case find (\<lambda>x. ce_id x = p) envs of
                None \<Rightarrow> Some (platform_owner (ce_platformId e))
              | Some parent \<Rightarrow> resolveResourceCapacityOwner envs (set_add (ce_id e) visited) parent)))"
  by auto
termination
proof (relation "measure (\<lambda>(envs, visited, e).
      2 * card (set (map ce_id envs) - set visited) + (if ce_id e \<in> set (map ce_id envs) then 0 else 1))")
  fix envs :: "compute_environment list" and visited :: "string list" and e parent :: compute_environment and p
  assume new: "ce_id e \<notin> set visited" and "find (\<lambda>x. ce_id x = p) envs = Some parent"
  then have parent: "ce_id parent \<in> set (map ce_id envs)" by (auto dest: find_SomeD)
  show "((envs, set_add (ce_id e) visited, parent), (envs, visited, e)) \<in> measure (\<lambda>(envs, visited, e).
      2 * card (set (map ce_id envs) - set visited) + (if ce_id e \<in> set (map ce_id envs) then 0 else 1))"
  proof (cases "ce_id e \<in> set (map ce_id envs)")
    case True
    with new parent show ?thesis
      using card_seen_less [of "ce_id e" "set (map ce_id envs)" "set visited"] by simp
  next
    case False
    then have "set (map ce_id envs) - insert (ce_id e) (set visited) = set (map ce_id envs) - set visited" by blast
    with False parent show ?thesis by simp
  qed
qed simp

declare resolveResourceCapacityOwner.simps [simp del]

definition resourceCapacityOwner :: "compute_environment \<Rightarrow> compute_environment list \<Rightarrow> string option" where
  "resourceCapacityOwner e envs = resolveResourceCapacityOwner envs [] e"

fun hostAssociationLabel :: "host_association \<Rightarrow> string" where
  "hostAssociationLabel (VerifiedHost e h) = ''Verified '' @ CHR 0xB7 # '' '' @ evidence_name e"
| "hostAssociationLabel (ManualHost h) = ''Manually assigned''"
| "hostAssociationLabel UnresolvedHost = ''Needs assignment''"
| "hostAssociationLabel (ConflictHost e expected h) = ''Conflict '' @ CHR 0xB7 # '' review required''"
| "hostAssociationLabel (NoHost e) = ''Provider managed''"

section \<open>What a tree holds\<close>

primrec node_environments :: "environment_node \<Rightarrow> compute_environment list" where
  "node_environments (EnvironmentNode cs ts e) = e # concat (map node_environments ts)"

primrec node_connectors :: "environment_node \<Rightarrow> connector_association list" where
  "node_connectors (EnvironmentNode cs ts e) = cs @ concat (map node_connectors ts)"

text \<open>Every child is below its own parent.\<close>

primrec node_ordered :: "environment_node \<Rightarrow> bool" where
  "node_ordered (EnvironmentNode cs ts e) \<longleftrightarrow>
     list_all (\<lambda>t. parent_of (nd_environment t) = Some (ce_id e)) ts \<and> list_all node_ordered ts"

lemma traverse_Some: "list_all (\<lambda>x. f x \<noteq> None) xs \<Longrightarrow> \<exists>ys. traverse f xs = Some ys"
  by (induction xs) auto

lemma traverse_list_all2: "traverse f xs = Some ys \<longleftrightarrow> list_all2 (\<lambda>x y. f x = Some y) xs ys"
  by (induction xs arbitrary: ys) (auto simp: bind_eq_Some_conv list_all2_Cons1)

lemma traverse_map_Some:
  assumes "traverse f xs = Some ys" and "\<And>x y. x \<in> set xs \<Longrightarrow> f x = Some y \<Longrightarrow> g y = h x"
  shows "map g ys = map h xs"
  using assms by (auto simp: traverse_list_all2 list_all2_conv_all_nth intro!: nth_equalityI)

lemma node_environment: "environment_tree coll connectors envs n e = Some t \<Longrightarrow> nd_environment t = e"
  by (cases n) (auto simp: bind_eq_Some_conv)

section \<open>Forests\<close>

definition forest :: "compute_environment list \<Rightarrow> bool" where
  "forest es \<longleftrightarrow> distinct (map ce_id es) \<and> acyclic (parent_rel es) \<and>
     (\<forall>e\<in>set es. \<forall>p. parent_of e = Some p \<longrightarrow> (\<exists>q\<in>set es. ce_id q = p))"

definition below :: "compute_environment list \<Rightarrow> compute_environment \<Rightarrow> compute_environment \<Rightarrow> bool" where
  "below es e x \<longleftrightarrow> (ce_id x, ce_id e) \<in> (parent_rel es)\<^sup>*"

lemma forestD:
  assumes "forest es"
  shows "distinct (map ce_id es)" "acyclic (parent_rel es)" "distinct es"
    "e \<in> set es \<Longrightarrow> parent_of e = Some p \<Longrightarrow> \<exists>q\<in>set es. ce_id q = p"
    "a \<in> set es \<Longrightarrow> b \<in> set es \<Longrightarrow> ce_id a = ce_id b \<Longrightarrow> a = b"
  using assms by (auto simp: forest_def distinct_map dest: inj_onD)

lemma finite_parent_rel: "finite (parent_rel es)"
proof -
  have "parent_rel es \<subseteq> (\<lambda>e. (ce_id e, the (parent_of e))) ` set es"
    by (force simp: parent_rel_def)
  then show ?thesis by (rule finite_subset) simp
qed

text \<open>The parents of an environment of a forest end at a root.\<close>

lemma forest_induct [consumes 2, case_names root child]:
  assumes F: "forest es" and e: "e \<in> set es"
    and root: "\<And>e. e \<in> set es \<Longrightarrow> parent_of e = None \<Longrightarrow> P e"
    and child: "\<And>e q. e \<in> set es \<Longrightarrow> q \<in> set es \<Longrightarrow> parent_of e = Some (ce_id q) \<Longrightarrow> P q \<Longrightarrow> P e"
  shows "P e"
proof -
  have wf: "wf ((parent_rel es)\<inverse>)"
    by (rule finite_acyclic_wf_converse [OF finite_parent_rel forestD(2) [OF F]])
  have "\<forall>e\<in>set es. ce_id e = k \<longrightarrow> P e" for k
  proof (induction k rule: wf_induct_rule [OF wf])
    case (1 k)
    show ?case
    proof (intro ballI impI)
      fix e assume e: "e \<in> set es" "ce_id e = k"
      show "P e"
      proof (cases "parent_of e")
        case None
        with e(1) show ?thesis by (rule root)
      next
        case (Some p)
        with forestD(4) [OF F e(1)] obtain q where "q \<in> set es" "ce_id q = p" by blast
        with 1 e Some show ?thesis by (auto intro: child parent_relI)
      qed
    qed
  qed
  with e show ?thesis by blast
qed

section \<open>Depth\<close>

primrec at_depth :: "compute_environment list \<Rightarrow> nat \<Rightarrow> compute_environment \<Rightarrow> bool" where
  "at_depth es 0 e \<longleftrightarrow> parent_of e = None"
| "at_depth es (Suc k) e \<longleftrightarrow> (\<exists>q\<in>set es. parent_of e = Some (ce_id q) \<and> at_depth es k q)"

lemma depth_unique: "forest es \<Longrightarrow> at_depth es k e \<Longrightarrow> at_depth es j e \<Longrightarrow> k = j"
proof (induction k arbitrary: j e)
  case 0
  then show ?case by (cases j) auto
next
  case (Suc k)
  then obtain q where q: "q \<in> set es" "parent_of e = Some (ce_id q)" "at_depth es k q" by auto
  with Suc.prems(3) obtain i where "j = Suc i" by (cases j) auto
  with Suc.prems q obtain r where "r \<in> set es" "ce_id r = ce_id q" "at_depth es i r" by auto
  with forestD(5) [OF Suc.prems(1)] q(1) have "at_depth es i q" by blast
  with Suc.IH [OF Suc.prems(1) q(3)] \<open>j = Suc i\<close> show ?case by simp
qed

lemma depth_exists: "forest es \<Longrightarrow> e \<in> set es \<Longrightarrow> \<exists>k. at_depth es k e"
proof (induction e rule: forest_induct)
  case (root e)
  then show ?case by (auto intro: exI [of _ 0])
next
  case (child e q)
  then show ?case by (metis at_depth.simps(2))
qed

lemma depth_below: "e \<in> set es \<Longrightarrow> at_depth es k e \<Longrightarrow> j \<le> k \<Longrightarrow> \<exists>x\<in>set es. at_depth es j x"
proof (induction k arbitrary: e)
  case (Suc k)
  then show ?case by (cases "j = Suc k") (auto simp: le_Suc_eq)
qed auto

lemma depth_bound:
  assumes F: "forest es" and e: "e \<in> set es" "at_depth es k e"
  shows "k < length es"
proof -
  have "\<forall>j\<in>{..k}. \<exists>x\<in>set es. at_depth es j x"
    using depth_below [OF e] by simp
  then obtain f where f: "\<forall>j\<in>{..k}. f j \<in> set es \<and> at_depth es j (f j)" by metis
  then have "inj_on f {..k}"
    by (metis depth_unique [OF F] inj_onI)
  then have "card {..k} \<le> card (set es)"
    using f by (intro card_inj_on_le [of f]) auto
  then show ?thesis using card_length [of es] by simp
qed

section \<open>The tree of an environment\<close>

lemma in_children: "c \<in> set (children_of es k) \<longleftrightarrow> c \<in> set es \<and> parent_of c = Some k"
  by (simp add: children_of_def)

lemma environment_tree_Some:
  "forest es \<Longrightarrow> e \<in> set es \<Longrightarrow> at_depth es d e \<Longrightarrow> length es - d \<le> n \<Longrightarrow>
    environment_tree coll connectors es n e \<noteq> None"
proof (induction n arbitrary: e d)
  case 0
  then show ?case using depth_bound by fastforce
next
  case (Suc n)
  have "\<exists>ys. traverse (environment_tree coll connectors es n)
      (js_sort (environment_order coll) (children_of es (ce_id e))) = Some ys"
  proof (rule traverse_Some, unfold list_all_iff, rule ballI)
    fix c assume "c \<in> set (js_sort (environment_order coll) (children_of es (ce_id e)))"
    then have c: "c \<in> set es" "parent_of c = Some (ce_id e)" by (simp_all add: in_children)
    with Suc.prems have "at_depth es (Suc d) c" by auto
    with Suc.IH [OF Suc.prems(1) c(1) this] Suc.prems(4)
    show "environment_tree coll connectors es n c \<noteq> None" by auto
  qed
  then show ?case by auto
qed

lemma below_refl [simp]: "below es e e"
  by (simp add: below_def)

lemma child_step: "c \<in> set (children_of es k) \<Longrightarrow> (ce_id c, k) \<in> parent_rel es"
  by (auto simp: in_children intro: parent_relI)

lemma below_step:
  "below es e x \<longleftrightarrow> ce_id x = ce_id e \<or> (\<exists>c\<in>set (children_of es (ce_id e)). below es c x)"
proof
  assume "below es e x"
  then show "ce_id x = ce_id e \<or> (\<exists>c\<in>set (children_of es (ce_id e)). below es c x)"
    unfolding below_def by (cases rule: rtranclE) (auto simp: parent_rel_def in_children)
next
  assume "ce_id x = ce_id e \<or> (\<exists>c\<in>set (children_of es (ce_id e)). below es c x)"
  then show "below es e x"
    unfolding below_def by (auto intro: rtrancl_into_rtrancl child_step)
qed

lemma parent_rel_single_valued:
  assumes F: "forest es"
  shows "single_valued (parent_rel es)"
proof (rule single_valuedI)
  fix a b c assume b: "(a, b) \<in> parent_rel es" and c: "(a, c) \<in> parent_rel es"
  then obtain e where "e \<in> set es" "a = ce_id e" by (auto simp: parent_rel_def)
  with b c show "b = c" by (simp add: parent_rel_fun [OF forestD(1) [OF F]])
qed

lemma sibling_not_below:
  assumes F: "forest es" and c: "c \<in> set es" "d \<in> set es" "parent_of c = parent_of d" "c \<noteq> d"
  shows "\<not> below es d c"
proof
  assume "below es d c"
  moreover have "ce_id c \<noteq> ce_id d" using forestD(5) [OF F] c by blast
  ultimately obtain y where y: "(ce_id c, y) \<in> parent_rel es" "(y, ce_id d) \<in> (parent_rel es)\<^sup>*"
    unfolding below_def by (metis converse_rtranclE)
  then have "parent_of d = Some y"
    using parent_rel_fun [OF forestD(1) [OF F] c(1)] c(3) by simp
  then have "(ce_id d, ce_id d) \<in> (parent_rel es)\<^sup>+"
    using c(2) y(2) by (metis parent_relI rtrancl_into_trancl2)
  with forestD(2) [OF F] show False by (auto simp: acyclic_def)
qed

lemma siblings_disjoint:
  assumes F: "forest es" and c: "c \<in> set es" "d \<in> set es" "parent_of c = parent_of d" "c \<noteq> d"
    and x: "below es c x" "below es d x"
  shows False
proof -
  have "below es d c \<or> below es c d"
    using single_valued_confluent [OF parent_rel_single_valued [OF F]] x unfolding below_def by blast
  then show False
    using sibling_not_below [OF F c] sibling_not_below [OF F c(2,1) sym [OF c(3)]] c(4) by blast
qed

lemma distinct_concat_map:
  assumes "distinct xs" and "\<And>x. x \<in> set xs \<Longrightarrow> distinct (f x)"
    and "\<And>x y z. x \<in> set xs \<Longrightarrow> y \<in> set xs \<Longrightarrow> x \<noteq> y \<Longrightarrow> z \<in> set (f x) \<Longrightarrow> z \<in> set (f y) \<Longrightarrow> False"
  shows "distinct (concat (map f xs))"
  using assms(1,2,3)
proof (induction xs)
  case (Cons x xs)
  have "distinct (concat (map f xs))"
    by (rule Cons.IH) (use Cons.prems in \<open>auto\<close>)
  moreover have "set (f x) \<inter> set (concat (map f xs)) = {}"
    using Cons.prems(1) Cons.prems(3) [of x] by fastforce
  ultimately show ?case using Cons.prems(2) by simp
qed simp

text \<open>The siblings below one parent, as trees: their environments are those below them, each once.\<close>

lemma sibling_trees:
  assumes F: "forest es" and cs: "distinct cs" "set cs \<subseteq> set es" "\<And>c d. c \<in> set cs \<Longrightarrow> d \<in> set cs \<Longrightarrow> parent_of c = parent_of d"
    and trees: "traverse f cs = Some ts"
    and each: "\<And>c t. c \<in> set cs \<Longrightarrow> f c = Some t \<Longrightarrow> distinct (node_environments t) \<and>
      set (node_environments t) = {x \<in> set es. below es c x}"
  shows "distinct (concat (map node_environments ts)) \<and>
    set (concat (map node_environments ts)) = {x \<in> set es. \<exists>c\<in>set cs. below es c x}"
proof -
  let ?g = "\<lambda>c. node_environments (the (f c))"
  have map: "map node_environments ts = map ?g cs"
    by (rule traverse_map_Some [OF trees]) simp
  have "f c \<noteq> None" if "c \<in> set cs" for c
    using trees that by (auto simp: traverse_list_all2 list_all2_conv_all_nth in_set_conv_nth)
  then have g: "distinct (?g c)" "set (?g c) = {x \<in> set es. below es c x}" if "c \<in> set cs" for c
    using each [OF that, of "the (f c)"] that by simp_all
  have "distinct (concat (map ?g cs))"
  proof (rule distinct_concat_map [OF cs(1)])
    fix c d z
    assume "c \<in> set cs" "d \<in> set cs" "c \<noteq> d" "z \<in> set (?g c)" "z \<in> set (?g d)"
    then show False
      using siblings_disjoint [OF F _ _ cs(3), of c d z] cs(2) by (simp add: g(2) subset_iff)
  qed (rule g(1))
  moreover have "set (concat (map ?g cs)) = (\<Union>c\<in>set cs. {x \<in> set es. below es c x})"
    using g(2) by simp
  ultimately show ?thesis unfolding map by blast
qed

lemma children_subset: "set (children_of es k) \<subseteq> set es"
  by (auto simp: in_children)

lemma distinct_js_sort [simp]: "distinct (js_sort cmp xs) = distinct xs"
  by (rule mset_eq_imp_distinct_iff) simp

lemma tree_environments:
  assumes F: "forest es"
  shows "e \<in> set es \<Longrightarrow> environment_tree coll connectors es n e = Some t \<Longrightarrow>
    distinct (node_environments t) \<and> set (node_environments t) = {x \<in> set es. below es e x}"
proof (induction n arbitrary: e t)
  case (Suc n)
  let ?cs = "js_sort (environment_order coll) (children_of es (ce_id e))"
  obtain ts where ts: "traverse (environment_tree coll connectors es n) ?cs = Some ts"
    and t: "t = EnvironmentNode (connectors_of coll connectors (ce_id e)) ts e"
    using Suc.prems(2) by (auto simp: bind_eq_Some_conv)
  have sub: "distinct (concat (map node_environments ts)) \<and>
      set (concat (map node_environments ts)) = {x \<in> set es. \<exists>c\<in>set ?cs. below es c x}"
    by (rule sibling_trees [OF F _ _ _ ts]) (use Suc.IH forestD(3) [OF F] in \<open>auto simp: in_children children_of_def\<close>)
  have "\<not> (\<exists>c\<in>set ?cs. below es c e)"
  proof
    assume "\<exists>c\<in>set ?cs. below es c e"
    then obtain c where "c \<in> set (children_of es (ce_id e))" "below es c e" by auto
    then have "(ce_id c, ce_id e) \<in> parent_rel es" "(ce_id e, ce_id c) \<in> (parent_rel es)\<^sup>*"
      by (simp_all add: below_def child_step)
    with forestD(2) [OF F] show False by (auto simp: acyclic_def dest: rtrancl_into_trancl1)
  qed
  moreover have "x = e \<or> (\<exists>c\<in>set ?cs. below es c x) \<longleftrightarrow> below es e x" if "x \<in> set es" for x
    using below_step [of es e x] forestD(5) [OF F that Suc.prems(1)] by auto
  ultimately show ?case
    using sub Suc.prems(1) unfolding t by auto
qed simp

lemma tree_ordered: "environment_tree coll connectors es n e = Some t \<Longrightarrow> node_ordered t"
proof (induction n arbitrary: e t)
  case (Suc n)
  then show ?case
    by (auto simp: bind_eq_Some_conv traverse_list_all2 list_all_iff in_set_conv_nth list_all2_conv_all_nth)
      (metis children_of_def in_children length_js_sort node_environment nth_mem set_js_sort)+
qed simp

end
