(* ===== verification/ComputeGroups.thy ===== *)
theory ComputeGroups
  imports ComputeTree
begin

text \<open>
  A valid inventory is grouped without loss: the recursion ends, and every environment and every connector
  appears exactly once, under its platform, its host and its parent. The capacity owner of an environment
  of a valid inventory is found without meeting the cycle error.
\<close>

section \<open>The trees of a forest\<close>

lemma traverse_in: "traverse f xs = Some ys \<Longrightarrow> y \<in> set ys \<Longrightarrow> \<exists>x\<in>set xs. f x = Some y"
  by (induction xs arbitrary: ys) (auto simp: bind_eq_Some_conv)

lemma tree_connectors:
  "environment_tree coll connectors es n e = Some t \<Longrightarrow>
    node_connectors t = concat (map (\<lambda>x. connectors_of coll connectors (ce_id x)) (node_environments t))"
proof (induction n arbitrary: e t)
  case (Suc n)
  let ?c = "\<lambda>x. connectors_of coll connectors (ce_id x)"
  obtain ts where ts: "traverse (environment_tree coll connectors es n)
      (js_sort (environment_order coll) (children_of es (ce_id e))) = Some ts"
    and t: "t = EnvironmentNode (?c e) ts e"
    using Suc.prems by (auto simp: bind_eq_Some_conv)
  have "map node_connectors ts = map (\<lambda>t. concat (map ?c (node_environments t))) ts"
    using traverse_in [OF ts] Suc.IH by (intro map_cong) auto
  then have "concat (map node_connectors ts) = concat (map (\<lambda>t. concat (map ?c (node_environments t))) ts)"
    by (rule arg_cong)
  moreover have "concat (map ?c (concat (map node_environments ts))) =
      concat (map (\<lambda>t. concat (map ?c (node_environments t))) ts)"
    by (induction ts) simp_all
  ultimately show ?case by (simp add: t)
qed simp

definition tree_ok :: "(string \<Rightarrow> string \<Rightarrow> int) \<Rightarrow> connector_association list \<Rightarrow> environment_node \<Rightarrow> bool" where
  "tree_ok coll connectors t \<longleftrightarrow> node_ordered t \<and> parent_of (nd_environment t) = None \<and>
     node_connectors t = concat (map (\<lambda>x. connectors_of coll connectors (ce_id x)) (node_environments t))"

definition all_below ::
    "(string \<Rightarrow> string \<Rightarrow> int) \<Rightarrow> connector_association list \<Rightarrow> compute_environment list \<Rightarrow> environment_node list \<Rightarrow> bool" where
  "all_below coll connectors es ts \<longleftrightarrow> distinct (concat (map node_environments ts)) \<and>
     set (concat (map node_environments ts)) = set es \<and>
     list_all (tree_ok coll connectors) ts"

lemma below_root:
  "forest es \<Longrightarrow> x \<in> set es \<Longrightarrow> \<exists>r\<in>set es. parent_of r = None \<and> below es r x"
proof (induction x rule: forest_induct)
  case (root e)
  then show ?case using below_refl by blast
next
  case (child e q)
  then obtain r where "r \<in> set es" "parent_of r = None" "below es r q" by blast
  moreover from this(3) child(1,3) have "below es r e"
    unfolding below_def by (meson converse_rtrancl_into_rtrancl parent_relI)
  ultimately show ?case by blast
qed

lemma environmentNodes_forest:
  assumes F: "forest es"
  shows "\<exists>ts. environmentNodes coll es connectors = Some ts \<and> all_below coll connectors es ts"
proof -
  let ?rs = "js_sort (environment_order coll) (filter (\<lambda>e. parent_of e = None) es)"
  let ?f = "environment_tree coll connectors es (Suc (length es))"
  have roots: "r \<in> set ?rs \<longleftrightarrow> r \<in> set es \<and> parent_of r = None" for r by auto
  have "list_all (\<lambda>r. ?f r \<noteq> None) ?rs"
    using environment_tree_Some [OF F, of _ 0 "Suc (length es)" coll connectors]
    by (auto simp: list_all_iff roots simp del: environment_tree.simps)
  then obtain ts where ts: "traverse ?f ?rs = Some ts" by (rule exE [OF traverse_Some])
  have "distinct (concat (map node_environments ts)) \<and>
      set (concat (map node_environments ts)) = {x \<in> set es. \<exists>c\<in>set ?rs. below es c x}"
  proof (rule sibling_trees [OF F _ _ _ ts])
    show "distinct ?rs" using forestD(3) [OF F] by simp
    show "set ?rs \<subseteq> set es" by (simp add: subset_iff)
    show "parent_of c = parent_of d" if "c \<in> set ?rs" "d \<in> set ?rs" for c d
      using that by simp
    show "distinct (node_environments t) \<and> set (node_environments t) = {x \<in> set es. below es c x}"
      if "c \<in> set ?rs" "?f c = Some t" for c t
      by (rule tree_environments [OF F _ that(2)]) (use that(1) in simp)
  qed
  moreover have "{x \<in> set es. \<exists>c\<in>set ?rs. below es c x} = set es"
    using below_root [OF F] by (auto simp: roots)
  moreover have "list_all (tree_ok coll connectors) ts"
  proof (unfold list_all_iff, rule ballI)
    fix t assume "t \<in> set ts"
    then obtain r where r: "r \<in> set ?rs" "?f r = Some t"
      using traverse_in [OF ts] by blast
    then show "tree_ok coll connectors t"
      using tree_ordered [OF r(2)] node_environment [OF r(2)] tree_connectors [OF r(2)] roots by (simp add: tree_ok_def)
  qed
  ultimately have "all_below coll connectors es ts" by (simp add: all_below_def)
  then show ?thesis using ts by (auto simp: environmentNodes_def)
qed

lemma forest_filter:
  assumes F: "forest es"
    and closed: "\<And>e q. e \<in> set es \<Longrightarrow> q \<in> set es \<Longrightarrow> parent_of e = Some (ce_id q) \<Longrightarrow> P e \<Longrightarrow> P q"
  shows "forest (filter P es)"
proof -
  have "parent_rel (filter P es) \<subseteq> parent_rel es" by (auto simp: parent_rel_def)
  then have "acyclic (parent_rel (filter P es))" by (rule acyclic_subset [OF forestD(2) [OF F]])
  moreover have "distinct (map ce_id (filter P es))" using forestD(1) [OF F] by (rule distinct_map_filter)
  moreover have "\<exists>q\<in>set (filter P es). ce_id q = p" if "e \<in> set (filter P es)" "parent_of e = Some p" for e p
    using forestD(4) [OF F, of e p] closed [of e] that by force
  ultimately show ?thesis by (simp add: forest_def)
qed

section \<open>The groups of a platform\<close>

definition group_nodes :: "platform_node \<Rightarrow> environment_node list" where
  "group_nodes p = pn_environments p @ concat (map hn_environments (pn_hosts p))"

definition node_list_environments :: "environment_node list \<Rightarrow> compute_environment list" where
  "node_list_environments ts = concat (map node_environments ts)"

lemma node_list_append [simp]:
  "node_list_environments [] = []"
  "node_list_environments (xs @ ys) = node_list_environments xs @ node_list_environments ys"
  by (simp_all add: node_list_environments_def)

lemma node_list_concat: "node_list_environments (concat (map f xs)) = concat (map (\<lambda>x. node_list_environments (f x)) xs)"
  by (induction xs) simp_all

text \<open>Each environment of a group with the platform and the host it is shown under.\<close>

definition placed :: "platform_node \<Rightarrow> (string \<times> string option \<times> compute_environment) list" where
  "placed p =
     map (\<lambda>e. (pl_id (pn_platform p), None, e)) (node_list_environments (pn_environments p)) @
     concat (map (\<lambda>h. map (\<lambda>e. (pl_id (pn_platform p), Some (hr_id (hn_host h)), e))
       (node_list_environments (hn_environments h))) (pn_hosts p))"

definition place_of :: "compute_environment \<Rightarrow> string \<times> string option \<times> compute_environment" where
  "place_of e = (ce_platformId e, if truthy (host_of e) then host_of e else None, e)"

lemma placed_environments: "map (\<lambda>(p, h, e). e) (placed g) = node_list_environments (group_nodes g)"
  by (simp add: placed_def group_nodes_def node_list_concat map_concat comp_def)

lemma traverse_all2:
  assumes "\<And>x. x \<in> set xs \<Longrightarrow> \<exists>y. f x = Some y \<and> P x y"
  shows "\<exists>ys. traverse f xs = Some ys \<and> list_all2 P xs ys"
  using assms
proof (induction xs)
  case (Cons x xs)
  then obtain y ys where "f x = Some y" "P x y" "traverse f xs = Some ys" "list_all2 P xs ys" by fastforce
  then show ?case by simp
qed simp

lemma distinct_concat_all2:
  assumes "list_all2 P xs ys" and "distinct xs"
    and each: "\<And>x y. x \<in> set xs \<Longrightarrow> P x y \<Longrightarrow> distinct (f y) \<and> set (f y) = A x"
    and disjoint: "\<And>x y. x \<in> set xs \<Longrightarrow> y \<in> set xs \<Longrightarrow> x \<noteq> y \<Longrightarrow> A x \<inter> A y = {}"
  shows "distinct (concat (map f ys)) \<and> set (concat (map f ys)) = \<Union> (A ` set xs)"
  using assms
proof (induction rule: list_all2_induct)
  case (Cons x xs y ys)
  have IH: "distinct (concat (map f ys)) \<and> set (concat (map f ys)) = \<Union> (A ` set xs)"
    by (rule Cons.IH) (use Cons.prems in auto)
  have "A x \<inter> \<Union> (A ` set xs) = {}"
    using Cons.prems(1) Cons.prems(3) [of x] by fastforce
  moreover have "distinct (f y)" "set (f y) = A x"
    using Cons.prems(2) [of x y] Cons.hyps(1) by auto
  ultimately show ?case using IH by simp
qed simp

text \<open>What one platform shows: its environments, each once, in its place.\<close>

definition group_ok :: "(string \<Rightarrow> string \<Rightarrow> int) \<Rightarrow> compute_inventory \<Rightarrow> platform_record \<Rightarrow> platform_node \<Rightarrow> bool" where
  "group_ok coll i p g \<longleftrightarrow> pn_platform g = p \<and> distinct (placed g) \<and>
     set (placed g) = place_of ` {e \<in> set (in_environments i). ce_platformId e = pl_id p} \<and>
     list_all (tree_ok coll (in_connectors i)) (group_nodes g)"

lemma well_formed_forest: "well_formed_inventory i \<Longrightarrow> forest (in_environments i)"
  unfolding well_formed_inventory_def unique_records_def references_resolved_def environment_resolved_def forest_def
  by blast

lemma parent_same:
  assumes wf: "well_formed_inventory i"
    and e: "e \<in> set (in_environments i)" "q \<in> set (in_environments i)" "parent_of e = Some (ce_id q)"
  shows "ce_platformId q = ce_platformId e" "host_of q = host_of e"
proof -
  obtain r where "r \<in> set (in_environments i)" "ce_id r = ce_id q" "ce_platformId r = ce_platformId e"
      "host_of r = host_of e"
    using wf e unfolding well_formed_inventory_def references_resolved_def environment_resolved_def host_of_def by blast
  moreover from this have "r = q" using forestD(5) [OF well_formed_forest [OF wf]] e(2) by blast
  ultimately show "ce_platformId q = ce_platformId e" "host_of q = host_of e" by simp_all
qed

lemma host_known:
  assumes wf: "well_formed_inventory i" and e: "e \<in> set (in_environments i)" "host_of e = Some x" "x \<noteq> []"
  shows "\<exists>h\<in>set (in_hosts i). hr_id h = x \<and> hr_platformId h = ce_platformId e"
proof -
  have "x \<in> set (associationHostIds (ce_hostAssociation e))"
    using e(2,3) by (cases "ce_hostAssociation e") (auto simp: host_of_def referenced_def)
  with wf e(1) show ?thesis
    unfolding well_formed_inventory_def references_resolved_def environment_resolved_def by blast
qed

lemma host_group_ok:
  assumes "forest (filter (\<lambda>e. host_of e = Some (hr_id h)) es)"
  shows "\<exists>g. host_group coll connectors es h = Some g \<and>
    hn_host g = h \<and> all_below coll connectors (filter (\<lambda>e. host_of e = Some (hr_id h)) es) (hn_environments g)"
  using environmentNodes_forest [OF assms, of coll connectors] by (auto simp: host_group_def)

lemma platform_group_ok:
  assumes wf: "well_formed_inventory i" and hosts: "[] \<notin> set (map hr_id (in_hosts i))" and p: "p \<in> set (in_platforms i)"
  shows "\<exists>g. platform_group coll i p = Some g \<and> group_ok coll i p g"
proof -
  let ?es = "filter (\<lambda>e. ce_platformId e = pl_id p) (in_environments i)"
  let ?free = "filter (\<lambda>e. \<not> truthy (host_of e)) ?es"
  let ?on = "\<lambda>h. filter (\<lambda>e. host_of e = Some (hr_id h)) ?es"
  let ?hs = "js_sort (name_order coll hr_name hr_id) (filter (\<lambda>h. hr_platformId h = pl_id p) (in_hosts i))"
  have F: "forest ?es"
    by (rule forest_filter [OF well_formed_forest [OF wf]]) (metis parent_same(1) [OF wf])
  have sub: "e \<in> set (in_environments i)" if "e \<in> set ?es" for e using that by simp
  have "forest ?free"
    by (rule forest_filter [OF F]) (metis (lifting) parent_same(2) [OF wf] sub)
  then obtain free where free: "environmentNodes coll ?free (in_connectors i) = Some free" "all_below coll (in_connectors i) ?free free"
    using environmentNodes_forest by blast
  have "forest (?on h)" for h
    by (rule forest_filter [OF F]) (metis (lifting) parent_same(2) [OF wf] sub)
  then obtain gs where gs: "traverse (host_group coll (in_connectors i) ?es) ?hs = Some gs"
      "list_all2 (\<lambda>h g. hn_host g = h \<and> all_below coll (in_connectors i) (?on h) (hn_environments g)) ?hs gs"
    using traverse_all2 [of ?hs "host_group coll (in_connectors i) ?es", OF host_group_ok] by blast
  let ?g = "\<lparr>pn_environments = free, pn_hosts = gs, pn_platform = p\<rparr>"
  have "platform_group coll i p = Some ?g"
    using free(1) gs(1) by (simp add: platform_group_def)
  moreover have "group_ok coll i p ?g"
  proof -
    let ?place = "\<lambda>h e. (pl_id p, h, e)"
    let ?f = "\<lambda>g. map (?place (Some (hr_id (hn_host g)))) (node_list_environments (hn_environments g))"
    let ?A = "\<lambda>h. ?place (Some (hr_id h)) ` set (?on h)"
    have ids: "h = k" if "h \<in> set ?hs" "k \<in> set ?hs" "hr_id h = hr_id k" for h k
      using wf that by (auto simp: well_formed_inventory_def unique_records_def distinct_map dest: inj_onD)
    have two: "distinct (concat (map ?f gs)) \<and> set (concat (map ?f gs)) = \<Union> (?A ` set ?hs)"
    proof (rule distinct_concat_all2 [OF gs(2)])
      show "distinct ?hs" using wf by (simp add: well_formed_inventory_def unique_records_def distinct_map)
      show "distinct (?f g) \<and> set (?f g) = ?A h"
        if "hn_host g = h \<and> all_below coll (in_connectors i) (?on h) (hn_environments g)" for h g
        using that by (auto simp: all_below_def node_list_environments_def distinct_map inj_on_def)
      show "?A h \<inter> ?A k = {}" if "h \<in> set ?hs" "k \<in> set ?hs" "h \<noteq> k" for h k
        using ids that by auto
    qed
    have one: "distinct (map (?place None) (node_list_environments free))"
      "set (map (?place None) (node_list_environments free)) = ?place None ` set ?free"
      using free(2) by (simp_all add: all_below_def node_list_environments_def distinct_map inj_on_def)
    have all: "?place None ` set ?free \<union> \<Union> (?A ` set ?hs) = place_of ` set ?es"
    proof (intro equalityI subsetI)
      fix z assume "z \<in> ?place None ` set ?free \<union> \<Union> (?A ` set ?hs)"
      then show "z \<in> place_of ` set ?es"
      proof
        assume "z \<in> ?place None ` set ?free"
        then show ?thesis by (auto simp: place_of_def)
      next
        assume "z \<in> \<Union> (?A ` set ?hs)"
        then obtain h e where "h \<in> set (in_hosts i)" "e \<in> set ?es" "host_of e = Some (hr_id h)"
            "z = ?place (Some (hr_id h)) e" by auto
        moreover from this(1) have "hr_id h \<noteq> []" using hosts by force
        ultimately show ?thesis by (intro image_eqI [of _ _ e]) (simp_all add: place_of_def)
      qed
    next
      fix z assume "z \<in> place_of ` set ?es"
      then obtain e where e: "e \<in> set ?es" "z = place_of e" by blast
      show "z \<in> ?place None ` set ?free \<union> \<Union> (?A ` set ?hs)"
      proof (cases "truthy (host_of e)")
        case True
        then obtain x where x: "host_of e = Some x" "x \<noteq> []" by (cases "host_of e") auto
        then obtain h where "h \<in> set ?hs" "hr_id h = x"
          using host_known [OF wf sub [OF e(1)] x] e(1) by auto
        then have "z \<in> ?A h" using e x by (auto simp: place_of_def)
        with \<open>h \<in> set ?hs\<close> show ?thesis by blast
      qed (use e in \<open>auto simp: place_of_def\<close>)
    qed
    have ordered: "list_all (tree_ok coll (in_connectors i)) (group_nodes ?g)"
    proof -
      have "list_all (\<lambda>g. list_all (tree_ok coll (in_connectors i)) (hn_environments g)) gs"
        using gs(2) by (induction rule: list_all2_induct) (simp_all add: all_below_def)
      then show ?thesis
        using free(2) by (auto simp: group_nodes_def all_below_def list_all_iff)
    qed
    have parts: "placed ?g = map (?place None) (node_list_environments free) @ concat (map ?f gs)"
      by (simp add: placed_def)
    have "?place None ` set ?free \<inter> \<Union> (?A ` set ?hs) = {}" by auto
    then have "distinct (placed ?g)"
      unfolding parts distinct_append one(2) conjunct2 [OF two] using one(1) two by blast
    moreover have "set (placed ?g) = place_of ` set ?es"
      unfolding parts set_append one(2) conjunct2 [OF two] by (rule all)
    moreover have "set ?es = {e \<in> set (in_environments i). ce_platformId e = pl_id p}" by auto
    ultimately show ?thesis using ordered by (simp add: group_ok_def)
  qed
  ultimately show ?thesis by blast
qed

lemma partition_by_id:
  "distinct (map k xs) \<Longrightarrow> (\<forall>c\<in>set cs. g c \<in> k ` set xs) \<Longrightarrow>
    mset (concat (map (\<lambda>x. filter (\<lambda>c. g c = k x) cs) xs)) = mset cs"
proof (induction xs arbitrary: cs)
  case (Cons x xs)
  let ?rest = "filter (\<lambda>c. g c \<noteq> k x) cs"
  have "map (\<lambda>y. filter (\<lambda>c. g c = k y) cs) xs = map (\<lambda>y. filter (\<lambda>c. g c = k y) ?rest) xs"
    using Cons.prems(1) by (auto simp: filter_id_conv intro!: filter_cong)
  then have "mset (concat (map (\<lambda>x. filter (\<lambda>c. g c = k x) cs) (x # xs))) =
      mset (filter (\<lambda>c. g c = k x) cs) + mset (concat (map (\<lambda>y. filter (\<lambda>c. g c = k y) ?rest) xs))"
    by (simp only: list.map concat.simps mset_append)
  also have "mset (concat (map (\<lambda>y. filter (\<lambda>c. g c = k y) ?rest) xs)) = mset ?rest"
    by (rule Cons.IH) (use Cons.prems in auto)
  also have "mset (filter (\<lambda>c. g c = k x) cs) + mset ?rest = mset cs"
    by (metis mset_filter multiset_partition)
  finally show ?case .
qed simp

lemma mset_concat_map: "mset (concat (map f xs)) = (\<Sum>x\<in>#mset xs. mset (f x))"
  by (induction xs) simp_all

section \<open>Grouping loses nothing\<close>

lemma group_all:
  assumes wf: "well_formed_inventory i" and hosts: "[] \<notin> set (map hr_id (in_hosts i))"
  obtains gs where "groupComputeInventory coll i = Some (Inr gs)"
    "list_all2 (group_ok coll i) (js_sort (name_order coll pl_name pl_id) (in_platforms i)) gs"
proof -
  have "\<exists>gs. traverse (platform_group coll i) (js_sort (name_order coll pl_name pl_id) (in_platforms i)) = Some gs \<and>
      list_all2 (group_ok coll i) (js_sort (name_order coll pl_name pl_id) (in_platforms i)) gs"
    by (rule traverse_all2) (use platform_group_ok [OF wf hosts] in simp)
  with that wf show thesis
    by (auto simp: groupComputeInventory_def compute_validation_iff)
qed

lemma groups_placed:
  assumes wf: "well_formed_inventory i"
    and gs: "list_all2 (group_ok coll i) (js_sort (name_order coll pl_name pl_id) (in_platforms i)) gs"
  shows "mset (concat (map placed gs)) = mset (map place_of (in_environments i))"
proof -
  let ?ps = "js_sort (name_order coll pl_name pl_id) (in_platforms i)"
  let ?A = "\<lambda>p. place_of ` {e \<in> set (in_environments i). ce_platformId e = pl_id p}"
  have "distinct (concat (map placed gs)) \<and> set (concat (map placed gs)) = \<Union> (?A ` set ?ps)"
  proof (rule distinct_concat_all2 [OF gs])
    show "distinct ?ps" using wf by (simp add: well_formed_inventory_def unique_records_def distinct_map)
    show "distinct (placed g) \<and> set (placed g) = ?A p" if "group_ok coll i p g" for p g
      using that by (simp add: group_ok_def)
    show "?A p \<inter> ?A q = {}" if "p \<in> set ?ps" "q \<in> set ?ps" "p \<noteq> q" for p q
    proof -
      have "pl_id p \<noteq> pl_id q"
        using wf that by (auto simp: well_formed_inventory_def unique_records_def distinct_map dest: inj_onD)
      then show ?thesis by (auto simp: place_of_def)
    qed
  qed
  moreover have "\<Union> (?A ` set ?ps) = set (map place_of (in_environments i))"
    using wf by (force simp: well_formed_inventory_def references_resolved_def environment_resolved_def)
  moreover have "distinct (map place_of (in_environments i))"
    using forestD(3) [OF well_formed_forest [OF wf]] by (simp add: distinct_map inj_on_def place_of_def)
  ultimately show ?thesis by (metis set_eq_iff_mset_eq_distinct)
qed

lemma groups_connectors:
  assumes wf: "well_formed_inventory i"
    and gs: "list_all2 (group_ok coll i) (js_sort (name_order coll pl_name pl_id) (in_platforms i)) gs"
  shows "mset (concat (map node_connectors (concat (map group_nodes gs)))) = mset (in_connectors i)"
proof -
  let ?c = "\<lambda>e. connectors_of coll (in_connectors i) (ce_id e)" and ?es = "in_environments i"
  let ?ts = "concat (map group_nodes gs)"
  have ok: "\<forall>t\<in>set ?ts. tree_ok coll (in_connectors i) t"
    using gs by (induction rule: list_all2_induct) (auto simp: group_ok_def list_all_iff)
  have "concat (map node_connectors ts) = concat (map ?c (node_list_environments ts))"
    if "\<forall>t\<in>set ts. tree_ok coll (in_connectors i) t" for ts
    using that by (induction ts) (simp_all add: tree_ok_def node_list_environments_def)
  then have "mset (concat (map node_connectors ?ts)) = (\<Sum>e\<in>#mset (node_list_environments ?ts). mset (?c e))"
    using ok by (simp only: mset_concat_map)
  also have "node_list_environments ?ts = map (\<lambda>(p, h, e). e) (concat (map placed gs))"
    by (simp add: node_list_concat map_concat comp_def placed_environments)
  also have "mset (map (\<lambda>(p, h, e). e) (concat (map placed gs))) = mset ?es"
    unfolding mset_map groups_placed [OF assms] by (simp add: place_of_def multiset.map_comp comp_def)
  also have "(\<Sum>e\<in>#mset ?es. mset (?c e)) =
      mset (concat (map (\<lambda>e. filter (\<lambda>c. ca_environmentId c = ce_id e) (in_connectors i)) ?es))"
    by (simp only: mset_concat_map connectors_of_def mset_js_sort)
  also have "\<dots> = mset (in_connectors i)"
    by (rule partition_by_id)
      (use wf in \<open>force simp: well_formed_inventory_def unique_records_def references_resolved_def\<close>)+
  finally show ?thesis .
qed

text \<open>C16: A valid compute inventory, whose hosts have non-empty identifiers, is grouped without loss: the
  recursion over the children ends, every environment is shown exactly once, under its platform and its host,
  below its own parent or as a root when it has none, and every connector is shown exactly once.\<close>

theorem group_partition:
  assumes "validateComputeInventory coll i = []" and "[] \<notin> set (map hr_id (in_hosts i))"
  shows "\<exists>gs. groupComputeInventory coll i = Some (Inr gs) \<and>
    mset (map pn_platform gs) = mset (in_platforms i) \<and>
    mset (concat (map placed gs)) = mset (map place_of (in_environments i)) \<and>
    mset (concat (map node_connectors (concat (map group_nodes gs)))) = mset (in_connectors i) \<and>
    list_all (\<lambda>t. node_ordered t \<and> parent_of (nd_environment t) = None) (concat (map group_nodes gs))"
proof -
  have wf: "well_formed_inventory i" using assms(1) by (simp only: compute_validation_iff)
  then obtain gs where gs: "groupComputeInventory coll i = Some (Inr gs)"
      "list_all2 (group_ok coll i) (js_sort (name_order coll pl_name pl_id) (in_platforms i)) gs"
    by (rule group_all [OF _ assms(2)])
  have "map pn_platform gs = js_sort (name_order coll pl_name pl_id) (in_platforms i)"
    using gs(2) by (induction rule: list_all2_induct) (simp_all add: group_ok_def)
  then have "mset (map pn_platform gs) = mset (in_platforms i)" by (simp only: mset_js_sort)
  moreover have "list_all (\<lambda>t. node_ordered t \<and> parent_of (nd_environment t) = None) (concat (map group_nodes gs))"
    using gs(2) by (induction rule: list_all2_induct) (auto simp: group_ok_def tree_ok_def list_all_iff)
  ultimately show ?thesis
    using gs(1) groups_placed [OF wf gs(2)] groups_connectors [OF wf gs(2)] by blast
qed

section \<open>Capacity owners\<close>

text \<open>The owner as a relation: an environment's own, or its parent's.\<close>

inductive capacity_owner :: "compute_environment list \<Rightarrow> compute_environment \<Rightarrow> string \<Rightarrow> bool"
  for envs :: "compute_environment list" where
  exclusive_host: "ce_resourceMode e = Exclusive \<Longrightarrow> host_of e = Some h \<Longrightarrow> h \<noteq> [] \<Longrightarrow>
    capacity_owner envs e (host_owner h)"
| exclusive_own: "ce_resourceMode e = Exclusive \<Longrightarrow> \<not> truthy (host_of e) \<Longrightarrow>
    capacity_owner envs e (environment_owner (ce_id e))"
| dedicated: "ce_resourceMode e = Dedicated \<Longrightarrow> capacity_owner envs e (environment_owner (ce_id e))"
| shared_host: "ce_resourceMode e = Shared \<Longrightarrow> host_of e = Some h \<Longrightarrow> h \<noteq> [] \<Longrightarrow>
    capacity_owner envs e (host_owner h)"
| shared_root: "ce_resourceMode e = Shared \<Longrightarrow> \<not> truthy (host_of e) \<Longrightarrow> parent_of e = None \<Longrightarrow>
    capacity_owner envs e (platform_owner (ce_platformId e))"
| shared_parent: "ce_resourceMode e = Shared \<Longrightarrow> \<not> truthy (host_of e) \<Longrightarrow> q \<in> set envs \<Longrightarrow>
    parent_of e = Some (ce_id q) \<Longrightarrow> capacity_owner envs q owner \<Longrightarrow> capacity_owner envs e owner"

lemma find_id:
  assumes "distinct (map key xs)" "x \<in> set xs"
  shows "find (\<lambda>y. key y = key x) xs = Some x"
proof -
  have "find (\<lambda>y. key y = key x) xs \<noteq> None" using assms(2) by (auto simp: find_None_iff)
  then obtain y where y: "find (\<lambda>y. key y = key x) xs = Some y" by blast
  with find_SomeD [OF y] assms have "y = x" by (auto simp: distinct_map dest: inj_onD)
  with y show ?thesis by simp
qed

text \<open>The walk meets no environment twice: those visited are strictly below the current one.\<close>

lemma resolve_owner:
  assumes F: "forest envs"
  shows "e \<in> set envs \<Longrightarrow> \<forall>v\<in>set visited. (v, ce_id e) \<in> (parent_rel envs)\<^sup>+ \<Longrightarrow>
    \<exists>owner. resolveResourceCapacityOwner envs visited e = Some owner \<and> capacity_owner envs e owner"
proof (induction e arbitrary: visited rule: forest_induct [OF F, consumes 1, case_names root child])
  case (root e)
  then show ?case
    by (cases "ce_resourceMode e"; cases "host_of e")
      (auto simp: resolveResourceCapacityOwner.simps [of envs visited e] intro: capacity_owner.intros)
next
  case (child e q)
  have new: "ce_id e \<notin> set visited"
    using child.prems forestD(2) [OF F] by (auto simp: acyclic_def)
  have step: "(ce_id e, ce_id q) \<in> parent_rel envs" using child.hyps by (auto intro: parent_relI)
  have "\<forall>v\<in>set (set_add (ce_id e) visited). (v, ce_id q) \<in> (parent_rel envs)\<^sup>+"
    using child.prems step by (auto intro: trancl_into_trancl)
  then obtain owner where owner:
      "resolveResourceCapacityOwner envs (set_add (ce_id e) visited) q = Some owner" "capacity_owner envs q owner"
    using child.IH by blast
  show ?case
  proof (cases "ce_resourceMode e = Shared \<and> \<not> truthy (host_of e)")
    case True
    then have "capacity_owner envs e owner"
      using child.hyps owner(2) by (blast intro: capacity_owner.shared_parent)
    with True child.hyps new owner(1) find_id [OF forestD(1) [OF F] child.hyps(2)] show ?thesis
      by (simp add: resolveResourceCapacityOwner.simps [of envs visited e])
  next
    case False
    then show ?thesis
      by (cases "ce_resourceMode e"; cases "host_of e")
        (auto simp: resolveResourceCapacityOwner.simps [of envs visited e] intro: capacity_owner.intros)
  qed
qed

lemma capacity_owner_unique:
  assumes F: "forest envs"
  shows "capacity_owner envs e a \<Longrightarrow> capacity_owner envs e b \<Longrightarrow> a = b"
proof (induction arbitrary: b rule: capacity_owner.induct)
  case (shared_parent e q owner)
  from shared_parent.prems obtain r where "r \<in> set envs" "ce_id r = ce_id q" "capacity_owner envs r b"
    using shared_parent.hyps by (cases rule: capacity_owner.cases) auto
  with forestD(5) [OF F] shared_parent show ?case by metis
qed (auto elim: capacity_owner.cases)

text \<open>In a valid inventory the search for the owner of an environment's capacity always succeeds: it
  never meets the error of a parent cycle, and what it finds is the environment's own host or itself, the
  owner of its parent for a shared environment without host, or the shared part of the platform at a root.\<close>

theorem capacity_owner_found:
  assumes "validateComputeInventory coll i = []" and "e \<in> set (in_environments i)"
  shows "resourceCapacityOwner e (in_environments i) \<noteq> None \<and>
    (\<forall>owner. resourceCapacityOwner e (in_environments i) = Some owner \<longleftrightarrow>
       capacity_owner (in_environments i) e owner)"
proof -
  have F: "forest (in_environments i)"
    using assms(1) by (simp add: compute_validation_iff well_formed_forest)
  obtain owner where "resourceCapacityOwner e (in_environments i) = Some owner"
      "capacity_owner (in_environments i) e owner"
    using resolve_owner [OF F assms(2), of "[]"] by (auto simp: resourceCapacityOwner_def)
  then show ?thesis using capacity_owner_unique [OF F] by auto
qed

end
