(* ===== verification/ComputeProperties.thy ===== *)
theory ComputeProperties
  imports ComputeDerived ComputeGroups
begin

text \<open>
  What can be wrong with the inventory derived from the connectors, and the witnesses of the properties of
  the compute inventory.
\<close>

section \<open>The derived inventory\<close>

lemma distinct_values:
  assumes "js_wf m" and "\<And>k v k' v'. js_get m k = Some v \<Longrightarrow> js_get m k' = Some v' \<Longrightarrow> f v = f v' \<Longrightarrow> k = k'"
  shows "distinct (map f (js_values m))"
proof -
  have d: "distinct m" using assms(1) by (simp add: js_wf_def distinct_map)
  have get: "js_get m k = Some v" if "(k, v) \<in> set m" for k v
    using assms(1) that by (simp add: js_wf_def)
  have "inj_on (\<lambda>kv. f (snd kv)) (set m)"
  proof (rule inj_onI)
    fix x y assume "x \<in> set m" "y \<in> set m" "f (snd x) = f (snd y)"
    then show "x = y" using assms(2) get by (metis option.inject prod.collapse)
  qed
  then have "distinct (map (\<lambda>kv. f (snd kv)) m)" using d by (simp add: distinct_map)
  then show ?thesis by (simp add: js_values_def comp_def)
qed

lemma manual_identity_key: "manual_key (dk_key (manual_identity sha x))"
  by (simp add: manual_key_def manual_identity_def)

lemma manual_identity_eq:
  "collision_free sha S \<Longrightarrow> a \<in> S \<Longrightarrow> b \<in> S \<Longrightarrow> manual_identity sha a = manual_identity sha b \<longleftrightarrow> a = b"
  using inj_onD [of "\<lambda>s. take 32 (sha s)" S a b] by (auto simp: manual_identity_def collision_free_def)

lemma snapshot_unique:
  assumes cf: "collision_free sha S" and ok: "maps_ok sha S m" and connectors: "distinct (map ca_connectorId (fm_connectors m))"
  shows "unique_records (snapshot_of m)"
proof -
  have platforms: "distinct (map pl_id (js_values (fm_platforms m)))"
    by (rule distinct_values [OF maps_okD(4) [OF ok]]) (use maps_okD(6) [OF ok] stableId_eq [OF cf] in metis)
  have "distinct (map ed_id (js_values (fm_definitions m)))"
  proof (rule distinct_values [OF maps_okD(1) [OF ok]])
    fix k d k' d'
    assume "js_get (fm_definitions m) k = Some d" "js_get (fm_definitions m) k' = Some d'" "ed_id d = ed_id d'"
    then have "definition_id sha k = definition_id sha k'" using maps_okD(5) [OF ok] definition_for_fields(1) by metis
    then show "k = k'" by (simp add: definition_id_def stableId_eq [OF cf kind_hashed [OF cf] kind_hashed [OF cf]])
  qed
  moreover have "distinct (map db_slug (js_values (fm_definitions m)))"
  proof (rule distinct_values [OF maps_okD(1) [OF ok]])
    fix k d k' d'
    assume "js_get (fm_definitions m) k = Some d" "js_get (fm_definitions m) k' = Some d'" "db_slug d = db_slug d'"
    then have "db_slug (definition_for sha k) = db_slug (definition_for sha k')" using maps_okD(5) [OF ok] by metis
    then show "k = k'" by simp
  qed
  moreover have "distinct (map hr_id (js_values (fm_hosts m)))"
  proof (rule distinct_values [OF maps_okD(3) [OF ok]])
    fix k h k' h'
    assume "js_get (fm_hosts m) k = Some h" "js_get (fm_hosts m) k' = Some h'" "hr_id h = hr_id h'"
    then show "k = k'" by (auto simp: host_entry_ok_def dest!: maps_okD(7) [OF ok])
  qed
  moreover have "distinct (map (\<lambda>h. (hr_platformId h, hr_identity h)) (js_values (fm_hosts m)))"
  proof (rule distinct_values [OF maps_okD(3) [OF ok]])
    fix k h k' h'
    assume "js_get (fm_hosts m) k = Some h" "js_get (fm_hosts m) k' = Some h'"
      and "(hr_platformId h, hr_identity h) = (hr_platformId h', hr_identity h')"
    then show "k = k'"
      using manual_identity_key [of sha] manual_identity_eq [OF cf]
      by (auto simp: host_entry_ok_def dest!: maps_okD(7) [OF ok])
  qed
  moreover have "distinct (map ce_id (js_values (fm_environments m)))"
  proof (rule distinct_values [OF maps_okD(2) [OF ok]])
    fix k e k' e'
    assume "js_get (fm_environments m) k = Some e" "js_get (fm_environments m) k' = Some e'" "ce_id e = ce_id e'"
    then show "k = k'" by (auto simp: environment_entry_ok_def stableId_eq [OF cf] dest!: maps_okD(8) [OF ok])
  qed
  moreover have "distinct (map (\<lambda>e. (ce_platformId e, ce_identity e)) (js_values (fm_environments m)))"
  proof (rule distinct_values [OF maps_okD(2) [OF ok]])
    fix k e k' e'
    assume "js_get (fm_environments m) k = Some e" "js_get (fm_environments m) k' = Some e'"
      and "(ce_platformId e, ce_identity e) = (ce_platformId e', ce_identity e')"
    then show "k = k'" by (auto simp: environment_entry_ok_def dest!: maps_okD(8) [OF ok])
  qed
  ultimately show ?thesis
    using platforms connectors by (simp add: unique_records_def snapshot_of_def Let_def distinct_map_filter)
qed

lemma snapshot_environment_violations:
  assumes cf: "collision_free sha S" and ok: "maps_ok sha S m" and u: "unique_records (snapshot_of m)"
    and e: "e \<in> set (in_environments (snapshot_of m))"
  shows "environment_violations (snapshot_of m) e = [] \<or>
    environment_violations (snapshot_of m) e = [violation EnvironmentParentHostMismatch (ce_id e)]"
proof -
  let ?i = "snapshot_of m"
  obtain k where k: "js_get (fm_environments m) k = Some e"
    using e maps_okD(2) [OF ok] by (auto simp: snapshot_of_def Let_def in_js_values)
  note entry = maps_okD(8) [OF ok k, unfolded environment_entry_ok_def]
  have "definition_violations ?i e = []"
  proof -
    obtain d where "js_get (fm_definitions m) (ce_kind e) = Some d" using entry by blast
    then have "definition_for sha (ce_kind e) \<in> set (js_values (fm_definitions m))"
      using maps_okD(5) [OF ok] by blast
    then have "definition_for sha (ce_kind e) \<in> set (in_environmentDefinitions ?i)"
      using entry imageI [OF e, of ce_environmentDefinitionId] by (simp add: snapshot_of_def Let_def)
    then have "by_id ed_id (in_environmentDefinitions ?i) (ce_environmentDefinitionId e) = Some (definition_for sha (ce_kind e))"
      using u entry by (simp add: by_id_iff unique_records_def)
    then show ?thesis by (simp add: definition_violations_def)
  qed
  moreover have "platform_known ?i (ce_platformId e)"
    using entry by (auto simp: platform_known_iff known_platform_def snapshot_of_def Let_def)
  moreover have "association_violations ?i e = []"
  proof -
    have "\<exists>h. by_id hr_id (in_hosts ?i) x = Some h \<and> hr_platformId h = ce_platformId e"
      if x: "x \<in> set (associationHostIds (ce_hostAssociation e))" for x
    proof -
      obtain h where h: "js_get (fm_hosts m) x = Some h" "hr_platformId h = ce_platformId e"
        using entry x by (auto simp: association_ok_def)
      moreover have "hr_id h = x" using maps_okD(7) [OF ok h(1)] by (simp add: host_entry_ok_def)
      ultimately show ?thesis
        using u by (auto simp: by_id_iff unique_records_def snapshot_of_def Let_def)
    qed
    then show ?thesis
      by (fastforce simp: association_violations_def Let_def push_if_def list_ex_iff)
  qed
  moreover have "parent_violations ?i e = [] \<or> parent_violations ?i e = [violation EnvironmentParentHostMismatch (ce_id e)]"
  proof (cases "parent_of e")
    case None
    then show ?thesis by (simp add: parent_violations_def)
  next
    case (Some p)
    then have "ce_parentEnvironmentId e = Some p" by (simp add: parent_of_def split: if_splits)
    then obtain l q where "js_get (fm_environments m) l = Some q" "ce_id q = p" "ce_platformId q = ce_platformId e"
      using entry by (auto simp: parent_ok_def)
    then have "by_id ce_id (in_environments ?i) p = Some q"
      using u by (auto simp: by_id_iff unique_records_def snapshot_of_def Let_def)
    with Some \<open>ce_platformId q = ce_platformId e\<close> show ?thesis
      by (simp add: parent_violations_def push_if_def)
  qed
  ultimately show ?thesis by (auto simp: environment_violations_def push_if_def)
qed

text \<open>The texts that are hashed for an account.\<close>

definition all_texts :: "(string \<Rightarrow> string) \<Rightarrow> connector_machine list \<Rightarrow> physical_machine list \<Rightarrow> string list" where
  "all_texts sha connectors machines =
     map environment_kind_name [NativeMacos, NativeWindows, NativeLinux, Wsl, Docker, Devbox, GithubCodespace,
       CloudSandbox, KubernetesWorkload, VirtualMachine, OtherKind] @
     concat (map (hashed_texts sha machines) connectors)"


section \<open>Reported metadata\<close>

text \<open>One property of an object replaced by the array that holds it.\<close>

definition wrap_property :: "string \<Rightarrow> (string \<times> jsval) list \<Rightarrow> (string \<times> jsval) list" where
  "wrap_property name kvs = map (\<lambda>(k, v). (k, if k = name then VArr [v] else v)) kvs"

lemma field_wrap_other: "k \<noteq> name \<Longrightarrow> field (wrap_property name kvs) k = field kvs k"
  by (induction kvs) (auto simp: wrap_property_def)

lemma field_wrap_same: "field kvs name \<noteq> VUndefined \<Longrightarrow> field (wrap_property name kvs) name = VArr [field kvs name]"
  by (induction kvs) (auto simp: wrap_property_def)

lemma keys_wrap [simp]: "onlyKeys (wrap_property name kvs) allowed = onlyKeys kvs allowed"
  by (induction kvs) (auto simp: wrap_property_def onlyKeys_def)

lemma one_of_wrap [simp]: "one_of names (VArr [v]) = one_of names v"
  by (simp add: one_of_def)

lemma one_of_field: "field kvs name \<noteq> VUndefined \<Longrightarrow> one_of names (field (wrap_property name kvs) k) = one_of names (field kvs k)"
  by (cases "k = name") (simp_all add: field_wrap_same field_wrap_other)

lemma one_of_undefined [simp]: "\<not> one_of names VUndefined"
  by (simp add: one_of_def)

text \<open>The check of reported compute metadata does not require its enumerated properties to be strings:
  whenever it accepts an object, it also accepts the object in which the platform kind, the environment kind,
  the host evidence, the host resolution or the resource mode is replaced by an array of that one string.\<close>

theorem wrapped_enumeration_accepted:
  assumes "isConnectorComputeMetadataValue (VObj kvs)"
    and "name \<in> {''platformKind'', ''environmentKind'', ''hostEvidence'', ''hostResolution'', ''resourceMode''}"
  shows "isConnectorComputeMetadataValue (VObj (wrap_property name kvs)) \<and>
    field (wrap_property name kvs) name = VArr [field kvs name]"
proof -
  have present: "field kvs name \<noteq> VUndefined"
    using assms by (auto simp: isConnectorComputeMetadataValue_def)
  have "field (wrap_property name kvs) k = field kvs k"
    if "k \<in> {''environmentIdentity'', ''hostIdentity'', ''hostName'', ''parentEnvironmentIdentity'', ''platformName'',
      ''environmentName'', ''resources''}" for k
    by (rule field_wrap_other) (use assms(2) that in auto)
  then have other: "field (wrap_property name kvs) ''environmentIdentity'' = field kvs ''environmentIdentity''"
    "field (wrap_property name kvs) ''hostIdentity'' = field kvs ''hostIdentity''"
    "field (wrap_property name kvs) ''hostName'' = field kvs ''hostName''"
    "field (wrap_property name kvs) ''parentEnvironmentIdentity'' = field kvs ''parentEnvironmentIdentity''"
    "field (wrap_property name kvs) ''platformName'' = field kvs ''platformName''"
    "field (wrap_property name kvs) ''environmentName'' = field kvs ''environmentName''"
    "field (wrap_property name kvs) ''resources'' = field kvs ''resources''" by simp_all
  have "isConnectorComputeMetadataValue (VObj (wrap_property name kvs)) = isConnectorComputeMetadataValue (VObj kvs)"
    by (simp only: isConnectorComputeMetadataValue_def consistentHostAssociation_def other one_of_field [OF present]
        keys_wrap jsval.case Let_def)
  then show ?thesis using assms(1) field_wrap_same [OF present] by simp
qed

section \<open>Witnesses\<close>

definition demo_reported :: "(string \<times> jsval) list" where
  "demo_reported =
     [(''environmentIdentity'', VObj [(''key'', VStr ''identity-1''), (''version'', VNum (Finite 1))]),
      (''environmentKind'', VStr ''wsl''), (''environmentName'', VStr ''Box''), (''hostEvidence'', VStr ''none''),
      (''hostResolution'', VStr ''unresolved''), (''platformKind'', VStr ''local''),
      (''platformName'', VStr ''Home''), (''resourceMode'', VStr ''shared'')]"

lemma wrapped_enumeration_accepted_witness:
  "isConnectorComputeMetadataValue (VObj (wrap_property ''environmentKind'' demo_reported)) \<and>
    field (wrap_property ''environmentKind'' demo_reported) ''environmentKind'' = VArr [VStr ''wsl'']"
proof -
  have "isConnectorComputeMetadataValue (VObj demo_reported)" by code_simp
  from wrapped_enumeration_accepted [OF this, of "''environmentKind''"] show ?thesis
    by (simp add: demo_reported_def)
qed

definition demo_definition :: "string \<Rightarrow> string \<Rightarrow> environment_definition" where
  "demo_definition owner k =
     definition_blueprint.extend (builtInEnvironmentDefinition Docker) (environment_definition.fields k (Some owner))"

definition demo_environment :: "string \<Rightarrow> string option \<Rightarrow> compute_environment" where
  "demo_environment k parent =
     \<lparr>ce_environmentDefinitionId = ''d2'', ce_hostAssociation = ManualHost ''h1'', ce_id = k,
      ce_identity = \<lparr>dk_key = ''identity-'' @ k, dk_version = 1\<rparr>, ce_identityConflict = False, ce_kind = Docker,
      ce_name = ''Box'', ce_ownerUserId = Some ''u2'', ce_parentEnvironmentId = parent, ce_platformId = ''p1'',
      ce_resourceMode = Shared, ce_resources = None\<rparr>"

lemma reconcile_keeps_blueprints_witness:
  "map ce_environmentDefinitionId (snd (reconcileBuiltInEnvironmentDefinitions code_compare
     [demo_definition ''u1'' ''d1'', demo_definition ''u2'' ''d2''] [demo_environment ''e1'' None])) = [''d1'']"
proof -
  let ?r = "reconcileBuiltInEnvironmentDefinitions code_compare
    [demo_definition ''u1'' ''d1'', demo_definition ''u2'' ''d2''] [demo_environment ''e1'' None]"
  have fst: "fst ?r = [demo_definition ''u1'' ''d1'']" by code_simp
  have keys: "distinct (map definition_key [demo_definition ''u1'' ''d1'', demo_definition ''u2'' ''d2''])" by code_simp
  have ids: "[] \<notin> set (map ed_id [demo_definition ''u1'' ''d1'', demo_definition ''u2'' ''d2''])" by code_simp
  have owned: "ed_ownerUserId (demo_definition u d) = Some u" "ed_id (demo_definition u d) = d" for u d
    by (simp_all add: demo_definition_def definition_blueprint.defs environment_definition.defs)
  have env: "ce_ownerUserId (demo_environment k p) = Some ''u2''" "ce_environmentDefinitionId (demo_environment k p) = ''d2''" for k p
    by (simp_all add: demo_environment_def)
  show ?thesis
    using reconcile_keeps_blueprints [OF keys ids prod.collapse [symmetric], of code_compare "[demo_environment ''e1'' None]"]
    unfolding fst by (auto simp: list_all2_Cons1 owned env)
qed

definition demo_inventory :: compute_inventory where
  "demo_inventory =
     \<lparr>in_connectors = [\<lparr>ca_associatedAt = [], ca_connectorId = ''c1'', ca_environmentId = ''e2''\<rparr>],
      in_environmentDefinitions = [demo_definition ''u2'' ''d2''],
      in_environments = [demo_environment ''e2'' (Some ''e1''), demo_environment ''e1'' None],
      in_hosts = [\<lparr>hr_id = ''h1'', hr_identity = \<lparr>dk_key = ''host-key'', dk_version = 1\<rparr>, hr_name = ''Host'',
        hr_platformId = ''p1'', hr_resources = None\<rparr>],
      in_platforms = [\<lparr>pl_id = ''p1'', pl_kind = LocalPlatform, pl_name = ''Local''\<rparr>]\<rparr>"

lemma demo_inventory_valid: "validateComputeInventory code_compare demo_inventory = []"
  by code_simp

lemma group_partition_witness:
  "\<exists>gs. groupComputeInventory code_compare demo_inventory = Some (Inr gs) \<and>
    mset (concat (map placed gs)) = {#(''p1'', Some ''h1'', demo_environment ''e2'' (Some ''e1'')),
      (''p1'', Some ''h1'', demo_environment ''e1'' None)#}"
proof -
  have places: "mset (map place_of (in_environments demo_inventory)) =
      {#(''p1'', Some ''h1'', demo_environment ''e2'' (Some ''e1'')), (''p1'', Some ''h1'', demo_environment ''e1'' None)#}"
    by (simp add: demo_inventory_def place_of_def demo_environment_def host_of_def)
  have "[] \<notin> set (map hr_id (in_hosts demo_inventory))" by code_simp
  from group_partition [OF demo_inventory_valid this] show ?thesis
    unfolding places by blast
qed

lemma capacity_owner_found_witness:
  "resourceCapacityOwner (demo_environment ''e2'' (Some ''e1'')) (in_environments demo_inventory) \<noteq> None"
proof -
  have "demo_environment ''e2'' (Some ''e1'') \<in> set (in_environments demo_inventory)"
    by (simp add: demo_inventory_def)
  then show ?thesis by (rule conjunct1 [OF capacity_owner_found [OF demo_inventory_valid]])
qed

text \<open>Two connectors on one host, one reporting the other's environment as its parent.\<close>

definition demo_sha :: "string \<Rightarrow> string" where
  "demo_sha s = take 64 (rev s @ replicate 64 (CHR ''x''))"

definition demo_metadata :: "string \<Rightarrow> string option \<Rightarrow> compute_metadata" where
  "demo_metadata k parent =
     \<lparr>cd_environmentIdentity = \<lparr>dk_key = k, dk_version = 1\<rparr>, cd_environmentKind = Wsl, cd_environmentName = ''Box'',
      cd_hostEvidence = EvidenceTpm, cd_hostIdentity = Some \<lparr>dk_key = ''host-key-1'', dk_version = 1\<rparr>,
      cd_hostName = Some ''Host'', cd_hostResolution = Verified,
      cd_parentEnvironmentIdentity = map_option (\<lambda>p. \<lparr>dk_key = p, dk_version = 1\<rparr>) parent,
      cd_platformKind = LocalPlatform, cd_platformName = ''Home'', cd_resourceMode = Shared, cd_resources = None\<rparr>"

definition demo_connectors :: "connector_machine list" where
  "demo_connectors =
     [\<lparr>mc_compute = Some (demo_metadata ''identity-1'' (Some ''identity-2'')), mc_environment = None, mc_id = ''c1'',
       mc_lastSeen = None, mc_name = ''One''\<rparr>,
      \<lparr>mc_compute = Some (demo_metadata ''identity-2'' None), mc_environment = None, mc_id = ''c2'',
       mc_lastSeen = None, mc_name = ''Two''\<rparr>]"

lemma kinds_covered: "range environment_kind_name \<subseteq> set (all_texts sha connectors machines)"
proof -
  have "environment_kind_name k \<in> set (all_texts sha connectors machines)" for k
    by (cases k) (simp_all add: all_texts_def)
  then show ?thesis by blast
qed

lemma distinct_images: "distinct (map f (remdups xs)) \<Longrightarrow> inj_on f (set xs)"
  by (simp add: distinct_map)


end
