(* ===== verification/TaskStore.thy ===== *)
theory TaskStore
  imports Contracts TaskTypes
begin

text \<open>
  The in-memory store of task executions
  (\<open>server/task-execution/memory-execution-store.ts\<close>): executions, executor bindings, runner
  workspaces and the event log of each execution. A method that throws is \<open>Inl\<close>; what it had
  already changed stays changed.

  Updates carry the version they expect. \<open>versioned_store\<close> is interpreted three times, for
  executions, executor bindings and workspaces; \<open>durable_store\<close> for archived executions.
\<close>

section \<open>State\<close>

record task_store =
  executions :: "(string, stored_execution) jsmap"
  bindings :: "(string, executor_binding) jsmap"
  workspaces :: "(string, runner_workspace) jsmap"
  events :: "(string, execution_event list) jsmap"
  event_cursor :: int

definition empty_task_store :: task_store where
  "empty_task_store =
     \<lparr>executions = [], bindings = [], workspaces = [], events = [], event_cursor = 0\<rparr>"

datatype task_error = InvalidExecution | InvalidBlockedState | InvalidEvent | ExecutionNotFound

section \<open>Executions\<close>

definition create :: "stored_execution \<Rightarrow> task_store \<Rightarrow> (task_error + create_result) \<times> task_store" where
  "create input s =
     (if \<not> assertState (ex_state input) (ex_blockedReason input) then (Inl InvalidBlockedState, s)
      else if \<not> assertExecution input then (Inl InvalidExecution, s)
      else
        let k = executionKey (ex_ownerUserId input) (ex_id input)
        in (case js_get (executions s) k of
              Some existing \<Rightarrow>
                (Inr (if sameExecutionIdentity existing input then Replayed else Conflict), s)
            | None \<Rightarrow> (Inr Created, s\<lparr>executions := js_set (executions s) k input\<rparr>)))"

definition read :: "string \<Rightarrow> string \<Rightarrow> task_store \<Rightarrow> stored_execution option" where
  "read owner execution s = js_get (executions s) (executionKey owner execution)"

text \<open>\<open>a || b\<close> of two comparisons.\<close>

definition js_or :: "int \<Rightarrow> int \<Rightarrow> int" where
  "js_or a b = (if a \<noteq> 0 then a else b)"

text \<open>\<open>String.prototype.localeCompare\<close> is the argument \<open>cmp\<close>: its collation is not in the source.\<close>

definition list_matches :: "execution_list_input \<Rightarrow> stored_execution \<Rightarrow> bool" where
  "list_matches input e \<longleftrightarrow>
     ex_ownerUserId e = li_ownerUserId input \<and>
     (li_includeArchived input \<or> ex_state e \<noteq> Archived) \<and>
     (\<not> truthy (li_taskId input) \<or> Some (src_taskId (ex_source e)) = li_taskId input) \<and>
     (\<not> truthy (li_environmentId input) \<or> Some (ex_environmentId e) = li_environmentId input) \<and>
     (li_agent input = None \<or> Some (ex_agent e) = li_agent input) \<and>
     (li_state input = None \<or> Some (ex_state e) = li_state input) \<and>
     (case li_before input of
        None \<Rightarrow> True
      | Some (createdAt, i) \<Rightarrow>
          ex_createdAt e < createdAt \<or> (ex_createdAt e = createdAt \<and> ex_id e < i))"

definition list_executions ::
    "(string \<Rightarrow> string \<Rightarrow> int) \<Rightarrow> execution_list_input \<Rightarrow> task_store \<Rightarrow> stored_execution list" where
  "list_executions cmp input s =
     js_take (max 1 (min (li_limit input) 100))
       (js_sort (\<lambda>left right. js_or (cmp (ex_createdAt right) (ex_createdAt left))
            (cmp (ex_id right) (ex_id left)))
         (filter (list_matches input) (js_values (executions s))))"

definition owner_prefix :: "string \<Rightarrow> string" where
  "owner_prefix owner = owner @ [NUL]"

definition bound_as :: "string \<Rightarrow> task_agent_kind \<Rightarrow> string \<Rightarrow> string \<times> executor_binding \<Rightarrow> bool" where
  "bound_as owner agent externalId = (\<lambda>(k, b).
     prefix (owner_prefix owner) k \<and> bd_agent b = agent \<and> bd_externalId b = externalId)"

definition readByExecutor ::
    "string \<Rightarrow> task_agent_kind \<Rightarrow> string \<Rightarrow> task_store \<Rightarrow> stored_execution option" where
  "readByExecutor owner agent externalId s =
     (case find (bound_as owner agent externalId) (bindings s) of
        None \<Rightarrow> None
      | Some (k, _) \<Rightarrow> js_get (executions s) k)"

definition put_execution :: "string \<Rightarrow> stored_execution \<Rightarrow> task_store \<Rightarrow> transition_result \<times> task_store" where
  "put_execution k e s = (TUpdated e, s\<lparr>executions := js_set (executions s) k e\<rparr>)"

definition transition ::
    "execution_transition \<Rightarrow> task_store \<Rightarrow> (task_error + transition_result) \<times> task_store" where
  "transition input s =
     (let k = executionKey (tr_ownerUserId input) (tr_executionId input);
          found = js_get (executions s) k
      in if \<not> assertState (tr_state input) (tr_blockedReason input) then (Inl InvalidBlockedState, s)
         else (case found of
             None \<Rightarrow> (Inr (TConflict None), s)
           | Some current \<Rightarrow>
               if ex_version current \<noteq> tr_expectedVersion input \<or>
                  \<not> isTaskExecutionTransitionAllowed (ex_state current) (tr_state input)
               then (Inr (TConflict found), s)
               else map_prod Inr id (put_execution k
                 (current\<lparr>ex_blockedReason := tr_blockedReason input, ex_state := tr_state input,
                    ex_updatedAt := tr_updatedAt input,
                    ex_version := ex_version current + 1\<rparr>) s)))"

definition closed_states :: "execution_state list" where
  "closed_states = [Completed, Failed, Cancelled, Archived]"

definition updateSource ::
    "update_source_input \<Rightarrow> task_store \<Rightarrow> transition_result \<times> task_store" where
  "updateSource input s =
     (let k = executionKey (us_ownerUserId input) (us_executionId input)
      in (case js_get (executions s) k of
            None \<Rightarrow> (TConflict None, s)
          | Some current \<Rightarrow>
              let src = ex_source current
              in if src_repositoryId src = us_repositoryId input \<and>
                    src_branch src = us_branch input \<and> src_commit src = Some (us_commit input)
                 then (TUpdated current, s)
                 else if ex_version current \<noteq> us_expectedVersion input \<or>
                    src_repositoryId src \<noteq> us_repositoryId input \<or>
                    src_branch src \<noteq> us_branch input \<or> src_commit src \<noteq> None \<or>
                    ex_state current \<in> set closed_states
                 then (TConflict (Some current), s)
                 else put_execution k
                   (current\<lparr>ex_source := src\<lparr>src_commit := Some (us_commit input)\<rparr>,
                      ex_updatedAt := us_updatedAt input,
                      ex_version := ex_version current + 1\<rparr>) s))"

definition updateConnectorBinding ::
    "update_connector_input \<Rightarrow> task_store \<Rightarrow> transition_result \<times> task_store" where
  "updateConnectorBinding input s =
     (let k = executionKey (uc_ownerUserId input) (uc_executionId input);
          expected = uc_expectedConnectorBinding input
      in (case js_get (executions s) k of
            None \<Rightarrow> (TConflict None, s)
          | Some current \<Rightarrow>
              if ex_version current \<noteq> uc_expectedVersion input \<or>
                 ex_state current \<in> set closed_states \<or>
                 map_option cb_connectorId (ex_connectorBinding current) \<noteq>
                   map_option cb_connectorId expected \<or>
                 map_option cb_generation (ex_connectorBinding current) \<noteq>
                   map_option cb_generation expected \<or>
                 \<not> valid_connector (uc_connectorBinding input)
              then (TConflict (Some current), s)
              else put_execution k
                (current\<lparr>ex_connectorBinding := Some (uc_connectorBinding input),
                   ex_updatedAt := uc_updatedAt input,
                   ex_version := ex_version current + 1\<rparr>) s))"

section \<open>Events\<close>

definition events_of :: "string \<Rightarrow> task_store \<Rightarrow> execution_event list" where
  "events_of k s = (case js_get (events s) k of None \<Rightarrow> [] | Some es \<Rightarrow> es)"

definition appendEvent ::
    "append_event_input \<Rightarrow> task_store \<Rightarrow> (task_error + execution_event) \<times> task_store" where
  "appendEvent input s =
     (let k = executionKey (ae_ownerUserId input) (ae_executionId input)
      in if \<not> assertEvent input then (Inl InvalidEvent, s)
         else if \<not> js_has (executions s) k then (Inl ExecutionNotFound, s)
         else
           let n = event_cursor s + 1;
               event = \<lparr>ev_actor = ae_actor input, ev_createdAt = ae_createdAt input,
                 ev_cursor = n, ev_executionId = ae_executionId input,
                 ev_handoffChange = ae_handoffChange input,
                 ev_message = (if truthy (ae_message input) then ae_message input else None),
                 ev_state = ae_state input, ev_type = ae_type input\<rparr>
           in (Inr event,
               s\<lparr>event_cursor := n, events := js_set (events s) k (events_of k s @ [event])\<rparr>))"

definition listEvents ::
    "string \<Rightarrow> string \<Rightarrow> int \<Rightarrow> int \<Rightarrow> task_store \<Rightarrow> execution_event list" where
  "listEvents owner execution afterCursor limit s =
     js_take (max 1 (min limit 200))
       (filter (\<lambda>e. ev_cursor e > afterCursor) (events_of (executionKey owner execution) s))"

definition handoff_states :: "execution_state list" where
  "handoff_states = [Planned, PreparingEnvironment, WaitingForConnector, WaitingForAuthorization,
     PreparingWorkspace, Blocked]"

definition updateHandoff ::
    "update_handoff_input \<Rightarrow> task_store \<Rightarrow> (task_error + transition_result) \<times> task_store" where
  "updateHandoff input s =
     (let k = executionKey (uh_ownerUserId input) (uh_executionId input)
      in (case js_get (executions s) k of
            None \<Rightarrow> (Inr (TConflict None), s)
          | Some current \<Rightarrow>
              if \<not> isHandoffReference (uh_handoff input) \<or>
                 ex_version current \<noteq> uh_expectedVersion input \<or>
                 (ho_id (ex_handoff current) = ho_id (uh_handoff input) \<and>
                  ho_revision (ex_handoff current) = ho_revision (uh_handoff input)) \<or>
                 js_has (bindings s) k \<or> ex_state current \<notin> set handoff_states
              then (Inr (TConflict (Some current)), s)
              else
                let execution = current\<lparr>ex_handoff := uh_handoff input,
                      ex_updatedAt := uh_updatedAt input, ex_version := ex_version current + 1\<rparr>;
                    s1 = snd (put_execution k execution s)
                in (case appendEvent
                      \<lparr>ae_actor = None, ae_createdAt = uh_updatedAt input,
                       ae_executionId = uh_executionId input,
                       ae_handoffChange =
                         Some \<lparr>hc_from = ex_handoff current, hc_to = uh_handoff input\<rparr>,
                       ae_message = None, ae_ownerUserId = uh_ownerUserId input,
                       ae_state = None, ae_type = HandoffUpdated\<rparr> s1 of
                      (Inl e, s2) \<Rightarrow> (Inl e, s2)
                    | (Inr _, s2) \<Rightarrow> (Inr (TUpdated execution), s2))))"

definition archive ::
    "string \<Rightarrow> string \<Rightarrow> int \<Rightarrow> string \<Rightarrow> task_store \<Rightarrow> transition_result \<times> task_store" where
  "archive owner execution expectedVersion archivedAt s =
     (let k = executionKey owner execution
      in (case js_get (executions s) k of
            None \<Rightarrow> (TConflict None, s)
          | Some current \<Rightarrow>
              if ex_version current \<noteq> expectedVersion \<or>
                 ex_state current \<notin> {Completed, Failed, Cancelled}
              then (TConflict (Some current), s)
              else put_execution k
                (current\<lparr>ex_archivedAt := Some archivedAt, ex_blockedReason := None,
                   ex_state := Archived, ex_updatedAt := archivedAt,
                   ex_version := ex_version current + 1\<rparr>) s))"

section \<open>Executor bindings and workspaces\<close>

definition id_char :: "char \<Rightarrow> bool" where
  "id_char c \<longleftrightarrow> is_alnum c \<or> c \<in> set ''._:-''"

text \<open>\<open>/^[A-Za-z0-9][A-Za-z0-9._:-]{lo,hi}$/\<close>\<close>

definition reference_pattern :: "nat \<Rightarrow> nat \<Rightarrow> string \<Rightarrow> bool" where
  "reference_pattern lo hi s \<longleftrightarrow>
     (case s of [] \<Rightarrow> False | c # cs \<Rightarrow> is_alnum c \<and> class_rep id_char lo hi cs)"

definition bindExecutor :: "string \<Rightarrow> executor_binding \<Rightarrow> task_store \<Rightarrow> create_result \<times> task_store" where
  "bindExecutor owner b s =
     (if bd_version b \<noteq> 1 \<or> \<not> reference_pattern 7 255 (bd_externalId b) then (Conflict, s)
      else
        let k = executionKey owner (bd_executionId b)
        in (case js_get (bindings s) k of
              Some existing \<Rightarrow> (if sameBinding existing b then Replayed else Conflict, s)
            | None \<Rightarrow>
                (case js_get (executions s) k of
                   None \<Rightarrow> (Conflict, s)
                 | Some execution \<Rightarrow>
                     if ex_agent execution \<noteq> bd_agent b then (Conflict, s)
                     else if list_ex (bound_as owner (bd_agent b) (bd_externalId b)) (bindings s)
                     then (Conflict, s)
                     else (Created, s\<lparr>bindings := js_set (bindings s) k b\<rparr>))))"

definition readExecutorBinding :: "string \<Rightarrow> string \<Rightarrow> task_store \<Rightarrow> executor_binding option" where
  "readExecutorBinding owner execution s = js_get (bindings s) (executionKey owner execution)"

definition updateExecutorTurn ::
    "update_turn_input \<Rightarrow> task_store \<Rightarrow> executor_binding option \<times> task_store" where
  "updateExecutorTurn input s =
     (if \<not> reference_pattern 0 255 (ut_turnId input) then (None, s)
      else
        let k = executionKey (ut_ownerUserId input) (ut_executionId input)
        in (case js_get (bindings s) k of
              None \<Rightarrow> (None, s)
            | Some current \<Rightarrow>
                if bd_version current \<noteq> ut_expectedVersion input then (None, s)
                else
                  let updated = current\<lparr>bd_turnId := Some (ut_turnId input),
                        bd_updatedAt := ut_updatedAt input, bd_version := bd_version current + 1\<rparr>
                  in (Some updated, s\<lparr>bindings := js_set (bindings s) k updated\<rparr>)))"

definition bindWorkspace :: "string \<Rightarrow> runner_workspace \<Rightarrow> task_store \<Rightarrow> create_result \<times> task_store" where
  "bindWorkspace owner w s =
     (if ws_version w \<noteq> 1 \<or> (case ws_commit w of None \<Rightarrow> False | Some c \<Rightarrow> \<not> git_sha1 c)
      then (Conflict, s)
      else
        let k = executionKey owner (ws_executionId w)
        in (case js_get (workspaces s) k of
              Some existing \<Rightarrow> (if sameWorkspace existing w then Replayed else Conflict, s)
            | None \<Rightarrow>
                (case js_get (executions s) k of
                   None \<Rightarrow> (Conflict, s)
                 | Some execution \<Rightarrow>
                     if src_repositoryId (ex_source execution) \<noteq> ws_repositoryId w \<or>
                        src_branch (ex_source execution) \<noteq> ws_branch w
                     then (Conflict, s)
                     else (Created, s\<lparr>workspaces := js_set (workspaces s) k w\<rparr>))))"

definition readWorkspace :: "string \<Rightarrow> string \<Rightarrow> task_store \<Rightarrow> runner_workspace option" where
  "readWorkspace owner execution s = js_get (workspaces s) (executionKey owner execution)"

definition updateWorkspace ::
    "update_workspace_input \<Rightarrow> task_store \<Rightarrow> runner_workspace option \<times> task_store" where
  "updateWorkspace input s =
     (if (case uw_commit input of None \<Rightarrow> False | Some c \<Rightarrow> \<not> git_sha1 c) then (None, s)
      else
        let k = executionKey (uw_ownerUserId input) (uw_executionId input)
        in (case js_get (workspaces s) k of
              None \<Rightarrow> (None, s)
            | Some current \<Rightarrow>
                if ws_version current \<noteq> uw_expectedVersion input then (None, s)
                else
                  let updated = current\<lparr>
                        ws_commit := (if truthy (uw_commit input) then uw_commit input
                                      else ws_commit current),
                        ws_state := uw_state input, ws_updatedAt := uw_updatedAt input,
                        ws_version := ws_version current + 1\<rparr>
                  in (Some updated, s\<lparr>workspaces := js_set (workspaces s) k updated\<rparr>)))"

section \<open>Calls\<close>

datatype task_call =
    TCreate stored_execution
  | TTransition execution_transition
  | TSource update_source_input
  | TConnector update_connector_input
  | THandoff update_handoff_input
  | TArchive string string int string
  | TAppend append_event_input
  | TBind string executor_binding
  | TTurn update_turn_input
  | TBindWorkspace string runner_workspace
  | TWorkspace update_workspace_input

datatype task_answer =
    RCreate "task_error + create_result"
  | RTransition "task_error + transition_result"
  | REvent "task_error + execution_event"
  | RBind create_result
  | RTurn "executor_binding option"
  | RWorkspace "runner_workspace option"

fun task_step :: "task_call \<Rightarrow> task_store \<Rightarrow> task_answer \<times> task_store" where
  "task_step (TCreate e) s = map_prod RCreate id (create e s)"
| "task_step (TTransition i) s = map_prod RTransition id (transition i s)"
| "task_step (TSource i) s = map_prod (RTransition \<circ> Inr) id (updateSource i s)"
| "task_step (TConnector i) s = map_prod (RTransition \<circ> Inr) id (updateConnectorBinding i s)"
| "task_step (THandoff i) s = map_prod RTransition id (updateHandoff i s)"
| "task_step (TArchive owner e n a) s = map_prod (RTransition \<circ> Inr) id (archive owner e n a s)"
| "task_step (TAppend i) s = map_prod REvent id (appendEvent i s)"
| "task_step (TBind owner b) s = map_prod RBind id (bindExecutor owner b s)"
| "task_step (TTurn i) s = map_prod RTurn id (updateExecutorTurn i s)"
| "task_step (TBindWorkspace owner w) s = map_prod RBind id (bindWorkspace owner w s)"
| "task_step (TWorkspace i) s = map_prod RWorkspace id (updateWorkspace i s)"

end
