(* ===== verification/TaskInvariant.thy ===== *)
theory TaskInvariant
  imports TaskStore
begin

text \<open>
  What a call of the task execution store can change, the invariant every call keeps, and the
  contracts the store interprets: versioned updates of executions, executor bindings and
  workspaces, and durable archived executions.
\<close>

section \<open>Changes\<close>

text \<open>A revision of an execution: a new version, the same identity, an allowed state.\<close>

definition revises :: "stored_execution \<Rightarrow> stored_execution \<Rightarrow> bool" where
  "revises e u \<longleftrightarrow> ex_version u = ex_version e + 1 \<and> ex_id u = ex_id e \<and>
     ex_ownerUserId u = ex_ownerUserId e \<and> ex_agent u = ex_agent e \<and>
     ex_environmentId u = ex_environmentId e \<and> ex_createdAt u = ex_createdAt e \<and>
     src_taskId (ex_source u) = src_taskId (ex_source e) \<and>
     src_repositoryId (ex_source u) = src_repositoryId (ex_source e) \<and>
     src_branch (ex_source u) = src_branch (ex_source e) \<and>
     (assertState (ex_state e) (ex_blockedReason e) \<longrightarrow> assertState (ex_state u) (ex_blockedReason u)) \<and>
     (ex_state u = ex_state e \<and> ex_state e \<noteq> Archived \<or>
      isTaskExecutionTransitionAllowed (ex_state e) (ex_state u) \<or>
      ex_state e \<in> {Completed, Failed, Cancelled} \<and> ex_state u = Archived)"

inductive task_change :: "task_store \<Rightarrow> task_store \<Rightarrow> bool" where
  nothing: "task_change s s"
| new_execution:
    "assertExecution e \<Longrightarrow> k = executionKey (ex_ownerUserId e) (ex_id e) \<Longrightarrow>
     js_get (executions s) k = None \<Longrightarrow>
     task_change s (s\<lparr>executions := js_set (executions s) k e\<rparr>)"
| revised:
    "js_get (executions s) k = Some e \<Longrightarrow> revises e u \<Longrightarrow>
     task_change s (s\<lparr>executions := js_set (executions s) k u\<rparr>)"
| event:
    "js_has (executions s) k \<Longrightarrow> ev_cursor e = event_cursor s + 1 \<Longrightarrow>
     task_change s (s\<lparr>event_cursor := event_cursor s + 1,
       events := js_set (events s) k (events_of k s @ [e])\<rparr>)"
| bound:
    "k = executionKey owner (bd_executionId b) \<Longrightarrow> js_get (bindings s) k = None \<Longrightarrow>
     js_get (executions s) k = Some e \<Longrightarrow> ex_agent e = bd_agent b \<Longrightarrow> bd_version b = 1 \<Longrightarrow>
     \<not> list_ex (bound_as owner (bd_agent b) (bd_externalId b)) (bindings s) \<Longrightarrow>
     task_change s (s\<lparr>bindings := js_set (bindings s) k b\<rparr>)"
| turned:
    "js_get (bindings s) k = Some b \<Longrightarrow> bd_agent u = bd_agent b \<Longrightarrow>
     bd_externalId u = bd_externalId b \<Longrightarrow> bd_version u = bd_version b + 1 \<Longrightarrow>
     task_change s (s\<lparr>bindings := js_set (bindings s) k u\<rparr>)"
| workspace_bound:
    "js_get (workspaces s) k = None \<Longrightarrow> js_get (executions s) k = Some e \<Longrightarrow>
     src_repositoryId (ex_source e) = ws_repositoryId w \<Longrightarrow> src_branch (ex_source e) = ws_branch w \<Longrightarrow>
     ws_version w = 1 \<Longrightarrow> task_change s (s\<lparr>workspaces := js_set (workspaces s) k w\<rparr>)"
| workspace_updated:
    "js_get (workspaces s) k = Some w \<Longrightarrow> ws_repositoryId u = ws_repositoryId w \<Longrightarrow>
     ws_branch u = ws_branch w \<Longrightarrow> ws_version u = ws_version w + 1 \<Longrightarrow>
     task_change s (s\<lparr>workspaces := js_set (workspaces s) k u\<rparr>)"

lemmas task_change_intros = task_change.intros

lemma put_execution_change:
  "js_get (executions s) k = Some e \<Longrightarrow> revises e u \<Longrightarrow> task_change s (snd (put_execution k u s))"
  by (simp add: put_execution_def task_change.revised)

lemma create_change: "task_change s (snd (create e s))"
  by (auto simp: create_def Let_def split: option.splits intro: task_change_intros)

lemma transition_change: "task_change s (snd (transition i s))"
  by (auto simp: transition_def Let_def revises_def split: option.splits
      intro: task_change.nothing put_execution_change)

lemma updateSource_change: "task_change s (snd (updateSource i s))"
  by (auto simp: updateSource_def Let_def revises_def closed_states_def split: option.splits
      intro: task_change.nothing put_execution_change)

lemma updateConnector_change: "task_change s (snd (updateConnectorBinding i s))"
  by (auto simp: updateConnectorBinding_def Let_def revises_def closed_states_def
      split: option.splits intro: task_change.nothing put_execution_change)

lemma archive_change: "task_change s (snd (archive owner e n a s))"
  by (auto simp: archive_def Let_def revises_def assertState_def split: option.splits
      intro!: task_change.nothing put_execution_change)

lemma appendEvent_change: "task_change s (snd (appendEvent i s))"
  by (auto simp: appendEvent_def Let_def intro: task_change.nothing task_change.event)

lemma bindExecutor_change: "task_change s (snd (bindExecutor owner b s))"
  by (auto simp: bindExecutor_def Let_def split: option.splits
      intro: task_change.nothing task_change.bound)

lemma updateExecutorTurn_change: "task_change s (snd (updateExecutorTurn i s))"
  by (auto simp: updateExecutorTurn_def Let_def split: option.splits
      intro: task_change.nothing task_change.turned)

lemma bindWorkspace_change: "task_change s (snd (bindWorkspace owner w s))"
  by (auto simp: bindWorkspace_def Let_def split: option.splits
      intro: task_change.nothing task_change.workspace_bound)

lemma updateWorkspace_change: "task_change s (snd (updateWorkspace i s))"
  by (auto simp: updateWorkspace_def Let_def split: option.splits
      intro: task_change.nothing task_change.workspace_updated)

lemma snd_try:
  "snd (case p of (Inl e, t) \<Rightarrow> (Inl e, t) | (Inr x, t) \<Rightarrow> (Inr u, t)) = snd p"
  by (simp split: prod.splits sum.splits)

text \<open>\<open>updateHandoff\<close> revises the execution and then appends an event.\<close>

lemma updateHandoff_change:
  "\<exists>t. task_change s t \<and> (snd (updateHandoff i s) = t \<or>
     (\<exists>a. snd (updateHandoff i s) = snd (appendEvent a t)))"
proof -
  let ?k = "executionKey (uh_ownerUserId i) (uh_executionId i)"
  show ?thesis
  proof (cases "js_get (executions s) ?k")
    case None
    then show ?thesis
      by (auto simp: updateHandoff_def intro: task_change.nothing)
  next
    case (Some e)
    let ?u = "e\<lparr>ex_handoff := uh_handoff i, ex_updatedAt := uh_updatedAt i,
        ex_version := ex_version e + 1\<rparr>"
    let ?t = "snd (put_execution ?k ?u s)"
    show ?thesis
    proof (cases "ex_state e \<in> set handoff_states")
      case True
      then have "revises e ?u" by (auto simp: revises_def handoff_states_def)
      then have "task_change s ?t" by (rule put_execution_change [OF Some])
      moreover have "snd (updateHandoff i s) = s \<or>
          (\<exists>a. snd (updateHandoff i s) = snd (appendEvent a ?t))"
        by (auto simp: updateHandoff_def Some Let_def snd_try)
      ultimately show ?thesis
        by (metis task_change.nothing)
    next
      case False
      then show ?thesis
        by (auto simp: updateHandoff_def Some Let_def intro: task_change.nothing)
    qed
  qed
qed

lemma task_step_once:
  "\<exists>t. task_change s t \<and> (snd (task_step c s) = t \<or>
     (\<exists>a. snd (task_step c s) = snd (appendEvent a t)))"
proof (cases c)
  case (THandoff i)
  then show ?thesis using updateHandoff_change [of s i] by simp
qed (auto intro: create_change transition_change updateSource_change updateConnector_change
      archive_change appendEvent_change bindExecutor_change updateExecutorTurn_change
      bindWorkspace_change updateWorkspace_change)

lemma task_step_change:
  "\<exists>t. task_change s t \<and> task_change t (snd (task_step c s))"
  using task_step_once [of s c] by (metis appendEvent_change task_change.nothing)

section \<open>The invariant\<close>

definition executions_ok :: "task_store \<Rightarrow> bool" where
  "executions_ok s \<longleftrightarrow> js_wf (executions s) \<and>
     (\<forall>k e. js_get (executions s) k = Some e \<longrightarrow>
        k = executionKey (ex_ownerUserId e) (ex_id e) \<and> uuid_pattern (ex_id e) \<and>
        assertState (ex_state e) (ex_blockedReason e))"

text \<open>A binding belongs to an execution of its agent; an owner's executions share no executor.\<close>

definition bindings_ok :: "task_store \<Rightarrow> bool" where
  "bindings_ok s \<longleftrightarrow> js_wf (bindings s) \<and>
     (\<forall>k b. js_get (bindings s) k = Some b \<longrightarrow>
        (\<exists>e. js_get (executions s) k = Some e \<and> ex_agent e = bd_agent b)) \<and>
     (\<forall>owner i j b c. NUL \<notin> set i \<longrightarrow> NUL \<notin> set j \<longrightarrow>
        js_get (bindings s) (executionKey owner i) = Some b \<longrightarrow>
        js_get (bindings s) (executionKey owner j) = Some c \<longrightarrow>
        bd_agent b = bd_agent c \<longrightarrow> bd_externalId b = bd_externalId c \<longrightarrow> i = j)"

definition workspaces_ok :: "task_store \<Rightarrow> bool" where
  "workspaces_ok s \<longleftrightarrow>
     (\<forall>k w. js_get (workspaces s) k = Some w \<longrightarrow>
        (\<exists>e. js_get (executions s) k = Some e \<and>
           src_repositoryId (ex_source e) = ws_repositoryId w \<and>
           src_branch (ex_source e) = ws_branch w))"

text \<open>Cursors increase along each event log, and no two events of the store share one.\<close>

definition events_ok :: "task_store \<Rightarrow> bool" where
  "events_ok s \<longleftrightarrow> 0 \<le> event_cursor s \<and>
     (\<forall>k. sorted_wrt (\<lambda>a b. ev_cursor a < ev_cursor b) (events_of k s)) \<and>
     (\<forall>k. \<forall>e \<in> set (events_of k s). 0 < ev_cursor e \<and> ev_cursor e \<le> event_cursor s) \<and>
     (\<forall>k l a b. a \<in> set (events_of k s) \<longrightarrow> b \<in> set (events_of l s) \<longrightarrow>
        ev_cursor a = ev_cursor b \<longrightarrow> k = l)"

definition task_inv :: "task_store \<Rightarrow> bool" where
  "task_inv s \<longleftrightarrow> executions_ok s \<and> bindings_ok s \<and> workspaces_ok s \<and> events_ok s"

lemma empty_task_inv [simp]: "task_inv empty_task_store"
  by (simp add: task_inv_def executions_ok_def bindings_ok_def workspaces_ok_def events_ok_def
      empty_task_store_def events_of_def)

lemma executions_okD:
  assumes "executions_ok s" and "js_get (executions s) k = Some e"
  shows "k = executionKey (ex_ownerUserId e) (ex_id e)" "uuid_pattern (ex_id e)"
    "assertState (ex_state e) (ex_blockedReason e)"
  using assms unfolding executions_ok_def by blast+

lemma change_executions_ok:
  assumes "task_change s s'" and ok: "executions_ok s"
  shows "executions_ok s'"
  using assms(1)
proof cases
  case (new_execution e k)
  then have "uuid_pattern (ex_id e)" "assertState (ex_state e) (ex_blockedReason e)"
    unfolding assertExecution_def by blast+
  with ok show ?thesis unfolding new_execution(1,3) by (simp add: executions_ok_def)
next
  case (revised k e u)
  have "executionKey (ex_ownerUserId u) (ex_id u) = k" "uuid_pattern (ex_id u)"
    "assertState (ex_state u) (ex_blockedReason u)"
    using executions_okD [OF ok revised(2)] revised(3) by (simp_all add: revises_def)
  with ok revised show ?thesis by (simp add: executions_ok_def)
qed (use ok in \<open>simp_all add: executions_ok_def\<close>)

text \<open>A change keeps every execution's identity, repository and branch.\<close>

lemma change_execution:
  assumes "task_change s s'" and "js_get (executions s) k = Some e"
  shows "\<exists>u. js_get (executions s') k = Some u \<and> (u = e \<or> revises e u)"
  using assms(1) by cases (use assms(2) in auto)

lemma change_workspaces_ok:
  assumes "task_change s s'" and ok: "workspaces_ok s"
  shows "workspaces_ok s'"
proof -
  have keep: "\<exists>u. js_get (executions s') k = Some u \<and>
      src_repositoryId (ex_source u) = src_repositoryId (ex_source e) \<and>
      src_branch (ex_source u) = src_branch (ex_source e)"
    if "js_get (executions s) k = Some e" for k e
    using change_execution [OF assms(1) that] by (auto simp: revises_def)
  have old: "\<exists>u. js_get (executions s') k = Some u \<and>
      src_repositoryId (ex_source u) = ws_repositoryId w \<and> src_branch (ex_source u) = ws_branch w"
    if "js_get (workspaces s) k = Some w" for k w
    using ok keep that unfolding workspaces_ok_def by metis
  from assms(1) show ?thesis
  proof cases
    case (workspace_bound k e w)
    with old show ?thesis by (auto simp: workspaces_ok_def)
  next
    case (workspace_updated k w u)
    with old [of k w] old show ?thesis by (auto simp: workspaces_ok_def)
  qed (use old in \<open>simp_all add: workspaces_ok_def\<close>)
qed

lemma change_events_ok:
  assumes "task_change s s'" and ok: "events_ok s"
  shows "events_ok s'"
  using assms(1)
proof cases
  case (event k e)
  have log: "events_of l s' = (if l = k then events_of k s @ [e] else events_of l s)" for l
    by (simp add: event(1) events_of_def)
  have small: "ev_cursor a \<le> event_cursor s" "0 < ev_cursor a" if "a \<in> set (events_of l s)" for a l
    using ok that by (auto simp: events_ok_def)
  have other: "ev_cursor a \<noteq> event_cursor s + 1" if "a \<in> set (events_of l s)" for a l
    using small [OF that] by simp
  have cursor: "event_cursor s' = event_cursor s + 1" "0 \<le> event_cursor s"
    using ok by (simp_all add: event(1) events_ok_def)
  show ?thesis
    unfolding events_ok_def
  proof (intro conjI allI ballI impI)
    show "0 \<le> event_cursor s'" using cursor by simp
  next
    fix l show "sorted_wrt (\<lambda>a b. ev_cursor a < ev_cursor b) (events_of l s')"
      using ok small(1) [of _ k] event(3)
      by (auto simp: log events_ok_def sorted_wrt_append intro: le_less_trans)
  next
    fix l a assume "a \<in> set (events_of l s')"
    then show "0 < ev_cursor a" "ev_cursor a \<le> event_cursor s'"
      using small [of a l] small [of a k] cursor event(3) by (auto simp: log split: if_splits)
  next
    fix l m a b assume ab: "a \<in> set (events_of l s')" "b \<in> set (events_of m s')" "ev_cursor a = ev_cursor b"
    have "\<And>l m. a \<in> set (events_of l s) \<Longrightarrow> b \<in> set (events_of m s) \<Longrightarrow> l = m"
      using ok ab(3) unfolding events_ok_def by blast
    with ab other [of a l] other [of b m] event(3) show "l = m"
      by (auto simp: log split: if_splits)
  qed
qed (use ok in \<open>simp_all add: events_ok_def events_of_def\<close>)

text \<open>
  Two executions of one owner, with ids free of NUL: a binding of the second is refused as long as
  the first has the same executor, whichever owner and execution id the caller split the key into.
\<close>

lemma key_prefix:
  assumes "executionKey p e = executionKey owner j" and "NUL \<notin> set j"
  shows "prefix (owner_prefix p) (executionKey owner i)"
proof -
  from assms(1) have "p @ NUL # e = owner @ NUL # j" by (simp add: executionKey_def nul_key_def)
  then obtain us where "(p = owner @ us \<and> us @ NUL # e = NUL # j) \<or>
      (p @ us = owner \<and> NUL # e = us @ NUL # j)"
    by (auto simp: append_eq_append_conv2)
  then have "owner = p \<or> (\<exists>vs. owner = p @ NUL # vs)"
  proof (elim disjE conjE)
    assume "p = owner @ us" "us @ NUL # e = NUL # j"
    with assms(2) show ?thesis by (cases us) auto
  next
    assume "p @ us = owner" "NUL # e = us @ NUL # j"
    then show ?thesis by (cases us) auto
  qed
  then show ?thesis
    by (auto simp: owner_prefix_def executionKey_def nul_key_def prefix_def)
qed

lemma change_bindings_ok:
  assumes "task_change s s'" and ok: "bindings_ok s"
  shows "bindings_ok s'"
proof -
  have keep: "\<exists>u. js_get (executions s') k = Some u \<and> ex_agent u = ex_agent e"
    if "js_get (executions s) k = Some e" for k e
    using change_execution [OF assms(1) that] by (auto simp: revises_def)
  have old: "\<exists>u. js_get (executions s') k = Some u \<and> ex_agent u = bd_agent b"
    if "js_get (bindings s) k = Some b" for k b
    using ok keep that unfolding bindings_ok_def by metis
  have unique: "i = j" if "NUL \<notin> set i" "NUL \<notin> set j"
    "js_get (bindings s) (executionKey owner i) = Some b"
    "js_get (bindings s) (executionKey owner j) = Some c"
    "bd_agent b = bd_agent c" "bd_externalId b = bd_externalId c" for owner i j b c
    using ok that unfolding bindings_ok_def by blast
  from assms(1) show ?thesis
  proof cases
    case (bound k p b e)
    have fresh: "False" if "NUL \<notin> set j" "executionKey owner j = k"
      "js_get (bindings s) (executionKey owner i) = Some c"
      "bd_agent c = bd_agent b" "bd_externalId c = bd_externalId b" for owner i j c
    proof -
      have "prefix (owner_prefix p) (executionKey owner i)"
        using that(1,2) bound(2) by (intro key_prefix [of p "bd_executionId b"]) simp_all
      with that(3-5) map_of_SomeD [OF that(3)] bound(7) show False
        by (auto simp: list_ex_iff bound_as_def)
    qed
    have "\<exists>u. js_get (executions s') k = Some u \<and> ex_agent u = bd_agent b"
      using keep [OF bound(4)] bound(5) by simp
    with bound ok old show ?thesis
      unfolding bindings_ok_def
      apply (simp split: if_split)
      apply (intro conjI allI impI; metis fresh unique executionKey_def nul_key_same)
      done
  next
    case (turned k b u)
    with ok old [of k b] old show ?thesis
      unfolding bindings_ok_def
      apply (simp split: if_split)
      apply (intro conjI allI impI; metis unique executionKey_def nul_key_same)
      done
  qed (use ok old unique in \<open>simp_all add: bindings_ok_def\<close>)
qed

lemma change_task_inv: "task_change s s' \<Longrightarrow> task_inv s \<Longrightarrow> task_inv s'"
  by (simp add: task_inv_def change_executions_ok change_bindings_ok change_workspaces_ok
      change_events_ok)

lemma step_task_inv: "task_inv s \<Longrightarrow> task_inv (snd (task_step c s))"
  using task_step_change [of s c] change_task_inv by blast

section \<open>Contracts\<close>

definition execution_version :: "string \<Rightarrow> task_store \<Rightarrow> int option" where
  "execution_version k s = map_option ex_version (js_get (executions s) k)"

definition binding_version :: "string \<Rightarrow> task_store \<Rightarrow> int option" where
  "binding_version k s = map_option bd_version (js_get (bindings s) k)"

definition workspace_version :: "string \<Rightarrow> task_store \<Rightarrow> int option" where
  "workspace_version k s = map_option ws_version (js_get (workspaces s) k)"

text \<open>
  The updates of an execution that count as applied. \<open>updateSource\<close> is left out: it answers
  \<open>updated\<close> for a source that is already set, without a change.
\<close>

fun applied_execution :: "string \<Rightarrow> int \<Rightarrow> task_call \<Rightarrow> task_answer \<Rightarrow> bool" where
  "applied_execution k n (TTransition i) (RTransition (Inr (TUpdated _))) =
     (executionKey (tr_ownerUserId i) (tr_executionId i) = k \<and> tr_expectedVersion i = n)"
| "applied_execution k n (TConnector i) (RTransition (Inr (TUpdated _))) =
     (executionKey (uc_ownerUserId i) (uc_executionId i) = k \<and> uc_expectedVersion i = n)"
| "applied_execution k n (THandoff i) (RTransition (Inr (TUpdated _))) =
     (executionKey (uh_ownerUserId i) (uh_executionId i) = k \<and> uh_expectedVersion i = n)"
| "applied_execution k n (TArchive owner e v _) (RTransition (Inr (TUpdated _))) =
     (executionKey owner e = k \<and> v = n)"
| "applied_execution _ _ _ _ = False"

fun applied_turn :: "string \<Rightarrow> int \<Rightarrow> task_call \<Rightarrow> task_answer \<Rightarrow> bool" where
  "applied_turn k n (TTurn i) (RTurn (Some _)) =
     (executionKey (ut_ownerUserId i) (ut_executionId i) = k \<and> ut_expectedVersion i = n)"
| "applied_turn _ _ _ _ = False"

fun applied_workspace :: "string \<Rightarrow> int \<Rightarrow> task_call \<Rightarrow> task_answer \<Rightarrow> bool" where
  "applied_workspace k n (TWorkspace i) (RWorkspace (Some _)) =
     (executionKey (uw_ownerUserId i) (uw_executionId i) = k \<and> uw_expectedVersion i = n)"
| "applied_workspace _ _ _ _ = False"

lemma change_versions:
  assumes "task_change s s'"
  shows "execution_version k s = Some v \<Longrightarrow> \<exists>v'. execution_version k s' = Some v' \<and> v \<le> v'"
    and "binding_version k s = Some v \<Longrightarrow> \<exists>v'. binding_version k s' = Some v' \<and> v \<le> v'"
    and "workspace_version k s = Some v \<Longrightarrow> \<exists>v'. workspace_version k s' = Some v' \<and> v \<le> v'"
  using assms
  by (cases; auto simp: execution_version_def binding_version_def workspace_version_def revises_def)+

lemma step_versions:
  "execution_version k s = Some v \<Longrightarrow>
     \<exists>v'. execution_version k (snd (task_step c s)) = Some v' \<and> v \<le> v'"
  "binding_version k s = Some v \<Longrightarrow>
     \<exists>v'. binding_version k (snd (task_step c s)) = Some v' \<and> v \<le> v'"
  "workspace_version k s = Some v \<Longrightarrow>
     \<exists>v'. workspace_version k (snd (task_step c s)) = Some v' \<and> v \<le> v'"
  using task_step_change [of s c] by (meson change_versions order.trans)+

lemma appendEvent_executions [simp]: "executions (snd (appendEvent i s)) = executions s"
  by (simp add: appendEvent_def Let_def)

lemma put_execution_version [simp]:
  "execution_version k (snd (put_execution l e s)) =
     (if k = l then Some (ex_version e) else execution_version k s)"
  by (simp add: put_execution_def execution_version_def)

lemma fst_put_execution [simp]: "fst (put_execution k e s) = TUpdated e"
  by (simp add: put_execution_def)

lemma appendEvent_version [simp]:
  "execution_version k (snd (appendEvent i s)) = execution_version k s"
  by (simp add: execution_version_def)

lemma transition_applied:
  assumes "fst (transition i s) = Inr (TUpdated e)"
  shows "execution_version (executionKey (tr_ownerUserId i) (tr_executionId i)) s =
      Some (tr_expectedVersion i) \<and>
    execution_version (executionKey (tr_ownerUserId i) (tr_executionId i)) (snd (transition i s)) =
      Some (tr_expectedVersion i + 1)"
  using assms
  by (auto simp: transition_def Let_def execution_version_def put_execution_def
      split: option.splits if_splits)

lemma connector_applied:
  assumes "fst (updateConnectorBinding i s) = TUpdated e"
  shows "execution_version (executionKey (uc_ownerUserId i) (uc_executionId i)) s =
      Some (uc_expectedVersion i) \<and>
    execution_version (executionKey (uc_ownerUserId i) (uc_executionId i))
      (snd (updateConnectorBinding i s)) = Some (uc_expectedVersion i + 1)"
  using assms
  by (auto simp: updateConnectorBinding_def Let_def execution_version_def put_execution_def
      split: option.splits if_splits)

lemma archive_applied:
  assumes "fst (archive owner x n a s) = TUpdated e"
  shows "execution_version (executionKey owner x) s = Some n \<and>
    execution_version (executionKey owner x) (snd (archive owner x n a s)) = Some (n + 1)"
  using assms
  by (auto simp: archive_def Let_def execution_version_def put_execution_def
      split: option.splits if_splits)

lemma handoff_applied:
  assumes "fst (updateHandoff i s) = Inr (TUpdated e)"
  shows "execution_version (executionKey (uh_ownerUserId i) (uh_executionId i)) s =
      Some (uh_expectedVersion i) \<and>
    execution_version (executionKey (uh_ownerUserId i) (uh_executionId i))
      (snd (updateHandoff i s)) = Some (uh_expectedVersion i + 1)"
proof (cases "js_get (executions s) (executionKey (uh_ownerUserId i) (uh_executionId i))")
  case None
  with assms show ?thesis by (simp add: updateHandoff_def)
next
  case (Some c)
  with assms have "ex_version c = uh_expectedVersion i"
    by (auto simp: updateHandoff_def Let_def split: if_splits)
  with Some assms show ?thesis
    by (auto simp: updateHandoff_def Let_def snd_try execution_version_def put_execution_def
        split: if_splits)
qed

lemma step_execution:
  assumes "js_get (executions s) k = Some e"
  shows "\<exists>u. js_get (executions (snd (task_step c s))) k = Some u \<and> (u = e \<or> revises e u)"
  using task_step_once [of s c] change_execution [OF _ assms]
  by (metis appendEvent_executions)

interpretation task: invariant_store task_step task_inv
  by unfold_locales (rule step_task_inv)

interpretation task_versions: versioned_store task_step task_inv execution_version applied_execution
proof (unfold_locales, goal_cases)
  case (1 s k n c)
  then show ?case
    using transition_applied connector_applied archive_applied handoff_applied
    by (cases c) (auto elim!: applied_execution.elims)
qed (rule step_versions)

interpretation turn_versions: versioned_store task_step task_inv binding_version applied_turn
proof (unfold_locales, goal_cases)
  case (1 s k n c)
  then show ?case
    by (auto elim!: applied_turn.elims simp: updateExecutorTurn_def Let_def binding_version_def
        split: option.splits if_splits)
qed (rule step_versions)

interpretation workspace_versions:
  versioned_store task_step task_inv workspace_version applied_workspace
proof (unfold_locales, goal_cases)
  case (1 s k n c)
  then show ?case
    by (auto elim!: applied_workspace.elims simp: updateWorkspace_def Let_def workspace_version_def
        split: option.splits if_splits)
qed (rule step_versions)

text \<open>An archived execution stays as it is.\<close>

definition archived_as :: "string \<times> stored_execution \<Rightarrow> task_store \<Rightarrow> bool" where
  "archived_as ke s \<longleftrightarrow> ex_state (snd ke) = Archived \<and> js_get (executions s) (fst ke) = Some (snd ke)"

lemma archived_not_revised: "ex_state e = Archived \<Longrightarrow> \<not> revises e u"
  by (simp add: revises_def isTaskExecutionTransitionAllowed_def terminalStates_def)

lemma change_archived: "task_change s s' \<Longrightarrow> archived_as ke s \<Longrightarrow> archived_as ke s'"
  using change_execution [of s s' "fst ke" "snd ke"] archived_not_revised
  by (fastforce simp: archived_as_def)

interpretation task_archive: durable_store task_step task_inv archived_as
  by unfold_locales (meson task_step_change change_archived)

lemma reachable_task_inv: "task_inv (run_state task_step calls empty_task_store)"
  by (rule task.run_inv) simp

end
