(* ===== verification/TaskProperties.thy ===== *)
theory TaskProperties
  imports TaskInvariant
begin

text \<open>
  What the in-memory task execution store promises, over every sequence of calls on a new store,
  and the facts about the transition relation of execution states.
\<close>

section \<open>Updates\<close>

text \<open>C26: no lost update: of all transitions, connector bindings, handoff updates and archivings that
  name the same execution and the same expected version, at most one is applied.\<close>

theorem task_no_lost_update:
  "length (filter (\<lambda>(c, a). applied_execution (executionKey owner execution) n c a)
     (run_results task_step calls empty_task_store)) \<le> 1"
  by (rule task_versions.no_lost_update) simp

text \<open>The same for the turns of an executor binding and for the updates of a workspace.\<close>

theorem task_no_lost_turn_or_workspace:
  "length (filter (\<lambda>(c, a). applied_turn (executionKey owner execution) n c a)
       (run_results task_step calls empty_task_store)) \<le> 1 \<and>
   length (filter (\<lambda>(c, a). applied_workspace (executionKey owner execution) n c a)
       (run_results task_step calls empty_task_store)) \<le> 1"
  by (intro conjI turn_versions.no_lost_update workspace_versions.no_lost_update) simp_all

section \<open>The life of an execution\<close>

definition same_execution :: "stored_execution \<Rightarrow> stored_execution \<Rightarrow> bool" where
  "same_execution u e \<longleftrightarrow> ex_id u = ex_id e \<and> ex_ownerUserId u = ex_ownerUserId e \<and>
     ex_agent u = ex_agent e \<and> ex_environmentId u = ex_environmentId e \<and>
     src_taskId (ex_source u) = src_taskId (ex_source e) \<and>
     src_repositoryId (ex_source u) = src_repositoryId (ex_source e) \<and>
     src_branch (ex_source u) = src_branch (ex_source e)"

text \<open>An execution and the calls that walk it from planned to archived, for the witnesses.\<close>

definition demo_uuid :: string where
  "demo_uuid = ''01234567-89ab-4def-8123-456789abcdef''"

definition demo_execution :: stored_execution where
  "demo_execution = \<lparr>ex_agent = Codex, ex_archivedAt = None, ex_blockedReason = None,
     ex_connectorBinding = None, ex_createdAt = ''2026-01-01T00:00:00.000Z'',
     ex_environmentId = demo_uuid, ex_handoff = \<lparr>ho_id = demo_uuid, ho_revision = 1\<rparr>,
     ex_id = demo_uuid, ex_ownerUserId = ''u'',
     ex_source = \<lparr>src_branch = ''main'', src_commit = None, src_repositoryId = ''r'', src_taskId = ''t''\<rparr>,
     ex_state = Planned, ex_updatedAt = ''2026-01-01T00:00:00.000Z'', ex_version = 1\<rparr>"

definition demo_cancel :: execution_transition where
  "demo_cancel = \<lparr>tr_blockedReason = None, tr_expectedVersion = 1, tr_executionId = demo_uuid,
     tr_ownerUserId = ''u'', tr_state = Cancelled, tr_updatedAt = ''2026-01-01T00:00:01.000Z''\<rparr>"

definition demo_task_calls :: "task_call list" where
  "demo_task_calls = [TCreate demo_execution, TTransition demo_cancel,
     TArchive ''u'' demo_uuid 2 ''2026-01-01T00:00:02.000Z'']"

lemma demo_uuid_ok [simp]: "uuid_pattern demo_uuid"
  by code_simp

lemma demo_instant [simp]: "date_parse ''2026-01-01T00:00:00.000Z'' = Some 1767225600000"
  by code_simp

lemma demo_execution_ok [simp]: "assertExecution demo_execution"
  by (simp add: assertExecution_def demo_execution_def assertState_def js_trim_def js_space_def)

lemma demo_task_run:
  "executions (run_state task_step demo_task_calls empty_task_store) =
     [(executionKey ''u'' demo_uuid, demo_execution\<lparr>ex_archivedAt := Some ''2026-01-01T00:00:02.000Z'',
        ex_state := Archived, ex_updatedAt := ''2026-01-01T00:00:02.000Z'', ex_version := 3\<rparr>)]"
proof -
  have "create demo_execution empty_task_store = (Inr Created, empty_task_store\<lparr>executions :=
      [(executionKey ''u'' demo_uuid, demo_execution)]\<rparr>)"
    using demo_execution_ok
    by (simp add: create_def empty_task_store_def js_set_def)
      (simp add: demo_execution_def assertState_def)
  then show ?thesis
    by (simp add: demo_task_calls_def transition_def archive_def put_execution_def demo_cancel_def
        empty_task_store_def js_set_def Let_def assertState_def isTaskExecutionTransitionAllowed_def
        terminalStates_def)
      (simp add: demo_execution_def isTaskExecutionTransitionAllowed_def terminalStates_def)
qed

text \<open>C28: an execution is never removed; its id, owner, agent, environment, task, repository and branch
  never change; a change gives it the next version; and its state moves only where the transition
  relation allows it, or from a finished state to archived.\<close>

theorem task_execution_lifecycle:
  assumes "js_get (executions (run_state task_step before empty_task_store)) k = Some e"
  shows "\<exists>u. js_get (executions (snd (task_step c (run_state task_step before empty_task_store)))) k =
      Some u \<and> same_execution u e \<and> (u = e \<or> ex_version u = ex_version e + 1) \<and>
    (ex_state u = ex_state e \<or> isTaskExecutionTransitionAllowed (ex_state e) (ex_state u) \<or>
     ex_state e \<in> {Completed, Failed, Cancelled} \<and> ex_state u = Archived)"
  using step_execution [OF assms, of c] by (auto simp: revises_def same_execution_def)

theorem task_execution_lifecycle_witness:
  "\<exists>u. js_get (executions (snd (task_step (TTransition demo_cancel)
      (run_state task_step demo_task_calls empty_task_store)))) (executionKey ''u'' demo_uuid) = Some u \<and>
    ex_id u = demo_uuid"
  using task_execution_lifecycle [of demo_task_calls "executionKey ''u'' demo_uuid" _
      "TTransition demo_cancel", simplified demo_task_run]
  by (auto simp: same_execution_def demo_execution_def)

text \<open>An archived execution is final: no later sequence of calls changes any of its fields.\<close>

theorem task_archived_final:
  assumes "js_get (executions (run_state task_step before empty_task_store)) k = Some e"
    and "ex_state e = Archived"
  shows "js_get (executions (run_state task_step (before @ after) empty_task_store)) k = Some e"
  using task_archive.run_settled [OF reachable_task_inv, of "(k, e)" before after] assms
  by (simp add: archived_as_def run_state_append)

theorem task_archived_final_witness:
  "js_get (executions (run_state task_step
      (demo_task_calls @ [TTransition demo_cancel, TArchive ''u'' demo_uuid 3 ''x'']) empty_task_store))
    (executionKey ''u'' demo_uuid) =
   Some (demo_execution\<lparr>ex_archivedAt := Some ''2026-01-01T00:00:02.000Z'',
     ex_state := Archived, ex_updatedAt := ''2026-01-01T00:00:02.000Z'', ex_version := 3\<rparr>)"
  by (rule task_archived_final) (simp_all add: demo_task_run)

section \<open>Bindings and workspaces\<close>

text \<open>An executor drives at most one of an owner's executions, and one of its own agent kind.\<close>

theorem task_executor_unique:
  assumes "readExecutorBinding owner i (run_state task_step calls empty_task_store) = Some b"
    and "readExecutorBinding owner j (run_state task_step calls empty_task_store) = Some c"
    and "bd_agent b = bd_agent c" and "bd_externalId b = bd_externalId c"
    and "NUL \<notin> set i" and "NUL \<notin> set j"
  shows "i = j \<and> (\<exists>e. read owner i (run_state task_step calls empty_task_store) = Some e \<and>
    ex_agent e = bd_agent b)"
  using reachable_task_inv [of calls] assms
  unfolding task_inv_def bindings_ok_def readExecutorBinding_def read_def by blast

definition demo_binding :: executor_binding where
  "demo_binding = \<lparr>bd_agent = Codex, bd_createdAt = ''t'', bd_executionId = demo_uuid,
     bd_externalId = ''codex-thread-1'', bd_turnId = None, bd_updatedAt = ''t'', bd_version = 1\<rparr>"

lemma demo_binding_run:
  "readExecutorBinding ''u'' demo_uuid
     (run_state task_step [TCreate demo_execution, TBind ''u'' demo_binding] empty_task_store) =
   Some demo_binding"
proof -
  have "create demo_execution empty_task_store = (Inr Created, empty_task_store\<lparr>executions :=
      [(executionKey ''u'' demo_uuid, demo_execution)]\<rparr>)"
    using demo_execution_ok
    by (simp add: create_def empty_task_store_def js_set_def)
      (simp add: demo_execution_def assertState_def)
  moreover have "reference_pattern 7 255 ''codex-thread-1''"
    by (simp add: reference_pattern_def class_rep_def id_char_def is_alnum_def is_digit_def in_range_def)
  ultimately show ?thesis
    by (simp add: bindExecutor_def demo_binding_def readExecutorBinding_def empty_task_store_def
        bound_as_def Let_def demo_execution_def)
qed

theorem task_executor_unique_witness:
  "demo_uuid = demo_uuid \<and> (\<exists>e. read ''u'' demo_uuid
     (run_state task_step [TCreate demo_execution, TBind ''u'' demo_binding] empty_task_store) = Some e \<and>
     ex_agent e = bd_agent demo_binding)"
  by (rule task_executor_unique [OF demo_binding_run demo_binding_run])
    (simp_all add: uuid_no_NUL)

text \<open>The runner workspace of an execution stays on the repository and branch of its execution.\<close>

theorem task_workspace_source:
  assumes "readWorkspace owner i (run_state task_step calls empty_task_store) = Some w"
  shows "\<exists>e. read owner i (run_state task_step calls empty_task_store) = Some e \<and>
    src_repositoryId (ex_source e) = ws_repositoryId w \<and> src_branch (ex_source e) = ws_branch w"
  using reachable_task_inv [of calls] assms
  unfolding task_inv_def workspaces_ok_def readWorkspace_def read_def by blast

definition demo_workspace :: runner_workspace where
  "demo_workspace = \<lparr>ws_branch = ''main'', ws_commit = None, ws_createdAt = ''t'',
     ws_executionId = demo_uuid, ws_id = ''w'', ws_kind = WorktreeKind, ws_repositoryId = ''r'',
     ws_state = WsReady, ws_target = None, ws_updatedAt = ''t'', ws_version = 1\<rparr>"

theorem task_workspace_source_witness:
  "\<exists>e. read ''u'' demo_uuid (run_state task_step
      [TCreate demo_execution, TBindWorkspace ''u'' demo_workspace] empty_task_store) = Some e \<and>
    src_repositoryId (ex_source e) = ''r'' \<and> src_branch (ex_source e) = ''main''"
proof -
  have "create demo_execution empty_task_store = (Inr Created, empty_task_store\<lparr>executions :=
      [(executionKey ''u'' demo_uuid, demo_execution)]\<rparr>)"
    using demo_execution_ok
    by (simp add: create_def empty_task_store_def js_set_def)
      (simp add: demo_execution_def assertState_def)
  then have "readWorkspace ''u'' demo_uuid (run_state task_step
      [TCreate demo_execution, TBindWorkspace ''u'' demo_workspace] empty_task_store) = Some demo_workspace"
    by (simp add: bindWorkspace_def demo_workspace_def readWorkspace_def empty_task_store_def
        Let_def demo_execution_def)
  from task_workspace_source [OF this] show ?thesis by (simp add: demo_workspace_def)
qed

section \<open>Events\<close>

lemma sorted_page:
  fixes f :: "'a \<Rightarrow> int"
  assumes "sorted_wrt (\<lambda>a b. f a < f b) xs" and "0 < n" and "xs \<noteq> []"
  shows "drop n xs = filter (\<lambda>x. f (last (take n xs)) < f x) xs"
proof -
  let ?l = "last (take n xs)"
  have cut: "sorted_wrt (\<lambda>a b. f a < f b) (take n xs @ drop n xs)" using assms(1) by simp
  have nonempty: "take n xs \<noteq> []" using assms(2,3) by simp
  then have l: "?l \<in> set (take n xs)" by (rule last_in_set)
  obtain ys where ys: "take n xs = ys @ [?l]"
    using nonempty by (metis append_butlast_last_id)
  have "sorted_wrt (\<lambda>a b. f a < f b) (ys @ [?l])"
    using cut unfolding sorted_wrt_append ys [symmetric] by blast
  then have "\<forall>x \<in> set (take n xs). \<not> f ?l < f x"
    by (subst ys) (auto simp: sorted_wrt_append)
  moreover have "\<forall>x \<in> set (drop n xs). f ?l < f x"
    using cut l unfolding sorted_wrt_append by blast
  ultimately have "filter (\<lambda>x. f ?l < f x) (take n xs @ drop n xs) = drop n xs"
    by (simp add: filter_empty_conv filter_id_conv del: append_take_drop_id)
  then show ?thesis by simp
qed

text \<open>Reading an event log page by page misses nothing and repeats nothing: what follows a cursor is
  the page followed by what follows the cursor of its last event, an empty page means there is nothing
  more, and a page is never longer than 200 events.\<close>

theorem task_event_pages:
  fixes calls owner i
  defines "s \<equiv> run_state task_step calls empty_task_store"
  defines "page after limit \<equiv> listEvents owner i after limit s"
    and "rest after \<equiv> filter (\<lambda>e. ev_cursor e > after) (events_of (executionKey owner i) s)"
  shows "length (page after limit) \<le> 200 \<and>
    (if page after limit = [] then rest after = []
     else rest after = page after limit @ rest (ev_cursor (last (page after limit))))"
proof -
  let ?n = "nat (max 1 (min limit 200))"
  have sorted: "sorted_wrt (\<lambda>a b. ev_cursor a < ev_cursor b) (events_of (executionKey owner i) s)"
    using reachable_task_inv [of calls] by (simp add: s_def task_inv_def events_ok_def)
  then have sorted_rest: "sorted_wrt (\<lambda>a b. ev_cursor a < ev_cursor b) (rest after)"
    unfolding rest_def by (rule sorted_wrt_filter)
  have page: "page after limit = take ?n (rest after)"
    by (simp add: page_def rest_def listEvents_def js_take_def)
  have pos: "0 < ?n" "?n \<le> 200" by simp_all
  show ?thesis
  proof (cases "rest after = []")
    case True
    with page show ?thesis by simp
  next
    case False
    let ?c = "ev_cursor (last (page after limit))"
    have last: "last (page after limit) \<in> set (rest after)"
      using False pos page by (metis last_in_set set_take_subset subsetD take_eq_Nil neq0_conv)
    then have "after < ?c" by (simp add: rest_def)
    then have "rest ?c = filter (\<lambda>e. ?c < ev_cursor e) (rest after)"
      by (auto simp: rest_def intro: filter_cong)
    also have "\<dots> = drop ?n (rest after)"
      using sorted_page [OF sorted_rest pos(1) False] page by simp
    finally show ?thesis
      using False pos page by (simp del: max_less_iff_conj)
  qed
qed

section \<open>Handoffs\<close>

text \<open>C30: a handoff update writes the execution before the event it appends can be refused: when the
  update's time is no instant, the call throws although the new handoff and version are stored.\<close>

theorem task_handoff_update_not_atomic:
  assumes "js_get (executions s) (executionKey (uh_ownerUserId i) (uh_executionId i)) = Some e"
    and "ex_version e = uh_expectedVersion i" and "ex_state e \<in> set handoff_states"
    and "js_get (bindings s) (executionKey (uh_ownerUserId i) (uh_executionId i)) = None"
    and "isHandoffReference (uh_handoff i)" and "ho_id (ex_handoff e) \<noteq> ho_id (uh_handoff i)"
    and "date_parse (uh_updatedAt i) = None"
  shows "fst (updateHandoff i s) = Inl InvalidEvent \<and>
    read (uh_ownerUserId i) (uh_executionId i) (snd (updateHandoff i s)) =
      Some (e\<lparr>ex_handoff := uh_handoff i, ex_updatedAt := uh_updatedAt i,
        ex_version := ex_version e + 1\<rparr>)"
  using assms
  by (simp add: updateHandoff_def Let_def appendEvent_def assertEvent_def put_execution_def read_def)

definition demo_uuid2 :: string where
  "demo_uuid2 = ''11234567-89ab-4def-8123-456789abcdef''"

definition demo_handoff :: update_handoff_input where
  "demo_handoff = \<lparr>uh_executionId = demo_uuid, uh_expectedVersion = 1,
     uh_handoff = \<lparr>ho_id = demo_uuid2, ho_revision = 1\<rparr>, uh_ownerUserId = ''u'', uh_updatedAt = ''soon''\<rparr>"

theorem task_handoff_update_not_atomic_witness:
  "fst (updateHandoff demo_handoff
     (empty_task_store\<lparr>executions := [(executionKey ''u'' demo_uuid, demo_execution)]\<rparr>)) = Inl InvalidEvent"
proof -
  have "isHandoffReference (uh_handoff demo_handoff)"
    by code_simp
  moreover have "date_parse ''soon'' = None" by code_simp
  ultimately show ?thesis
    by (intro task_handoff_update_not_atomic [of _ _ demo_execution, THEN conjunct1])
      (simp_all add: demo_handoff_def demo_execution_def empty_task_store_def handoff_states_def
        demo_uuid_def demo_uuid2_def)
qed

section \<open>The transition relation\<close>

text \<open>Finished and archived executions never move again, completion is reached only from
  delivering, blocked or uncertain, nothing returns to planned, and the source states listed for a
  target state (used by the SQL store's guards) are exactly the states the relation allows.\<close>

theorem task_transition_relation:
  "isTaskExecutionTransitionAllowed from to = (from \<in> set (sourceStatesForTaskExecutionTransition to))
   \<and> (isTaskExecutionTransitionAllowed from Completed = (from \<in> {Delivering, Blocked, Uncertain}))
   \<and> \<not> isTaskExecutionTransitionAllowed Completed to \<and> \<not> isTaskExecutionTransitionAllowed Failed to
   \<and> \<not> isTaskExecutionTransitionAllowed Cancelled to \<and> \<not> isTaskExecutionTransitionAllowed Archived to
   \<and> \<not> isTaskExecutionTransitionAllowed from Planned \<and> \<not> isTaskExecutionTransitionAllowed from Archived"
  by (cases "from")
    (simp_all add: isTaskExecutionTransitionAllowed_def terminalStates_def
      sourceStatesForTaskExecutionTransition_def)

section \<open>Lists\<close>

lemma mset_take_le: "mset (take n xs) \<subseteq># mset xs"
proof -
  have "mset (take n xs) \<subseteq># mset (take n xs) + mset (drop n xs)" by simp
  then show ?thesis by (simp flip: mset_append)
qed

text \<open>A list shows executions of the asking owner only, each at most as often as it is stored, at most
  100 of them and all that match when there are no more than the limit, whatever the collation.\<close>

theorem task_list_scoped:
  "mset (list_executions cmp input s) \<subseteq># mset (filter (list_matches input) (js_values (executions s))) \<and>
   list_all (\<lambda>e. ex_ownerUserId e = li_ownerUserId input) (list_executions cmp input s) \<and>
   length (list_executions cmp input s) =
     min (nat (max 1 (min (li_limit input) 100)))
       (length (filter (list_matches input) (js_values (executions s))))"
proof -
  let ?found = "filter (list_matches input) (js_values (executions s))"
  let ?n = "nat (max 1 (min (li_limit input) 100))"
  obtain xs where xs: "list_executions cmp input s = take ?n xs" "mset xs = mset ?found"
    "length xs = length ?found" "set xs = set ?found"
    by (simp add: list_executions_def js_take_def)
  have "mset (take ?n xs) \<subseteq># mset ?found"
    using mset_take_le [of ?n xs] xs(2) by simp
  moreover have "ex_ownerUserId e = li_ownerUserId input" if "e \<in> set (take ?n xs)" for e
    using in_set_takeD [OF that] xs(4) by (simp add: list_matches_def)
  ultimately show ?thesis
    using xs(3) by (simp add: xs(1) min.commute list_all_iff)
qed

end
