(* ===== verification/TaskCapacity.thy ===== *)
theory TaskCapacity
  imports Contracts JS_Date
begin

text \<open>
  The in-memory capacity leases of task executions
  (\<open>server/task-execution/capacity-store.ts\<close>, \<open>MemoryTaskExecutionCapacityStore\<close>): an
  owner's environment is leased to one execution at a time. The clock \<open>now\<close> is an argument of each
  call. Expired leases are marked when a call looks at them, so \<open>active\<close> in the store means active
  or past its expiry and not yet seen.
\<close>

section \<open>State and methods\<close>

datatype lease_state = Active | Expired | Released

record capacity_lease =
  cl_acquiredAt :: string
  cl_environmentId :: string
  cl_executionId :: string
  cl_expiresAt :: string
  cl_id :: string
  cl_releasedAt :: "string option"
  cl_state :: lease_state

record memory_lease = capacity_lease +
  cl_ownerUserId :: string

record capacity_store =
  leases :: "(string, memory_lease) jsmap"

record acquire_input =
  aq_durationSeconds :: int
  aq_environmentId :: string
  aq_executionId :: string
  aq_id :: string
  aq_ownerUserId :: string

datatype capacity_reservation =
    CapacityAcquired capacity_lease | CapacityReplayed capacity_lease
  | CapacityConflict capacity_lease | CapacityUnavailable capacity_lease

datatype capacity_error = InvalidLeaseWindow | InvalidLeaseTime

definition lease_key :: "string \<Rightarrow> string \<Rightarrow> string" where
  "lease_key owner lease = nul_key owner lease"

definition publicLease :: "memory_lease \<Rightarrow> capacity_lease" where
  "publicLease l = capacity_lease.truncate l"

definition assertLeaseDuration :: "int \<Rightarrow> bool" where
  "assertLeaseDuration d \<longleftrightarrow> is_safe_integer d \<and> 0 < d \<and> d \<le> 86400"

text \<open>\<open>leaseDurationSeconds(lease) === d\<close>\<close>

definition leaseDuration_is :: "capacity_lease \<Rightarrow> int \<Rightarrow> bool" where
  "leaseDuration_is l d \<longleftrightarrow>
     (case (date_parse (cl_expiresAt l), date_parse (cl_acquiredAt l)) of
        (Some e, Some a) \<Rightarrow> e - a = d * 1000
      | _ \<Rightarrow> False)"

definition expires :: "int \<Rightarrow> string \<Rightarrow> string option \<Rightarrow> memory_lease \<Rightarrow> bool" where
  "expires now owner env l \<longleftrightarrow> cl_ownerUserId l = owner \<and>
     (\<not> truthy env \<or> Some (cl_environmentId l) = env) \<and> cl_state l = Active \<and>
     js_le (date_parse (cl_expiresAt l)) (Some now)"

definition expire :: "int \<Rightarrow> string \<Rightarrow> string option \<Rightarrow> capacity_store \<Rightarrow> capacity_store" where
  "expire now owner env s =
     s\<lparr>leases := js_update_values
        (\<lambda>l. if expires now owner env l then l\<lparr>cl_state := Expired\<rparr> else l) (leases s)\<rparr>"

definition active_in :: "string \<Rightarrow> string \<Rightarrow> memory_lease \<Rightarrow> bool" where
  "active_in owner env l \<longleftrightarrow>
     cl_ownerUserId l = owner \<and> cl_environmentId l = env \<and> cl_state l = Active"

text \<open>\<open>toISOString\<close> throws for a time out of the range of \<open>Date\<close>.\<close>

definition valid_time :: "int \<Rightarrow> bool" where
  "valid_time n \<longleftrightarrow> abs n \<le> max_time"

definition acquire ::
    "int \<Rightarrow> acquire_input \<Rightarrow> capacity_store \<Rightarrow> (capacity_error + capacity_reservation) \<times> capacity_store" where
  "acquire now input s =
     (if \<not> assertLeaseDuration (aq_durationSeconds input) then (Inl InvalidLeaseWindow, s)
      else
        let s1 = expire now (aq_ownerUserId input) (Some (aq_environmentId input)) s;
            k = lease_key (aq_ownerUserId input) (aq_id input)
        in (case js_get (leases s1) k of
              Some existing \<Rightarrow>
                let lease = publicLease existing
                in (Inr (if cl_environmentId lease = aq_environmentId input \<and>
                          cl_executionId lease = aq_executionId input \<and>
                          leaseDuration_is lease (aq_durationSeconds input)
                        then CapacityReplayed lease else CapacityConflict lease), s1)
            | None \<Rightarrow>
                (case find (active_in (aq_ownerUserId input) (aq_environmentId input))
                    (js_values (leases s1)) of
                   Some a \<Rightarrow> (Inr (CapacityUnavailable (publicLease a)), s1)
                 | None \<Rightarrow>
                     let expiresAt = now + aq_durationSeconds input * 1000
                     in if \<not> valid_time now \<or> \<not> valid_time expiresAt then (Inl InvalidLeaseTime, s1)
                        else
                          let lease = \<lparr>cl_acquiredAt = to_iso now,
                                cl_environmentId = aq_environmentId input,
                                cl_executionId = aq_executionId input,
                                cl_expiresAt = to_iso expiresAt, cl_id = aq_id input,
                                cl_releasedAt = None, cl_state = Active,
                                cl_ownerUserId = aq_ownerUserId input\<rparr>
                          in (Inr (CapacityAcquired (publicLease lease)),
                              s1\<lparr>leases := js_set (leases s1) k lease\<rparr>))))"

definition read_capacity ::
    "int \<Rightarrow> string \<Rightarrow> string \<Rightarrow> capacity_store \<Rightarrow> capacity_lease option \<times> capacity_store" where
  "read_capacity now owner env s =
     (let s1 = expire now owner (Some env) s
      in (map_option publicLease (find (active_in owner env) (js_values (leases s1))), s1))"

definition renew ::
    "int \<Rightarrow> string \<Rightarrow> string \<Rightarrow> string \<Rightarrow> int \<Rightarrow> capacity_store \<Rightarrow>
     (capacity_error + capacity_lease option) \<times> capacity_store" where
  "renew now owner lease execution duration s =
     (if \<not> assertLeaseDuration duration then (Inl InvalidLeaseWindow, s)
      else
        let s1 = expire now owner None s; k = lease_key owner lease;
            expiresAt = now + duration * 1000
        in (case js_get (leases s1) k of
              None \<Rightarrow> (Inr None, s1)
            | Some l \<Rightarrow>
                if cl_executionId l \<noteq> execution \<or> cl_state l \<noteq> Active \<or>
                   js_le (Some expiresAt) (date_parse (cl_expiresAt l))
                then (Inr None, s1)
                else if \<not> valid_time expiresAt then (Inl InvalidLeaseTime, s1)
                else
                  let l' = l\<lparr>cl_expiresAt := to_iso expiresAt\<rparr>
                  in (Inr (Some (publicLease l')), s1\<lparr>leases := js_set (leases s1) k l'\<rparr>)))"

definition release ::
    "int \<Rightarrow> string \<Rightarrow> string \<Rightarrow> string \<Rightarrow> capacity_store \<Rightarrow>
     (capacity_error + capacity_lease option) \<times> capacity_store" where
  "release now owner lease execution s =
     (let k = lease_key owner lease
      in (case js_get (leases s) k of
            None \<Rightarrow> (Inr None, s)
          | Some l \<Rightarrow>
              if cl_executionId l \<noteq> execution \<or> cl_state l = Expired then (Inr None, s)
              else if cl_state l = Active then
                if \<not> valid_time now
                then (Inl InvalidLeaseTime,
                  s\<lparr>leases := js_set (leases s) k (l\<lparr>cl_state := Released\<rparr>)\<rparr>)
                else
                  let l' = l\<lparr>cl_state := Released, cl_releasedAt := Some (to_iso now)\<rparr>
                  in (Inr (Some (publicLease l')), s\<lparr>leases := js_set (leases s) k l'\<rparr>)
              else (Inr (Some (publicLease l)), s)))"

section \<open>Calls\<close>

text \<open>Each call comes with the time the clock shows.\<close>

datatype capacity_call =
    KAcquire int acquire_input
  | KRead int string string
  | KRenew int string string string int
  | KRelease int string string string

datatype capacity_answer =
    LReservation "capacity_error + capacity_reservation"
  | LLease "capacity_error + capacity_lease option"

fun capacity_step :: "capacity_call \<Rightarrow> capacity_store \<Rightarrow> capacity_answer \<times> capacity_store" where
  "capacity_step (KAcquire now i) s = map_prod LReservation id (acquire now i s)"
| "capacity_step (KRead now owner env) s = map_prod (LLease \<circ> Inr) id (read_capacity now owner env s)"
| "capacity_step (KRenew now owner l x d) s = map_prod LLease id (renew now owner l x d s)"
| "capacity_step (KRelease now owner l x) s = map_prod LLease id (release now owner l x s)"

fun call_time :: "capacity_call \<Rightarrow> int" where
  "call_time (KAcquire now _) = now"
| "call_time (KRead now _ _) = now"
| "call_time (KRenew now _ _ _ _) = now"
| "call_time (KRelease now _ _ _) = now"

definition empty_capacity :: capacity_store where
  "empty_capacity = \<lparr>leases = []\<rparr>"

section \<open>One active lease\<close>

definition capacity_inv :: "capacity_store \<Rightarrow> bool" where
  "capacity_inv s \<longleftrightarrow> js_wf (leases s) \<and>
     (\<forall>k l a b. js_get (leases s) k = Some a \<longrightarrow> js_get (leases s) l = Some b \<longrightarrow>
        cl_state a = Active \<longrightarrow> cl_state b = Active \<longrightarrow>
        cl_ownerUserId a = cl_ownerUserId b \<longrightarrow> cl_environmentId a = cl_environmentId b \<longrightarrow> k = l)"

lemma capacity_inv_empty [simp]: "capacity_inv empty_capacity"
  by (simp add: capacity_inv_def empty_capacity_def)

lemma get_expire:
  "js_get (leases (expire now owner env s)) k =
     map_option (\<lambda>l. if expires now owner env l then l\<lparr>cl_state := Expired\<rparr> else l) (js_get (leases s) k)"
  by (simp add: expire_def)

lemma expire_inv: "capacity_inv s \<Longrightarrow> capacity_inv (expire now owner env s)"
  unfolding capacity_inv_def get_expire
  by (auto simp: expire_def split: if_splits)

text \<open>Replacing a lease by one in the same place that is active only if the old one was.\<close>

lemma set_inv:
  assumes "capacity_inv s"
    and "\<And>l b. js_get (leases s) l = Some b \<Longrightarrow> l \<noteq> k \<Longrightarrow> cl_state a = Active \<Longrightarrow>
      cl_state b = Active \<Longrightarrow> cl_ownerUserId a = cl_ownerUserId b \<Longrightarrow> cl_environmentId a \<noteq> cl_environmentId b"
  shows "capacity_inv (s\<lparr>leases := js_set (leases s) k a\<rparr>)"
  using assms unfolding capacity_inv_def
  by (simp split: if_split) (metis (no_types, lifting))

lemma set_inv_same:
  assumes inv: "capacity_inv s" and old: "js_get (leases s) k = Some b"
    and "cl_state a = Active \<Longrightarrow> cl_state b = Active"
    and "cl_ownerUserId a = cl_ownerUserId b" and "cl_environmentId a = cl_environmentId b"
  shows "capacity_inv (s\<lparr>leases := js_set (leases s) k a\<rparr>)"
  by (rule set_inv [OF inv]) (use assms in \<open>unfold capacity_inv_def, metis\<close>)

lemma acquire_inv: "capacity_inv s \<Longrightarrow> capacity_inv (snd (acquire now i s))"
proof -
  assume "capacity_inv s"
  then have inv: "capacity_inv (expire now (aq_ownerUserId i) (Some (aq_environmentId i)) s)"
    (is "capacity_inv ?t") by (rule expire_inv)
  show ?thesis
  proof (cases "find (active_in (aq_ownerUserId i) (aq_environmentId i)) (js_values (leases ?t))")
    case None
    have "capacity_inv (?t\<lparr>leases := js_set (leases ?t) k a\<rparr>)"
      if "cl_ownerUserId a = aq_ownerUserId i" "cl_environmentId a = aq_environmentId i" for k a
      by (rule set_inv [OF inv]) (use find_js_values_None [OF None] that in \<open>auto simp: active_in_def\<close>)
    with \<open>capacity_inv s\<close> inv None show ?thesis
      by (auto simp: acquire_def Let_def split: option.splits)
  qed (use \<open>capacity_inv s\<close> inv in \<open>auto simp: acquire_def Let_def split: option.splits\<close>)
qed

lemma renew_inv: "capacity_inv s \<Longrightarrow> capacity_inv (snd (renew now owner l x d s))"
  using expire_inv [of s now owner None]
  by (auto simp: renew_def Let_def split: option.splits intro!: set_inv_same)

lemma release_inv: "capacity_inv s \<Longrightarrow> capacity_inv (snd (release now owner l x s))"
  by (auto simp: release_def Let_def split: option.splits intro!: set_inv_same)

interpretation capacity: invariant_store capacity_step capacity_inv
proof (unfold_locales, goal_cases)
  case (1 s c)
  then show ?case
    by (cases c) (simp_all add: acquire_inv renew_inv release_inv read_capacity_def Let_def expire_inv)
qed

section \<open>Exclusion while a lease lasts\<close>

fun releases :: "string \<Rightarrow> capacity_call \<Rightarrow> bool" where
  "releases k (KRelease _ owner l _) = (lease_key owner l = k)"
| "releases _ _ = False"

fun grants_capacity :: "string \<Rightarrow> string \<Rightarrow> capacity_call \<Rightarrow> capacity_answer \<Rightarrow> bool" where
  "grants_capacity owner env (KAcquire _ i) (LReservation (Inr (CapacityAcquired _))) =
     (aq_ownerUserId i = owner \<and> aq_environmentId i = env)"
| "grants_capacity _ _ _ _ = False"

definition held :: "string \<Rightarrow> string \<Rightarrow> string \<Rightarrow> int \<Rightarrow> capacity_store \<Rightarrow> bool" where
  "held k owner env until s \<longleftrightarrow>
     (\<exists>l e. js_get (leases s) k = Some l \<and> active_in owner env l \<and>
        date_parse (cl_expiresAt l) = Some e \<and> until \<le> e)"

lemma expire_held:
  assumes "held k owner env until s" and "now < until"
  shows "held k owner env until (expire now p q s)"
proof -
  from assms(1) obtain l e where l: "js_get (leases s) k = Some l" "active_in owner env l"
    "date_parse (cl_expiresAt l) = Some e" "until \<le> e" by (auto simp: held_def)
  with assms(2) have "\<not> expires now p q l" by (simp add: expires_def)
  with l have "js_get (leases (expire now p q s)) k = Some l" by (simp add: get_expire)
  with l show ?thesis by (auto simp: held_def)
qed

lemma held_other: "held k owner env until s \<Longrightarrow> l \<noteq> k \<Longrightarrow>
    held k owner env until (s\<lparr>leases := js_set (leases s) l a\<rparr>)"
  by (simp add: held_def)

lemma acquire_held:
  assumes "held k owner env until s" and "now < until"
  shows "held k owner env until (snd (acquire now i s)) \<and>
    \<not> grants_capacity owner env (KAcquire now i) (LReservation (fst (acquire now i s)))"
proof -
  let ?t = "expire now (aq_ownerUserId i) (Some (aq_environmentId i)) s"
  have held: "held k owner env until ?t" using assms by (rule expire_held)
  then obtain l where l: "js_get (leases ?t) k = Some l" "active_in owner env l"
    by (auto simp: held_def)
  have "find (active_in owner env) (js_values (leases ?t)) \<noteq> None"
    using find_js_values_None l by metis
  moreover have "lease_key (aq_ownerUserId i) (aq_id i) \<noteq> k"
    if "js_get (leases ?t) (lease_key (aq_ownerUserId i) (aq_id i)) = None"
    using that l(1) by auto
  ultimately show ?thesis
    using assms(1) held held_other [OF held, of "lease_key (aq_ownerUserId i) (aq_id i)"]
    by (cases "js_get (leases ?t) (lease_key (aq_ownerUserId i) (aq_id i))")
      (auto simp: acquire_def Let_def split: option.splits)
qed

lemma renew_held:
  assumes "held k owner env until s" and "now < until"
  shows "held k owner env until (snd (renew now p x ex d s))"
proof -
  let ?t = "expire now p None s"
  have held: "held k owner env until ?t" using assms by (rule expire_held)
  show ?thesis
  proof (cases "lease_key p x = k")
    case False
    with assms held held_other [OF held] show ?thesis
      by (auto simp: renew_def Let_def split: option.splits)
  next
    case True
    from held obtain l e where l: "js_get (leases ?t) k = Some l" "active_in owner env l"
      "date_parse (cl_expiresAt l) = Some e" "until \<le> e" by (auto simp: held_def)
    have "held k owner env until (?t\<lparr>leases := js_set (leases ?t) k
        (l\<lparr>cl_expiresAt := to_iso (now + d * 1000)\<rparr>)\<rparr>)"
      if "\<not> js_le (Some (now + d * 1000)) (date_parse (cl_expiresAt l))" "valid_time (now + d * 1000)"
      using that l by (auto simp: held_def active_in_def valid_time_def)
    with True assms held l show ?thesis
      by (auto simp: renew_def Let_def)
  qed
qed

lemma release_held:
  assumes "held k owner env until s" and "\<not> releases k (KRelease now p x ex)"
  shows "held k owner env until (snd (release now p x ex s))"
  using assms held_other [OF assms(1)]
  by (auto simp: release_def Let_def split: option.splits)

lemma step_held:
  assumes "held k owner env until s" and "call_time c < until" and "\<not> releases k c"
  shows "held k owner env until (snd (capacity_step c s)) \<and>
    \<not> grants_capacity owner env c (fst (capacity_step c s))"
  using assms acquire_held [OF assms(1)] renew_held [OF assms(1)] release_held [OF assms(1)]
    expire_held [OF assms(1)]
  by (cases c) (auto simp: read_capacity_def Let_def)

section \<open>Properties\<close>

text \<open>An environment of an owner is leased to at most one execution at a time: after any sequence of
  calls, at any times, at most one of its leases is active.\<close>

theorem capacity_one_active_lease:
  "length (filter (active_in owner env)
     (js_values (leases (run_state capacity_step calls empty_capacity)))) \<le> 1"
proof (rule at_most_one_value, goal_cases)
  case 1
  have "capacity_inv (run_state capacity_step calls empty_capacity)"
    by (rule capacity.run_inv) simp
  then show ?case by (simp add: capacity_inv_def)
next
  case (2 k l a b)
  have "capacity_inv (run_state capacity_step calls empty_capacity)"
    by (rule capacity.run_inv) simp
  with 2 show ?case
    unfolding capacity_inv_def active_in_def by metis
qed

text \<open>C31: a lease excludes every other: as long as the clock stays before its expiry and nobody releases
  it, no \<open>acquire\<close> for its environment succeeds, and it stays active.\<close>

theorem capacity_lease_exclusive:
  assumes "js_get (leases s) k = Some l" and "active_in owner env l"
    and "date_parse (cl_expiresAt l) = Some until"
    and "list_all (\<lambda>c. call_time c < until \<and> \<not> releases k c) calls"
  shows "filter (\<lambda>(c, a). grants_capacity owner env c a) (run_results capacity_step calls s) = [] \<and>
    held k owner env until (run_state capacity_step calls s)"
proof -
  have "held k owner env until s" using assms(1-3) by (auto simp: held_def)
  with assms(4) show ?thesis
  proof (induction calls arbitrary: s)
    case (Cons c calls)
    then have "call_time c < until" "\<not> releases k c" by simp_all
    from step_held [OF Cons.prems(2) this] Cons show ?case by simp
  qed simp
qed

definition demo_acquire :: acquire_input where
  "demo_acquire = \<lparr>aq_durationSeconds = 60, aq_environmentId = ''env'', aq_executionId = ''x1'',
     aq_id = ''l1'', aq_ownerUserId = ''u''\<rparr>"

theorem capacity_lease_exclusive_witness:
  "filter (\<lambda>(c, a). grants_capacity ''u'' ''env'' c a)
     (run_results capacity_step
       [KAcquire 30000 (demo_acquire\<lparr>aq_id := ''l2'', aq_executionId := ''x2''\<rparr>), KRead 59999 ''u'' ''env'']
       (run_state capacity_step [KAcquire 0 demo_acquire] empty_capacity)) = []"
proof -
  let ?l = "\<lparr>cl_acquiredAt = to_iso 0, cl_environmentId = ''env'', cl_executionId = ''x1'',
    cl_expiresAt = to_iso 60000, cl_id = ''l1'', cl_releasedAt = None, cl_state = Active,
    cl_ownerUserId = ''u''\<rparr>"
  have run: "js_get (leases (run_state capacity_step [KAcquire 0 demo_acquire] empty_capacity))
      (lease_key ''u'' ''l1'') = Some ?l"
    by (simp add: acquire_def demo_acquire_def empty_capacity_def expire_def js_update_values_def
        js_values_def assertLeaseDuration_def is_safe_integer_def max_safe_integer_def Let_def
        valid_time_def max_time_def)
  have "date_parse (cl_expiresAt ?l) = Some 60000"
    by (simp add: max_time_def)
  from capacity_lease_exclusive [OF run _ this, where owner = "''u''" and env = "''env''" and calls = "[KAcquire 30000 (demo_acquire\<lparr>aq_id := ''l2'', aq_executionId := ''x2''\<rparr>),
        KRead 59999 ''u'' ''env'']"]
  show ?thesis by (simp add: active_in_def del: run_results_simps)
qed

end
