(* ===== verification/RuntimeWireProperties.thy ===== *)
theory RuntimeWireProperties
  imports RuntimeControlWire
begin

text \<open>
  The contract of the Workspace Runtime's event parser: encoding a valid event and parsing it again
  gives the event, and this holds for no other event; and of the message parsers: a message belongs to one
  session.
\<close>

section \<open>Valid events\<close>

definition server_ok :: "(string \<Rightarrow> url_parts option) \<Rightarrow> runtime_dev_server \<Rightarrow> bool" where
  "server_ok u s \<longleftrightarrow> safeText 64 (ds_name s) \<and> dev_server_name (ds_name s) \<and>
     1 \<le> ds_port s \<and> ds_port s \<le> 65535 \<and>
     pred_option (\<lambda>url. safeUrl u (VStr url) = Some url) (ds_url s)"

fun body_ok :: "(string \<Rightarrow> url_parts option) \<Rightarrow> runtime_event_body \<Rightarrow> bool" where
  "body_ok u (LifecycleEvent st) \<longleftrightarrow> True"
| "body_ok u HeartbeatEvent \<longleftrightarrow> True"
| "body_ok u (DevServersEvent ss) \<longleftrightarrow> length ss \<le> 32 \<and> list_all (server_ok u) ss \<and> distinct (map ds_name ss)"
| "body_ok u (TelemetryEvent cpu memory) \<longleftrightarrow> 0 \<le> cpu \<and> cpu \<le> 100 \<and> 0 \<le> memory \<and> memory \<le> max_safe_integer"
| "body_ok u (LogPointerEvent p) \<longleftrightarrow> safeText 512 p \<and> log_pointer_ok p"

definition event_ok :: "(string \<Rightarrow> url_parts option) \<Rightarrow> runtime_event \<Rightarrow> bool" where
  "event_ok u e \<longleftrightarrow> event_id_pattern (re_eventId e) \<and> length (re_observedAt e) \<le> 40 \<and>
     date_parse (re_observedAt e) \<noteq> None \<and> 1 \<le> re_sequence e \<and> re_sequence e \<le> max_safe_integer \<and>
     body_ok u (re_body e)"

section \<open>Encoding\<close>

definition js_int :: "int \<Rightarrow> jsval" where
  "js_int n = VNum (Finite (of_int n))"

definition encode_server :: "runtime_dev_server \<Rightarrow> jsval" where
  "encode_server s = VObj ([(''name'', VStr (ds_name s)), (''port'', js_int (ds_port s)),
     (''state'', VStr (dev_server_state_name (ds_state s)))] @
     optional_entry ''url'' (map_option VStr (ds_url s)))"

fun body_type :: "runtime_event_body \<Rightarrow> string" where
  "body_type (LifecycleEvent st) = ''runtime.lifecycle''"
| "body_type HeartbeatEvent = ''runtime.heartbeat''"
| "body_type (DevServersEvent ss) = ''runtime.dev-servers''"
| "body_type (TelemetryEvent cpu memory) = ''runtime.telemetry''"
| "body_type (LogPointerEvent p) = ''runtime.log-pointer''"

fun encode_body :: "runtime_event_body \<Rightarrow> (string \<times> jsval) list" where
  "encode_body (LifecycleEvent st) = [(''state'', VStr (lifecycle_name st))]"
| "encode_body HeartbeatEvent = []"
| "encode_body (DevServersEvent ss) = [(''devServers'', VArr (map encode_server ss))]"
| "encode_body (TelemetryEvent cpu memory) = [(''cpuPercent'', VNum (Finite cpu)), (''memoryBytes'', js_int memory)]"
| "encode_body (LogPointerEvent p) = [(''pointer'', VStr p)]"

definition encode_event :: "runtime_event \<Rightarrow> jsval" where
  "encode_event e = VObj ([(''eventId'', VStr (re_eventId e)), (''observedAt'', VStr (re_observedAt e)),
     (''schemaVersion'', js_int 1), (''sequence'', js_int (re_sequence e)),
     (''type'', VStr (body_type (re_body e)))] @ encode_body (re_body e))"

section \<open>Readers\<close>

lemma wire_exactKeysI:
  "mset (object_keys input) = mset (filter (\<lambda>key. field input key \<noteq> VUndefined \<or> key \<notin> set optional) keys) \<Longrightarrow>
     wire_exactKeys input keys optional"
  unfolding wire_exactKeys_def by (metis properties_for_sort sorted_sort mset_sort)

lemma integer_from_int [simp]:
  "integer_from lo (js_int n) = (if is_safe_integer n \<and> lo \<le> n then Some n else None)"
  by (simp add: integer_from_def js_int_def require_def)

lemma safe_integer_value_int [simp]: "safe_integer_value (js_int n) = (if is_safe_integer n then Some n else None)"
  by (simp add: js_int_def)

lemma js_int_defined [simp]: "js_int n \<noteq> VUndefined"
  by (simp add: js_int_def)

lemma wire_safeText_VStr [simp]: "wire_safeText (VStr s) n = (if safeText n s then Some s else None)"
  by (simp add: wire_safeText_def require_def)

lemma lifecycle_of_name [simp]: "lifecycle_of (lifecycle_name st) = Some st"
  by (cases st) (simp_all add: lifecycle_of_def)

lemma dev_server_state_of_name [simp]: "dev_server_state_of (dev_server_state_name st) = Some st"
  by (cases st) (simp_all add: dev_server_state_of_def)

lemma wire_optional_simps [simp]:
  "wire_optional f VUndefined = Some None"
  "v \<noteq> VUndefined \<Longrightarrow> wire_optional f v = map_option Some (f v)"
  by (simp_all add: wire_optional_def)

lemma safe_bounds: "is_safe_integer n \<and> lo \<le> n \<longleftrightarrow> lo \<le> n \<and> n \<le> max_safe_integer" if "0 \<le> lo"
  using that by (auto simp: is_safe_integer_def max_safe_integer_def)

section \<open>Round trip\<close>

lemma server_keys:
  "wire_exactKeys ([(''name'', VStr a), (''port'', js_int p), (''state'', VStr b)] @ optional_entry ''url'' (map_option VStr u))
     [''name'', ''port'', ''state'', ''url''] [''url'']"
  by (rule wire_exactKeysI) (cases u; simp)

lemma parseDevServer_encode:
  "parseDevServer u (encode_server s) = Some s \<longleftrightarrow> server_ok u s"
  using server_keys [of "ds_name s" "ds_port s" "dev_server_state_name (ds_state s)" "ds_url s"]
  by (cases s; cases "ds_url s")
    (auto simp: parseDevServer_def encode_server_def server_ok_def require_def bind_eq_Some_conv
      is_safe_integer_def max_safe_integer_def)

lemma traverse_iff:
  "(\<And>y. f (g y) = Some y \<longleftrightarrow> P y) \<Longrightarrow> traverse f (map g ys) = Some ys \<longleftrightarrow> list_all P ys"
  by (induction ys) (auto simp: bind_eq_Some_conv)

lemmas traverse_servers = traverse_iff [of "parseDevServer u" encode_server "server_ok u" for u, OF parseDevServer_encode]

lemma parseDevServers_encode:
  "parseDevServers u (VArr (map encode_server ss)) = Some ss \<longleftrightarrow> body_ok u (DevServersEvent ss)"
  by (auto simp: parseDevServers_def bind_eq_Some_conv traverse_servers)

lemma event_keys:
  "wire_exactKeys ([(''eventId'', a), (''observedAt'', b), (''schemaVersion'', c), (''sequence'', d),
     (''type'', t)] @ kvs) (event_base @ map fst kvs) []"
  by (rule wire_exactKeysI) (simp add: event_base_def object_keys_def)

definition event_fields :: "runtime_event \<Rightarrow> (string \<times> jsval) list" where
  "event_fields e = [(''eventId'', VStr (re_eventId e)), (''observedAt'', VStr (re_observedAt e)),
     (''schemaVersion'', js_int 1), (''sequence'', js_int (re_sequence e)),
     (''type'', VStr (body_type (re_body e)))] @ encode_body (re_body e)"

lemma event_fields_keys:
  "wire_exactKeys (event_fields e) (event_base @ map fst (encode_body (re_body e))) []"
  unfolding event_fields_def by (rule event_keys)

lemma field_common:
  "field (event_fields e) ''eventId'' = VStr (re_eventId e)"
  "field (event_fields e) ''observedAt'' = VStr (re_observedAt e)"
  "field (event_fields e) ''schemaVersion'' = VNum (Finite 1)"
  "field (event_fields e) ''sequence'' = js_int (re_sequence e)"
  "field (event_fields e) ''type'' = VStr (body_type (re_body e))"
  by (simp_all add: event_fields_def js_int_def)

lemma parse_body_encode:
  "parse_body u (event_fields e) = Some (re_body e) \<longleftrightarrow> body_ok u (re_body e)"
proof (cases "re_body e")
  case (LifecycleEvent st)
  have "field (event_fields e) ''state'' = VStr (lifecycle_name st)"
    by (simp add: event_fields_def LifecycleEvent)
  with event_fields_keys [of e] show ?thesis
    by (simp add: parse_body_def field_common LifecycleEvent bind_eq_Some_conv)
next
  case HeartbeatEvent
  with event_fields_keys [of e] show ?thesis
    by (simp add: parse_body_def field_common)
next
  case (DevServersEvent ss)
  have "field (event_fields e) ''devServers'' = VArr (map encode_server ss)"
    by (simp add: event_fields_def DevServersEvent)
  with event_fields_keys [of e] show ?thesis
    by (simp add: parse_body_def field_common DevServersEvent bind_eq_Some_conv parseDevServers_encode del: body_ok.simps)
next
  case (TelemetryEvent cpu memory)
  have "field (event_fields e) ''cpuPercent'' = VNum (Finite cpu)" "field (event_fields e) ''memoryBytes'' = js_int memory"
    by (simp_all add: event_fields_def TelemetryEvent)
  with event_fields_keys [of e] show ?thesis
    by (auto simp: parse_body_def field_common TelemetryEvent bind_eq_Some_conv safe_bounds)
next
  case (LogPointerEvent p)
  have "field (event_fields e) ''pointer'' = VStr p"
    by (simp add: event_fields_def LogPointerEvent)
  with event_fields_keys [of e] show ?thesis
    by (auto simp: parse_body_def field_common LogPointerEvent bind_eq_Some_conv)
qed

text \<open>C27: Encoding a Runtime event and parsing it again gives exactly that event, for the valid events and
  for no others, whatever the platform's URL parser accepts; so a parser that dropped one check, or one
  that refused a valid event, would be noticed.\<close>

theorem runtime_event_roundtrip:
  "parseRuntimeEvent u (encode_event e) = Some e \<longleftrightarrow> event_ok u e"
proof -
  have "encode_event e = VObj (event_fields e)"
    by (simp add: encode_event_def event_fields_def)
  then show ?thesis
    using parse_body_encode [of u e]
    by (cases e) (auto simp: parseRuntimeEvent_def field_common bind_eq_Some_conv event_ok_def wire_validTime_def safe_bounds)
qed

section \<open>Messages of one session\<close>

lemma message_bound_unique:
  "message_bound scope session input \<Longrightarrow> message_bound scope' session' input \<Longrightarrow>
     session = session' \<and> sc_workspaceId scope = sc_workspaceId scope' \<and>
     sc_environmentId scope = sc_environmentId scope' \<and> sc_generation scope = sc_generation scope' \<and>
     sc_ownerUserId scope = sc_ownerUserId scope'"
  by (simp add: message_bound_def)

lemma as_object_Some: "as_object v = Some kvs \<longleftrightarrow> v = VObj kvs"
  by (cases v) simp_all

lemma as_string_Some: "as_string v = Some s \<longleftrightarrow> v = VStr s"
  by (cases v) simp_all

lemma operation_name_of: "operation_of s = Some op \<Longrightarrow> operation_name op = s"
  unfolding operation_of_def by (drule find_SomeD) simp

lemma control_message_bound:
  "parseRuntimeControlMessage v scope session = Some m \<Longrightarrow>
     \<exists>input op. v = VObj input \<and> m = v \<and> message_bound scope session input \<and>
       field input ''operation'' = VStr (operation_name op) \<and>
       required_control_capability op \<in> set (sc_capabilities scope)"
  unfolding parseRuntimeControlMessage_def bind_eq_Some_conv require_simps(1) as_object_Some as_string_Some option.inject
  by (elim exE conjE) (metis operation_name_of)

text \<open>C29: A control message is accepted for one session of one Runtime only: when two credential scopes
  accept the same message, they are the same Workspace, environment, generation and owner, the session is the
  same, and both hold the capability the operation needs (the mutation capability for a mutation). The
  accepted message is the one received, unchanged.\<close>

theorem control_message_one_session:
  assumes "parseRuntimeControlMessage v scope session = Some m"
    and "parseRuntimeControlMessage v scope' session' = Some m'"
  shows "m = v \<and> m' = v \<and> session = session' \<and> sc_workspaceId scope = sc_workspaceId scope' \<and>
    sc_environmentId scope = sc_environmentId scope' \<and> sc_generation scope = sc_generation scope' \<and>
    sc_ownerUserId scope = sc_ownerUserId scope' \<and>
    (\<exists>op. field (the (as_object v)) ''operation'' = VStr (operation_name op) \<and>
      required_control_capability op \<in> set (sc_capabilities scope) \<inter> set (sc_capabilities scope'))"
proof -
  have inj: "operation_name a = operation_name b \<longleftrightarrow> a = b" for a b
    by (cases a; cases b) simp_all
  from control_message_bound [OF assms(1)] obtain input op where
    1: "v = VObj input" "m = v" "message_bound scope session input"
      "field input ''operation'' = VStr (operation_name op)" "required_control_capability op \<in> set (sc_capabilities scope)"
    by blast
  from control_message_bound [OF assms(2)] obtain op' where
    2: "m' = v" "message_bound scope' session' input" "field input ''operation'' = VStr (operation_name op')"
      "required_control_capability op' \<in> set (sc_capabilities scope')"
    using 1(1) by auto
  from 1(4) 2(3) have "op' = op" by (simp add: inj)
  with 1 2 message_bound_unique [OF 1(3) 2(2)] show ?thesis
    by (auto intro: exI [of _ op])
qed

definition demo_scope :: "runtime_capability list \<Rightarrow> credential_scope" where
  "demo_scope caps = \<lparr>sc_branch = ''main'', sc_capabilities = caps, sc_commit = ''c'', sc_credentialId = ''k'',
     sc_environmentId = ''e'', sc_expiresAt = ''t'', sc_generation = ''g'', sc_manifestDigest = ''d'',
     sc_ownerUserId = ''u'', sc_presentation = None, sc_requestedCapabilities = caps,
     sc_runtimeVersion = ''1'', sc_workspaceId = ''w''\<rparr>"

text \<open>The Runtime accepts the first command of a session, a commit.\<close>

definition demo_accepted_fields :: "(string \<times> jsval) list" where
  "demo_accepted_fields =
     [(''actorId'', VStr ''a''), (''actorKind'', VStr ''agent''), (''actorUserId'', VStr ''u''),
      (''commandId'', VStr ''c''), (''commandSequence'', js_int 1), (''environmentId'', VStr ''e''),
      (''eventSequence'', js_int 1), (''generation'', VStr ''g''), (''operation'', VStr ''git.commit''),
      (''operationId'', VStr ''o''), (''schemaVersion'', js_int 1), (''sessionId'', VStr ''s''),
      (''targetIdentityRevision'', VStr ''1:abcdefgh''), (''type'', VStr ''runtime.control.command-accepted''),
      (''workspaceId'', VStr ''w''), (''acceptedCommandSequence'', js_int 1), (''replayed'', VBool False)]"

lemma demo_accepted_keys:
  "wire_exactKeys demo_accepted_fields (control_base_keys @ [''acceptedCommandSequence'', ''replayed'']) []"
  by (rule wire_exactKeysI) (simp add: demo_accepted_fields_def control_base_keys_def)

lemma demo_accepted_parses:
  "CapMutation \<in> set caps \<Longrightarrow>
     parseRuntimeControlMessage (VObj demo_accepted_fields) (demo_scope caps) ''s'' = Some (VObj demo_accepted_fields)"
proof -
  have "control_accepted_ok demo_accepted_fields"
    using demo_accepted_keys
    by (simp add: control_accepted_ok_def) (simp add: demo_accepted_fields_def is_safe_integer_def max_safe_integer_def)
  moreover have "message_bound (demo_scope caps) ''s'' demo_accepted_fields"
    by (simp add: message_bound_def demo_scope_def demo_accepted_fields_def text_field_def event_id_pattern_def class_rep_def
        id_pattern_char_def is_alnum_def is_digit_def in_range_def is_safe_integer_def max_safe_integer_def)
      (simp add: js_int_def)
  moreover have "text_field target_revision_pattern demo_accepted_fields ''targetIdentityRevision''"
    by (simp add: text_field_def demo_accepted_fields_def target_revision_pattern_def class_rep_def is_alnum_def
        is_digit_def in_range_def)
  moreover have "operation_of ''git.commit'' = Some GitCommit" "required_control_capability GitCommit = CapMutation"
    by (simp_all add: operation_of_def required_control_capability_def canonicalRuntimeControlAccessMode_def read_operations_def)
  moreover assume "CapMutation \<in> set caps"
  ultimately show ?thesis
    by (simp add: parseRuntimeControlMessage_def bind_require_True)
      (simp add: demo_accepted_fields_def demo_scope_def text_field_def is_safe_integer_def max_safe_integer_def)
qed

theorem control_message_one_session_witness:
  "\<exists>op. operation_name op = ''git.commit'' \<and>
     required_control_capability op \<in> set (sc_capabilities (demo_scope [CapMutation]))"
  using control_message_one_session [OF demo_accepted_parses demo_accepted_parses, of "[CapMutation]" "[CapControl, CapMutation]"]
  by (auto simp: demo_accepted_fields_def)

end
