(* ===== verification/RoadmapModel.thy ===== *)
theory RoadmapModel
  imports "HOL-Library.Word" JS_Date
begin

text \<open>
  The roadmap's pure functions: the records of \<open>src/shared/roadmap-api.ts\<close>, the FNV-1a hash
  of \<open>src/shared/stable-hash.ts\<close>, and the dependency graph, order and move functions of
  \<open>src/shared/roadmap-model.ts\<close>.

  The depth-first searches are recursive in the source and share mutable sets. Here the sets are
  threaded through the calls, in insertion order, and the recursion depth is bounded by fuel, one
  more than the number of nodes; \<open>None\<close> would mean that the fuel ran out.
\<close>

unbundle bit_operations_syntax

section \<open>Records\<close>

datatype planned_state = PlannedItem | ActiveItem

record roadmap_goal =
  gl_description :: "string option"
  gl_id :: string
  gl_title :: string

record issue_reference =
  ir_fullName :: string
  ir_id :: int
  ir_number :: int
  ir_url :: "string option"

record plan_item =
  pi_goalId :: "string option"
  pi_issue :: issue_reference
  pi_plannedState :: planned_state

datatype freshness = CurrentDependency | StaleDependency

record roadmap_dependency =
  dp_blocked :: issue_reference
  dp_blocker :: issue_reference
  dp_freshness :: freshness

section \<open>The hash\<close>

text \<open>\<open>createHash\<close>: FNV-1a over the character codes, on 32 bits, as eight hexadecimal digits.\<close>

definition hash_step :: "32 word \<Rightarrow> char \<Rightarrow> 32 word" where
  "hash_step h c = (h XOR of_nat (of_char c)) * 16777619"

definition hex_digit_char :: "nat \<Rightarrow> char" where
  "hex_digit_char n = (if n < 10 then char_of (48 + n) else char_of (87 + n))"

primrec hex_pad :: "nat \<Rightarrow> nat \<Rightarrow> string" where
  "hex_pad 0 n = []"
| "hex_pad (Suc k) n = hex_pad k (n div 16) @ [hex_digit_char (n mod 16)]"

definition createHash :: "string \<Rightarrow> string" where
  "createHash value = hex_pad 8 (unat (foldl hash_step 2166136261 value))"

section \<open>Dependencies\<close>

definition roadmapIssueKey :: "issue_reference \<Rightarrow> string" where
  "roadmapIssueKey issue = int_string (ir_id issue)"

fun join_lines :: "string list \<Rightarrow> string" where
  "join_lines [] = []"
| "join_lines [x] = x"
| "join_lines (x # y # ys) = x @ CHR 0x0A # join_lines (y # ys)"

definition roadmapGraphRevision :: "roadmap_dependency list \<Rightarrow> string" where
  "roadmapGraphRevision dependencies =
     createHash (join_lines (sort (map (\<lambda>d.
       roadmapIssueKey (dp_blocker d) @ CHR ''>'' # roadmapIssueKey (dp_blocked d)) dependencies)))"

type_synonym graph = "(string, string list) jsmap"

definition targets :: "graph \<Rightarrow> string \<Rightarrow> string list" where
  "targets g k = (case js_get g k of None \<Rightarrow> [] | Some ts \<Rightarrow> ts)"

definition add_edge :: "graph \<Rightarrow> string \<times> string \<Rightarrow> graph" where
  "add_edge g = (\<lambda>(blocker, blocked). js_set g blocker (set_add blocked (targets g blocker)))"

definition dependency_edge :: "roadmap_dependency \<Rightarrow> string \<times> string" where
  "dependency_edge d = (roadmapIssueKey (dp_blocker d), roadmapIssueKey (dp_blocked d))"

definition outgoing_edges :: "(string \<times> string) list \<Rightarrow> graph" where
  "outgoing_edges es = foldl add_edge [] es"

text \<open>\<open>some\<close> over a list with a test that changes a state.\<close>

fun some_visit :: "('k \<Rightarrow> 's \<Rightarrow> (bool \<times> 's) option) \<Rightarrow> 'k list \<Rightarrow> 's \<Rightarrow> (bool \<times> 's) option" where
  "some_visit f [] st = Some (False, st)"
| "some_visit f (x # xs) st =
     (case f x st of
        None \<Rightarrow> None
      | Some (b, st') \<Rightarrow> if b then Some (True, st') else some_visit f xs st')"

type_synonym dfs_state = "string list \<times> string list"

primrec visit :: "nat \<Rightarrow> graph \<Rightarrow> string \<Rightarrow> dfs_state \<Rightarrow> (bool \<times> dfs_state) option" where
  "visit 0 g k st = None"
| "visit (Suc n) g k st =
     (case st of (visiting, visited) \<Rightarrow>
        if k \<in> set visiting then Some (True, st)
        else if k \<in> set visited then Some (False, st)
        else (case some_visit (visit n g) (targets g k) (set_add k visiting, visited) of
            None \<Rightarrow> None
          | Some (b, (visiting', visited')) \<Rightarrow>
              if b then Some (True, (visiting', visited'))
              else Some (False, (removeAll k visiting', set_add k visited'))))"

definition graph_nodes :: "graph \<Rightarrow> string list" where
  "graph_nodes g = map fst g @ concat (map snd g)"

definition graph_fuel :: "graph \<Rightarrow> nat" where
  "graph_fuel g = Suc (length (graph_nodes g))"

definition roadmapDependencyCycle ::
    "roadmap_dependency list \<Rightarrow> (issue_reference \<times> issue_reference) option \<Rightarrow> bool option" where
  "roadmapDependencyCycle dependencies candidate =
     (let edges = map dependency_edge dependencies @
            (case candidate of None \<Rightarrow> []
             | Some (blocked, blocker) \<Rightarrow> [(roadmapIssueKey blocker, roadmapIssueKey blocked)]);
          g = outgoing_edges edges
      in map_option fst (some_visit (visit (graph_fuel g) g) (map fst g) ([], [])))"

text \<open>Whether a search from \<open>key\<close> comes back to \<open>start\<close>; the visited set is shared.\<close>

primrec returnsTo :: "nat \<Rightarrow> graph \<Rightarrow> string \<Rightarrow> string \<Rightarrow> string list \<Rightarrow> (bool \<times> string list) option" where
  "returnsTo 0 g start k visited = None"
| "returnsTo (Suc n) g start k visited =
     some_visit (\<lambda>target vs.
         if target = start then Some (True, vs)
         else if target \<in> set vs then Some (False, vs)
         else returnsTo n g start target (set_add target vs))
       (targets g k) visited"

definition roadmapCyclicIssueKeys :: "roadmap_dependency list \<Rightarrow> string list option" where
  "roadmapCyclicIssueKeys dependencies =
     (let g = outgoing_edges (map dependency_edge dependencies);
          results = map (\<lambda>k. (k, returnsTo (graph_fuel g) g k k [k])) (map fst g)
      in if list_ex (\<lambda>(_, r). r = None) results then None
         else Some (map fst (filter (\<lambda>(_, r). map_option fst r = Some True) results)))"

section \<open>Order\<close>

text \<open>\<open>new Map(items.map((item, index) => [key, index]))\<close>: the last index of a key.\<close>

definition positions :: "plan_item list \<Rightarrow> string \<Rightarrow> nat option" where
  "positions items =
     js_get (foldl (\<lambda>m (i, item). js_set m (roadmapIssueKey (pi_issue item)) i) []
       (enumerate 0 items))"

definition violates :: "(string \<Rightarrow> nat option) \<Rightarrow> roadmap_dependency \<Rightarrow> bool" where
  "violates pos d =
     (case (pos (roadmapIssueKey (dp_blocker d)), pos (roadmapIssueKey (dp_blocked d))) of
        (Some blocker, Some blocked) \<Rightarrow> blocked \<le> blocker
      | _ \<Rightarrow> False)"

definition roadmapOrderViolations ::
    "plan_item list \<Rightarrow> roadmap_dependency list \<Rightarrow> roadmap_dependency list" where
  "roadmapOrderViolations items dependencies = filter (violates (positions items)) dependencies"

fun findIndex :: "('a \<Rightarrow> bool) \<Rightarrow> 'a list \<Rightarrow> nat option" where
  "findIndex p [] = None"
| "findIndex p (x # xs) = (if p x then Some 0 else map_option Suc (findIndex p xs))"

record move_range =
  mr_maximum :: nat
  mr_minimum :: nat

text \<open>The loop over the dependencies that both range functions share.\<close>

definition narrow ::
    "(string \<Rightarrow> nat option) \<Rightarrow> string \<Rightarrow> nat \<times> nat \<Rightarrow> roadmap_dependency \<Rightarrow> nat \<times> nat" where
  "narrow pos issue = (\<lambda>(minimum, maximum) d.
     ((if roadmapIssueKey (dp_blocked d) = issue
       then (case pos (roadmapIssueKey (dp_blocker d)) of
               None \<Rightarrow> minimum | Some blocker \<Rightarrow> max minimum (blocker + 1))
       else minimum),
      (if roadmapIssueKey (dp_blocker d) = issue
       then (case pos (roadmapIssueKey (dp_blocked d)) of
               None \<Rightarrow> maximum | Some blocked \<Rightarrow> min maximum blocked)
       else maximum)))"

definition remove_index :: "nat \<Rightarrow> 'a list \<Rightarrow> 'a list" where
  "remove_index i xs = take i xs @ drop (Suc i) xs"

definition item_index :: "plan_item list \<Rightarrow> issue_reference \<Rightarrow> nat option" where
  "item_index items issue =
     findIndex (\<lambda>item. roadmapIssueKey (pi_issue item) = roadmapIssueKey issue) items"

definition validRoadmapMoveRange ::
    "plan_item list \<Rightarrow> roadmap_dependency list \<Rightarrow> issue_reference \<Rightarrow> move_range option" where
  "validRoadmapMoveRange items dependencies issue =
     (case item_index items issue of
        None \<Rightarrow> None
      | Some currentIndex \<Rightarrow>
          let otherItems = remove_index currentIndex items;
              (minimum, maximum) =
                foldl (narrow (positions otherItems) (roadmapIssueKey issue))
                  (0, length otherItems) dependencies
          in Some \<lparr>mr_maximum = maximum, mr_minimum = minimum\<rparr>)"

definition validRoadmapAdditionRange ::
    "plan_item list \<Rightarrow> roadmap_dependency list \<Rightarrow> issue_reference \<Rightarrow> move_range option" where
  "validRoadmapAdditionRange items dependencies issue =
     (let (minimum, maximum) =
            foldl (narrow (positions items) (roadmapIssueKey issue)) (0, length items) dependencies
      in if minimum \<le> maximum then Some \<lparr>mr_maximum = maximum, mr_minimum = minimum\<rparr> else None)"

definition roadmapAdditionIndex ::
    "plan_item list \<Rightarrow> roadmap_dependency list \<Rightarrow> issue_reference \<Rightarrow> nat option" where
  "roadmapAdditionIndex items dependencies issue =
     map_option mr_maximum (validRoadmapAdditionRange items dependencies issue)"

text \<open>\<open>splice(i, 0, x)\<close>\<close>

definition insert_at :: "nat \<Rightarrow> 'a \<Rightarrow> 'a list \<Rightarrow> 'a list" where
  "insert_at i x xs = take i xs @ x # drop i xs"

definition moveRoadmapItem ::
    "plan_item list \<Rightarrow> issue_reference \<Rightarrow> int \<Rightarrow> roadmap_dependency list \<Rightarrow> plan_item list option" where
  "moveRoadmapItem items issue targetIndex dependencies =
     (case (item_index items issue, validRoadmapMoveRange items dependencies issue) of
        (Some currentIndex, Some r) \<Rightarrow>
          if targetIndex < int (mr_minimum r) \<or> int (mr_maximum r) < targetIndex then None
          else Some (insert_at (nat targetIndex) (items ! currentIndex)
            (remove_index currentIndex items))
      | _ \<Rightarrow> None)"

section \<open>Goals\<close>

text \<open>\<open>/^[a-z0-9][a-z0-9-]{0,63}$/i\<close>\<close>

definition goal_id_pattern :: "string \<Rightarrow> bool" where
  "goal_id_pattern s \<longleftrightarrow>
     (case s of [] \<Rightarrow> False
      | c # cs \<Rightarrow> is_alnum c \<and> class_rep (\<lambda>c. is_alnum c \<or> c = CHR ''-'') 0 63 cs)"

fun normalize_goals :: "string list \<Rightarrow> roadmap_goal list \<Rightarrow> roadmap_goal list" where
  "normalize_goals seen [] = []"
| "normalize_goals seen (g # gs) =
     (let i = js_trim (gl_id g); title = js_trim (gl_title g); normalizedId = js_lower i
      in if \<not> goal_id_pattern i \<or> title = [] \<or> 120 < length title \<or> normalizedId \<in> set seen
         then normalize_goals seen gs
         else \<lparr>gl_description = (case map_option js_trim (gl_description g) of
                   None \<Rightarrow> None | Some d \<Rightarrow> if d = [] then None else Some d),
               gl_id = i, gl_title = title\<rparr> # normalize_goals (normalizedId # seen) gs)"

definition normalizedRoadmapGoals :: "roadmap_goal list \<Rightarrow> roadmap_goal list" where
  "normalizedRoadmapGoals goals = normalize_goals [] goals"

end
