(* ===== verification/RoadmapCycles.thy ===== *)
theory RoadmapCycles
  imports RoadmapModel
begin

text \<open>
  The dependency searches decide cycles: \<open>roadmapDependencyCycle\<close> answers for every graph (its
  fuel is enough) and finds a cycle exactly when there is one; \<open>roadmapCyclicIssueKeys\<close> gives
  exactly the issues on a cycle.
\<close>

section \<open>Keys\<close>

lemma roadmapIssueKey_inj [simp]: "roadmapIssueKey a = roadmapIssueKey b \<longleftrightarrow> ir_id a = ir_id b"
  by (simp add: roadmapIssueKey_def)

section \<open>The graph of the edges\<close>

lemma targets_add_edge: "targets (add_edge g (a, b)) k = (if k = a then set_add b (targets g a) else targets g k)"
  by (simp add: targets_def add_edge_def)

lemma targets_foldl:
  "set (targets (foldl add_edge g es) a) = set (targets g a) \<union> {b. (a, b) \<in> set es}"
proof (induction es arbitrary: g)
  case (Cons e es)
  obtain x y where "e = (x, y)" by force
  with Cons show ?case by (auto simp: targets_add_edge)
qed simp

definition edge_rel :: "graph \<Rightarrow> (string \<times> string) set" where
  "edge_rel g = {(a, b). b \<in> set (targets g a)}"

lemma edge_rel_outgoing: "edge_rel (outgoing_edges es) = set es"
  by (auto simp: edge_rel_def outgoing_edges_def targets_foldl) (simp add: targets_def)

lemma keys_foldl: "fst ` set (foldl add_edge g es) = fst ` set g \<union> fst ` set es"
proof (induction es arbitrary: g)
  case (Cons e es)
  obtain x y where "e = (x, y)" by force
  with Cons show ?case by (simp add: add_edge_def js_set_def dom_update)
qed simp

lemma keys_outgoing: "fst ` set (outgoing_edges es) = fst ` set es"
  by (simp add: outgoing_edges_def keys_foldl)

lemma js_wf_foldl: "js_wf g \<Longrightarrow> js_wf (foldl add_edge g es)"
  by (induction es arbitrary: g) (auto simp: add_edge_def)

lemma targets_entry: "x \<in> set (targets g k) \<Longrightarrow> \<exists>ts. (k, ts) \<in> set g \<and> x \<in> set ts"
  by (cases "js_get g k") (auto simp: targets_def dest: map_of_SomeD)

lemma targets_key: "x \<in> set (targets g k) \<Longrightarrow> k \<in> fst ` set g"
  using targets_entry by force

lemma targets_nodes: "set (targets g k) \<subseteq> set (graph_nodes g)"
  using targets_entry by (fastforce simp: graph_nodes_def)

section \<open>The depth-first search\<close>

text \<open>What is left of the graph once a set is visited: it is closed and has no cycle.\<close>

definition settled :: "graph \<Rightarrow> string set \<Rightarrow> bool" where
  "settled g vd \<longleftrightarrow> (\<forall>x \<in> vd. set (targets g x) \<subseteq> vd \<and> (x, x) \<notin> (edge_rel g)\<^sup>+)"

lemma settled_trancl:
  assumes "settled g vd" and "(x, y) \<in> (edge_rel g)\<^sup>+" and "x \<in> vd"
  shows "y \<in> vd"
  using assms(2,3)
proof (induction rule: trancl_induct)
  case (base y)
  with assms(1) show ?case by (auto simp: settled_def edge_rel_def)
next
  case (step y z)
  with assms(1) show ?case by (auto simp: settled_def edge_rel_def)
qed

lemma settled_insert:
  assumes "settled g vd" and "set (targets g k) \<subseteq> vd" and "k \<notin> vd"
  shows "settled g (insert k vd)"
proof -
  have "(k, k) \<notin> (edge_rel g)\<^sup>+"
  proof
    assume "(k, k) \<in> (edge_rel g)\<^sup>+"
    then obtain y where y: "(k, y) \<in> edge_rel g" "(y, k) \<in> (edge_rel g)\<^sup>*"
      using tranclD by metis
    then have y: "(k, y) \<in> edge_rel g" "y = k \<or> (y, k) \<in> (edge_rel g)\<^sup>+"
      by (auto simp: rtrancl_eq_or_trancl)
    then have "y \<in> vd" using assms(2) by (auto simp: edge_rel_def)
    with y(2) settled_trancl [OF assms(1)] assms(3) show False by blast
  qed
  with assms show ?thesis by (auto simp: settled_def)
qed

text \<open>The search from \<open>k\<close> in a state: every node on the stack reaches \<open>k\<close>.\<close>

definition dfs_ready :: "graph \<Rightarrow> dfs_state \<Rightarrow> bool" where
  "dfs_ready g st \<longleftrightarrow> settled g (set (snd st)) \<and> set (fst st) \<inter> set (snd st) = {}"

definition dfs_result :: "graph \<Rightarrow> string set \<Rightarrow> dfs_state \<Rightarrow> bool \<times> dfs_state \<Rightarrow> bool" where
  "dfs_result g ks st r \<longleftrightarrow>
     (if fst r then \<exists>x. (x, x) \<in> (edge_rel g)\<^sup>+
      else dfs_ready g (snd r) \<and> set (fst (snd r)) = set (fst st) \<and>
        set (snd st) \<subseteq> set (snd (snd r)) \<and> ks \<subseteq> set (snd (snd r)))"

lemma some_visit_result:
  assumes "\<And>k st. k \<in> set ks \<Longrightarrow> dfs_ready g st \<Longrightarrow> set (fst st) = vg \<Longrightarrow>
      \<exists>r. f k st = Some r \<and> dfs_result g {k} st r"
    and "dfs_ready g st" and "set (fst st) = vg"
  shows "\<exists>r. some_visit f ks st = Some r \<and> dfs_result g (set ks) st r"
  using assms
proof (induction ks arbitrary: st)
  case (Cons k ks)
  obtain b st' where r: "f k st = Some (b, st')" "dfs_result g {k} st (b, st')"
    using Cons.prems by (metis list.set_intros(1) surj_pair)
  show ?case
  proof (cases b)
    case True
    with r show ?thesis by (simp add: dfs_result_def)
  next
    case False
    with r(2) have st': "dfs_ready g st'" "set (fst st') = vg" "set (snd st) \<subseteq> set (snd st')"
      "k \<in> set (snd st')"
      by (simp_all add: dfs_result_def Cons.prems(3))
    then obtain r' where "some_visit f ks st' = Some r'" "dfs_result g (set ks) st' r'"
      using Cons.IH [OF Cons.prems(1)] by (metis list.set_intros(2))
    with r(1) False st' Cons.prems(3) show ?thesis
      by (auto simp: dfs_result_def split: if_splits)
  qed
qed (simp add: dfs_result_def)

lemma visit_result:
  assumes "dfs_ready g st" and "\<And>y. y \<in> set (fst st) \<Longrightarrow> (y, k) \<in> (edge_rel g)\<^sup>+"
    and "card (set (graph_nodes g) - set (fst st)) < n"
  shows "\<exists>r. visit n g k st = Some r \<and> dfs_result g {k} st r"
  using assms
proof (induction n arbitrary: k st)
  case (Suc n)
  obtain vg vd where st: "st = (vg, vd)" by force
  consider (cycle) "k \<in> set vg" | (known) "k \<notin> set vg" "k \<in> set vd"
    | (leaf) "k \<notin> set vg" "k \<notin> set vd" "targets g k = []"
    | (new) "k \<notin> set vg" "k \<notin> set vd" "targets g k \<noteq> []" by blast
  then show ?case
  proof cases
    case cycle
    with Suc.prems(2) [of k] show ?thesis by (auto simp: st dfs_result_def)
  next
    case known
    with Suc.prems(1) show ?thesis by (simp add: st dfs_result_def)
  next
    case leaf
    with Suc.prems(1) settled_insert [of g "set vd" k] show ?thesis
      by (auto simp: st dfs_result_def dfs_ready_def)
  next
    case new
    let ?st = "(set_add k vg, vd)"
    have k_node: "k \<in> set (graph_nodes g)"
      using new(3) targets_key [of _ g k] by (cases "targets g k") (auto simp: graph_nodes_def)
    have ready: "dfs_ready g ?st"
      using Suc.prems(1) new by (auto simp: st dfs_ready_def)
    have "set (graph_nodes g) - set (set_add k vg) \<subset> set (graph_nodes g) - set vg"
      using k_node new(1) by auto
    then have "card (set (graph_nodes g) - set (set_add k vg)) < card (set (graph_nodes g) - set vg)"
      by (intro psubset_card_mono) simp_all
    with Suc.prems(3) have fuel: "card (set (graph_nodes g) - set (set_add k vg)) < n"
      by (simp add: st)
    have step: "\<exists>r. visit n g t st' = Some r \<and> dfs_result g {t} st' r"
      if "t \<in> set (targets g k)" "dfs_ready g st'" "set (fst st') = set (set_add k vg)" for t st'
    proof (rule Suc.IH [OF that(2)])
      have "(k, t) \<in> edge_rel g" using that(1) by (simp add: edge_rel_def)
      then show "(y, t) \<in> (edge_rel g)\<^sup>+" if "y \<in> set (fst st')" for y
        using Suc.prems(2) [of y] that \<open>set (fst st') = _\<close> by (auto simp: st intro: trancl.intros)
      show "card (set (graph_nodes g) - set (fst st')) < n"
        using fuel that(3) by simp
    qed
    obtain b vg' vd' where r: "some_visit (visit n g) (targets g k) ?st = Some (b, (vg', vd'))"
      "dfs_result g (set (targets g k)) ?st (b, (vg', vd'))"
      using some_visit_result [of "targets g k" g "set (set_add k vg)" "visit n g" ?st, OF step ready]
      by (metis fst_conv surj_pair)
    show ?thesis
    proof (cases b)
      case True
      with r new show ?thesis by (simp add: st dfs_result_def)
    next
      case False
      with r(2) have vg': "set vg' = insert k (set vg)" "set vd \<subseteq> set vd'" "set (targets g k) \<subseteq> set vd'"
        "settled g (set vd')" "set vg' \<inter> set vd' = {}"
        by (auto simp: dfs_result_def dfs_ready_def)
      then have "settled g (insert k (set vd'))" by (intro settled_insert) auto
      with r(1) False new vg' show ?thesis
        by (auto simp: st dfs_result_def dfs_ready_def)
    qed
  qed
qed simp

lemma search_decides:
  "\<exists>b. map_option fst (some_visit (visit (graph_fuel g) g) (map fst g) ([], [])) = Some b \<and>
     (b \<longleftrightarrow> (\<exists>x. (x, x) \<in> (edge_rel g)\<^sup>+))"
proof -
  have "card (set (graph_nodes g)) < graph_fuel g"
    by (simp add: graph_fuel_def le_imp_less_Suc card_length)
  then have "\<exists>r. visit (graph_fuel g) g k st = Some r \<and> dfs_result g {k} st r"
    if "dfs_ready g st" "set (fst st) = {}" for k st
    using that by (intro visit_result) auto
  then obtain b vg vd where r: "some_visit (visit (graph_fuel g) g) (map fst g) ([], []) = Some (b, (vg, vd))"
    "dfs_result g (set (map fst g)) ([], []) (b, (vg, vd))"
    using some_visit_result [of "map fst g" g "{}" "visit (graph_fuel g) g" "([], [])"]
    by (auto simp: dfs_ready_def settled_def)
  have "b" if "(x, x) \<in> (edge_rel g)\<^sup>+" for x
  proof (rule ccontr)
    assume "\<not> b"
    with r(2) have "settled g (set vd)" "fst ` set g \<subseteq> set vd"
      by (auto simp: dfs_result_def dfs_ready_def)
    moreover from that have "x \<in> fst ` set g"
      using tranclD [of x x] targets_key by (fastforce simp: edge_rel_def)
    ultimately show False using that by (auto simp: settled_def)
  qed
  with r show ?thesis by (auto simp: dfs_result_def split: if_splits)
qed

section \<open>The search back to a start\<close>

definition return_result :: "graph \<Rightarrow> string \<Rightarrow> string set \<Rightarrow> string list \<Rightarrow> bool \<times> string list \<Rightarrow> bool" where
  "return_result g start ks vs r \<longleftrightarrow>
     (if fst r then \<exists>k \<in> ks. (k, start) \<in> (edge_rel g)\<^sup>*
      else set vs \<subseteq> set (snd r) \<and> ks \<subseteq> set (snd r) \<and> start \<notin> ks \<and>
        (\<forall>v \<in> set (snd r) - set vs. set (targets g v) \<subseteq> set (snd r) \<and> start \<notin> set (targets g v)))"

lemma some_return_result:
  assumes "\<And>k vs. k \<in> set ks \<Longrightarrow> vs0 \<subseteq> set vs \<Longrightarrow> \<exists>r. f k vs = Some r \<and> return_result g start {k} vs r"
    and "vs0 \<subseteq> set vs"
  shows "\<exists>r. some_visit f ks vs = Some r \<and> return_result g start (set ks) vs r"
  using assms
proof (induction ks arbitrary: vs)
  case (Cons k ks)
  obtain b vs' where r: "f k vs = Some (b, vs')" "return_result g start {k} vs (b, vs')"
    using Cons.prems by (metis list.set_intros(1) surj_pair)
  show ?case
  proof (cases b)
    case True
    with r show ?thesis by (auto simp: return_result_def)
  next
    case False
    with r(2) have "set vs \<subseteq> set vs'" by (simp add: return_result_def)
    with Cons.prems(2) have "vs0 \<subseteq> set vs'" by simp
    then obtain r' where "some_visit f ks vs' = Some r'" "return_result g start (set ks) vs' r'"
      using Cons.IH [OF Cons.prems(1)] by (metis list.set_intros(2))
    with r False show ?thesis
      by (auto simp: return_result_def split: if_splits) blast+
  qed
qed (simp add: return_result_def)

lemma returnsTo_result:
  assumes "start \<in> set vs" and "card (set (graph_nodes g) - set vs) < n"
  shows "\<exists>r. returnsTo n g start k vs = Some r \<and> return_result g start (set (targets g k)) vs r"
  using assms
proof (induction n arbitrary: k vs)
  case (Suc n)
  let ?f = "\<lambda>target vs. if target = start then Some (True, vs)
         else if target \<in> set vs then Some (False, vs)
         else returnsTo n g start target (set_add target vs)"
  have "\<exists>r. ?f t ws = Some r \<and> return_result g start {t} ws r"
    if t: "t \<in> set (targets g k)" and ws: "set vs \<subseteq> set ws" for t ws
  proof -
    consider "t = start" | "t \<noteq> start" "t \<in> set ws" | (new) "t \<noteq> start" "t \<notin> set ws" by blast
    then show ?thesis
    proof cases
      case new
      have "t \<in> set (graph_nodes g)" using t targets_nodes by blast
      with new ws have "set (graph_nodes g) - set (set_add t ws) \<subset> set (graph_nodes g) - set vs"
        by auto
      then have "card (set (graph_nodes g) - set (set_add t ws)) < card (set (graph_nodes g) - set vs)"
        by (intro psubset_card_mono) simp_all
      with Suc.prems(2) have fuel: "card (set (graph_nodes g) - set (set_add t ws)) < n" by simp
      moreover have "start \<in> set (set_add t ws)" using Suc.prems(1) ws by auto
      ultimately obtain b us where r: "returnsTo n g start t (set_add t ws) = Some (b, us)"
        "return_result g start (set (targets g t)) (set_add t ws) (b, us)"
        using Suc.IH [of "set_add t ws" t] by (metis surj_pair)
      have "(t, start) \<in> (edge_rel g)\<^sup>*" if b
        using r(2) that by (auto simp: return_result_def edge_rel_def intro: converse_rtrancl_into_rtrancl)
      with r new show ?thesis
        by (cases b) (simp_all add: return_result_def, metis Diff_iff insert_iff)
    qed (simp_all add: return_result_def)
  qed
  then show ?case
    using some_return_result [of "targets g k" "set vs" ?f g start vs] by simp
qed simp

lemma returnsTo_decides:
  "\<exists>b vs. returnsTo (graph_fuel g) g k k [k] = Some (b, vs) \<and> (b \<longleftrightarrow> (k, k) \<in> (edge_rel g)\<^sup>+)"
proof -
  have "card (set (graph_nodes g) - set [k]) \<le> card (set (graph_nodes g))"
    by (intro card_mono) auto
  then have "card (set (graph_nodes g) - set [k]) < graph_fuel g"
    unfolding graph_fuel_def by (meson card_length le_imp_less_Suc order_trans)
  then obtain b vs where r: "returnsTo (graph_fuel g) g k k [k] = Some (b, vs)"
    "return_result g k (set (targets g k)) [k] (b, vs)"
    using returnsTo_result [of k "[k]" g "graph_fuel g" k] by (metis list.set_intros(1) surj_pair)
  have "(k, k) \<in> (edge_rel g)\<^sup>+" if b
    using r(2) that by (auto simp: return_result_def edge_rel_def intro: rtrancl_into_trancl2)
  moreover have b if cycle: "(k, k) \<in> (edge_rel g)\<^sup>+"
  proof (rule ccontr)
    assume "\<not> b"
    with r(2) have closed: "set (targets g v) \<subseteq> set vs \<and> k \<notin> set (targets g v)" if "v \<in> set vs" for v
      using that by (auto simp: return_result_def)
    have k: "k \<in> set vs" using r(2) \<open>\<not> b\<close> by (simp add: return_result_def)
    obtain v where v: "(k, v) \<in> (edge_rel g)\<^sup>*" "(v, k) \<in> edge_rel g"
      using cycle tranclD2 by metis
    from v(1) have "v \<in> set vs"
      by (induction rule: rtrancl_induct) (use k closed in \<open>auto simp: edge_rel_def\<close>)
    with closed v(2) show False by (auto simp: edge_rel_def)
  qed
  ultimately show ?thesis using r(1) by blast
qed

section \<open>Properties\<close>

definition dependency_rel :: "roadmap_dependency list \<Rightarrow> (int \<times> int) set" where
  "dependency_rel deps = {(ir_id (dp_blocker d), ir_id (dp_blocked d)) | d. d \<in> set deps}"

definition candidate_rel :: "(issue_reference \<times> issue_reference) option \<Rightarrow> (int \<times> int) set" where
  "candidate_rel candidate =
     (case candidate of None \<Rightarrow> {} | Some (blocked, blocker) \<Rightarrow> {(ir_id blocker, ir_id blocked)})"

lemma edge_image:
  "set (map dependency_edge deps) = (\<lambda>(a, b). (int_string a, int_string b)) ` dependency_rel deps"
  by (force simp: dependency_rel_def dependency_edge_def roadmapIssueKey_def)

lemma trancl_int_string:
  "(int_string a, y) \<in> ((\<lambda>(a, b). (int_string a, int_string b)) ` r)\<^sup>+ \<longleftrightarrow>
     (\<exists>b. y = int_string b \<and> (a, b) \<in> r\<^sup>+)"
proof
  assume "(int_string a, y) \<in> ((\<lambda>(a, b). (int_string a, int_string b)) ` r)\<^sup>+"
  then show "\<exists>b. y = int_string b \<and> (a, b) \<in> r\<^sup>+"
    by (induction rule: trancl_induct) (auto intro: trancl.intros)
next
  assume "\<exists>b. y = int_string b \<and> (a, b) \<in> r\<^sup>+"
  then obtain b where "y = int_string b" and "(a, b) \<in> r\<^sup>+" by blast
  from this(2) have "(int_string a, int_string b) \<in> ((\<lambda>(a, b). (int_string a, int_string b)) ` r)\<^sup>+"
    by (induction rule: trancl_induct) (force intro: trancl.intros)+
  then show "(int_string a, y) \<in> ((\<lambda>(a, b). (int_string a, int_string b)) ` r)\<^sup>+"
    by (simp add: \<open>y = int_string b\<close>)
qed

lemma cycle_int_string:
  "(\<exists>x. (x, x) \<in> ((\<lambda>(a, b). (int_string a, int_string b)) ` r)\<^sup>+) \<longleftrightarrow> \<not> acyclic r"
proof
  assume "\<exists>x. (x, x) \<in> ((\<lambda>(a, b). (int_string a, int_string b)) ` r)\<^sup>+"
  then obtain x where x: "(x, x) \<in> ((\<lambda>(a, b). (int_string a, int_string b)) ` r)\<^sup>+" ..
  then obtain y where "(x, y) \<in> (\<lambda>(a, b). (int_string a, int_string b)) ` r"
    using tranclD by metis
  then obtain a where "x = int_string a" by auto
  with x show "\<not> acyclic r" by (auto simp: trancl_int_string acyclic_def)
next
  assume "\<not> acyclic r"
  then obtain a where "(a, a) \<in> r\<^sup>+" by (auto simp: acyclic_def)
  then have "(int_string a, int_string a) \<in> ((\<lambda>(a, b). (int_string a, int_string b)) ` r)\<^sup>+"
    by (auto simp: trancl_int_string)
  then show "\<exists>x. (x, x) \<in> ((\<lambda>(a, b). (int_string a, int_string b)) ` r)\<^sup>+" ..
qed

text \<open>The cycle check of the roadmap always answers, and says that there is a cycle exactly when the
  dependencies, with the candidate added, have one.\<close>

theorem roadmap_cycle_check_correct:
  "roadmapDependencyCycle deps candidate =
     Some (\<not> acyclic (dependency_rel deps \<union> candidate_rel candidate))"
proof -
  let ?es = "map dependency_edge deps @ (case candidate of None \<Rightarrow> []
      | Some (blocked, blocker) \<Rightarrow> [(roadmapIssueKey blocker, roadmapIssueKey blocked)])"
  have "set ?es = (\<lambda>(a, b). (int_string a, int_string b)) ` (dependency_rel deps \<union> candidate_rel candidate)"
    by (cases candidate)
      (auto simp: edge_image image_Un candidate_rel_def roadmapIssueKey_def simp del: set_map)
  then show ?thesis
    using search_decides [of "outgoing_edges ?es"]
    by (auto simp: roadmapDependencyCycle_def Let_def edge_rel_outgoing cycle_int_string simp del: set_map set_append)
qed

text \<open>C34: the issues reported as cyclic are exactly those that depend on themselves through one or more
  dependencies, each reported once.\<close>

theorem roadmap_cyclic_issues_correct:
  "\<exists>ks. roadmapCyclicIssueKeys deps = Some ks \<and> distinct ks \<and>
     set ks = {int_string a | a. (a, a) \<in> (dependency_rel deps)\<^sup>+}"
proof -
  let ?g = "outgoing_edges (map dependency_edge deps)"
  let ?r = "\<lambda>k. returnsTo (graph_fuel ?g) ?g k k [k]"
  have decides: "?r k \<noteq> None \<and> (map_option fst (?r k) = Some True \<longleftrightarrow> (k, k) \<in> (edge_rel ?g)\<^sup>+)" for k
    using returnsTo_decides [of ?g k] by auto
  have rel: "edge_rel ?g = (\<lambda>(a, b). (int_string a, int_string b)) ` dependency_rel deps"
    by (simp only: edge_rel_outgoing edge_image)
  have on_cycle: "(k, k) \<in> (edge_rel ?g)\<^sup>+ \<longleftrightarrow> (\<exists>a. k = int_string a \<and> (a, a) \<in> (dependency_rel deps)\<^sup>+)" for k
  proof
    assume cyc: "(k, k) \<in> (edge_rel ?g)\<^sup>+"
    then obtain y where "(k, y) \<in> edge_rel ?g" using tranclD by metis
    then obtain a where "k = int_string a" unfolding rel by auto
    with cyc show "\<exists>a. k = int_string a \<and> (a, a) \<in> (dependency_rel deps)\<^sup>+"
      unfolding rel by (auto simp: trancl_int_string)
  qed (auto simp: rel trancl_int_string)
  have key: "k \<in> fst ` set ?g" if "(k, k) \<in> (edge_rel ?g)\<^sup>+" for k
    using tranclD [OF that] targets_key by (fastforce simp: edge_rel_def)
  have "distinct (map fst ?g)"
    using js_wf_foldl [of "[]" "map dependency_edge deps"] by (simp add: outgoing_edges_def js_wf_def)
  then have "distinct (filter (\<lambda>k. map_option fst (?r k) = Some True) (map fst ?g))" by simp
  moreover have "map fst (filter (\<lambda>(_, r). map_option fst r = Some True) (map (\<lambda>k. (k, ?r k)) (map fst ?g))) =
      filter (\<lambda>k. map_option fst (?r k) = Some True) (map fst ?g)"
    by (simp add: filter_map comp_def)
  ultimately show ?thesis
    using decides on_cycle key
    by (auto simp: roadmapCyclicIssueKeys_def Let_def list_ex_iff)
qed

end
