(* ===== verification/RoadmapOrder.thy ===== *)
theory RoadmapOrder
  imports RoadmapCycles
begin

text \<open>
  The order functions of the roadmap: a move or an addition is allowed exactly where it leaves every
  blocker before what it blocks, and a move only permutes the items.
\<close>

section \<open>Positions\<close>

definition item_keys :: "plan_item list \<Rightarrow> string list" where
  "item_keys items = map (\<lambda>item. roadmapIssueKey (pi_issue item)) items"

lemma item_keys_simps [simp]:
  "item_keys [] = []" "item_keys (x # xs) = roadmapIssueKey (pi_issue x) # item_keys xs"
  "item_keys (xs @ ys) = item_keys xs @ item_keys ys" "length (item_keys xs) = length xs"
  by (simp_all add: item_keys_def)

text \<open>Where a key stands in a list: the last place, as in a map built by setting each key in turn.\<close>

lemma position_map:
  "js_get (foldl (\<lambda>m (i, item). js_set m (roadmapIssueKey (pi_issue item)) i) m (enumerate n items)) k = Some p
     \<Longrightarrow> (\<exists>i < length items. item_keys items ! i = k \<and> p = n + i) \<or> js_get m k = Some p \<and> k \<notin> set (item_keys items)"
proof (induction items arbitrary: n m)
  case (Cons item items)
  let ?k = "roadmapIssueKey (pi_issue item)"
  from Cons.prems have "js_get (foldl (\<lambda>m (i, item). js_set m (roadmapIssueKey (pi_issue item)) i)
      (js_set m ?k n) (enumerate (Suc n) items)) k = Some p" by simp
  from Cons.IH [OF this] consider
      (later) i where "i < length items" "item_keys items ! i = k" "p = Suc n + i"
    | (here) "js_get (js_set m ?k n) k = Some p" "k \<notin> set (item_keys items)" by blast
  then show ?case
  proof cases
    case later
    then show ?thesis by (intro disjI1 exI [of _ "Suc i"]) simp
  next
    case here
    then show ?thesis by (cases "k = ?k") auto
  qed
qed simp

lemma position_map_in:
  "k \<in> set (item_keys items) \<or> js_get m k \<noteq> None \<Longrightarrow>
   js_get (foldl (\<lambda>m (i, item). js_set m (roadmapIssueKey (pi_issue item)) i) m (enumerate n items)) k \<noteq> None"
  by (induction items arbitrary: n m) auto

lemma positions_SomeD: "positions items k = Some i \<Longrightarrow> i < length items \<and> item_keys items ! i = k"
  unfolding positions_def by (drule position_map) auto

lemma positions_at:
  assumes "distinct (item_keys items)" and "i < length items"
  shows "positions items (item_keys items ! i) = Some i"
proof -
  have "item_keys items ! i \<in> set (item_keys items)"
    using assms(2) by simp
  then have "positions items (item_keys items ! i) \<noteq> None"
    unfolding positions_def by (intro position_map_in) simp
  then obtain j where j: "positions items (item_keys items ! i) = Some j" by blast
  from positions_SomeD [OF this] assms have "j = i"
    by (metis distinct_conv_nth item_keys_simps(4))
  with j show ?thesis by simp
qed

text \<open>The edges of the dependencies; an order is right when nothing blocks an earlier item.\<close>

definition edge_set :: "roadmap_dependency list \<Rightarrow> (string \<times> string) set" where
  "edge_set deps = dependency_edge ` set deps"

definition ordered :: "(string \<times> string) set \<Rightarrow> string list \<Rightarrow> bool" where
  "ordered E ks \<longleftrightarrow> sorted_wrt (\<lambda>a b. (b, a) \<notin> E) ks \<and> (\<forall>k \<in> set ks. (k, k) \<notin> E)"

lemma violates_iff:
  "violates (positions items) d \<longleftrightarrow>
     (\<exists>i j. dependency_edge d = (item_keys items ! i, item_keys items ! j) \<and> j \<le> i \<and> i < length items)"
  if "distinct (item_keys items)"
proof
  assume "violates (positions items) d"
  then obtain i j where pos: "positions items (roadmapIssueKey (dp_blocker d)) = Some i"
      "positions items (roadmapIssueKey (dp_blocked d)) = Some j" and le: "j \<le> i"
    unfolding violates_def by (simp split: option.splits)
  from positions_SomeD [OF pos(1)] positions_SomeD [OF pos(2)] have "dependency_edge d = (item_keys items ! i, item_keys items ! j)" "i < length items"
    by (simp_all only: dependency_edge_def)
  with le show "\<exists>i j. dependency_edge d = (item_keys items ! i, item_keys items ! j) \<and> j \<le> i \<and> i < length items"
    by blast
next
  assume "\<exists>i j. dependency_edge d = (item_keys items ! i, item_keys items ! j) \<and> j \<le> i \<and> i < length items"
  then obtain i j where ij: "roadmapIssueKey (dp_blocker d) = item_keys items ! i"
      "roadmapIssueKey (dp_blocked d) = item_keys items ! j" "j \<le> i" "i < length items"
    by (auto simp: dependency_edge_def)
  with that show "violates (positions items) d"
    by (simp add: violates_def positions_at)
qed

lemma ordered_nth:
  "ordered E ks \<longleftrightarrow> (\<forall>i j. j \<le> i \<longrightarrow> i < length ks \<longrightarrow> (ks ! i, ks ! j) \<notin> E)"
  unfolding ordered_def sorted_wrt_iff_nth_less
  by (metis in_set_conv_nth le_eq_less_or_eq)

lemma violations_iff:
  assumes "distinct (item_keys items)"
  shows "roadmapOrderViolations items deps = [] \<longleftrightarrow> ordered (edge_set deps) (item_keys items)"
proof -
  have "roadmapOrderViolations items deps = [] \<longleftrightarrow> (\<forall>d \<in> set deps. \<not> violates (positions items) d)"
    by (simp add: roadmapOrderViolations_def filter_empty_conv)
  also have "\<dots> \<longleftrightarrow> ordered (edge_set deps) (item_keys items)"
    unfolding ordered_nth violates_iff [OF assms] edge_set_def item_keys_simps image_iff
      eq_commute [of "dependency_edge _"] by blast
  finally show ?thesis .
qed

lemma ordered_insert:
  "ordered E (us @ k # vs) \<longleftrightarrow>
     ordered E (us @ vs) \<and> (k, k) \<notin> E \<and> (\<forall>a \<in> set us. (k, a) \<notin> E) \<and> (\<forall>b \<in> set vs. (b, k) \<notin> E)"
  unfolding ordered_def sorted_wrt_append by auto

section \<open>Ranges\<close>

definition blockers_before :: "(string \<times> string) set \<Rightarrow> (string \<Rightarrow> nat option) \<Rightarrow> string \<Rightarrow> nat \<Rightarrow> bool" where
  "blockers_before E pos k t \<longleftrightarrow> (\<forall>b i. (b, k) \<in> E \<longrightarrow> pos b = Some i \<longrightarrow> i < t)"

definition blocked_after :: "(string \<times> string) set \<Rightarrow> (string \<Rightarrow> nat option) \<Rightarrow> string \<Rightarrow> nat \<Rightarrow> bool" where
  "blocked_after E pos k t \<longleftrightarrow> (\<forall>b i. (k, b) \<in> E \<longrightarrow> pos b = Some i \<longrightarrow> t \<le> i)"

lemma edge_bounds_Cons:
  "blockers_before (edge_set (d # deps)) pos k t \<longleftrightarrow> blockers_before (edge_set deps) pos k t \<and>
     (roadmapIssueKey (dp_blocked d) = k \<longrightarrow> (\<forall>i. pos (roadmapIssueKey (dp_blocker d)) = Some i \<longrightarrow> i < t))"
  "blocked_after (edge_set (d # deps)) pos k t \<longleftrightarrow> blocked_after (edge_set deps) pos k t \<and>
     (roadmapIssueKey (dp_blocker d) = k \<longrightarrow> (\<forall>i. pos (roadmapIssueKey (dp_blocked d)) = Some i \<longrightarrow> t \<le> i))"
  by (auto simp: blockers_before_def blocked_after_def edge_set_def dependency_edge_def)

lemma narrow_bounds:
  "foldl (narrow pos k) (m, n) deps = (mi, ma) \<Longrightarrow>
     (mi \<le> t \<longleftrightarrow> m \<le> t \<and> blockers_before (edge_set deps) pos k t) \<and>
     (t \<le> ma \<longleftrightarrow> t \<le> n \<and> blocked_after (edge_set deps) pos k t)"
proof (induction deps arbitrary: m n)
  case Nil
  then show ?case by (simp add: edge_set_def blockers_before_def blocked_after_def)
next
  case (Cons d deps)
  obtain m' n' where step: "narrow pos k (m, n) d = (m', n')" by force
  have "m' \<le> t \<longleftrightarrow> m \<le> t \<and> (roadmapIssueKey (dp_blocked d) = k \<longrightarrow>
        (\<forall>i. pos (roadmapIssueKey (dp_blocker d)) = Some i \<longrightarrow> i < t))"
    using step by (auto simp: narrow_def split: option.splits if_splits)
  moreover have "t \<le> n' \<longleftrightarrow> t \<le> n \<and> (roadmapIssueKey (dp_blocker d) = k \<longrightarrow>
        (\<forall>i. pos (roadmapIssueKey (dp_blocked d)) = Some i \<longrightarrow> t \<le> i))"
    using step by (auto simp: narrow_def split: option.splits if_splits)
  moreover have "foldl (narrow pos k) (m', n') deps = (mi, ma)"
    using Cons.prems by (simp add: step)
  ultimately show ?case
    using Cons.IH [of m' n'] by (simp add: edge_bounds_Cons conj_ac)
qed

lemma positions_drop:
  assumes "distinct (item_keys items)" and "t \<le> length items"
  shows "blockers_before E (positions items) k t \<longleftrightarrow> (\<forall>b \<in> set (drop t (item_keys items)). (b, k) \<notin> E)"
proof
  assume l: "blockers_before E (positions items) k t"
  show "\<forall>b \<in> set (drop t (item_keys items)). (b, k) \<notin> E"
  proof
    fix b assume "b \<in> set (drop t (item_keys items))"
    then obtain j where "j < length items - t" "b = item_keys items ! (t + j)"
      by (auto simp: in_set_conv_nth)
    then have j: "t + j < length items" "b = item_keys items ! (t + j)" by simp_all
    then have "positions items b = Some (t + j)"
      using positions_at [OF assms(1)] by simp
    with l show "(b, k) \<notin> E"
      unfolding blockers_before_def by (metis not_add_less1)
  qed
next
  assume r: "\<forall>b \<in> set (drop t (item_keys items)). (b, k) \<notin> E"
  show "blockers_before E (positions items) k t"
    unfolding blockers_before_def
  proof (intro allI impI)
    fix b i assume b: "(b, k) \<in> E" and p: "positions items b = Some i"
    show "i < t"
    proof (rule ccontr)
      assume "\<not> i < t"
      with positions_SomeD [OF p] have "b = drop t (item_keys items) ! (i - t)" "i - t < length (drop t (item_keys items))"
        by auto
      with r b show False by (metis nth_mem)
    qed
  qed
qed

lemma positions_take:
  assumes "distinct (item_keys items)" and "t \<le> length items"
  shows "blocked_after E (positions items) k t \<longleftrightarrow> (\<forall>a \<in> set (take t (item_keys items)). (k, a) \<notin> E)"
proof
  assume l: "blocked_after E (positions items) k t"
  show "\<forall>a \<in> set (take t (item_keys items)). (k, a) \<notin> E"
  proof
    fix b assume "b \<in> set (take t (item_keys items))"
    then obtain j where j: "j < t" "j < length items" "b = item_keys items ! j"
      by (auto simp: in_set_conv_nth)
    then have "positions items b = Some j"
      using positions_at [OF assms(1)] by simp
    with l j show "(k, b) \<notin> E"
      unfolding blocked_after_def by (metis not_less)
  qed
next
  assume r: "\<forall>a \<in> set (take t (item_keys items)). (k, a) \<notin> E"
  show "blocked_after E (positions items) k t"
    unfolding blocked_after_def
  proof (intro allI impI)
    fix b i assume b: "(k, b) \<in> E" and p: "positions items b = Some i"
    show "t \<le> i"
    proof (rule ccontr)
      assume "\<not> t \<le> i"
      with positions_SomeD [OF p] have "b = take t (item_keys items) ! i" "i < length (take t (item_keys items))"
        by auto
      with r b show False by (metis nth_mem)
    qed
  qed
qed

text \<open>Inside the range, and only there, an insertion keeps the order right.\<close>

lemma range_exact:
  assumes "distinct (item_keys items)" and "t \<le> length items"
    and "ordered (edge_set deps) (item_keys items)" and "(k, k) \<notin> edge_set deps"
    and "foldl (narrow (positions items) k) (0, length items) deps = (mi, ma)"
  shows "mi \<le> t \<and> t \<le> ma \<longleftrightarrow>
    ordered (edge_set deps) (take t (item_keys items) @ k # drop t (item_keys items))"
  using narrow_bounds [OF assms(5), of t] assms(2-4)
  by (simp add: ordered_insert positions_drop [OF assms(1,2)] positions_take [OF assms(1,2)] conj_ac)

section \<open>Moves\<close>

lemma findIndex_SomeD: "findIndex p xs = Some c \<Longrightarrow> c < length xs \<and> p (xs ! c)"
  by (induction xs arbitrary: c) (auto split: if_splits)

lemma item_keys_take_drop [simp]:
  "item_keys (take t xs) = take t (item_keys xs)" "item_keys (drop t xs) = drop t (item_keys xs)"
  by (simp_all add: item_keys_def take_map drop_map)

lemma item_keys_insert:
  "item_keys (insert_at t x xs) = take t (item_keys xs) @ roadmapIssueKey (pi_issue x) # drop t (item_keys xs)"
  by (simp add: insert_at_def)

lemma insert_at_mset [simp]: "mset (insert_at t x xs) = add_mset x (mset xs)"
  unfolding insert_at_def by (metis append_take_drop_id mset.simps(2) mset_append union_mset_add_mset_right)

lemma ordered_remove:
  "ordered E (us @ k # vs) \<Longrightarrow> ordered E (us @ vs) \<and> (k, k) \<notin> E"
  by (simp add: ordered_insert)

lemma removed_item:
  assumes "distinct (item_keys items)" and "c < length items"
    and "ordered E (item_keys items)"
  defines "others \<equiv> remove_index c items" and "k \<equiv> roadmapIssueKey (pi_issue (items ! c))"
  shows "distinct (k # item_keys others)" and "ordered E (item_keys others)" and "(k, k) \<notin> E"
    and "mset items = add_mset (items ! c) (mset others)" and "length others = length items - 1"
proof -
  have split: "items = take c items @ items ! c # drop (Suc c) items"
    using assms(2) by (rule id_take_nth_drop)
  then have keys: "item_keys items = take c (item_keys items) @ k # drop (Suc c) (item_keys items)"
    using item_keys_simps(2,3) item_keys_take_drop unfolding k_def by metis
  have others: "item_keys others = take c (item_keys items) @ drop (Suc c) (item_keys items)"
    by (simp add: others_def remove_index_def)
  have "distinct (take c (item_keys items) @ k # drop (Suc c) (item_keys items))"
    using assms(1) keys by simp
  then show "distinct (k # item_keys others)" by (auto simp: others)
  have "ordered E (take c (item_keys items) @ k # drop (Suc c) (item_keys items))"
    using assms(3) keys by simp
  then show "ordered E (item_keys others)" "(k, k) \<notin> E"
    using ordered_remove unfolding others by metis+
  have "mset items = mset (take c items @ items ! c # drop (Suc c) items)"
    using split by simp
  then show "mset items = add_mset (items ! c) (mset others)"
    by (simp add: others_def remove_index_def)
  show "length others = length items - 1"
    using assms(2) by (simp add: others_def remove_index_def)
qed

lemma distinct_insert_at:
  "distinct (roadmapIssueKey (pi_issue x) # item_keys xs) \<Longrightarrow> distinct (item_keys (insert_at t x xs))"
proof -
  assume "distinct (roadmapIssueKey (pi_issue x) # item_keys xs)"
  then have "distinct (roadmapIssueKey (pi_issue x) # take t (item_keys xs) @ drop t (item_keys xs))" by simp
  then show ?thesis unfolding item_keys_insert by (auto simp del: append_take_drop_id)
qed

text \<open>An insertion leaves no violation exactly inside the range.\<close>

lemma insertion_in_range:
  assumes "distinct (roadmapIssueKey (pi_issue x) # item_keys xs)" and "t \<le> length xs"
    and "ordered (edge_set deps) (item_keys xs)"
    and "(roadmapIssueKey (pi_issue x), roadmapIssueKey (pi_issue x)) \<notin> edge_set deps"
    and "foldl (narrow (positions xs) (roadmapIssueKey (pi_issue x))) (0, length xs) deps = (mi, ma)"
  shows "mi \<le> t \<and> t \<le> ma \<longleftrightarrow> roadmapOrderViolations (insert_at t x xs) deps = []"
  using range_exact [OF _ assms(2-5)] assms(1)
  by (simp add: violations_iff [OF distinct_insert_at [OF assms(1)]] item_keys_insert)


definition example_issue :: "int \<Rightarrow> issue_reference" where
  "example_issue n = \<lparr>ir_fullName = ''o/r'', ir_id = n, ir_number = n, ir_url = None\<rparr>"

definition example_item :: "int \<Rightarrow> plan_item" where
  "example_item n = \<lparr>pi_goalId = None, pi_issue = example_issue n, pi_plannedState = PlannedItem\<rparr>"

definition example_dependency :: "int \<Rightarrow> int \<Rightarrow> roadmap_dependency" where
  "example_dependency a b = \<lparr>dp_blocked = example_issue b, dp_blocker = example_issue a,
     dp_freshness = CurrentDependency\<rparr>"

lemmas example_roadmap_defs =
  example_issue_def example_item_def example_dependency_def roadmapIssueKey_def int_string_def
  nat_string.simps digit_char_def item_keys_def item_index_def


lemma last_in_interval:
  "ma \<le> n \<Longrightarrow> mi \<le> ma \<Longrightarrow> last (filter (\<lambda>t. mi \<le> t \<and> t \<le> ma) [0..<Suc n]) = (ma::nat)"
proof (induction n)
  case (Suc n)
  show ?case
  proof (cases "ma = Suc n")
    case False
    with Suc.prems have "filter (\<lambda>t. mi \<le> t \<and> t \<le> ma) [0..<Suc (Suc n)] =
        filter (\<lambda>t. mi \<le> t \<and> t \<le> ma) [0..<Suc n]" by simp
    with Suc False show ?thesis by simp
  qed (use Suc.prems in simp)
qed simp

text \<open>An issue that is not yet in a roadmap is added at the last position that violates no
  dependency, and it is refused exactly when every position violates one.\<close>

theorem addition_last_valid:
  assumes "distinct (roadmapIssueKey (pi_issue x) # item_keys items)"
    and "roadmapOrderViolations items deps = []"
    and "roadmapOrderViolations [x] deps = []"
  shows "roadmapAdditionIndex items deps (pi_issue x) =
    (let valid = filter (\<lambda>t. roadmapOrderViolations (insert_at t x items) deps = []) [0..<Suc (length items)]
     in if valid = [] then None else Some (last valid))"
proof -
  let ?n = "length items" and ?k = "roadmapIssueKey (pi_issue x)"
  obtain mi ma where r: "foldl (narrow (positions items) ?k) (0, ?n) deps = (mi, ma)" by force
  have ordered: "ordered (edge_set deps) (item_keys items)"
    using assms(1,2) by (simp add: violations_iff)
  have self: "(?k, ?k) \<notin> edge_set deps"
    using assms(3) violations_iff [of "[x]" deps] by (simp add: ordered_def)
  have valid: "mi \<le> t \<and> t \<le> ma \<longleftrightarrow> roadmapOrderViolations (insert_at t x items) deps = []" if "t \<le> ?n" for t
    using assms(1) that ordered self r by (rule insertion_in_range)
  have "ma \<le> ?n"
    using narrow_bounds [OF r, of ma] by simp
  have same: "filter (\<lambda>t. roadmapOrderViolations (insert_at t x items) deps = []) [0..<Suc ?n] =
      filter (\<lambda>t. mi \<le> t \<and> t \<le> ma) [0..<Suc ?n]"
    by (rule filter_cong [OF refl]) (use valid in \<open>simp add: valid less_Suc_eq_le del: upt_Suc\<close>)
  show ?thesis
    unfolding same Let_def roadmapAdditionIndex_def validRoadmapAdditionRange_def r
  proof (cases "mi \<le> ma")
    case True
    with \<open>ma \<le> ?n\<close> have "ma \<in> set (filter (\<lambda>t. mi \<le> t \<and> t \<le> ma) [0..<Suc ?n])"
      by simp
    then have "filter (\<lambda>t. mi \<le> t \<and> t \<le> ma) [0..<Suc ?n] \<noteq> []" by (metis empty_iff list.set(1))
    with last_in_interval [OF \<open>ma \<le> ?n\<close> True] True
    show "map_option mr_maximum (case (mi, ma) of (minimum, maximum) \<Rightarrow>
        if minimum \<le> maximum then Some \<lparr>mr_maximum = maximum, mr_minimum = minimum\<rparr> else None) =
      (if filter (\<lambda>t. mi \<le> t \<and> t \<le> ma) [0..<Suc ?n] = [] then None
       else Some (last (filter (\<lambda>t. mi \<le> t \<and> t \<le> ma) [0..<Suc ?n])))"
      by (simp del: upt_Suc)
  qed (auto simp: filter_empty_conv)
qed

text \<open>Issue 1 blocks issue 2, so issue 2 goes last and issue 1 just before it.\<close>

theorem addition_last_valid_witness:
  "(let deps = [example_dependency 1 2] in
    roadmapAdditionIndex (map example_item [1, 3]) deps (example_issue 2) = Some 2 \<and>
    roadmapAdditionIndex (map example_item [2, 3]) deps (example_issue 1) = Some 0)"
proof -
  let ?deps = "[example_dependency 1 2]"
  have "roadmapOrderViolations (map example_item [1, 3]) ?deps = []" "roadmapOrderViolations [example_item 2] ?deps = []"
    "roadmapOrderViolations (map example_item [2, 3]) ?deps = []" "roadmapOrderViolations [example_item 1] ?deps = []"
    by (simp_all add: example_roadmap_defs roadmapOrderViolations_def violates_def positions_def)
  with addition_last_valid [of "example_item 2" "map example_item [1, 3]" ?deps]
    addition_last_valid [of "example_item 1" "map example_item [2, 3]" ?deps]
  show ?thesis
    by (simp add: Let_def example_roadmap_defs roadmapOrderViolations_def violates_def positions_def
        insert_at_def)
qed

end
