(* ===== verification/RoadmapStore.thy ===== *)
theory RoadmapStore
  imports Contracts RoadmapCycles
begin

text \<open>
  The plan store of \<open>server/roadmap/roadmap-store.ts\<close>: the in-memory store behind the same interface
  as the database one. Plans are kept per repository, dependency snapshots per repository and
  prin; \<open>structuredClone\<close> is the identity on values, and the clock's time string is an argument
  of \<open>updatePlan\<close>.
\<close>

section \<open>State\<close>

record stored_plan =
  sp_dependencyCheckedAt :: "string option"
  sp_dependencies :: "roadmap_dependency list"
  sp_goals :: "roadmap_goal list"
  sp_items :: "plan_item list"
  sp_repositoryFullName :: string
  sp_repositoryId :: int
  sp_revision :: int
  sp_updatedAt :: "string option"

record snapshot =
  sn_dependencies :: "roadmap_dependency list"
  sn_dependencyCheckedAt :: "string option"

record plan_store =
  ps_records :: "(int, stored_plan) jsmap"
  ps_snapshots :: "(string, snapshot) jsmap"

definition empty_plan_store :: plan_store where
  "empty_plan_store = \<lparr>ps_records = [], ps_snapshots = []\<rparr>"

text \<open>The error \<open>RoadmapRevisionConflict\<close> carries the current plan.\<close>

datatype plan_error = RoadmapRevisionConflict stored_plan

record plan_input =
  pin_expectedRevision :: int
  pin_goals :: "roadmap_goal list"
  pin_items :: "plan_item list"
  pin_repositoryFullName :: string
  pin_repositoryId :: int

section \<open>Methods\<close>

definition emptyStoredRoadmap :: "int \<Rightarrow> string \<Rightarrow> stored_plan" where
  "emptyStoredRoadmap repositoryId repositoryFullName =
     \<lparr>sp_dependencyCheckedAt = None, sp_dependencies = [], sp_goals = [], sp_items = [],
      sp_repositoryFullName = repositoryFullName, sp_repositoryId = repositoryId,
      sp_revision = 0, sp_updatedAt = None\<rparr>"

definition snapshot_key :: "int \<Rightarrow> string \<Rightarrow> string" where
  "snapshot_key repositoryId principalId = int_string repositoryId @ CHR '':'' # principalId"

definition read_plan :: "int \<Rightarrow> string \<Rightarrow> plan_store \<Rightarrow> stored_plan option" where
  "read_plan repositoryId principalId s =
     (case js_get (ps_records s) repositoryId of
        None \<Rightarrow> None
      | Some record \<Rightarrow>
          (let snap = js_get (ps_snapshots s) (snapshot_key repositoryId principalId)
           in Some (record\<lparr>
             sp_dependencies := (case snap of None \<Rightarrow> [] | Some sn \<Rightarrow> sn_dependencies sn),
             sp_dependencyCheckedAt := (case snap of None \<Rightarrow> None | Some sn \<Rightarrow> sn_dependencyCheckedAt sn)\<rparr>)))"

definition updatePlan ::
    "string \<Rightarrow> plan_input \<Rightarrow> plan_store \<Rightarrow> (plan_error + stored_plan) \<times> plan_store" where
  "updatePlan now i s =
     (let current = js_get (ps_records s) (pin_repositoryId i);
          base = (case current of
              None \<Rightarrow> emptyStoredRoadmap (pin_repositoryId i) (pin_repositoryFullName i)
            | Some r \<Rightarrow> r)
      in if (case current of None \<Rightarrow> 0 | Some r \<Rightarrow> sp_revision r) \<noteq> pin_expectedRevision i
         then (Inl (RoadmapRevisionConflict base), s)
         else
           (let next = base\<lparr>sp_goals := pin_goals i, sp_items := pin_items i,
                  sp_repositoryFullName := pin_repositoryFullName i,
                  sp_revision := pin_expectedRevision i + 1, sp_updatedAt := Some now\<rparr>
            in (Inr next, s\<lparr>ps_records := js_set (ps_records s) (pin_repositoryId i) next\<rparr>)))"

definition saveDependencies ::
    "int \<Rightarrow> string \<Rightarrow> string \<Rightarrow> roadmap_dependency list \<Rightarrow> string \<Rightarrow> plan_store \<Rightarrow> plan_store" where
  "saveDependencies repositoryId repositoryFullName principalId dependencies checkedAt s =
     (let current = (case js_get (ps_records s) repositoryId of
              None \<Rightarrow> emptyStoredRoadmap repositoryId repositoryFullName | Some r \<Rightarrow> r)
      in s\<lparr>ps_records := js_set (ps_records s) repositoryId
             (current\<lparr>sp_repositoryFullName := repositoryFullName\<rparr>),
           ps_snapshots := js_set (ps_snapshots s) (snapshot_key repositoryId principalId)
             \<lparr>sn_dependencies = dependencies, sn_dependencyCheckedAt = Some checkedAt\<rparr>\<rparr>)"

section \<open>Calls\<close>

datatype plan_op =
    ReadPlan int string
  | UpdatePlan string plan_input
  | SaveDependencies int string string "roadmap_dependency list" string

datatype plan_result =
    PlanRead "stored_plan option"
  | PlanUpdated "plan_error + stored_plan"
  | PlanVoid

fun plan_step :: "plan_op \<Rightarrow> plan_store \<Rightarrow> plan_result \<times> plan_store" where
  "plan_step (ReadPlan repo prin) s = (PlanRead (read_plan repo prin s), s)"
| "plan_step (UpdatePlan now i) s = (case updatePlan now i s of (r, s') \<Rightarrow> (PlanUpdated r, s'))"
| "plan_step (SaveDependencies repo name prin deps at) s =
     (PlanVoid, saveDependencies repo name prin deps at s)"

section \<open>The revision\<close>

definition plan_revision :: "int \<Rightarrow> plan_store \<Rightarrow> int option" where
  "plan_revision repo s = Some (case js_get (ps_records s) repo of None \<Rightarrow> 0 | Some r \<Rightarrow> sp_revision r)"

fun plan_saved :: "int \<Rightarrow> int \<Rightarrow> plan_op \<Rightarrow> plan_result \<Rightarrow> bool" where
  "plan_saved repo n (UpdatePlan now i) (PlanUpdated (Inr p)) \<longleftrightarrow>
     pin_repositoryId i = repo \<and> pin_expectedRevision i = n"
| "plan_saved repo n op r \<longleftrightarrow> False"

lemma plan_savedE:
  assumes "plan_saved repo n op (fst (plan_step op s))"
  obtains now i p s' where "op = UpdatePlan now i" "updatePlan now i s = (Inr p, s')"
    "pin_repositoryId i = repo" "pin_expectedRevision i = n"
  using assms by (cases op) (auto split: prod.splits elim!: plan_saved.elims)

lemma updatePlan_revision:
  "updatePlan now i s = (Inr p, s') \<Longrightarrow>
     plan_revision (pin_repositoryId i) s = Some (pin_expectedRevision i) \<and>
     js_get (ps_records s') = (js_get (ps_records s))(pin_repositoryId i \<mapsto> p) \<and>
     sp_revision p = pin_expectedRevision i + 1 \<and> ps_snapshots s' = ps_snapshots s"
  by (auto simp: updatePlan_def plan_revision_def Let_def split: if_splits)

lemma plan_revision_step:
  "plan_revision repo s = Some v \<Longrightarrow>
     plan_revision repo (snd (plan_step op s)) = Some v \<or>
     plan_revision repo (snd (plan_step op s)) = Some (v + 1)"
  by (cases op) (auto simp: plan_revision_def updatePlan_def saveDependencies_def Let_def
      emptyStoredRoadmap_def split: option.splits if_splits)

interpretation plans: versioned_store plan_step "\<lambda>_. True" plan_revision plan_saved
proof (unfold_locales, goal_cases)
  case (2 s k n op)
  from this(2) obtain now i p s' where "op = UpdatePlan now i" "updatePlan now i s = (Inr p, s')"
    "pin_repositoryId i = k" "pin_expectedRevision i = n"
    by (rule plan_savedE)
  with updatePlan_revision [OF this(2)] show ?case
    by (simp add: plan_revision_def)
next
  case (3 s k v op)
  from plan_revision_step [OF this(2), of op] show ?case by auto
qed simp

text \<open>Of the plan updates of a run of the roadmap store that carry the same repository and
  expected revision, at most one is saved: no update of a plan is lost to another made against the
  same revision.\<close>

theorem plan_no_lost_update:
  "length (filter (\<lambda>(op, r). plan_saved repo n op r) (run_results plan_step ops s)) \<le> 1"
  by (rule plans.no_lost_update) simp

section \<open>The abstract store\<close>

text \<open>
  What the store promises: per repository a plan with its revision, and per repository and
  principal a dependency snapshot that no other principal reads. The store flattens the pair into
  the text \<open>repository:principal\<close>; the refinement shows that no two pairs collide.
\<close>

record plan_content =
  pc_name :: string
  pc_goals :: "roadmap_goal list"
  pc_items :: "plan_item list"
  pc_revision :: int
  pc_updatedAt :: "string option"

record plan_spec =
  spec_plans :: "int \<Rightarrow> plan_content option"
  spec_snapshots :: "int \<times> string \<Rightarrow> (roadmap_dependency list \<times> string) option"

definition empty_spec :: plan_spec where
  "empty_spec = \<lparr>spec_plans = (\<lambda>_. None), spec_snapshots = (\<lambda>_. None)\<rparr>"

definition full_plan :: "int \<Rightarrow> (roadmap_dependency list \<times> string) option \<Rightarrow> plan_content \<Rightarrow> stored_plan" where
  "full_plan repo snap c =
     \<lparr>sp_dependencyCheckedAt = map_option snd snap,
      sp_dependencies = (case snap of None \<Rightarrow> [] | Some (deps, at) \<Rightarrow> deps),
      sp_goals = pc_goals c, sp_items = pc_items c, sp_repositoryFullName = pc_name c,
      sp_repositoryId = repo, sp_revision = pc_revision c, sp_updatedAt = pc_updatedAt c\<rparr>"

definition plan_or_empty :: "string \<Rightarrow> plan_content option \<Rightarrow> plan_content" where
  "plan_or_empty name p = (case p of Some c \<Rightarrow> c
     | None \<Rightarrow> \<lparr>pc_name = name, pc_goals = [], pc_items = [], pc_revision = 0, pc_updatedAt = None\<rparr>)"

fun spec_step :: "plan_op \<Rightarrow> plan_spec \<Rightarrow> plan_result \<times> plan_spec" where
  "spec_step (ReadPlan repo prin) a =
     (PlanRead (map_option (full_plan repo (spec_snapshots a (repo, prin))) (spec_plans a repo)), a)"
| "spec_step (UpdatePlan now i) a =
     (let repo = pin_repositoryId i; c = plan_or_empty (pin_repositoryFullName i) (spec_plans a repo)
      in if pc_revision c = pin_expectedRevision i
         then (let c' = \<lparr>pc_name = pin_repositoryFullName i, pc_goals = pin_goals i,
                 pc_items = pin_items i, pc_revision = pc_revision c + 1, pc_updatedAt = Some now\<rparr>
               in (PlanUpdated (Inr (full_plan repo None c')),
                   a\<lparr>spec_plans := (spec_plans a)(repo \<mapsto> c')\<rparr>))
         else (PlanUpdated (Inl (RoadmapRevisionConflict (full_plan repo None c))), a))"
| "spec_step (SaveDependencies repo name prin deps at) a =
     (PlanVoid,
      a\<lparr>spec_plans := (spec_plans a)(repo \<mapsto> (plan_or_empty name (spec_plans a repo))\<lparr>pc_name := name\<rparr>),
        spec_snapshots := (spec_snapshots a)((repo, prin) \<mapsto> (deps, at))\<rparr>)"

definition represents :: "plan_store \<Rightarrow> plan_spec \<Rightarrow> bool" where
  "represents s a \<longleftrightarrow>
     (\<forall>repo. js_get (ps_records s) repo = map_option (full_plan repo None) (spec_plans a repo)) \<and>
     (\<forall>repo prin. js_get (ps_snapshots s) (snapshot_key repo prin) =
        map_option (\<lambda>(deps, at). \<lparr>sn_dependencies = deps, sn_dependencyCheckedAt = Some at\<rparr>)
          (spec_snapshots a (repo, prin)))"

lemma int_string_no_colon: "CHR '':'' \<notin> set (int_string n)"
proof -
  have "list_all is_digit (nat_string m)" for m
    using nat_string_digits by blast
  moreover have "\<not> is_digit (CHR '':'')"
    by (simp add: is_digit_def in_range_def)
  ultimately have "CHR '':'' \<notin> set (nat_string m)" for m
    by (metis list_all_iff)
  then show ?thesis by (simp add: int_string_def)
qed

lemma snapshot_key_inj [simp]:
  "snapshot_key r p = snapshot_key r' p' \<longleftrightarrow> r = r' \<and> p = p'"
  by (simp add: snapshot_key_def append_sep_inj int_string_no_colon)

lemmas plan_store_defs =
  read_plan_def updatePlan_def saveDependencies_def emptyStoredRoadmap_def full_plan_def
  plan_or_empty_def represents_def Let_def

interpretation plan_refinement: simulation plan_step spec_step represents
proof (unfold_locales, goal_cases)
  case (1 s a op)
  then show ?case
    by (cases op) (auto simp: plan_store_defs split: option.splits prod.splits)
next
  case (2 s a op)
  then show ?case
    by (cases op) (auto simp: plan_store_defs split: option.splits prod.splits)
qed

text \<open>C36: The in-memory plan store refines the abstract one, keyed by repository and by the pair of
  repository and principal: every run of calls from the empty store gives exactly the results the
  abstract store gives. So a read returns the last plan saved for the repository with the last
  dependency snapshot of that principal, a refused update carries the current plan, and no
  principal reads another's snapshot.\<close>

theorem plan_store_refines:
  "run_results plan_step ops empty_plan_store = run_results spec_step ops empty_spec"
  using plan_refinement.run_refines [of empty_plan_store empty_spec ops]
  by (simp add: represents_def empty_plan_store_def empty_spec_def)

end
