(* ===== verification/HostControl.thy ===== *)
theory HostControl
  imports Contracts JS_Json JS_Date
begin

text \<open>
  Host control operations (\<open>server/host-control/contracts.ts\<close> and \<open>memory-store.ts\<close>): console input
  and power commands to a physical host are reserved, dispatched at most once at a time per host,
  and finished with a result. A dispatch whose lease ran out becomes an \<open>uncertain\<close> result.

  The entries are objects the source changes in place; here an entry is replaced under its key.
  \<open>require\<close> and the other throws are \<open>Inl\<close> of the error. Results are compared by their JSON text in the
  source, which is the equality of their records. Times are compared as \<open>Date.parse\<close> does,
  an unreadable one makes every comparison false.
\<close>

section \<open>Records\<close>

datatype host_risk = StandardRisk | BootRisk | DiskRisk | FirmwareRisk | InstallerRisk | RecoveryRisk | SecureBootRisk

datatype actor_kind = HumanActor | MachineActor

record host_audit =
  ha_actorId :: string
  ha_actorKind :: actor_kind
  ha_approvalId :: "string option"
  ha_auditId :: string
  ha_bindingRevision :: string
  ha_capability :: string
  ha_effectiveRisk :: host_risk
  ha_hostId :: string
  ha_operationId :: string
  ha_ownerUserId :: string
  ha_policyDecisionId :: string
  ha_policyExpiresAt :: string
  ha_providerId :: string

datatype host_result_code = HostOperationInProgress | HostProviderUnavailable | HostStaleFrame | HostUnauthorized

datatype host_result_state = HostCompleted | HostFailed | HostRejected | HostUncertain

text \<open>The literal fields \<open>schemaVersion\<close> and \<open>provider.kind\<close> have one value each and are left out.\<close>

record host_result =
  hr_auditId :: string
  hr_code :: "host_result_code option"
  hr_completedAt :: string
  hr_hostId :: string
  hr_operationId :: string
  hr_providerId :: string
  hr_replayed :: bool
  hr_message :: string
  hr_state :: host_result_state

datatype entry_state = HostDispatching | HostReserved | HostTerminal

record host_entry =
  he_audit :: host_audit
  he_attemptId :: string
  he_fingerprint :: string
  he_reservedUntil :: string
  he_result :: "host_result option"
  he_state :: entry_state

type_synonym host_store = "(string, host_entry) jsmap"

record host_reservation =
  hv_audit :: host_audit
  hv_attemptId :: string
  hv_fingerprint :: string
  hv_rateLimit :: int
  hv_reservedAt :: string
  hv_reservedUntil :: string

datatype reserve_answer =
    HostNew
  | HostReplayed host_result
  | HostConflict
  | HostInProgress
  | HostRateLimited

record host_dispatch =
  hd_audit :: host_audit
  hd_attemptId :: string
  hd_dispatchedAt :: string
  hd_dispatchedUntil :: string
  hd_fingerprint :: string

datatype dispatch_answer = HostFenced | HostMarked

record host_finish =
  hf_audit :: host_audit
  hf_attemptId :: string
  hf_fingerprint :: string
  hf_result :: host_result

datatype host_store_error =
    AuditReservationChanged | AuditAttemptChanged | AuditChanged | CompletedNotDispatched

section \<open>Helpers\<close>

definition reservationLeaseMs :: int where
  "reservationLeaseMs = 30000"

definition abandonedDispatchResult :: "host_audit \<Rightarrow> string \<Rightarrow> host_result" where
  "abandonedDispatchResult audit completedAt =
     \<lparr>hr_auditId = ha_auditId audit, hr_code = Some HostProviderUnavailable,
      hr_completedAt = completedAt, hr_hostId = ha_hostId audit,
      hr_operationId = ha_operationId audit, hr_providerId = ha_providerId audit,
      hr_replayed = False,
      hr_message = ''A previous dispatch may have completed and will not be sent again.'',
      hr_state = HostUncertain\<rparr>"

fun risk_name :: "host_risk \<Rightarrow> string" where
  "risk_name StandardRisk = ''standard''"
| "risk_name BootRisk = ''boot''"
| "risk_name DiskRisk = ''disk''"
| "risk_name FirmwareRisk = ''firmware''"
| "risk_name InstallerRisk = ''installer''"
| "risk_name RecoveryRisk = ''recovery''"
| "risk_name SecureBootRisk = ''secure_boot''"

fun actor_name :: "actor_kind \<Rightarrow> string" where
  "actor_name HumanActor = ''human''"
| "actor_name MachineActor = ''machine''"

text \<open>The audit identity as a JSON object, its expiry left out; every caller builds it with its
  properties in this order, and an absent approval leaves no property.\<close>

definition audit_json :: "host_audit \<Rightarrow> json" where
  "audit_json a = JObj
     ([(''actorId'', JStr (ha_actorId a)), (''actorKind'', JStr (actor_name (ha_actorKind a)))] @
      (case ha_approvalId a of None \<Rightarrow> [] | Some i \<Rightarrow> [(''approvalId'', JStr i)]) @
      [(''auditId'', JStr (ha_auditId a)), (''bindingRevision'', JStr (ha_bindingRevision a)),
       (''capability'', JStr (ha_capability a)), (''effectiveRisk'', JStr (risk_name (ha_effectiveRisk a))),
       (''hostId'', JStr (ha_hostId a)), (''operationId'', JStr (ha_operationId a)),
       (''ownerUserId'', JStr (ha_ownerUserId a)), (''policyDecisionId'', JStr (ha_policyDecisionId a)),
       (''providerId'', JStr (ha_providerId a))])"

definition sameAudit :: "host_audit \<Rightarrow> host_audit \<Rightarrow> bool" where
  "sameAudit l r \<longleftrightarrow> json_print (audit_json l) = json_print (audit_json r)"

definition host_key :: "host_audit \<Rightarrow> string" where
  "host_key audit = nul_key (ha_ownerUserId audit) (ha_operationId audit)"

definition require_entry :: "host_audit \<Rightarrow> string \<Rightarrow> host_store \<Rightarrow> host_store_error + host_entry" where
  "require_entry audit fp s =
     (case js_get s (host_key audit) of
        None \<Rightarrow> Inl AuditReservationChanged
      | Some r \<Rightarrow>
          if he_fingerprint r \<noteq> fp \<or> \<not> sameAudit (he_audit r) audit then Inl AuditReservationChanged
          else Inr r)"

text \<open>Whether a console operation falls into the last minute before the reservation.\<close>

definition console_capability :: "string \<Rightarrow> bool" where
  "console_capability c \<longleftrightarrow> prefix ''host.console.'' c"

definition counts_against :: "host_reservation \<Rightarrow> host_entry \<Rightarrow> bool" where
  "counts_against i e \<longleftrightarrow>
     ha_ownerUserId (he_audit e) = ha_ownerUserId (hv_audit i) \<and>
     ha_hostId (he_audit e) = ha_hostId (hv_audit i) \<and>
     console_capability (ha_capability (he_audit e)) \<and>
     js_lt (map_option (\<lambda>n. n - 60000) (date_parse (hv_reservedAt i)))
       (map_option (\<lambda>n. n - reservationLeaseMs) (date_parse (he_reservedUntil e)))"

section \<open>Methods\<close>

definition host_reserve :: "host_reservation \<Rightarrow> host_store \<Rightarrow> reserve_answer \<times> host_store" where
  "host_reserve i s =
     (let key = host_key (hv_audit i);
          leased = (\<lambda>prior. js_lt (date_parse (hv_reservedAt i)) (date_parse (he_reservedUntil prior)))
      in case js_get s key of
        Some prior \<Rightarrow>
          if he_fingerprint prior \<noteq> hv_fingerprint i \<or> \<not> sameAudit (he_audit prior) (hv_audit i)
          then (HostConflict, s)
          else (case he_result prior of
              Some r \<Rightarrow> (HostReplayed r, s)
            | None \<Rightarrow>
                if he_state prior = HostDispatching
                then
                  if leased prior then (HostInProgress, s)
                  else
                    let r = abandonedDispatchResult (he_audit prior) (hv_reservedAt i)
                    in (HostReplayed r, js_set s key (prior\<lparr>he_result := Some r, he_state := HostTerminal\<rparr>))
                else if leased prior then (HostInProgress, s)
                else (HostNew, js_set s key (prior\<lparr>
                    he_audit := (he_audit prior)\<lparr>ha_policyExpiresAt := ha_policyExpiresAt (hv_audit i)\<rparr>,
                    he_attemptId := hv_attemptId i, he_reservedUntil := hv_reservedUntil i\<rparr>)))
      | None \<Rightarrow>
          if console_capability (ha_capability (hv_audit i)) \<and>
             hv_rateLimit i \<le> int (length (filter (counts_against i) (js_values s)))
          then (HostRateLimited, s)
          else (HostNew, js_set s key
            \<lparr>he_audit = hv_audit i, he_attemptId = hv_attemptId i, he_fingerprint = hv_fingerprint i,
             he_reservedUntil = hv_reservedUntil i, he_result = None, he_state = HostReserved\<rparr>))"

text \<open>Dispatches of the same host whose lease ran out are closed as uncertain.\<close>

definition same_host :: "host_dispatch \<Rightarrow> host_entry \<Rightarrow> bool" where
  "same_host i e \<longleftrightarrow> ha_ownerUserId (he_audit e) = ha_ownerUserId (hd_audit i) \<and>
     ha_hostId (he_audit e) = ha_hostId (hd_audit i)"

definition close_abandoned :: "host_dispatch \<Rightarrow> host_entry \<Rightarrow> host_entry" where
  "close_abandoned i e =
     (if he_state e = HostDispatching \<and> same_host i e \<and>
         js_le (date_parse (he_reservedUntil e)) (date_parse (hd_dispatchedAt i))
      then e\<lparr>he_result := Some (abandonedDispatchResult (he_audit e) (hd_dispatchedAt i)),
             he_state := HostTerminal\<rparr>
      else e)"

definition host_markDispatchAttempted ::
    "host_dispatch \<Rightarrow> host_store \<Rightarrow> (host_store_error + dispatch_answer) \<times> host_store" where
  "host_markDispatchAttempted i s =
     (case require_entry (hd_audit i) (hd_fingerprint i) s of
        Inl e \<Rightarrow> (Inl e, s)
      | Inr found \<Rightarrow>
          let key = host_key (hd_audit i);
              s1 = js_update_values (close_abandoned i) s;
              r = close_abandoned i found
          in if list_ex (\<lambda>(k, e). k \<noteq> key \<and> he_state e = HostDispatching \<and> same_host i e) s1
             then (Inr HostFenced, s1)
             else if he_state r \<noteq> HostReserved \<or> he_attemptId r \<noteq> hd_attemptId i \<or>
               js_le (date_parse (he_reservedUntil r)) (date_parse (hd_dispatchedAt i)) \<or>
               js_le (date_parse (ha_policyExpiresAt (hd_audit i))) (date_parse (hd_dispatchedAt i))
             then (Inr HostFenced, s1)
             else (Inr HostMarked, js_set s1 key (r\<lparr>
               he_audit := (he_audit r)\<lparr>ha_policyExpiresAt := ha_policyExpiresAt (hd_audit i)\<rparr>,
               he_reservedUntil := hd_dispatchedUntil i, he_state := HostDispatching\<rparr>)))"

definition host_finish_operation ::
    "host_finish \<Rightarrow> host_store \<Rightarrow> (host_store_error + unit) \<times> host_store" where
  "host_finish_operation i s =
     (case require_entry (hf_audit i) (hf_fingerprint i) s of
        Inl e \<Rightarrow> (Inl e, s)
      | Inr r \<Rightarrow>
          if he_attemptId r \<noteq> hf_attemptId i then (Inl AuditAttemptChanged, s)
          else (case he_result r of
              Some prior \<Rightarrow> if prior \<noteq> hf_result i then (Inl AuditChanged, s) else (Inr (), s)
            | None \<Rightarrow>
                if hr_state (hf_result i) = HostCompleted \<and> he_state r \<noteq> HostDispatching
                then (Inl CompletedNotDispatched, s)
                else (Inr (), js_set s (host_key (hf_audit i))
                  (r\<lparr>he_result := Some (hf_result i), he_state := HostTerminal\<rparr>))))"

section \<open>Calls\<close>

datatype host_call = HReserve host_reservation | HDispatch host_dispatch | HFinish host_finish

datatype host_answer =
    HReserved reserve_answer
  | HDispatched "host_store_error + dispatch_answer"
  | HFinished "host_store_error + unit"

fun host_step :: "host_call \<Rightarrow> host_store \<Rightarrow> host_answer \<times> host_store" where
  "host_step (HReserve i) s = map_prod HReserved id (host_reserve i s)"
| "host_step (HDispatch i) s = map_prod HDispatched id (host_markDispatchAttempted i s)"
| "host_step (HFinish i) s = map_prod HFinished id (host_finish_operation i s)"

section \<open>The life of an entry\<close>

text \<open>What one call may do to an entry: renew or dispatch a reservation, or finish an open entry,
  where a completed result needs a dispatch.\<close>

inductive host_move :: "host_entry \<Rightarrow> host_entry \<Rightarrow> bool" where
  same: "host_move r r"
| renewed: "he_state r = HostReserved \<Longrightarrow>
    host_move r (r\<lparr>he_audit := (he_audit r)\<lparr>ha_policyExpiresAt := e\<rparr>, he_attemptId := a, he_reservedUntil := u\<rparr>)"
| dispatched: "he_state r = HostReserved \<Longrightarrow>
    host_move r (r\<lparr>he_audit := (he_audit r)\<lparr>ha_policyExpiresAt := e\<rparr>, he_reservedUntil := u,
      he_state := HostDispatching\<rparr>)"
| finished: "he_result r = None \<Longrightarrow> he_state r \<noteq> HostTerminal \<Longrightarrow>
    (hr_state res = HostCompleted \<Longrightarrow> he_state r = HostDispatching) \<Longrightarrow>
    host_move r (r\<lparr>he_result := Some res, he_state := HostTerminal\<rparr>)"

definition entry_ok :: "string \<Rightarrow> host_entry \<Rightarrow> bool" where
  "entry_ok k e \<longleftrightarrow> host_key (he_audit e) = k \<and> (he_result e = None \<longleftrightarrow> he_state e \<noteq> HostTerminal)"

definition dispatching_for :: "string \<Rightarrow> string \<Rightarrow> host_entry \<Rightarrow> bool" where
  "dispatching_for owner host e \<longleftrightarrow> he_state e = HostDispatching \<and>
     ha_ownerUserId (he_audit e) = owner \<and> ha_hostId (he_audit e) = host"

definition one_dispatch :: "host_store \<Rightarrow> bool" where
  "one_dispatch s \<longleftrightarrow> (\<forall>k l r q owner host. js_get s k = Some r \<longrightarrow> js_get s l = Some q \<longrightarrow>
     dispatching_for owner host r \<longrightarrow> dispatching_for owner host q \<longrightarrow> k = l)"

definition host_inv :: "host_store \<Rightarrow> bool" where
  "host_inv s \<longleftrightarrow> js_wf s \<and> (\<forall>k e. js_get s k = Some e \<longrightarrow> entry_ok k e) \<and> one_dispatch s"

lemma sameAudit_iff:
  "sameAudit l r \<longleftrightarrow> l\<lparr>ha_policyExpiresAt := []\<rparr> = r\<lparr>ha_policyExpiresAt := []\<rparr>"
proof -
  have risk: "risk_name a = risk_name b \<longleftrightarrow> a = b" for a b
    by (cases a; cases b) simp_all
  have actor: "actor_name a = actor_name b \<longleftrightarrow> a = b" for a b
    by (cases a; cases b) simp_all
  have "sameAudit l r \<longleftrightarrow> audit_json l = audit_json r"
    unfolding sameAudit_def by (rule json_print_inj)
  then show ?thesis
    by (cases l; cases r; cases "ha_approvalId l"; cases "ha_approvalId r")
      (simp_all add: audit_json_def risk actor conj_ac)
qed

lemma sameAuditD:
  "sameAudit l r \<Longrightarrow> ha_ownerUserId l = ha_ownerUserId r \<and> ha_hostId l = ha_hostId r \<and> host_key l = host_key r"
  unfolding sameAudit_iff host_key_def by (cases l; cases r) simp

lemma require_entryE:
  assumes "require_entry audit fp s = Inr r"
  obtains "js_get s (host_key audit) = Some r" "he_fingerprint r = fp" "sameAudit (he_audit r) audit"
  using assms by (auto simp: require_entry_def split: option.splits if_splits)

lemma close_abandoned_move: "entry_ok k e \<Longrightarrow> host_move e (close_abandoned i e) \<and> entry_ok k (close_abandoned i e)"
  by (auto simp: close_abandoned_def entry_ok_def abandonedDispatchResult_def intro: host_move.intros)

lemma close_abandoned_dispatching:
  "dispatching_for owner host (close_abandoned i e) \<Longrightarrow> dispatching_for owner host e \<and> close_abandoned i e = e"
  by (auto simp: close_abandoned_def dispatching_for_def split: if_splits)

text \<open>What one call does to the store: it closes abandoned dispatches, changes one entry along its
  life, or adds a reservation.\<close>

inductive host_change :: "host_store \<Rightarrow> host_store \<Rightarrow> bool" where
  closed: "host_change s (js_update_values (close_abandoned i) s)"
| unchanged: "host_change s s"
| created: "js_get s (host_key (he_audit e)) = None \<Longrightarrow> he_state e = HostReserved \<Longrightarrow> he_result e = None \<Longrightarrow>
    host_change s (js_set s (host_key (he_audit e)) e)"
| moved: "js_get s k = Some r \<Longrightarrow> host_move r r' \<Longrightarrow> he_state r' \<noteq> HostDispatching \<Longrightarrow> entry_ok k r' \<Longrightarrow>
    host_change s (js_set s k r')"
| dispatch: "s1 = js_update_values (close_abandoned i) s \<Longrightarrow> js_get s1 k = Some r \<Longrightarrow>
    he_state r = HostReserved \<Longrightarrow> same_host i r \<Longrightarrow>
    \<not> list_ex (\<lambda>(l, e). l \<noteq> k \<and> he_state e = HostDispatching \<and> same_host i e) s1 \<Longrightarrow>
    r' = r\<lparr>he_audit := (he_audit r)\<lparr>ha_policyExpiresAt := x\<rparr>, he_reservedUntil := u, he_state := HostDispatching\<rparr> \<Longrightarrow>
    host_change s (js_set s1 k r')"

lemma host_key_policy [simp]: "host_key (a\<lparr>ha_policyExpiresAt := x\<rparr>) = host_key a"
  by (simp add: host_key_def)

lemma host_reserve_change: "host_inv s \<Longrightarrow> host_change s (snd (host_reserve i s))"
proof (cases "js_get s (host_key (hv_audit i))")
  case None
  then show ?thesis
    using host_change.created [of s "\<lparr>he_audit = hv_audit i, he_attemptId = hv_attemptId i,
      he_fingerprint = hv_fingerprint i, he_reservedUntil = hv_reservedUntil i, he_result = None, he_state = HostReserved\<rparr>"]
    by (simp add: host_reserve_def Let_def host_change.unchanged)
next
  case (Some r)
  assume "host_inv s"
  with Some have ok: "entry_ok (host_key (hv_audit i)) r" by (simp add: host_inv_def)
  let ?done = "r\<lparr>he_result := Some (abandonedDispatchResult (he_audit r) (hv_reservedAt i)), he_state := HostTerminal\<rparr>"
  let ?new = "r\<lparr>he_audit := (he_audit r)\<lparr>ha_policyExpiresAt := ha_policyExpiresAt (hv_audit i)\<rparr>,
    he_attemptId := hv_attemptId i, he_reservedUntil := hv_reservedUntil i\<rparr>"
  have done': "host_change s (js_set s (host_key (hv_audit i)) ?done)"
    if "he_state r = HostDispatching" "he_result r = None"
    by (rule host_change.moved [OF Some host_move.finished])
      (use that ok in \<open>simp_all add: entry_ok_def abandonedDispatchResult_def\<close>)
  have new: "host_change s (js_set s (host_key (hv_audit i)) ?new)"
    if "he_state r \<noteq> HostDispatching" "he_result r = None"
    by (rule host_change.moved [OF Some host_move.renewed])
      (use that ok in \<open>cases "he_state r"; simp add: entry_ok_def\<close>)+
  show ?thesis
    using done' new by (simp add: host_reserve_def Some Let_def host_change.unchanged split: option.split)
qed

lemma host_dispatch_change: "host_inv s \<Longrightarrow> host_change s (snd (host_markDispatchAttempted i s))"
proof (cases "require_entry (hd_audit i) (hd_fingerprint i) s")
  case (Inr r)
  let ?s1 = "js_update_values (close_abandoned i) s" and ?k = "host_key (hd_audit i)"
  have at: "js_get ?s1 ?k = Some (close_abandoned i r)" and same: "same_host i (close_abandoned i r)"
    using Inr by (auto elim!: require_entryE dest!: sameAuditD simp: same_host_def close_abandoned_def)
  show ?thesis
    using host_change.dispatch [OF refl at _ same _ refl]
    by (auto simp: host_markDispatchAttempted_def Inr Let_def intro: host_change.closed)
qed (simp add: host_markDispatchAttempted_def host_change.unchanged)

lemma host_finish_change: "host_inv s \<Longrightarrow> host_change s (snd (host_finish_operation i s))"
proof (cases "require_entry (hf_audit i) (hf_fingerprint i) s")
  case (Inr r)
  then have r: "js_get s (host_key (hf_audit i)) = Some r" by (auto elim: require_entryE)
  assume "host_inv s"
  with r have ok: "entry_ok (host_key (hf_audit i)) r" by (simp add: host_inv_def)
  have "host_change s (js_set s (host_key (hf_audit i)) (r\<lparr>he_result := Some (hf_result i), he_state := HostTerminal\<rparr>))"
    if "he_result r = None" "hr_state (hf_result i) = HostCompleted \<longrightarrow> he_state r = HostDispatching"
    by (rule host_change.moved [OF r host_move.finished]) (use that ok in \<open>simp_all add: entry_ok_def\<close>)
  then show ?thesis
    by (auto simp: host_finish_operation_def Inr host_change.unchanged split: option.split)
qed (simp add: host_finish_operation_def host_change.unchanged)

lemma host_step_change: "host_inv s \<Longrightarrow> host_change s (snd (host_step op s))"
  by (cases op) (simp_all add: host_reserve_change host_dispatch_change host_finish_change)

end
