(* ===== verification/HostProperties.thy ===== *)
theory HostProperties
  imports HostControl
begin

text \<open>
  What the host control store keeps: at most one running dispatch per host, and the life of an
  operation from its reservation to a result that no later call changes.
\<close>

section \<open>The invariant\<close>

lemma change_move:
  assumes "host_change s s'" and "host_inv s" and "js_get s l = Some q"
  shows "\<exists>q'. js_get s' l = Some q' \<and> host_move q q'"
  using assms
proof (cases rule: host_change.cases)
  case (closed i)
  with assms close_abandoned_move [of l q i] show ?thesis by (auto simp: host_inv_def)
next
  case (moved k r r')
  with assms show ?thesis by (cases "l = k") (auto intro: host_move.same)
next
  case (dispatch s1 i k r r' x u)
  from assms have ok: "entry_ok l q" by (simp add: host_inv_def)
  show ?thesis
  proof (cases "l = k")
    case True
    with dispatch assms have "r = close_abandoned i q" by simp
    with dispatch(4) have "r = q" by (auto simp: close_abandoned_def split: if_splits)
    with True dispatch show ?thesis by (auto intro: host_move.dispatched)
  next
    case False
    with dispatch assms close_abandoned_move [OF ok, of i] show ?thesis by simp
  qed
qed (auto intro: host_move.same)

lemma host_move_ok: "entry_ok k r \<Longrightarrow> host_move r r' \<Longrightarrow> entry_ok k r'"
  by (auto simp: entry_ok_def elim!: host_move.cases)

lemma change_entries:
  assumes "host_change s s'" and "host_inv s"
  shows "js_wf s'" and "js_get s' k = Some e \<Longrightarrow> entry_ok k e"
proof -
  show "js_wf s'"
    using assms by cases (auto simp: host_inv_def)
  assume e: "js_get s' k = Some e"
  show "entry_ok k e"
  proof (cases "js_get s k")
    case (Some q)
    with change_move [OF assms this] e have "host_move q e" by auto
    moreover from Some assms(2) have "entry_ok k q" by (simp add: host_inv_def)
    ultimately show ?thesis by (rule host_move_ok [rotated])
  next
    case None
    with assms(1) e show ?thesis
      by cases (auto simp: entry_ok_def split: if_splits)
  qed
qed

text \<open>A dispatch in the new store was one before, or it is the one just made, alone for its host.\<close>

lemma change_dispatching:
  assumes "host_change s s'" and "host_inv s" and "js_get s' k = Some r" and "dispatching_for owner host r"
  shows "js_get s k = Some r \<or>
    (\<forall>l q. js_get s' l = Some q \<longrightarrow> dispatching_for owner host q \<longrightarrow> l = k)"
  using assms
proof (cases rule: host_change.cases)
  case (closed i)
  with assms show ?thesis by (auto dest: close_abandoned_dispatching)
next
  case (created e)
  with assms show ?thesis by (auto simp: dispatching_for_def split: if_splits)
next
  case (moved j e e')
  with assms show ?thesis by (auto simp: dispatching_for_def split: if_splits)
next
  case (dispatch s1 i j e e' x u)
  show ?thesis
  proof (cases "k = j")
    case False
    with dispatch assms(3) obtain z where z: "js_get s k = Some z" "r = close_abandoned i z" by auto
    from assms(4) z(2) have "dispatching_for owner host (close_abandoned i z)" by (simp only:)
    then have "close_abandoned i z = z" by (rule close_abandoned_dispatching [THEN conjunct2])
    with z show ?thesis by simp
  next
    case True
    with dispatch assms(3,4) have host: "ha_ownerUserId (hd_audit i) = owner" "ha_hostId (hd_audit i) = host"
      by (auto simp: dispatching_for_def same_host_def)
    have "l = k" if "js_get s' l = Some q" "dispatching_for owner host q" for l q
    proof (rule ccontr)
      assume "l \<noteq> k"
      with that(1) True have "js_get s1 l = Some q" unfolding dispatch(1) by simp
      then have "(l, q) \<in> set s1" by (rule map_of_SomeD)
      with dispatch(6) \<open>l \<noteq> k\<close> True that host show False
        by (auto simp: list_ex_iff dispatching_for_def same_host_def)
    qed
    then show ?thesis by blast
  qed
qed auto

lemma change_inv:
  assumes "host_change s s'" and "host_inv s"
  shows "host_inv s'"
proof -
  have "one_dispatch s'"
    unfolding one_dispatch_def
  proof (intro allI impI)
    fix k l r q owner host
    assume a: "js_get s' k = Some r" "js_get s' l = Some q" "dispatching_for owner host r" "dispatching_for owner host q"
    from change_dispatching [OF assms a(1,3)] change_dispatching [OF assms a(2,4)] a
    show "k = l"
    proof (elim disjE)
      assume "js_get s k = Some r" "js_get s l = Some q"
      with a(3,4) assms(2) show ?thesis unfolding host_inv_def one_dispatch_def by blast
    qed blast+
  qed
  with change_entries [OF assms] show ?thesis by (simp add: host_inv_def)
qed

interpretation host: invariant_store host_step host_inv
  by unfold_locales (blast intro: change_inv host_step_change)

lemma host_inv_empty: "host_inv []"
  by (simp add: host_inv_def one_dispatch_def)

lemmas host_run_inv = host.run_inv [OF host_inv_empty]

section \<open>Properties\<close>

text \<open>C37: Whatever is called, a host of an owner has at most one operation that is being dispatched.\<close>

theorem host_one_dispatch:
  "length (filter (\<lambda>e. he_state e = HostDispatching \<and> ha_ownerUserId (he_audit e) = owner \<and>
     ha_hostId (he_audit e) = host) (js_values (run_state host_step ops []))) \<le> 1"
proof (rule at_most_one_value)
  show "js_wf (run_state host_step ops [])"
    using host_run_inv unfolding host_inv_def by blast
next
  fix k l r q
  assume "js_get (run_state host_step ops []) k = Some r" "js_get (run_state host_step ops []) l = Some q"
    and "he_state r = HostDispatching \<and> ha_ownerUserId (he_audit r) = owner \<and> ha_hostId (he_audit r) = host"
    and "he_state q = HostDispatching \<and> ha_ownerUserId (he_audit q) = owner \<and> ha_hostId (he_audit q) = host"
  with host_run_inv [of ops] show "k = l"
    unfolding host_inv_def one_dispatch_def dispatching_for_def by blast
qed

text \<open>An operation only moves along its life, whatever is called: its reservation may be renewed or
  dispatched, a completed result needs a dispatch, and once it has a result nothing of it changes any more;
  its identity and fingerprint never change.\<close>

theorem host_operation_life:
  assumes "js_get (run_state host_step ops []) k = Some r"
  shows "\<exists>r'. js_get (run_state host_step (ops @ [op]) []) k = Some r' \<and>
    (he_result r \<noteq> None \<longrightarrow> r' = r) \<and>
    (he_result r = None \<and> map_option hr_state (he_result r') = Some HostCompleted \<longrightarrow> he_state r = HostDispatching) \<and>
    (he_state r = HostDispatching \<longrightarrow> he_state r' \<noteq> HostReserved) \<and>
    he_fingerprint r' = he_fingerprint r \<and> sameAudit (he_audit r) (he_audit r')"
proof -
  let ?s = "run_state host_step ops []"
  from change_move [OF host_step_change [OF host_run_inv] host_run_inv assms]
  obtain r' where r': "js_get (snd (host_step op ?s)) k = Some r'" and m: "host_move r r'" by blast
  from assms host_run_inv [of ops] have ok: "he_result r = None \<longleftrightarrow> he_state r \<noteq> HostTerminal"
    by (simp add: host_inv_def entry_ok_def)
  have "(he_result r \<noteq> None \<longrightarrow> r' = r) \<and>
    (he_result r = None \<and> map_option hr_state (he_result r') = Some HostCompleted \<longrightarrow> he_state r = HostDispatching) \<and>
    (he_state r = HostDispatching \<longrightarrow> he_state r' \<noteq> HostReserved) \<and>
    he_fingerprint r' = he_fingerprint r \<and> sameAudit (he_audit r) (he_audit r')"
    using m ok by cases (auto simp: sameAudit_iff)
  with r' show ?thesis by (simp add: run_state_append)
qed

definition example_audit :: "string \<Rightarrow> host_audit" where
  "example_audit opId = \<lparr>ha_actorId = ''u'', ha_actorKind = HumanActor, ha_approvalId = None,
     ha_auditId = ''a'', ha_bindingRevision = ''1'', ha_capability = ''host.power.on'',
     ha_effectiveRisk = StandardRisk, ha_hostId = ''h'', ha_operationId = opId, ha_ownerUserId = ''u'',
     ha_policyDecisionId = ''p'', ha_policyExpiresAt = ''2026-01-02T00:00:00.000Z'', ha_providerId = ''jet''\<rparr>"

definition example_reservation :: host_reservation where
  "example_reservation = \<lparr>hv_audit = example_audit ''o'', hv_attemptId = ''t'', hv_fingerprint = ''f'',
     hv_rateLimit = 30, hv_reservedAt = ''2026-01-01T00:00:00.000Z'', hv_reservedUntil = ''2026-01-01T00:00:30.000Z''\<rparr>"

definition example_finish :: host_finish where
  "example_finish = \<lparr>hf_audit = example_audit ''o'', hf_attemptId = ''t'', hf_fingerprint = ''f'',
     hf_result = (abandonedDispatchResult (example_audit ''o'') ''2026-01-01T00:01:00.000Z'')\<lparr>hr_state := HostCompleted\<rparr>\<rparr>"

text \<open>A reserved operation that was never dispatched is not completed by \<open>finish\<close>.\<close>

theorem host_operation_life_witness:
  "\<exists>r r'. js_get (run_state host_step [HReserve example_reservation] []) (host_key (example_audit ''o'')) = Some r \<and>
     js_get (run_state host_step [HReserve example_reservation, HFinish example_finish] [])
       (host_key (example_audit ''o'')) = Some r' \<and> he_state r = HostReserved \<and>
     map_option hr_state (he_result r') \<noteq> Some HostCompleted"
proof -
  have "js_get (run_state host_step [HReserve example_reservation] []) (host_key (example_audit ''o'')) =
      Some \<lparr>he_audit = example_audit ''o'', he_attemptId = ''t'', he_fingerprint = ''f'',
        he_reservedUntil = ''2026-01-01T00:00:30.000Z'', he_result = None, he_state = HostReserved\<rparr>"
    by (simp add: host_reserve_def example_reservation_def console_capability_def example_audit_def)
  from host_operation_life [OF this, of "HFinish example_finish"] this show ?thesis
    by force
qed

end
