(* ===== verification/SshGateway.thy ===== *)
theory SshGateway
  imports Contracts JS_Value
begin

text \<open>
  The operation store of the SSH control gateway (\<open>server/ssh-control-gateway/contracts.ts\<close>,
  \<open>store-validation.ts\<close> and \<open>memory-store.ts\<close>): an operation on a target environment is reserved,
  dispatched under a lease, completed or found uncertain and reconciled; while it is open its target
  is fenced for other operations of the owner. The clock is an argument.
\<close>

section \<open>Records\<close>

datatype gateway_actor_kind = GatewayHuman | GatewayMachine

datatype audit_outcome = OutcomeAccepted | OutcomeFailed | OutcomeSucceeded | OutcomeUncertain

datatype ssh_state = SshReserved | SshDispatching | SshSucceeded | SshFailed | SshIncompatible | SshUncertain

record ssh_audit =
  sa_actorId :: string
  sa_actorKind :: gateway_actor_kind
  sa_capability :: string
  sa_completedAt :: "string option"
  sa_operation :: string
  sa_operationId :: string
  sa_outcome :: audit_outcome
  sa_gatewayId :: string
  sa_routeClass :: string
  sa_routeId :: string
  sa_targetEnvironmentId :: string
  sa_targetIdentityRevision :: string

datatype runtime_mode = ProcessMode | DevcontainerMode

datatype gateway_runtime_state =
    GwStarting | GwRunning | GwSuspending | GwSuspended | GwResuming | GwStopping | GwStopped
  | GwCleaning | GwStale | GwFailed

text \<open>The disposition of a Runtime result is the value as it was parsed, \<open>VUndefined\<close> when it is absent.\<close>

record runtime_payload =
  rp_disposition :: jsval
  rp_generation :: "string option"
  rp_manifestDigest :: string
  rp_mode :: runtime_mode
  rp_sourceHead :: string
  rp_state :: gateway_runtime_state
  rp_workspaceId :: string

record worktree_payload =
  wp_branch :: string
  wp_commit :: string
  wp_workspaceId :: string

text \<open>The three results share the fields the store reads; \<open>ssh_payload\<close> holds the rest.\<close>

datatype ssh_payload = StatusReady | RuntimeControlled string runtime_payload | WorktreePrepared worktree_payload

record ssh_result =
  sr_checkedAt :: string
  sr_operationId :: string
  sr_targetIdentityRevision :: string
  sr_payload :: ssh_payload

record ssh_record =
  sc_audit :: ssh_audit
  sc_fingerprint :: string
  sc_result :: "ssh_result option"
  sc_state :: ssh_state

record ssh_store =
  ss_records :: "(string, ssh_record) jsmap"
  ss_activeTargets :: "(string, string) jsmap"
  ss_dispatchLeases :: "(string, int) jsmap"

definition empty_ssh_store :: ssh_store where
  "empty_ssh_store = \<lparr>ss_records = [], ss_activeTargets = [], ss_dispatchLeases = []\<rparr>"

datatype ssh_error = SshOperationConflict | SshOperationInProgress

record ssh_reservation =
  sv_audit :: ssh_audit
  sv_fingerprint :: string
  sv_operationId :: string
  sv_ownerUserId :: string
  sv_targetEnvironmentId :: string

record ssh_dispatch =
  sd_fingerprint :: string
  sd_operationId :: string
  sd_ownerUserId :: string

record ssh_completion =
  sp_audit :: ssh_audit
  sp_fingerprint :: string
  sp_operationId :: string
  sp_ownerUserId :: string
  sp_result :: "ssh_result option"
  sp_state :: ssh_state

section \<open>Validation\<close>

text \<open>\<open>/^[0-9a-f]{8}-[0-9a-f]{4}-[1-8][0-9a-f]{3}-[89ab][0-9a-f]{3}-[0-9a-f]{12}$/i\<close>\<close>

definition isUuid :: "string \<Rightarrow> bool" where
  "isUuid = class_seq
     (replicate 8 is_hex @ [(=) (CHR ''-'')] @ replicate 4 is_hex @ [(=) (CHR ''-'')] @
      [in_range (CHR ''1'') (CHR ''8'')] @ replicate 3 is_hex @ [(=) (CHR ''-'')] @
      [(\<lambda>c. c \<in> set ''89abAB'')] @ replicate 3 is_hex @ [(=) (CHR ''-'')] @ replicate 12 is_hex)"

definition id_char :: "char \<Rightarrow> bool" where
  "id_char c \<longleftrightarrow> is_alnum c \<or> c \<in> set '':._-''"

definition safeIdentity :: "string \<Rightarrow> bool" where
  "safeIdentity value \<longleftrightarrow>
     value = js_trim value \<and> class_rep (\<lambda>c. id_char c \<or> c = CHR ''@'') 1 256 value"

definition ssh_operations :: "string list" where
  "ssh_operations =
     [''status.v1'', ''workspace-runtime.start.v1'', ''workspace-runtime.inspect.v1'',
      ''workspace-runtime.suspend.v1'', ''workspace-runtime.resume.v1'', ''workspace-runtime.stop.v1'',
      ''workspace-runtime.clean.v1'', ''workspace-runtime.reconcile.v1'', ''worktree.prepare.v1'']"

definition validateReservation :: "ssh_reservation \<Rightarrow> ssh_error option" where
  "validateReservation i =
     (let audit = sv_audit i
      in if sv_operationId i \<noteq> sa_operationId audit \<or>
            sv_targetEnvironmentId i \<noteq> sa_targetEnvironmentId audit \<or>
            sa_capability audit \<noteq> ''project_cli'' \<or> sa_routeClass audit \<noteq> ''ssh_private_network'' \<or>
            sa_operation audit \<notin> set ssh_operations \<or>
            sa_outcome audit \<noteq> OutcomeAccepted \<or> truthy (sa_completedAt audit) \<or>
            \<not> isUuid (sv_targetEnvironmentId i) \<or> \<not> isUuid (sa_routeId audit) \<or>
            \<not> class_rep id_char 1 256 (sv_operationId i) \<or>
            \<not> class_rep is_lower_hex 64 64 (sv_fingerprint i) \<or>
            \<not> safeIdentity (sv_ownerUserId i) \<or> \<not> safeIdentity (sa_actorId audit) \<or>
            \<not> safeIdentity (sa_gatewayId audit) \<or> \<not> safeIdentity (sa_targetIdentityRevision audit)
         then Some SshOperationConflict else None)"

section \<open>Methods\<close>

definition colon_key :: "string \<Rightarrow> string \<Rightarrow> string" where
  "colon_key owner i = owner @ CHR '':'' # i"

definition ssh_reserve ::
    "ssh_reservation \<Rightarrow> ssh_store \<Rightarrow> (ssh_error + ssh_record \<times> bool) \<times> ssh_store" where
  "ssh_reserve i s =
     (case validateReservation i of
        Some e \<Rightarrow> (Inl e, s)
      | None \<Rightarrow>
          let key = colon_key (sv_ownerUserId i) (sv_operationId i);
              targetKey = colon_key (sv_ownerUserId i) (sv_targetEnvironmentId i)
          in (case js_get (ss_records s) key of
                Some current \<Rightarrow>
                  if sc_fingerprint current \<noteq> sv_fingerprint i then (Inl SshOperationConflict, s)
                  else (Inr (current, True), s)
              | None \<Rightarrow>
                  if js_has (ss_activeTargets s) targetKey then (Inl SshOperationInProgress, s)
                  else
                    let r = \<lparr>sc_audit = sv_audit i, sc_fingerprint = sv_fingerprint i,
                             sc_result = None, sc_state = SshReserved\<rparr>
                    in (Inr (r, False),
                        s\<lparr>ss_records := js_set (ss_records s) key r,
                          ss_activeTargets := js_set (ss_activeTargets s) targetKey key\<rparr>)))"

definition ssh_markDispatchAttempted ::
    "int \<Rightarrow> ssh_dispatch \<Rightarrow> ssh_store \<Rightarrow> (ssh_error + unit) \<times> ssh_store" where
  "ssh_markDispatchAttempted now i s =
     (let key = colon_key (sd_ownerUserId i) (sd_operationId i)
      in case js_get (ss_records s) key of
        None \<Rightarrow> (Inl SshOperationConflict, s)
      | Some r \<Rightarrow>
          if sc_fingerprint r \<noteq> sd_fingerprint i \<or> sc_state r \<noteq> SshReserved
          then (Inl SshOperationConflict, s)
          else (Inr (), s\<lparr>ss_records := js_set (ss_records s) key (r\<lparr>sc_state := SshDispatching\<rparr>),
                          ss_dispatchLeases := js_set (ss_dispatchLeases s) key (now + 60000)\<rparr>))"

definition ssh_read :: "string \<Rightarrow> string \<Rightarrow> ssh_store \<Rightarrow> ssh_record option" where
  "ssh_read owner operationId s = js_get (ss_records s) (colon_key owner operationId)"

definition completedAudit :: "ssh_audit \<Rightarrow> ssh_audit \<Rightarrow> ssh_state \<Rightarrow> ssh_audit" where
  "completedAudit current i st = current\<lparr>
     sa_completedAt := (if truthy (sa_completedAt i) then sa_completedAt i else sa_completedAt current),
     sa_outcome := (if st = SshSucceeded then OutcomeSucceeded else OutcomeFailed)\<rparr>"

definition assertResultBinding :: "ssh_record \<Rightarrow> ssh_result option \<Rightarrow> ssh_state \<Rightarrow> ssh_error option" where
  "assertResultBinding r result st =
     (if (st = SshSucceeded) \<noteq> (result \<noteq> None) \<or>
         (case result of None \<Rightarrow> False
          | Some res \<Rightarrow> sr_operationId res \<noteq> sa_operationId (sc_audit r) \<or>
              sr_targetIdentityRevision res \<noteq> sa_targetIdentityRevision (sc_audit r))
      then Some SshOperationConflict else None)"

text \<open>The record and store that \<open>complete\<close> and \<open>reconcile\<close> write.\<close>

definition completed_record :: "ssh_record \<Rightarrow> ssh_completion \<Rightarrow> ssh_record" where
  "completed_record current i = current\<lparr>
     sc_audit := completedAudit (sc_audit current) (sp_audit i) (sp_state i),
     sc_result := (case sp_result i of None \<Rightarrow> sc_result current | Some r \<Rightarrow> Some r),
     sc_state := sp_state i\<rparr>"

definition write_completed :: "string \<Rightarrow> ssh_completion \<Rightarrow> bool \<Rightarrow> ssh_record \<Rightarrow> ssh_store \<Rightarrow> ssh_store" where
  "write_completed key i release r s =
     s\<lparr>ss_records := js_set (ss_records s) key r,
       ss_dispatchLeases := js_delete (ss_dispatchLeases s) key,
       ss_activeTargets := (if release
         then js_delete (ss_activeTargets s)
           (colon_key (sp_ownerUserId i) (sa_targetEnvironmentId (sc_audit r)))
         else ss_activeTargets s)\<rparr>"

definition ssh_complete ::
    "ssh_completion \<Rightarrow> ssh_store \<Rightarrow> (ssh_error + ssh_record) \<times> ssh_store" where
  "ssh_complete i s =
     (let key = colon_key (sp_ownerUserId i) (sp_operationId i);
          requiresDispatch = sp_state i \<in> {SshSucceeded, SshIncompatible, SshUncertain}
      in case js_get (ss_records s) key of
        None \<Rightarrow> (Inl SshOperationConflict, s)
      | Some current \<Rightarrow>
          if sc_fingerprint current \<noteq> sp_fingerprint i \<or>
             sc_state current \<notin> {SshReserved, SshDispatching} \<or>
             (requiresDispatch \<and> sc_state current \<noteq> SshDispatching)
          then (Inl SshOperationConflict, s)
          else if (sp_state i = SshSucceeded \<or> sp_state i = SshUncertain) \<and>
            sc_state current \<noteq> SshDispatching
          then (Inl SshOperationConflict, s)
          else (case assertResultBinding current (sp_result i) (sp_state i) of
              Some e \<Rightarrow> (Inl e, s)
            | None \<Rightarrow>
                let r = completed_record current i
                in (Inr r, write_completed key i (sp_state i \<noteq> SshUncertain) r s)))"

definition ssh_reconcile ::
    "int \<Rightarrow> ssh_completion \<Rightarrow> ssh_store \<Rightarrow> (ssh_error + ssh_record) \<times> ssh_store" where
  "ssh_reconcile now i s =
     (let key = colon_key (sp_ownerUserId i) (sp_operationId i)
      in case js_get (ss_records s) key of
        None \<Rightarrow> (Inl SshOperationConflict, s)
      | Some current \<Rightarrow>
          let dispatchLeaseExpired = sc_state current = SshDispatching \<and>
                (case js_get (ss_dispatchLeases s) key of None \<Rightarrow> False | Some until \<Rightarrow> until \<le> now)
          in if sc_fingerprint current \<noteq> sp_fingerprint i \<or>
                sc_state current \<noteq> SshUncertain \<and> \<not> dispatchLeaseExpired
             then (Inl SshOperationConflict, s)
             else (case assertResultBinding current (sp_result i) (sp_state i) of
                 Some e \<Rightarrow> (Inl e, s)
               | None \<Rightarrow>
                   let r = completed_record current i
                   in (Inr r, write_completed key i True r s)))"

section \<open>Calls\<close>

text \<open>The types admit four states for \<open>complete\<close> and two for \<open>reconcile\<close>.\<close>

datatype ssh_call =
    SshReserve ssh_reservation
  | SshDispatch int ssh_dispatch
  | SshComplete ssh_completion
  | SshReconcile int ssh_completion

fun ssh_call_typed :: "ssh_call \<Rightarrow> bool" where
  "ssh_call_typed (SshComplete i) \<longleftrightarrow> sp_state i \<in> {SshSucceeded, SshFailed, SshIncompatible, SshUncertain}"
| "ssh_call_typed (SshReconcile now i) \<longleftrightarrow> sp_state i \<in> {SshSucceeded, SshFailed}"
| "ssh_call_typed op \<longleftrightarrow> True"

fun ssh_call_owner :: "ssh_call \<Rightarrow> string" where
  "ssh_call_owner (SshReserve i) = sv_ownerUserId i"
| "ssh_call_owner (SshDispatch now i) = sd_ownerUserId i"
| "ssh_call_owner (SshComplete i) = sp_ownerUserId i"
| "ssh_call_owner (SshReconcile now i) = sp_ownerUserId i"

datatype ssh_answer =
    SshReservedAnswer "ssh_error + ssh_record \<times> bool"
  | SshDispatchedAnswer "ssh_error + unit"
  | SshCompletedAnswer "ssh_error + ssh_record"

fun ssh_step :: "ssh_call \<Rightarrow> ssh_store \<Rightarrow> ssh_answer \<times> ssh_store" where
  "ssh_step (SshReserve i) s = map_prod SshReservedAnswer id (ssh_reserve i s)"
| "ssh_step (SshDispatch now i) s = map_prod SshDispatchedAnswer id (ssh_markDispatchAttempted now i s)"
| "ssh_step (SshComplete i) s = map_prod SshCompletedAnswer id (ssh_complete i s)"
| "ssh_step (SshReconcile now i) s = map_prod SshCompletedAnswer id (ssh_reconcile now i s)"

definition ssh_call_ok :: "ssh_call \<Rightarrow> bool" where
  "ssh_call_ok op \<longleftrightarrow> ssh_call_typed op \<and> CHR '':'' \<notin> set (ssh_call_owner op)"

end
