(* ===== verification/SshRequest.thy ===== *)
theory SshRequest
  imports SshGateway RuntimeWire
begin

text \<open>
  Requests of the SSH gateway: the request and its checks in
  \<open>server/ssh-control-gateway/request-validation.ts\<close>, and how the HTTP routes of \<open>http.ts\<close> read a body. The
  URL parser is the parameter \<open>parse_url\<close>, as for the Runtime's messages, with the path of the URL.
\<close>

section \<open>Requests\<close>

record gateway_actor =
  ga_id :: string
  ga_kind :: gateway_actor_kind
  ga_ownerUserId :: string

record gateway_request =
  gr_branch :: "string option"
  gr_commit :: "string option"
  gr_environmentId :: string
  gr_operation :: string
  gr_operationId :: string
  gr_expectedBranch :: "string option"
  gr_expectedCommit :: "string option"
  gr_expectedGeneration :: "string option"
  gr_expectedManifestDigest :: "string option"
  gr_expectedRuntimeVersion :: "string option"
  gr_mode :: "runtime_mode option"
  gr_repository :: "string option"
  gr_runtimeSessionCapabilities :: "string list option"
  gr_runtimeSessionEndpoint :: "string option"
  gr_runtimeSessionExpiresAt :: "string option"
  gr_runtimeSessionOwnerUserId :: "string option"
  gr_runtimeSessionRequestedCapabilities :: "string list option"
  gr_runtimeSessionToken :: "string option"
  gr_runtimeSessionVersion :: "string option"
  gr_worktreeOwnerThreadId :: "string option"
  gr_workspaceId :: "string option"

record endpoint_parts = url_parts +
  ep_pathname :: string

text \<open>\<open>pattern.test(value ?? '')\<close> and \<open>isUuid\<close> of an optional value.\<close>

definition text_test :: "(string \<Rightarrow> bool) \<Rightarrow> string option \<Rightarrow> bool" where
  "text_test p value = p (case value of None \<Rightarrow> [] | Some s \<Rightarrow> s)"

definition some_uuid :: "string option \<Rightarrow> bool" where
  "some_uuid value = (case value of None \<Rightarrow> False | Some s \<Rightarrow> isUuid s)"

definition gateway_id_pattern :: "string \<Rightarrow> bool" where
  "gateway_id_pattern = class_rep id_char 1 256"

definition version_text :: "string \<Rightarrow> bool" where
  "version_text = class_rep (\<lambda>c. is_alnum c \<or> c \<in> set ''._+-'') 1 64"

definition plain_text :: "nat \<Rightarrow> string \<Rightarrow> bool" where
  "plain_text maximum = class_rep (\<lambda>c. \<not> control_char c) 1 maximum"

definition gateway_repository :: "string \<Rightarrow> bool" where
  "gateway_repository s =
     (let owner = takeWhile (\<lambda>c. c \<noteq> CHR ''/'') s; rest = dropWhile (\<lambda>c. c \<noteq> CHR ''/'') s
      in class_rep repo_char 1 100 owner \<and> rest \<noteq> [] \<and> class_rep repo_char 1 100 (tl rest))"

definition workspace_operations :: "string list" where
  "workspace_operations =
     [''workspace-runtime.start.v1'', ''workspace-runtime.inspect.v1'', ''workspace-runtime.suspend.v1'',
      ''workspace-runtime.resume.v1'', ''workspace-runtime.stop.v1'', ''workspace-runtime.clean.v1'',
      ''workspace-runtime.reconcile.v1'']"

section \<open>Checks\<close>

definition validRuntimeAuthority :: "gateway_request \<Rightarrow> bool" where
  "validRuntimeAuthority r \<longleftrightarrow>
     text_test (plain_text 256) (gr_expectedBranch r) \<and> text_test version_text (gr_expectedRuntimeVersion r)"

definition runtimeAuthorityPresent :: "gateway_request \<Rightarrow> bool" where
  "runtimeAuthorityPresent r \<longleftrightarrow> gr_expectedBranch r \<noteq> None \<or> gr_expectedRuntimeVersion r \<noteq> None"

definition runtimeSessionValuesPresent :: "gateway_request \<Rightarrow> bool" where
  "runtimeSessionValuesPresent r \<longleftrightarrow>
     gr_runtimeSessionEndpoint r \<noteq> None \<or> gr_runtimeSessionToken r \<noteq> None \<or>
     gr_runtimeSessionExpiresAt r \<noteq> None \<or> gr_runtimeSessionVersion r \<noteq> None \<or>
     gr_runtimeSessionCapabilities r \<noteq> None"

definition session_capabilities :: "string list" where
  "session_capabilities = map capability_name [CapLifecycle, CapHeartbeat, CapDevServers, CapTelemetry, CapLogPointers]"

definition requested_capabilities :: "string list" where
  "requested_capabilities = map capability_name [CapCodex, CapControl, CapMutation]"

definition endpoint_ok :: "endpoint_parts \<Rightarrow> bool" where
  "endpoint_ok u \<longleftrightarrow> url_protocol u = ''wss:'' \<and> ep_pathname u = ''/api/workspace-runtimes/socket'' \<and>
     url_username u = [] \<and> url_password u = [] \<and> url_search u = [] \<and> url_hash u = []"

definition expires_ok :: "int \<Rightarrow> string option \<Rightarrow> bool" where
  "expires_ok now value =
     (case date_parse (case value of None \<Rightarrow> [] | Some s \<Rightarrow> s) of
        None \<Rightarrow> False | Some expiresAt \<Rightarrow> now < expiresAt \<and> expiresAt \<le> now + 3600000)"

definition capabilities_ok :: "string list option \<Rightarrow> bool" where
  "capabilities_ok value =
     (case value of
        None \<Rightarrow> False
      | Some cs \<Rightarrow> 2 \<le> length cs \<and> length cs \<le> length session_capabilities \<and> distinct cs \<and>
          set cs \<subseteq> set session_capabilities \<and> capability_name CapLifecycle \<in> set cs \<and>
          capability_name CapHeartbeat \<in> set cs)"

definition validRuntimeSessionRequest ::
    "(string \<Rightarrow> endpoint_parts option) \<Rightarrow> int \<Rightarrow> gateway_request \<Rightarrow> bool" where
  "validRuntimeSessionRequest parse_url now r =
     (case parse_url (case gr_runtimeSessionEndpoint r of None \<Rightarrow> [] | Some s \<Rightarrow> s) of
        None \<Rightarrow> False
      | Some endpoint \<Rightarrow>
          let requested = (case gr_runtimeSessionRequestedCapabilities r of None \<Rightarrow> [] | Some cs \<Rightarrow> cs);
              mutation = capability_name CapMutation \<in> set requested
          in endpoint_ok endpoint \<and>
             text_test (class_rep (\<lambda>c. is_alnum c \<or> c \<in> set ''_-'') 43 43) (gr_runtimeSessionToken r) \<and>
             text_test version_text (gr_runtimeSessionVersion r) \<and>
             expires_ok now (gr_runtimeSessionExpiresAt r) \<and>
             capabilities_ok (gr_runtimeSessionCapabilities r) \<and>
             1 \<le> length requested \<and> length requested \<le> length requested_capabilities \<and>
             distinct requested \<and> set requested \<subseteq> set requested_capabilities \<and>
             (mutation \<longrightarrow> capability_name CapControl \<in> set requested \<and> some_uuid (gr_worktreeOwnerThreadId r)) \<and>
             (\<not> mutation \<longrightarrow> gr_worktreeOwnerThreadId r = None))"

definition validWorktreePrepare :: "gateway_request \<Rightarrow> bool" where
  "validWorktreePrepare r \<longleftrightarrow>
     some_uuid (gr_workspaceId r) \<and> some_uuid (gr_worktreeOwnerThreadId r) \<and>
     text_test gateway_repository (gr_repository r) \<and> text_test (plain_text 255) (gr_branch r) \<and>
     text_test commit_pattern (gr_commit r) \<and>
     gr_expectedBranch r = None \<and> gr_expectedCommit r = None \<and> gr_expectedGeneration r = None \<and>
     gr_expectedManifestDigest r = None \<and> gr_expectedRuntimeVersion r = None \<and> gr_mode r = None \<and>
     \<not> runtimeSessionValuesPresent r"

definition validOperationRequest :: "(string \<Rightarrow> endpoint_parts option) \<Rightarrow> int \<Rightarrow> gateway_request \<Rightarrow> bool" where
  "validOperationRequest parse_url now r =
     (if gr_operation r = ''worktree.prepare.v1'' then validWorktreePrepare r
      else if gr_operation r = ''status.v1'' then
        gr_workspaceId r = None \<and> gr_expectedCommit r = None \<and> gr_expectedManifestDigest r = None \<and>
        gr_expectedGeneration r = None \<and> gr_expectedBranch r = None \<and> gr_expectedRuntimeVersion r = None \<and>
        gr_mode r = None \<and> \<not> runtimeSessionValuesPresent r
      else
        gr_operation r \<in> set workspace_operations \<and> some_uuid (gr_workspaceId r) \<and>
        text_test commit_pattern (gr_expectedCommit r) \<and> text_test digest_pattern (gr_expectedManifestDigest r) \<and>
        gr_mode r \<noteq> None \<and>
        (if gr_operation r = ''workspace-runtime.start.v1'' then
           (if runtimeSessionValuesPresent r
            then some_uuid (gr_expectedGeneration r) \<and> validRuntimeAuthority r \<and>
              validRuntimeSessionRequest parse_url now r
            else gr_expectedGeneration r = None \<and> \<not> runtimeAuthorityPresent r)
         else some_uuid (gr_expectedGeneration r) \<and> \<not> runtimeSessionValuesPresent r \<and> \<not> runtimeAuthorityPresent r))"

text \<open>Both validations throw \<open>operation_conflict\<close> where these are false.\<close>

definition validateRequest ::
    "(string \<Rightarrow> endpoint_parts option) \<Rightarrow> int \<Rightarrow> gateway_actor \<Rightarrow> gateway_request \<Rightarrow> bool" where
  "validateRequest parse_url now actor r \<longleftrightarrow>
     isUuid (gr_environmentId r) \<and> gateway_id_pattern (gr_operationId r) \<and>
     validOperationRequest parse_url now r \<and> ga_id actor \<noteq> [] \<and> ga_ownerUserId actor \<noteq> []"

definition validateReplayRequest :: "gateway_actor \<Rightarrow> gateway_request \<Rightarrow> bool" where
  "validateReplayRequest actor r \<longleftrightarrow>
     (if gr_operation r = ''worktree.prepare.v1''
      then validWorktreePrepare r \<and> ga_id actor \<noteq> [] \<and> ga_ownerUserId actor \<noteq> []
      else gr_operation r = ''workspace-runtime.start.v1'' \<and>
        isUuid (gr_environmentId r) \<and> some_uuid (gr_workspaceId r) \<and> some_uuid (gr_expectedGeneration r) \<and>
        gateway_id_pattern (gr_operationId r) \<and>
        text_test commit_pattern (gr_expectedCommit r) \<and> text_test digest_pattern (gr_expectedManifestDigest r) \<and>
        validRuntimeAuthority r \<and> gr_mode r \<noteq> None \<and>
        \<not> runtimeSessionValuesPresent r \<and> ga_id actor \<noteq> [] \<and> ga_ownerUserId actor \<noteq> [])"

section \<open>Bodies of HTTP requests\<close>

definition empty_request :: "string \<Rightarrow> string \<Rightarrow> string \<Rightarrow> gateway_request" where
  "empty_request environment operation key =
     \<lparr>gr_branch = None, gr_commit = None, gr_environmentId = environment, gr_operation = operation,
      gr_operationId = key, gr_expectedBranch = None, gr_expectedCommit = None, gr_expectedGeneration = None,
      gr_expectedManifestDigest = None, gr_expectedRuntimeVersion = None, gr_mode = None, gr_repository = None,
      gr_runtimeSessionCapabilities = None, gr_runtimeSessionEndpoint = None, gr_runtimeSessionExpiresAt = None,
      gr_runtimeSessionOwnerUserId = None, gr_runtimeSessionRequestedCapabilities = None,
      gr_runtimeSessionToken = None, gr_runtimeSessionVersion = None, gr_worktreeOwnerThreadId = None,
      gr_workspaceId = None\<rparr>"

definition string_when :: "(string \<Rightarrow> bool) \<Rightarrow> jsval \<Rightarrow> string option" where
  "string_when p value = do { s \<leftarrow> as_string value; require (p s); Some s }"

fun mode_of :: "jsval \<Rightarrow> runtime_mode option" where
  "mode_of (VStr s) = (if s = ''process'' then Some ProcessMode
     else if s = ''devcontainer'' then Some DevcontainerMode else None)"
| "mode_of v = None"

definition same_key_text :: "(string \<times> jsval) list \<Rightarrow> string list \<Rightarrow> bool" where
  "same_key_text body expected \<longleftrightarrow> join_nul (sort (object_keys body)) = join_nul (sort expected)"

definition statusRequest :: "(string \<times> jsval) list \<Rightarrow> gateway_request option" where
  "statusRequest body = do {
     require (same_key_text body [''environmentId'', ''operationId'']);
     environment \<leftarrow> string_when isUuid (field body ''environmentId'');
     key \<leftarrow> string_when gateway_id_pattern (field body ''operationId'');
     Some (empty_request environment ''status.v1'' key) }"

definition worktreePrepareRequest :: "(string \<times> jsval) list \<Rightarrow> gateway_request option" where
  "worktreePrepareRequest body = do {
     require (same_key_text body [''branch'', ''commit'', ''environmentId'', ''operationId'', ''repository'',
       ''workspaceId'', ''worktreeOwnerThreadId'']);
     environment \<leftarrow> string_when isUuid (field body ''environmentId'');
     key \<leftarrow> string_when gateway_id_pattern (field body ''operationId'');
     repository \<leftarrow> string_when gateway_repository (field body ''repository'');
     branch \<leftarrow> string_when (plain_text 255) (field body ''branch'');
     commit \<leftarrow> string_when commit_pattern (field body ''commit'');
     workspace \<leftarrow> string_when isUuid (field body ''workspaceId'');
     thread \<leftarrow> string_when isUuid (field body ''worktreeOwnerThreadId'');
     Some ((empty_request environment ''worktree.prepare.v1'' key)
       \<lparr>gr_repository := Some repository, gr_branch := Some branch, gr_commit := Some commit,
        gr_workspaceId := Some workspace, gr_worktreeOwnerThreadId := Some thread\<rparr>) }"

definition body_generation :: "string \<Rightarrow> jsval \<Rightarrow> string option option" where
  "body_generation operation value =
     (if operation = ''workspace-runtime.start.v1'' then do { require (value = VUndefined); Some None }
      else map_option Some (string_when isUuid value))"

definition workspaceRuntimeRequest :: "(string \<times> jsval) list \<Rightarrow> gateway_request option" where
  "workspaceRuntimeRequest body = do {
     require (set (object_keys body) \<subseteq> {''environmentId'', ''expectedCommit'', ''expectedGeneration'',
       ''expectedManifestDigest'', ''mode'', ''operation'', ''operationId'', ''workspaceId''});
     environment \<leftarrow> string_when isUuid (field body ''environmentId'');
     workspace \<leftarrow> string_when isUuid (field body ''workspaceId'');
     key \<leftarrow> string_when gateway_id_pattern (field body ''operationId'');
     operation \<leftarrow> string_when (\<lambda>s. s \<in> set workspace_operations) (field body ''operation'');
     commit \<leftarrow> string_when commit_pattern (field body ''expectedCommit'');
     digest \<leftarrow> string_when digest_pattern (field body ''expectedManifestDigest'');
     mode \<leftarrow> mode_of (field body ''mode'');
     generation \<leftarrow> body_generation operation (field body ''expectedGeneration'');
     Some ((empty_request environment operation key)
       \<lparr>gr_workspaceId := Some workspace, gr_expectedCommit := Some commit,
        gr_expectedManifestDigest := Some digest, gr_mode := Some mode, gr_expectedGeneration := generation\<rparr>) }"

text \<open>The three routes, and the body each reads.\<close>

datatype gateway_route = StatusRoute | WorkspaceRuntimeRoute | WorktreePrepareRoute

fun route_request :: "gateway_route \<Rightarrow> (string \<times> jsval) list \<Rightarrow> gateway_request option" where
  "route_request StatusRoute body = statusRequest body"
| "route_request WorktreePrepareRoute body = worktreePrepareRequest body"
| "route_request WorkspaceRuntimeRoute body = workspaceRuntimeRequest body"

section \<open>The body a client writes\<close>

fun mode_value :: "runtime_mode \<Rightarrow> jsval" where
  "mode_value ProcessMode = VStr ''process''"
| "mode_value DevcontainerMode = VStr ''devcontainer''"

definition text_entry :: "string \<Rightarrow> string option \<Rightarrow> (string \<times> jsval) list" where
  "text_entry name value = optional_entry name (map_option VStr value)"

definition request_body :: "gateway_route \<Rightarrow> gateway_request \<Rightarrow> (string \<times> jsval) list" where
  "request_body route r =
     [(''environmentId'', VStr (gr_environmentId r)), (''operationId'', VStr (gr_operationId r))] @
     (if route = WorkspaceRuntimeRoute then [(''operation'', VStr (gr_operation r))] else []) @
     text_entry ''branch'' (gr_branch r) @ text_entry ''commit'' (gr_commit r) @
     text_entry ''expectedCommit'' (gr_expectedCommit r) @ text_entry ''expectedGeneration'' (gr_expectedGeneration r) @
     text_entry ''expectedManifestDigest'' (gr_expectedManifestDigest r) @
     optional_entry ''mode'' (map_option mode_value (gr_mode r)) @
     text_entry ''repository'' (gr_repository r) @ text_entry ''workspaceId'' (gr_workspaceId r) @
     text_entry ''worktreeOwnerThreadId'' (gr_worktreeOwnerThreadId r)"

text \<open>The route an operation is sent to, and the requests without what only the launch of a Runtime adds.\<close>

definition operation_route :: "string \<Rightarrow> gateway_route" where
  "operation_route operation =
     (if operation = ''status.v1'' then StatusRoute
      else if operation = ''worktree.prepare.v1'' then WorktreePrepareRoute else WorkspaceRuntimeRoute)"

definition plain_request :: "gateway_request \<Rightarrow> bool" where
  "plain_request r \<longleftrightarrow> \<not> runtimeSessionValuesPresent r \<and> \<not> runtimeAuthorityPresent r \<and>
     gr_runtimeSessionOwnerUserId r = None \<and> gr_runtimeSessionRequestedCapabilities r = None \<and>
     (gr_operation r \<noteq> ''worktree.prepare.v1'' \<longrightarrow>
        gr_branch r = None \<and> gr_commit r = None \<and> gr_repository r = None \<and> gr_worktreeOwnerThreadId r = None)"

section \<open>The routes accept exactly the valid requests\<close>

lemma string_when_Some [simp]: "string_when p v = Some s \<longleftrightarrow> v = VStr s \<and> p s"
  by (cases v) (auto simp: string_when_def bind_eq_Some_conv)

lemma string_when_text [simp]: "p s \<Longrightarrow> string_when p (VStr s) = Some s"
  by simp

lemma mode_of_Some [simp]: "mode_of v = Some m \<longleftrightarrow> v = mode_value m"
  by (cases v; cases m) auto

lemma mode_value_inj [simp]: "mode_value m = mode_value n \<longleftrightarrow> m = n"
  by (cases m; cases n) auto

lemma text_test_Some [simp]: "text_test p (Some s) = p s"
  by (simp add: text_test_def)

lemma some_uuid_Some [simp]: "some_uuid (Some s) = isUuid s"
  by (simp add: some_uuid_def)

lemma pattern_not_empty [simp]:
  "\<not> commit_pattern []" "\<not> digest_pattern []" "\<not> gateway_repository []" "\<not> plain_text n []"
  by (simp_all add: commit_pattern_def digest_pattern_def gateway_repository_def plain_text_def class_rep_def)

lemma text_test_iff: "\<not> p [] \<Longrightarrow> text_test p v \<longleftrightarrow> (\<exists>s. v = Some s \<and> p s)"
  by (cases v) (auto simp: text_test_def)

lemma some_uuid_iff: "some_uuid v \<longleftrightarrow> (\<exists>s. v = Some s \<and> isUuid s)"
  by (cases v) (auto simp: some_uuid_def)

lemma not_workspace_operation [simp]:
  "''status.v1'' \<notin> set workspace_operations" "''worktree.prepare.v1'' \<notin> set workspace_operations"
  by (simp_all add: workspace_operations_def)

lemmas empty_request_checks = empty_request_def runtimeSessionValuesPresent_def runtimeAuthorityPresent_def
  operation_route_def plain_request_def

definition generation_fits :: "string \<Rightarrow> string option \<Rightarrow> bool" where
  "generation_fits operation generation \<longleftrightarrow>
     (if operation = ''workspace-runtime.start.v1'' then generation = None else some_uuid generation)"

lemma body_generation_fits: "body_generation operation v = Some g \<Longrightarrow> generation_fits operation g"
  by (auto simp: body_generation_def generation_fits_def bind_eq_Some_conv split: if_splits)

lemma runtime_request_parts:
  "workspaceRuntimeRequest body = Some r \<Longrightarrow>
     \<exists>environment workspace key operation commit digest mode generation.
       isUuid environment \<and> isUuid workspace \<and> gateway_id_pattern key \<and> operation \<in> set workspace_operations \<and>
       commit_pattern commit \<and> digest_pattern digest \<and> generation_fits operation generation \<and>
       r = (empty_request environment operation key)\<lparr>gr_workspaceId := Some workspace,
         gr_expectedCommit := Some commit, gr_expectedManifestDigest := Some digest, gr_mode := Some mode,
         gr_expectedGeneration := generation\<rparr>"
  by (unfold workspaceRuntimeRequest_def bind_eq_Some_conv bind_require string_when_Some mode_of_Some)
    (metis body_generation_fits option.inject)

lemma accepted_valid:
  assumes "route_request route body = Some r" "ga_id actor \<noteq> []" "ga_ownerUserId actor \<noteq> []"
  shows "validateRequest u now actor r \<and> plain_request r \<and> route = operation_route (gr_operation r)"
proof (cases route)
  case StatusRoute
  with assms show ?thesis
    by (auto simp: statusRequest_def bind_eq_Some_conv validateRequest_def validOperationRequest_def empty_request_checks)
next
  case WorktreePrepareRoute
  with assms show ?thesis
    by (auto simp: worktreePrepareRequest_def bind_eq_Some_conv validateRequest_def validOperationRequest_def
        validWorktreePrepare_def empty_request_checks)
next
  case WorkspaceRuntimeRoute
  then obtain environment workspace key operation commit digest mode generation where parts:
    "isUuid environment" "isUuid workspace" "gateway_id_pattern key" "operation \<in> set workspace_operations"
    "commit_pattern commit" "digest_pattern digest" "generation_fits operation generation"
    and r: "r = (empty_request environment operation key)\<lparr>gr_workspaceId := Some workspace,
      gr_expectedCommit := Some commit, gr_expectedManifestDigest := Some digest, gr_mode := Some mode,
      gr_expectedGeneration := generation\<rparr>"
    using assms(1) runtime_request_parts by (metis route_request.simps(3))
  then have other: "operation \<noteq> ''status.v1''" "operation \<noteq> ''worktree.prepare.v1''"
    using not_workspace_operation by metis+
  have "validOperationRequest u now r"
    using parts other
    by (simp add: validOperationRequest_def r empty_request_checks generation_fits_def split: if_splits)
  with WorkspaceRuntimeRoute parts other assms(2,3) show ?thesis
    by (simp add: validateRequest_def r empty_request_checks)
qed

lemma gateway_request_eqI:
  "gr_branch r = gr_branch q \<Longrightarrow> gr_commit r = gr_commit q \<Longrightarrow> gr_environmentId r = gr_environmentId q \<Longrightarrow>
   gr_operation r = gr_operation q \<Longrightarrow> gr_operationId r = gr_operationId q \<Longrightarrow>
   gr_expectedCommit r = gr_expectedCommit q \<Longrightarrow> gr_expectedGeneration r = gr_expectedGeneration q \<Longrightarrow>
   gr_expectedManifestDigest r = gr_expectedManifestDigest q \<Longrightarrow> gr_mode r = gr_mode q \<Longrightarrow>
   gr_repository r = gr_repository q \<Longrightarrow> gr_worktreeOwnerThreadId r = gr_worktreeOwnerThreadId q \<Longrightarrow>
   gr_workspaceId r = gr_workspaceId q \<Longrightarrow> plain_request r \<Longrightarrow> plain_request q \<Longrightarrow> r = q" for r q :: gateway_request
  by (auto simp: plain_request_def runtimeSessionValuesPresent_def runtimeAuthorityPresent_def)

lemma valid_accepted:
  assumes "validateRequest u now actor r" "plain_request r"
  shows "route_request (operation_route (gr_operation r)) (request_body (operation_route (gr_operation r)) r) = Some r"
proof -
  consider (status) "gr_operation r = ''status.v1''" | (worktree) "gr_operation r = ''worktree.prepare.v1''"
    | (runtime) "gr_operation r \<in> set workspace_operations" "gr_operation r \<noteq> ''status.v1''"
        "gr_operation r \<noteq> ''worktree.prepare.v1''"
    using assms(1) by (auto simp: validateRequest_def validOperationRequest_def split: if_splits)
  then show ?thesis
  proof cases
    case status
    with assms show ?thesis
      by (auto simp: statusRequest_def request_body_def text_entry_def same_key_text_def validateRequest_def
          validOperationRequest_def bind_eq_Some_conv empty_request_checks intro!: gateway_request_eqI)
  next
    case worktree
    with assms show ?thesis
      by (auto simp: worktreePrepareRequest_def request_body_def text_entry_def same_key_text_def validateRequest_def
          validOperationRequest_def validWorktreePrepare_def text_test_iff some_uuid_iff bind_eq_Some_conv
          empty_request_checks intro!: gateway_request_eqI)
  next
    case runtime
    with assms show ?thesis
      by (auto simp: workspaceRuntimeRequest_def body_generation_def request_body_def text_entry_def validateRequest_def
          validOperationRequest_def text_test_iff some_uuid_iff bind_eq_Some_conv
          empty_request_checks intro!: gateway_request_eqI split: if_splits)
  qed
qed

text \<open>C13: For a caller with an identity, the HTTP routes produce exactly the requests that the gateway
  accepts and that carry no Runtime session, each on the route of its operation: what a route accepts is
  valid for the service, and every such request is read back from the body a client writes for it.\<close>

theorem http_requests_exact:
  assumes "ga_id actor \<noteq> []" and "ga_ownerUserId actor \<noteq> []"
  shows "(\<exists>body. route_request route body = Some r) \<longleftrightarrow>
    validateRequest u now actor r \<and> plain_request r \<and> route = operation_route (gr_operation r)"
  using accepted_valid [OF _ assms] valid_accepted by metis

end
