(* ===== verification/SshRoutes.thy ===== *)
theory SshRoutes
  imports JS_Date "HOL-Library.Monad_Syntax"
begin

text \<open>
  Access routes over private networks: the records and checks of
  \<open>server/private-network/contracts.ts\<close> and the selection of a route for an authorization in
  \<open>server/private-network/route-resolver.ts\<close>. \<open>isIP\<close> of \<open>node:net\<close> is written out. Every function takes
  the time the code reads once at its start.
\<close>

section \<open>Records\<close>

datatype network_provider = Tailscale | Wireguard | OtherProvider

datatype network_approval = NetworkApproved | NetworkPending | NetworkRevoked

datatype network_availability = NetworkAvailable | NetworkUnavailable | NetworkUnknown

datatype route_kind = SshPrivateNetwork | ProviderNative | HostConsoleRoute | HostdRoute

datatype route_capability =
    ProjectCli | InteractiveShell | ProviderExec | HostConsoleAccess | HostPowerAccess | HostdTelemetry

datatype route_policy = PolicyApproved | PolicyBlocked | PolicyUnknown

datatype route_target_kind = EnvironmentTarget | HostTarget

datatype route_risk = NormalRisk | InteractiveRisk | HighRisk

record private_network =
  nw_approvalState :: network_approval
  nw_availability :: network_availability
  nw_credentialReference :: "string option"
  nw_enabled :: bool
  nw_id :: string
  nw_lastVerifiedAt :: "string option"
  nw_name :: string
  nw_ownerUserId :: string
  nw_providerKind :: network_provider
  nw_providerReference :: string
  nw_verifiedUntil :: "string option"

record route_target =
  at_id :: string
  at_kind :: route_target_kind

record access_route =
  ar_allowedGatewayIds :: "string list"
  ar_availability :: network_availability
  ar_capabilities :: "route_capability list"
  ar_credentialReference :: "string option"
  ar_credentialPurpose :: "string option"
  ar_enabled :: bool
  ar_freshnessSeconds :: int
  ar_hostKeySha256 :: "string option"
  ar_id :: string
  ar_lastVerifiedAt :: "string option"
  ar_ownerUserId :: string
  ar_policyState :: route_policy
  ar_priority :: int
  ar_privateAddress :: "string option"
  ar_privateNetworkId :: "string option"
  ar_providerKind :: "network_provider option"
  ar_requiresInteractiveApproval :: bool
  ar_routeKind :: route_kind
  ar_sshPort :: "int option"
  ar_sshUser :: "string option"
  ar_target :: route_target
  ar_targetIdentityRevision :: string
  ar_verifiedUntil :: "string option"

record network_inventory =
  ni_networks :: "private_network list"
  ni_routes :: "access_route list"

record route_authorization =
  az_allowed :: bool
  az_capability :: route_capability
  az_expiresAt :: string
  az_gatewayId :: string
  az_ownerUserId :: string
  az_risk :: route_risk
  az_target :: route_target
  az_identityRevision :: string

datatype route_eligibility = RouteReady | RouteUnavailable | RouteUnverified | RouteStale | RoutePolicyBlocked

record route_selection =
  sl_credentialReference :: "string option"
  sl_credentialPurpose :: "string option"
  sl_hostKeySha256 :: "string option"
  sl_ownerUserId :: string
  sl_privateAddress :: "string option"
  sl_privateNetworkId :: "string option"
  sl_routeId :: string
  sl_routeKind :: route_kind
  sl_sshPort :: "int option"
  sl_sshUser :: "string option"
  sl_target :: route_target
  sl_targetIdentityRevision :: string

section \<open>Addresses\<close>

text \<open>\<open>text.split(c)\<close>\<close>

fun split_char :: "char \<Rightarrow> string \<Rightarrow> string list" where
  "split_char c [] = [[]]"
| "split_char c (x # xs) =
     (if x = c then [] # split_char c xs
      else (case split_char c xs of [] \<Rightarrow> [[x]] | p # ps \<Rightarrow> (x # p) # ps))"

text \<open>A decimal number up to 255 without a leading zero.\<close>

definition octet :: "string \<Rightarrow> nat option" where
  "octet s = (if class_rep is_digit 1 3 s \<and> (hd s = CHR ''0'' \<longrightarrow> s = ''0'') \<and> digits_value s \<le> 255
     then Some (digits_value s) else None)"

fun ipv4_octets :: "string list \<Rightarrow> (nat \<times> nat) option" where
  "ipv4_octets [a, b, c, d] = do { x \<leftarrow> octet a; y \<leftarrow> octet b; octet c; octet d; Some (x, y) }"
| "ipv4_octets _ = None"

definition ipv4 :: "string \<Rightarrow> (nat \<times> nat) option" where
  "ipv4 s = ipv4_octets (split_char (CHR ''.'') s)"

definition ip_segment :: "string \<Rightarrow> bool" where
  "ip_segment = class_rep is_hex 1 4"

text \<open>How many groups of 16 bits a list of parts has; an IPv4 address at its end is two.\<close>

definition groups_width :: "string list \<Rightarrow> nat option" where
  "groups_width ps =
     (if list_all ip_segment ps then Some (length ps)
      else if list_all ip_segment (butlast ps) \<and> ipv4 (last ps) \<noteq> None then Some (length ps + 1)
      else None)"

fun double_colon :: "string \<Rightarrow> (string \<times> string) option" where
  "double_colon (a # b # s) =
     (if a = CHR '':'' \<and> b = CHR '':'' then Some ([], s)
      else map_option (\<lambda>(l, r). (a # l, r)) (double_colon (b # s)))"
| "double_colon _ = None"

definition parts_of :: "string \<Rightarrow> string list" where
  "parts_of s = (if s = [] then [] else split_char (CHR '':'') s)"

definition ipv6 :: "string \<Rightarrow> bool" where
  "ipv6 s =
     (let address = takeWhile (\<lambda>c. c \<noteq> CHR ''%'') s; zone = dropWhile (\<lambda>c. c \<noteq> CHR ''%'') s
      in (zone = [] \<or> 1 < length zone \<and> list_all (\<lambda>c. is_alnum c \<or> c \<in> set ''-.:'') (tl zone)) \<and>
         (case double_colon address of
            None \<Rightarrow> groups_width (split_char (CHR '':'') address) = Some 8
          | Some (l, r) \<Rightarrow> list_all ip_segment (parts_of l) \<and>
              (case groups_width (parts_of r) of None \<Rightarrow> False | Some n \<Rightarrow> length (parts_of l) + n \<le> 7)))"

definition isIP :: "string \<Rightarrow> nat" where
  "isIP s = (if ipv4 s \<noteq> None then 4 else if ipv6 s then 6 else 0)"

definition private_ipv4 :: "nat \<times> nat \<Rightarrow> bool" where
  "private_ipv4 octets = (case octets of (first, second) \<Rightarrow>
     first = 10 \<or> (first = 192 \<and> second = 168) \<or> (first = 172 \<and> 16 \<le> second \<and> second \<le> 31) \<or>
     (first = 100 \<and> 64 \<le> second \<and> second \<le> 127))"

definition isPrivateAddress :: "string \<Rightarrow> bool" where
  "isPrivateAddress value \<longleftrightarrow>
     js_trim value = value \<and> value \<noteq> [] \<and> length value \<le> 253 \<and>
     list_all (\<lambda>c. \<not> js_space c \<and> c \<noteq> CHR ''/'' \<and> c \<noteq> CHR ''@'') value \<and>
     (if isIP value = 4 then (case ipv4 value of None \<Rightarrow> False | Some octets \<Rightarrow> private_ipv4 octets)
      else if isIP value = 6 then
        (case value of a # b # rest \<Rightarrow> a \<in> set ''fF'' \<and> b \<in> set ''cCdD'' | _ \<Rightarrow> False)
      else suffix ''.ts.net'' (js_lower value))"

section \<open>Checks\<close>

definition upper_name_char :: "char \<Rightarrow> bool" where
  "upper_name_char c \<longleftrightarrow> in_range (CHR ''A'') (CHR ''Z'') c \<or> c = CHR ''_''"

definition isCredentialReference :: "string \<Rightarrow> bool" where
  "isCredentialReference value \<longleftrightarrow>
     prefix ''env://'' value \<and>
     (case drop 6 value of
        [] \<Rightarrow> False
      | c # rest \<Rightarrow> upper_name_char c \<and> class_rep (\<lambda>c. upper_name_char c \<or> is_digit c) 0 127 rest)"

definition isPinnedSshHostKey :: "string \<Rightarrow> bool" where
  "isPinnedSshHostKey value \<longleftrightarrow>
     prefix ''SHA256:'' value \<and> class_rep (\<lambda>c. is_alnum c \<or> c \<in> set ''+/'') 43 43 (drop 7 value)"

definition isTargetIdentityRevision :: "string \<Rightarrow> bool" where
  "isTargetIdentityRevision = class_rep (\<lambda>c. is_alnum c \<or> c \<in> set '':._-'') 8 256"

fun kind_capabilities :: "route_kind \<Rightarrow> route_capability list" where
  "kind_capabilities HostConsoleRoute = [HostConsoleAccess, HostPowerAccess]"
| "kind_capabilities HostdRoute = [HostdTelemetry]"
| "kind_capabilities ProviderNative = [ProjectCli, InteractiveShell, ProviderExec]"
| "kind_capabilities SshPrivateNetwork = [ProjectCli, InteractiveShell]"

definition routeCapabilitiesMatchKind :: "route_kind \<Rightarrow> route_capability list \<Rightarrow> bool" where
  "routeCapabilitiesMatchKind kind capabilities \<longleftrightarrow>
     capabilities \<noteq> [] \<and> list_all (\<lambda>c. c \<in> set (kind_capabilities kind)) capabilities"

definition freshWindow :: "string \<Rightarrow> string \<Rightarrow> int \<Rightarrow> int \<Rightarrow> bool" where
  "freshWindow start until freshnessSeconds now \<longleftrightarrow>
     (case (date_parse start, date_parse until) of
        (Some s, Some e) \<Rightarrow> s \<le> now \<and> now < e \<and> s \<le> e \<and> now - s \<le> freshnessSeconds * 1000
      | _ \<Rightarrow> False)"

text \<open>\<open>!value\<close> for an optional number, and a check of an optional text that is truthy.\<close>

definition nonzero :: "int option \<Rightarrow> bool" where
  "nonzero n \<longleftrightarrow> n \<noteq> None \<and> n \<noteq> Some 0"

definition truthy_where :: "(string \<Rightarrow> bool) \<Rightarrow> string option \<Rightarrow> bool" where
  "truthy_where p value \<longleftrightarrow> (case value of None \<Rightarrow> False | Some s \<Rightarrow> s \<noteq> [] \<and> p s)"

definition fresh_evidence :: "string option \<Rightarrow> string option \<Rightarrow> int \<Rightarrow> int \<Rightarrow> bool" where
  "fresh_evidence start until freshnessSeconds now \<longleftrightarrow> truthy start \<and> truthy until \<and>
     (case (start, until) of (Some s, Some e) \<Rightarrow> freshWindow s e freshnessSeconds now | _ \<Rightarrow> False)"

section \<open>Eligibility\<close>

definition capabilityRequiresInteractiveApproval :: "route_capability \<Rightarrow> bool" where
  "capabilityRequiresInteractiveApproval c \<longleftrightarrow> c \<in> {InteractiveShell, HostConsoleAccess, HostPowerAccess}"

definition routeEvidenceState ::
    "private_network option \<Rightarrow> int \<Rightarrow> access_route \<Rightarrow> string \<Rightarrow> route_eligibility" where
  "routeEvidenceState network now route revision =
     (if \<not> ar_enabled route \<or> ar_availability route = NetworkUnavailable then RouteUnavailable
      else if ar_policyState route \<noteq> PolicyApproved \<or> ar_targetIdentityRevision route \<noteq> revision \<or>
        ar_allowedGatewayIds route = [] \<or> \<not> routeCapabilitiesMatchKind (ar_routeKind route) (ar_capabilities route)
      then RoutePolicyBlocked
      else if ar_availability route = NetworkUnknown \<or> \<not> truthy (ar_lastVerifiedAt route) \<or>
        \<not> truthy (ar_verifiedUntil route)
      then RouteUnverified
      else if \<not> fresh_evidence (ar_lastVerifiedAt route) (ar_verifiedUntil route) (ar_freshnessSeconds route) now
      then RouteStale
      else if ar_routeKind route = SshPrivateNetwork then
        (case network of
           None \<Rightarrow> RoutePolicyBlocked
         | Some n \<Rightarrow>
             if nw_ownerUserId n \<noteq> ar_ownerUserId route \<or> \<not> nw_enabled n \<or>
               nw_approvalState n \<noteq> NetworkApproved \<or> Some (nw_providerKind n) \<noteq> ar_providerKind route
             then RoutePolicyBlocked
             else if nw_availability n = NetworkUnavailable then RouteUnavailable
             else if nw_availability n = NetworkUnknown then RouteUnverified
             else if \<not> fresh_evidence (nw_lastVerifiedAt n) (nw_verifiedUntil n) (ar_freshnessSeconds route) now
             then RouteStale
             else if \<not> truthy_where isPrivateAddress (ar_privateAddress route) \<or> \<not> nonzero (ar_sshPort route) \<or>
               \<not> truthy (ar_sshUser route) \<or> \<not> truthy_where isPinnedSshHostKey (ar_hostKeySha256 route) \<or>
               \<not> truthy_where isCredentialReference (ar_credentialReference route)
             then RoutePolicyBlocked
             else RouteReady)
      else RouteReady)"

definition routeEligibility ::
    "route_authorization \<Rightarrow> private_network option \<Rightarrow> int \<Rightarrow> access_route \<Rightarrow> route_eligibility" where
  "routeEligibility authorization network now route =
     (let evidenceState = routeEvidenceState network now route (az_identityRevision authorization)
      in if evidenceState \<noteq> RouteReady then evidenceState
         else if ar_ownerUserId route \<noteq> az_ownerUserId authorization \<or> ar_target route \<noteq> az_target authorization \<or>
           az_capability authorization \<notin> set (ar_capabilities route) \<or>
           az_gatewayId authorization \<notin> set (ar_allowedGatewayIds route) \<or>
           ((ar_requiresInteractiveApproval route \<or>
             capabilityRequiresInteractiveApproval (az_capability authorization)) \<and>
             az_risk authorization = NormalRisk)
         then RoutePolicyBlocked else RouteReady)"

section \<open>Selection\<close>

definition authorizationIsCurrent :: "route_authorization \<Rightarrow> int \<Rightarrow> bool" where
  "authorizationIsCurrent a now \<longleftrightarrow> az_allowed a \<and>
     (case date_parse (az_expiresAt a) of None \<Rightarrow> False | Some expiresAt \<Rightarrow> now < expiresAt) \<and>
     az_ownerUserId a \<noteq> [] \<and> az_gatewayId a \<noteq> [] \<and> at_id (az_target a) \<noteq> [] \<and> az_identityRevision a \<noteq> []"

text \<open>\<open>...(value ? { value } : {})\<close>\<close>

definition when_truthy :: "string option \<Rightarrow> string option" where
  "when_truthy value = (if truthy value then value else None)"

definition selection :: "access_route \<Rightarrow> route_selection" where
  "selection r =
     \<lparr>sl_credentialReference = when_truthy (ar_credentialReference r),
      sl_credentialPurpose = when_truthy (ar_credentialPurpose r),
      sl_hostKeySha256 = when_truthy (ar_hostKeySha256 r), sl_ownerUserId = ar_ownerUserId r,
      sl_privateAddress = when_truthy (ar_privateAddress r),
      sl_privateNetworkId = when_truthy (ar_privateNetworkId r), sl_routeId = ar_id r,
      sl_routeKind = ar_routeKind r, sl_sshPort = (if nonzero (ar_sshPort r) then ar_sshPort r else None),
      sl_sshUser = when_truthy (ar_sshUser r), sl_target = ar_target r,
      sl_targetIdentityRevision = ar_targetIdentityRevision r\<rparr>"

datatype route_choice =
    ChoiceDenied
  | ChoiceNone
  | ChoiceAmbiguous "string list"
  | ChoiceReady route_selection

text \<open>\<open>new Map(networks.map(...))\<close>: of networks with one id the last is kept.\<close>

definition route_network :: "private_network list \<Rightarrow> access_route \<Rightarrow> private_network option" where
  "route_network networks route =
     (if truthy (ar_privateNetworkId route)
      then Option.bind (ar_privateNetworkId route) (map_of (rev (map (\<lambda>n. (nw_id n, n)) networks)))
      else None)"

definition bound_route :: "route_authorization \<Rightarrow> access_route \<Rightarrow> bool" where
  "bound_route a r \<longleftrightarrow> ar_ownerUserId r = az_ownerUserId a \<and> ar_target r = az_target a"

definition considered_routes :: "route_authorization \<Rightarrow> string option \<Rightarrow> access_route list \<Rightarrow> access_route list" where
  "considered_routes a explicitRouteId routes =
     (let bound = filter (bound_route a) routes
      in if truthy explicitRouteId then filter (\<lambda>r. Some (ar_id r) = explicitRouteId) bound else bound)"

definition eligible_routes ::
    "route_authorization \<Rightarrow> string option \<Rightarrow> network_inventory \<Rightarrow> int \<Rightarrow> access_route list" where
  "eligible_routes a explicitRouteId loaded now =
     filter (\<lambda>r. routeEligibility a (route_network (ni_networks loaded) r) now r = RouteReady)
       (considered_routes a explicitRouteId (ni_routes loaded))"

definition preferred_routes :: "access_route list \<Rightarrow> access_route list" where
  "preferred_routes eligible =
     (let priority = Max (set (map ar_priority eligible))
      in filter (\<lambda>r. ar_priority r = priority) eligible)"

text \<open>\<open>localeCompare\<close> is the parameter \<open>coll\<close>.\<close>

definition selectAuthorizedAccessRoute ::
    "(string \<Rightarrow> string \<Rightarrow> int) \<Rightarrow> route_authorization \<Rightarrow> string option \<Rightarrow> network_inventory \<Rightarrow> int \<Rightarrow> route_choice" where
  "selectAuthorizedAccessRoute coll a explicitRouteId loaded now =
     (if \<not> authorizationIsCurrent a now then ChoiceDenied
      else
        let eligible = eligible_routes a explicitRouteId loaded now
        in case eligible of
          [] \<Rightarrow> ChoiceNone
        | first # _ \<Rightarrow>
            if truthy explicitRouteId then ChoiceReady (selection first)
            else
              let preferred = js_sort (\<lambda>l r. coll (ar_id l) (ar_id r)) (preferred_routes eligible)
              in case preferred of
                [r] \<Rightarrow> ChoiceReady (selection r)
              | _ \<Rightarrow> ChoiceAmbiguous (map ar_id preferred))"

section \<open>What a selected route satisfies\<close>

lemma eligible_safe:
  assumes "routeEligibility a n now r = RouteReady"
  shows "ar_enabled r \<and> ar_policyState r = PolicyApproved \<and> ar_ownerUserId r = az_ownerUserId a \<and>
    ar_target r = az_target a \<and> ar_targetIdentityRevision r = az_identityRevision a \<and>
    az_capability a \<in> set (ar_capabilities r) \<and> az_gatewayId a \<in> set (ar_allowedGatewayIds r) \<and>
    fresh_evidence (ar_lastVerifiedAt r) (ar_verifiedUntil r) (ar_freshnessSeconds r) now \<and>
    (ar_routeKind r = SshPrivateNetwork \<longrightarrow>
       (\<exists>network. n = Some network \<and> nw_ownerUserId network = ar_ownerUserId r \<and> nw_enabled network \<and>
          nw_approvalState network = NetworkApproved \<and>
          fresh_evidence (nw_lastVerifiedAt network) (nw_verifiedUntil network) (ar_freshnessSeconds r) now) \<and>
       truthy_where isPrivateAddress (ar_privateAddress r) \<and> truthy_where isPinnedSshHostKey (ar_hostKeySha256 r) \<and>
       truthy_where isCredentialReference (ar_credentialReference r) \<and> nonzero (ar_sshPort r) \<and> truthy (ar_sshUser r))"
  using assms
  by (simp add: routeEligibility_def routeEvidenceState_def Let_def split: if_splits option.splits)

lemma eligible_routes_ready:
  "r \<in> set (eligible_routes a e loaded now) \<Longrightarrow>
     r \<in> set (ni_routes loaded) \<and> routeEligibility a (route_network (ni_networks loaded) r) now r = RouteReady"
  by (auto simp: eligible_routes_def considered_routes_def Let_def split: if_splits)

lemma explicit_routes: "r \<in> set (eligible_routes a (Some k) loaded now) \<Longrightarrow> k \<noteq> [] \<Longrightarrow> ar_id r = k"
  by (auto simp: eligible_routes_def considered_routes_def Let_def)

text \<open>One route with a priority above all others is what the preference for the highest priority leaves.\<close>

lemma filter_single: "filter p zs = [r] \<longleftrightarrow> (\<exists>xs ys. zs = xs @ r # ys \<and> p r \<and> (\<forall>q \<in> set xs \<union> set ys. \<not> p q))"
  unfolding filter_eq_Cons_iff by (metis (no_types, lifting) Un_iff filter_empty_conv)

lemma preferred_single:
  "preferred_routes zs = [r] \<longleftrightarrow>
     (\<exists>xs ys. zs = xs @ r # ys \<and> (\<forall>q \<in> set xs \<union> set ys. ar_priority q < ar_priority r))"
    (is "_ \<longleftrightarrow> ?rhs")
proof
  assume "preferred_routes zs = [r]"
  then obtain xs ys where zs: "zs = xs @ r # ys" "ar_priority r = Max (ar_priority ` set zs)"
    "\<forall>q \<in> set xs \<union> set ys. ar_priority q \<noteq> Max (ar_priority ` set zs)"
    using filter_single [of "\<lambda>q. ar_priority q = Max (ar_priority ` set zs)" zs r]
    by (simp only: preferred_routes_def Let_def set_map) blast
  have "ar_priority q < ar_priority r" if "q \<in> set xs \<union> set ys" for q
  proof -
    have "ar_priority q \<le> Max (ar_priority ` set zs)" using that zs(1) by (intro Max_ge) auto
    with zs(2,3) that show ?thesis by (metis order_less_le)
  qed
  with zs(1) show ?rhs by blast
next
  assume ?rhs
  then obtain xs ys where zs: "zs = xs @ r # ys" "\<forall>q \<in> set xs \<union> set ys. ar_priority q < ar_priority r" by blast
  then have "Max (ar_priority ` set zs) = ar_priority r"
    by (intro Max_eqI) (auto intro: less_imp_le)
  then have "preferred_routes zs = filter (\<lambda>q. ar_priority q = ar_priority r) zs"
    by (simp only: preferred_routes_def Let_def set_map)
  moreover have "filter (\<lambda>q. ar_priority q = ar_priority r) zs = [r]"
    unfolding filter_single using zs by (metis less_irrefl)
  ultimately show "preferred_routes zs = [r]" by simp
qed

lemma js_sort_single [simp]: "js_sort cmp zs = [r] \<longleftrightarrow> zs = [r]"
proof
  assume "js_sort cmp zs = [r]"
  then have "mset zs = {#r#}" by (metis mset_js_sort mset_single_iff_right mset.simps)
  then show "zs = [r]" by simp
qed (simp add: js_sort_def)

lemma js_sort_one [simp]: "js_sort cmp [r] = [r]"
  by (simp add: js_sort_def)

lemma select_None:
  "selectAuthorizedAccessRoute coll a None loaded now = ChoiceReady x \<longleftrightarrow>
     authorizationIsCurrent a now \<and> (\<exists>r. preferred_routes (eligible_routes a None loaded now) = [r] \<and> x = selection r)"
proof -
  have "preferred_routes [] = []" by (simp add: preferred_routes_def)
  then show ?thesis
    by (auto simp: selectAuthorizedAccessRoute_def Let_def split: list.split)
qed


text \<open>The facts about a selected route that its use relies on.\<close>

definition safe_route :: "route_authorization \<Rightarrow> network_inventory \<Rightarrow> int \<Rightarrow> route_selection \<Rightarrow> bool" where
  "safe_route a loaded now x \<longleftrightarrow>
     (\<exists>r \<in> set (ni_routes loaded). x = selection r \<and> ar_enabled r \<and> ar_policyState r = PolicyApproved \<and>
        ar_ownerUserId r = az_ownerUserId a \<and> ar_target r = az_target a \<and>
        ar_targetIdentityRevision r = az_identityRevision a \<and> az_capability a \<in> set (ar_capabilities r) \<and>
        az_gatewayId a \<in> set (ar_allowedGatewayIds r) \<and>
        fresh_evidence (ar_lastVerifiedAt r) (ar_verifiedUntil r) (ar_freshnessSeconds r) now \<and>
        (ar_routeKind r = SshPrivateNetwork \<longrightarrow>
           (\<exists>network \<in> set (ni_networks loaded). nw_ownerUserId network = ar_ownerUserId r \<and> nw_enabled network \<and>
              nw_approvalState network = NetworkApproved) \<and>
           truthy_where isPrivateAddress (sl_privateAddress x) \<and> truthy_where isPinnedSshHostKey (sl_hostKeySha256 x) \<and>
           truthy_where isCredentialReference (sl_credentialReference x)))"

lemma when_truthy_where [simp]: "truthy_where p (when_truthy v) \<longleftrightarrow> truthy_where p v"
  by (cases v) (simp_all add: truthy_where_def when_truthy_def)

lemma route_network_member: "route_network ns r = Some n \<Longrightarrow> n \<in> set ns"
  by (auto simp: route_network_def bind_eq_Some_conv dest!: map_of_SomeD split: if_splits)

lemma selected_eligible:
  assumes "selectAuthorizedAccessRoute coll a e loaded now = ChoiceReady x"
  obtains r where "r \<in> set (eligible_routes a e loaded now)" "x = selection r" "authorizationIsCurrent a now"
proof -
  have sub: "r \<in> set zs" if "preferred_routes zs = [r]" for zs :: "access_route list" and r
    using that unfolding preferred_single by auto
  from assms have current: "authorizationIsCurrent a now"
    by (auto simp: selectAuthorizedAccessRoute_def split: if_splits)
  obtain r rs where some: "eligible_routes a e loaded now = r # rs"
    using assms by (cases "eligible_routes a e loaded now") (auto simp: selectAuthorizedAccessRoute_def split: if_splits)
  show ?thesis
  proof (cases "truthy e")
    case True
    with assms current some have "x = selection r" by (simp add: selectAuthorizedAccessRoute_def)
    with that [of r] some current show ?thesis by simp
  next
    case False
    with assms current some obtain q where "preferred_routes (r # rs) = [q]" "x = selection q"
      by (auto simp: selectAuthorizedAccessRoute_def Let_def split: list.splits)
    with that [of q] sub [of "r # rs" q] some current show ?thesis by simp
  qed
qed

lemma selected_safe:
  assumes "selectAuthorizedAccessRoute coll a e loaded now = ChoiceReady x"
  shows "safe_route a loaded now x"
proof -
  obtain r where r: "r \<in> set (eligible_routes a e loaded now)" "x = selection r"
    using assms by (rule selected_eligible)
  note ready = eligible_routes_ready [OF r(1)]
  show ?thesis
    unfolding safe_route_def
    using ready eligible_safe [of a _ now r] r(2)
    by (intro bexI [of _ r]) (auto simp: selection_def dest: route_network_member)
qed

lemma selected_explicit:
  assumes "selectAuthorizedAccessRoute coll a (Some k) loaded now = ChoiceReady x" "k \<noteq> []"
  shows "sl_routeId x = k"
proof -
  obtain r where "r \<in> set (eligible_routes a (Some k) loaded now)" "x = selection r"
    using assms(1) by (rule selected_eligible)
  with explicit_routes assms(2) show ?thesis by (force simp: selection_def)
qed

end
