(* ===== verification/SshWire.thy ===== *)
theory SshWire
  imports SshRequest SshRoutes ControlTarget
begin

text \<open>
  What the SSH gateway sends and reads back (\<open>server/ssh-control-gateway/service.ts\<close>): errors, credentials,
  transport results, the checks of a handshake and of the three responses, the fingerprint and the audit
  evidence of an operation, and the authorizer of Worktree preparation (\<open>worktree-authorizer.ts\<close>).

  What the platform provides is one record of functions: the collation of \<open>localeCompare\<close>, SHA-256 in hexadecimal,
  \<open>JSON.parse\<close> (\<open>None\<close> when it throws) and \<open>new URL\<close>. Every refusal of a handshake or response is the error
  \<open>cli_incompatible\<close>, so these checks return an option.
\<close>

section \<open>Errors and collaborators\<close>

datatype gateway_code =
    AuthorizationDenied | RouteUnavailableCode | OperationConflictCode | OperationInProgressCode
  | CredentialUnavailable | HostKeyMismatch | CliIncompatible | RemoteFailed | Timeout

text \<open>What a collaborator throws: an error of the gateway, or any other.\<close>

datatype gateway_failure = GatewayFailure gateway_code | OtherFailure

definition normalizeError :: "gateway_failure \<Rightarrow> gateway_code" where
  "normalizeError e = (case e of GatewayFailure c \<Rightarrow> c | OtherFailure \<Rightarrow> RemoteFailed)"

fun store_failure :: "ssh_error \<Rightarrow> gateway_failure" where
  "store_failure SshOperationConflict = GatewayFailure OperationConflictCode"
| "store_failure SshOperationInProgress = GatewayFailure OperationInProgressCode"

record platform =
  pf_collate :: "string \<Rightarrow> string \<Rightarrow> int"
  pf_sha :: "string \<Rightarrow> string"
  pf_json :: "string \<Rightarrow> jsval option"
  pf_url :: "string \<Rightarrow> endpoint_parts option"

record ssh_credential =
  cb_certificate :: "string option"
  cb_privateKey :: string
  cb_purpose :: string

record transport_result =
  tr_exitCode :: "int option"
  tr_stderr :: string
  tr_stdout :: string
  tr_timedOut :: bool

record verified_host =
  vh_address :: string
  vh_knownHostEntry :: string

text \<open>The protocol version of a handshake is always 1.\<close>

record control_handshake =
  hs_cliVersion :: string

record transport_command =
  tc_credential :: ssh_credential
  tc_handshake :: control_handshake
  tc_request :: gateway_request
  tc_route :: route_selection
  tc_verifiedHost :: verified_host

section \<open>Checks of collaborators' answers\<close>

definition project_purpose :: string where
  "project_purpose = ''project_control_gateway_v1''"

definition credential_ok :: "ssh_credential \<Rightarrow> bool" where
  "credential_ok c \<longleftrightarrow> js_trim (cb_privateKey c) \<noteq> [] \<and> length (cb_privateKey c) \<le> 65536 \<and>
     cb_purpose c = project_purpose \<and>
     (case cb_certificate c of None \<Rightarrow> True | Some s \<Rightarrow> js_trim s \<noteq> [] \<and> length s \<le> 65536)"

definition validatedTransportOutput :: "transport_result \<Rightarrow> gateway_code + string" where
  "validatedTransportOutput x =
     (if tr_timedOut x then Inl Timeout
      else if tr_exitCode x \<noteq> Some 0 then Inl RemoteFailed
      else if 65536 < utf8_length (tr_stdout x) \<or> 65536 < utf8_length (tr_stderr x) then Inl RemoteFailed
      else Inr (tr_stdout x))"

text \<open>\<open>value.trim().split('\n')\<close> when it has one line\<close>

definition one_line :: "string \<Rightarrow> string option" where
  "one_line value = (let t = js_trim value in if CHR 0x0A \<in> set t then None else Some t)"

definition strictObject :: "platform \<Rightarrow> string \<Rightarrow> string list \<Rightarrow> (string \<times> jsval) list option" where
  "strictObject pf line keys = do {
     v \<leftarrow> pf_json pf line;
     parsed \<leftarrow> as_object v;
     require (same_key_text parsed keys);
     Some parsed }"

text \<open>\<open>/^\d+\.\d+\.\d+(?:[-+][A-Za-z0-9.-]+)?$/\<close>\<close>

definition drop_number :: "string \<Rightarrow> string option" where
  "drop_number s = (if takeWhile is_digit s = [] then None else Some (dropWhile is_digit s))"

definition drop_dot :: "string \<Rightarrow> string option" where
  "drop_dot s = (case s of [] \<Rightarrow> None | c # rest \<Rightarrow> if c = CHR ''.'' then Some rest else None)"

definition version_suffix :: "string \<Rightarrow> bool" where
  "version_suffix s = (case s of
     [] \<Rightarrow> True
   | c # rest \<Rightarrow> c \<in> set ''-+'' \<and> rest \<noteq> [] \<and> list_all (\<lambda>c. is_alnum c \<or> c \<in> set ''.-'') rest)"

definition cli_version :: "string \<Rightarrow> bool" where
  "cli_version s =
     (case do { s1 \<leftarrow> drop_number s; s2 \<leftarrow> drop_dot s1; s3 \<leftarrow> drop_number s2; s4 \<leftarrow> drop_dot s3; drop_number s4 } of
        None \<Rightarrow> False | Some rest \<Rightarrow> version_suffix rest)"

definition operation_name_ok :: "string \<Rightarrow> bool" where
  "operation_name_ok s = (case s of
     [] \<Rightarrow> False
   | c # rest \<Rightarrow> in_range (CHR ''a'') (CHR ''z'') c \<and>
       class_rep (\<lambda>c. in_range (CHR ''a'') (CHR ''z'') c \<or> is_digit c \<or> c \<in> set ''._-'') 0 63 rest)"

fun as_array :: "jsval \<Rightarrow> jsval list option" where
  "as_array (VArr vs) = Some vs"
| "as_array v = None"

definition validateHandshake :: "platform \<Rightarrow> string \<Rightarrow> string \<Rightarrow> control_handshake option" where
  "validateHandshake pf value wanted = do {
     line \<leftarrow> one_line value;
     h \<leftarrow> strictObject pf line [''cliVersion'', ''operations'', ''protocolVersion'', ''schemaVersion'', ''type''];
     require (field h ''type'' = VStr ''handshake'' \<and> field h ''schemaVersion'' = VNum (Finite 1) \<and>
       field h ''protocolVersion'' = VNum (Finite 1));
     version \<leftarrow> string_when cli_version (field h ''cliVersion'');
     vs \<leftarrow> as_array (field h ''operations'');
     require (length vs \<le> 32);
     names \<leftarrow> traverse (string_when operation_name_ok) vs;
     require (distinct names \<and> wanted \<in> set names);
     Some \<lparr>hs_cliVersion = version\<rparr> }"

section \<open>Responses\<close>

definition opt_value :: "string option \<Rightarrow> jsval" where
  "opt_value v = (case v of None \<Rightarrow> VUndefined | Some s \<Rightarrow> VStr s)"

definition opt_mode :: "runtime_mode option \<Rightarrow> jsval" where
  "opt_mode v = (case v of None \<Rightarrow> VUndefined | Some m \<Rightarrow> mode_value m)"

text \<open>\<open>checkedAt\<close> must parse to a time from 30 seconds before the start to 30 seconds after now.\<close>

definition checked_at :: "int \<Rightarrow> int \<Rightarrow> jsval \<Rightarrow> string option" where
  "checked_at startedAt now v = do {
     s \<leftarrow> as_string v;
     t \<leftarrow> date_parse s;
     require (startedAt - 30000 \<le> t \<and> t \<le> now + 30000);
     Some s }"

text \<open>What every response repeats of its request.\<close>

definition response_bound :: "gateway_request \<Rightarrow> string \<Rightarrow> (string \<times> jsval) list \<Rightarrow> bool" where
  "response_bound r revision parsed \<longleftrightarrow>
     field parsed ''schemaVersion'' = VNum (Finite 1) \<and> field parsed ''type'' = VStr ''result'' \<and>
     field parsed ''operation'' = VStr (gr_operation r) \<and> field parsed ''operationId'' = VStr (gr_operationId r) \<and>
     field parsed ''targetIdentityRevision'' = VStr revision"

definition response_result :: "string \<Rightarrow> gateway_request \<Rightarrow> string \<Rightarrow> ssh_payload \<Rightarrow> ssh_result" where
  "response_result checked r revision payload =
     \<lparr>sr_checkedAt = checked, sr_operationId = gr_operationId r, sr_targetIdentityRevision = revision,
      sr_payload = payload\<rparr>"

definition validateStatusResponse ::
    "platform \<Rightarrow> string \<Rightarrow> gateway_request \<Rightarrow> string \<Rightarrow> int \<Rightarrow> int \<Rightarrow> ssh_result option" where
  "validateStatusResponse pf value r revision startedAt now = do {
     line \<leftarrow> one_line value;
     parsed \<leftarrow> strictObject pf line [''checkedAt'', ''operation'', ''operationId'', ''schemaVersion'', ''state'',
       ''targetIdentityRevision'', ''type''];
     require (response_bound r revision parsed \<and> field parsed ''state'' = VStr ''ready'');
     checked \<leftarrow> checked_at startedAt now (field parsed ''checkedAt'');
     Some (response_result checked r revision StatusReady) }"

definition validateWorktreePrepareResponse ::
    "platform \<Rightarrow> string \<Rightarrow> gateway_request \<Rightarrow> string \<Rightarrow> int \<Rightarrow> int \<Rightarrow> ssh_result option" where
  "validateWorktreePrepareResponse pf value r revision startedAt now = do {
     line \<leftarrow> one_line value;
     parsed \<leftarrow> strictObject pf line [''branch'', ''checkedAt'', ''commit'', ''operation'', ''operationId'',
       ''schemaVersion'', ''state'', ''targetIdentityRevision'', ''type'', ''workspaceId''];
     require (response_bound r revision parsed \<and> field parsed ''state'' = VStr ''ready'' \<and>
       field parsed ''workspaceId'' = opt_value (gr_workspaceId r) \<and>
       field parsed ''branch'' = opt_value (gr_branch r) \<and> field parsed ''commit'' = opt_value (gr_commit r));
     checked \<leftarrow> checked_at startedAt now (field parsed ''checkedAt'');
     branch \<leftarrow> gr_branch r;
     commit \<leftarrow> gr_commit r;
     workspace \<leftarrow> gr_workspaceId r;
     Some (response_result checked r revision
       (WorktreePrepared \<lparr>wp_branch = branch, wp_commit = commit, wp_workspaceId = workspace\<rparr>)) }"

definition runtime_state_of :: "string \<Rightarrow> gateway_runtime_state option" where
  "runtime_state_of = map_of
     [(''starting'', GwStarting), (''running'', GwRunning), (''suspending'', GwSuspending), (''suspended'', GwSuspended),
      (''resuming'', GwResuming), (''stopping'', GwStopping), (''stopped'', GwStopped), (''cleaning'', GwCleaning),
      (''stale'', GwStale), (''failed'', GwFailed)]"

definition required_response_keys :: "string list" where
  "required_response_keys =
     [''checkedAt'', ''manifestDigest'', ''mode'', ''operation'', ''operationId'', ''schemaVersion'', ''sourceHead'',
      ''state'', ''targetIdentityRevision'', ''type'', ''workspaceId'']"

text \<open>\<open>value !== undefined && !isUuid(value)\<close> negated\<close>

definition absent_or_uuid :: "jsval \<Rightarrow> string option option" where
  "absent_or_uuid v = (if v = VUndefined then Some None else map_option Some (string_when isUuid v))"

definition validateWorkspaceRuntimeResponse ::
    "platform \<Rightarrow> string \<Rightarrow> gateway_request \<Rightarrow> string \<Rightarrow> int \<Rightarrow> int \<Rightarrow> ssh_result option" where
  "validateWorkspaceRuntimeResponse pf value r revision startedAt now = do {
     line \<leftarrow> one_line value;
     v \<leftarrow> pf_json pf line;
     parsed \<leftarrow> as_object v;
     require (set (object_keys parsed) \<subseteq> set (required_response_keys @ [''disposition'', ''generation'']) \<and>
       set required_response_keys \<subseteq> set (object_keys parsed));
     require (response_bound r revision parsed \<and>
       field parsed ''workspaceId'' = opt_value (gr_workspaceId r) \<and>
       field parsed ''sourceHead'' = opt_value (gr_expectedCommit r) \<and>
       field parsed ''manifestDigest'' = opt_value (gr_expectedManifestDigest r) \<and>
       field parsed ''mode'' = opt_mode (gr_mode r));
     st \<leftarrow> Option.bind (as_string (field parsed ''state'')) runtime_state_of;
     checked \<leftarrow> checked_at startedAt now (field parsed ''checkedAt'');
     generation \<leftarrow> absent_or_uuid (field parsed ''generation'');
     require (field parsed ''disposition'' = VUndefined \<or>
       one_of [''created'', ''reused'', ''cleaned''] (field parsed ''disposition''));
     require (gr_expectedGeneration r \<noteq> None \<longrightarrow> generation = gr_expectedGeneration r);
     workspace \<leftarrow> gr_workspaceId r;
     head \<leftarrow> gr_expectedCommit r;
     digest \<leftarrow> gr_expectedManifestDigest r;
     mode \<leftarrow> gr_mode r;
     Some (response_result checked r revision (RuntimeControlled (gr_operation r)
       \<lparr>rp_disposition = field parsed ''disposition'', rp_generation = generation, rp_manifestDigest = digest,
        rp_mode = mode, rp_sourceHead = head, rp_state = st, rp_workspaceId = workspace\<rparr>)) }"

definition validateControlResponse ::
    "platform \<Rightarrow> string \<Rightarrow> gateway_request \<Rightarrow> string \<Rightarrow> int \<Rightarrow> int \<Rightarrow> ssh_result option" where
  "validateControlResponse pf value r revision startedAt now =
     (if gr_operation r = ''status.v1'' then validateStatusResponse pf value r revision startedAt now
      else if gr_operation r = ''worktree.prepare.v1''
      then validateWorktreePrepareResponse pf value r revision startedAt now
      else validateWorkspaceRuntimeResponse pf value r revision startedAt now)"

section \<open>Fingerprint and audit\<close>

definition json_entry :: "string \<Rightarrow> string option \<Rightarrow> (string \<times> json) list" where
  "json_entry name v = (case v of None \<Rightarrow> [] | Some s \<Rightarrow> [(name, JStr s)])"

fun mode_text :: "runtime_mode \<Rightarrow> string" where
  "mode_text ProcessMode = ''process''"
| "mode_text DevcontainerMode = ''devcontainer''"

fun actor_kind_text :: "gateway_actor_kind \<Rightarrow> string" where
  "actor_kind_text GatewayHuman = ''human''"
| "actor_kind_text GatewayMachine = ''machine''"

definition fingerprint_json :: "gateway_actor \<Rightarrow> gateway_request \<Rightarrow> route_authorization \<Rightarrow> json" where
  "fingerprint_json actor r a = JObj (
     [(''actorId'', JStr (ga_id actor)), (''actorKind'', JStr (actor_kind_text (ga_kind actor))),
      (''capability'', JStr ''project_cli''), (''environmentId'', JStr (gr_environmentId r)),
      (''gatewayId'', JStr (az_gatewayId a)), (''operation'', JStr (gr_operation r))] @
     json_entry ''branch'' (gr_branch r) @ json_entry ''commit'' (gr_commit r) @
     json_entry ''expectedBranch'' (gr_expectedBranch r) @ json_entry ''expectedCommit'' (gr_expectedCommit r) @
     json_entry ''expectedGeneration'' (gr_expectedGeneration r) @
     json_entry ''expectedManifestDigest'' (gr_expectedManifestDigest r) @
     json_entry ''expectedRuntimeVersion'' (gr_expectedRuntimeVersion r) @
     json_entry ''mode'' (map_option mode_text (gr_mode r)) @
     [(''ownerUserId'', JStr (ga_ownerUserId actor))] @
     json_entry ''repository'' (gr_repository r) @
     json_entry ''runtimeSessionOwnerUserId'' (gr_runtimeSessionOwnerUserId r) @
     (case gr_runtimeSessionRequestedCapabilities r of None \<Rightarrow> []
      | Some cs \<Rightarrow> [(''runtimeSessionRequestedCapabilities'', JArr (map JStr cs))]) @
     [(''targetIdentityRevision'', JStr (az_identityRevision a))] @
     json_entry ''worktreeOwnerThreadId'' (gr_worktreeOwnerThreadId r) @
     json_entry ''workspaceId'' (gr_workspaceId r))"

definition requestFingerprint ::
    "platform \<Rightarrow> gateway_actor \<Rightarrow> gateway_request \<Rightarrow> route_authorization \<Rightarrow> string" where
  "requestFingerprint pf actor r a = pf_sha pf (json_print (fingerprint_json actor r a))"

definition auditEvidence ::
    "int \<Rightarrow> gateway_actor \<Rightarrow> gateway_request \<Rightarrow> route_authorization \<Rightarrow> string \<Rightarrow> audit_outcome \<Rightarrow> ssh_audit" where
  "auditEvidence now actor r a routeId outcome =
     \<lparr>sa_actorId = ga_id actor, sa_actorKind = ga_kind actor, sa_capability = ''project_cli'',
      sa_completedAt = (if outcome = OutcomeAccepted then None else Some (to_iso now)),
      sa_operation = gr_operation r, sa_operationId = gr_operationId r, sa_outcome = outcome,
      sa_gatewayId = az_gatewayId a, sa_routeClass = ''ssh_private_network'', sa_routeId = routeId,
      sa_targetEnvironmentId = gr_environmentId r, sa_targetIdentityRevision = az_identityRevision a\<rparr>"

section \<open>Authorization\<close>

definition assertAuthorizationBinding ::
    "int \<Rightarrow> gateway_actor \<Rightarrow> gateway_request \<Rightarrow> route_authorization \<Rightarrow> int \<Rightarrow> bool" where
  "assertAuthorizationBinding now actor r a minimumValidityMs \<longleftrightarrow>
     az_allowed a \<and> az_ownerUserId a = ga_ownerUserId actor \<and> az_capability a = ProjectCli \<and>
     at_kind (az_target a) = EnvironmentTarget \<and> at_id (az_target a) = gr_environmentId r \<and>
     az_identityRevision a \<noteq> [] \<and> az_gatewayId a \<noteq> [] \<and>
     (case date_parse (az_expiresAt a) of None \<Rightarrow> False | Some expiresAt \<Rightarrow> now + minimumValidityMs < expiresAt)"

definition assertAuthorizationStable :: "route_authorization \<Rightarrow> route_authorization \<Rightarrow> bool" where
  "assertAuthorizationStable first second \<longleftrightarrow>
     az_ownerUserId first = az_ownerUserId second \<and> az_gatewayId first = az_gatewayId second \<and>
     az_capability first = az_capability second \<and> az_risk first = az_risk second \<and>
     at_kind (az_target first) = at_kind (az_target second) \<and> at_id (az_target first) = at_id (az_target second) \<and>
     az_identityRevision first = az_identityRevision second"

text \<open>The five fields that \<open>sameTargetBinding\<close> compares are all a binding has.\<close>

definition sameTargetBinding :: "ssh_target_binding \<Rightarrow> ssh_target_binding \<Rightarrow> bool" where
  "sameTargetBinding left right \<longleftrightarrow>
     tb_environmentId left = tb_environmentId right \<and>
     tb_environmentDefinitionId left = tb_environmentDefinitionId right \<and>
     tb_platformId left = tb_platformId right \<and> tb_hostId left = tb_hostId right \<and>
     tb_targetIdentityRevision left = tb_targetIdentityRevision right"

text \<open>Two selections have the same text exactly when they are equal: \<open>selection\<close> writes the fields in one order.\<close>

definition sameRouteBinding :: "route_selection \<Rightarrow> route_selection \<Rightarrow> bool" where
  "sameRouteBinding left right \<longleftrightarrow> left = right"

text \<open>What the task store answers to the authorizer of Worktree preparation.\<close>

definition worktree_authorized :: "task_readings \<Rightarrow> gateway_actor \<Rightarrow> gateway_request \<Rightarrow> bool" where
  "worktree_authorized readings actor r \<longleftrightarrow>
     ga_kind actor = GatewayMachine \<and> gr_operation r = ''worktree.prepare.v1'' \<and>
     truthy (gr_worktreeOwnerThreadId r) \<and> truthy (gr_workspaceId r) \<and> truthy (gr_repository r) \<and>
     truthy (gr_branch r) \<and> truthy (gr_commit r) \<and>
     (case (rd_execution readings, rd_workspace readings, gr_repository r) of
        (Some e, Some w, Some repository) \<Rightarrow>
          ex_environmentId e = gr_environmentId r \<and>
          prefix (''github:'' @ repository @ '':'') (src_taskId (ex_source e)) \<and>
          Some (src_branch (ex_source e)) = gr_branch r \<and> src_commit (ex_source e) = gr_commit r \<and>
          ex_state e = PreparingWorkspace \<and>
          Some (ws_id w) = gr_workspaceId r \<and> ws_executionId w = ex_id e \<and>
          ws_repositoryId w = src_repositoryId (ex_source e) \<and> Some (ws_branch w) = gr_branch r \<and>
          ws_commit w = gr_commit r \<and> ws_state w = WsPreparing
      | _ \<Rightarrow> False)"

end
