(* ===== verification/SshService.thy ===== *)
theory SshService
  imports SshWire
begin

text \<open>
  The SSH control gateway (\<open>server/ssh-control-gateway/service.ts\<close>): \<open>execute\<close> and \<open>replaySucceeded\<close> over the
  operation store. A call is kept with the point it waits at and the local variables it will read again.
  \<open>advance\<close> says what a call does with the answer it waited for, and \<open>perform\<close> does it on the store;
  \<open>gateway_step\<close> resumes one call, so a run is any interleaving of calls. What the collaborators answer is the
  argument of a step and may be anything, except that a target is resolved from an inventory by
  \<open>target-resolver.ts\<close>, and the authorizer of Worktree preparation reads the task store; a gateway
  without that authorizer is one where it answers \<open>authorization_denied\<close>. The store's methods have no
  \<open>await\<close>, so each is part of the step that calls it. The commands the transport executes are logged with
  their call. \<open>reconcile\<close> is called from outside the service.
\<close>

section \<open>Calls in progress\<close>

record gateway_args =
  gq_actor :: gateway_actor
  gq_request :: gateway_request

record reserved_call =
  rv_args :: gateway_args
  rv_first :: route_authorization
  rv_target :: ssh_target_binding
  rv_selected :: route_selection

record prepared_call =
  pr_reserved :: reserved_call
  pr_second :: route_authorization
  pr_route :: route_selection
  pr_host :: verified_host
  pr_credential :: ssh_credential
  pr_handshake :: control_handshake

record execution_result =
  xr_audit :: ssh_audit
  xr_replayed :: bool
  xr_result :: ssh_result

datatype gateway_mode = ExecuteMode | ReplayMode

datatype gateway_call =
    AwaitFirst gateway_mode gateway_args
  | AwaitTarget gateway_mode gateway_args route_authorization
  | AwaitWorktree gateway_mode gateway_args route_authorization ssh_target_binding
  | AwaitRoutes gateway_mode gateway_args route_authorization ssh_target_binding int
  | AwaitSecond reserved_call
  | AwaitSecondTarget reserved_call route_authorization
  | AwaitSecondRoutes reserved_call route_authorization int
  | AwaitHost reserved_call route_authorization route_selection
  | AwaitCredential reserved_call route_authorization route_selection verified_host
  | AwaitHandshake reserved_call route_authorization route_selection verified_host ssh_credential
  | AwaitFinal prepared_call
  | AwaitFinalTarget prepared_call route_authorization
  | AwaitFinalWorktree prepared_call route_authorization
  | AwaitFinalRoutes prepared_call route_authorization int
  | Dispatched prepared_call route_authorization route_selection
  | AwaitRun prepared_call route_authorization route_selection int
  | GatewayAnswered "gateway_failure + execution_result option"

datatype gateway_answer =
    AAuthorize "gateway_failure + route_authorization"
  | ASnapshot "gateway_failure + compute_snapshot"
  | AWorktree "gateway_failure + task_readings"
  | ARoutes "gateway_failure + network_inventory"
  | AHost "gateway_failure + verified_host"
  | ACredential "gateway_failure + ssh_credential"
  | ATransport "gateway_failure + transport_result"

text \<open>What a call does next: wait, fail before its reservation, use the store, or fail after its reservation.\<close>

datatype gateway_move =
    GStay
  | GNext gateway_call
  | GRefuse gateway_failure
  | GReserve reserved_call
  | GReadReplay gateway_args route_authorization route_selection
  | GFail reserved_call bool gateway_failure
  | GMark prepared_call route_authorization route_selection
  | GComplete prepared_call route_authorization route_selection ssh_result

abbreviation code_failure :: "gateway_code \<Rightarrow> gateway_failure" where
  "code_failure \<equiv> GatewayFailure"

section \<open>What a call does with an answer\<close>

text \<open>\<open>targets.resolve\<close> on the inventory that was loaded.\<close>

definition resolved_target :: "gateway_args \<Rightarrow> gateway_failure + compute_snapshot \<Rightarrow> gateway_failure + ssh_target_binding" where
  "resolved_target args x =
     (case x of
        Inl f \<Rightarrow> Inl f
      | Inr snapshot \<Rightarrow>
          (case resolve_ssh_target snapshot (gr_environmentId (gq_request args)) of
             None \<Rightarrow> Inl (code_failure RouteUnavailableCode) | Some b \<Rightarrow> Inr b))"

definition worktree_request :: "gateway_args \<Rightarrow> bool" where
  "worktree_request args \<longleftrightarrow> gr_operation (gq_request args) = ''worktree.prepare.v1''"

definition authorizeWorktree :: "gateway_args \<Rightarrow> gateway_failure + task_readings \<Rightarrow> gateway_failure option" where
  "authorizeWorktree args x =
     (case x of
        Inl f \<Rightarrow> Some f
      | Inr readings \<Rightarrow>
          if worktree_authorized readings (gq_actor args) (gq_request args) then None
          else Some (code_failure AuthorizationDenied))"

definition binding_holds :: "int \<Rightarrow> gateway_args \<Rightarrow> route_authorization \<Rightarrow> int \<Rightarrow> bool" where
  "binding_holds now args a minimum = assertAuthorizationBinding now (gq_actor args) (gq_request args) a minimum"

definition control_route :: "route_selection \<Rightarrow> bool" where
  "control_route r \<longleftrightarrow> sl_routeKind r = SshPrivateNetwork \<and> sl_credentialPurpose r = Some project_purpose"

text \<open>The selection of the first route, before the reservation or the lookup of a record.\<close>

definition after_choice ::
    "gateway_mode \<Rightarrow> gateway_args \<Rightarrow> route_authorization \<Rightarrow> ssh_target_binding \<Rightarrow> route_choice \<Rightarrow> gateway_move" where
  "after_choice m args a b choice =
     (case choice of
        ChoiceReady r \<Rightarrow>
          (case m of
             ExecuteMode \<Rightarrow>
               if control_route r
               then GReserve \<lparr>rv_args = args, rv_first = a, rv_target = b, rv_selected = r\<rparr>
               else GRefuse (code_failure RouteUnavailableCode)
           | ReplayMode \<Rightarrow>
               if sl_routeKind r = SshPrivateNetwork then GReadReplay args a r
               else GRefuse (code_failure RouteUnavailableCode))
      | ChoiceDenied \<Rightarrow>
          GRefuse (code_failure (if m = ExecuteMode then AuthorizationDenied else RouteUnavailableCode))
      | _ \<Rightarrow> GRefuse (code_failure RouteUnavailableCode))"

definition enter_routes ::
    "int \<Rightarrow> gateway_mode \<Rightarrow> gateway_args \<Rightarrow> route_authorization \<Rightarrow> ssh_target_binding \<Rightarrow> gateway_move" where
  "enter_routes now m args a b =
     (if authorizationIsCurrent a now then GNext (AwaitRoutes m args a b now)
      else after_choice m args a b ChoiceDenied)"

text \<open>The selection of the reserved route again, with the second authorization.\<close>

definition after_second :: "reserved_call \<Rightarrow> route_authorization \<Rightarrow> route_choice \<Rightarrow> gateway_move" where
  "after_second rv a choice =
     (case choice of
        ChoiceReady r \<Rightarrow>
          if \<not> control_route r \<or> at_id (sl_target r) \<noteq> gr_environmentId (gq_request (rv_args rv))
          then GFail rv False (code_failure AuthorizationDenied)
          else if \<not> truthy (sl_credentialReference r) then GFail rv False (code_failure CredentialUnavailable)
          else if \<not> assertAuthorizationStable (rv_first rv) a then GFail rv False (code_failure AuthorizationDenied)
          else GNext (AwaitHost rv a r)
      | _ \<Rightarrow> GFail rv False (code_failure AuthorizationDenied))"

text \<open>The last selection; the authorization must still be valid for a second when it is done.\<close>

definition after_final :: "int \<Rightarrow> prepared_call \<Rightarrow> route_authorization \<Rightarrow> route_choice \<Rightarrow> gateway_move" where
  "after_final now p a choice =
     (let rv = pr_reserved p in
      case choice of
        ChoiceReady r \<Rightarrow>
          if \<not> sameRouteBinding r (pr_route p) then GFail rv False (code_failure RouteUnavailableCode)
          else if \<not> binding_holds now (rv_args rv) a 1000 then GFail rv False (code_failure AuthorizationDenied)
          else GMark p a r
      | _ \<Rightarrow> GFail rv False (code_failure RouteUnavailableCode))"

definition enter_final_routes :: "int \<Rightarrow> prepared_call \<Rightarrow> route_authorization \<Rightarrow> gateway_move" where
  "enter_final_routes now p a =
     (if authorizationIsCurrent a now then GNext (AwaitFinalRoutes p a now) else after_final now p a ChoiceDenied)"

definition explicit_choice :: "platform \<Rightarrow> reserved_call \<Rightarrow> route_authorization \<Rightarrow> network_inventory \<Rightarrow> int \<Rightarrow> route_choice" where
  "explicit_choice pf rv a inventory now =
     selectAuthorizedAccessRoute (pf_collate pf) a (Some (sl_routeId (rv_selected rv))) inventory now"

text \<open>The answer of the transport to a command: the result, or what is thrown.\<close>

definition run_outcome ::
    "platform \<Rightarrow> int \<Rightarrow> gateway_request \<Rightarrow> string \<Rightarrow> int \<Rightarrow> gateway_failure + transport_result \<Rightarrow>
     gateway_failure + ssh_result" where
  "run_outcome pf now r revision startedAt x =
     (case x of
        Inl f \<Rightarrow> Inl f
      | Inr t \<Rightarrow>
          (case validatedTransportOutput t of
             Inl c \<Rightarrow> Inl (code_failure c)
           | Inr out \<Rightarrow>
               (case validateControlResponse pf out r revision startedAt now of
                  None \<Rightarrow> Inl (code_failure CliIncompatible) | Some res \<Rightarrow> Inr res)))"

definition handshake_outcome ::
    "platform \<Rightarrow> string \<Rightarrow> gateway_failure + transport_result \<Rightarrow> gateway_failure + control_handshake" where
  "handshake_outcome pf wanted x =
     (case x of
        Inl f \<Rightarrow> Inl f
      | Inr t \<Rightarrow>
          (case validatedTransportOutput t of
             Inl c \<Rightarrow> Inl (code_failure c)
           | Inr out \<Rightarrow>
               (case validateHandshake pf out wanted of
                  None \<Rightarrow> Inl (code_failure CliIncompatible) | Some h \<Rightarrow> Inr h)))"

fun advance :: "platform \<Rightarrow> int \<Rightarrow> gateway_answer \<Rightarrow> gateway_call \<Rightarrow> gateway_move" where
  "advance pf now answer (AwaitFirst m args) =
     (case answer of
        AAuthorize (Inl f) \<Rightarrow> GRefuse f
      | AAuthorize (Inr a) \<Rightarrow>
          if binding_holds now args a 0 then GNext (AwaitTarget m args a)
          else GRefuse (code_failure AuthorizationDenied)
      | _ \<Rightarrow> GStay)"
| "advance pf now answer (AwaitTarget m args a) =
     (case answer of
        ASnapshot x \<Rightarrow>
          (case resolved_target args x of
             Inl f \<Rightarrow> GRefuse f
           | Inr b \<Rightarrow>
               if tb_environmentId b \<noteq> gr_environmentId (gq_request args) \<or>
                 tb_targetIdentityRevision b \<noteq> az_identityRevision a
               then GRefuse (code_failure RouteUnavailableCode)
               else if worktree_request args then GNext (AwaitWorktree m args a b)
               else enter_routes now m args a b)
      | _ \<Rightarrow> GStay)"
| "advance pf now answer (AwaitWorktree m args a b) =
     (case answer of
        AWorktree x \<Rightarrow>
          (case authorizeWorktree args x of
             Some f \<Rightarrow> GRefuse f | None \<Rightarrow> enter_routes now m args a b)
      | _ \<Rightarrow> GStay)"
| "advance pf now answer (AwaitRoutes m args a b t) =
     (case answer of
        ARoutes (Inl f) \<Rightarrow> GRefuse f
      | ARoutes (Inr inventory) \<Rightarrow>
          after_choice m args a b (selectAuthorizedAccessRoute (pf_collate pf) a None inventory t)
      | _ \<Rightarrow> GStay)"
| "advance pf now answer (AwaitSecond rv) =
     (case answer of
        AAuthorize (Inl f) \<Rightarrow> GFail rv False f
      | AAuthorize (Inr a) \<Rightarrow>
          if binding_holds now (rv_args rv) a 0 then GNext (AwaitSecondTarget rv a)
          else GFail rv False (code_failure AuthorizationDenied)
      | _ \<Rightarrow> GStay)"
| "advance pf now answer (AwaitSecondTarget rv a) =
     (case answer of
        ASnapshot x \<Rightarrow>
          (case resolved_target (rv_args rv) x of
             Inl f \<Rightarrow> GFail rv False f
           | Inr b \<Rightarrow>
               if \<not> sameTargetBinding b (rv_target rv) then GFail rv False (code_failure RouteUnavailableCode)
               else if authorizationIsCurrent a now then GNext (AwaitSecondRoutes rv a now)
               else after_second rv a ChoiceDenied)
      | _ \<Rightarrow> GStay)"
| "advance pf now answer (AwaitSecondRoutes rv a t) =
     (case answer of
        ARoutes (Inl f) \<Rightarrow> GFail rv False f
      | ARoutes (Inr inventory) \<Rightarrow> after_second rv a (explicit_choice pf rv a inventory t)
      | _ \<Rightarrow> GStay)"
| "advance pf now answer (AwaitHost rv a r) =
     (case answer of
        AHost (Inl f) \<Rightarrow> GFail rv False f
      | AHost (Inr h) \<Rightarrow> GNext (AwaitCredential rv a r h)
      | _ \<Rightarrow> GStay)"
| "advance pf now answer (AwaitCredential rv a r h) =
     (case answer of
        ACredential (Inl f) \<Rightarrow> GFail rv False (code_failure CredentialUnavailable)
      | ACredential (Inr c) \<Rightarrow>
          if credential_ok c then GNext (AwaitHandshake rv a r h c)
          else GFail rv False (code_failure CredentialUnavailable)
      | _ \<Rightarrow> GStay)"
| "advance pf now answer (AwaitHandshake rv a r h c) =
     (case answer of
        ATransport x \<Rightarrow>
          (case handshake_outcome pf (gr_operation (gq_request (rv_args rv))) x of
             Inl f \<Rightarrow> GFail rv False f
           | Inr hs \<Rightarrow> GNext (AwaitFinal \<lparr>pr_reserved = rv, pr_second = a, pr_route = r, pr_host = h,
               pr_credential = c, pr_handshake = hs\<rparr>))
      | _ \<Rightarrow> GStay)"
| "advance pf now answer (AwaitFinal p) =
     (case answer of
        AAuthorize (Inl f) \<Rightarrow> GFail (pr_reserved p) False f
      | AAuthorize (Inr a) \<Rightarrow>
          if binding_holds now (rv_args (pr_reserved p)) a 5000 \<and> assertAuthorizationStable (pr_second p) a
          then GNext (AwaitFinalTarget p a)
          else GFail (pr_reserved p) False (code_failure AuthorizationDenied)
      | _ \<Rightarrow> GStay)"
| "advance pf now answer (AwaitFinalTarget p a) =
     (case answer of
        ASnapshot x \<Rightarrow>
          (case resolved_target (rv_args (pr_reserved p)) x of
             Inl f \<Rightarrow> GFail (pr_reserved p) False f
           | Inr b \<Rightarrow>
               if \<not> sameTargetBinding b (rv_target (pr_reserved p))
               then GFail (pr_reserved p) False (code_failure RouteUnavailableCode)
               else if worktree_request (rv_args (pr_reserved p)) then GNext (AwaitFinalWorktree p a)
               else enter_final_routes now p a)
      | _ \<Rightarrow> GStay)"
| "advance pf now answer (AwaitFinalWorktree p a) =
     (case answer of
        AWorktree x \<Rightarrow>
          (case authorizeWorktree (rv_args (pr_reserved p)) x of
             Some f \<Rightarrow> GFail (pr_reserved p) False f | None \<Rightarrow> enter_final_routes now p a)
      | _ \<Rightarrow> GStay)"
| "advance pf now answer (AwaitFinalRoutes p a t) =
     (case answer of
        ARoutes (Inl f) \<Rightarrow> GFail (pr_reserved p) False f
      | ARoutes (Inr inventory) \<Rightarrow> after_final now p a (explicit_choice pf (pr_reserved p) a inventory t)
      | _ \<Rightarrow> GStay)"
| "advance pf now answer (AwaitRun p a r startedAt) =
     (case answer of
        ATransport x \<Rightarrow>
          (case run_outcome pf now (gq_request (rv_args (pr_reserved p))) (sl_targetIdentityRevision r) startedAt x of
             Inl f \<Rightarrow> GFail (pr_reserved p) True f
           | Inr res \<Rightarrow> GComplete p a r res)
      | _ \<Rightarrow> GStay)"
| "advance pf now answer (Dispatched p a r) = GStay"
| "advance pf now answer (GatewayAnswered v) = GStay"

section \<open>What a move does to the store\<close>

definition args_fingerprint :: "platform \<Rightarrow> gateway_args \<Rightarrow> route_authorization \<Rightarrow> string" where
  "args_fingerprint pf args a = requestFingerprint pf (gq_actor args) (gq_request args) a"

definition args_audit :: "int \<Rightarrow> gateway_args \<Rightarrow> route_authorization \<Rightarrow> route_selection \<Rightarrow> audit_outcome \<Rightarrow> ssh_audit" where
  "args_audit now args a selected outcome =
     auditEvidence now (gq_actor args) (gq_request args) a (sl_routeId selected) outcome"

definition reservation_of :: "platform \<Rightarrow> int \<Rightarrow> reserved_call \<Rightarrow> ssh_reservation" where
  "reservation_of pf now rv =
     \<lparr>sv_audit = args_audit now (rv_args rv) (rv_first rv) (rv_selected rv) OutcomeAccepted,
      sv_fingerprint = args_fingerprint pf (rv_args rv) (rv_first rv),
      sv_operationId = gr_operationId (gq_request (rv_args rv)),
      sv_ownerUserId = ga_ownerUserId (gq_actor (rv_args rv)),
      sv_targetEnvironmentId = gr_environmentId (gq_request (rv_args rv))\<rparr>"

definition dispatch_of :: "platform \<Rightarrow> reserved_call \<Rightarrow> ssh_dispatch" where
  "dispatch_of pf rv =
     \<lparr>sd_fingerprint = args_fingerprint pf (rv_args rv) (rv_first rv),
      sd_operationId = gr_operationId (gq_request (rv_args rv)),
      sd_ownerUserId = ga_ownerUserId (gq_actor (rv_args rv))\<rparr>"

definition completion_of ::
    "platform \<Rightarrow> reserved_call \<Rightarrow> ssh_audit \<Rightarrow> ssh_result option \<Rightarrow> ssh_state \<Rightarrow> ssh_completion" where
  "completion_of pf rv audit res st =
     \<lparr>sp_audit = audit, sp_fingerprint = args_fingerprint pf (rv_args rv) (rv_first rv),
      sp_operationId = gr_operationId (gq_request (rv_args rv)),
      sp_ownerUserId = ga_ownerUserId (gq_actor (rv_args rv)), sp_result = res, sp_state = st\<rparr>"

definition failed_state :: "bool \<Rightarrow> gateway_code \<Rightarrow> ssh_state" where
  "failed_state dispatchAttempted c =
     (if dispatchAttempted \<and> c = CliIncompatible then SshIncompatible
      else if dispatchAttempted \<and> (c = Timeout \<or> c = RemoteFailed) then SshUncertain
      else SshFailed)"

text \<open>The \<open>catch\<close> of \<open>execute\<close>: the outcome is recorded when the store allows it, and the failure is thrown.\<close>

definition fail_call ::
    "platform \<Rightarrow> int \<Rightarrow> reserved_call \<Rightarrow> bool \<Rightarrow> gateway_failure \<Rightarrow> ssh_store \<Rightarrow> gateway_call \<times> ssh_store" where
  "fail_call pf now rv dispatchAttempted f s =
     (let c = normalizeError f;
          st = failed_state dispatchAttempted c;
          audit = args_audit now (rv_args rv) (rv_first rv) (rv_selected rv)
            (if st = SshUncertain then OutcomeUncertain else OutcomeFailed)
      in (GatewayAnswered (Inl (code_failure c)), snd (ssh_complete (completion_of pf rv audit None st) s)))"

definition replayed_result :: "ssh_record \<Rightarrow> execution_result option" where
  "replayed_result r =
     (if sc_state r = SshSucceeded
      then map_option (\<lambda>res. \<lparr>xr_audit = sc_audit r, xr_replayed = True, xr_result = res\<rparr>) (sc_result r) else None)"

definition reserve_call :: "platform \<Rightarrow> int \<Rightarrow> reserved_call \<Rightarrow> ssh_store \<Rightarrow> gateway_call \<times> ssh_store" where
  "reserve_call pf now rv s =
     (case ssh_reserve (reservation_of pf now rv) s of
        (Inl e, s') \<Rightarrow> (GatewayAnswered (Inl (store_failure e)), s')
      | (Inr (r, replayed), s') \<Rightarrow>
          (if \<not> replayed then AwaitSecond rv
           else (case replayed_result r of
               Some x \<Rightarrow> GatewayAnswered (Inr (Some x))
             | None \<Rightarrow> GatewayAnswered (Inl (code_failure
                 (if sc_state r = SshReserved then OperationInProgressCode else OperationConflictCode)))), s'))"

text \<open>The end of \<open>replaySucceeded\<close>: \<open>undefined\<close> when there is no record.\<close>

definition replay_matches ::
    "platform \<Rightarrow> gateway_args \<Rightarrow> route_authorization \<Rightarrow> route_selection \<Rightarrow> ssh_record \<Rightarrow> bool" where
  "replay_matches pf args a selected r \<longleftrightarrow>
     sc_fingerprint r = args_fingerprint pf args a \<and> sa_actorId (sc_audit r) = ga_id (gq_actor args) \<and>
     sa_actorKind (sc_audit r) = ga_kind (gq_actor args) \<and> sa_gatewayId (sc_audit r) = az_gatewayId a \<and>
     sa_routeId (sc_audit r) = sl_routeId selected \<and> sa_operation (sc_audit r) = gr_operation (gq_request args) \<and>
     sa_targetEnvironmentId (sc_audit r) = gr_environmentId (gq_request args) \<and>
     sa_targetIdentityRevision (sc_audit r) = az_identityRevision a"

definition replay_call ::
    "platform \<Rightarrow> gateway_args \<Rightarrow> route_authorization \<Rightarrow> route_selection \<Rightarrow> ssh_store \<Rightarrow> gateway_call" where
  "replay_call pf args a selected s =
     (case ssh_read (ga_ownerUserId (gq_actor args)) (gr_operationId (gq_request args)) s of
        None \<Rightarrow> GatewayAnswered (Inr None)
      | Some r \<Rightarrow>
          if \<not> replay_matches pf args a selected r then GatewayAnswered (Inl (code_failure OperationConflictCode))
          else (case replayed_result r of
              Some x \<Rightarrow> GatewayAnswered (Inr (Some x))
            | None \<Rightarrow> GatewayAnswered (Inl (code_failure
                (if sc_state r = SshReserved \<or> sc_state r = SshDispatching
                 then OperationInProgressCode else OperationConflictCode)))))"

definition mark_call ::
    "platform \<Rightarrow> int \<Rightarrow> prepared_call \<Rightarrow> route_authorization \<Rightarrow> route_selection \<Rightarrow> ssh_store \<Rightarrow> gateway_call \<times> ssh_store" where
  "mark_call pf now p a r s =
     (case ssh_markDispatchAttempted now (dispatch_of pf (pr_reserved p)) s of
        (Inl e, s') \<Rightarrow> fail_call pf now (pr_reserved p) False (store_failure e) s'
      | (Inr u, s') \<Rightarrow> (Dispatched p a r, s'))"

definition complete_call ::
    "platform \<Rightarrow> int \<Rightarrow> prepared_call \<Rightarrow> route_authorization \<Rightarrow> ssh_result \<Rightarrow> ssh_store \<Rightarrow> gateway_call \<times> ssh_store" where
  "complete_call pf now p a res s =
     (let rv = pr_reserved p;
          audit = args_audit now (rv_args rv) a (rv_selected rv) OutcomeSucceeded
      in case ssh_complete (completion_of pf rv audit (Some res) SshSucceeded) s of
        (Inl e, s') \<Rightarrow> fail_call pf now rv True (store_failure e) s'
      | (Inr r, s') \<Rightarrow>
          (GatewayAnswered (Inr (Some \<lparr>xr_audit = audit, xr_replayed = False, xr_result = res\<rparr>)), s'))"

fun perform :: "platform \<Rightarrow> int \<Rightarrow> gateway_call \<Rightarrow> gateway_move \<Rightarrow> ssh_store \<Rightarrow> gateway_call \<times> ssh_store" where
  "perform pf now c GStay s = (c, s)"
| "perform pf now c (GNext c') s = (c', s)"
| "perform pf now c (GRefuse f) s = (GatewayAnswered (Inl f), s)"
| "perform pf now c (GReserve rv) s = reserve_call pf now rv s"
| "perform pf now c (GReadReplay args a r) s = (replay_call pf args a r s, s)"
| "perform pf now c (GFail rv d f) s = fail_call pf now rv d f s"
| "perform pf now c (GMark p a r) s = mark_call pf now p a r s"
| "perform pf now c (GComplete p a r res) s = complete_call pf now p a res s"

section \<open>The gateway\<close>

record gateway_system =
  gs_store :: ssh_store
  gs_calls :: "(nat, gateway_call) jsmap"
  gs_next :: nat
  gs_wire :: "(nat \<times> transport_command) list"

definition empty_gateway :: gateway_system where
  "empty_gateway = \<lparr>gs_store = empty_ssh_store, gs_calls = [], gs_next = 0, gs_wire = []\<rparr>"

datatype gateway_op =
    GExecute gateway_actor gateway_request int
  | GReplay gateway_actor gateway_request
  | GAnswer nat int gateway_answer
  | GSend nat int
  | GReconcile int ssh_completion

definition start_call :: "bool \<Rightarrow> gateway_mode \<Rightarrow> gateway_args \<Rightarrow> gateway_system \<Rightarrow> gateway_system" where
  "start_call valid m args y = y\<lparr>
     gs_calls := js_set (gs_calls y) (gs_next y)
       (if valid then AwaitFirst m args else GatewayAnswered (Inl (code_failure OperationConflictCode))),
     gs_next := gs_next y + 1\<rparr>"

definition resume_call :: "platform \<Rightarrow> nat \<Rightarrow> int \<Rightarrow> gateway_answer \<Rightarrow> gateway_system \<Rightarrow> gateway_system" where
  "resume_call pf k now answer y =
     (case js_get (gs_calls y) k of
        None \<Rightarrow> y
      | Some c \<Rightarrow>
          (case perform pf now c (advance pf now answer c) (gs_store y) of
             (c', s) \<Rightarrow> y\<lparr>gs_calls := js_set (gs_calls y) k c', gs_store := s\<rparr>))"

definition command_of :: "prepared_call \<Rightarrow> route_selection \<Rightarrow> transport_command" where
  "command_of p r =
     \<lparr>tc_credential = pr_credential p, tc_handshake = pr_handshake p,
      tc_request = gq_request (rv_args (pr_reserved p)), tc_route = r, tc_verifiedHost = pr_host p\<rparr>"

text \<open>\<open>transport.execute\<close> after the dispatch was recorded.\<close>

definition send_command :: "nat \<Rightarrow> int \<Rightarrow> gateway_system \<Rightarrow> gateway_system" where
  "send_command k now y =
     (case js_get (gs_calls y) k of
        Some (Dispatched p a r) \<Rightarrow> y\<lparr>gs_calls := js_set (gs_calls y) k (AwaitRun p a r now),
          gs_wire := gs_wire y @ [(k, command_of p r)]\<rparr>
      | _ \<Rightarrow> y)"

fun gateway_step :: "platform \<Rightarrow> gateway_op \<Rightarrow> gateway_system \<Rightarrow> unit \<times> gateway_system" where
  "gateway_step pf (GExecute actor r now) y =
     ((), start_call (validateRequest (pf_url pf) now actor r) ExecuteMode \<lparr>gq_actor = actor, gq_request = r\<rparr> y)"
| "gateway_step pf (GReplay actor r) y =
     ((), start_call (validateReplayRequest actor r) ReplayMode \<lparr>gq_actor = actor, gq_request = r\<rparr> y)"
| "gateway_step pf (GAnswer k now answer) y = ((), resume_call pf k now answer y)"
| "gateway_step pf (GSend k now) y = ((), send_command k now y)"
| "gateway_step pf (GReconcile now i) y = ((), y\<lparr>gs_store := snd (ssh_reconcile now i (gs_store y))\<rparr>)"

abbreviation run_gateway :: "platform \<Rightarrow> gateway_op list \<Rightarrow> gateway_system" where
  "run_gateway pf ops \<equiv> run_state (gateway_step pf) ops empty_gateway"

end
