(* ===== verification/SshTrail.thy ===== *)
theory SshTrail
  imports SshService
begin

text \<open>
  The way of one call of the SSH gateway through its points, and what the steps on that way have established:
  a command on the wire was authorized three times for its exact target and route.
\<close>

section \<open>Where a point is reached from\<close>

lemmas routing_defs = enter_routes_def enter_final_routes_def after_choice_def after_second_def after_final_def Let_def

lemmas move_splits = gateway_answer.splits sum.splits option.splits if_splits route_choice.splits gateway_mode.splits

lemma advance_target:
  "advance pf now answer c = GNext (AwaitTarget m args a) \<Longrightarrow>
     c = AwaitFirst m args \<and> answer = AAuthorize (Inr a) \<and> binding_holds now args a 0"
  by (cases c) (auto simp: routing_defs split: move_splits)

lemma advance_worktree:
  "advance pf now answer c = GNext (AwaitWorktree m args a b) \<Longrightarrow>
     c = AwaitTarget m args a \<and> (\<exists>x. answer = ASnapshot x \<and> resolved_target args x = Inr b) \<and>
     tb_targetIdentityRevision b = az_identityRevision a \<and> worktree_request args"
  by (cases c) (auto simp: routing_defs split: move_splits)

lemma advance_routes:
  "advance pf now answer c = GNext (AwaitRoutes m args a b t) \<Longrightarrow>
     t = now \<and>
     (c = AwaitTarget m args a \<and> (\<exists>x. answer = ASnapshot x \<and> resolved_target args x = Inr b) \<and>
        tb_targetIdentityRevision b = az_identityRevision a \<and> \<not> worktree_request args \<or>
      c = AwaitWorktree m args a b \<and> (\<exists>x. answer = AWorktree x \<and> authorizeWorktree args x = None))"
  by (cases c) (auto simp: routing_defs split: move_splits)

lemma advance_reserve:
  "advance pf now answer c = GReserve rv \<Longrightarrow>
     \<exists>t inventory. c = AwaitRoutes ExecuteMode (rv_args rv) (rv_first rv) (rv_target rv) t \<and>
       answer = ARoutes (Inr inventory) \<and> control_route (rv_selected rv) \<and>
       selectAuthorizedAccessRoute (pf_collate pf) (rv_first rv) None inventory t = ChoiceReady (rv_selected rv)"
  by (cases c) (auto simp: routing_defs split: move_splits)

lemma advance_second_target:
  "advance pf now answer c = GNext (AwaitSecondTarget rv a) \<Longrightarrow>
     c = AwaitSecond rv \<and> answer = AAuthorize (Inr a) \<and> binding_holds now (rv_args rv) a 0"
  by (cases c) (auto simp: routing_defs split: move_splits)

lemma advance_second_routes:
  "advance pf now answer c = GNext (AwaitSecondRoutes rv a t) \<Longrightarrow>
     c = AwaitSecondTarget rv a \<and> (\<exists>x b. answer = ASnapshot x \<and> resolved_target (rv_args rv) x = Inr b \<and>
       sameTargetBinding b (rv_target rv)) \<and> t = now"
  by (cases c) (auto simp: routing_defs split: move_splits)

lemma advance_host:
  "advance pf now answer c = GNext (AwaitHost rv a r) \<Longrightarrow>
     \<exists>t inventory. c = AwaitSecondRoutes rv a t \<and> answer = ARoutes (Inr inventory) \<and>
       explicit_choice pf rv a inventory t = ChoiceReady r \<and> control_route r \<and>
       assertAuthorizationStable (rv_first rv) a"
  by (cases c) (auto simp: routing_defs split: move_splits)

lemma advance_credential:
  "advance pf now answer c = GNext (AwaitCredential rv a r h) \<Longrightarrow> c = AwaitHost rv a r \<and> answer = AHost (Inr h)"
  by (cases c) (auto simp: routing_defs split: move_splits)

lemma advance_handshake:
  "advance pf now answer c = GNext (AwaitHandshake rv a r h cr) \<Longrightarrow>
     c = AwaitCredential rv a r h \<and> answer = ACredential (Inr cr) \<and> credential_ok cr"
  by (cases c) (auto simp: routing_defs split: move_splits)

lemma advance_final:
  "advance pf now answer c = GNext (AwaitFinal p) \<Longrightarrow>
     c = AwaitHandshake (pr_reserved p) (pr_second p) (pr_route p) (pr_host p) (pr_credential p) \<and>
     (\<exists>x. answer = ATransport x \<and>
        handshake_outcome pf (gr_operation (gq_request (rv_args (pr_reserved p)))) x = Inr (pr_handshake p))"
  by (cases c) (auto simp: routing_defs split: move_splits)

lemma advance_final_target:
  "advance pf now answer c = GNext (AwaitFinalTarget p a) \<Longrightarrow>
     c = AwaitFinal p \<and> answer = AAuthorize (Inr a) \<and> binding_holds now (rv_args (pr_reserved p)) a 5000 \<and>
     assertAuthorizationStable (pr_second p) a"
  by (cases c) (auto simp: routing_defs split: move_splits)

lemma advance_final_worktree:
  "advance pf now answer c = GNext (AwaitFinalWorktree p a) \<Longrightarrow>
     c = AwaitFinalTarget p a \<and> (\<exists>x b. answer = ASnapshot x \<and> resolved_target (rv_args (pr_reserved p)) x = Inr b \<and>
       sameTargetBinding b (rv_target (pr_reserved p))) \<and> worktree_request (rv_args (pr_reserved p))"
  by (cases c) (auto simp: routing_defs split: move_splits)

lemma advance_final_routes:
  "advance pf now answer c = GNext (AwaitFinalRoutes p a t) \<Longrightarrow>
     t = now \<and>
     (c = AwaitFinalTarget p a \<and> (\<exists>x b. answer = ASnapshot x \<and> resolved_target (rv_args (pr_reserved p)) x = Inr b \<and>
        sameTargetBinding b (rv_target (pr_reserved p))) \<and> \<not> worktree_request (rv_args (pr_reserved p)) \<or>
      c = AwaitFinalWorktree p a \<and>
        (\<exists>x. answer = AWorktree x \<and> authorizeWorktree (rv_args (pr_reserved p)) x = None))"
  by (cases c) (auto simp: routing_defs split: move_splits)

lemma advance_mark:
  "advance pf now answer c = GMark p a r \<Longrightarrow>
     \<exists>t inventory. c = AwaitFinalRoutes p a t \<and> answer = ARoutes (Inr inventory) \<and>
       explicit_choice pf (pr_reserved p) a inventory t = ChoiceReady r \<and> r = pr_route p \<and>
       binding_holds now (rv_args (pr_reserved p)) a 1000"
  by (cases c) (auto simp: routing_defs sameRouteBinding_def split: move_splits)

lemma advance_never:
  "advance pf now answer c \<noteq> GNext (AwaitFirst m args)" "advance pf now answer c \<noteq> GNext (AwaitSecond rv)"
  "advance pf now answer c \<noteq> GNext (Dispatched p a r)" "advance pf now answer c \<noteq> GNext (AwaitRun p a r t)"
  by (cases c; auto simp: routing_defs split: move_splits)+

section \<open>The way of a call\<close>

inductive trail :: "platform \<Rightarrow> nat \<Rightarrow> gateway_call \<Rightarrow> gateway_op list \<Rightarrow> bool" for pf k where
  execute: "validateRequest (pf_url pf) now actor r \<Longrightarrow>
    trail pf k (AwaitFirst ExecuteMode \<lparr>gq_actor = actor, gq_request = r\<rparr>) [GExecute actor r now]"
| replay: "trail pf k (AwaitFirst ReplayMode args) [GReplay (gq_actor args) (gq_request args)]"
| answer: "trail pf k c tr \<Longrightarrow> advance pf now answer c = GNext c' \<Longrightarrow> trail pf k c' (tr @ [GAnswer k now answer])"
| reserve: "trail pf k c tr \<Longrightarrow> advance pf now answer c = GReserve rv \<Longrightarrow> isUuid (sl_routeId (rv_selected rv)) \<Longrightarrow>
    trail pf k (AwaitSecond rv) (tr @ [GAnswer k now answer])"
| mark: "trail pf k c tr \<Longrightarrow> advance pf now answer c = GMark p a r \<Longrightarrow>
    trail pf k (Dispatched p a r) (tr @ [GAnswer k now answer])"
| send: "trail pf k (Dispatched p a r) tr \<Longrightarrow> trail pf k (AwaitRun p a r now) (tr @ [GSend k now])"

inductive_cases trail_firstE: "trail pf k (AwaitFirst m args) tr"
inductive_cases trail_targetE: "trail pf k (AwaitTarget m args a) tr"
inductive_cases trail_worktreeE: "trail pf k (AwaitWorktree m args a b) tr"
inductive_cases trail_routesE: "trail pf k (AwaitRoutes m args a b t) tr"
inductive_cases trail_secondE: "trail pf k (AwaitSecond rv) tr"
inductive_cases trail_second_targetE: "trail pf k (AwaitSecondTarget rv a) tr"
inductive_cases trail_second_routesE: "trail pf k (AwaitSecondRoutes rv a t) tr"
inductive_cases trail_hostE: "trail pf k (AwaitHost rv a r) tr"
inductive_cases trail_credentialE: "trail pf k (AwaitCredential rv a r h) tr"
inductive_cases trail_handshakeE: "trail pf k (AwaitHandshake rv a r h cr) tr"
inductive_cases trail_finalE: "trail pf k (AwaitFinal p) tr"
inductive_cases trail_final_targetE: "trail pf k (AwaitFinalTarget p a) tr"
inductive_cases trail_final_worktreeE: "trail pf k (AwaitFinalWorktree p a) tr"
inductive_cases trail_final_routesE: "trail pf k (AwaitFinalRoutes p a t) tr"
inductive_cases trail_dispatchedE: "trail pf k (Dispatched p a r) tr"
inductive_cases trail_runE: "trail pf k (AwaitRun p a r t) tr"

text \<open>The steps of a call that a sequence of steps contains, in order.\<close>

definition reached :: "platform \<Rightarrow> nat \<Rightarrow> gateway_call \<Rightarrow> gateway_op list \<Rightarrow> bool" where
  "reached pf k c ops \<longleftrightarrow> (\<exists>tr. trail pf k c tr \<and> subseq tr ops)"

lemma reached_mono: "reached pf k c ops \<Longrightarrow> reached pf k c (ops @ [op])"
  unfolding reached_def by (meson list_emb_prefix)

section \<open>The three rounds of checks\<close>

lemma resolved_targetD:
  "resolved_target args x = Inr b \<Longrightarrow>
     \<exists>s. x = Inr s \<and> resolve_ssh_target s (gr_environmentId (gq_request args)) = Some b"
  by (auto simp: resolved_target_def split: sum.splits option.splits)

lemma authorizeWorktreeD:
  "authorizeWorktree args x = None \<Longrightarrow>
     \<exists>rd. x = Inr rd \<and> worktree_authorized rd (gq_actor args) (gq_request args)"
  by (auto simp: authorizeWorktree_def split: sum.splits if_splits)

lemma sameTargetBinding_eq: "sameTargetBinding b b' \<longleftrightarrow> b = b'" for b b' :: ssh_target_binding
  by (auto simp: sameTargetBinding_def)

text \<open>Worktree preparation was authorized in a part of the steps.\<close>

definition worktree_step :: "nat \<Rightarrow> gateway_args \<Rightarrow> gateway_op list \<Rightarrow> bool" where
  "worktree_step k args tr \<longleftrightarrow> worktree_request args \<longrightarrow>
     (\<exists>w rd. subseq [GAnswer k w (AWorktree (Inr rd))] tr \<and> worktree_authorized rd (gq_actor args) (gq_request args))"

definition first_round :: "platform \<Rightarrow> nat \<Rightarrow> reserved_call \<Rightarrow> gateway_op list \<Rightarrow> bool" where
  "first_round pf k rv tr \<longleftrightarrow>
     (\<exists>t0 t1 t2 t3 n s i.
        subseq [GExecute (gq_actor (rv_args rv)) (gq_request (rv_args rv)) t0, GAnswer k t1 (AAuthorize (Inr (rv_first rv))),
          GAnswer k t2 (ASnapshot (Inr s)), GAnswer k t3 (ARoutes (Inr i))] tr \<and>
        validateRequest (pf_url pf) t0 (gq_actor (rv_args rv)) (gq_request (rv_args rv)) \<and>
        binding_holds t1 (rv_args rv) (rv_first rv) 0 \<and>
        resolve_ssh_target s (gr_environmentId (gq_request (rv_args rv))) = Some (rv_target rv) \<and>
        tb_targetIdentityRevision (rv_target rv) = az_identityRevision (rv_first rv) \<and>
        selectAuthorizedAccessRoute (pf_collate pf) (rv_first rv) None i n = ChoiceReady (rv_selected rv) \<and>
        isUuid (sl_routeId (rv_selected rv)) \<and> worktree_step k (rv_args rv) tr)"

definition second_round :: "platform \<Rightarrow> nat \<Rightarrow> prepared_call \<Rightarrow> gateway_op list \<Rightarrow> bool" where
  "second_round pf k p tr \<longleftrightarrow>
     (\<exists>t1 t2 t3 t4 n s i x.
        subseq [GAnswer k t1 (AAuthorize (Inr (pr_second p))), GAnswer k t2 (ASnapshot (Inr s)),
          GAnswer k t3 (ARoutes (Inr i)), GAnswer k t4 (ATransport x)] tr \<and>
        binding_holds t1 (rv_args (pr_reserved p)) (pr_second p) 0 \<and>
        resolve_ssh_target s (gr_environmentId (gq_request (rv_args (pr_reserved p)))) = Some (rv_target (pr_reserved p)) \<and>
        explicit_choice pf (pr_reserved p) (pr_second p) i n = ChoiceReady (pr_route p) \<and> control_route (pr_route p) \<and>
        assertAuthorizationStable (rv_first (pr_reserved p)) (pr_second p) \<and> credential_ok (pr_credential p) \<and>
        handshake_outcome pf (gr_operation (gq_request (rv_args (pr_reserved p)))) x = Inr (pr_handshake p))"

definition final_round ::
    "platform \<Rightarrow> nat \<Rightarrow> prepared_call \<Rightarrow> route_authorization \<Rightarrow> route_selection \<Rightarrow> gateway_op list \<Rightarrow> bool" where
  "final_round pf k p a r tr \<longleftrightarrow>
     (\<exists>t1 t2 t3 n s i.
        subseq [GAnswer k t1 (AAuthorize (Inr a)), GAnswer k t2 (ASnapshot (Inr s)), GAnswer k t3 (ARoutes (Inr i))] tr \<and>
        binding_holds t1 (rv_args (pr_reserved p)) a 5000 \<and> binding_holds t3 (rv_args (pr_reserved p)) a 1000 \<and>
        assertAuthorizationStable (pr_second p) a \<and>
        resolve_ssh_target s (gr_environmentId (gq_request (rv_args (pr_reserved p)))) = Some (rv_target (pr_reserved p)) \<and>
        explicit_choice pf (pr_reserved p) a i n = ChoiceReady r \<and> r = pr_route p \<and>
        worktree_step k (rv_args (pr_reserved p)) tr)"

lemma trail_routes:
  assumes "trail pf k (AwaitRoutes ExecuteMode args a b t) tr"
  shows "\<exists>t0 t1 t2 s.
    subseq [GExecute (gq_actor args) (gq_request args) t0, GAnswer k t1 (AAuthorize (Inr a)), GAnswer k t2 (ASnapshot (Inr s))] tr \<and>
    validateRequest (pf_url pf) t0 (gq_actor args) (gq_request args) \<and> binding_holds t1 args a 0 \<and>
    resolve_ssh_target s (gr_environmentId (gq_request args)) = Some b \<and>
    tb_targetIdentityRevision b = az_identityRevision a \<and> worktree_step k args tr"
proof -
  have target: "\<exists>t0 t1. tr = [GExecute (gq_actor args) (gq_request args) t0, GAnswer k t1 (AAuthorize (Inr a))] \<and>
      validateRequest (pf_url pf) t0 (gq_actor args) (gq_request args) \<and> binding_holds t1 args a 0"
    if "trail pf k (AwaitTarget ExecuteMode args a) tr" for tr
    using that by (elim trail_targetE) (auto dest!: advance_target elim: trail_firstE simp: advance_never)
  show ?thesis
    using assms
  proof (elim trail_routesE)
    fix c tr' now answer
    assume tr: "tr = tr' @ [GAnswer k now answer]" "trail pf k c tr'"
      and "advance pf now answer c = GNext (AwaitRoutes ExecuteMode args a b t)"
    then consider (plain) x where "c = AwaitTarget ExecuteMode args a" "answer = ASnapshot x" "resolved_target args x = Inr b"
        "tb_targetIdentityRevision b = az_identityRevision a" "\<not> worktree_request args"
      | (worktree) x where "c = AwaitWorktree ExecuteMode args a b" "answer = AWorktree x" "authorizeWorktree args x = None"
      using advance_routes by metis
    then show ?thesis
    proof cases
      case plain
      with tr target [of tr'] resolved_targetD [of args x b] show ?thesis
        by (auto simp: worktree_step_def)
    next
      case worktree
      with tr obtain tr2 t2 y where "tr' = tr2 @ [GAnswer k t2 (ASnapshot y)]" "trail pf k (AwaitTarget ExecuteMode args a) tr2"
        "resolved_target args y = Inr b" "tb_targetIdentityRevision b = az_identityRevision a"
        by (auto elim!: trail_worktreeE dest!: advance_worktree)
      moreover from worktree obtain rd where "x = Inr rd" "worktree_authorized rd (gq_actor args) (gq_request args)"
        using authorizeWorktreeD by blast
      ultimately show ?thesis
        using tr(1) worktree target [of tr2] resolved_targetD [of args y b]
        by (auto simp: worktree_step_def)
    qed
  qed
qed

lemma subseq_snoc: "subseq xs ys \<Longrightarrow> subseq (xs @ [x]) (ys @ [x])"
  by (rule list_emb_append_mono) simp_all

lemma subseq_add: "subseq xs ys \<Longrightarrow> subseq xs (ys @ zs)"
  by (rule list_emb_prefix)

lemma worktree_step_add: "worktree_step k args tr \<Longrightarrow> worktree_step k args (tr @ tr')"
  unfolding worktree_step_def by (meson subseq_add)

lemma trail_second:
  assumes "trail pf k (AwaitSecond rv) tr"
  shows "first_round pf k rv tr"
  using assms
proof (elim trail_secondE)
  fix c tr' now answer
  assume tr: "tr = tr' @ [GAnswer k now answer]" "trail pf k c tr'" "isUuid (sl_routeId (rv_selected rv))"
    and "advance pf now answer c = GReserve rv"
  then obtain t i where c: "c = AwaitRoutes ExecuteMode (rv_args rv) (rv_first rv) (rv_target rv) t" "answer = ARoutes (Inr i)"
    "selectAuthorizedAccessRoute (pf_collate pf) (rv_first rv) None i t = ChoiceReady (rv_selected rv)"
    using advance_reserve by blast
  then obtain t0 t1 t2 s where facts: "subseq [GExecute (gq_actor (rv_args rv)) (gq_request (rv_args rv)) t0,
      GAnswer k t1 (AAuthorize (Inr (rv_first rv))), GAnswer k t2 (ASnapshot (Inr s))] tr'"
    "validateRequest (pf_url pf) t0 (gq_actor (rv_args rv)) (gq_request (rv_args rv))" "binding_holds t1 (rv_args rv) (rv_first rv) 0"
    "resolve_ssh_target s (gr_environmentId (gq_request (rv_args rv))) = Some (rv_target rv)"
    "tb_targetIdentityRevision (rv_target rv) = az_identityRevision (rv_first rv)" "worktree_step k (rv_args rv) tr'"
    using trail_routes [of pf k] tr(2) by blast
  show ?thesis
    unfolding first_round_def
    using facts subseq_snoc [OF facts(1), of "GAnswer k now (ARoutes (Inr i))"] c tr(1,3) worktree_step_add
    by (intro exI [of _ t0] exI [of _ t1] exI [of _ t2] exI [of _ now] exI [of _ t] exI [of _ s] exI [of _ i]) simp
qed (simp add: advance_never)

lemma trail_final:
  assumes "trail pf k (AwaitFinal p) tr"
  shows "\<exists>tr1 tr2. tr = tr1 @ tr2 \<and> trail pf k (AwaitSecond (pr_reserved p)) tr1 \<and> second_round pf k p tr2"
proof -
  let ?rv = "pr_reserved p" and ?a = "pr_second p" and ?r = "pr_route p" and ?h = "pr_host p" and ?cr = "pr_credential p"
  from assms obtain tr4 t4 x where s4: "tr = tr4 @ [GAnswer k t4 (ATransport x)]"
      "trail pf k (AwaitHandshake ?rv ?a ?r ?h ?cr) tr4"
      "handshake_outcome pf (gr_operation (gq_request (rv_args ?rv))) x = Inr (pr_handshake p)"
    by (auto elim!: trail_finalE dest!: advance_final)
  from s4(2) obtain tr3 t3 where s3: "tr4 = tr3 @ [GAnswer k t3 (ACredential (Inr ?cr))]"
      "trail pf k (AwaitCredential ?rv ?a ?r ?h) tr3" "credential_ok ?cr"
    by (auto elim!: trail_handshakeE dest!: advance_handshake)
  from s3(2) obtain tr2 t2 where s2: "tr3 = tr2 @ [GAnswer k t2 (AHost (Inr ?h))]" "trail pf k (AwaitHost ?rv ?a ?r) tr2"
    by (auto elim!: trail_credentialE dest!: advance_credential)
  from s2(2) obtain tr1 t1 n i where s1: "tr2 = tr1 @ [GAnswer k t1 (ARoutes (Inr i))]" "trail pf k (AwaitSecondRoutes ?rv ?a n) tr1"
      "explicit_choice pf ?rv ?a i n = ChoiceReady ?r" "control_route ?r" "assertAuthorizationStable (rv_first ?rv) ?a"
    by (auto elim!: trail_hostE dest!: advance_host)
  from s1(2) obtain tr0 t0 y b where s0: "tr1 = tr0 @ [GAnswer k t0 (ASnapshot y)]" "trail pf k (AwaitSecondTarget ?rv ?a) tr0"
      "resolved_target (rv_args ?rv) y = Inr b" "sameTargetBinding b (rv_target ?rv)"
    by (auto elim!: trail_second_routesE dest!: advance_second_routes)
  from s0(2) obtain tr' t where s: "tr0 = tr' @ [GAnswer k t (AAuthorize (Inr ?a))]" "trail pf k (AwaitSecond ?rv) tr'"
      "binding_holds t (rv_args ?rv) ?a 0"
    by (auto elim!: trail_second_targetE dest!: advance_second_target)
  from s0(3,4) obtain sn where sn: "y = Inr sn"
      "resolve_ssh_target sn (gr_environmentId (gq_request (rv_args ?rv))) = Some (rv_target ?rv)"
    using resolved_targetD by (metis sameTargetBinding_eq)
  have "second_round pf k p [GAnswer k t (AAuthorize (Inr ?a)), GAnswer k t0 (ASnapshot (Inr sn)), GAnswer k t1 (ARoutes (Inr i)),
      GAnswer k t2 (AHost (Inr ?h)), GAnswer k t3 (ACredential (Inr ?cr)), GAnswer k t4 (ATransport x)]"
    unfolding second_round_def
    by (intro exI [of _ t] exI [of _ t0] exI [of _ t1] exI [of _ t4] exI [of _ n] exI [of _ sn] exI [of _ i] exI [of _ x])
      (use s s1 s3 s4 sn in simp)
  moreover have "tr = tr' @ [GAnswer k t (AAuthorize (Inr ?a)), GAnswer k t0 (ASnapshot (Inr sn)), GAnswer k t1 (ARoutes (Inr i)),
      GAnswer k t2 (AHost (Inr ?h)), GAnswer k t3 (ACredential (Inr ?cr)), GAnswer k t4 (ATransport x)]"
    by (simp add: s4(1) s3(1) s2(1) s1(1) s0(1) s(1) sn(1))
  ultimately show ?thesis using s(2) by blast
qed

lemma trail_dispatched:
  assumes "trail pf k (Dispatched p a r) tr"
  shows "\<exists>tr2 tr3. tr = tr2 @ tr3 \<and> trail pf k (AwaitFinal p) tr2 \<and> final_round pf k p a r tr3"
proof -
  let ?args = "rv_args (pr_reserved p)"
  have target: "\<exists>tr2 t1 t2 s. tr = tr2 @ [GAnswer k t1 (AAuthorize (Inr a)), GAnswer k t2 (ASnapshot (Inr s))] \<and>
      trail pf k (AwaitFinal p) tr2 \<and> binding_holds t1 ?args a 5000 \<and> assertAuthorizationStable (pr_second p) a \<and>
      resolve_ssh_target s (gr_environmentId (gq_request ?args)) = Some (rv_target (pr_reserved p))"
    if "tr = tr' @ [GAnswer k t (ASnapshot x)]" "trail pf k (AwaitFinalTarget p a) tr'"
      "resolved_target ?args x = Inr b" "sameTargetBinding b (rv_target (pr_reserved p))" for tr tr' t x b
    using that resolved_targetD [of ?args x b]
    by (auto elim!: trail_final_targetE dest!: advance_final_target simp: sameTargetBinding_eq)
  obtain tr' t3 n i where last: "tr = tr' @ [GAnswer k t3 (ARoutes (Inr i))]" "trail pf k (AwaitFinalRoutes p a n) tr'"
      "explicit_choice pf (pr_reserved p) a i n = ChoiceReady r" "r = pr_route p" "binding_holds t3 ?args a 1000"
    using assms by (auto elim!: trail_dispatchedE dest!: advance_mark simp: advance_never)
  have "\<exists>tr2 t1 t2 s w. tr' = tr2 @ [GAnswer k t1 (AAuthorize (Inr a)), GAnswer k t2 (ASnapshot (Inr s))] @ w \<and>
      trail pf k (AwaitFinal p) tr2 \<and> binding_holds t1 ?args a 5000 \<and> assertAuthorizationStable (pr_second p) a \<and>
      resolve_ssh_target s (gr_environmentId (gq_request ?args)) = Some (rv_target (pr_reserved p)) \<and> worktree_step k ?args w"
    using last(2)
  proof (elim trail_final_routesE)
    fix c tr0 now answer
    assume tr: "tr' = tr0 @ [GAnswer k now answer]" "trail pf k c tr0"
      and "advance pf now answer c = GNext (AwaitFinalRoutes p a n)"
    then consider (plain) x b where "c = AwaitFinalTarget p a" "answer = ASnapshot x" "resolved_target ?args x = Inr b"
        "sameTargetBinding b (rv_target (pr_reserved p))" "\<not> worktree_request ?args"
      | (worktree) x where "c = AwaitFinalWorktree p a" "answer = AWorktree x" "authorizeWorktree ?args x = None"
      using advance_final_routes by metis
    then show ?thesis
    proof cases
      case plain
      then have "worktree_step k ?args []" by (simp add: worktree_step_def)
      with target [of tr' tr0 now x b] tr plain show ?thesis by (metis append_Nil2)
    next
      case worktree
      with tr(2) obtain tr1 t2 y b where "tr0 = tr1 @ [GAnswer k t2 (ASnapshot y)]" "trail pf k (AwaitFinalTarget p a) tr1"
        "resolved_target ?args y = Inr b" "sameTargetBinding b (rv_target (pr_reserved p))"
        by (auto elim!: trail_final_worktreeE dest!: advance_final_worktree)
      note earlier = target [OF this]
      from worktree obtain rd where "x = Inr rd" "worktree_authorized rd (gq_actor ?args) (gq_request ?args)"
        using authorizeWorktreeD by blast
      with worktree have "worktree_step k ?args [GAnswer k now answer]"
        by (auto simp: worktree_step_def)
      with earlier tr(1) show ?thesis by (metis append_assoc)
    qed
  qed
  then obtain tr2 t1 t2 s w where round: "tr' = tr2 @ [GAnswer k t1 (AAuthorize (Inr a)), GAnswer k t2 (ASnapshot (Inr s))] @ w"
      "trail pf k (AwaitFinal p) tr2" "binding_holds t1 ?args a 5000" "assertAuthorizationStable (pr_second p) a"
      "resolve_ssh_target s (gr_environmentId (gq_request ?args)) = Some (rv_target (pr_reserved p))" "worktree_step k ?args w"
    by blast
  let ?tr3 = "[GAnswer k t1 (AAuthorize (Inr a)), GAnswer k t2 (ASnapshot (Inr s))] @ w @ [GAnswer k t3 (ARoutes (Inr i))]"
  have "worktree_step k ?args ?tr3"
    using round(6) unfolding worktree_step_def
    by (metis (no_types, lifting) append_Cons append_Nil list_emb_append2 subseq_add)
  moreover have "subseq [GAnswer k t3 (ARoutes (Inr i))] (w @ [GAnswer k t3 (ARoutes (Inr i))])"
    by (rule list_emb_append2) simp
  ultimately have "final_round pf k p a r ?tr3"
    unfolding final_round_def using round last(3-5)
    by (intro exI [of _ t1] exI [of _ t2] exI [of _ t3] exI [of _ n] exI [of _ s] exI [of _ i]) simp
  with round(1,2) last(1) show ?thesis by (metis append_assoc)
qed

end
