(* ===== verification/SshProperties.thy ===== *)
theory SshProperties
  imports SshGateway
begin

text \<open>
  What the SSH gateway store keeps: a target is fenced exactly while one of the owner's operations on
  it is open, and an operation moves only along its life.

  The store joins owner and operation with a colon, which both may contain; the fence is stated for
  owners without a colon, and \<open>owner_collision\<close> shows that it fails without that.
\<close>

section \<open>The life of an operation\<close>

definition ssh_open :: "ssh_record \<Rightarrow> bool" where
  "ssh_open r \<longleftrightarrow> sc_state r \<in> {SshReserved, SshDispatching, SshUncertain}"

inductive ssh_move :: "ssh_state \<Rightarrow> ssh_state \<Rightarrow> bool" where
  dispatch: "ssh_move SshReserved SshDispatching"
| refuse: "ssh_move SshReserved SshFailed"
| complete: "t \<in> {SshSucceeded, SshFailed, SshIncompatible, SshUncertain} \<Longrightarrow> ssh_move SshDispatching t"
| reconcile: "t \<in> {SshSucceeded, SshFailed} \<Longrightarrow> ssh_move SshUncertain t"

inductive_simps ssh_move_from [simp]:
  "ssh_move SshReserved t" "ssh_move SshDispatching t" "ssh_move SshUncertain t"
  "ssh_move SshSucceeded t" "ssh_move SshFailed t" "ssh_move SshIncompatible t"

definition same_ssh_operation :: "ssh_record \<Rightarrow> ssh_record \<Rightarrow> bool" where
  "same_ssh_operation r r' \<longleftrightarrow> sc_fingerprint r' = sc_fingerprint r \<and>
     sa_operationId (sc_audit r') = sa_operationId (sc_audit r) \<and>
     sa_targetEnvironmentId (sc_audit r') = sa_targetEnvironmentId (sc_audit r) \<and>
     sa_targetIdentityRevision (sc_audit r') = sa_targetIdentityRevision (sc_audit r)"

definition ssh_evolves :: "ssh_record \<Rightarrow> ssh_record \<Rightarrow> bool" where
  "ssh_evolves r r' \<longleftrightarrow> same_ssh_operation r r' \<and> ssh_move (sc_state r) (sc_state r') \<and>
     (sc_state r' = SshSucceeded \<longrightarrow> (\<exists>res. sc_result r' = Some res \<and>
        sr_operationId res = sa_operationId (sc_audit r) \<and>
        sr_targetIdentityRevision res = sa_targetIdentityRevision (sc_audit r)))"

text \<open>What one call does to the records and the fences.\<close>

inductive ssh_change :: "string \<Rightarrow> ssh_store \<Rightarrow> ssh_store \<Rightarrow> bool" for owner where
  unchanged: "ssh_change owner s s"
| reserved: "js_get (ss_records s) k = None \<Longrightarrow> k = colon_key owner opId \<Longrightarrow>
    js_get (ss_activeTargets s) (colon_key owner (sa_targetEnvironmentId (sc_audit r))) = None \<Longrightarrow>
    sc_state r = SshReserved \<Longrightarrow>
    ss_records s' = js_set (ss_records s) k r \<Longrightarrow>
    ss_activeTargets s' = js_set (ss_activeTargets s) (colon_key owner (sa_targetEnvironmentId (sc_audit r))) k \<Longrightarrow>
    ssh_change owner s s'"
| evolved: "k = colon_key owner opId \<Longrightarrow> js_get (ss_records s) k = Some r \<Longrightarrow> ssh_evolves r r' \<Longrightarrow>
    ss_records s' = js_set (ss_records s) k r' \<Longrightarrow>
    ss_activeTargets s' = (if ssh_open r' then ss_activeTargets s
      else js_delete (ss_activeTargets s) (colon_key owner (sa_targetEnvironmentId (sc_audit r')))) \<Longrightarrow>
    ssh_change owner s s'"

lemma completed_evolves:
  assumes "assertResultBinding r (sp_result i) (sp_state i) = None"
    and "ssh_move (sc_state r) (sp_state i)"
  shows "ssh_evolves r (completed_record r i)"
  using assms
  by (auto simp: ssh_evolves_def same_ssh_operation_def completed_record_def completedAudit_def
      assertResultBinding_def split: if_splits option.splits)

lemma completed_target [simp]:
  "sa_targetEnvironmentId (sc_audit (completed_record r i)) = sa_targetEnvironmentId (sc_audit r)"
  "sc_state (completed_record r i) = sp_state i"
  by (simp_all add: completed_record_def completedAudit_def)

lemma write_change:
  assumes "js_get (ss_records s) k = Some r" and "k = colon_key (sp_ownerUserId i) opId"
    and "assertResultBinding r (sp_result i) (sp_state i) = None" and "ssh_move (sc_state r) (sp_state i)"
    and "release \<longleftrightarrow> sp_state i \<noteq> SshUncertain" and "sp_state i \<noteq> SshDispatching"
  shows "ssh_change (sp_ownerUserId i) s (write_completed k i release (completed_record r i) s)"
proof (rule ssh_change.evolved [OF assms(2,1) completed_evolves [OF assms(3,4)]])
  have "ssh_open (completed_record r i) \<longleftrightarrow> \<not> release"
    using assms(4-6) by (cases "sc_state r") (auto simp: ssh_open_def)
  then show "ss_activeTargets (write_completed k i release (completed_record r i) s) =
    (if ssh_open (completed_record r i) then ss_activeTargets s
     else js_delete (ss_activeTargets s)
       (colon_key (sp_ownerUserId i) (sa_targetEnvironmentId (sc_audit (completed_record r i)))))"
    by (simp add: write_completed_def)
qed (simp add: write_completed_def)

lemma ssh_reserve_change: "ssh_change (sv_ownerUserId i) s (snd (ssh_reserve i s))"
proof -
  have target: "sv_targetEnvironmentId i = sa_targetEnvironmentId (sv_audit i)" if "validateReservation i = None"
    using that by (auto simp: validateReservation_def Let_def split: if_splits)
  let ?k = "colon_key (sv_ownerUserId i) (sv_operationId i)"
  let ?t = "colon_key (sv_ownerUserId i) (sv_targetEnvironmentId i)"
  show ?thesis
  proof (cases "js_get (ss_records s) ?k = None \<and> js_get (ss_activeTargets s) ?t = None \<and> validateReservation i = None")
    case True
    have t: "sv_targetEnvironmentId i = sa_targetEnvironmentId (sv_audit i)"
      by (rule target) (use True in simp)
    from True show ?thesis
      unfolding t
      by (intro ssh_change.reserved [of s ?k _ _ "\<lparr>sc_audit = sv_audit i, sc_fingerprint = sv_fingerprint i,
        sc_result = None, sc_state = SshReserved\<rparr>"]) (simp_all add: ssh_reserve_def Let_def t)
  next
    case False
    then have "snd (ssh_reserve i s) = s"
      by (auto simp: ssh_reserve_def Let_def split: option.split)
    then show ?thesis by (simp add: ssh_change.unchanged)
  qed
qed

lemma ssh_dispatch_change:
  "ssh_change (sd_ownerUserId i) s (snd (ssh_markDispatchAttempted now i s))"
proof (cases "js_get (ss_records s) (colon_key (sd_ownerUserId i) (sd_operationId i))")
  case (Some r)
  then show ?thesis
    using ssh_change.evolved [OF refl Some, of "r\<lparr>sc_state := SshDispatching\<rparr>"]
    by (auto simp: ssh_markDispatchAttempted_def Let_def ssh_evolves_def same_ssh_operation_def ssh_open_def
        intro: ssh_change.unchanged)
qed (simp add: ssh_markDispatchAttempted_def Let_def ssh_change.unchanged)

lemma ssh_complete_change:
  assumes "sp_state i \<in> {SshSucceeded, SshFailed, SshIncompatible, SshUncertain}"
  shows "ssh_change (sp_ownerUserId i) s (snd (ssh_complete i s))"
proof (cases "js_get (ss_records s) (colon_key (sp_ownerUserId i) (sp_operationId i))")
  case (Some r)
  have "ssh_move (sc_state r) (sp_state i)"
    if "sc_state r \<in> {SshReserved, SshDispatching}"
      "sp_state i \<in> {SshSucceeded, SshIncompatible, SshUncertain} \<longrightarrow> sc_state r = SshDispatching"
    using that assms by auto
  with Some assms show ?thesis
    by (auto simp: ssh_complete_def Let_def split: option.split
        intro: ssh_change.unchanged intro!: write_change)
qed (simp add: ssh_complete_def Let_def ssh_change.unchanged)

lemma ssh_reconcile_change:
  assumes "sp_state i \<in> {SshSucceeded, SshFailed}"
  shows "ssh_change (sp_ownerUserId i) s (snd (ssh_reconcile now i s))"
proof (cases "js_get (ss_records s) (colon_key (sp_ownerUserId i) (sp_operationId i))")
  case (Some r)
  have "ssh_move (sc_state r) (sp_state i)" if "sc_state r = SshUncertain \<or> sc_state r = SshDispatching"
    using that assms by auto
  with Some assms show ?thesis
    by (auto simp: ssh_reconcile_def Let_def split: option.split
        intro: ssh_change.unchanged intro!: write_change)
qed (simp add: ssh_reconcile_def Let_def ssh_change.unchanged)

lemma ssh_step_change:
  "ssh_call_typed op \<Longrightarrow> ssh_change (ssh_call_owner op) s (snd (ssh_step op s))"
  by (cases op) (simp_all add: ssh_reserve_change ssh_dispatch_change ssh_complete_change ssh_reconcile_change)

section \<open>Fences\<close>

text \<open>A fence names the one open operation on its target.\<close>

definition fence_of :: "ssh_store \<Rightarrow> string \<Rightarrow> string \<Rightarrow> string \<Rightarrow> bool" where
  "fence_of s owner target k \<longleftrightarrow> (\<exists>opId r. k = colon_key owner opId \<and>
     js_get (ss_records s) k = Some r \<and> ssh_open r \<and> sa_targetEnvironmentId (sc_audit r) = target)"

definition ssh_inv :: "ssh_store \<Rightarrow> bool" where
  "ssh_inv s \<longleftrightarrow> (\<forall>owner target k. CHR '':'' \<notin> set owner \<longrightarrow>
     (js_get (ss_activeTargets s) (colon_key owner target) = Some k \<longleftrightarrow> fence_of s owner target k))"

lemma colon_key_inj:
  "CHR '':'' \<notin> set o1 \<Longrightarrow> CHR '':'' \<notin> set o2 \<Longrightarrow>
     colon_key o1 a = colon_key o2 b \<longleftrightarrow> o1 = o2 \<and> a = b"
  by (simp add: colon_key_def append_sep_inj)

lemma ssh_change_inv:
  assumes "ssh_change owner s s'" and "ssh_inv s" and "CHR '':'' \<notin> set owner"
  shows "ssh_inv s'"
  using assms(1)
proof cases
  case (reserved k opId r)
  let ?t = "sa_targetEnvironmentId (sc_audit r)"
  have none: "\<not> fence_of s owner ?t l" "\<not> fence_of s o2 t2 k" for l o2 t2
    using assms(2,3) reserved unfolding ssh_inv_def fence_of_def by (metis option.distinct(1))+
  show ?thesis
    unfolding ssh_inv_def
  proof (intro allI impI)
    fix o2 t2 l
    assume o2: "CHR '':'' \<notin> set o2"
    with assms(2) have old: "js_get (ss_activeTargets s) (colon_key o2 t2) = Some l \<longleftrightarrow> fence_of s o2 t2 l"
      unfolding ssh_inv_def by blast
    have "fence_of s' o2 t2 l \<longleftrightarrow> (if l = k then o2 = owner \<and> t2 = ?t else fence_of s o2 t2 l)"
      using reserved o2 assms(3) by (auto simp: fence_of_def colon_key_inj ssh_open_def)
    moreover have "js_get (ss_activeTargets s') (colon_key o2 t2) = Some l \<longleftrightarrow>
        (if o2 = owner \<and> t2 = ?t then l = k else fence_of s o2 t2 l)"
      using reserved o2 assms(3) old by (auto simp: colon_key_inj)
    ultimately show "js_get (ss_activeTargets s') (colon_key o2 t2) = Some l \<longleftrightarrow> fence_of s' o2 t2 l"
      using none by auto
  qed
next
  case (evolved k opId r r')
  have target: "sa_targetEnvironmentId (sc_audit r') = sa_targetEnvironmentId (sc_audit r)"
    using evolved by (simp add: ssh_evolves_def same_ssh_operation_def)
  have "ssh_open r"
    using evolved unfolding ssh_evolves_def ssh_open_def by (cases "sc_state r") auto
  with evolved have fence: "fence_of s owner (sa_targetEnvironmentId (sc_audit r)) k"
    unfolding fence_of_def by blast
  show ?thesis
    unfolding ssh_inv_def
  proof (intro allI impI)
    fix o2 t2 l
    assume o2: "CHR '':'' \<notin> set o2"
    with assms(2) have old: "js_get (ss_activeTargets s) (colon_key o2 t2) = Some l \<longleftrightarrow> fence_of s o2 t2 l"
      unfolding ssh_inv_def by blast
    have "fence_of s' o2 t2 l \<longleftrightarrow> fence_of s o2 t2 l \<and> (l = k \<longrightarrow> ssh_open r')"
      using evolved o2 assms(3) target \<open>ssh_open r\<close> by (auto simp: fence_of_def colon_key_inj)
    moreover have "fence_of s o2 t2 k \<longleftrightarrow> o2 = owner \<and> t2 = sa_targetEnvironmentId (sc_audit r)"
      using evolved o2 assms(3) \<open>ssh_open r\<close> by (auto simp: fence_of_def colon_key_inj)
    moreover have "js_get (ss_activeTargets s) (colon_key owner (sa_targetEnvironmentId (sc_audit r))) = Some k"
      using fence assms(2,3) unfolding ssh_inv_def by blast
    ultimately show "js_get (ss_activeTargets s') (colon_key o2 t2) = Some l \<longleftrightarrow> fence_of s' o2 t2 l"
      using evolved(5) o2 assms(3) old target by (auto simp: colon_key_inj split: if_splits)
  qed
qed (use assms in simp)

interpretation ssh: guarded_store ssh_step ssh_inv ssh_call_ok
  by unfold_locales (auto simp: ssh_call_ok_def intro: ssh_change_inv ssh_step_change)

lemma ssh_inv_empty: "ssh_inv empty_ssh_store"
  by (simp add: ssh_inv_def empty_ssh_store_def fence_of_def)

section \<open>Properties\<close>

text \<open>When no owner's id has a colon, a target environment of an owner is fenced exactly while an
  operation of that owner on it is open (reserved, dispatching or uncertain), and the fence names that
  operation; so an owner never has two open operations on one target, and no fence outlives its
  operation.\<close>

theorem ssh_fence_exact:
  assumes "list_all ssh_call_ok ops" and "CHR '':'' \<notin> set owner"
  defines "s \<equiv> run_state ssh_step ops empty_ssh_store"
  shows "js_get (ss_activeTargets s) (colon_key owner target) = Some k \<longleftrightarrow>
    (\<exists>opId r. k = colon_key owner opId \<and> js_get (ss_records s) k = Some r \<and>
      sc_state r \<in> {SshReserved, SshDispatching, SshUncertain} \<and>
      sa_targetEnvironmentId (sc_audit r) = target)"
  using ssh.guarded_run_inv [OF assms(1) ssh_inv_empty] assms(2)
  unfolding s_def ssh_inv_def fence_of_def ssh_open_def by blast

definition example_target :: string where
  "example_target = ''01234567-89ab-1def-8123-456789abcdef''"

definition example_ssh_audit :: "string \<Rightarrow> ssh_audit" where
  "example_ssh_audit opId = \<lparr>sa_actorId = ''u'', sa_actorKind = GatewayHuman, sa_capability = ''project_cli'',
     sa_completedAt = None, sa_operation = ''status.v1'', sa_operationId = opId, sa_outcome = OutcomeAccepted,
     sa_gatewayId = ''g'', sa_routeClass = ''ssh_private_network'', sa_routeId = example_target,
     sa_targetEnvironmentId = example_target, sa_targetIdentityRevision = ''r1''\<rparr>"

definition example_ssh_reservation :: "string \<Rightarrow> string \<Rightarrow> ssh_reservation" where
  "example_ssh_reservation owner opId = \<lparr>sv_audit = example_ssh_audit opId, sv_fingerprint = replicate 64 (CHR ''0''),
     sv_operationId = opId, sv_ownerUserId = owner, sv_targetEnvironmentId = example_target\<rparr>"

lemma example_ssh_valid:
  "validateReservation (example_ssh_reservation ''a'' ''b:c'') = None"
  "validateReservation (example_ssh_reservation ''a:b'' ''c'') = None"
  by code_simp+

lemma example_ssh_sel [simp]:
  "sv_ownerUserId (example_ssh_reservation owner opId) = owner"
  "sv_operationId (example_ssh_reservation owner opId) = opId"
  "sv_targetEnvironmentId (example_ssh_reservation owner opId) = example_target"
  "sv_fingerprint (example_ssh_reservation owner opId) = replicate 64 (CHR ''0'')"
  "sv_audit (example_ssh_reservation owner opId) = example_ssh_audit opId"
  by (simp_all add: example_ssh_reservation_def)

theorem ssh_fence_exact_witness:
  "\<exists>opId. ''a:b:c'' = colon_key ''a'' opId \<and>
    js_get (ss_activeTargets (run_state ssh_step [SshReserve (example_ssh_reservation ''a'' ''b:c'')] empty_ssh_store))
      (colon_key ''a'' example_target) = Some ''a:b:c''"
proof -
  let ?op = "SshReserve (example_ssh_reservation ''a'' ''b:c'')"
  have "list_all ssh_call_ok [?op]" "CHR '':'' \<notin> set ''a''"
    by (simp_all add: ssh_call_ok_def)
  from ssh_fence_exact [OF this, of example_target "''a:b:c''"] show ?thesis
    by (simp add: ssh_reserve_def example_ssh_valid Let_def empty_ssh_store_def colon_key_def
        example_ssh_audit_def)
qed

text \<open>An operation of the gateway moves only along its life, for any owner: it succeeds or becomes
  uncertain only after a dispatch, success carries a result of exactly this operation and target
  identity, a finished operation never changes, and its fingerprint and identity stay.\<close>

theorem ssh_operation_life:
  assumes "ssh_call_typed op" and "js_get (ss_records s) k = Some r"
  shows "\<exists>r'. js_get (ss_records (snd (ssh_step op s))) k = Some r' \<and>
    (r' = r \<or> ssh_move (sc_state r) (sc_state r') \<and> same_ssh_operation r r' \<and>
      (sc_state r' = SshSucceeded \<longrightarrow> sc_state r \<noteq> SshReserved \<and> (\<exists>res. sc_result r' = Some res \<and>
        sr_operationId res = sa_operationId (sc_audit r) \<and>
        sr_targetIdentityRevision res = sa_targetIdentityRevision (sc_audit r))))"
  using ssh_step_change [OF assms(1), of s] assms(2)
  by cases (auto simp: ssh_evolves_def)

theorem ssh_operation_life_witness:
  "\<exists>r'. js_get (ss_records (snd (ssh_step (SshDispatch 0 \<lparr>sd_fingerprint = ''f'', sd_operationId = ''o'', sd_ownerUserId = ''u''\<rparr>)
      \<lparr>ss_records = [(''u:o'', \<lparr>sc_audit = example_ssh_audit ''o'', sc_fingerprint = ''f'', sc_result = None,
        sc_state = SshReserved\<rparr>)], ss_activeTargets = [], ss_dispatchLeases = []\<rparr>))) ''u:o'' = Some r' \<and>
    sc_state r' = SshDispatching"
  using ssh_operation_life [of "SshDispatch 0 \<lparr>sd_fingerprint = ''f'', sd_operationId = ''o'', sd_ownerUserId = ''u''\<rparr>"
    "\<lparr>ss_records = [(''u:o'', \<lparr>sc_audit = example_ssh_audit ''o'', sc_fingerprint = ''f'', sc_result = None,
        sc_state = SshReserved\<rparr>)], ss_activeTargets = [], ss_dispatchLeases = []\<rparr>" "''u:o''"]
  by (simp add: ssh_markDispatchAttempted_def colon_key_def Let_def)

section \<open>Owners with a colon\<close>

text \<open>The owner \<open>a:b\<close> reserves its operation \<open>c\<close>; the owner \<open>a\<close> then reads that record as its own
  operation \<open>b:c\<close>. Both pairs pass the validation.\<close>

lemma owner_collision:
  "ssh_read ''a'' ''b:c'' (run_state ssh_step [SshReserve (example_ssh_reservation ''a:b'' ''c'')] empty_ssh_store) =
     Some \<lparr>sc_audit = example_ssh_audit ''c'', sc_fingerprint = replicate 64 (CHR ''0''), sc_result = None,
       sc_state = SshReserved\<rparr>"
  using example_ssh_valid(2)
  by (simp add: ssh_read_def ssh_reserve_def Let_def empty_ssh_store_def colon_key_def)

end
