(* ===== verification/SshServiceProperties.thy ===== *)
theory SshServiceProperties
  imports SshTrail SshProperties
begin

text \<open>
  What the SSH gateway promises over every interleaving of calls: every call that executes a command came the
  whole way, so no command is executed without three rounds of checks of its exact target and route.
\<close>

section \<open>Every command has its way\<close>

fun answered :: "gateway_call \<Rightarrow> bool" where
  "answered (GatewayAnswered v) = True"
| "answered _ = False"

definition has_trails :: "platform \<Rightarrow> gateway_op list \<Rightarrow> gateway_system \<Rightarrow> bool" where
  "has_trails pf ops y \<longleftrightarrow>
     (\<forall>k c. js_get (gs_calls y) k = Some c \<longrightarrow> \<not> answered c \<longrightarrow> reached pf k c ops) \<and>
     (\<forall>k cmd. (k, cmd) \<in> set (gs_wire y) \<longrightarrow>
        (\<exists>p a r. cmd = command_of p r \<and> reached pf k (Dispatched p a r) ops))"

lemma fail_call_answered [simp]: "answered (fst (fail_call pf now rv d f s))"
  by (simp add: fail_call_def Let_def)

lemma reserve_validated: "ssh_reserve i s = (Inr x, s') \<Longrightarrow> validateReservation i = None"
  by (auto simp: ssh_reserve_def split: option.splits)

lemma reserve_call_second:
  assumes "reserve_call pf now rv s = (c', s')" "\<not> answered c'"
  shows "c' = AwaitSecond rv \<and> isUuid (sl_routeId (rv_selected rv))"
proof -
  obtain x s1 where res: "ssh_reserve (reservation_of pf now rv) s = (x, s1)" by force
  show ?thesis
  proof (cases x)
    case (Inr q)
    with res have "validateReservation (reservation_of pf now rv) = None" using reserve_validated by blast
    then have "isUuid (sl_routeId (rv_selected rv))"
      by (auto simp: validateReservation_def reservation_of_def args_audit_def auditEvidence_def Let_def split: if_splits)
    with Inr res assms show ?thesis
      by (auto simp: reserve_call_def split: prod.splits if_splits option.splits)
  qed (use res assms in \<open>auto simp: reserve_call_def\<close>)
qed

lemma perform_next:
  assumes "perform pf now c (advance pf now answer c) s = (c', s')" "\<not> answered c'"
  shows "c' = c \<or> advance pf now answer c = GNext c' \<or>
    (\<exists>rv. advance pf now answer c = GReserve rv \<and> c' = AwaitSecond rv \<and> isUuid (sl_routeId (rv_selected rv))) \<or>
    (\<exists>p a r. advance pf now answer c = GMark p a r \<and> c' = Dispatched p a r)"
proof -
  have fail: "answered c'" if "fail_call pf now rv d f t = (c', s')" for rv d f t
    using fail_call_answered [of pf now rv d f t] that by simp
  show ?thesis
    using assms fail
    by (cases "advance pf now answer c")
      (auto simp: mark_call_def complete_call_def replay_call_def Let_def dest: reserve_call_second
        split: sum.splits prod.splits option.splits if_splits)
qed

lemma reached_snoc:
  "reached pf k c ops \<Longrightarrow> (\<And>tr. trail pf k c tr \<Longrightarrow> trail pf k c' (tr @ [op])) \<Longrightarrow> reached pf k c' (ops @ [op])"
  unfolding reached_def by (meson subseq_snoc)

lemma has_trails_step:
  assumes "has_trails pf ops y"
  shows "has_trails pf (ops @ [op]) (snd (gateway_step pf op y))"
proof -
  have old: "reached pf k c (ops @ [op])" if "js_get (gs_calls y) k = Some c" "\<not> answered c" for k c
    using assms that reached_mono unfolding has_trails_def by blast
  have wire: "\<exists>p a r. cmd = command_of p r \<and> reached pf k (Dispatched p a r) (ops @ [op])"
    if "(k, cmd) \<in> set (gs_wire y)" for k cmd
    using assms that reached_mono unfolding has_trails_def by meson
  have started: "has_trails pf (ops @ [op]) (start_call valid m args y)"
    if "valid \<Longrightarrow> trail pf (gs_next y) (AwaitFirst m args) [op]" for valid m args
    using old wire that by (auto simp: has_trails_def start_call_def reached_def)
  show ?thesis
  proof (cases op)
    case (GExecute actor r now)
    then show ?thesis
      using started [of "validateRequest (pf_url pf) now actor r" ExecuteMode] by (simp add: trail.execute)
  next
    case (GReplay actor r)
    then show ?thesis
      using started [of _ ReplayMode "\<lparr>gq_actor = actor, gq_request = r\<rparr>"] trail.replay [of pf _ "\<lparr>gq_actor = actor, gq_request = r\<rparr>"]
      by simp
  next
    case (GAnswer k now answer)
    show ?thesis
    proof (cases "js_get (gs_calls y) k")
      case None
      with GAnswer old wire show ?thesis by (simp add: has_trails_def resume_call_def)
    next
      case (Some c)
      obtain c' s' where p: "perform pf now c (advance pf now answer c) (gs_store y) = (c', s')" by force
      have "reached pf k c' (ops @ [op])" if "\<not> answered c'"
      proof -
        have "\<not> answered c"
          using p that by (cases c) auto
        then have c: "reached pf k c ops" using assms Some unfolding has_trails_def by blast
        from perform_next [OF p that] consider "c' = c" | "advance pf now answer c = GNext c'"
          | (reserve) rv where "advance pf now answer c = GReserve rv" "c' = AwaitSecond rv" "isUuid (sl_routeId (rv_selected rv))"
          | (mark) q a r where "advance pf now answer c = GMark q a r" "c' = Dispatched q a r"
          by blast
        then show ?thesis
        proof cases
          case 1
          with c reached_mono show ?thesis by blast
        next
          case 2
          show ?thesis unfolding GAnswer by (rule reached_snoc [OF c trail.answer [OF _ 2]])
        next
          case reserve
          show ?thesis
            unfolding GAnswer reserve(2) by (rule reached_snoc [OF c trail.reserve [OF _ reserve(1) reserve(3)]])
        next
          case mark
          show ?thesis unfolding GAnswer mark(2) by (rule reached_snoc [OF c trail.mark [OF _ mark(1)]])
        qed
      qed
      with GAnswer Some p old wire show ?thesis by (auto simp: has_trails_def resume_call_def)
    qed
  next
    case (GSend k now)
    show ?thesis
    proof (cases "\<exists>p a r. js_get (gs_calls y) k = Some (Dispatched p a r)")
      case True
      then obtain p a r where k: "js_get (gs_calls y) k = Some (Dispatched p a r)" by blast
      then have c: "reached pf k (Dispatched p a r) ops" using assms unfolding has_trails_def by fastforce
      have "reached pf k (AwaitRun p a r now) (ops @ [op])"
        unfolding GSend by (rule reached_snoc [OF c trail.send])
      moreover have "\<exists>q b t. command_of p r = command_of q t \<and> reached pf k (Dispatched q b t) (ops @ [op])"
        using reached_mono [OF c] by blast
      ultimately show ?thesis
        using k GSend old wire by (auto simp: has_trails_def send_command_def)
    next
      case False
      then have "send_command k now y = y"
        by (auto simp: send_command_def split: option.splits gateway_call.splits)
      with GSend old wire show ?thesis by (simp add: has_trails_def)
    qed
  next
    case (GReconcile now i)
    with old wire show ?thesis by (simp add: has_trails_def)
  qed
qed

lemma run_snoc: "run_state step (ops @ [op]) s = snd (step op (run_state step ops s))"
  by (simp add: run_state_append)

lemma run_has_trails: "has_trails pf ops (run_gateway pf ops)"
proof (induction ops rule: rev_induct)
  case Nil
  then show ?case by (simp add: has_trails_def empty_gateway_def)
next
  case (snoc op ops)
  then show ?case using has_trails_step by (simp add: run_snoc)
qed

text \<open>The three rounds of a command, in the order of the steps.\<close>

definition command_checked ::
    "platform \<Rightarrow> gateway_op list \<Rightarrow> nat \<Rightarrow> prepared_call \<Rightarrow> route_authorization \<Rightarrow> bool" where
  "command_checked pf ops k p a \<longleftrightarrow>
     (\<exists>tr1 tr2 tr3. subseq (tr1 @ tr2 @ tr3) ops \<and> first_round pf k (pr_reserved p) tr1 \<and>
        second_round pf k p tr2 \<and> final_round pf k p a (pr_route p) tr3)"

lemma dispatched_checked:
  assumes "reached pf k (Dispatched p a r) ops"
  shows "command_checked pf ops k p a \<and> r = pr_route p"
proof -
  obtain tr where tr: "trail pf k (Dispatched p a r) tr" "subseq tr ops"
    using assms unfolding reached_def by blast
  then obtain tr2 tr3 where final: "tr = tr2 @ tr3" "trail pf k (AwaitFinal p) tr2" "final_round pf k p a r tr3"
    using trail_dispatched by blast
  then obtain tr0 tr1 where "tr2 = tr0 @ tr1" "trail pf k (AwaitSecond (pr_reserved p)) tr0" "second_round pf k p tr1"
    using trail_final by blast
  moreover have "r = pr_route p" using final(3) unfolding final_round_def by blast
  ultimately show ?thesis
    using final tr trail_second unfolding command_checked_def by (metis append_assoc)
qed

text \<open>What the rounds say about the route that is used.\<close>

lemma checked_route:
  assumes "command_checked pf ops k p a"
  shows "sl_routeId (pr_route p) = sl_routeId (rv_selected (pr_reserved p)) \<and> control_route (pr_route p) \<and>
    truthy_where isPrivateAddress (sl_privateAddress (pr_route p)) \<and>
    truthy_where isPinnedSshHostKey (sl_hostKeySha256 (pr_route p)) \<and>
    truthy_where isCredentialReference (sl_credentialReference (pr_route p)) \<and>
    sl_ownerUserId (pr_route p) = ga_ownerUserId (gq_actor (rv_args (pr_reserved p))) \<and>
    sl_target (pr_route p) = \<lparr>at_id = gr_environmentId (gq_request (rv_args (pr_reserved p))), at_kind = EnvironmentTarget\<rparr> \<and>
    sl_targetIdentityRevision (pr_route p) = tb_targetIdentityRevision (rv_target (pr_reserved p)) \<and>
    az_identityRevision a = az_identityRevision (rv_first (pr_reserved p)) \<and>
    az_gatewayId a = az_gatewayId (rv_first (pr_reserved p))"
proof -
  obtain n i where final: "explicit_choice pf (pr_reserved p) a i n = ChoiceReady (pr_route p)"
      "assertAuthorizationStable (pr_second p) a" and bound: "\<exists>t. binding_holds t (rv_args (pr_reserved p)) a 5000"
    using assms unfolding command_checked_def final_round_def by blast
  have second: "control_route (pr_route p)" "assertAuthorizationStable (rv_first (pr_reserved p)) (pr_second p)"
    using assms unfolding command_checked_def second_round_def by blast+
  have first: "isUuid (sl_routeId (rv_selected (pr_reserved p)))"
    "tb_targetIdentityRevision (rv_target (pr_reserved p)) = az_identityRevision (rv_first (pr_reserved p))"
    using assms unfolding command_checked_def first_round_def by blast+
  from first(1) have "sl_routeId (rv_selected (pr_reserved p)) \<noteq> []"
    by (auto simp: isUuid_def numeral_eq_Suc)
  with final(1) have explicit: "sl_routeId (pr_route p) = sl_routeId (rv_selected (pr_reserved p))"
    unfolding explicit_choice_def by (rule selected_explicit)
  have "safe_route a i n (pr_route p)"
    using final(1) unfolding explicit_choice_def by (rule selected_safe)
  then have "sl_ownerUserId (pr_route p) = az_ownerUserId a \<and> sl_target (pr_route p) = az_target a \<and>
      sl_targetIdentityRevision (pr_route p) = az_identityRevision a \<and>
      truthy_where isPrivateAddress (sl_privateAddress (pr_route p)) \<and>
      truthy_where isPinnedSshHostKey (sl_hostKeySha256 (pr_route p)) \<and>
      truthy_where isCredentialReference (sl_credentialReference (pr_route p))"
    using second(1) by (auto simp: safe_route_def selection_def control_route_def)
  moreover have "az_ownerUserId a = ga_ownerUserId (gq_actor (rv_args (pr_reserved p)))"
      "az_target a = \<lparr>at_id = gr_environmentId (gq_request (rv_args (pr_reserved p))), at_kind = EnvironmentTarget\<rparr>"
    using bound by (auto simp: binding_holds_def assertAuthorizationBinding_def)
  ultimately show ?thesis
    using explicit second first(2) final(2) by (simp add: assertAuthorizationStable_def)
qed

text \<open>C9: Whatever the collaborators answer and however calls interleave, a command that the transport
  executes was checked in three rounds, one after the other: the first authorization, target and route choice
  before the reservation, the second with the handshake after it, and the last before the dispatch. Each
  authorization was bound to the actor and the environment of the command, all three name the same gateway and
  identity, each inventory resolved the environment to the same target, and Worktree preparation was
  authorized in the first and the last round. The route is the one selected first, belongs to the actor and the target, has a private
  address, a pinned host key and a credential reference, and is the route in use when the command is
  sent.\<close>

theorem gateway_commands_checked:
  assumes "(k, cmd) \<in> set (gs_wire (run_gateway pf ops))"
  shows "\<exists>p a. cmd = command_of p (pr_route p) \<and> command_checked pf ops k p a \<and>
    sl_routeId (tc_route cmd) = sl_routeId (rv_selected (pr_reserved p)) \<and>
    sl_ownerUserId (tc_route cmd) = ga_ownerUserId (gq_actor (rv_args (pr_reserved p))) \<and>
    sl_target (tc_route cmd) = \<lparr>at_id = gr_environmentId (tc_request cmd), at_kind = EnvironmentTarget\<rparr> \<and>
    sl_targetIdentityRevision (tc_route cmd) = tb_targetIdentityRevision (rv_target (pr_reserved p)) \<and>
    truthy_where isPrivateAddress (sl_privateAddress (tc_route cmd)) \<and>
    truthy_where isPinnedSshHostKey (sl_hostKeySha256 (tc_route cmd)) \<and>
    truthy_where isCredentialReference (sl_credentialReference (tc_route cmd))"
proof -
  obtain p a r where cmd: "cmd = command_of p r" "reached pf k (Dispatched p a r) ops"
    using run_has_trails assms unfolding has_trails_def by meson
  with dispatched_checked have "command_checked pf ops k p a" "r = pr_route p" by blast+
  with cmd(1) checked_route show ?thesis
    by (intro exI [of _ p] exI [of _ a]) (simp add: command_of_def)
qed

end
