(* ===== verification/SshServiceOnce.thy ===== *)
theory SshServiceOnce
  imports SshServiceProperties
begin

text \<open>
  What the calls of the SSH gateway own in the store: a call between its reservation and its answer owns the
  record of its operation, so an operation is executed at most once, executions on one target exclude each
  other, and the outcome of an execution is recorded.
\<close>

section \<open>Owned records\<close>

fun owned :: "gateway_call \<Rightarrow> reserved_call option" where
  "owned (AwaitSecond rv) = Some rv"
| "owned (AwaitSecondTarget rv a) = Some rv"
| "owned (AwaitSecondRoutes rv a t) = Some rv"
| "owned (AwaitHost rv a r) = Some rv"
| "owned (AwaitCredential rv a r h) = Some rv"
| "owned (AwaitHandshake rv a r h c) = Some rv"
| "owned (AwaitFinal p) = Some (pr_reserved p)"
| "owned (AwaitFinalTarget p a) = Some (pr_reserved p)"
| "owned (AwaitFinalWorktree p a) = Some (pr_reserved p)"
| "owned (AwaitFinalRoutes p a t) = Some (pr_reserved p)"
| "owned (Dispatched p a r) = Some (pr_reserved p)"
| "owned (AwaitRun p a r t) = Some (pr_reserved p)"
| "owned _ = None"

fun in_flight :: "gateway_call \<Rightarrow> bool" where
  "in_flight (Dispatched p a r) = True"
| "in_flight (AwaitRun p a r t) = True"
| "in_flight _ = False"

definition call_key :: "reserved_call \<Rightarrow> string" where
  "call_key rv = colon_key (ga_ownerUserId (gq_actor (rv_args rv))) (gr_operationId (gq_request (rv_args rv)))"

definition command_key :: "transport_command \<Rightarrow> string" where
  "command_key cmd = colon_key (sl_ownerUserId (tc_route cmd)) (gr_operationId (tc_request cmd))"

definition open_record :: "platform \<Rightarrow> reserved_call \<Rightarrow> ssh_state \<Rightarrow> ssh_record" where
  "open_record pf rv st =
     \<lparr>sc_audit = args_audit 0 (rv_args rv) (rv_first rv) (rv_selected rv) OutcomeAccepted,
      sc_fingerprint = args_fingerprint pf (rv_args rv) (rv_first rv), sc_result = None, sc_state = st\<rparr>"

text \<open>
  Without \<open>reconcile\<close> (\<open>strict\<close>) the record of a call in flight is the one it was reserved with; otherwise it may
  have been reconciled after its lease.
\<close>

definition past_reservation :: "string \<Rightarrow> ssh_store \<Rightarrow> bool" where
  "past_reservation key s \<longleftrightarrow> (\<exists>r. js_get (ss_records s) key = Some r \<and> sc_state r \<noteq> SshReserved)"

definition owns_record :: "bool \<Rightarrow> platform \<Rightarrow> gateway_call \<Rightarrow> reserved_call \<Rightarrow> ssh_store \<Rightarrow> bool" where
  "owns_record strict pf c rv s \<longleftrightarrow>
     (if in_flight c
      then past_reservation (call_key rv) s \<and>
        (strict \<longrightarrow> js_get (ss_records s) (call_key rv) = Some (open_record pf rv SshDispatching))
      else js_get (ss_records s) (call_key rv) = Some (open_record pf rv SshReserved))"

definition wire_keys :: "gateway_system \<Rightarrow> string list" where
  "wire_keys y = map (command_key \<circ> snd) (gs_wire y)"

definition calls_own :: "bool \<Rightarrow> platform \<Rightarrow> gateway_system \<Rightarrow> bool" where
  "calls_own strict pf y \<longleftrightarrow>
     (\<forall>k c. js_get (gs_calls y) k = Some c \<longrightarrow> k < gs_next y) \<and>
     (\<forall>k c rv. js_get (gs_calls y) k = Some c \<longrightarrow> owned c = Some rv \<longrightarrow> owns_record strict pf c rv (gs_store y)) \<and>
     (\<forall>k l c d rv rw. js_get (gs_calls y) k = Some c \<longrightarrow> js_get (gs_calls y) l = Some d \<longrightarrow> owned c = Some rv \<longrightarrow>
        owned d = Some rw \<longrightarrow> call_key rv = call_key rw \<longrightarrow> k = l) \<and>
     (\<forall>key \<in> set (wire_keys y). past_reservation key (gs_store y)) \<and> distinct (wire_keys y) \<and>
     (\<forall>k p a r. js_get (gs_calls y) k = Some (Dispatched p a r) \<longrightarrow> call_key (pr_reserved p) \<notin> set (wire_keys y))"

section \<open>What a move means for the call that makes it\<close>

lemma move_next:
  "advance pf now answer c = GNext c' \<Longrightarrow> owned c' = owned c \<and> \<not> in_flight c \<and> \<not> in_flight c' \<and> \<not> answered c'"
  by (cases c) (auto simp: routing_defs split: move_splits)

lemma move_refuse: "advance pf now answer c = GRefuse f \<Longrightarrow> owned c = None"
  by (cases c) (auto simp: routing_defs split: move_splits)

lemma move_replay: "advance pf now answer c = GReadReplay args a r \<Longrightarrow> owned c = None"
  by (cases c) (auto simp: routing_defs split: move_splits)

lemma move_reserve: "advance pf now answer c = GReserve rv \<Longrightarrow> owned c = None"
  by (auto dest!: advance_reserve)

lemma move_fail: "advance pf now answer c = GFail rv d f \<Longrightarrow> owned c = Some rv \<and> d = in_flight c"
  by (cases c) (auto simp: routing_defs split: move_splits)

lemma move_mark: "advance pf now answer c = GMark p a r \<Longrightarrow> owned c = Some (pr_reserved p) \<and> \<not> in_flight c"
  by (auto dest!: advance_mark)

lemma move_complete:
  "advance pf now answer c = GComplete p a r res \<Longrightarrow>
     \<exists>t x. c = AwaitRun p a r t \<and> answer = ATransport x \<and>
       run_outcome pf now (gq_request (rv_args (pr_reserved p))) (sl_targetIdentityRevision r) t x = Inr res"
  by (cases c) (auto simp: routing_defs split: move_splits)

section \<open>What the store does for it\<close>

definition changes_within :: "string set \<Rightarrow> ssh_store \<Rightarrow> ssh_store \<Rightarrow> bool" where
  "changes_within K s s' \<longleftrightarrow>
     (\<forall>key. key \<notin> K \<longrightarrow> js_get (ss_records s') key = js_get (ss_records s) key) \<and>
     (\<forall>key. past_reservation key s \<longrightarrow> past_reservation key s')"

lemma changes_refl [simp]: "changes_within K s s"
  by (simp add: changes_within_def)

lemma changes_trans: "changes_within K s s' \<Longrightarrow> changes_within K s' s'' \<Longrightarrow> changes_within K s s''"
  by (simp add: changes_within_def)

lemma set_changes:
  assumes "ss_records s' = js_set (ss_records s) key r" "sc_state r \<noteq> SshReserved \<or> js_get (ss_records s) key = None"
  shows "changes_within {key} s s'"
  using assms by (auto simp: changes_within_def past_reservation_def)

lemma complete_changes:
  assumes "sp_state i \<noteq> SshReserved"
  shows "changes_within {colon_key (sp_ownerUserId i) (sp_operationId i)} s (snd (ssh_complete i s))"
proof -
  let ?key = "colon_key (sp_ownerUserId i) (sp_operationId i)"
  have "snd (ssh_complete i s) = s \<or> (\<exists>r. ss_records (snd (ssh_complete i s)) = js_set (ss_records s) ?key r \<and> sc_state r = sp_state i)"
    by (auto simp: ssh_complete_def Let_def write_completed_def completed_record_def split: option.split)
  with assms show ?thesis
    using set_changes [of "snd (ssh_complete i s)" s ?key] by auto
qed

lemma failed_state_open [simp]: "failed_state d c \<noteq> SshReserved" "failed_state d c \<noteq> SshDispatching" "failed_state d c \<noteq> SshSucceeded"
  by (simp_all add: failed_state_def)

lemma completion_key [simp]:
  "colon_key (sp_ownerUserId (completion_of pf rv audit res st)) (sp_operationId (completion_of pf rv audit res st)) = call_key rv"
  "sp_state (completion_of pf rv audit res st) = st" "sp_result (completion_of pf rv audit res st) = res"
  "sp_fingerprint (completion_of pf rv audit res st) = args_fingerprint pf (rv_args rv) (rv_first rv)"
  by (simp_all add: completion_of_def call_key_def)

lemma fail_changes: "changes_within {call_key rv} s (snd (fail_call pf now rv d f s))"
  using complete_changes [of "completion_of pf rv audit None (failed_state d c)" s for audit c]
  by (simp add: fail_call_def Let_def)

lemma fail_owned [simp]: "owned (fst (fail_call pf now rv d f s)) = None"
  by (simp add: fail_call_def Let_def)

section \<open>The invariant of the calls\<close>

lemma calls_own_parts:
  assumes "calls_own strict pf y"
  shows "js_get (gs_calls y) k = Some c \<Longrightarrow> k < gs_next y"
    and "js_get (gs_calls y) k = Some c \<Longrightarrow> owned c = Some rv \<Longrightarrow> owns_record strict pf c rv (gs_store y)"
    and "js_get (gs_calls y) k = Some c \<Longrightarrow> js_get (gs_calls y) l = Some d \<Longrightarrow> owned c = Some rv \<Longrightarrow>
      owned d = Some rw \<Longrightarrow> call_key rv = call_key rw \<Longrightarrow> k = l"
    and "key \<in> set (wire_keys y) \<Longrightarrow> past_reservation key (gs_store y)" and "distinct (wire_keys y)"
    and "js_get (gs_calls y) k = Some (Dispatched p a r) \<Longrightarrow> call_key (pr_reserved p) \<notin> set (wire_keys y)"
  using assms unfolding calls_own_def by blast+

lemma owns_kept:
  assumes "owns_record strict pf d rw s" "changes_within K s s'" "call_key rw \<notin> K"
  shows "owns_record strict pf d rw s'"
  using assms by (auto simp: owns_record_def changes_within_def past_reservation_def)

lemma own_update:
  assumes inv: "calls_own strict pf y" and k: "js_get (gs_calls y) k = Some c"
    and changes: "changes_within K (gs_store y) s'"
    and others: "\<And>j d rw. j \<noteq> k \<Longrightarrow> js_get (gs_calls y) j = Some d \<Longrightarrow> owned d = Some rw \<Longrightarrow> call_key rw \<notin> K"
    and own: "\<And>rv. owned c' = Some rv \<Longrightarrow> owns_record strict pf c' rv s' \<and>
      (\<forall>j d rw. j \<noteq> k \<longrightarrow> js_get (gs_calls y) j = Some d \<longrightarrow> owned d = Some rw \<longrightarrow> call_key rw \<noteq> call_key rv)"
    and dispatched: "\<And>p a r. c' = Dispatched p a r \<Longrightarrow> call_key (pr_reserved p) \<notin> set (wire_keys y)"
  shows "calls_own strict pf (y\<lparr>gs_calls := js_set (gs_calls y) k c', gs_store := s'\<rparr>)"
proof -
  let ?y = "y\<lparr>gs_calls := js_set (gs_calls y) k c', gs_store := s'\<rparr>"
  have eqs: "gs_calls ?y = js_set (gs_calls y) k c'" "gs_store ?y = s'" "gs_next ?y = gs_next y" "wire_keys ?y = wire_keys y"
    by (simp_all add: wire_keys_def)
  show ?thesis
    unfolding calls_own_def eqs js_get_set
  proof (intro conjI allI impI ballI)
  note parts = calls_own_parts [OF inv]
  show "j < gs_next y" if "((js_get (gs_calls y))(k \<mapsto> c')) j = Some d" for j d
    using that parts(1) k by (auto split: if_splits)
  show "owns_record strict pf d rw s'" if "((js_get (gs_calls y))(k \<mapsto> c')) j = Some d" "owned d = Some rw" for j d rw
  proof (cases "j = k")
    case True
    with that own show ?thesis by simp
  next
    case False
    with that have "js_get (gs_calls y) j = Some d" by simp
    with False that others show ?thesis using owns_kept [OF parts(2) changes] by blast
  qed
  show "j = l" if "((js_get (gs_calls y))(k \<mapsto> c')) j = Some d" "((js_get (gs_calls y))(k \<mapsto> c')) l = Some e"
      "owned d = Some rv" "owned e = Some rw" "call_key rv = call_key rw" for j l d e rv rw
  proof (rule ccontr)
    assume "j \<noteq> l"
    then consider "j \<noteq> k" "l \<noteq> k" | "j = k" "l \<noteq> k" | "j \<noteq> k" "l = k" by blast
    then show False
    proof cases
      case 1
      with that have "js_get (gs_calls y) j = Some d" "js_get (gs_calls y) l = Some e" by simp_all
      with parts(3) that(3-5) \<open>j \<noteq> l\<close> show False by blast
    next
      case 2
      with that have "js_get (gs_calls y) l = Some e" "d = c'" by simp_all
      with 2 own [of rv] that(3-5) show False by metis
    next
      case 3
      with that have "js_get (gs_calls y) j = Some d" "e = c'" by simp_all
      with 3 own [of rw] that(3-5) show False by metis
    qed
  qed
  show "past_reservation key s'" if "key \<in> set (wire_keys y)" for key
    using that parts(4) changes by (simp add: changes_within_def)
  show "distinct (wire_keys y)" by (rule parts(5))
  show "call_key (pr_reserved p) \<notin> set (wire_keys y)" if "((js_get (gs_calls y))(k \<mapsto> c')) j = Some (Dispatched p a r)" for j p a r
    using that dispatched parts(6) by (auto split: if_splits)
  qed
qed

lemma own_others:
  assumes "calls_own strict pf y" "js_get (gs_calls y) k = Some c" "owned c = Some rv"
  shows "j \<noteq> k \<Longrightarrow> js_get (gs_calls y) j = Some d \<Longrightarrow> owned d = Some rw \<Longrightarrow> call_key rw \<noteq> call_key rv"
  using calls_own_parts(3) [OF assms(1,2) _ assms(3)] by metis

lemma audit_accepted: "args_audit now args a sel OutcomeAccepted = args_audit 0 args a sel OutcomeAccepted"
  by (simp add: args_audit_def auditEvidence_def)

lemma reserve_call_cases:
  assumes "reserve_call pf now rv s = (c', s')"
  shows "owned c' = None \<and> s' = s \<or>
    c' = AwaitSecond rv \<and> js_get (ss_records s) (call_key rv) = None \<and>
    ss_records s' = js_set (ss_records s) (call_key rv) (open_record pf rv SshReserved)"
proof -
  have stored: "\<lparr>sc_audit = sv_audit (reservation_of pf now rv), sc_fingerprint = sv_fingerprint (reservation_of pf now rv),
      sc_result = None, sc_state = SshReserved\<rparr> = open_record pf rv SshReserved"
    "colon_key (sv_ownerUserId (reservation_of pf now rv)) (sv_operationId (reservation_of pf now rv)) = call_key rv"
    using audit_accepted [of now] by (simp_all add: reservation_of_def open_record_def call_key_def)
  show ?thesis
    using assms
    by (auto simp: reserve_call_def ssh_reserve_def Let_def stored split: option.splits prod.splits if_splits)
qed

lemma mark_open:
  assumes "js_get (ss_records s) (call_key rv) = Some (open_record pf rv SshReserved)"
  shows "fst (ssh_markDispatchAttempted now (dispatch_of pf rv) s) = Inr () \<and>
    ss_records (snd (ssh_markDispatchAttempted now (dispatch_of pf rv) s)) =
      js_set (ss_records s) (call_key rv) (open_record pf rv SshDispatching)"
proof -
  have "colon_key (sd_ownerUserId (dispatch_of pf rv)) (sd_operationId (dispatch_of pf rv)) = call_key rv"
    by (simp add: dispatch_of_def call_key_def)
  with assms show ?thesis
    by (simp add: ssh_markDispatchAttempted_def Let_def open_record_def) (simp add: dispatch_of_def)
qed

lemma complete_call_cases:
  "owned (fst (complete_call pf now p a res s)) = None \<and>
   changes_within {call_key (pr_reserved p)} s (snd (complete_call pf now p a res s))"
proof -
  let ?i = "completion_of pf (pr_reserved p) (args_audit now (rv_args (pr_reserved p)) a (rv_selected (pr_reserved p)) OutcomeSucceeded)
    (Some res) SshSucceeded"
  obtain x s1 where res: "ssh_complete ?i s = (x, s1)" by force
  then have first: "changes_within {call_key (pr_reserved p)} s s1"
    using complete_changes [of ?i s] by simp
  show ?thesis
    using res first changes_trans [OF first fail_changes]
    by (cases x) (simp_all add: complete_call_def Let_def)
qed

lemma resume_own:
  assumes inv: "calls_own strict pf y"
  shows "calls_own strict pf (resume_call pf k now answer y)"
proof (cases "js_get (gs_calls y) k")
  case None
  with inv show ?thesis by (simp add: resume_call_def)
next
  case (Some c)
  obtain c' s' where p: "perform pf now c (advance pf now answer c) (gs_store y) = (c', s')" by force
  note update = own_update [OF inv Some]
  have "calls_own strict pf (y\<lparr>gs_calls := js_set (gs_calls y) k c', gs_store := s'\<rparr>)"
  proof (cases "advance pf now answer c")
    case GStay
    with p have "c' = c" "s' = gs_store y" by simp_all
    with Some calls_own_parts [OF inv] own_others [OF inv Some] show ?thesis
      by (intro update [where K = "{}"]) auto
  next
    case (GNext d)
    with p have c': "c' = d" "s' = gs_store y" by simp_all
    note own = move_next [OF GNext]
    have "owns_record strict pf d rv (gs_store y)" if "owned d = Some rv" for rv
      using calls_own_parts(2) [OF inv Some, of rv] own that by (simp add: owns_record_def)
    with c' own own_others [OF inv Some] show ?thesis
      by (intro update [where K = "{}"]) auto
  next
    case (GRefuse f)
    with p have "c' = GatewayAnswered (Inl f)" "s' = gs_store y" by simp_all
    then show ?thesis by (intro update [where K = "{}"]) auto
  next
    case (GReserve rv)
    with p have res: "reserve_call pf now rv (gs_store y) = (c', s')" by simp
    from reserve_call_cases [OF res] show ?thesis
    proof (elim disjE conjE)
      assume "owned c' = None" "s' = gs_store y"
      then show ?thesis by (intro update [where K = "{}"]) auto
    next
      assume new: "c' = AwaitSecond rv" "js_get (ss_records (gs_store y)) (call_key rv) = None"
        "ss_records s' = js_set (ss_records (gs_store y)) (call_key rv) (open_record pf rv SshReserved)"
      have fresh: "call_key rw \<noteq> call_key rv" if "js_get (gs_calls y) j = Some d" "owned d = Some rw" for j d rw
        using calls_own_parts(2) [OF inv that] new(2)
        by (auto simp: owns_record_def past_reservation_def split: if_splits)
      show ?thesis
        using new fresh
        by (intro update [where K = "{call_key rv}", OF set_changes]) (auto simp: owns_record_def)
    qed
  next
    case (GReadReplay args a r)
    with p have "owned c' = None" "s' = gs_store y"
      by (auto simp: replay_call_def split: option.splits if_splits)
    then show ?thesis by (intro update [where K = "{}"]) auto
  next
    case (GFail rv d f)
    with p have "c' = fst (fail_call pf now rv d f (gs_store y))" "s' = snd (fail_call pf now rv d f (gs_store y))" by simp_all
    moreover from move_fail [OF GFail] own_others [OF inv Some] have
      "call_key rw \<notin> {call_key rv}" if "j \<noteq> k" "js_get (gs_calls y) j = Some d" "owned d = Some rw" for j d rw
      using that by blast
    ultimately show ?thesis
      using fail_changes [of rv] by (intro update [where K = "{call_key rv}"]) (auto simp: fail_call_def Let_def)
  next
    case (GMark q a r)
    note own = move_mark [OF GMark]
    with calls_own_parts(2) [OF inv Some, of "pr_reserved q"]
    have stored: "js_get (ss_records (gs_store y)) (call_key (pr_reserved q)) = Some (open_record pf (pr_reserved q) SshReserved)"
      by (simp add: owns_record_def)
    have c': "c' = Dispatched q a r"
      and s': "ss_records s' = js_set (ss_records (gs_store y)) (call_key (pr_reserved q)) (open_record pf (pr_reserved q) SshDispatching)"
      using p GMark mark_open [OF stored, of now] by (auto simp: mark_call_def split: prod.splits sum.splits)
    have "call_key (pr_reserved q) \<notin> set (wire_keys y)"
      using calls_own_parts(4) [OF inv] stored by (force simp: past_reservation_def open_record_def)
    with c' s' own own_others [OF inv Some] show ?thesis
      by (intro update [where K = "{call_key (pr_reserved q)}", OF set_changes [OF s']])
        (auto simp: owns_record_def past_reservation_def open_record_def)
  next
    case (GComplete q a r res)
    then obtain t where "c = AwaitRun q a r t" using move_complete by blast
    then have "owned c = Some (pr_reserved q)" by simp
    with own_others [OF inv Some] have
      "call_key rw \<notin> {call_key (pr_reserved q)}" if "j \<noteq> k" "js_get (gs_calls y) j = Some d" "owned d = Some rw" for j d rw
      using that by blast
    moreover from p GComplete have "(c', s') = complete_call pf now q a res (gs_store y)" by simp
    then have "owned c' = None" "changes_within {call_key (pr_reserved q)} (gs_store y) s'"
      using complete_call_cases [of pf now q a res "gs_store y"] by (metis fst_conv, metis snd_conv)
    ultimately show ?thesis by (intro update [where K = "{call_key (pr_reserved q)}"]) auto
  qed
  with Some p show ?thesis by (simp add: resume_call_def)
qed

section \<open>Every step keeps the invariant\<close>

text \<open>\<open>reconcile\<close> settles an operation as succeeded or failed, by its type. In a strict run nothing is reconciled
  and no owner has a colon in its identifier.\<close>

fun gateway_op_ok :: "bool \<Rightarrow> gateway_op \<Rightarrow> bool" where
  "gateway_op_ok strict (GExecute actor r now) \<longleftrightarrow> strict \<longrightarrow> CHR '':'' \<notin> set (ga_ownerUserId actor)"
| "gateway_op_ok strict (GReconcile now i) \<longleftrightarrow> \<not> strict \<and> sp_state i \<in> {SshSucceeded, SshFailed}"
| "gateway_op_ok strict op \<longleftrightarrow> True"

lemma start_own:
  assumes inv: "calls_own strict pf y"
  shows "calls_own strict pf (start_call valid m args y)"
proof -
  let ?c = "if valid then AwaitFirst m args else GatewayAnswered (Inl (code_failure OperationConflictCode))"
  have eqs: "gs_calls (start_call valid m args y) = js_set (gs_calls y) (gs_next y) ?c"
    "gs_store (start_call valid m args y) = gs_store y" "gs_next (start_call valid m args y) = gs_next y + 1"
    "wire_keys (start_call valid m args y) = wire_keys y"
    by (simp_all add: start_call_def wire_keys_def)
  have "js_get (gs_calls y) (gs_next y) = None"
    using calls_own_parts(1) [OF inv] by (cases "js_get (gs_calls y) (gs_next y)") blast+
  moreover have "owned ?c = None" "?c \<noteq> Dispatched p a r" for p a r by simp_all
  ultimately show ?thesis
    using inv unfolding calls_own_def eqs js_get_set by (auto simp: less_Suc_eq split: if_splits)
qed

lemma command_call_key: "reached pf k (Dispatched p a r) ops \<Longrightarrow> command_key (command_of p r) = call_key (pr_reserved p)"
  using dispatched_checked checked_route by (metis call_key_def command_key_def command_of_def transport_command.select_convs(3,4))

lemma send_own:
  assumes inv: "calls_own strict pf y" and trails: "has_trails pf ops y"
  shows "calls_own strict pf (send_command k now y)"
proof (cases "\<exists>p a r. js_get (gs_calls y) k = Some (Dispatched p a r)")
  case False
  then have "send_command k now y = y"
    by (auto simp: send_command_def split: option.splits gateway_call.splits)
  with inv show ?thesis by simp
next
  case True
  then obtain p a r where k: "js_get (gs_calls y) k = Some (Dispatched p a r)" by blast
  let ?key = "call_key (pr_reserved p)" and ?z = "y\<lparr>gs_calls := js_set (gs_calls y) k (AwaitRun p a r now), gs_store := gs_store y\<rparr>"
  note parts = calls_own_parts [OF inv]
  have z: "calls_own strict pf ?z"
    using parts(2) [OF k, of "pr_reserved p"] own_others [OF inv k]
    by (intro own_update [OF inv k, of "{}"]) (auto simp: owns_record_def)
  have keys: "command_key (command_of p r) = ?key"
    using trails k command_call_key unfolding has_trails_def by fastforce
  have sent: "gs_calls (send_command k now y) = gs_calls ?z" "gs_store (send_command k now y) = gs_store ?z"
    "gs_next (send_command k now y) = gs_next ?z" "wire_keys (send_command k now y) = wire_keys y @ [?key]"
    "wire_keys ?z = wire_keys y"
    using k keys by (simp_all add: send_command_def wire_keys_def)
  have "past_reservation ?key (gs_store ?z)"
    using parts(2) [OF k, of "pr_reserved p"] by (simp add: owns_record_def)
  moreover have "?key \<notin> set (wire_keys y)" by (rule parts(6) [OF k])
  moreover have "call_key (pr_reserved q) \<noteq> ?key" if "js_get (gs_calls ?z) j = Some (Dispatched q b t)" for j q b t
  proof -
    from that have "j \<noteq> k" "js_get (gs_calls y) j = Some (Dispatched q b t)" by (auto split: if_splits)
    with own_others [OF inv k] show ?thesis by simp
  qed
  ultimately show ?thesis
    using z unfolding calls_own_def sent by (simp del: js_get_set)
qed

lemma reconcile_own:
  assumes inv: "calls_own False pf y" and state: "sp_state i \<in> {SshSucceeded, SshFailed}"
  shows "calls_own False pf (y\<lparr>gs_store := snd (ssh_reconcile now i (gs_store y))\<rparr>)"
proof -
  let ?key = "colon_key (sp_ownerUserId i) (sp_operationId i)" and ?s = "snd (ssh_reconcile now i (gs_store y))"
  have change: "?s = gs_store y \<or> (past_reservation ?key (gs_store y) \<and>
      (\<exists>r. ss_records ?s = js_set (ss_records (gs_store y)) ?key r \<and> sc_state r \<noteq> SshReserved))"
    using state by (auto simp: ssh_reconcile_def Let_def write_completed_def completed_record_def past_reservation_def
        split: option.splits)
  then have kept: "past_reservation key ?s" if "past_reservation key (gs_store y)" for key
    using that by (auto simp: past_reservation_def)
  have opened: "js_get (ss_records ?s) key = Some (open_record pf rv SshReserved)"
    if "js_get (ss_records (gs_store y)) key = Some (open_record pf rv SshReserved)" for key rv
    using change that by (auto simp: past_reservation_def open_record_def)
  have eqs: "gs_calls (y\<lparr>gs_store := ?s\<rparr>) = gs_calls y" "gs_store (y\<lparr>gs_store := ?s\<rparr>) = ?s"
    "gs_next (y\<lparr>gs_store := ?s\<rparr>) = gs_next y" "wire_keys (y\<lparr>gs_store := ?s\<rparr>) = wire_keys y"
    by (simp_all add: wire_keys_def)
  have "owns_record False pf c rv ?s" if "owns_record False pf c rv (gs_store y)" for c rv
    using that kept opened by (simp add: owns_record_def)
  with inv kept show ?thesis unfolding calls_own_def eqs by blast
qed

lemma step_own:
  assumes "calls_own strict pf y" "has_trails pf ops y" "gateway_op_ok strict op"
  shows "calls_own strict pf (snd (gateway_step pf op y))"
  using assms start_own send_own reconcile_own resume_own by (cases op; cases strict) auto

lemma run_own: "list_all (gateway_op_ok strict) ops \<Longrightarrow> calls_own strict pf (run_gateway pf ops)"
proof (induction ops rule: rev_induct)
  case Nil
  then show ?case by (simp add: calls_own_def empty_gateway_def wire_keys_def)
next
  case (snoc op ops)
  then show ?case using step_own [OF _ run_has_trails, of strict pf ops op] by (simp add: run_snoc)
qed

text \<open>C10: No operation of an owner is executed twice: over every interleaving of calls with each other and
  with reconciliations, the commands the transport executes have different operations.\<close>

theorem gateway_executes_once:
  assumes "list_all (gateway_op_ok False) ops"
  shows "distinct (map (\<lambda>(k, cmd). colon_key (sl_ownerUserId (tc_route cmd)) (gr_operationId (tc_request cmd)))
    (gs_wire (run_gateway pf ops)))"
proof -
  have "wire_keys y = map (\<lambda>(k, cmd). colon_key (sl_ownerUserId (tc_route cmd)) (gr_operationId (tc_request cmd))) (gs_wire y)" for y
    by (simp add: wire_keys_def command_key_def comp_def case_prod_unfold)
  with calls_own_parts(5) [OF run_own [OF assms]] show ?thesis by metis
qed

section \<open>The fence of a target\<close>

fun call_args :: "gateway_call \<Rightarrow> (gateway_mode \<times> gateway_args) option" where
  "call_args (AwaitFirst m args) = Some (m, args)"
| "call_args (AwaitTarget m args a) = Some (m, args)"
| "call_args (AwaitWorktree m args a b) = Some (m, args)"
| "call_args (AwaitRoutes m args a b t) = Some (m, args)"
| "call_args c = map_option (\<lambda>rv. (ExecuteMode, rv_args rv)) (owned c)"

lemma advance_args: "advance pf now answer c = GNext c' \<Longrightarrow> call_args c' = call_args c"
  by (cases c) (auto simp: routing_defs split: move_splits)

lemma trail_args:
  "trail pf k c tr \<Longrightarrow> call_args c = Some (ExecuteMode, args) \<Longrightarrow>
     \<exists>t. GExecute (gq_actor args) (gq_request args) t \<in> set tr"
proof (induction rule: trail.induct)
  case (execute now actor r)
  then show ?case by auto
next
  case (reserve c tr now answer rv)
  then show ?case using advance_reserve [OF reserve.hyps(2)] by auto
next
  case (mark c tr now answer p a r)
  then show ?case using advance_mark [OF mark.hyps(2)] by auto
qed (auto dest: advance_args)

lemma reached_args:
  "reached pf k c ops \<Longrightarrow> call_args c = Some (ExecuteMode, args) \<Longrightarrow>
     \<exists>t. GExecute (gq_actor args) (gq_request args) t \<in> set ops"
proof -
  assume "reached pf k c ops" and args: "call_args c = Some (ExecuteMode, args)"
  then obtain tr where tr: "trail pf k c tr" "subseq tr ops" unfolding reached_def by blast
  with args trail_args obtain t where "GExecute (gq_actor args) (gq_request args) t \<in> set tr" by blast
  with list_emb_set [OF tr(2)] show ?thesis by blast
qed

text \<open>A move uses the store only for the owner of its call.\<close>

definition store_run :: "string \<Rightarrow> ssh_store \<Rightarrow> ssh_store \<Rightarrow> bool" where
  "store_run owner s s' \<longleftrightarrow>
     (\<exists>cs. list_all (\<lambda>x. ssh_call_typed x \<and> ssh_call_owner x = owner) cs \<and> s' = run_state ssh_step cs s)"

lemma store_run_refl [simp]: "store_run owner s s"
  unfolding store_run_def by (intro exI [of _ "[]"]) simp

lemma store_run_one: "ssh_call_typed x \<Longrightarrow> ssh_call_owner x = owner \<Longrightarrow> store_run owner s (snd (ssh_step x s))"
  unfolding store_run_def by (intro exI [of _ "[x]"]) simp

lemma store_run_trans: "store_run owner s s' \<Longrightarrow> store_run owner s' s'' \<Longrightarrow> store_run owner s s''"
proof -
  assume "store_run owner s s'" "store_run owner s' s''"
  then obtain cs ds where "list_all (\<lambda>x. ssh_call_typed x \<and> ssh_call_owner x = owner) (cs @ ds)"
    "s'' = run_state ssh_step (cs @ ds) s"
    unfolding store_run_def by (auto simp: run_state_append)
  then show ?thesis unfolding store_run_def by blast
qed

lemma complete_run: "sp_state i \<in> {SshSucceeded, SshFailed, SshIncompatible, SshUncertain} \<Longrightarrow>
  store_run (sp_ownerUserId i) s (snd (ssh_complete i s))"
  using store_run_one [of "SshComplete i" "sp_ownerUserId i" s] by simp

lemma failed_states: "failed_state d c \<in> {SshSucceeded, SshFailed, SshIncompatible, SshUncertain}"
  by (simp add: failed_state_def)

lemma fail_run: "store_run (ga_ownerUserId (gq_actor (rv_args rv))) s (snd (fail_call pf now rv d f s))"
proof -
  have "store_run (ga_ownerUserId (gq_actor (rv_args rv))) s
      (snd (ssh_complete (completion_of pf rv audit None (failed_state d c)) s))" for audit c
    using complete_run [of "completion_of pf rv audit None (failed_state d c)" s] failed_states [of d c]
    unfolding completion_key by (simp only: completion_of_def ssh_completion.select_convs)
  then show ?thesis by (simp only: fail_call_def Let_def snd_conv)
qed

lemma reserve_run: "store_run (ga_ownerUserId (gq_actor (rv_args rv))) s (snd (reserve_call pf now rv s))"
  using store_run_one [of "SshReserve (reservation_of pf now rv)" _ s]
  by (auto simp: reserve_call_def reservation_of_def split: prod.split sum.split)

lemma mark_run: "store_run (ga_ownerUserId (gq_actor (rv_args (pr_reserved p)))) s (snd (mark_call pf now p a r s))"
proof -
  obtain x s1 where m: "ssh_markDispatchAttempted now (dispatch_of pf (pr_reserved p)) s = (x, s1)" by force
  then have first: "store_run (ga_ownerUserId (gq_actor (rv_args (pr_reserved p)))) s s1"
    using store_run_one [of "SshDispatch now (dispatch_of pf (pr_reserved p))" _ s] by (simp add: dispatch_of_def)
  then show ?thesis
    using m store_run_trans [OF first fail_run] by (cases x) (simp_all add: mark_call_def)
qed

lemma complete_call_run:
  "store_run (ga_ownerUserId (gq_actor (rv_args (pr_reserved p)))) s (snd (complete_call pf now p a res s))"
proof -
  let ?i = "completion_of pf (pr_reserved p) (args_audit now (rv_args (pr_reserved p)) a (rv_selected (pr_reserved p)) OutcomeSucceeded)
    (Some res) SshSucceeded"
  obtain x s1 where m: "ssh_complete ?i s = (x, s1)" by force
  then have first: "store_run (ga_ownerUserId (gq_actor (rv_args (pr_reserved p)))) s s1"
    using complete_run [of ?i s] by (simp, simp add: completion_of_def)
  then show ?thesis
    using m store_run_trans [OF first fail_run] by (cases x) (simp_all add: complete_call_def Let_def)
qed

lemma perform_run:
  assumes "perform pf now c (advance pf now answer c) s = (c', s')"
  shows "s' = s \<or> (\<exists>args. call_args c = Some (ExecuteMode, args) \<and> store_run (ga_ownerUserId (gq_actor args)) s s')"
proof (cases "advance pf now answer c")
  case (GReserve rv)
  with assms have "store_run (ga_ownerUserId (gq_actor (rv_args rv))) s s'"
    using reserve_run [of rv s pf now] by simp
  moreover have "call_args c = Some (ExecuteMode, rv_args rv)" using advance_reserve [OF GReserve] by auto
  ultimately show ?thesis by blast
next
  case (GFail rv d f)
  with assms have "store_run (ga_ownerUserId (gq_actor (rv_args rv))) s s'"
    using fail_run [of rv s pf now d f] by simp
  moreover have "call_args c = Some (ExecuteMode, rv_args rv)" using move_fail [OF GFail] by (cases c) auto
  ultimately show ?thesis by blast
next
  case (GMark p a r)
  with assms have "store_run (ga_ownerUserId (gq_actor (rv_args (pr_reserved p)))) s s'"
    using mark_run [of p s pf now a r] by simp
  moreover have "call_args c = Some (ExecuteMode, rv_args (pr_reserved p))" using advance_mark [OF GMark] by auto
  ultimately show ?thesis by blast
next
  case (GComplete p a r res)
  with assms have "store_run (ga_ownerUserId (gq_actor (rv_args (pr_reserved p)))) s s'"
    using complete_call_run [of p s pf now a res] by simp
  moreover have "call_args c = Some (ExecuteMode, rv_args (pr_reserved p))" using move_complete [OF GComplete] by auto
  ultimately show ?thesis by blast
qed (use assms in auto)

lemma store_run_inv: "store_run owner s s' \<Longrightarrow> CHR '':'' \<notin> set owner \<Longrightarrow> ssh_inv s \<Longrightarrow> ssh_inv s'"
proof -
  assume run: "store_run owner s s'" and owner: "CHR '':'' \<notin> set owner" and inv: "ssh_inv s"
  from run obtain cs where cs: "list_all (\<lambda>x. ssh_call_typed x \<and> ssh_call_owner x = owner) cs" "s' = run_state ssh_step cs s"
    unfolding store_run_def by blast
  from cs(1) have "list_all ssh_call_ok cs"
    by (rule list.pred_mono_strong) (use owner in \<open>simp add: ssh_call_ok_def\<close>)
  with cs(2) inv show ?thesis using ssh.guarded_run_inv by blast
qed

lemma run_ssh_inv: "list_all (gateway_op_ok True) ops \<Longrightarrow> ssh_inv (gs_store (run_gateway pf ops))"
proof (induction ops rule: rev_induct)
  case Nil
  then show ?case by (simp add: empty_gateway_def ssh_inv_empty)
next
  case (snoc op ops)
  let ?y = "run_gateway pf ops"
  have inv: "ssh_inv (gs_store ?y)" using snoc by simp
  show ?case
  proof (cases op)
    case (GAnswer k now answer)
    show ?thesis
    proof (cases "js_get (gs_calls ?y) k")
      case None
      with GAnswer inv show ?thesis by (simp add: run_snoc resume_call_def)
    next
      case (Some c)
      obtain c' s' where p: "perform pf now c (advance pf now answer c) (gs_store ?y) = (c', s')" by force
      from perform_run [OF p] have "ssh_inv s'"
      proof (elim disjE exE conjE)
        fix args
        assume args: "call_args c = Some (ExecuteMode, args)" "store_run (ga_ownerUserId (gq_actor args)) (gs_store ?y) s'"
        then have "\<not> answered c" by (cases c) auto
        then have "reached pf k c ops"
          using run_has_trails [of pf ops] Some unfolding has_trails_def by blast
        then obtain t where "GExecute (gq_actor args) (gq_request args) t \<in> set ops"
          using reached_args args(1) by blast
        with snoc.prems have "CHR '':'' \<notin> set (ga_ownerUserId (gq_actor args))"
          by (force simp: list_all_iff)
        with args(2) inv show ?thesis using store_run_inv by blast
      qed (use inv in simp)
      with GAnswer Some p show ?thesis by (simp add: run_snoc resume_call_def)
    qed
  next
    case (GSend k now)
    have "gs_store (send_command k now ?y) = gs_store ?y"
      by (auto simp: send_command_def split: option.split gateway_call.split)
    with GSend inv show ?thesis by (simp add: run_snoc)
  qed (use inv snoc.prems in \<open>simp_all add: run_snoc start_call_def\<close>)
qed

lemma in_flight_unique:
  assumes "list_all (gateway_op_ok True) ops"
    and "js_get (gs_calls (run_gateway pf ops)) k = Some c" and "in_flight c" and "owned c = Some rv"
    and "js_get (gs_calls (run_gateway pf ops)) l = Some d" and "in_flight d" and "owned d = Some rw"
    and "ga_ownerUserId (gq_actor (rv_args rv)) = ga_ownerUserId (gq_actor (rv_args rw))"
    and "gr_environmentId (gq_request (rv_args rv)) = gr_environmentId (gq_request (rv_args rw))"
  shows "k = l"
proof -
  let ?y = "run_gateway pf ops" and ?owner = "ga_ownerUserId (gq_actor (rv_args rv))"
  let ?target = "gr_environmentId (gq_request (rv_args rv))"
  note own = run_own [OF assms(1), of pf]
  have records: "js_get (ss_records (gs_store ?y)) (call_key rv) = Some (open_record pf rv SshDispatching)"
    "js_get (ss_records (gs_store ?y)) (call_key rw) = Some (open_record pf rw SshDispatching)"
    using calls_own_parts(2) [OF own assms(2,4)] calls_own_parts(2) [OF own assms(5,7)] assms(3,6)
    by (simp_all add: owns_record_def)
  have "\<not> answered c" using assms(3) by (cases c) auto
  then have "reached pf k c ops"
    using run_has_trails [of pf ops] assms(2) unfolding has_trails_def by blast
  moreover have "call_args c = Some (ExecuteMode, rv_args rv)" using assms(3,4) by (cases c) auto
  ultimately obtain t where "GExecute (gq_actor (rv_args rv)) (gq_request (rv_args rv)) t \<in> set ops"
    using reached_args by blast
  with assms(1) have colon: "CHR '':'' \<notin> set ?owner" by (force simp: list_all_iff)
  have "fence_of (gs_store ?y) ?owner ?target (call_key rv)" "fence_of (gs_store ?y) ?owner ?target (call_key rw)"
    using records assms(8,9)
    by (auto simp: fence_of_def call_key_def open_record_def ssh_open_def args_audit_def auditEvidence_def)
  then have "call_key rv = call_key rw"
    using run_ssh_inv [OF assms(1), of pf] colon unfolding ssh_inv_def by (metis option.inject)
  with calls_own_parts(3) [OF own assms(2,5,4,7)] show ?thesis by blast
qed

text \<open>A call that executes on an environment of an owner.\<close>

definition in_flight_on :: "string \<Rightarrow> string \<Rightarrow> gateway_call \<Rightarrow> bool" where
  "in_flight_on owner environment c \<longleftrightarrow> in_flight c \<and>
     (case owned c of
        None \<Rightarrow> False
      | Some rv \<Rightarrow> ga_ownerUserId (gq_actor (rv_args rv)) = owner \<and> gr_environmentId (gq_request (rv_args rv)) = environment)"

lemma run_calls_wf: "js_wf (gs_calls (run_gateway pf ops))"
proof (induction ops rule: rev_induct)
  case (snoc op ops)
  then show ?case
    by (cases op) (auto simp: run_snoc start_call_def resume_call_def send_command_def
        split: option.split prod.split gateway_call.split)
qed (simp add: empty_gateway_def)

text \<open>C11: When no operation is reconciled from outside and owners have no colon in their identifiers, at most
  one call at a time is between the dispatch of a command to an environment and its outcome.\<close>

theorem gateway_one_execution_per_target:
  assumes "list_all (gateway_op_ok True) ops"
  shows "length (filter (in_flight_on owner environment) (js_values (gs_calls (run_gateway pf ops)))) \<le> 1"
proof (rule at_most_one_value [OF run_calls_wf])
  fix k l c d
  assume calls: "js_get (gs_calls (run_gateway pf ops)) k = Some c" "js_get (gs_calls (run_gateway pf ops)) l = Some d"
    and "in_flight_on owner environment c" "in_flight_on owner environment d"
  then obtain rv rw where "in_flight c" "owned c = Some rv" "in_flight d" "owned d = Some rw"
    "ga_ownerUserId (gq_actor (rv_args rv)) = ga_ownerUserId (gq_actor (rv_args rw))"
    "gr_environmentId (gq_request (rv_args rv)) = gr_environmentId (gq_request (rv_args rw))"
    by (auto simp: in_flight_on_def split: option.splits)
  then show "k = l" using in_flight_unique [OF assms calls(1)] calls(2) by blast
qed

section \<open>The outcome of an execution\<close>

lemma response_ids:
  "validateControlResponse pf out r revision startedAt now = Some res \<Longrightarrow>
     sr_operationId res = gr_operationId r \<and> sr_targetIdentityRevision res = revision"
  by (auto simp: validateControlResponse_def validateStatusResponse_def validateWorktreePrepareResponse_def
      validateWorkspaceRuntimeResponse_def response_result_def bind_eq_Some_conv split: if_splits)

lemma run_outcome_ids:
  "run_outcome pf now r revision startedAt x = Inr res \<Longrightarrow>
     sr_operationId res = gr_operationId r \<and> sr_targetIdentityRevision res = revision"
  by (auto simp: run_outcome_def dest: response_ids split: sum.splits option.splits)

text \<open>\<open>complete\<close> on the record of a call in flight.\<close>

lemma complete_open:
  assumes "js_get (ss_records s) (call_key rv) = Some (open_record pf rv SshDispatching)"
    and "assertResultBinding (open_record pf rv SshDispatching) res st = None"
  shows "ssh_complete (completion_of pf rv audit res st) s =
    (Inr (completed_record (open_record pf rv SshDispatching) (completion_of pf rv audit res st)),
     write_completed (call_key rv) (completion_of pf rv audit res st) (st \<noteq> SshUncertain)
       (completed_record (open_record pf rv SshDispatching) (completion_of pf rv audit res st)) s)"
proof -
  have "sc_state (open_record pf rv SshDispatching) = SshDispatching"
    "sc_fingerprint (open_record pf rv SshDispatching) = args_fingerprint pf (rv_args rv) (rv_first rv)"
    by (simp_all add: open_record_def)
  with assms show ?thesis
    by (simp add: ssh_complete_def Let_def)
qed

lemma no_result_bound: "st \<noteq> SshSucceeded \<Longrightarrow> assertResultBinding q None st = None"
  by (simp add: assertResultBinding_def)

text \<open>The state that an outcome of the transport leaves, and what the caller gets.\<close>

fun outcome_state :: "gateway_failure + ssh_result \<Rightarrow> ssh_state" where
  "outcome_state (Inr res) = SshSucceeded"
| "outcome_state (Inl f) =
     (case normalizeError f of
        CliIncompatible \<Rightarrow> SshIncompatible | Timeout \<Rightarrow> SshUncertain | RemoteFailed \<Rightarrow> SshUncertain | _ \<Rightarrow> SshFailed)"

fun outcome_answer :: "gateway_failure + ssh_result \<Rightarrow> gateway_code + ssh_result" where
  "outcome_answer (Inr res) = Inr res"
| "outcome_answer (Inl f) = Inl (normalizeError f)"

fun call_answer :: "gateway_call \<Rightarrow> (gateway_code + ssh_result) option" where
  "call_answer (GatewayAnswered (Inl (GatewayFailure c))) = Some (Inl c)"
| "call_answer (GatewayAnswered (Inr (Some x))) = (if xr_replayed x then None else Some (Inr (xr_result x)))"
| "call_answer _ = None"

lemma outcome_failed: "outcome_state (Inl f) = failed_state True (normalizeError f)"
  by (cases "normalizeError f") (simp_all add: failed_state_def)

text \<open>C12: When nothing is reconciled from outside, every outcome of an execution is recorded and told to the
  caller: a valid response leaves the operation succeeded with that result, an invalid one incompatible, a
  timeout or a failure on the way uncertain, and a refusal of the transport failed.\<close>

theorem gateway_outcome_recorded:
  fixes x :: "gateway_failure + transport_result" and now :: int
  assumes "list_all (gateway_op_ok True) ops"
    and "js_get (gs_calls (run_gateway pf ops)) k = Some (AwaitRun p a r t)"
  defines "y \<equiv> run_gateway pf (ops @ [GAnswer k now (ATransport x)])"
    and "request \<equiv> gq_request (rv_args (pr_reserved p))"
  defines "outcome \<equiv> run_outcome pf now request (sl_targetIdentityRevision r) t x"
  shows "\<exists>q c. js_get (ss_records (gs_store y))
      (colon_key (ga_ownerUserId (gq_actor (rv_args (pr_reserved p)))) (gr_operationId request)) = Some q \<and>
    sc_state q = outcome_state outcome \<and> sc_result q = (case outcome of Inl f \<Rightarrow> None | Inr res \<Rightarrow> Some res) \<and>
    js_get (gs_calls y) k = Some c \<and> call_answer c = Some (outcome_answer outcome)"
proof -
  let ?z = "run_gateway pf ops" and ?rv = "pr_reserved p"
  have stored: "js_get (ss_records (gs_store ?z)) (call_key ?rv) = Some (open_record pf ?rv SshDispatching)"
    using calls_own_parts(2) [OF run_own [OF assms(1)] assms(2), of ?rv] by (simp add: owns_record_def)
  have "reached pf k (AwaitRun p a r t) ops"
    using run_has_trails [of pf ops] assms(2) unfolding has_trails_def by fastforce
  then obtain tr where "trail pf k (AwaitRun p a r t) tr" "subseq tr ops" unfolding reached_def by blast
  then obtain tr' where "trail pf k (Dispatched p a r) tr'" "subseq (tr' @ [GSend k t]) ops"
    by (elim trail_runE) (auto simp: advance_never)
  moreover from this(2) have "subseq tr' ops"
    using subseq_order.order_trans subseq_add [OF subseq_order.order_refl] by blast
  ultimately have "trail pf k (Dispatched p a r) tr'" "subseq tr' ops" by blast+
  then have "command_checked pf ops k p a" "r = pr_route p"
    using dispatched_checked unfolding reached_def by blast+
  then have revision: "sl_targetIdentityRevision r = az_identityRevision (rv_first ?rv)"
    using checked_route [of pf ops k p a] unfolding command_checked_def first_round_def by metis
  have key: "call_key ?rv = colon_key (ga_ownerUserId (gq_actor (rv_args ?rv))) (gr_operationId request)"
    by (simp add: call_key_def request_def)
  show ?thesis
  proof (cases outcome)
    case (Inl f)
    have resumed: "resume_call pf k now (ATransport x) ?z = ?z\<lparr>gs_calls := js_set (gs_calls ?z) k (fst (fail_call pf now ?rv True f (gs_store ?z))),
        gs_store := snd (fail_call pf now ?rv True f (gs_store ?z))\<rparr>"
      using assms(2) Inl by (simp add: resume_call_def outcome_def request_def split: prod.split)
    have "js_get (ss_records (snd (fail_call pf now ?rv True f (gs_store ?z)))) (call_key ?rv) =
        Some (completed_record (open_record pf ?rv SshDispatching)
          (completion_of pf ?rv (args_audit now (rv_args ?rv) (rv_first ?rv) (rv_selected ?rv)
             (if failed_state True (normalizeError f) = SshUncertain then OutcomeUncertain else OutcomeFailed))
             None (failed_state True (normalizeError f))))"
      by (simp add: fail_call_def Let_def complete_open [OF stored] no_result_bound write_completed_def)
    then show ?thesis
      unfolding y_def run_snoc key [symmetric] Inl outcome_failed
      by (simp add: resumed completed_record_def open_record_def) (simp add: fail_call_def Let_def)
  next
    case (Inr res)
    let ?audit = "args_audit now (rv_args ?rv) a (rv_selected ?rv) OutcomeSucceeded"
    have "assertResultBinding (open_record pf ?rv SshDispatching) (Some res) SshSucceeded = None"
      using run_outcome_ids [of pf now request "sl_targetIdentityRevision r" t x res] Inr revision
      by (simp add: assertResultBinding_def open_record_def args_audit_def auditEvidence_def outcome_def request_def)
    note complete = complete_open [OF stored this, of ?audit]
    have resumed: "resume_call pf k now (ATransport x) ?z = ?z\<lparr>
        gs_calls := js_set (gs_calls ?z) k (GatewayAnswered (Inr (Some \<lparr>xr_audit = ?audit, xr_replayed = False, xr_result = res\<rparr>))),
        gs_store := write_completed (call_key ?rv) (completion_of pf ?rv ?audit (Some res) SshSucceeded) True
          (completed_record (open_record pf ?rv SshDispatching) (completion_of pf ?rv ?audit (Some res) SshSucceeded)) (gs_store ?z)\<rparr>"
      using assms(2) Inr by (simp add: resume_call_def outcome_def request_def complete_call_def Let_def complete)
    show ?thesis
      unfolding y_def run_snoc key [symmetric] Inr
      by (simp add: resumed write_completed_def completed_record_def)
  qed
qed

end
