(* ===== verification/SshServiceRun.thy ===== *)
theory SshServiceRun
  imports SshServiceOnce
begin

text \<open>
  A concrete run of the SSH gateway, from the request to the command on the wire and to a timeout, and the
  concrete inputs of the gateway's theorems.
\<close>

section \<open>The collaborators\<close>

definition gate_environment :: compute_environment where
  "gate_environment = \<lparr>ce_environmentDefinitionId = ''d1'', ce_hostAssociation = UnresolvedHost, ce_id = example_target,
     ce_identity = \<lparr>dk_key = ''abcdefgh'', dk_version = 1\<rparr>, ce_identityConflict = False, ce_kind = Docker,
     ce_name = ''Box'', ce_ownerUserId = None, ce_parentEnvironmentId = None, ce_platformId = ''p'',
     ce_resourceMode = Shared, ce_resources = None\<rparr>"

definition gate_snapshot :: compute_snapshot where
  "gate_snapshot = (\<lparr>in_connectors = [],
     in_environmentDefinitions = [definition_blueprint.extend (builtInEnvironmentDefinition Docker) (environment_definition.fields ''d1'' None)],
     in_environments = [gate_environment], in_hosts = [],
     in_platforms = [\<lparr>pl_id = ''p'', pl_kind = LocalPlatform, pl_name = ''Local''\<rparr>]\<rparr>, [])"

definition gate_binding :: ssh_target_binding where
  "gate_binding = \<lparr>tb_environmentDefinitionId = ''d1'', tb_environmentId = example_target, tb_hostId = None,
     tb_platformId = ''p'', tb_targetIdentityRevision = ''1:abcdefgh''\<rparr>"

definition gate_target :: route_target where
  "gate_target = \<lparr>at_id = example_target, at_kind = EnvironmentTarget\<rparr>"

definition gate_authorization :: route_authorization where
  "gate_authorization = \<lparr>az_allowed = True, az_capability = ProjectCli, az_expiresAt = ''1970-01-01T01:00:00.000Z'',
     az_gatewayId = ''g'', az_ownerUserId = ''u'', az_risk = NormalRisk, az_target = gate_target,
     az_identityRevision = ''1:abcdefgh''\<rparr>"

definition gate_network :: private_network where
  "gate_network = \<lparr>nw_approvalState = NetworkApproved, nw_availability = NetworkAvailable, nw_credentialReference = None,
     nw_enabled = True, nw_id = ''n'', nw_lastVerifiedAt = Some ''1970-01-01T00:00:00.000Z'', nw_name = ''Net'',
     nw_ownerUserId = ''u'', nw_providerKind = Tailscale, nw_providerReference = ''t'',
     nw_verifiedUntil = Some ''1970-01-01T01:00:00.000Z''\<rparr>"

definition gate_key :: string where
  "gate_key = ''SHA256:'' @ replicate 43 (CHR ''A'')"

definition gate_access :: access_route where
  "gate_access = \<lparr>ar_allowedGatewayIds = [''g''], ar_availability = NetworkAvailable, ar_capabilities = [ProjectCli],
     ar_credentialReference = Some ''env://KEY'', ar_credentialPurpose = Some project_purpose, ar_enabled = True,
     ar_freshnessSeconds = 3600, ar_hostKeySha256 = Some gate_key, ar_id = example_target,
     ar_lastVerifiedAt = Some ''1970-01-01T00:00:00.000Z'', ar_ownerUserId = ''u'', ar_policyState = PolicyApproved,
     ar_priority = 1, ar_privateAddress = Some ''100.64.0.1'', ar_privateNetworkId = Some ''n'',
     ar_providerKind = Some Tailscale, ar_requiresInteractiveApproval = False, ar_routeKind = SshPrivateNetwork,
     ar_sshPort = Some 22, ar_sshUser = Some ''dev'', ar_target = gate_target, ar_targetIdentityRevision = ''1:abcdefgh'',
     ar_verifiedUntil = Some ''1970-01-01T01:00:00.000Z''\<rparr>"

definition gate_inventory :: network_inventory where
  "gate_inventory = \<lparr>ni_networks = [gate_network], ni_routes = [gate_access]\<rparr>"

definition gate_route :: route_selection where
  "gate_route = selection gate_access"

definition gate_handshake_object :: jsval where
  "gate_handshake_object = VObj [(''type'', VStr ''handshake''), (''schemaVersion'', VNum (Finite 1)),
     (''protocolVersion'', VNum (Finite 1)), (''cliVersion'', VStr ''1.2.3''), (''operations'', VArr [VStr ''status.v1''])]"

definition gate_platform :: platform where
  "gate_platform = \<lparr>pf_collate = (\<lambda>a b. 0), pf_sha = (\<lambda>s. replicate 64 (CHR ''0'')),
     pf_json = (\<lambda>s. if s = ''H'' then Some gate_handshake_object else None), pf_url = (\<lambda>s. None)\<rparr>"

definition gate_actor :: gateway_actor where
  "gate_actor = \<lparr>ga_id = ''m'', ga_kind = GatewayMachine, ga_ownerUserId = ''u''\<rparr>"

definition gate_request :: gateway_request where
  "gate_request = empty_request example_target ''status.v1'' ''op''"

definition gate_args :: gateway_args where
  "gate_args = \<lparr>gq_actor = gate_actor, gq_request = gate_request\<rparr>"

definition gate_credential :: ssh_credential where
  "gate_credential = \<lparr>cb_certificate = None, cb_privateKey = ''key'', cb_purpose = project_purpose\<rparr>"

definition gate_host :: verified_host where
  "gate_host = \<lparr>vh_address = ''100.64.0.1'', vh_knownHostEntry = ''entry''\<rparr>"

definition gate_output :: "string \<Rightarrow> bool \<Rightarrow> transport_result" where
  "gate_output out late = \<lparr>tr_exitCode = Some 0, tr_stderr = [], tr_stdout = out, tr_timedOut = late\<rparr>"

definition gate_reserved :: reserved_call where
  "gate_reserved = \<lparr>rv_args = gate_args, rv_first = gate_authorization, rv_target = gate_binding, rv_selected = gate_route\<rparr>"

definition gate_prepared :: prepared_call where
  "gate_prepared = \<lparr>pr_reserved = gate_reserved, pr_second = gate_authorization, pr_route = gate_route, pr_host = gate_host,
     pr_credential = gate_credential, pr_handshake = \<lparr>hs_cliVersion = ''1.2.3''\<rparr>\<rparr>"

section \<open>Their answers\<close>

lemma gate_check_0 [simp]: "validateRequest (pf_url gate_platform) 1000 gate_actor gate_request"
  by code_simp

lemma gate_check_1 [simp]: "binding_holds 1000 gate_args gate_authorization 0"
  by code_simp

lemma gate_check_2 [simp]: "binding_holds 1000 gate_args gate_authorization 5000"
  by code_simp

lemma gate_check_3 [simp]: "binding_holds 1000 gate_args gate_authorization 1000"
  by code_simp

lemma gate_check_4 [simp]: "resolved_target gate_args (Inr gate_snapshot) = Inr gate_binding"
  by code_simp

lemma gate_check_5 [simp]: "\<not> worktree_request gate_args"
  by code_simp

lemma gate_check_6 [simp]: "authorizationIsCurrent gate_authorization 1000"
  by code_simp

lemma gate_check_7 [simp]: "assertAuthorizationStable gate_authorization gate_authorization"
  by code_simp

lemma gate_check_8 [simp]: "credential_ok gate_credential"
  by code_simp

lemma gate_check_9 [simp]: "control_route gate_route"
  by code_simp

lemma gate_output_text: "validatedTransportOutput (gate_output ''H'' False) = Inr ''H''"
  by (simp add: validatedTransportOutput_def gate_output_def utf8_length_def)

lemma gate_handshake_parts:
  "one_line ''H'' = Some ''H''" "cli_version ''1.2.3''"
  "operation_name_ok ''status.v1''"
  by code_simp+

lemma gate_check_10 [simp]: "handshake_outcome gate_platform (gr_operation gate_request) (Inr (gate_output ''H'' False)) = Inr \<lparr>hs_cliVersion = ''1.2.3''\<rparr>"
proof -
  have "pf_json gate_platform ''H'' = Some gate_handshake_object" by (simp add: gate_platform_def)
  then show ?thesis
    by (simp add: handshake_outcome_def gate_output_text gate_handshake_parts validateHandshake_def strictObject_def gate_handshake_object_def
        same_key_text_def gate_request_def empty_request_def)
qed

lemma gate_check_11 [simp]: "validateReservation (reservation_of gate_platform 1000 gate_reserved) = None"
  by code_simp

lemma gate_selected [simp]:
  "selectAuthorizedAccessRoute (pf_collate gate_platform) gate_authorization None gate_inventory 1000 = ChoiceReady gate_route"
  "explicit_choice gate_platform gate_reserved gate_authorization gate_inventory 1000 = ChoiceReady gate_route"
  by code_simp+

lemma gate_fields [simp]:
  "tb_environmentId gate_binding = gr_environmentId gate_request"
  "tb_targetIdentityRevision gate_binding = az_identityRevision gate_authorization"
  "at_id (sl_target gate_route) = gr_environmentId gate_request" "truthy (sl_credentialReference gate_route)"
  "gq_actor gate_args = gate_actor" "gq_request gate_args = gate_request"
  "rv_args gate_reserved = gate_args" "rv_first gate_reserved = gate_authorization"
  "rv_target gate_reserved = gate_binding" "rv_selected gate_reserved = gate_route"
  "pr_reserved gate_prepared = gate_reserved" "pr_second gate_prepared = gate_authorization" "pr_route gate_prepared = gate_route"
  by (simp_all add: gate_binding_def gate_request_def empty_request_def gate_authorization_def gate_route_def selection_def
      gate_access_def gate_target_def when_truthy_def gate_args_def gate_reserved_def gate_prepared_def)

section \<open>The run\<close>

definition gate_round :: "gateway_op list" where
  "gate_round = [GAnswer 0 1000 (AAuthorize (Inr gate_authorization)), GAnswer 0 1000 (ASnapshot (Inr gate_snapshot)),
     GAnswer 0 1000 (ARoutes (Inr gate_inventory))]"

definition gate_connect :: "gateway_op list" where
  "gate_connect = [GAnswer 0 1000 (AHost (Inr gate_host)), GAnswer 0 1000 (ACredential (Inr gate_credential)),
      GAnswer 0 1000 (ATransport (Inr (gate_output ''H'' False)))]"

definition gate_ops :: "gateway_op list" where
  "gate_ops = GExecute gate_actor gate_request 1000 # gate_round @ gate_round @
     gate_connect @ gate_round @ [GSend 0 1000]"

lemma gate_reserved_call: "\<lparr>rv_args = gate_args, rv_first = gate_authorization, rv_target = gate_binding, rv_selected = gate_route\<rparr> = gate_reserved"
  by (simp add: gate_reserved_def)

lemma gate_prepared_call: "\<lparr>pr_reserved = gate_reserved, pr_second = gate_authorization, pr_route = gate_route, pr_host = gate_host,
     pr_credential = gate_credential, pr_handshake = \<lparr>hs_cliVersion = ''1.2.3''\<rparr>\<rparr> = gate_prepared"
  by (simp add: gate_prepared_def)

lemma gate_args_call: "\<lparr>gq_actor = gate_actor, gq_request = gate_request\<rparr> = gate_args"
  by (simp add: gate_args_def)

definition gate_stored :: "ssh_state \<Rightarrow> ssh_store" where
  "gate_stored st = \<lparr>ss_records = [(call_key gate_reserved, open_record gate_platform gate_reserved st)],
     ss_activeTargets = [(colon_key ''u'' example_target, call_key gate_reserved)],
     ss_dispatchLeases = (if st = SshDispatching then [(call_key gate_reserved, 61000)] else [])\<rparr>"

lemma gate_reserve: "reserve_call gate_platform 1000 gate_reserved empty_ssh_store = (AwaitSecond gate_reserved, gate_stored SshReserved)"
proof -
  have key: "colon_key (sv_ownerUserId (reservation_of gate_platform 1000 gate_reserved))
      (sv_operationId (reservation_of gate_platform 1000 gate_reserved)) = call_key gate_reserved"
    "colon_key (sv_ownerUserId (reservation_of gate_platform 1000 gate_reserved))
      (sv_targetEnvironmentId (reservation_of gate_platform 1000 gate_reserved)) = colon_key ''u'' example_target"
    by (simp_all add: reservation_of_def call_key_def gate_actor_def gate_request_def empty_request_def)
  show ?thesis
    by (simp add: reserve_call_def ssh_reserve_def key Let_def empty_ssh_store_def gate_stored_def js_set_def)
      (simp add: reservation_of_def open_record_def audit_accepted [of 1000])
qed

lemma gate_mark: "mark_call gate_platform 1000 gate_prepared gate_authorization gate_route (gate_stored SshReserved) =
  (Dispatched gate_prepared gate_authorization gate_route, gate_stored SshDispatching)"
proof -
  have "colon_key (sd_ownerUserId (dispatch_of gate_platform gate_reserved)) (sd_operationId (dispatch_of gate_platform gate_reserved)) =
      call_key gate_reserved"
    "sd_fingerprint (dispatch_of gate_platform gate_reserved) = args_fingerprint gate_platform gate_args gate_authorization"
    by (simp_all add: dispatch_of_def call_key_def)
  then show ?thesis
    by (simp add: mark_call_def ssh_markDispatchAttempted_def gate_stored_def Let_def open_record_def js_set_def)
qed

definition gate_at :: "gateway_call \<Rightarrow> ssh_store \<Rightarrow> gateway_system" where
  "gate_at c s = \<lparr>gs_store = s, gs_calls = [(0, c)], gs_next = 1, gs_wire = []\<rparr>"

lemma gate_resume:
  "perform gate_platform 1000 c (advance gate_platform 1000 answer c) s = (c', s') \<Longrightarrow>
     resume_call gate_platform 0 1000 answer (gate_at c s) = gate_at c' s'"
  by (simp add: resume_call_def gate_at_def js_set_def)

lemma gate_start: "start_call True ExecuteMode gate_args empty_gateway = gate_at (AwaitFirst ExecuteMode gate_args) empty_ssh_store"
  by (simp add: start_call_def gate_at_def empty_gateway_def js_set_def)

lemma gate_first_round:
  "run_state (gateway_step gate_platform) gate_round (gate_at (AwaitFirst ExecuteMode gate_args) empty_ssh_store) =
     gate_at (AwaitSecond gate_reserved) (gate_stored SshReserved)"
  by (simp add: gate_round_def gate_resume [where c' = "AwaitTarget ExecuteMode gate_args gate_authorization" and s' = empty_ssh_store]
      gate_resume [where c' = "AwaitRoutes ExecuteMode gate_args gate_authorization gate_binding 1000" and s' = empty_ssh_store]
      gate_resume [where c' = "AwaitSecond gate_reserved" and s' = "gate_stored SshReserved"]
      enter_routes_def after_choice_def gate_reserved_call gate_reserve)

lemma gate_second_round:
  "run_state (gateway_step gate_platform) gate_round (gate_at (AwaitSecond gate_reserved) s) =
     gate_at (AwaitHost gate_reserved gate_authorization gate_route) s"
  by (simp add: gate_round_def gate_resume [where c' = "AwaitSecondTarget gate_reserved gate_authorization" and s' = s]
      gate_resume [where c' = "AwaitSecondRoutes gate_reserved gate_authorization 1000" and s' = s]
      gate_resume [where c' = "AwaitHost gate_reserved gate_authorization gate_route" and s' = s]
      after_second_def sameTargetBinding_eq)

lemma gate_final_round:
  "run_state (gateway_step gate_platform) gate_round (gate_at (AwaitFinal gate_prepared) (gate_stored SshReserved)) =
     gate_at (Dispatched gate_prepared gate_authorization gate_route) (gate_stored SshDispatching)"
  by (simp add: gate_round_def gate_resume [where c' = "AwaitFinalTarget gate_prepared gate_authorization" and s' = "gate_stored SshReserved"]
      gate_resume [where c' = "AwaitFinalRoutes gate_prepared gate_authorization 1000" and s' = "gate_stored SshReserved"]
      gate_resume [where c' = "Dispatched gate_prepared gate_authorization gate_route" and s' = "gate_stored SshDispatching"]
      enter_final_routes_def after_final_def sameRouteBinding_def sameTargetBinding_eq gate_mark)

lemma gate_handshake_steps:
  "run_state (gateway_step gate_platform) gate_connect
     (gate_at (AwaitHost gate_reserved gate_authorization gate_route) s) = gate_at (AwaitFinal gate_prepared) s"
  by (simp add: gate_connect_def gate_resume [where c' = "AwaitCredential gate_reserved gate_authorization gate_route gate_host" and s' = s]
      gate_resume [where c' = "AwaitHandshake gate_reserved gate_authorization gate_route gate_host gate_credential" and s' = s]
      gate_resume [where c' = "AwaitFinal gate_prepared" and s' = s] gate_prepared_call)

lemma gate_run:
  "run_gateway gate_platform gate_ops =
     \<lparr>gs_store = gate_stored SshDispatching, gs_calls = [(0, AwaitRun gate_prepared gate_authorization gate_route 1000)],
      gs_next = 1, gs_wire = [(0, command_of gate_prepared gate_route)]\<rparr>"
  by (simp only: gate_ops_def run_state_simps run_state_append gateway_step.simps snd_conv gate_check_0 gate_args_call gate_start
      gate_first_round gate_second_round gate_handshake_steps gate_final_round append_Cons append_Nil)
    (simp add: send_command_def gate_at_def js_set_def)

section \<open>The theorems on it\<close>

lemma gate_ops_ok: "list_all (gateway_op_ok strict) gate_ops"
  by (simp add: gate_ops_def gate_round_def gate_connect_def gate_actor_def)

definition gate_spare :: access_route where
  "gate_spare = gate_access\<lparr>ar_id := ''r2'', ar_priority := 0\<rparr>"

lemma gate_routes_ready:
  "filter (\<lambda>q. ar_ownerUserId q = az_ownerUserId gate_authorization \<and> ar_target q = az_target gate_authorization \<and>
     routeEligibility gate_authorization (route_network [gate_network] q) 1000 q = RouteReady) [gate_spare, gate_access] =
   [gate_spare, gate_access]"
  by code_simp


theorem http_requests_exact_witness:
  "\<exists>body. route_request StatusRoute body = Some gate_request"
proof -
  have "ga_id gate_actor \<noteq> []" "ga_ownerUserId gate_actor \<noteq> []" by (simp_all add: gate_actor_def)
  moreover have "plain_request gate_request \<and> StatusRoute = operation_route (gr_operation gate_request)"
    by (simp add: gate_request_def empty_request_checks)
  ultimately show ?thesis
    using http_requests_exact [of gate_actor StatusRoute gate_request "pf_url gate_platform" 1000] by simp
qed

theorem gateway_commands_checked_witness:
  "\<exists>p a. command_of gate_prepared gate_route = command_of p (pr_route p) \<and> command_checked gate_platform gate_ops 0 p a"
  using gateway_commands_checked [of 0 "command_of gate_prepared gate_route" gate_platform gate_ops]
  by (auto simp: gate_run)

theorem gateway_executes_once_witness:
  "distinct (map (\<lambda>(k, cmd). colon_key (sl_ownerUserId (tc_route cmd)) (gr_operationId (tc_request cmd)))
     (gs_wire (run_gateway gate_platform gate_ops))) \<and> length (gs_wire (run_gateway gate_platform gate_ops)) = 1"
  using gateway_executes_once [OF gate_ops_ok] by (simp add: gate_run)

theorem gateway_one_execution_per_target_witness:
  "length (filter (in_flight_on ''u'' example_target) (js_values (gs_calls (run_gateway gate_platform gate_ops)))) = 1"
proof -
  have "in_flight_on ''u'' example_target (AwaitRun gate_prepared gate_authorization gate_route 1000)"
    by (simp add: in_flight_on_def gate_actor_def gate_request_def empty_request_def)
  then have "0 < length (filter (in_flight_on ''u'' example_target) (js_values (gs_calls (run_gateway gate_platform gate_ops))))"
    by (simp add: gate_run js_values_def)
  with gateway_one_execution_per_target [OF gate_ops_ok, of "''u''" example_target gate_platform] show ?thesis by linarith
qed

theorem gateway_outcome_recorded_witness:
  "\<exists>q c. js_get (ss_records (gs_store (run_gateway gate_platform
        (gate_ops @ [GAnswer 0 2000 (ATransport (Inr (gate_output [] True)))])))) (colon_key ''u'' ''op'') = Some q \<and>
    sc_state q = SshUncertain \<and> sc_result q = None \<and>
    js_get (gs_calls (run_gateway gate_platform
        (gate_ops @ [GAnswer 0 2000 (ATransport (Inr (gate_output [] True)))]))) 0 = Some c \<and>
    call_answer c = Some (Inl Timeout)"
proof -
  have call: "js_get (gs_calls (run_gateway gate_platform gate_ops)) 0 =
      Some (AwaitRun gate_prepared gate_authorization gate_route 1000)"
    by (simp add: gate_run)
  have "run_outcome gate_platform 2000 r revision t (Inr (gate_output [] True)) = Inl (GatewayFailure Timeout)" for r revision t
    by (simp add: run_outcome_def validatedTransportOutput_def gate_output_def)
  moreover have "ga_ownerUserId gate_actor = ''u''" "gr_operationId gate_request = ''op''"
    by (simp_all add: gate_actor_def gate_request_def empty_request_def)
  ultimately show ?thesis
    using gateway_outcome_recorded [OF gate_ops_ok call, of 2000 "Inr (gate_output [] True)"]
    by (simp add: normalizeError_def)
qed

end
