(* ===== verification/MachineConnection.thy ===== *)
theory MachineConnection
  imports Contracts JS_Date
begin

text \<open>
  Machine connection: the records of \<open>server/machine-connection-contract.ts\<close> and the in-memory store of
  \<open>machine-connection-memory-store.ts\<close>. A connection request is created, decided and consumed; consuming
  an approved request enrols a machine identity, or gives the identity of the same public key a new
  credential.
\<close>

section \<open>Records\<close>

datatype machine_os = Darwin | Linux | Windows

datatype machine_arch = Amd64 | Arm64

text \<open>The one connector profile there is: channel \<open>dev\<close>, source \<open>source\<close>.\<close>

datatype connector_profile = DevSourceProfile

datatype profile_error = ConnectorProfileInvalid | ProfileCannotChange

text \<open>\<open>channel ?? null\<close> and \<open>source ?? null\<close>, for strings, \<open>null\<close> or \<open>undefined\<close> as \<open>None\<close>.\<close>

definition machineConnectorProfile ::
    "string option \<Rightarrow> string option \<Rightarrow> profile_error + connector_profile option" where
  "machineConnectorProfile channel source =
     (if channel = None \<and> source = None then Inr None
      else if channel = Some ''dev'' \<and> source = Some ''source'' then Inr (Some DevSourceProfile)
      else Inl ConnectorProfileInvalid)"

definition sameMachineConnectorProfile ::
    "connector_profile option \<Rightarrow> connector_profile option \<Rightarrow> bool" where
  "sameMachineConnectorProfile l r \<longleftrightarrow> l = r"

definition assertSameMachineConnectorProfile ::
    "connector_profile option \<Rightarrow> connector_profile option \<Rightarrow> profile_error option" where
  "assertSameMachineConnectorProfile enrolled requested =
     (if \<not> sameMachineConnectorProfile enrolled requested then Some ProfileCannotChange else None)"

datatype request_status = RequestPending | RequestApproved | RequestDenied | RequestConsumed | RequestExpired

record connect_request =
  cr_architecture :: machine_arch
  cr_clientVersion :: string
  cr_connectorProfile :: "connector_profile option"
  cr_hostname :: string
  cr_name :: string
  cr_operatingSystem :: machine_os
  cr_publicKey :: string
  cr_approvalChallenge :: "string option"
  cr_approvedAt :: "string option"
  cr_approvedByUserId :: "string option"
  cr_consumedAt :: "string option"
  cr_createdAt :: string
  cr_deniedAt :: "string option"
  cr_expiresAt :: string
  cr_id :: string
  cr_pollTokenHash :: string
  cr_status :: request_status

record machine_identity =
  mi_architecture :: machine_arch
  mi_clientVersion :: string
  mi_connectorProfile :: "connector_profile option"
  mi_createdAt :: string
  mi_credentialHash :: string
  mi_hostname :: string
  mi_id :: string
  mi_lastSeenAt :: "string option"
  mi_name :: string
  mi_operatingSystem :: machine_os
  mi_ownerUserId :: string
  mi_publicKey :: string
  mi_revokedAt :: "string option"

datatype credential_mutation = CredentialInvalid | CredentialRevoked | CredentialUpdated

datatype request_mutation = MutationExpired | StatusMismatch | MutationUpdated

datatype enrollment =
    EnrollmentCreated machine_identity
  | EnrollmentRotated machine_identity
  | EnrollmentExpired
  | KeyConflict
  | RequestUnavailable

record machine_store =
  ms_machines :: "(string, machine_identity) jsmap"
  ms_requests :: "(string, connect_request) jsmap"

definition empty_machine_store :: machine_store where
  "empty_machine_store = \<lparr>ms_machines = [], ms_requests = []\<rparr>"

section \<open>Hashes\<close>

text \<open>\<open>Buffer.from(text, "hex")\<close>: pairs of hexadecimal digits, up to the first pair that is none.\<close>

definition hex_value :: "char \<Rightarrow> nat" where
  "hex_value c = (if is_digit c then of_char c - 48 else if in_range (CHR ''a'') (CHR ''f'') c
     then of_char c - 87 else of_char c - 55)"

fun hex_bytes :: "string \<Rightarrow> nat list" where
  "hex_bytes (a # b # s) =
     (if is_hex a \<and> is_hex b then (16 * hex_value a + hex_value b) # hex_bytes s else [])"
| "hex_bytes s = []"

definition equalHash :: "string \<Rightarrow> string \<Rightarrow> bool" where
  "equalHash expected actual \<longleftrightarrow>
     length (hex_bytes expected) = length (hex_bytes actual) \<and> hex_bytes expected = hex_bytes actual"

section \<open>Methods\<close>

text \<open>The new credential and metadata of an identity that enrols again.\<close>

definition rotated_machine :: "machine_identity \<Rightarrow> machine_identity \<Rightarrow> machine_identity" where
  "rotated_machine existing machine = existing\<lparr>
     mi_architecture := mi_architecture machine, mi_clientVersion := mi_clientVersion machine,
     mi_credentialHash := mi_credentialHash machine, mi_hostname := mi_hostname machine,
     mi_lastSeenAt := None, mi_name := mi_name machine,
     mi_operatingSystem := mi_operatingSystem machine, mi_revokedAt := None\<rparr>"

definition set_request :: "connect_request \<Rightarrow> machine_store \<Rightarrow> machine_store" where
  "set_request request s = s\<lparr>ms_requests := js_set (ms_requests s) (cr_id request) request\<rparr>"

definition consumeRequestAndUpsertMachine ::
    "connect_request \<Rightarrow> machine_identity \<Rightarrow> string \<Rightarrow> machine_store \<Rightarrow> enrollment \<times> machine_store" where
  "consumeRequestAndUpsertMachine request machine unexpiredAt s =
     (case js_get (ms_requests s) (cr_id request) of
        None \<Rightarrow> (RequestUnavailable, s)
      | Some current \<Rightarrow>
          if cr_status current \<noteq> RequestApproved then (RequestUnavailable, s)
          else if js_le (date_parse (cr_expiresAt current)) (date_parse unexpiredAt)
          then (EnrollmentExpired,
            s\<lparr>ms_requests := js_set (ms_requests s) (cr_id request) (current\<lparr>cr_status := RequestExpired\<rparr>)\<rparr>)
          else
            let existing = find (\<lambda>candidate. mi_publicKey candidate = mi_publicKey machine)
                  (js_values (ms_machines s))
            in (case existing of
                Some e \<Rightarrow>
                  if mi_ownerUserId e \<noteq> mi_ownerUserId machine then (KeyConflict, set_request request s)
                  else
                    let persisted = rotated_machine e machine
                    in (EnrollmentRotated persisted, set_request request
                      (s\<lparr>ms_machines := js_set (ms_machines s) (mi_id persisted) persisted\<rparr>))
              | None \<Rightarrow>
                  if js_has (ms_machines s) (mi_id machine) then (RequestUnavailable, s)
                  else (EnrollmentCreated machine, set_request request
                    (s\<lparr>ms_machines := js_set (ms_machines s) (mi_id machine) machine\<rparr>))))"

datatype create_error = RequestAlreadyExists

definition createRequest :: "connect_request \<Rightarrow> machine_store \<Rightarrow> (create_error + unit) \<times> machine_store" where
  "createRequest request s =
     (if js_has (ms_requests s) (cr_id request) then (Inl RequestAlreadyExists, s)
      else (Inr (), set_request request s))"

definition getMachine :: "string \<Rightarrow> machine_store \<Rightarrow> machine_identity option" where
  "getMachine i s = js_get (ms_machines s) i"

definition getRequest :: "string \<Rightarrow> machine_store \<Rightarrow> connect_request option" where
  "getRequest i s = js_get (ms_requests s) i"

definition markMachineOnline ::
    "string \<Rightarrow> string \<Rightarrow> string \<Rightarrow> machine_store \<Rightarrow> credential_mutation \<times> machine_store" where
  "markMachineOnline machineId credentialHash lastSeenAt s =
     (case js_get (ms_machines s) machineId of
        None \<Rightarrow> (CredentialInvalid, s)
      | Some current \<Rightarrow>
          if \<not> equalHash (mi_credentialHash current) credentialHash then (CredentialInvalid, s)
          else if truthy (mi_revokedAt current) then (CredentialRevoked, s)
          else (CredentialUpdated,
            s\<lparr>ms_machines := js_set (ms_machines s) machineId (current\<lparr>mi_lastSeenAt := Some lastSeenAt\<rparr>)\<rparr>))"

definition revokeMachine ::
    "string \<Rightarrow> string \<Rightarrow> string \<Rightarrow> machine_store \<Rightarrow> credential_mutation \<times> machine_store" where
  "revokeMachine machineId credentialHash revokedAt s =
     (case js_get (ms_machines s) machineId of
        None \<Rightarrow> (CredentialInvalid, s)
      | Some current \<Rightarrow>
          if \<not> equalHash (mi_credentialHash current) credentialHash then (CredentialInvalid, s)
          else if truthy (mi_revokedAt current) then (CredentialRevoked, s)
          else (CredentialUpdated,
            s\<lparr>ms_machines := js_set (ms_machines s) machineId (current\<lparr>mi_revokedAt := Some revokedAt\<rparr>)\<rparr>))"

definition updateRequestIfStatus ::
    "connect_request \<Rightarrow> request_status \<Rightarrow> string option \<Rightarrow> machine_store \<Rightarrow> request_mutation \<times> machine_store" where
  "updateRequestIfStatus request expectedStatus unexpiredAt s =
     (case js_get (ms_requests s) (cr_id request) of
        None \<Rightarrow> (StatusMismatch, s)
      | Some current \<Rightarrow>
          if cr_status current \<noteq> expectedStatus then (StatusMismatch, s)
          else if (case unexpiredAt of None \<Rightarrow> False
            | Some at \<Rightarrow> js_le (date_parse (cr_expiresAt current)) (date_parse at))
          then (MutationExpired,
            s\<lparr>ms_requests := js_set (ms_requests s) (cr_id request) (current\<lparr>cr_status := RequestExpired\<rparr>)\<rparr>)
          else (MutationUpdated, set_request request s))"

section \<open>Calls\<close>

datatype machine_call =
    Consume connect_request machine_identity string
  | CreateRequest connect_request
  | MarkOnline string string string
  | Revoke string string string
  | UpdateRequest connect_request request_status "string option"

datatype machine_answer =
    Enrolled enrollment
  | RequestCreated "create_error + unit"
  | CredentialChecked credential_mutation
  | RequestChanged request_mutation

fun machine_step :: "machine_call \<Rightarrow> machine_store \<Rightarrow> machine_answer \<times> machine_store" where
  "machine_step (Consume r m at) s = map_prod Enrolled id (consumeRequestAndUpsertMachine r m at s)"
| "machine_step (CreateRequest r) s = map_prod RequestCreated id (createRequest r s)"
| "machine_step (MarkOnline i h at) s = map_prod CredentialChecked id (markMachineOnline i h at s)"
| "machine_step (Revoke i h at) s = map_prod CredentialChecked id (revokeMachine i h at s)"
| "machine_step (UpdateRequest r st at) s = map_prod RequestChanged id (updateRequestIfStatus r st at s)"

section \<open>Identities\<close>

text \<open>A machine is stored under its id, and no two machines have the same public key.\<close>

definition machine_inv :: "machine_store \<Rightarrow> bool" where
  "machine_inv s \<longleftrightarrow> js_wf (ms_machines s) \<and>
     (\<forall>i m. js_get (ms_machines s) i = Some m \<longrightarrow> mi_id m = i) \<and>
     (\<forall>i j m n. js_get (ms_machines s) i = Some m \<longrightarrow> js_get (ms_machines s) j = Some n \<longrightarrow>
        mi_publicKey m = mi_publicKey n \<longrightarrow> i = j)"

definition same_identity_as :: "machine_identity \<Rightarrow> machine_identity \<Rightarrow> bool" where
  "same_identity_as m n \<longleftrightarrow> mi_id n = mi_id m \<and> mi_ownerUserId n = mi_ownerUserId m \<and>
     mi_publicKey n = mi_publicKey m \<and> mi_createdAt n = mi_createdAt m \<and>
     mi_connectorProfile n = mi_connectorProfile m"

text \<open>What a call does to the machines: it changes one identity's credential state, or adds one with a
  new id and public key.\<close>

inductive machine_change :: "machine_store \<Rightarrow> machine_store \<Rightarrow> bool" where
  unchanged: "ms_machines s' = ms_machines s \<Longrightarrow> machine_change s s'"
| updated: "js_get (ms_machines s) i = Some m \<Longrightarrow> same_identity_as m m' \<Longrightarrow>
    ms_machines s' = js_set (ms_machines s) i m' \<Longrightarrow> machine_change s s'"
| added: "js_get (ms_machines s) (mi_id m) = None \<Longrightarrow>
    (\<And>n. n \<in> set (js_values (ms_machines s)) \<Longrightarrow> mi_publicKey n \<noteq> mi_publicKey m) \<Longrightarrow>
    ms_machines s' = js_set (ms_machines s) (mi_id m) m \<Longrightarrow> machine_change s s'"

lemma machines_set_request [simp]: "ms_machines (set_request r s) = ms_machines s"
  by (simp add: set_request_def)

lemma consume_change:
  assumes "machine_inv s"
  shows "machine_change s (snd (consumeRequestAndUpsertMachine r m at s))"
proof (cases "find (\<lambda>c. mi_publicKey c = mi_publicKey m) (js_values (ms_machines s))")
  case None
  then have "mi_publicKey n \<noteq> mi_publicKey m" if "n \<in> set (js_values (ms_machines s))" for n
    using that by (auto simp: find_None_iff)
  then have "machine_change s (set_request r (s\<lparr>ms_machines := js_set (ms_machines s) (mi_id m) m\<rparr>))"
    if "js_get (ms_machines s) (mi_id m) = None"
    using that by (auto intro!: machine_change.added)
  with None show ?thesis
    by (auto simp: consumeRequestAndUpsertMachine_def split: option.split intro: machine_change.unchanged)
next
  case (Some e)
  then have "e \<in> set (js_values (ms_machines s))"
    by (metis find_Some_iff nth_mem)
  with assms have e: "js_get (ms_machines s) (mi_id e) = Some e"
    by (auto simp: machine_inv_def in_js_values)
  have "same_identity_as e (rotated_machine e m)" "mi_id (rotated_machine e m) = mi_id e"
    by (simp_all add: same_identity_as_def rotated_machine_def)
  with Some e show ?thesis
    by (auto simp: consumeRequestAndUpsertMachine_def Let_def split: option.split
        intro: machine_change.unchanged machine_change.updated)
qed

lemma machine_set_change:
  "js_get (ms_machines s) i = Some m \<Longrightarrow> same_identity_as m m' \<Longrightarrow>
     machine_change s (s\<lparr>ms_machines := js_set (ms_machines s) i m'\<rparr>)"
  by (rule machine_change.updated) simp_all

lemma machine_step_change: "machine_inv s \<Longrightarrow> machine_change s (snd (machine_step op s))"
proof (cases op)
  case (Consume r m at)
  assume "machine_inv s"
  from consume_change [OF this] Consume show ?thesis by simp
next
  case (MarkOnline i h at)
  then show ?thesis
    by (auto simp: markMachineOnline_def split: option.split
        intro: machine_change.unchanged machine_set_change simp: same_identity_as_def)
next
  case (Revoke i h at)
  then show ?thesis
    by (auto simp: revokeMachine_def split: option.split
        intro: machine_change.unchanged machine_set_change simp: same_identity_as_def)
qed (auto simp: createRequest_def updateRequestIfStatus_def split: option.split intro: machine_change.unchanged)

lemma machine_change_keeps:
  assumes "machine_change s s'" and "js_get (ms_machines s) i = Some m"
  shows "\<exists>m'. js_get (ms_machines s') i = Some m' \<and> same_identity_as m m'"
  using assms by cases (auto simp: same_identity_as_def)

lemma machine_change_inv:
  assumes "machine_change s s'" and "machine_inv s"
  shows "machine_inv s'"
  using assms
proof cases
  case (updated i m m')
  with assms(2) have "mi_id m' = i" "mi_publicKey m' = mi_publicKey m"
    by (auto simp: machine_inv_def same_identity_as_def)
  with updated assms(2) show ?thesis
    unfolding machine_inv_def by (auto split: if_splits)
next
  case (added m)
  with assms(2) have "mi_publicKey n \<noteq> mi_publicKey m" if "js_get (ms_machines s) j = Some n" for j n
    using that by (auto simp: machine_inv_def in_js_values)
  then have "mi_publicKey n \<noteq> mi_publicKey m" "mi_publicKey m \<noteq> mi_publicKey n"
    if "js_get (ms_machines s) j = Some n" for j n
    using that by metis+
  with added assms(2) show ?thesis
    unfolding machine_inv_def by (auto split: if_splits)
qed (simp add: machine_inv_def)

interpretation machines: invariant_store machine_step machine_inv
  by unfold_locales (blast intro: machine_change_inv machine_step_change)

lemma machine_inv_empty: "machine_inv empty_machine_store"
  by (simp add: machine_inv_def empty_machine_store_def)

lemmas machine_run_inv = machines.run_inv [OF machine_inv_empty]

text \<open>Whatever is called, no two machines have the same public key: a key that enrols again keeps its
  identity.\<close>

theorem machine_keys_unique:
  "length (filter (\<lambda>m. mi_publicKey m = key) (js_values (ms_machines (run_state machine_step ops empty_machine_store)))) \<le> 1"
proof (rule at_most_one_value)
  show "js_wf (ms_machines (run_state machine_step ops empty_machine_store))"
    using machine_run_inv unfolding machine_inv_def by blast
next
  fix k l r q
  assume "js_get (ms_machines (run_state machine_step ops empty_machine_store)) k = Some r"
    "js_get (ms_machines (run_state machine_step ops empty_machine_store)) l = Some q"
    "mi_publicKey r = key" "mi_publicKey q = key"
  with machine_run_inv [of ops] show "k = l" unfolding machine_inv_def by blast
qed

text \<open>C38: An enrolled machine keeps its id, owner, public key, creation time and connector profile through
  every later call, and a revoked machine changes at all only through a new enrolment of its key: it
  cannot be marked online or revoked again.\<close>

theorem machine_identity_permanent:
  assumes "js_get (ms_machines (run_state machine_step ops empty_machine_store)) i = Some m"
  shows "\<exists>m'. js_get (ms_machines (run_state machine_step (ops @ [op]) empty_machine_store)) i = Some m' \<and>
    mi_id m' = i \<and> mi_ownerUserId m' = mi_ownerUserId m \<and> mi_publicKey m' = mi_publicKey m \<and>
    mi_createdAt m' = mi_createdAt m \<and> mi_connectorProfile m' = mi_connectorProfile m \<and>
    (truthy (mi_revokedAt m) \<and> m' \<noteq> m \<longrightarrow>
      (\<exists>request machine at. op = Consume request machine at \<and> mi_publicKey machine = mi_publicKey m))"
proof -
  let ?s = "run_state machine_step ops empty_machine_store"
  have inv: "machine_inv ?s" by (rule machine_run_inv)
  from machine_change_keeps [OF machine_step_change [OF inv] assms]
  obtain m' where m': "js_get (ms_machines (snd (machine_step op ?s))) i = Some m'" "same_identity_as m m'" by blast
  from assms inv have id: "mi_id m = i" by (simp add: machine_inv_def)
  have "\<exists>request machine at. op = Consume request machine at \<and> mi_publicKey machine = mi_publicKey m"
    if "truthy (mi_revokedAt m)" "m' \<noteq> m"
  proof (cases op)
    case (Consume request machine at)
    have "mi_publicKey machine = mi_publicKey m"
    proof (rule ccontr)
      assume "mi_publicKey machine \<noteq> mi_publicKey m"
      with Consume m' assms that show False
        by (auto simp: consumeRequestAndUpsertMachine_def Let_def find_Some_iff rotated_machine_def
            same_identity_as_def split: option.splits if_splits)
    qed
    with Consume show ?thesis by simp
  qed (use m'(1) assms that in \<open>auto simp: createRequest_def markMachineOnline_def revokeMachine_def
      updateRequestIfStatus_def split: option.splits if_splits\<close>)
  with m' id show ?thesis
    by (auto simp: run_state_append same_identity_as_def)
qed

definition example_request :: connect_request where
  "example_request = \<lparr>cr_architecture = Arm64, cr_clientVersion = ''1'', cr_connectorProfile = None,
     cr_hostname = ''h'', cr_name = ''n'', cr_operatingSystem = Linux, cr_publicKey = ''k'',
     cr_approvalChallenge = None, cr_approvedAt = None, cr_approvedByUserId = None, cr_consumedAt = None,
     cr_createdAt = ''2026-01-01'', cr_deniedAt = None, cr_expiresAt = ''2026-01-02'', cr_id = ''q'',
     cr_pollTokenHash = ''00'', cr_status = RequestApproved\<rparr>"

definition example_machine :: machine_identity where
  "example_machine = \<lparr>mi_architecture = Arm64, mi_clientVersion = ''1'', mi_connectorProfile = None,
     mi_createdAt = ''2026-01-01'', mi_credentialHash = ''ab'', mi_hostname = ''h'', mi_id = ''m'',
     mi_lastSeenAt = None, mi_name = ''n'', mi_operatingSystem = Linux, mi_ownerUserId = ''u'',
     mi_publicKey = ''k'', mi_revokedAt = None\<rparr>"

definition example_enrolment :: "machine_call list" where
  "example_enrolment = [CreateRequest example_request, Consume example_request example_machine ''2026-01-01'',
     Revoke ''m'' ''AB'' ''2026-01-01'']"

lemma example_revoked:
  "js_get (ms_machines (run_state machine_step example_enrolment empty_machine_store)) ''m'' =
     Some (example_machine\<lparr>mi_revokedAt := Some ''2026-01-01''\<rparr>)"
  by code_simp

text \<open>The revoked machine stays as it is when it reports online with its old credential.\<close>

theorem machine_identity_permanent_witness:
  "js_get (ms_machines (run_state machine_step (example_enrolment @ [MarkOnline ''m'' ''ab'' ''2026-01-01''])
     empty_machine_store)) ''m'' = Some (example_machine\<lparr>mi_revokedAt := Some ''2026-01-01''\<rparr>)"
  using machine_identity_permanent [OF example_revoked, of "MarkOnline ''m'' ''ab'' ''2026-01-01''"]
  by auto

end
