(* ===== verification/HostdTypes.thy ===== *)
theory HostdTypes
  imports JS_Value JS_Date
begin

text \<open>
  The telemetry messages of the project host daemon: the records of \<open>src/shared/project-hostd-api.ts\<close>
  and the validators of \<open>server/project-hostd/validation.ts\<close>. \<open>invalid()\<close> throws the one error
  \<open>invalid_message\<close>, so a validator returns an option.
\<close>

section \<open>Records\<close>

definition projectHostdPartialMetrics :: "string list" where
  "projectHostdPartialMetrics = [''cpu'', ''memory'', ''storage'', ''gpu'', ''runtime'']"

record hostd_request =
  hq_deviceId :: string
  hq_environmentId :: string
  hq_expiresInSeconds :: "rat option"
  hq_hostId :: "string option"
  hq_operationId :: string

record hostd_gpu =
  gp_memoryBytes :: "int option"
  gp_model :: string
  gp_usedPercent :: "rat option"

record hostd_resources =
  rs_architecture :: string
  rs_cpuCores :: rat
  rs_cpuUsedPercent :: rat
  rs_gpu :: "hostd_gpu list option"
  rs_memoryAvailableBytes :: int
  rs_memoryTotalBytes :: int
  rs_operatingSystem :: string
  rs_storageAvailableBytes :: int
  rs_storageTotalBytes :: int

record hostd_runtime =
  ht_cpuPercent :: rat
  ht_generation :: string
  ht_memoryBytes :: int
  ht_workspaceId :: string

datatype hostd_health = Healthy | Degraded

text \<open>The literal fields \<open>schemaVersion\<close>, \<open>protocolVersion\<close> and \<open>type\<close> have one value each and are left out.\<close>

record hostd_observation =
  ho_deviceId :: string
  ho_environmentId :: string
  ho_health :: hostd_health
  ho_hostId :: "string option"
  ho_hostdVersion :: string
  ho_observationId :: string
  ho_observedAt :: string
  ho_partialMetrics :: "string list"
  ho_resources :: hostd_resources
  ho_runtimes :: "hostd_runtime list"
  ho_sequence :: int
  ho_uptimeSeconds :: int

section \<open>Patterns\<close>

text \<open>\<open>/^[0-9a-f]{8}-[0-9a-f]{4}-[1-8][0-9a-f]{3}-[89ab][0-9a-f]{3}-[0-9a-f]{12}$/\<close>\<close>

definition hostd_uuid :: "string \<Rightarrow> bool" where
  "hostd_uuid = class_seq
     (replicate 8 is_lower_hex @ [(=) (CHR ''-'')] @ replicate 4 is_lower_hex @ [(=) (CHR ''-'')] @
      [in_range (CHR ''1'') (CHR ''8'')] @ replicate 3 is_lower_hex @ [(=) (CHR ''-'')] @
      [(\<lambda>c. c \<in> set ''89ab'')] @ replicate 3 is_lower_hex @ [(=) (CHR ''-'')] @ replicate 12 is_lower_hex)"

definition hostd_id_char :: "char \<Rightarrow> bool" where
  "hostd_id_char c \<longleftrightarrow> is_alnum c \<or> c \<in> set '':._-''"

definition operationId_pattern :: "string \<Rightarrow> bool" where
  "operationId_pattern = class_rep hostd_id_char 1 256"

definition observationId_pattern :: "string \<Rightarrow> bool" where
  "observationId_pattern = class_rep hostd_id_char 1 128"

definition version_pattern :: "string \<Rightarrow> bool" where
  "version_pattern s \<longleftrightarrow>
     (case s of [] \<Rightarrow> False
      | c # cs \<Rightarrow> is_alnum c \<and> class_rep (\<lambda>c. is_alnum c \<or> c \<in> set ''.+_-'') 0 63 cs)"

text \<open>\<open>/[\u0000-\u001f\u007f]/\<close>\<close>

definition control_char :: "char \<Rightarrow> bool" where
  "control_char c \<longleftrightarrow> (of_char c :: nat) \<le> 31 \<or> of_char c = (127 :: nat)"

definition safeOwner :: "string \<Rightarrow> bool" where
  "safeOwner value \<longleftrightarrow> 0 < length (js_trim value) \<and> length value \<le> 256 \<and> \<not> list_ex control_char value"

section \<open>Readers\<close>

fun as_array :: "jsval \<Rightarrow> nat \<Rightarrow> jsval list option" where
  "as_array (VArr vs) maximum = (if maximum < length vs then None else Some vs)"
| "as_array v maximum = None"

definition as_integer :: "jsval \<Rightarrow> int option" where
  "as_integer v = do {
     as_number v;
     n \<leftarrow> safe_integer_value v;
     require (0 \<le> n);
     Some n }"

definition exactKeys :: "(string \<times> jsval) list \<Rightarrow> string list \<Rightarrow> string list \<Rightarrow> bool" where
  "exactKeys value allowed optional \<longleftrightarrow>
     list_all (\<lambda>key. key \<in> set allowed) (object_keys value) \<and>
     list_all (\<lambda>key. key \<in> set optional \<or> key \<in> set (object_keys value)) allowed"

definition safe_text_ok :: "nat \<Rightarrow> string \<Rightarrow> bool" where
  "safe_text_ok maximum text \<longleftrightarrow> js_trim text \<noteq> [] \<and> length text \<le> maximum \<and> \<not> list_ex control_char text"

definition safeText :: "jsval \<Rightarrow> nat \<Rightarrow> string option" where
  "safeText value maximum = do {
     text \<leftarrow> as_string value;
     require (safe_text_ok maximum text);
     Some text }"

definition validTime :: "jsval \<Rightarrow> bool" where
  "validTime value \<longleftrightarrow> (case value of VStr s \<Rightarrow> date_parse s \<noteq> None | _ \<Rightarrow> False)"

definition uniqueStrings :: "jsval \<Rightarrow> string list \<Rightarrow> nat \<Rightarrow> string list option" where
  "uniqueStrings value allowed limit = do {
     entries \<leftarrow> as_array value limit;
     values \<leftarrow> traverse as_string entries;
     require (distinct values \<and> list_all (\<lambda>entry. entry \<in> set allowed) values);
     Some values }"

text \<open>\<open>input.x === undefined ? undefined : read(input.x)\<close>\<close>

definition optional_field :: "(jsval \<Rightarrow> 'a option) \<Rightarrow> jsval \<Rightarrow> 'a option option" where
  "optional_field read v = (if v = VUndefined then Some None else map_option Some (read v))"

section \<open>Credential requests\<close>

text \<open>The default of thirty days; the result is the number of seconds.\<close>

definition validateCredentialIssue :: "string \<Rightarrow> hostd_request \<Rightarrow> int option" where
  "validateCredentialIssue owner i =
     (let expires = (case hq_expiresInSeconds i of None \<Rightarrow> 2592000 | Some q \<Rightarrow> q)
      in if \<not> safeOwner owner \<or> \<not> hostd_uuid (hq_deviceId i) \<or> \<not> hostd_uuid (hq_environmentId i) \<or>
            (case hq_hostId i of None \<Rightarrow> False | Some h \<Rightarrow> \<not> hostd_uuid h) \<or>
            \<not> operationId_pattern (hq_operationId i)
         then None
         else (case safe_integer_value (VNum (Finite expires)) of
             None \<Rightarrow> None
           | Some n \<Rightarrow> if n < 60 \<or> 7776000 < n then None else Some n))"

definition parseCredentialRequest :: "jsval \<Rightarrow> hostd_request option" where
  "parseCredentialRequest value = do {
     input \<leftarrow> as_object value;
     require (exactKeys input [''deviceId'', ''environmentId'', ''expiresInSeconds'', ''hostId'', ''operationId'']
       [''expiresInSeconds'', ''hostId'']);
     deviceId \<leftarrow> as_string (field input ''deviceId'');
     environmentId \<leftarrow> as_string (field input ''environmentId'');
     expires \<leftarrow> optional_field as_number (field input ''expiresInSeconds'');
     hostId \<leftarrow> optional_field as_string (field input ''hostId'');
     operationId \<leftarrow> as_string (field input ''operationId'');
     let request = \<lparr>hq_deviceId = deviceId, hq_environmentId = environmentId,
       hq_expiresInSeconds = expires, hq_hostId = hostId, hq_operationId = operationId\<rparr>;
     validateCredentialIssue ''validated-owner'' request;
     Some request }"

section \<open>Observations\<close>

definition parseRuntime :: "jsval \<Rightarrow> hostd_runtime option" where
  "parseRuntime value = do {
     input \<leftarrow> as_object value;
     require (exactKeys input [''boundaryKind'', ''cpuPercent'', ''generation'', ''memoryBytes'', ''workspaceId''] []);
     cpuPercent \<leftarrow> as_number (field input ''cpuPercent'');
     memoryBytes \<leftarrow> as_integer (field input ''memoryBytes'');
     generation \<leftarrow> as_string (field input ''generation'');
     workspaceId \<leftarrow> as_string (field input ''workspaceId'');
     require (field input ''boundaryKind'' = VStr ''process_group'' \<and> 0 \<le> cpuPercent \<and> cpuPercent \<le> 100 \<and>
       0 \<le> memoryBytes \<and> hostd_uuid generation \<and> hostd_uuid workspaceId);
     Some \<lparr>ht_cpuPercent = cpuPercent, ht_generation = generation, ht_memoryBytes = memoryBytes,
       ht_workspaceId = workspaceId\<rparr> }"

definition parseGpu :: "jsval \<Rightarrow> hostd_gpu option" where
  "parseGpu value = do {
     item \<leftarrow> as_object value;
     require (exactKeys item [''memoryBytes'', ''model'', ''usedPercent''] [''memoryBytes'', ''usedPercent'']);
     memoryBytes \<leftarrow> optional_field as_integer (field item ''memoryBytes'');
     usedPercent \<leftarrow> optional_field as_number (field item ''usedPercent'');
     require (\<not> (case memoryBytes of None \<Rightarrow> False | Some n \<Rightarrow> n < 0) \<and>
       \<not> (case usedPercent of None \<Rightarrow> False | Some q \<Rightarrow> q < 0 \<or> 100 < q));
     model \<leftarrow> safeText (field item ''model'') 128;
     Some \<lparr>gp_memoryBytes = memoryBytes, gp_model = model, gp_usedPercent = usedPercent\<rparr> }"

definition parseResources :: "jsval \<Rightarrow> hostd_resources option" where
  "parseResources value = do {
     input \<leftarrow> as_object value;
     require (exactKeys input [''architecture'', ''cpu'', ''gpu'', ''memory'', ''operatingSystem'', ''storage''] [''gpu'']);
     cpu \<leftarrow> as_object (field input ''cpu'');
     require (exactKeys cpu [''cores'', ''usedPercent''] []);
     memory \<leftarrow> as_object (field input ''memory'');
     require (exactKeys memory [''availableBytes'', ''totalBytes''] []);
     storage \<leftarrow> as_object (field input ''storage'');
     require (exactKeys storage [''availableBytes'', ''totalBytes''] []);
     cores \<leftarrow> as_number (field cpu ''cores'');
     cpuUsed \<leftarrow> as_number (field cpu ''usedPercent'');
     memoryTotal \<leftarrow> as_integer (field memory ''totalBytes'');
     memoryAvailable \<leftarrow> as_integer (field memory ''availableBytes'');
     storageTotal \<leftarrow> as_integer (field storage ''totalBytes'');
     storageAvailable \<leftarrow> as_integer (field storage ''availableBytes'');
     require (0 < cores \<and> cores \<le> 4096 \<and> 0 \<le> cpuUsed \<and> cpuUsed \<le> 100 \<and>
       0 < memoryTotal \<and> memoryAvailable \<le> memoryTotal \<and> 0 < storageTotal \<and> storageAvailable \<le> storageTotal);
     gpu \<leftarrow> optional_field (\<lambda>v. Option.bind (as_array v 32) (traverse parseGpu)) (field input ''gpu'');
     architecture \<leftarrow> safeText (field input ''architecture'') 64;
     operatingSystem \<leftarrow> safeText (field input ''operatingSystem'') 128;
     Some \<lparr>rs_architecture = architecture, rs_cpuCores = cores, rs_cpuUsedPercent = cpuUsed, rs_gpu = gpu,
       rs_memoryAvailableBytes = memoryAvailable, rs_memoryTotalBytes = memoryTotal,
       rs_operatingSystem = operatingSystem, rs_storageAvailableBytes = storageAvailable,
       rs_storageTotalBytes = storageTotal\<rparr> }"

fun health_of :: "string \<Rightarrow> hostd_health option" where
  "health_of s = (if s = ''healthy'' then Some Healthy else if s = ''degraded'' then Some Degraded else None)"

definition runtime_key :: "hostd_runtime \<Rightarrow> string" where
  "runtime_key r = nul_key (ht_workspaceId r) (ht_generation r)"

definition parseObservation :: "jsval \<Rightarrow> hostd_observation option" where
  "parseObservation value = do {
     input \<leftarrow> as_object value;
     require (exactKeys input
       [''deviceId'', ''environmentId'', ''health'', ''hostId'', ''hostdVersion'', ''observationId'',
        ''observedAt'', ''partialMetrics'', ''protocolVersion'', ''resources'', ''runtimes'',
        ''schemaVersion'', ''sequence'', ''type'', ''uptimeSeconds''] [''hostId'']);
     require (field input ''type'' = VStr ''hostd.telemetry'' \<and> field input ''schemaVersion'' = VNum (Finite 1) \<and>
       field input ''protocolVersion'' = VNum (Finite 1));
     deviceId \<leftarrow> as_string (field input ''deviceId'');
     environmentId \<leftarrow> as_string (field input ''environmentId'');
     hostId \<leftarrow> optional_field as_string (field input ''hostId'');
     hostdVersion \<leftarrow> as_string (field input ''hostdVersion'');
     observationId \<leftarrow> as_string (field input ''observationId'');
     require (hostd_uuid deviceId \<and> hostd_uuid environmentId \<and>
       (case hostId of None \<Rightarrow> True | Some h \<Rightarrow> hostd_uuid h) \<and> version_pattern hostdVersion \<and>
       observationId_pattern observationId \<and> validTime (field input ''observedAt''));
     observedAt \<leftarrow> as_string (field input ''observedAt'');
     health \<leftarrow> Option.bind (as_string (field input ''health'')) health_of;
     sequence \<leftarrow> safe_integer_value (field input ''sequence'');
     uptimeSeconds \<leftarrow> safe_integer_value (field input ''uptimeSeconds'');
     require (1 \<le> sequence \<and> 0 \<le> uptimeSeconds);
     partialMetrics \<leftarrow> uniqueStrings (field input ''partialMetrics'') projectHostdPartialMetrics 5;
     require (\<not> (partialMetrics \<noteq> [] \<and> health \<noteq> Degraded));
     runtimes \<leftarrow> Option.bind (as_array (field input ''runtimes'') 128) (traverse parseRuntime);
     require (distinct (map runtime_key runtimes));
     resources \<leftarrow> parseResources (field input ''resources'');
     Some \<lparr>ho_deviceId = deviceId, ho_environmentId = environmentId, ho_health = health, ho_hostId = hostId,
       ho_hostdVersion = hostdVersion, ho_observationId = observationId, ho_observedAt = observedAt,
       ho_partialMetrics = partialMetrics, ho_resources = resources, ho_runtimes = runtimes,
       ho_sequence = sequence, ho_uptimeSeconds = uptimeSeconds\<rparr> }"

end
