(* ===== verification/HostdWire.thy ===== *)
theory HostdWire
  imports HostdTypes
begin

text \<open>
  The contract of the telemetry parser: \<open>observation_ok\<close> says what a valid observation is, and
  \<open>encode_observation\<close> writes one as the daemon sends it. Every parsed observation is valid, and
  parsing an encoded valid observation gives it back.
\<close>

section \<open>Valid values\<close>

definition safe_nat :: "int \<Rightarrow> bool" where
  "safe_nat n \<longleftrightarrow> 0 \<le> n \<and> n \<le> max_safe_integer"

definition percent_ok :: "rat \<Rightarrow> bool" where
  "percent_ok q \<longleftrightarrow> 0 \<le> q \<and> q \<le> 100"

definition gpu_ok :: "hostd_gpu \<Rightarrow> bool" where
  "gpu_ok g \<longleftrightarrow> pred_option safe_nat (gp_memoryBytes g) \<and> safe_text_ok 128 (gp_model g) \<and>
     pred_option percent_ok (gp_usedPercent g)"

definition runtime_ok :: "hostd_runtime \<Rightarrow> bool" where
  "runtime_ok r \<longleftrightarrow> percent_ok (ht_cpuPercent r) \<and> safe_nat (ht_memoryBytes r) \<and>
     hostd_uuid (ht_generation r) \<and> hostd_uuid (ht_workspaceId r)"

definition resources_ok :: "hostd_resources \<Rightarrow> bool" where
  "resources_ok r \<longleftrightarrow> safe_text_ok 64 (rs_architecture r) \<and> safe_text_ok 128 (rs_operatingSystem r) \<and>
     0 < rs_cpuCores r \<and> rs_cpuCores r \<le> 4096 \<and> percent_ok (rs_cpuUsedPercent r) \<and>
     safe_nat (rs_memoryAvailableBytes r) \<and> safe_nat (rs_memoryTotalBytes r) \<and>
     0 < rs_memoryTotalBytes r \<and> rs_memoryAvailableBytes r \<le> rs_memoryTotalBytes r \<and>
     safe_nat (rs_storageAvailableBytes r) \<and> safe_nat (rs_storageTotalBytes r) \<and>
     0 < rs_storageTotalBytes r \<and> rs_storageAvailableBytes r \<le> rs_storageTotalBytes r \<and>
     pred_option (\<lambda>gs. length gs \<le> 32 \<and> list_all gpu_ok gs) (rs_gpu r)"

definition observation_ok :: "hostd_observation \<Rightarrow> bool" where
  "observation_ok o1 \<longleftrightarrow>
     hostd_uuid (ho_deviceId o1) \<and> hostd_uuid (ho_environmentId o1) \<and> pred_option hostd_uuid (ho_hostId o1) \<and>
     version_pattern (ho_hostdVersion o1) \<and> observationId_pattern (ho_observationId o1) \<and>
     date_parse (ho_observedAt o1) \<noteq> None \<and>
     1 \<le> ho_sequence o1 \<and> ho_sequence o1 \<le> max_safe_integer \<and> safe_nat (ho_uptimeSeconds o1) \<and>
     distinct (ho_partialMetrics o1) \<and> set (ho_partialMetrics o1) \<subseteq> set projectHostdPartialMetrics \<and>
     (ho_partialMetrics o1 = [] \<or> ho_health o1 = Degraded) \<and>
     length (ho_runtimes o1) \<le> 128 \<and> list_all runtime_ok (ho_runtimes o1) \<and>
     distinct (map (\<lambda>r. (ht_workspaceId r, ht_generation r)) (ho_runtimes o1)) \<and>
     resources_ok (ho_resources o1)"

section \<open>Encoding\<close>

definition num_int :: "int \<Rightarrow> jsval" where
  "num_int n = VNum (Finite (of_int n))"

definition num_rat :: "rat \<Rightarrow> jsval" where
  "num_rat q = VNum (Finite q)"

definition encode_gpu :: "hostd_gpu \<Rightarrow> jsval" where
  "encode_gpu g = VObj (optional_entry ''memoryBytes'' (map_option num_int (gp_memoryBytes g)) @
     (''model'', VStr (gp_model g)) # optional_entry ''usedPercent'' (map_option num_rat (gp_usedPercent g)))"

definition encode_runtime :: "hostd_runtime \<Rightarrow> jsval" where
  "encode_runtime r = VObj
     [(''boundaryKind'', VStr ''process_group''), (''cpuPercent'', num_rat (ht_cpuPercent r)),
      (''generation'', VStr (ht_generation r)), (''memoryBytes'', num_int (ht_memoryBytes r)),
      (''workspaceId'', VStr (ht_workspaceId r))]"

definition encode_resources :: "hostd_resources \<Rightarrow> jsval" where
  "encode_resources r = VObj (
     (''architecture'', VStr (rs_architecture r)) #
     (''cpu'', VObj [(''cores'', num_rat (rs_cpuCores r)), (''usedPercent'', num_rat (rs_cpuUsedPercent r))]) #
     optional_entry ''gpu'' (map_option (\<lambda>gs. VArr (map encode_gpu gs)) (rs_gpu r)) @
     [(''memory'', VObj [(''availableBytes'', num_int (rs_memoryAvailableBytes r)),
        (''totalBytes'', num_int (rs_memoryTotalBytes r))]),
      (''operatingSystem'', VStr (rs_operatingSystem r)),
      (''storage'', VObj [(''availableBytes'', num_int (rs_storageAvailableBytes r)),
        (''totalBytes'', num_int (rs_storageTotalBytes r))])])"

fun health_name :: "hostd_health \<Rightarrow> string" where
  "health_name Healthy = ''healthy''"
| "health_name Degraded = ''degraded''"

definition encode_observation :: "hostd_observation \<Rightarrow> jsval" where
  "encode_observation o1 = VObj (
     (''deviceId'', VStr (ho_deviceId o1)) # (''environmentId'', VStr (ho_environmentId o1)) #
     (''health'', VStr (health_name (ho_health o1))) #
     optional_entry ''hostId'' (map_option VStr (ho_hostId o1)) @
     [(''hostdVersion'', VStr (ho_hostdVersion o1)), (''observationId'', VStr (ho_observationId o1)),
      (''observedAt'', VStr (ho_observedAt o1)),
      (''partialMetrics'', VArr (map VStr (ho_partialMetrics o1))), (''protocolVersion'', num_int 1),
      (''resources'', encode_resources (ho_resources o1)),
      (''runtimes'', VArr (map encode_runtime (ho_runtimes o1))), (''schemaVersion'', num_int 1),
      (''sequence'', num_int (ho_sequence o1)), (''type'', VStr ''hostd.telemetry''),
      (''uptimeSeconds'', num_int (ho_uptimeSeconds o1))])"

section \<open>Readers\<close>

lemma as_number_simps [simp]: "as_number (num_int n) = Some (of_int n)" "as_number (num_rat q) = Some q"
  by (simp_all add: num_int_def num_rat_def)

lemma not_undefined [simp]: "num_int n \<noteq> VUndefined" "num_rat q \<noteq> VUndefined"
  by (simp_all add: num_int_def num_rat_def)

lemma safe_integer_num_int [simp]:
  "safe_integer_value (num_int n) = (if is_safe_integer n then Some n else None)"
  by (simp add: num_int_def)

lemma as_integer_num_int [simp]: "safe_nat n \<Longrightarrow> as_integer (num_int n) = Some n"
  by (auto simp: as_integer_def safe_nat_def is_safe_integer_def max_safe_integer_def)

lemma safe_integer_bounds: "safe_integer_value v = Some n \<Longrightarrow> is_safe_integer n"
  by (cases v rule: safe_integer_value.cases) (auto split: option.splits if_splits)

lemma as_integer_ok: "as_integer v = Some n \<Longrightarrow> safe_nat n"
  by (auto simp: as_integer_def bind_eq_Some_conv safe_nat_def is_safe_integer_def dest!: safe_integer_bounds)

lemma safeText_iff [simp]: "safeText (VStr s) maximum = (if safe_text_ok maximum s then Some s else None)"
  by (simp add: safeText_def require_def)

lemma safeText_ok: "safeText v maximum = Some s \<Longrightarrow> safe_text_ok maximum s"
  by (auto simp: safeText_def bind_eq_Some_conv)

lemma optional_field_simps [simp]:
  "optional_field f VUndefined = Some None"
  "v \<noteq> VUndefined \<Longrightarrow> optional_field f v = map_option Some (f v)"
  by (simp_all add: optional_field_def)

lemma optional_field_ok:
  "optional_field f v = Some x \<Longrightarrow> (\<And>y. f v = Some y \<Longrightarrow> P y) \<Longrightarrow> pred_option P x"
  by (auto simp: optional_field_def split: if_splits)

lemma health_of_name [simp]: "health_of (health_name h) = Some h"
  by (cases h) simp_all

declare health_of.simps [simp del]

lemma class_seq_no_NUL: "hostd_uuid s \<Longrightarrow> NUL \<notin> set s"
  unfolding hostd_uuid_def
  by (erule class_seq_no_char) (simp add: list_all_iff in_range_def is_lower_hex_def is_digit_def)

lemma distinct_runtime_keys:
  "list_all runtime_ok rs \<Longrightarrow>
     distinct (map runtime_key rs) \<longleftrightarrow> distinct (map (\<lambda>r. (ht_workspaceId r, ht_generation r)) rs)"
  by (induction rs) (auto simp: runtime_key_def runtime_ok_def nul_key_inj class_seq_no_NUL list_all_iff image_iff)

section \<open>Every parsed value is valid\<close>

lemma case_option_False: "\<not> (case m of None \<Rightarrow> False | Some x \<Rightarrow> P x) \<longleftrightarrow> pred_option (\<lambda>x. \<not> P x) m"
  by (cases m) simp_all

lemma pred_option_bounds: "pred_option (\<lambda>q. \<not> q < 0 \<and> \<not> 100 < q) m \<longleftrightarrow> pred_option percent_ok m"
  by (cases m) (auto simp: percent_ok_def)

lemma optional_integer_ok: "optional_field as_integer v = Some x \<Longrightarrow> pred_option safe_nat x"
  by (erule optional_field_ok) (rule as_integer_ok)

lemma parseGpu_ok: "parseGpu v = Some g \<Longrightarrow> gpu_ok g"
  by (auto simp: parseGpu_def bind_eq_Some_conv gpu_ok_def percent_ok_def safeText_ok case_option_False
      pred_option_bounds dest!: optional_integer_ok)

lemma parseRuntime_ok: "parseRuntime v = Some r \<Longrightarrow> runtime_ok r"
  by (auto simp: parseRuntime_def bind_eq_Some_conv runtime_ok_def percent_ok_def as_integer_ok)

lemma as_array_length: "as_array v n = Some vs \<Longrightarrow> length vs \<le> n"
  by (cases v) (auto split: if_splits)

lemma parseGpus_ok:
  "optional_field (\<lambda>v. Option.bind (as_array v n) (traverse parseGpu)) v = Some x \<Longrightarrow>
     pred_option (\<lambda>gs. length gs \<le> n \<and> list_all gpu_ok gs) x"
  by (erule optional_field_ok)
    (auto simp: bind_eq_Some_conv dest!: as_array_length traverse_all [of parseGpu _ _ gpu_ok] intro: parseGpu_ok)

lemma parseResources_ok: "parseResources v = Some r \<Longrightarrow> resources_ok r"
  unfolding parseResources_def
  by (auto simp: bind_eq_Some_conv resources_ok_def percent_ok_def as_integer_ok safeText_ok dest!: parseGpus_ok)

lemma uniqueStrings_ok: "uniqueStrings v allowed n = Some ss \<Longrightarrow> distinct ss \<and> set ss \<subseteq> set allowed"
  by (auto simp: uniqueStrings_def bind_eq_Some_conv list_all_iff)

lemma parseRuntimes_ok:
  "Option.bind (as_array v n) (traverse parseRuntime) = Some rs \<Longrightarrow> length rs \<le> n \<and> list_all runtime_ok rs"
  by (auto simp: bind_eq_Some_conv dest!: as_array_length traverse_all [of parseRuntime _ _ runtime_ok]
      intro: parseRuntime_ok)

lemma validTime_string: "validTime v \<Longrightarrow> as_string v = Some s \<Longrightarrow> date_parse s \<noteq> None"
  by (cases v) (auto simp: validTime_def)

lemma health_Degraded: "\<not> (ms \<noteq> [] \<and> h \<noteq> Degraded) \<longleftrightarrow> ms = [] \<or> h = Degraded"
  by auto

lemma runtimes_parsed:
  "as_array v n = Some vs \<Longrightarrow> traverse parseRuntime vs = Some rs \<Longrightarrow> distinct (map runtime_key rs) \<Longrightarrow>
     length rs \<le> n \<and> list_all runtime_ok rs \<and> distinct (map (\<lambda>r. (ht_workspaceId r, ht_generation r)) rs)"
  using parseRuntimes_ok [of v n rs] distinct_runtime_keys [of rs] by simp

lemma case_option_True: "(case m of None \<Rightarrow> True | Some x \<Rightarrow> P x) \<longleftrightarrow> pred_option P m"
  by (cases m) simp_all

lemma parseObservation_ok: "parseObservation v = Some o1 \<Longrightarrow> observation_ok o1"
  unfolding parseObservation_def bind_eq_Some_conv bind_require case_option_True
  by (elim exE conjE)
    (auto simp: observation_ok_def safe_nat_def is_safe_integer_def
      dest!: parseResources_ok uniqueStrings_ok safe_integer_bounds dest: validTime_string runtimes_parsed)

section \<open>Encoded values parse\<close>

lemma parseGpu_encode: "gpu_ok g \<Longrightarrow> parseGpu (encode_gpu g) = Some g"
  by (cases g; cases "gp_memoryBytes g"; cases "gp_usedPercent g")
    (simp_all add: parseGpu_def encode_gpu_def gpu_ok_def exactKeys_def percent_ok_def safe_nat_def)

lemma parseRuntime_encode: "runtime_ok r \<Longrightarrow> parseRuntime (encode_runtime r) = Some r"
  by (cases r) (simp add: parseRuntime_def encode_runtime_def runtime_ok_def exactKeys_def percent_ok_def safe_nat_def)

lemma traverse_encode_gpu: "list_all gpu_ok gs \<Longrightarrow> traverse parseGpu (map encode_gpu gs) = Some gs"
  by (rule traverse_map) (auto simp: list_all_iff parseGpu_encode)

lemma parseResources_encode: "resources_ok r \<Longrightarrow> parseResources (encode_resources r) = Some r"
  by (cases r; cases "rs_gpu r")
    (simp_all add: parseResources_def encode_resources_def resources_ok_def exactKeys_def percent_ok_def
      traverse_encode_gpu)

lemma traverse_strings: "traverse as_string (map VStr ss) = Some ss"
  by (rule traverse_map) (simp add: list_all_iff)

lemma traverse_encode_runtime: "list_all runtime_ok rs \<Longrightarrow> traverse parseRuntime (map encode_runtime rs) = Some rs"
  by (rule traverse_map) (auto simp: list_all_iff parseRuntime_encode)

lemma metrics_length: "distinct ss \<Longrightarrow> set ss \<subseteq> set projectHostdPartialMetrics \<Longrightarrow> length ss \<le> 5"
proof -
  assume "distinct ss" "set ss \<subseteq> set projectHostdPartialMetrics"
  then have "length ss \<le> card (set projectHostdPartialMetrics)"
    by (metis card_mono distinct_card List.finite_set)
  also have "\<dots> \<le> 5" by (simp add: projectHostdPartialMetrics_def)
  finally show ?thesis .
qed

lemma uniqueStrings_encode:
  "distinct ss \<Longrightarrow> set ss \<subseteq> set projectHostdPartialMetrics \<Longrightarrow>
     uniqueStrings (VArr (map VStr ss)) projectHostdPartialMetrics 5 = Some ss"
  using metrics_length [of ss]
  by (auto simp: uniqueStrings_def traverse_strings list_all_iff require_def)

lemma parseObservation_encode: "observation_ok o1 \<Longrightarrow> parseObservation (encode_observation o1) = Some o1"
  by (cases o1; cases "ho_hostId o1")
    (auto simp: parseObservation_def encode_observation_def observation_ok_def exactKeys_def num_int_def
      require_def validTime_def uniqueStrings_encode traverse_encode_runtime parseResources_encode distinct_runtime_keys
      is_safe_integer_def safe_nat_def max_safe_integer_def)

section \<open>Properties\<close>

text \<open>C39: Whatever value a device sends, what \<open>parseObservation\<close> accepts is a valid observation:
  identifiers and versions match their patterns, counts are safe non-negative integers within their totals,
  percentages lie between 0 and 100, partial metrics are known, different and only there when the daemon is
  degraded, and no runtime is reported twice.\<close>

theorem parsed_observation_valid:
  "pred_option observation_ok (parseObservation v)"
  by (cases "parseObservation v") (simp_all add: parseObservation_ok)

text \<open>Encoding an observation and parsing it again gives exactly that observation, for the valid
  observations and for no others.\<close>

theorem observation_roundtrip:
  "parseObservation (encode_observation o1) = Some o1 \<longleftrightarrow> observation_ok o1"
  using parseObservation_encode parseObservation_ok by blast

end
