(* ===== verification/HostdStore.thy ===== *)
theory HostdStore
  imports Contracts HostdTypes
begin

text \<open>
  The in-memory store of project host daemons (\<open>server/project-hostd/memory-store.ts\<close>): the credentials
  of devices, the current credential of each device, and per device the stored observations with the
  snapshot of the last one.

  The clock, the new credential id and the random token are arguments of the calls that draw them. \<open>hash\<close> is
  the SHA-256 of a token and \<open>fp\<close> the SHA-256 of an observation's JSON text (\<open>node:crypto\<close>). A token
  of 43 base64url characters decodes to 32 bytes, so the length check of the source adds nothing to its
  pattern. A credential object is shared between \<open>credentials\<close> and \<open>operations\<close>; only its revocation is
  changed, which is read through \<open>credentials\<close> alone.
\<close>

section \<open>State\<close>

datatype hostd_error =
    HostdAuthenticationFailed
  | HostdCredentialExpired
  | HostdInvalidMessage
  | HostdOperationInProgress
  | HostdReplayConflict "int option"
  | HostdSequenceConflict int
  | HostdTargetConflict
  | HostdTokenInvalid
  | HostdRangeError

record hostd_scope =
  hs_credentialId :: string
  hs_deviceId :: string
  hs_environmentId :: string
  hs_expiresAt :: string
  hs_hostId :: "string option"
  hs_ownerUserId :: string

record hostd_credential = hostd_scope +
  hc_operationId :: string
  hc_revokedAt :: "string option"
  hc_tokenHash :: string

record hostd_public_credential =
  pub_credentialId :: string
  pub_deviceId :: string
  pub_environmentId :: string
  pub_expiresAt :: string
  pub_hostId :: "string option"
  pub_token :: string

record stored_observation =
  so_fingerprint :: string
  so_receivedAt :: string
  so_sequence :: int

datatype hostd_connection = HostdOnline | HostdStale

record hostd_snapshot =
  hn_connectionState :: hostd_connection
  hn_credentialId :: string
  hn_deviceId :: string
  hn_environmentId :: string
  hn_health :: hostd_health
  hn_hostId :: "string option"
  hn_hostdVersion :: string
  hn_lastSeenAt :: string
  hn_observedAt :: string
  hn_partialMetrics :: "string list"
  hn_resources :: hostd_resources
  hn_runtimes :: "hostd_runtime list"
  hn_sequence :: int
  hn_uptimeSeconds :: int

record device_record =
  dv_credentialId :: string
  dv_observations :: "(string, stored_observation) jsmap"
  dv_snapshot :: hostd_snapshot

record hostd_store =
  st_credentials :: "(string, hostd_credential) jsmap"
  st_currentCredentials :: "(string, string) jsmap"
  st_operations :: "(string, hostd_credential) jsmap"
  st_records :: "(string, device_record) jsmap"

definition empty_hostd :: hostd_store where
  "empty_hostd = \<lparr>st_credentials = [], st_currentCredentials = [], st_operations = [], st_records = []\<rparr>"

record hostd_draw =
  hdr_now :: int
  hdr_credentialId :: string
  hdr_token :: string

section \<open>Helpers\<close>

definition deviceKey :: "string \<Rightarrow> string \<Rightarrow> string" where
  "deviceKey owner device = nul_key owner device"

definition present :: "string option \<Rightarrow> string option" where
  "present s = (if truthy s then s else None)"

definition hostd_publicCredential :: "hostd_credential \<Rightarrow> string \<Rightarrow> hostd_public_credential" where
  "hostd_publicCredential c token =
     \<lparr>pub_credentialId = hs_credentialId c, pub_deviceId = hs_deviceId c,
      pub_environmentId = hs_environmentId c, pub_expiresAt = hs_expiresAt c,
      pub_hostId = present (hs_hostId c), pub_token = token\<rparr>"

definition hostd_safeScope :: "hostd_credential \<Rightarrow> hostd_scope" where
  "hostd_safeScope c =
     \<lparr>hs_credentialId = hs_credentialId c, hs_deviceId = hs_deviceId c,
      hs_environmentId = hs_environmentId c, hs_expiresAt = hs_expiresAt c,
      hs_hostId = present (hs_hostId c), hs_ownerUserId = hs_ownerUserId c\<rparr>"

definition hostd_sameIssue :: "hostd_credential \<Rightarrow> string \<Rightarrow> hostd_request \<Rightarrow> bool" where
  "hostd_sameIssue c owner i \<longleftrightarrow> hs_ownerUserId c = owner \<and> hs_deviceId c = hq_deviceId i \<and>
     hs_environmentId c = hq_environmentId i \<and> hs_hostId c = hq_hostId i"

definition snapshotFrom :: "hostd_scope \<Rightarrow> hostd_observation \<Rightarrow> string \<Rightarrow> hostd_snapshot" where
  "snapshotFrom scope o1 receivedAt =
     \<lparr>hn_connectionState = HostdOnline, hn_credentialId = hs_credentialId scope,
      hn_deviceId = ho_deviceId o1, hn_environmentId = ho_environmentId o1, hn_health = ho_health o1,
      hn_hostId = present (ho_hostId o1), hn_hostdVersion = ho_hostdVersion o1,
      hn_lastSeenAt = receivedAt, hn_observedAt = ho_observedAt o1,
      hn_partialMetrics = ho_partialMetrics o1, hn_resources = ho_resources o1,
      hn_runtimes = ho_runtimes o1, hn_sequence = ho_sequence o1,
      hn_uptimeSeconds = ho_uptimeSeconds o1\<rparr>"

definition hostd_token_pattern :: "string \<Rightarrow> bool" where
  "hostd_token_pattern = class_rep (\<lambda>c. is_alnum c \<or> c \<in> set ''_-'') 43 43"

definition same_device :: "string \<Rightarrow> string \<Rightarrow> hostd_credential \<Rightarrow> bool" where
  "same_device owner device c \<longleftrightarrow> hs_ownerUserId c = owner \<and> hs_deviceId c = device"

definition target_differs :: "hostd_request \<Rightarrow> hostd_credential \<Rightarrow> bool" where
  "target_differs i c \<longleftrightarrow> hs_environmentId c \<noteq> hq_environmentId i \<or> hs_hostId c \<noteq> hq_hostId i"

section \<open>Credentials\<close>

text \<open>The credential a new one replaces, with its key.\<close>

definition replaced_credential :: "string \<Rightarrow> hostd_store \<Rightarrow> (string \<times> hostd_credential) option" where
  "replaced_credential key s =
     (let replaced = js_get (st_currentCredentials s) key
      in if truthy replaced
         then find (\<lambda>(_, c). Some (hs_credentialId c) = replaced) (st_credentials s)
         else None)"

definition hostd_issue ::
    "(string \<Rightarrow> string) \<Rightarrow> hostd_draw \<Rightarrow> string \<Rightarrow> hostd_request \<Rightarrow> hostd_store \<Rightarrow>
     (hostd_error + hostd_public_credential) \<times> hostd_store" where
  "hostd_issue hash draw owner i s =
     (let operationKey = nul_key owner (hq_operationId i);
          key = deviceKey owner (hq_deviceId i)
      in case js_get (st_operations s) operationKey of
        Some c \<Rightarrow>
          (Inl (if hostd_sameIssue c owner i then HostdOperationInProgress else HostdReplayConflict None), s)
      | None \<Rightarrow>
          if \<not> hostd_token_pattern (hdr_token draw) then (Inl HostdTokenInvalid, s)
          else (case validateCredentialIssue owner i of
              None \<Rightarrow> (Inl HostdInvalidMessage, s)
            | Some seconds \<Rightarrow>
                let expires = hdr_now draw + seconds * 1000
                in if max_time < abs expires then (Inl HostdRangeError, s)
                else if (case find (same_device owner (hq_deviceId i)) (js_values (st_credentials s)) of
                    None \<Rightarrow> False | Some c \<Rightarrow> target_differs i c)
                then (Inl HostdTargetConflict, s)
                else if (case replaced_credential key s of
                    None \<Rightarrow> False | Some (_, c) \<Rightarrow> target_differs i c)
                then (Inl HostdTargetConflict, s)
                else
                  let cs = (case replaced_credential key s of
                        None \<Rightarrow> st_credentials s
                      | Some (k, c) \<Rightarrow> js_set (st_credentials s) k
                          (c\<lparr>hc_revokedAt := Some (to_iso (hdr_now draw))\<rparr>));
                      c = \<lparr>hs_credentialId = hdr_credentialId draw, hs_deviceId = hq_deviceId i,
                           hs_environmentId = hq_environmentId i, hs_expiresAt = to_iso expires,
                           hs_hostId = present (hq_hostId i), hs_ownerUserId = owner,
                           hc_operationId = hq_operationId i, hc_revokedAt = None,
                           hc_tokenHash = hash (hdr_token draw)\<rparr>
                  in (Inr (hostd_publicCredential c (hdr_token draw)),
                      s\<lparr>st_credentials := js_set cs (hc_tokenHash c) c,
                        st_currentCredentials := js_set (st_currentCredentials s) key (hdr_credentialId draw),
                        st_operations := js_set (st_operations s) operationKey c\<rparr>)))"

definition hostd_authenticate ::
    "(string \<Rightarrow> string) \<Rightarrow> int \<Rightarrow> string \<Rightarrow> hostd_store \<Rightarrow> hostd_scope option" where
  "hostd_authenticate hash now token s =
     (if \<not> hostd_token_pattern token then None
      else (case js_get (st_credentials s) (hash token) of
          None \<Rightarrow> None
        | Some c \<Rightarrow>
            if truthy (hc_revokedAt c) \<or> js_le (date_parse (hs_expiresAt c)) (Some now) \<or>
               js_get (st_currentCredentials s) (deviceKey (hs_ownerUserId c) (hs_deviceId c)) \<noteq>
                 Some (hs_credentialId c)
            then None else Some (hostd_safeScope c)))"

definition hostd_requireCurrent :: "int \<Rightarrow> hostd_scope \<Rightarrow> hostd_store \<Rightarrow> hostd_error option" where
  "hostd_requireCurrent now scope s =
     (if js_le (date_parse (hs_expiresAt scope)) (Some now) then Some HostdCredentialExpired
      else if js_get (st_currentCredentials s) (deviceKey (hs_ownerUserId scope) (hs_deviceId scope)) \<noteq>
        Some (hs_credentialId scope)
      then Some HostdAuthenticationFailed
      else (case find (\<lambda>c. same_device (hs_ownerUserId scope) (hs_deviceId scope) c \<and>
            hs_credentialId c = hs_credentialId scope) (js_values (st_credentials s)) of
          None \<Rightarrow> Some HostdAuthenticationFailed
        | Some c \<Rightarrow>
            if truthy (hc_revokedAt c) \<or> hs_environmentId c \<noteq> hs_environmentId scope \<or>
               hs_hostId c \<noteq> hs_hostId scope \<or> hs_expiresAt c \<noteq> hs_expiresAt scope
            then Some HostdAuthenticationFailed else None))"

definition hostd_revoke :: "int \<Rightarrow> string \<Rightarrow> string \<Rightarrow> string \<Rightarrow> hostd_store \<Rightarrow> hostd_store" where
  "hostd_revoke now owner device credentialId s =
     (let found = find (\<lambda>(_, c). same_device owner device c \<and> hs_credentialId c = credentialId)
            (st_credentials s);
          key = deviceKey owner device
      in s\<lparr>st_credentials := (case found of
               None \<Rightarrow> st_credentials s
             | Some (k, c) \<Rightarrow> js_set (st_credentials s) k (c\<lparr>hc_revokedAt := Some (to_iso now)\<rparr>)),
           st_currentCredentials := (if js_get (st_currentCredentials s) key = Some credentialId
             then js_delete (st_currentCredentials s) key else st_currentCredentials s)\<rparr>)"

section \<open>Observations\<close>

definition stored_prior :: "hostd_observation \<Rightarrow> device_record \<Rightarrow> stored_observation option" where
  "stored_prior o1 r =
     (case js_get (dv_observations r) (ho_observationId o1) of
        Some p \<Rightarrow> Some p
      | None \<Rightarrow> find (\<lambda>p. so_sequence p = ho_sequence o1) (js_values (dv_observations r)))"

definition last_sequence :: "device_record option \<Rightarrow> int" where
  "last_sequence r = (case r of None \<Rightarrow> 0 | Some r \<Rightarrow> hn_sequence (dv_snapshot r))"

definition hostd_append ::
    "(hostd_observation \<Rightarrow> string) \<Rightarrow> int \<Rightarrow> hostd_scope \<Rightarrow> hostd_observation \<Rightarrow> string \<Rightarrow> hostd_store \<Rightarrow>
     (hostd_error + bool \<times> hostd_snapshot) \<times> hostd_store" where
  "hostd_append fp now scope o1 receivedAt s =
     (case hostd_requireCurrent now scope s of
        Some e \<Rightarrow> (Inl e, s)
      | None \<Rightarrow>
          let key = deviceKey (hs_ownerUserId scope) (hs_deviceId scope);
              existing = js_get (st_records s) key;
              snapshot = snapshotFrom scope o1 receivedAt;
              entry = \<lparr>so_fingerprint = fp o1, so_receivedAt = receivedAt, so_sequence = ho_sequence o1\<rparr>
          in (case (existing, Option.bind existing (stored_prior o1)) of
                (Some r, Some p) \<Rightarrow>
                  if so_fingerprint p \<noteq> fp o1 \<or> so_sequence p \<noteq> ho_sequence o1
                  then (Inl (HostdReplayConflict (Some (last_sequence existing + 1))), s)
                  else (Inr (True, dv_snapshot r), s)
              | _ \<Rightarrow>
                  if ho_sequence o1 \<noteq> last_sequence existing + 1
                  then (Inl (HostdSequenceConflict (last_sequence existing + 1)), s)
                  else
                    let r = (case existing of
                          Some r \<Rightarrow> r\<lparr>dv_credentialId := hs_credentialId scope\<rparr>
                        | None \<Rightarrow> \<lparr>dv_credentialId = hs_credentialId scope, dv_observations = [],
                                   dv_snapshot = snapshot\<rparr>);
                        r' = r\<lparr>dv_observations := js_set (dv_observations r) (ho_observationId o1) entry,
                               dv_snapshot := snapshot\<rparr>
                    in (Inr (False, snapshot), s\<lparr>st_records := js_set (st_records s) key r'\<rparr>)))"

definition hostd_replay ::
    "(hostd_observation \<Rightarrow> string) \<Rightarrow> int \<Rightarrow> hostd_scope \<Rightarrow> hostd_observation \<Rightarrow> hostd_store \<Rightarrow>
     hostd_error + hostd_snapshot option" where
  "hostd_replay fp now scope o1 s =
     (case hostd_requireCurrent now scope s of
        Some e \<Rightarrow> Inl e
      | None \<Rightarrow>
          let existing = js_get (st_records s) (deviceKey (hs_ownerUserId scope) (hs_deviceId scope))
          in (case (existing, Option.bind existing (stored_prior o1)) of
                (Some r, Some p) \<Rightarrow>
                  if so_fingerprint p \<noteq> fp o1 \<or> so_sequence p \<noteq> ho_sequence o1
                  then Inl (HostdReplayConflict (Some (last_sequence existing + 1)))
                  else Inr (Some (dv_snapshot r))
              | _ \<Rightarrow> Inr None))"

definition hostd_list :: "string \<Rightarrow> hostd_store \<Rightarrow> hostd_snapshot list" where
  "hostd_list owner s =
     map (\<lambda>(_, r). dv_snapshot r) (filter (\<lambda>(k, _). prefix (owner @ [NUL]) k) (st_records s))"

definition goes_stale_hostd :: "string \<Rightarrow> device_record \<Rightarrow> bool" where
  "goes_stale_hostd staleBefore r \<longleftrightarrow> hn_connectionState (dv_snapshot r) = HostdOnline \<and>
     js_lt (date_parse (hn_lastSeenAt (dv_snapshot r))) (date_parse staleBefore)"

definition stale_record :: "device_record \<Rightarrow> device_record" where
  "stale_record r = r\<lparr>dv_snapshot := (dv_snapshot r)\<lparr>hn_connectionState := HostdStale\<rparr>\<rparr>"

definition hostd_markStale :: "string \<Rightarrow> hostd_store \<Rightarrow> hostd_snapshot list \<times> hostd_store" where
  "hostd_markStale staleBefore s =
     (map (\<lambda>r. dv_snapshot (stale_record r)) (filter (goes_stale_hostd staleBefore) (js_values (st_records s))),
      s\<lparr>st_records := js_update_values
          (\<lambda>r. if goes_stale_hostd staleBefore r then stale_record r else r) (st_records s)\<rparr>)"

definition expired_observation :: "string \<Rightarrow> device_record \<Rightarrow> stored_observation \<Rightarrow> bool" where
  "expired_observation retainAfter r p \<longleftrightarrow> so_sequence p < hn_sequence (dv_snapshot r) \<and>
     js_lt (date_parse (so_receivedAt p)) (date_parse retainAfter)"

definition prune_record :: "string \<Rightarrow> device_record \<Rightarrow> device_record" where
  "prune_record retainAfter r =
     r\<lparr>dv_observations := filter (\<lambda>(_, p). \<not> expired_observation retainAfter r p) (dv_observations r)\<rparr>"

definition hostd_pruneExpired :: "string \<Rightarrow> hostd_store \<Rightarrow> nat \<times> hostd_store" where
  "hostd_pruneExpired retainAfter s =
     (sum_list (map (\<lambda>r. length (filter (expired_observation retainAfter r) (js_values (dv_observations r))))
        (js_values (st_records s))),
      s\<lparr>st_records := js_update_values (prune_record retainAfter) (st_records s)\<rparr>)"

section \<open>Calls\<close>

datatype hostd_call =
    HostdIssue hostd_draw string hostd_request
  | HostdAppend int hostd_scope hostd_observation string
  | HostdMarkStale string
  | HostdPrune string
  | HostdRevoke int string string string

datatype hostd_answer =
    HostdIssued "hostd_error + hostd_public_credential"
  | HostdAppended "hostd_error + bool \<times> hostd_snapshot"
  | HostdStaled "hostd_snapshot list"
  | HostdPruned nat
  | HostdRevoked

fun hostd_step ::
    "(string \<Rightarrow> string) \<Rightarrow> (hostd_observation \<Rightarrow> string) \<Rightarrow> hostd_call \<Rightarrow> hostd_store \<Rightarrow>
     hostd_answer \<times> hostd_store" where
  "hostd_step hash fp (HostdIssue draw owner i) s = map_prod HostdIssued id (hostd_issue hash draw owner i s)"
| "hostd_step hash fp (HostdAppend now scope o1 received) s =
     map_prod HostdAppended id (hostd_append fp now scope o1 received s)"
| "hostd_step hash fp (HostdMarkStale before) s = map_prod HostdStaled id (hostd_markStale before s)"
| "hostd_step hash fp (HostdPrune retain) s = map_prod HostdPruned id (hostd_pruneExpired retain s)"
| "hostd_step hash fp (HostdRevoke now owner device credentialId) s =
     (HostdRevoked, hostd_revoke now owner device credentialId s)"

section \<open>Sequences\<close>

definition sequences :: "device_record \<Rightarrow> int list" where
  "sequences r = map so_sequence (js_values (dv_observations r))"

definition device_ok :: "device_record \<Rightarrow> bool" where
  "device_ok r \<longleftrightarrow> distinct (sequences r) \<and> list_all (\<lambda>n. 1 \<le> n \<and> n \<le> hn_sequence (dv_snapshot r)) (sequences r) \<and>
     hn_sequence (dv_snapshot r) \<in> set (sequences r)"

lemma no_prior:
  "stored_prior o1 r = None \<Longrightarrow>
     js_get (dv_observations r) (ho_observationId o1) = None \<and> ho_sequence o1 \<notin> set (sequences r)"
  by (auto simp: stored_prior_def sequences_def find_None_iff split: option.splits)

lemma append_device_ok:
  assumes "existing = None \<or> (\<exists>r. existing = Some r \<and> device_ok r \<and> stored_prior o1 r = None)"
    and "ho_sequence o1 = last_sequence existing + 1"
  shows "device_ok ((case existing of Some r \<Rightarrow> r\<lparr>dv_credentialId := cid\<rparr>
      | None \<Rightarrow> \<lparr>dv_credentialId = cid, dv_observations = [], dv_snapshot = snapshotFrom scope o1 received\<rparr>)
    \<lparr>dv_observations := js_set (dv_observations (case existing of Some r \<Rightarrow> r\<lparr>dv_credentialId := cid\<rparr>
        | None \<Rightarrow> \<lparr>dv_credentialId = cid, dv_observations = [], dv_snapshot = snapshotFrom scope o1 received\<rparr>))
        (ho_observationId o1) \<lparr>so_fingerprint = f, so_receivedAt = received, so_sequence = ho_sequence o1\<rparr>,
      dv_snapshot := snapshotFrom scope o1 received\<rparr>)"
proof (cases existing)
  case None
  with assms(2) show ?thesis
    by (simp add: device_ok_def sequences_def last_sequence_def snapshotFrom_def js_set_def js_values_def)
next
  case (Some r)
  with assms(1) have ok: "device_ok r" and new: "stored_prior o1 r = None" by auto
  from no_prior [OF new] have "js_set (dv_observations r) (ho_observationId o1) e =
      dv_observations r @ [(ho_observationId o1, e)]" for e
    by (simp add: js_set_new)
  with Some ok no_prior [OF new] assms(2) show ?thesis
    by (auto simp: device_ok_def sequences_def last_sequence_def snapshotFrom_def js_values_def list_all_iff)
qed

lemma sequences_prune:
  "sequences (prune_record received r) = map so_sequence (filter (\<lambda>p. \<not> expired_observation received r p) (js_values (dv_observations r)))"
  by (simp add: sequences_def prune_record_def js_values_def filter_map comp_def case_prod_unfold)

lemma prune_device_ok: "device_ok r \<Longrightarrow> device_ok (prune_record received r)"
  unfolding device_ok_def sequences_prune
  by (auto simp: sequences_def distinct_map inj_on_def list_all_iff expired_observation_def prune_record_def
      distinct_filter image_iff)

lemma stale_device_ok: "device_ok r \<Longrightarrow> device_ok (stale_record r)"
  by (simp add: device_ok_def sequences_def stale_record_def)

definition devices_ok :: "hostd_store \<Rightarrow> bool" where
  "devices_ok s \<longleftrightarrow> js_wf (st_records s) \<and> (\<forall>k r. js_get (st_records s) k = Some r \<longrightarrow> device_ok r)"

lemma append_devices_ok: "devices_ok s \<Longrightarrow> devices_ok (snd (hostd_append fp now scope o1 received s))"
proof -
  assume ok: "devices_ok s"
  let ?key = "deviceKey (hs_ownerUserId scope) (hs_deviceId scope)"
  let ?e = "js_get (st_records s) ?key"
  from ok have old: "?e = Some r \<Longrightarrow> device_ok r" for r by (simp add: devices_ok_def)
  note new = append_device_ok [where existing = ?e and ?o1.0 = o1 and cid = "hs_credentialId scope" and scope = scope
    and received = received and f = "fp o1"]
  show ?thesis
  proof (cases ?e)
    case None
    with ok new show ?thesis
      by (simp add: hostd_append_def Let_def devices_ok_def split: option.split)
  next
    case (Some r)
    with ok old new show ?thesis
      by (cases "stored_prior o1 r") (auto simp: hostd_append_def Let_def devices_ok_def split: option.split)
  qed
qed

interpretation hostd: invariant_store "hostd_step hash fp" devices_ok
proof (unfold_locales, goal_cases)
  case (1 s op)
  show ?case
  proof (cases op)
    case (HostdAppend now scope o1 received)
    with 1 show ?thesis by (simp add: append_devices_ok)
  next
    case (HostdIssue draw owner i)
    have "st_records (snd (hostd_issue hash draw owner i s)) = st_records s"
      by (simp add: hostd_issue_def Let_def split: option.split)
    with 1 HostdIssue show ?thesis by (simp add: devices_ok_def)
  qed (use 1 in \<open>auto simp: devices_ok_def hostd_markStale_def hostd_pruneExpired_def hostd_revoke_def Let_def
      stale_device_ok prune_device_ok js_wf_def js_update_values_def case_prod_unfold comp_def\<close>)
qed

text \<open>C40: Whatever is called, the stored observations of a device have different sequence numbers between
  one and that of its snapshot, and the observation the snapshot shows is stored: pruning never removes
  it, so its replay is recognised.\<close>

theorem hostd_sequences_ok:
  "list_all (\<lambda>r. distinct (map so_sequence (js_values (dv_observations r))) \<and>
      list_all (\<lambda>p. 1 \<le> so_sequence p \<and> so_sequence p \<le> hn_sequence (dv_snapshot r)) (js_values (dv_observations r)) \<and>
      hn_sequence (dv_snapshot r) \<in> set (map so_sequence (js_values (dv_observations r))))
    (js_values (st_records (run_state (hostd_step hash fp) ops empty_hostd)))"
proof -
  have "devices_ok (run_state (hostd_step hash fp) ops empty_hostd)"
    by (rule hostd.run_inv) (simp add: devices_ok_def empty_hostd_def)
  then show ?thesis
    by (auto simp: devices_ok_def device_ok_def sequences_def list_all_iff in_js_values)
qed

section \<open>Targets\<close>

text \<open>Where a credential of a device points: its environment and host.\<close>

definition device_target :: "hostd_credential \<Rightarrow> string \<times> string option" where
  "device_target c = (hs_environmentId c, hs_hostId c)"

definition all_targets ::
    "string \<Rightarrow> string \<Rightarrow> string \<times> string option \<Rightarrow> (string, hostd_credential) jsmap \<Rightarrow> bool" where
  "all_targets owner device t cs \<longleftrightarrow>
     (\<forall>c \<in> set (js_values cs). same_device owner device c \<longrightarrow> device_target c = t)"

definition fixed_targets :: "hostd_store \<Rightarrow> bool" where
  "fixed_targets s \<longleftrightarrow> (\<forall>owner device. \<exists>t. all_targets owner device t (st_credentials s))"

lemma js_values_set: "set (js_values (js_set m k v)) \<subseteq> insert v (set (js_values m))"
  unfolding js_values_def js_set_def by (induction m) auto

lemma all_targets_set:
  "all_targets owner device t cs \<Longrightarrow> (same_device owner device c \<Longrightarrow> device_target c = t) \<Longrightarrow>
     all_targets owner device t (js_set cs k c)"
  unfolding all_targets_def using js_values_set [of cs k c] by blast

lemma all_targets_revoke:
  assumes "all_targets owner device t cs" and "(k, c) \<in> set cs"
  shows "all_targets owner device t (js_set cs k (c\<lparr>hc_revokedAt := x\<rparr>))"
proof (rule all_targets_set [OF assms(1)])
  from assms(2) have "c \<in> set (js_values cs)" by (force simp: js_values_def)
  with assms(1) have "same_device owner device c \<Longrightarrow> device_target c = t"
    unfolding all_targets_def by blast
  then show "same_device owner device (c\<lparr>hc_revokedAt := x\<rparr>) \<Longrightarrow> device_target (c\<lparr>hc_revokedAt := x\<rparr>) = t"
    by (simp add: same_device_def device_target_def)
qed

lemma replaced_credential_in: "replaced_credential key s = Some (k, c) \<Longrightarrow> (k, c) \<in> set (st_credentials s)"
  by (auto simp: replaced_credential_def Let_def split: if_splits dest!: find_SomeD)

lemma valid_host_present: "validateCredentialIssue owner i = Some n \<Longrightarrow> present (hq_hostId i) = hq_hostId i"
proof -
  have "\<not> hostd_uuid []" by (simp add: hostd_uuid_def numeral_eq_Suc)
  then show "validateCredentialIssue owner i = Some n \<Longrightarrow> present (hq_hostId i) = hq_hostId i"
    by (cases "hq_hostId i") (auto simp: validateCredentialIssue_def present_def Let_def split: if_splits)
qed

lemma device_targets_after_check:
  assumes "all_targets owner device t (st_credentials s)"
    and "\<not> (case find (same_device owner device) (js_values (st_credentials s)) of
      None \<Rightarrow> False | Some c \<Rightarrow> device_target c \<noteq> t')"
  shows "all_targets owner device t' (st_credentials s)"
proof (cases "find (same_device owner device) (js_values (st_credentials s))")
  case None
  then show ?thesis by (simp add: all_targets_def find_None_iff)
next
  case (Some c)
  with assms(2) find_SomeD [OF Some] assms(1) have "t' = t"
    by (auto simp: all_targets_def)
  with assms(1) show ?thesis by simp
qed

lemma issue_fixed_targets:
  assumes "fixed_targets s"
  shows "fixed_targets (snd (hostd_issue hash draw owner i s))"
proof (cases "snd (hostd_issue hash draw owner i s) = s")
  case False
  define replaced where "replaced = replaced_credential (deviceKey owner (hq_deviceId i)) s"
  define cs where "cs = (case replaced of None \<Rightarrow> st_credentials s
    | Some (k, c) \<Rightarrow> js_set (st_credentials s) k (c\<lparr>hc_revokedAt := Some (to_iso (hdr_now draw))\<rparr>))"
  from False obtain n where valid: "validateCredentialIssue owner i = Some n"
    by (cases "validateCredentialIssue owner i") (auto simp: hostd_issue_def Let_def split: option.splits if_splits)
  have free: "\<not> (case find (same_device owner (hq_deviceId i)) (js_values (st_credentials s)) of
        None \<Rightarrow> False | Some c \<Rightarrow> target_differs i c)"
    using False by (rule contrapos_nn) (simp add: hostd_issue_def Let_def valid split: option.split)
  have free': "\<not> (case replaced of None \<Rightarrow> False | Some (_, c) \<Rightarrow> target_differs i c)"
    using False by (rule contrapos_nn) (simp add: hostd_issue_def Let_def valid replaced_def split: option.split)
  have new: "js_get (st_operations s) (nul_key owner (hq_operationId i)) = None"
    "hostd_token_pattern (hdr_token draw)" "\<not> max_time < abs (hdr_now draw + n * 1000)"
    using False valid by (auto simp: hostd_issue_def Let_def split: option.splits if_splits)
  define c where "c = \<lparr>hs_credentialId = hdr_credentialId draw, hs_deviceId = hq_deviceId i,
    hs_environmentId = hq_environmentId i, hs_expiresAt = to_iso (hdr_now draw + n * 1000),
    hs_hostId = present (hq_hostId i), hs_ownerUserId = owner,
    hc_operationId = hq_operationId i, hc_revokedAt = None, hc_tokenHash = hash (hdr_token draw)\<rparr>"
  have c: "st_credentials (snd (hostd_issue hash draw owner i s)) = js_set cs (hc_tokenHash c) c"
    using free free' new by (simp add: hostd_issue_def Let_def valid cs_def c_def replaced_def)
  have fields: "hs_ownerUserId c = owner" "hs_deviceId c = hq_deviceId i"
      "device_target c = (hq_environmentId i, present (hq_hostId i))"
    by (simp_all add: c_def device_target_def)
  have keep: "all_targets o2 d2 t cs" if "all_targets o2 d2 t (st_credentials s)" for o2 d2 t
    using that by (auto simp: cs_def replaced_def split: option.split
        intro: all_targets_revoke replaced_credential_in)
  show ?thesis
    unfolding fixed_targets_def
  proof (intro allI)
    fix o2 d2
    from assms obtain t where t: "all_targets o2 d2 t (st_credentials s)"
      unfolding fixed_targets_def by blast
    show "\<exists>t. all_targets o2 d2 t (st_credentials (snd (hostd_issue hash draw owner i s)))"
    proof (cases "same_device o2 d2 c")
      case True
      with fields have same: "o2 = owner" "d2 = hq_deviceId i" by (simp_all add: same_device_def)
      have differs: "target_differs i x \<longleftrightarrow> device_target x \<noteq> device_target c" for x
        by (simp add: target_differs_def fields(3) valid_host_present [OF valid]) (simp add: device_target_def)
      have "all_targets o2 d2 (device_target c) (st_credentials s)"
        using device_targets_after_check [OF t] free unfolding same differs by blast
      from all_targets_set [OF keep [OF this], of c "hc_tokenHash c"] c show ?thesis by metis
    next
      case False
      from all_targets_set [OF keep [OF t], of c "hc_tokenHash c"] False c show ?thesis by metis
    qed
  qed
qed (use assms in simp)

lemma revoke_fixed_targets: "fixed_targets s \<Longrightarrow> fixed_targets (hostd_revoke now owner device cid s)"
  unfolding fixed_targets_def hostd_revoke_def Let_def
  by (auto split: option.split dest!: find_SomeD) (metis all_targets_revoke)+

interpretation hostd_targets: invariant_store "hostd_step hash fp" fixed_targets
proof (unfold_locales, goal_cases)
  case (1 s op)
  show ?case
  proof (cases op)
    case (HostdAppend now scope o1 received)
    have "st_credentials (snd (hostd_append fp now scope o1 received s)) = st_credentials s"
      by (simp add: hostd_append_def Let_def split: option.split)
    with 1 HostdAppend show ?thesis by (simp add: fixed_targets_def)
  qed (use 1 in \<open>simp_all add: issue_fixed_targets revoke_fixed_targets,
      simp_all add: fixed_targets_def hostd_markStale_def hostd_pruneExpired_def\<close>)
qed

text \<open>A device of an owner belongs to one environment and host for good: whatever is called, the
  credentials of a device all name the same target.\<close>

theorem hostd_target_fixed:
  "length (remdups (map (\<lambda>c. (hs_environmentId c, hs_hostId c))
     (filter (same_device owner device)
       (js_values (st_credentials (run_state (hostd_step hash fp) ops empty_hostd)))))) \<le> 1"
proof -
  have "fixed_targets (run_state (hostd_step hash fp) ops empty_hostd)"
    by (rule hostd_targets.run_inv) (simp add: fixed_targets_def all_targets_def empty_hostd_def js_values_def)
  then obtain t where "all_targets owner device t (st_credentials (run_state (hostd_step hash fp) ops empty_hostd))"
    unfolding fixed_targets_def by blast
  then have "set (map (\<lambda>c. (hs_environmentId c, hs_hostId c)) (filter (same_device owner device)
      (js_values (st_credentials (run_state (hostd_step hash fp) ops empty_hostd))))) \<subseteq> {t}"
    by (auto simp: all_targets_def device_target_def)
  then show ?thesis
    unfolding length_remdups_card_conv by (drule_tac card_mono [rotated]) simp_all
qed

end
