(* ===== verification/Spec2Isabelle.thy ===== *)
theory Spec2Isabelle
  imports CanonicalProperties DispatcherProperties ControlServiceRun ComputeProperties TaskProperties TaskCapacity RuntimeProperties RuntimeWireProperties RoadmapOrder RoadmapStore
    HostProperties SshServiceRun MachineConnection HostdWire HostdStore
begin

text \<open>
  Verification of the control plane of the Project Space server.

  \<^bold>\<open>The program.\<close> Project Space runs development Workspaces on the machines of an account. The
  machines' connectors report what they are, and the server derives a compute inventory of platforms, hosts and
  environments from them. Each Workspace has one Runtime process, which holds a session with the server;
  people, agents and orchestrators have it run Git, task and dev-server operations through the canonical Runtime
  control. Beside it, an SSH gateway reaches environments without a Runtime, host daemons report telemetry, host
  operations go to consoles, task executions record what the agents do, and the roadmap plans the issues.
  Every operation that reaches a machine is reserved in a store first, so that it is dispatched at most once
  and a repetition is answered from the record.

  Paths below are those of the repository; \<open>server/\<close> and \<open>src/shared/\<close> are its directories of
  the same names.

  \<^bold>\<open>Language.\<close> \<open>JS_Prelude\<close> has maps in insertion order, sorting, string and number
  functions; \<open>JS_Value\<close> the values of an untyped message and their readers; \<open>JS_Json\<close>
  \<open>JSON.stringify\<close> and the sorted-key text the fingerprints hash, with its injectivity; \<open>JS_Date\<close>
  \<open>Date.parse\<close> and \<open>toISOString\<close>. \<open>Contracts\<close> holds the locales that the stores interpret: invariants
  over every run of calls, durable results, rights granted once, versioned updates, simulation of a
  specification.

  \<^bold>\<open>Canonical Runtime control.\<close>
  \<^item> \<open>CanonicalTypes\<close>, \<open>ControlMessages\<close>: the data of \<open>src/shared/canonical-runtime-control-api.ts\<close>,
    \<open>workspace-runtime-control-api.ts\<close> and \<open>server/canonical-runtime-control/contracts.ts\<close>.
  \<^item> \<open>ControlRequest\<close>: \<open>validate\<close> and the fingerprint of \<open>service.ts\<close>. A valid request passes and is
    read as itself, and nothing else passes.
  \<^item> \<open>ControlTarget\<close>: \<open>resolver.ts\<close>, \<open>mutation-authorizer.ts\<close> and the SSH gateway's
    \<open>target-resolver.ts\<close> over a compute inventory; where the two resolvers agree and where not.
  \<^item> \<open>CanonicalStore\<close>: every method of \<open>memory-operation-store.ts\<close>. Its state is a list of records and
    fences; \<open>CanonicalProperties\<close> proves one open mutation per Workspace, one dispatch per operation, final
    results and contiguous watermarks. \<open>CanonicalEffects\<close> is the same store as a caller sees it.
  \<^item> \<open>RuntimeTypes\<close>, \<open>RuntimeStore\<close>, \<open>RuntimeProperties\<close>: launch credentials, sessions and events of
    \<open>server/workspace-runtime-session/memory-store.ts\<close>. \<open>RuntimeWire\<close>, \<open>RuntimeControlWire\<close>,
    \<open>RuntimeWireProperties\<close>: the parsers of \<open>validation.ts\<close>. \<open>RuntimeService\<close>: \<open>service.ts\<close>, with
    a log of the connections.
  \<^item> \<open>CanonicalDispatcher\<close>: \<open>workspace-runtime-dispatcher.ts\<close> over the two. A dispatch is a task that
    runs from one \<open>await\<close> to the next; a run is any interleaving of such steps with replies, timers,
    registrations and disconnections. \<open>DispatcherInvariant\<close> is what each waiting task may rely on;
    \<open>DispatcherProperties\<close> the promises: commands on the wire belong to stored records of their session, an
    answer is final, and a dispatch whose session, timer and target answers arrive is answered.
  \<^item> \<open>ControlService\<close>: \<open>service.ts\<close> over the dispatcher, in the same way. The inventory and the task
    store's answers are arguments of the steps, so they may change between any two steps.
    \<open>ControlServiceProperties\<close>: every command was authorized for its exact target before it was sent, and
    an operation identifier belongs to one actor and request. \<open>ControlServiceRun\<close> is a complete run, from
    the registration of a Runtime to the command on its connection.

  \<^bold>\<open>Compute inventory.\<close> \<open>ComputeTypes\<close>, \<open>ComputeInventory\<close>, \<open>ComputeTree\<close>:
  \<open>src/shared/compute-environment-api.ts\<close>. \<open>ComputeConnectors\<close>: \<open>server/compute-inventory.ts\<close>.
  \<open>ComputeValid\<close> shows that the validation decides well-formedness, \<open>ComputeGroups\<close> that a valid inventory
  is grouped without loss, \<open>ComputeDerived\<close> and \<open>ComputeProperties\<close> what an inventory derived from any
  connectors satisfies. The recursion over the children of an environment has the number of environments plus
  one as fuel: in a valid inventory a path of parents has no repetition, and the theorems show that the fuel is
  never used up.

  \<^bold>\<open>SSH gateway.\<close>
  \<^item> \<open>SshRoutes\<close>: \<open>server/private-network/contracts.ts\<close> and \<open>route-resolver.ts\<close>, the private networks,
    the access routes and the selection of a route; a route is selected exactly when one eligible route has a
    priority above all others.
  \<^item> \<open>SshRequest\<close>: \<open>server/ssh-control-gateway/request-validation.ts\<close> and the bodies that \<open>http.ts\<close>
    reads; the HTTP routes produce exactly the accepted requests without a Runtime session.
  \<^item> \<open>SshGateway\<close>, \<open>SshProperties\<close>: \<open>memory-store.ts\<close> of the gateway, a target fenced exactly while an
    operation on it is open.
  \<^item> \<open>SshWire\<close>: the checks of credentials, handshakes and responses, the fingerprint and the audit evidence of
    \<open>service.ts\<close>, and \<open>worktree-authorizer.ts\<close>. \<open>SshService\<close>: \<open>execute\<close> and \<open>replaySucceeded\<close> as
    calls that run from one \<open>await\<close> to the next, interleaved freely; the answers of the authorizer, the
    inventory, the networks and the transport are arguments of the steps and may be anything. The commands that
    the transport executes are logged.
  \<^item> \<open>SshTrail\<close>: the way of one call, an inductive relation between its points. \<open>SshServiceProperties\<close>: a
    command is executed only after three rounds of authorization, target and route checks, in order, that agree.
    \<open>SshServiceOnce\<close>: an operation is executed at most once; unless \<open>reconcile\<close> is called from outside, at
    most one call at a time executes on an environment, and the outcome is recorded in the state that fits it.
    \<open>SshServiceRun\<close> is a complete run, from the request to a timeout.

  \<^bold>\<open>Other stores.\<close>
  \<^item> \<open>HostControl\<close>, \<open>HostProperties\<close>: \<open>server/host-control/memory-store.ts\<close>, one running dispatch
    per host.
  \<^item> \<open>TaskTypes\<close>, \<open>TaskStore\<close>, \<open>TaskInvariant\<close>, \<open>TaskProperties\<close>:
    \<open>server/task-execution/memory-execution-store.ts\<close>, optimistic versions and the life of an execution;
    \<open>TaskCapacity\<close>: the leases of \<open>capacity-store.ts\<close>.
  \<^item> \<open>MachineConnection\<close>: \<open>server/machine-connection-memory-store.ts\<close>.
  \<^item> \<open>HostdTypes\<close>, \<open>HostdWire\<close>, \<open>HostdStore\<close>: the host daemons' messages and
    \<open>server/project-hostd/memory-store.ts\<close>.
  \<^item> \<open>RoadmapModel\<close>, \<open>RoadmapCycles\<close>, \<open>RoadmapOrder\<close>: \<open>src/shared/roadmap-model.ts\<close>. The depth-first
    searches have the number of nodes as fuel, which the proofs show to be enough on every graph.
    \<open>RoadmapStore\<close>: the plan store of \<open>server/roadmap/roadmap-store.ts\<close> and its refinement of a
    specification.

  \<^bold>\<open>Correspondence.\<close> An interface is a record with its fields prefixed by the type, a union of string
  literals a datatype, an optional field an option. A method is a function from the state to an answer and a
  new state; a \<open>throw\<close> is a failure value, and the state it leaves is the one the code leaves. A method of an
  in-memory store has no \<open>await\<close> that lets another call in, so it is one step. Numbers are integers where the
  code admits only safe integers, with the bound written out where it is checked. Strings are lists of 8-bit
  characters; the code's patterns are over ASCII. Parameters: SHA-256 (where a theorem needs it, without a
  collision on the texts it names), the URL parser, \<open>JSON.parse\<close> on the answers of a transport, the
  collation of \<open>localeCompare\<close>, the text of a resource profile, clocks and random draws.

  \<^bold>\<open>Not modelled.\<close> The PostgreSQL stores and migrations (SQL; the services are written against the
  interface that the in-memory stores implement), the HTTP server, the OpenSSH
  transport and its credentials from the environment, processes and sockets, the services of host control, the host
  daemons and machine connections (their stores are modelled), the
  GitHub catalogue, the Codex sessions and machine tasks, the MCP server, the React and mobile applications, the
  release scripts, and the Go and Rust programs.
\<close>

end
